(* ===== verification/Op_Prelude.thy ===== *)
theory Op_Prelude
  imports Complex_Main "HOL-Library.AList" "HOL-Library.Sublist"
begin

text \<open>
  Shared vocabulary of the development.  A Python dict is an association list in insertion
  order: reading is \<^const>\<open>map_of\<close>, \<open>d[k] = v\<close> is \<^const>\<open>AList.update\<close> (it overwrites in place and
  appends a new key at the end, as a dict does), \<open>d.pop(k, None)\<close> is \<^const>\<open>AList.delete\<close>.
  A call that may raise returns a sum: \<^const>\<open>Inl\<close> the exception, \<^const>\<open>Inr\<close> the value.
  The theory also holds the collections of facts the component theories share and the
  generic list and dict lemmas they need.
\<close>

named_theorems op_inv "preservation of the invariants of the components"
named_theorems op_frame "fields that an operation leaves alone"

type_synonym ('k, 'v) dict = "('k \<times> 'v) list"
type_synonym ('e, 'a) outcome = "'e + 'a"

abbreviation dict_keys :: "('k, 'v) dict \<Rightarrow> 'k list" where
  "dict_keys d \<equiv> map fst d"

definition dict_get :: "'v \<Rightarrow> ('k, 'v) dict \<Rightarrow> 'k \<Rightarrow> 'v" where
  "dict_get dflt d k = (case map_of d k of None \<Rightarrow> dflt | Some v \<Rightarrow> v)"

definition obind :: "'e + 'a \<Rightarrow> ('a \<Rightarrow> 'e + 'b) \<Rightarrow> 'e + 'b" where
  "obind m f = (case m of Inl e \<Rightarrow> Inl e | Inr x \<Rightarrow> f x)"

definition is_ok :: "'e + 'a \<Rightarrow> bool" where
  "is_ok m = (case m of Inl _ \<Rightarrow> False | Inr _ \<Rightarrow> True)"

text \<open>
  A database transaction: the body maps the state to a new state and a result, and the handler
  \<open>except Exception: connection.rollback(); raise\<close> restores the state the transaction began with.
\<close>

definition transact :: "('s \<Rightarrow> 's \<times> ('e + 'a)) \<Rightarrow> 's \<Rightarrow> 's \<times> ('e + 'a)" where
  "transact body db = (case body db of (_, Inl e) \<Rightarrow> (db, Inl e) | (db', Inr x) \<Rightarrow> (db', Inr x))"

lemma transact_Inl: "transact body db = (db', Inl e) \<Longrightarrow> db' = db"
  by (auto simp: transact_def split: prod.splits sum.splits)

lemma transact_Inr: "transact body db = (db', Inr x) \<longleftrightarrow> body db = (db', Inr x)"
  by (auto simp: transact_def split: prod.splits sum.splits)

subsection \<open>Outcomes\<close>

lemma obind_simps [simp]: "obind (Inl e) f = Inl e" "obind (Inr x) f = f x"
  by (simp_all add: obind_def)

lemma obind_Inr_iff: "obind m f = Inr y \<longleftrightarrow> (\<exists>x. m = Inr x \<and> f x = Inr y)"
  by (cases m) simp_all

lemma obind_Inl_iff: "obind m f = Inl e \<longleftrightarrow> m = Inl e \<or> (\<exists>x. m = Inr x \<and> f x = Inl e)"
  by (cases m) simp_all

lemma is_ok_simps [simp]: "\<not> is_ok (Inl e)" "is_ok (Inr x)"
  by (simp_all add: is_ok_def)

subsection \<open>Dictionaries\<close>

lemma dict_get_Nil [simp]: "dict_get dflt [] k = dflt"
  by (simp add: dict_get_def)

lemma dict_get_update: "dict_get dflt (AList.update k v d) k' = (if k' = k then v else dict_get dflt d k')"
  by (simp add: dict_get_def update_conv')

lemma dict_get_delete: "dict_get dflt (AList.delete k d) k' = (if k' = k then dflt else dict_get dflt d k')"
  by (simp add: dict_get_def delete_conv')

lemma map_of_update_iff: "map_of (AList.update k v d) k' = (if k' = k then Some v else map_of d k')"
  by (simp add: update_conv')

lemma map_of_delete_iff: "map_of (AList.delete k d) k' = (if k' = k then None else map_of d k')"
  by (simp add: delete_conv')

lemma map_of_None_keys: "map_of d k = None \<longleftrightarrow> k \<notin> set (dict_keys d)"
  by (simp add: map_of_eq_None_iff)

lemma map_of_Some_keys: "map_of d k = Some v \<Longrightarrow> k \<in> set (dict_keys d)"
  by (metis map_of_None_keys option.distinct(1))

lemma distinct_keys_update: "distinct (dict_keys d) \<Longrightarrow> distinct (dict_keys (AList.update k v d))"
  by (rule distinct_update)

lemma distinct_keys_delete: "distinct (dict_keys d) \<Longrightarrow> distinct (dict_keys (AList.delete k d))"
  by (rule distinct_delete)

lemma keys_delete: "fst ` set (AList.delete k d) = fst ` set d - {k}"
  by (auto simp: AList.delete_eq)

lemma dict_get_absent: "k \<notin> fst ` set d \<Longrightarrow> dict_get dflt d k = dflt"
  by (metis dict_get_def map_of_eq_None_iff option.simps(4))

lemma set_update_new: "k \<notin> set (dict_keys d) \<Longrightarrow> AList.update k v d = d @ [(k, v)]"
  by (induction d) auto

lemma set_delete_subset: "set (AList.delete k d) \<subseteq> set d"
  by (auto simp: AList.delete_eq)

lemma delete_absent: "k \<notin> set (dict_keys d) \<Longrightarrow> AList.delete k d = d"
  by (induction d) (auto simp: AList.delete_eq)

lemma delete_Cons_hd: "AList.delete k ((k, v) # d) = AList.delete k d"
  by (simp add: AList.delete_eq)

lemma length_delete_distinct:
  "distinct (dict_keys d) \<Longrightarrow> k \<in> set (dict_keys d) \<Longrightarrow> Suc (length (AList.delete k d)) = length d"
proof (induction d)
  case (Cons p d)
  show ?case
  proof (cases "fst p = k")
    case True
    then show ?thesis
      using Cons.prems(1) by (cases p) (simp add: delete_absent)
  next
    case False
    then show ?thesis
      using Cons by (cases p) auto
  qed
qed simp

subsection \<open>Lists\<close>

lemma sorted_wrt_filter_list: "sorted_wrt P xs \<Longrightarrow> sorted_wrt P (filter Q xs)"
  by (induction xs) auto

lemma sum_list_update_lt:
  fixes f :: "'v \<Rightarrow> nat"
  assumes "map_of d k = Some v" "f v' < f v"
  shows "(\<Sum>p\<leftarrow>AList.update k v' d. f (snd p)) < (\<Sum>p\<leftarrow>d. f (snd p))"
  using assms by (induction d) auto

lemma sum_list_delete_le:
  fixes f :: "'v \<Rightarrow> nat"
  shows "(\<Sum>p\<leftarrow>AList.delete k d. f (snd p)) \<le> (\<Sum>p\<leftarrow>d. f (snd p))"
  by (induction d) (auto simp: AList.delete_eq)

lemma sum_list_delete_lt:
  fixes f :: "'v \<Rightarrow> nat"
  assumes "map_of d k = Some v" "0 < f v"
  shows "(\<Sum>p\<leftarrow>AList.delete k d. f (snd p)) < (\<Sum>p\<leftarrow>d. f (snd p))"
  using assms
proof (induction d)
  case (Cons p d)
  show ?case
    using Cons sum_list_delete_le [of f k d] by (cases p) (auto split: if_splits)
qed simp

end
