(* ===== verification/Py_Strings.thy ===== *)
theory Py_Strings
  imports Op_Prelude "HOL-Library.Char_ord" "HOL-Library.List_Lexorder"
begin

text \<open>
  The operations of Python's \<open>str\<close> that the modelled code calls, on lists of 8-bit characters
  (the code points below 256).  White space and line boundaries are those of \<open>str.isspace\<close> and
  \<open>str.splitlines\<close> restricted to that range.
\<close>

definition char_code :: "char \<Rightarrow> nat" where
  "char_code c = of_char c"

definition py_isspace :: "char \<Rightarrow> bool" where
  "py_isspace c = (char_code c \<in> {9, 10, 11, 12, 13, 28, 29, 30, 31, 32, 133, 160})"

definition py_lstrip :: "string \<Rightarrow> string" where
  "py_lstrip s = dropWhile py_isspace s"

definition py_rstrip :: "string \<Rightarrow> string" where
  "py_rstrip s = rev (dropWhile py_isspace (rev s))"

definition py_strip :: "string \<Rightarrow> string" where
  "py_strip s = py_rstrip (py_lstrip s)"

definition py_startswith :: "string \<Rightarrow> string \<Rightarrow> bool" where
  "py_startswith s p = prefix p s"

definition py_endswith :: "string \<Rightarrow> string \<Rightarrow> bool" where
  "py_endswith s p = suffix p s"

text \<open>\<open>sub in s\<close>.\<close>

fun py_contains :: "string \<Rightarrow> string \<Rightarrow> bool" where
  "py_contains sub [] = (sub = [])"
| "py_contains sub (c # s) = (prefix sub (c # s) \<or> py_contains sub s)"

text \<open>\<open>s.lower()\<close> below code point 256: \<open>A-Z\<close> and the accented capitals except the multiplication sign.\<close>

definition py_lower_char :: "char \<Rightarrow> char" where
  "py_lower_char c = (let n = char_code c in
     if (65 \<le> n \<and> n \<le> 90) \<or> (192 \<le> n \<and> n \<le> 222 \<and> n \<noteq> 215) then char_of (n + 32) else c)"

definition py_lower :: "string \<Rightarrow> string" where
  "py_lower s = map py_lower_char s"

text \<open>\<open>s.split(sep)\<close> for a separator of one character, and \<open>sep.join(parts)\<close>.\<close>

fun py_split :: "char \<Rightarrow> string \<Rightarrow> string list" where
  "py_split sep [] = [[]]"
| "py_split sep (c # s) =
     (if c = sep then [] # py_split sep s
      else case py_split sep s of [] \<Rightarrow> [[c]] | (w # ws) \<Rightarrow> (c # w) # ws)"

fun py_join :: "string \<Rightarrow> string list \<Rightarrow> string" where
  "py_join sep [] = []"
| "py_join sep [w] = w"
| "py_join sep (w # v # ws) = w @ sep @ py_join sep (v # ws)"

text \<open>Line boundaries of \<open>str.splitlines()\<close>; a carriage return swallows the newline after it.\<close>

definition line_break :: "char \<Rightarrow> bool" where
  "line_break c = (char_code c \<in> {10, 11, 12, 13, 28, 29, 30, 133})"

fun splitlines_acc :: "string \<Rightarrow> string \<Rightarrow> string list" where
  "splitlines_acc acc [] = (if acc = [] then [] else [rev acc])"
| "splitlines_acc acc (c # s) =
     (if line_break c
      then rev acc # (case s of
             [] \<Rightarrow> []
           | (d # s') \<Rightarrow> if char_code c = 13 \<and> char_code d = 10 then splitlines_acc [] s'
                         else splitlines_acc [] s)
      else splitlines_acc (c # acc) s)"

definition py_splitlines :: "string \<Rightarrow> string list" where
  "py_splitlines s = splitlines_acc [] s"

definition newline :: char where
  "newline = CHR 0x0A"

definition py_isdigit_ascii :: "char \<Rightarrow> bool" where
  "py_isdigit_ascii c = (48 \<le> char_code c \<and> char_code c \<le> 57)"

fun py_int_of :: "nat \<Rightarrow> string \<Rightarrow> nat" where
  "py_int_of acc [] = acc"
| "py_int_of acc (c # s) = py_int_of (10 * acc + (char_code c - 48)) s"

text \<open>\<open>str(i)\<close> of an integer.\<close>

function nat_str :: "nat \<Rightarrow> string" where
  "nat_str n = (if n < 10 then [char_of (48 + n)] else nat_str (n div 10) @ [char_of (48 + n mod 10)])"
  by auto
termination by (relation "measure id") auto

declare nat_str.simps [simp del]

definition py_str_int :: "int \<Rightarrow> string" where
  "py_str_int i = (if i < 0 then CHR ''-'' # nat_str (nat (- i)) else nat_str (nat i))"

definition carriage :: char where "carriage = CHR 0x0D"
definition tab :: char where "tab = CHR 0x09"
definition dquote :: char where "dquote = CHR 0x22"
definition squote :: char where "squote = CHR 0x27"
definition backslash :: char where "backslash = CHR 0x5C"

text \<open>\<open>repr(s)\<close>: single quotes unless the text has one and no double quote.\<close>

definition hex_char :: "nat \<Rightarrow> char" where
  "hex_char n = (if n < 10 then char_of (48 + n) else char_of (87 + n))"

definition repr_char :: "char \<Rightarrow> char \<Rightarrow> string" where
  "repr_char q c = (let n = char_code c in
     if c = q \<or> c = backslash then [backslash, c]
     else if c = tab then [backslash, CHR ''t'']
     else if c = newline then [backslash, CHR ''n'']
     else if c = carriage then [backslash, CHR ''r'']
     else if n < 32 \<or> (127 \<le> n \<and> n \<le> 160) \<or> n = 173
       then [backslash, CHR ''x'', hex_char (n div 16), hex_char (n mod 16)]
     else [c])"

definition py_repr :: "string \<Rightarrow> string" where
  "py_repr s = (let q = (if squote \<in> set s \<and> dquote \<notin> set s then dquote else squote)
     in [q] @ concat (map (repr_char q) s) @ [q])"

subsection \<open>Stripping\<close>

lemma py_rstrip_Nil [simp]: "py_rstrip [] = []"
  by (simp add: py_rstrip_def)

lemma py_lstrip_Nil [simp]: "py_lstrip [] = []"
  by (simp add: py_lstrip_def)

lemma py_strip_Nil [simp]: "py_strip [] = []"
  by (simp add: py_strip_def)

lemma py_strip_eq_Nil: "py_strip s = [] \<longleftrightarrow> (\<forall>c\<in>set s. py_isspace c)"
  by (auto simp: py_strip_def py_rstrip_def py_lstrip_def dropWhile_eq_Nil_conv)
    (metis dropWhile_eq_Nil_conv in_set_conv_decomp_last set_dropWhileD hd_dropWhile list.set_sel(1))+

end
