(* ===== verification/Process_Scheduler.thy ===== *)
theory Process_Scheduler
  imports Py_Strings
begin

text \<open>
  The fair, keyed scheduler of \<open>app/services/process_scheduler.py\<close>: concurrency keys, resource
  limits, queue policy, the scheduler state and the operations \<open>acquire\<close>, \<open>release\<close>,
  \<open>snapshot\<close> and \<open>ProcessLease.release\<close>.  Every method body runs under one condition variable,
  so a body is one atomic step; \<open>acquire\<close> is cut at its only blocking point, the
  \<open>Condition.wait\<close>.  The clock is an argument (a real), \<open>secrets.token_hex(8)\<close> is an infinite supply
  \<open>tok\<close> of tokens, and the fields \<open>granted\<close> and \<open>lease_id\<close> that the scheduler writes into a
  waiter object are the entry of the waiter's sequence number in \<open>sc_grants\<close>.
\<close>

subsection \<open>Keys, limits and policy\<close>

datatype sched_error =
    Sched_ValueError string
  | Queue_timeout_error string real

datatype access_mode = READ | WRITE

record concurrency_key =
  ck_scope :: string
  ck_resource :: string
  ck_mode :: access_mode

definition make_key :: "string \<Rightarrow> string \<Rightarrow> access_mode \<Rightarrow> sched_error + concurrency_key" where
  "make_key scope resource mode =
     (if py_strip scope = [] \<or> py_strip resource = []
      then Inl (Sched_ValueError ''concurrency key scope and resource must be non-empty'')
      else Inr \<lparr>ck_scope = scope, ck_resource = resource, ck_mode = mode\<rparr>)"

definition workspace_key :: "string \<Rightarrow> bool \<Rightarrow> sched_error + concurrency_key" where
  "workspace_key workspace_id write =
     make_key ''workspace'' workspace_id (if write then WRITE else READ)"

definition process_key :: "string \<Rightarrow> sched_error + concurrency_key" where
  "process_key process_id = make_key ''process'' process_id WRITE"

definition global_git_key :: "sched_error + concurrency_key" where
  "global_git_key = make_key ''global'' ''git'' WRITE"

definition conflicts_with :: "concurrency_key \<Rightarrow> concurrency_key \<Rightarrow> bool" where
  "conflicts_with k other =
     (if ck_scope k \<noteq> ck_scope other \<or> ck_resource k \<noteq> ck_resource other then False
      else ck_mode k = WRITE \<or> ck_mode other = WRITE)"

record resource_limits =
  cpu_time_seconds :: "int option"
  memory_bytes :: "int option"
  max_processes :: "int option"
  max_output_bytes :: "int option"
  max_disk_bytes :: "int option"

fun first_nonpositive :: "(string \<times> int option) list \<Rightarrow> string option" where
  "first_nonpositive [] = None"
| "first_nonpositive ((name, value) # rest) =
     (case value of
        Some v \<Rightarrow> if v \<le> 0 then Some name else first_nonpositive rest
      | None \<Rightarrow> first_nonpositive rest)"

definition check_limits :: "resource_limits \<Rightarrow> sched_error + resource_limits" where
  "check_limits r =
     (case first_nonpositive
        [(''cpu_time_seconds'', cpu_time_seconds r), (''memory_bytes'', memory_bytes r),
         (''max_processes'', max_processes r), (''max_output_bytes'', max_output_bytes r),
         (''max_disk_bytes'', max_disk_bytes r)] of
        Some name \<Rightarrow> Inl (Sched_ValueError (name @ '' must be positive when configured''))
      | None \<Rightarrow> Inr r)"

text \<open>\<open>output_usage\<close>: a path whose \<open>stat\<close> fails contributes nothing.\<close>

fun output_usage :: "('p \<Rightarrow> int option) \<Rightarrow> 'p list \<Rightarrow> int" where
  "output_usage stat_size [] = 0"
| "output_usage stat_size (p # paths) =
     (case stat_size p of None \<Rightarrow> 0 | Some n \<Rightarrow> n) + output_usage stat_size paths"

definition output_limit_exceeded :: "('p \<Rightarrow> int option) \<Rightarrow> resource_limits \<Rightarrow> 'p list \<Rightarrow> bool" where
  "output_limit_exceeded stat_size r paths =
     (case max_output_bytes r of None \<Rightarrow> False | Some m \<Rightarrow> output_usage stat_size paths > m)"

record queue_policy =
  global_limit :: int
  per_workspace_limit :: int
  queue_timeout_seconds :: real

definition check_policy :: "queue_policy \<Rightarrow> sched_error + queue_policy" where
  "check_policy p =
     (if global_limit p < 1 then Inl (Sched_ValueError ''global_limit must be at least 1'')
      else if per_workspace_limit p < 1
        then Inl (Sched_ValueError ''per_workspace_limit must be at least 1'')
      else if per_workspace_limit p > global_limit p
        then Inl (Sched_ValueError ''per_workspace_limit cannot exceed global_limit'')
      else if queue_timeout_seconds p < 0
        then Inl (Sched_ValueError ''queue_timeout_seconds must not be negative'')
      else Inr p)"

subsection \<open>Scheduler state\<close>

record waiter =
  wt_workspace :: string
  wt_key :: "concurrency_key option"
  wt_priority :: int
  wt_sequence :: nat

record sched =
  sc_policy :: queue_policy
  sc_queues :: "(string, waiter list) dict"
  sc_order :: "string list"
  sc_active :: "(string, string \<times> concurrency_key option) dict"
  sc_active_ws :: "(string, int) dict"
  sc_sequence :: nat
  sc_grants :: "(nat, string) dict"
  sc_tokens :: nat

definition new_sched :: "queue_policy \<Rightarrow> sched" where
  "new_sched p = \<lparr>sc_policy = p, sc_queues = [], sc_order = [], sc_active = [],
     sc_active_ws = [], sc_sequence = 0, sc_grants = [], sc_tokens = 0\<rparr>"

definition key_blocked :: "concurrency_key option \<Rightarrow> concurrency_key option \<Rightarrow> bool" where
  "key_blocked k active_key =
     (case (k, active_key) of (Some a, Some b) \<Rightarrow> conflicts_with a b | _ \<Rightarrow> False)"

definition eligible :: "sched \<Rightarrow> waiter \<Rightarrow> bool" where
  "eligible s w =
     (if dict_get 0 (sc_active_ws s) (wt_workspace w) \<ge> per_workspace_limit (sc_policy s) then False
      else \<not> list_ex (\<lambda>a. key_blocked (wt_key w) (snd (snd a))) (sc_active s))"

definition queue_of :: "sched \<Rightarrow> string \<Rightarrow> waiter list" where
  "queue_of s ws = dict_get [] (sc_queues s) ws"

subsection \<open>Choosing the next waiter\<close>

fun eligible_heads :: "sched \<Rightarrow> string list \<Rightarrow> (string \<times> waiter) list" where
  "eligible_heads s [] = []"
| "eligible_heads s (ws # order) =
     (case queue_of s ws of
        [] \<Rightarrow> eligible_heads s order
      | (w # _) \<Rightarrow> if eligible s w then (ws, w) # eligible_heads s order
                   else eligible_heads s order)"

definition highest_priority :: "(string \<times> waiter) list \<Rightarrow> int" where
  "highest_priority es = Max (set (map (\<lambda>e. wt_priority (snd e)) es))"

definition top_workspaces :: "(string \<times> waiter) list \<Rightarrow> string list" where
  "top_workspaces es = map fst (filter (\<lambda>e. wt_priority (snd e) = highest_priority es) es)"

text \<open>The rotation loop: at most \<open>len(order)\<close> times move the front to the back, stop at a member of \<open>tops\<close>.\<close>

fun rotate_until :: "nat \<Rightarrow> string list \<Rightarrow> string list \<Rightarrow> string list \<times> string option" where
  "rotate_until 0 tops order = (order, None)"
| "rotate_until (Suc n) tops [] = ([], None)"
| "rotate_until (Suc n) tops (ws # order) =
     (if ws \<in> set tops then (order @ [ws], Some ws) else rotate_until n tops (order @ [ws]))"

definition next_candidate :: "sched \<Rightarrow> sched \<times> (string \<times> waiter) option" where
  "next_candidate s =
     (let es = eligible_heads s (sc_order s) in
      if es = [] then (s, None)
      else case rotate_until (length (sc_order s)) (top_workspaces es) (sc_order s) of
             (order, None) \<Rightarrow> (s\<lparr>sc_order := order\<rparr>, None)
           | (order, Some ws) \<Rightarrow>
               (case queue_of s ws of
                  [] \<Rightarrow> (s\<lparr>sc_order := order\<rparr>, None)
                | (w # _) \<Rightarrow> (s\<lparr>sc_order := order\<rparr>, Some (ws, w))))"

subsection \<open>Granting\<close>

definition pop_head :: "string \<Rightarrow> sched \<Rightarrow> sched" where
  "pop_head ws s =
     (let rest = tl (queue_of s ws) in
      if rest = [] then s\<lparr>sc_queues := AList.delete ws (sc_queues s), sc_order := remove1 ws (sc_order s)\<rparr>
      else s\<lparr>sc_queues := AList.update ws rest (sc_queues s)\<rparr>)"

definition lease_name :: "(nat \<Rightarrow> string) \<Rightarrow> nat \<Rightarrow> string" where
  "lease_name tok n = ''lease-'' @ tok n"

definition activate :: "(nat \<Rightarrow> string) \<Rightarrow> string \<Rightarrow> waiter \<Rightarrow> sched \<Rightarrow> sched" where
  "activate tok ws w s =
     (let lease = lease_name tok (sc_tokens s) in
      s\<lparr>sc_tokens := Suc (sc_tokens s),
        sc_grants := AList.update (wt_sequence w) lease (sc_grants s),
        sc_active := AList.update lease (ws, wt_key w) (sc_active s),
        sc_active_ws := AList.update ws (dict_get 0 (sc_active_ws s) ws + 1) (sc_active_ws s)\<rparr>)"

definition queued :: "sched \<Rightarrow> nat" where
  "queued s = (\<Sum>p\<leftarrow>sc_queues s. length (snd p))"

lemma next_candidate_SomeD:
  assumes "next_candidate s = (s', Some (ws, w))"
  shows "\<exists>order rest. s' = s\<lparr>sc_order := order\<rparr> \<and> map_of (sc_queues s) ws = Some (w # rest)
    \<and> queue_of s ws = w # rest
    \<and> rotate_until (length (sc_order s)) (top_workspaces (eligible_heads s (sc_order s))) (sc_order s)
        = (order, Some ws)"
  using assms
  by (auto simp: next_candidate_def Let_def queue_of_def dict_get_def
      split: if_splits prod.splits option.splits list.splits)

lemma queued_pop_head_lt:
  assumes "map_of (sc_queues s) ws = Some (w # rest)"
  shows "queued (pop_head ws s) < queued s"
  using assms sum_list_update_lt [of "sc_queues s" ws "w # rest" length rest]
    sum_list_delete_lt [of "sc_queues s" ws "w # rest" length]
  by (auto simp: queued_def pop_head_def queue_of_def dict_get_def Let_def)

lemma queued_activate [simp]: "queued (activate tok ws w s) = queued s"
  by (simp add: queued_def activate_def Let_def)

lemma next_candidate_pop_lt:
  assumes "next_candidate s = (s', Some (ws, w))"
  shows "queued (pop_head ws s') < queued s"
proof -
  from next_candidate_SomeD [OF assms] obtain order rest
    where s': "s' = s\<lparr>sc_order := order\<rparr>" and "map_of (sc_queues s) ws = Some (w # rest)"
    by blast
  then have "map_of (sc_queues s') ws = Some (w # rest)" by simp
  from queued_pop_head_lt [OF this] show ?thesis by (simp add: s' queued_def)
qed

function grant_waiters :: "(nat \<Rightarrow> string) \<Rightarrow> sched \<Rightarrow> sched" where
  "grant_waiters tok s =
     (if int (length (sc_active s)) < global_limit (sc_policy s) then
        case next_candidate s of
          (s', None) \<Rightarrow> s'
        | (s', Some (ws, w)) \<Rightarrow> grant_waiters tok (activate tok ws w (pop_head ws s'))
      else s)"
  by pat_completeness auto
termination
  by (relation "measure (\<lambda>(tok, s). queued s)") (auto dest: next_candidate_pop_lt [OF sym])

declare grant_waiters.simps [simp del]

subsection \<open>The operations\<close>

definition remove_waiter :: "waiter \<Rightarrow> sched \<Rightarrow> sched" where
  "remove_waiter w s =
     (case map_of (sc_queues s) (wt_workspace w) of
        None \<Rightarrow> s
      | Some q \<Rightarrow>
          if w \<notin> set q then s
          else let q' = remove1 w q in
            if q' = [] then s\<lparr>sc_queues := AList.delete (wt_workspace w) (sc_queues s),
                              sc_order := remove1 (wt_workspace w) (sc_order s)\<rparr>
            else s\<lparr>sc_queues := AList.update (wt_workspace w) q' (sc_queues s)\<rparr>)"

definition enqueue :: "string \<Rightarrow> concurrency_key option \<Rightarrow> int \<Rightarrow> sched \<Rightarrow> sched \<times> waiter" where
  "enqueue ws key prio s =
     (let w = \<lparr>wt_workspace = ws, wt_key = key, wt_priority = prio, wt_sequence = Suc (sc_sequence s)\<rparr>;
          q = queue_of s ws
      in (s\<lparr>sc_sequence := Suc (sc_sequence s),
            sc_order := (if q = [] then sc_order s @ [ws] else sc_order s),
            sc_queues := AList.update ws (q @ [w]) (sc_queues s)\<rparr>, w))"

text \<open>What one run of \<open>acquire\<close> between two blocking points ends in.\<close>

datatype acquire_result = Acquired string | Timed_out sched_error | Waiting real

definition acquire_check ::
  "(nat \<Rightarrow> string) \<Rightarrow> real \<Rightarrow> real \<Rightarrow> real \<Rightarrow> waiter \<Rightarrow> sched \<Rightarrow> sched \<times> acquire_result" where
  "acquire_check tok now timeout deadline w s =
     (case map_of (sc_grants s) (wt_sequence w) of
        Some lease \<Rightarrow> (s, Acquired lease)
      | None \<Rightarrow>
          let remaining = deadline - now in
          if remaining \<le> 0
          then (grant_waiters tok (remove_waiter w s), Timed_out (Queue_timeout_error (wt_workspace w) timeout))
          else (s, Waiting remaining))"

record acquire_call =
  ac_waiter :: waiter
  ac_timeout :: real
  ac_deadline :: real

definition acquire_begin ::
  "(nat \<Rightarrow> string) \<Rightarrow> real \<Rightarrow> real \<Rightarrow> string \<Rightarrow> concurrency_key option \<Rightarrow> int \<Rightarrow> real option \<Rightarrow> sched
    \<Rightarrow> sched_error + (sched \<times> acquire_call \<times> acquire_result)" where
  "acquire_begin tok start now ws key prio timeout_seconds s =
     (if py_strip ws = [] then Inl (Sched_ValueError ''workspace_id must be non-empty'')
      else
        let timeout = (case timeout_seconds of None \<Rightarrow> queue_timeout_seconds (sc_policy s) | Some t \<Rightarrow> t) in
        if timeout < 0 then Inl (Sched_ValueError ''timeout_seconds must not be negative'')
        else
          let (s1, w) = enqueue ws key prio s;
              c = \<lparr>ac_waiter = w, ac_timeout = timeout, ac_deadline = start + timeout\<rparr>;
              (s2, r) = acquire_check tok now timeout (start + timeout) w (grant_waiters tok s1)
          in Inr (s2, c, r))"

definition acquire_resume ::
  "(nat \<Rightarrow> string) \<Rightarrow> real \<Rightarrow> acquire_call \<Rightarrow> sched \<Rightarrow> sched \<times> acquire_result" where
  "acquire_resume tok now c s =
     acquire_check tok now (ac_timeout c) (ac_deadline c) (ac_waiter c) (grant_waiters tok s)"

definition drop_active :: "string \<Rightarrow> string \<Rightarrow> sched \<Rightarrow> sched" where
  "drop_active lease ws s =
     (let current = dict_get 0 (sc_active_ws s) ws in
      s\<lparr>sc_active := AList.delete lease (sc_active s),
        sc_active_ws := (if current \<le> 1 then AList.delete ws (sc_active_ws s)
                         else AList.update ws (current - 1) (sc_active_ws s))\<rparr>)"

definition sched_release :: "(nat \<Rightarrow> string) \<Rightarrow> string \<Rightarrow> sched \<Rightarrow> sched" where
  "sched_release tok lease s =
     (case map_of (sc_active s) lease of
        None \<Rightarrow> s
      | Some (ws, _) \<Rightarrow> grant_waiters tok (drop_active lease ws s))"

record process_lease =
  pl_lease :: string
  pl_released :: bool

definition lease_release ::
  "(nat \<Rightarrow> string) \<Rightarrow> process_lease \<Rightarrow> sched \<Rightarrow> process_lease \<times> sched \<times> bool" where
  "lease_release tok l s =
     (if pl_released l then (l, s, False)
      else (l\<lparr>pl_released := True\<rparr>, sched_release tok (pl_lease l) s, True))"

record sched_snapshot =
  sn_active :: nat
  sn_queued :: nat
  sn_active_by_workspace :: "(string, int) dict"
  sn_queued_by_workspace :: "(string, nat) dict"

definition snapshot :: "sched \<Rightarrow> sched_snapshot" where
  "snapshot s =
     \<lparr>sn_active = length (sc_active s),
      sn_queued = queued s,
      sn_active_by_workspace = sc_active_ws s,
      sn_queued_by_workspace =
        map (\<lambda>(ws, q). (ws, length q)) (filter (\<lambda>(ws, q). q \<noteq> []) (sc_queues s))\<rparr>"

end
