(* ===== verification/Scheduler_Safety.thy ===== *)
theory Scheduler_Safety
  imports Process_Scheduler "HOL-Library.Multiset"
begin

text \<open>
  Correctness of the process scheduler: the choice of the next waiter, the invariant of the
  scheduler state, and the system of concurrent callers (one atomic step per critical
  section) with its reachable states.
\<close>

subsection \<open>The choice of the next waiter\<close>

lemma rotate_until_first:
  assumes "ws \<in> set tops" "\<forall>x\<in>set xs. x \<notin> set tops"
  shows "rotate_until (length xs + Suc k) tops (xs @ ws # ys) = (ys @ xs @ [ws], Some ws)"
  using assms by (induction xs arbitrary: ys) auto

lemma rotate_until_hit:
  assumes "\<exists>x\<in>set order. x \<in> set tops"
  obtains xs ws ys where "order = xs @ ws # ys" "ws \<in> set tops" "\<forall>x\<in>set xs. x \<notin> set tops"
    "rotate_until (length order) tops order = (ys @ xs @ [ws], Some ws)"
proof -
  from assms obtain xs ws ys where *: "order = xs @ ws # ys" "ws \<in> set tops" "\<forall>x\<in>set xs. x \<notin> set tops"
    using split_list_first_prop [of order "\<lambda>x. x \<in> set tops"] by auto
  with rotate_until_first [of ws tops xs "length ys" ys] show thesis
    by (intro that) auto
qed

lemma eligible_heads_iff:
  "(ws, w) \<in> set (eligible_heads s order) \<longleftrightarrow>
     ws \<in> set order \<and> (\<exists>rest. queue_of s ws = w # rest) \<and> eligible s w"
  by (induction s order rule: eligible_heads.induct) (auto split: list.splits)

lemma top_workspaces_iff:
  "ws \<in> set (top_workspaces es) \<longleftrightarrow>
     (\<exists>w. (ws, w) \<in> set es \<and> (\<forall>e\<in>set es. wt_priority (snd e) \<le> wt_priority w))"
proof -
  let ?P = "(\<lambda>e. wt_priority (snd e)) ` set es"
  have "wt_priority w = Max ?P \<longleftrightarrow> (\<forall>e\<in>set es. wt_priority (snd e) \<le> wt_priority w)"
    if "(ws, w) \<in> set es" for w
  proof -
    have "finite ?P" "wt_priority w \<in> ?P" using that by force+
    then have "wt_priority w = Max ?P \<longleftrightarrow> (\<forall>p\<in>?P. p \<le> wt_priority w)"
      by (metis Max_eqI Max_ge)
    then show ?thesis by simp
  qed
  then show ?thesis
    by (force simp: top_workspaces_def highest_priority_def)
qed

lemma top_workspaces_ex:
  assumes "es \<noteq> []"
  shows "\<exists>ws. ws \<in> set (top_workspaces es)"
proof -
  let ?P = "(\<lambda>e. wt_priority (snd e)) ` set es"
  have "Max ?P \<in> ?P" using assms by (intro Max_in) auto
  then obtain e where "e \<in> set es" "wt_priority (snd e) = Max ?P" by auto
  then have "fst e \<in> set (top_workspaces es)"
    by (auto simp: top_workspaces_def highest_priority_def)
  then show ?thesis by blast
qed

text \<open>The specification of \<open>_next_candidate\<close>: the first top-priority eligible workspace in order.\<close>

definition top_eligible :: "sched \<Rightarrow> string \<Rightarrow> waiter \<Rightarrow> bool" where
  "top_eligible s ws w \<longleftrightarrow>
     (ws, w) \<in> set (eligible_heads s (sc_order s)) \<and>
     (\<forall>e\<in>set (eligible_heads s (sc_order s)). wt_priority (snd e) \<le> wt_priority w)"

lemma top_workspaces_heads:
  "ws \<in> set (top_workspaces (eligible_heads s (sc_order s))) \<longleftrightarrow> (\<exists>w. top_eligible s ws w)"
  by (simp add: top_workspaces_iff top_eligible_def)

lemma next_candidate_cases:
  obtains (none) "next_candidate s = (s, None)" "eligible_heads s (sc_order s) = []"
  | (some) xs ws w rest ys where "sc_order s = xs @ ws # ys" "top_eligible s ws w"
      "\<forall>x\<in>set xs. \<forall>v. \<not> top_eligible s x v" "queue_of s ws = w # rest"
      "next_candidate s = (s\<lparr>sc_order := ys @ xs @ [ws]\<rparr>, Some (ws, w))"
proof (cases "eligible_heads s (sc_order s) = []")
  case True
  then show ?thesis by (intro none) (simp_all add: next_candidate_def)
next
  case False
  let ?tops = "top_workspaces (eligible_heads s (sc_order s))"
  from top_workspaces_ex [OF False] obtain v where v: "v \<in> set ?tops" by blast
  then obtain u where "(v, u) \<in> set (eligible_heads s (sc_order s))"
    by (auto simp: top_workspaces_iff)
  then have "v \<in> set (sc_order s)" by (simp add: eligible_heads_iff)
  with v have "\<exists>x\<in>set (sc_order s). x \<in> set ?tops" by blast
  from rotate_until_hit [OF this] obtain xs ws ys where o: "sc_order s = xs @ ws # ys"
    and ws: "ws \<in> set ?tops" and xs: "\<forall>x\<in>set xs. x \<notin> set ?tops"
    and rot: "rotate_until (length (sc_order s)) ?tops (sc_order s) = (ys @ xs @ [ws], Some ws)"
    by blast
  from ws obtain w where w: "top_eligible s ws w" by (auto simp: top_workspaces_heads)
  then obtain rest where q: "queue_of s ws = w # rest"
    by (auto simp: top_eligible_def eligible_heads_iff)
  show ?thesis
    by (rule some [OF o w _ q]) (use xs rot q False in \<open>auto simp: next_candidate_def Let_def top_workspaces_heads\<close>)
qed

lemma next_candidate_SomeE:
  assumes "next_candidate s = (s', Some (ws, w))"
  obtains xs rest ys where "sc_order s = xs @ ws # ys" "top_eligible s ws w" "queue_of s ws = w # rest"
    "s' = s\<lparr>sc_order := ys @ xs @ [ws]\<rparr>" "\<forall>x\<in>set xs. \<forall>v. \<not> top_eligible s x v"
proof (rule next_candidate_cases [of s])
  assume "next_candidate s = (s, None)"
  with assms show thesis by simp
next
  fix xs v u rest ys
  assume *: "sc_order s = xs @ v # ys" "top_eligible s v u" "queue_of s v = u # rest"
    "\<forall>x\<in>set xs. \<forall>v. \<not> top_eligible s x v"
    "next_candidate s = (s\<lparr>sc_order := ys @ xs @ [v]\<rparr>, Some (v, u))"
  with assms have eq: "v = ws" "u = w" "s' = s\<lparr>sc_order := ys @ xs @ [ws]\<rparr>" by auto
  show thesis by (rule that [OF *(1,2,3) [unfolded eq] eq(3) *(4)])
qed

lemma next_candidate_NoneD: "next_candidate s = (s', None) \<Longrightarrow> s' = s \<and> eligible_heads s (sc_order s) = []"
  by (rule next_candidate_cases [of s]) simp_all

lemma top_eligible_unique: "top_eligible s ws w \<Longrightarrow> top_eligible s ws v \<Longrightarrow> w = v"
  by (auto simp: top_eligible_def eligible_heads_iff)

lemma top_eligible_eligible: "top_eligible s ws w \<Longrightarrow> eligible s w"
  by (auto simp: top_eligible_def eligible_heads_iff)

subsection \<open>The invariant\<close>

definition all_waiters :: "sched \<Rightarrow> waiter set" where
  "all_waiters s = {w. \<exists>ws q. map_of (sc_queues s) ws = Some q \<and> w \<in> set q}"

lemma all_waitersE:
  assumes "v \<in> all_waiters s"
  obtains u q where "map_of (sc_queues s) u = Some q" "v \<in> set q"
  using assms by (auto simp: all_waiters_def)

lemma all_waitersI: "map_of (sc_queues s) u = Some q \<Longrightarrow> v \<in> set q \<Longrightarrow> v \<in> all_waiters s"
  by (auto simp: all_waiters_def)

definition active_in :: "sched \<Rightarrow> string \<Rightarrow> nat" where
  "active_in s ws = length (filter (\<lambda>a. fst (snd a) = ws) (sc_active s))"

definition compatible :: "(string \<times> string \<times> concurrency_key option) \<Rightarrow> (string \<times> string \<times> concurrency_key option) \<Rightarrow> bool" where
  "compatible a b = (\<not> key_blocked (snd (snd a)) (snd (snd b)))"

definition policy_ok :: "queue_policy \<Rightarrow> bool" where
  "policy_ok p = is_ok (check_policy p)"

definition queue_ok :: "string \<Rightarrow> waiter list \<Rightarrow> bool" where
  "queue_ok ws q = (q \<noteq> [] \<and> (\<forall>w\<in>set q. wt_workspace w = ws) \<and> sorted_wrt (\<lambda>v w. wt_sequence v < wt_sequence w) q)"

definition queues_inv :: "sched \<Rightarrow> bool" where
  "queues_inv s \<longleftrightarrow>
     distinct (dict_keys (sc_queues s)) \<and> distinct (sc_order s) \<and>
     set (sc_order s) = set (dict_keys (sc_queues s)) \<and>
     (\<forall>ws q. map_of (sc_queues s) ws = Some q \<longrightarrow> queue_ok ws q) \<and>
     (\<forall>w\<in>all_waiters s. wt_sequence w \<le> sc_sequence s \<and> map_of (sc_grants s) (wt_sequence w) = None) \<and>
     inj_on wt_sequence (all_waiters s)"

definition active_inv :: "(nat \<Rightarrow> string) \<Rightarrow> sched \<Rightarrow> bool" where
  "active_inv tok s \<longleftrightarrow>
     policy_ok (sc_policy s) \<and>
     distinct (dict_keys (sc_active s)) \<and>
     set (dict_keys (sc_active s)) \<subseteq> lease_name tok ` {..<sc_tokens s} \<and>
     int (length (sc_active s)) \<le> global_limit (sc_policy s) \<and>
     distinct (dict_keys (sc_active_ws s)) \<and>
     (\<forall>ws. dict_get 0 (sc_active_ws s) ws = int (active_in s ws)) \<and>
     (\<forall>ws. int (active_in s ws) \<le> per_workspace_limit (sc_policy s)) \<and>
     sorted_wrt compatible (sc_active s)"

definition grants_inv :: "(nat \<Rightarrow> string) \<Rightarrow> sched \<Rightarrow> bool" where
  "grants_inv tok s \<longleftrightarrow>
     (\<forall>n lease. map_of (sc_grants s) n = Some lease \<longrightarrow>
        n \<le> sc_sequence s \<and> lease \<in> lease_name tok ` {..<sc_tokens s}) \<and>
     (\<forall>n m lease. map_of (sc_grants s) n = Some lease \<longrightarrow> map_of (sc_grants s) m = Some lease \<longrightarrow> n = m)"

definition sched_inv :: "(nat \<Rightarrow> string) \<Rightarrow> sched \<Rightarrow> bool" where
  "sched_inv tok s \<longleftrightarrow> queues_inv s \<and> active_inv tok s \<and> grants_inv tok s"

lemma conflicts_with_sym: "conflicts_with a b = conflicts_with b a"
  by (auto simp: conflicts_with_def)

lemma key_blocked_sym: "key_blocked a b = key_blocked b a"
  by (auto simp: key_blocked_def conflicts_with_sym split: option.splits)

lemma policy_ok_iff:
  "policy_ok p \<longleftrightarrow> 1 \<le> per_workspace_limit p \<and> per_workspace_limit p \<le> global_limit p \<and> 0 \<le> queue_timeout_seconds p"
  by (auto simp: policy_ok_def check_policy_def)

lemma lease_name_inj: "inj tok \<Longrightarrow> lease_name tok i = lease_name tok j \<longleftrightarrow> i = j"
  by (auto simp: lease_name_def inj_eq)

lemma lease_fresh:
  "inj tok \<Longrightarrow> lease_name tok n \<notin> lease_name tok ` {..<n}"
  by (auto simp: lease_name_inj)

lemma new_sched_inv: "policy_ok p \<Longrightarrow> sched_inv tok (new_sched p)"
  by (auto simp: sched_inv_def queues_inv_def active_inv_def grants_inv_def new_sched_def all_waiters_def
      active_in_def policy_ok_iff)

subsection \<open>Queue edits\<close>

text \<open>Replacing the queue of one workspace by a sublist of it, the entry and its place in the order dropped when it gets empty.\<close>

definition edit_queue :: "string \<Rightarrow> waiter list \<Rightarrow> sched \<Rightarrow> sched" where
  "edit_queue ws q s =
     (if q = [] then s\<lparr>sc_queues := AList.delete ws (sc_queues s), sc_order := remove1 ws (sc_order s)\<rparr>
      else s\<lparr>sc_queues := AList.update ws q (sc_queues s)\<rparr>)"

lemma pop_head_edit: "pop_head ws s = edit_queue ws (tl (queue_of s ws)) s"
  by (simp add: pop_head_def edit_queue_def Let_def)

lemma remove_waiter_edit:
  "remove_waiter w s = (if w \<in> set (queue_of s (wt_workspace w))
     then edit_queue (wt_workspace w) (remove1 w (queue_of s (wt_workspace w))) s else s)"
  by (auto simp: remove_waiter_def edit_queue_def queue_of_def dict_get_def Let_def split: option.splits)

lemma edit_queue_frame [simp]:
  "sc_policy (edit_queue ws q s) = sc_policy s" "sc_active (edit_queue ws q s) = sc_active s"
  "sc_active_ws (edit_queue ws q s) = sc_active_ws s" "sc_sequence (edit_queue ws q s) = sc_sequence s"
  "sc_grants (edit_queue ws q s) = sc_grants s" "sc_tokens (edit_queue ws q s) = sc_tokens s"
  by (simp_all add: edit_queue_def)

lemma edit_queue_lookup:
  "map_of (sc_queues (edit_queue ws q s)) v =
     (if v = ws then (if q = [] then None else Some q) else map_of (sc_queues s) v)"
  by (simp add: edit_queue_def map_of_update_iff map_of_delete_iff)

lemma all_waiters_edit:
  assumes "map_of (sc_queues s) ws = Some q0"
  shows "all_waiters (edit_queue ws q s) = set q \<union> {w. \<exists>v q'. v \<noteq> ws \<and> map_of (sc_queues s) v = Some q' \<and> w \<in> set q'}"
  by (auto simp: all_waiters_def edit_queue_lookup split: if_splits)

lemma edit_queue_inv:
  assumes inv: "queues_inv s" and q0: "map_of (sc_queues s) ws = Some q0"
    and q: "q = [] \<or> queue_ok ws q" and sub: "set q \<subseteq> set q0"
  shows "queues_inv (edit_queue ws q s)"
proof -
  have "all_waiters (edit_queue ws q s) \<subseteq> all_waiters s"
    using sub q0 unfolding all_waiters_edit [OF q0] by (auto simp: all_waiters_def)
  moreover have "distinct (dict_keys (sc_queues (edit_queue ws q s)))" "distinct (sc_order (edit_queue ws q s))"
    using inv by (simp_all add: queues_inv_def edit_queue_def distinct_update distinct_delete)
  moreover have "set (sc_order (edit_queue ws q s)) = set (dict_keys (sc_queues (edit_queue ws q s)))"
  proof -
    have "distinct (sc_order s)" "set (sc_order s) = fst ` set (sc_queues s)" "ws \<in> fst ` set (sc_queues s)"
      using inv map_of_Some_keys [OF q0] by (simp_all add: queues_inv_def)
    then show ?thesis by (auto simp: edit_queue_def dom_update keys_delete)
  qed
  moreover have "\<forall>v q'. map_of (sc_queues (edit_queue ws q s)) v = Some q' \<longrightarrow> queue_ok v q'"
    using inv q by (auto simp: queues_inv_def edit_queue_lookup)
  ultimately show ?thesis
    using inv by (auto simp: queues_inv_def intro: inj_on_subset)
qed

lemma sorted_wrt_remove1: "sorted_wrt P xs \<Longrightarrow> sorted_wrt P (remove1 x xs)"
  by (induction xs) (auto dest: set_remove1_subset [THEN subsetD])

lemma queue_ok_tl: "queue_ok ws q \<Longrightarrow> tl q = [] \<or> queue_ok ws (tl q)"
  by (cases q) (auto simp: queue_ok_def)

lemma queue_ok_remove1: "queue_ok ws q \<Longrightarrow> remove1 w q = [] \<or> queue_ok ws (remove1 w q)"
  by (auto simp: queue_ok_def sorted_wrt_remove1 dest: set_remove1_subset [THEN subsetD])

lemma queue_ok_distinct: "queue_ok ws q \<Longrightarrow> distinct q"
  unfolding queue_ok_def by (induction q) fastforce+

lemma queue_of_lookup: "queue_of s ws = w # rest \<Longrightarrow> map_of (sc_queues s) ws = Some (w # rest)"
  by (auto simp: queue_of_def dict_get_def split: option.splits)

lemma queue_of_member: "w \<in> set (queue_of s ws) \<Longrightarrow> map_of (sc_queues s) ws = Some (queue_of s ws)"
  by (cases "map_of (sc_queues s) ws") (auto simp: queue_of_def dict_get_def)

lemma queue_of_ok: "queues_inv s \<Longrightarrow> queue_of s ws = w # rest \<Longrightarrow> queue_ok ws (w # rest)"
  by (auto simp: queues_inv_def dest: queue_of_lookup)

lemma remove_waiter_queues [op_inv]:
  assumes "queues_inv s"
  shows "queues_inv (remove_waiter w s)"
proof (cases "w \<in> set (queue_of s (wt_workspace w))")
  case True
  note look = queue_of_member [OF True]
  with assms have "queue_ok (wt_workspace w) (queue_of s (wt_workspace w))"
    by (auto simp: queues_inv_def)
  from edit_queue_inv [OF assms look queue_ok_remove1 [OF this]] True show ?thesis
    by (simp add: remove_waiter_edit set_remove1_subset)
qed (simp add: remove_waiter_edit assms)

lemma remove_waiter_gone:
  assumes "queues_inv s"
  shows "w \<notin> all_waiters (remove_waiter w s)"
proof (cases "w \<in> set (queue_of s (wt_workspace w))")
  case True
  note look = queue_of_member [OF True]
  with assms have ok: "queue_ok (wt_workspace w) (queue_of s (wt_workspace w))"
    by (auto simp: queues_inv_def)
  have "\<forall>v q. map_of (sc_queues s) v = Some q \<longrightarrow> w \<in> set q \<longrightarrow> v = wt_workspace w"
    using assms by (auto simp: queues_inv_def queue_ok_def)
  then show ?thesis
    using True queue_ok_distinct [OF ok] by (auto simp: remove_waiter_edit all_waiters_edit [OF look])
next
  case False
  have "map_of (sc_queues s) v = Some q \<Longrightarrow> w \<in> set q \<Longrightarrow> w \<in> set (queue_of s (wt_workspace w))" for v q
    using assms by (auto simp: queues_inv_def queue_ok_def queue_of_def dict_get_def)
  with False show ?thesis by (auto simp: remove_waiter_edit all_waiters_def)
qed

lemma remove_waiter_subset: "all_waiters (remove_waiter w s) \<subseteq> all_waiters s"
proof (cases "w \<in> set (queue_of s (wt_workspace w))")
  case True
  note look = queue_of_member [OF True]
  show ?thesis
    using True by (auto simp: remove_waiter_edit all_waiters_edit [OF look])
      (auto simp: all_waiters_def intro: look dest: set_remove1_subset [THEN subsetD])
qed (simp add: remove_waiter_edit)

lemma remove_waiter_waiters:
  assumes "queues_inv s"
  shows "all_waiters (remove_waiter w s) = all_waiters s - {w}"
proof -
  have "v \<in> all_waiters (remove_waiter w s)" if "v \<in> all_waiters s" "v \<noteq> w" for v
  proof -
    from that(1) obtain u q where u: "map_of (sc_queues s) u = Some q" "v \<in> set q" by (rule all_waitersE)
    have "queue_of s u = q" using u by (simp add: queue_of_def dict_get_def)
    then have "v \<in> set (remove1 w (queue_of s u))" using u that(2) by simp
    with u show ?thesis
      by (cases "u = wt_workspace w")
        (auto simp: remove_waiter_edit edit_queue_lookup intro!: all_waitersI [of _ u])
  qed
  with remove_waiter_gone [OF assms, of w] remove_waiter_subset [of w s] show ?thesis by blast
qed

lemma remove_waiter_frame [simp]:
  "sc_policy (remove_waiter w s) = sc_policy s" "sc_active (remove_waiter w s) = sc_active s"
  "sc_active_ws (remove_waiter w s) = sc_active_ws s" "sc_sequence (remove_waiter w s) = sc_sequence s"
  "sc_grants (remove_waiter w s) = sc_grants s" "sc_tokens (remove_waiter w s) = sc_tokens s"
  by (simp_all add: remove_waiter_edit)

lemma active_inv_cong:
  assumes "sc_policy s' = sc_policy s" "sc_active s' = sc_active s" "sc_active_ws s' = sc_active_ws s"
    "sc_tokens s' = sc_tokens s"
  shows "active_inv tok s' = active_inv tok s"
  by (simp add: active_inv_def active_in_def assms)

lemma grants_inv_cong:
  assumes "sc_grants s' = sc_grants s" "sc_sequence s' = sc_sequence s" "sc_tokens s' = sc_tokens s"
  shows "grants_inv tok s' = grants_inv tok s"
  by (simp add: grants_inv_def assms)

lemma remove_waiter_inv [op_inv]: "sched_inv tok s \<Longrightarrow> sched_inv tok (remove_waiter w s)"
  by (simp add: sched_inv_def remove_waiter_queues active_inv_cong [of "remove_waiter w s" s]
      grants_inv_cong [of "remove_waiter w s" s])

subsection \<open>Enqueueing\<close>

lemma enqueue_frame:
  assumes "enqueue ws key prio s = (s', w)"
  shows "sc_policy s' = sc_policy s" "sc_active s' = sc_active s" "sc_active_ws s' = sc_active_ws s"
    "sc_tokens s' = sc_tokens s" "sc_grants s' = sc_grants s" "sc_sequence s' = Suc (sc_sequence s)"
    "w = \<lparr>wt_workspace = ws, wt_key = key, wt_priority = prio, wt_sequence = Suc (sc_sequence s)\<rparr>"
    "sc_queues s' = AList.update ws (queue_of s ws @ [w]) (sc_queues s)"
  using assms by (auto simp: enqueue_def Let_def)

lemma queue_of_subset: "set (queue_of s ws) \<subseteq> all_waiters s"
  by (cases "map_of (sc_queues s) ws") (auto simp: queue_of_def dict_get_def all_waiters_def)

lemma enqueue_waiters:
  assumes "enqueue ws key prio s = (s', w)"
  shows "all_waiters s' = insert w (all_waiters s)"
proof
  note f = enqueue_frame(8) [OF assms]
  show "all_waiters s' \<subseteq> insert w (all_waiters s)"
    using queue_of_subset [of s ws] by (auto simp: all_waiters_def f map_of_update_iff split: if_splits)
  have "v \<in> all_waiters s'" if "map_of (sc_queues s) u = Some q" "v \<in> set q" for v u q
  proof (cases "u = ws")
    case True
    then have "queue_of s ws = q" using that by (simp add: queue_of_def dict_get_def)
    with that show ?thesis by (auto simp: all_waiters_def f map_of_update_iff)
  next
    case False
    with that show ?thesis by (auto simp: all_waiters_def f map_of_update_iff)
  qed
  moreover have "w \<in> all_waiters s'" by (auto simp: all_waiters_def f map_of_update_iff)
  ultimately show "insert w (all_waiters s) \<subseteq> all_waiters s'"
    unfolding all_waiters_def [of s] by blast
qed

lemma enqueue_queues:
  assumes inv: "queues_inv s" and fresh: "map_of (sc_grants s) (Suc (sc_sequence s)) = None"
    and enq: "enqueue ws key prio s = (s', w)"
  shows "queues_inv s'"
proof -
  note f = enqueue_frame [OF enq]
  have seq: "wt_sequence v \<le> sc_sequence s" "map_of (sc_grants s) (wt_sequence v) = None" if "v \<in> all_waiters s" for v
    using inv that by (auto simp: queues_inv_def)
  then have less: "wt_sequence v < wt_sequence w" if "v \<in> all_waiters s" for v
    using that f(7) by (simp add: less_Suc_eq_le)
  have queues: "\<forall>v q. map_of (sc_queues s) v = Some q \<longrightarrow> queue_ok v q"
    using inv by (simp add: queues_inv_def)
  then have q: "queue_of s ws = [] \<or> queue_ok ws (queue_of s ws)"
    by (cases "map_of (sc_queues s) ws") (auto simp: queue_of_def dict_get_def)
  then have new: "queue_ok ws (queue_of s ws @ [w])"
    using less queue_of_subset [of s ws] f(7) by (auto simp: queue_ok_def sorted_wrt_append)
  have empty: "queue_of s ws = [] \<longleftrightarrow> ws \<notin> set (dict_keys (sc_queues s))"
  proof (cases "map_of (sc_queues s) ws")
    case None
    then have "ws \<notin> fst ` set (sc_queues s)" by (simp add: map_of_eq_None_iff)
    then show ?thesis by (simp add: queue_of_def dict_get_absent)
  next
    case (Some q)
    with queues have "q \<noteq> []" by (auto simp: queue_ok_def)
    with Some show ?thesis by (auto simp: queue_of_def dict_get_def dest: map_of_Some_keys)
  qed
  have order: "sc_order s' = (if queue_of s ws = [] then sc_order s @ [ws] else sc_order s)"
    using enq by (auto simp: enqueue_def Let_def)
  have "inj_on wt_sequence (all_waiters s)" using inv by (simp add: queues_inv_def)
  then have inj: "inj_on wt_sequence (all_waiters s')"
    using less by (force simp: enqueue_waiters [OF enq])
  have grants: "\<forall>v\<in>all_waiters s'. wt_sequence v \<le> sc_sequence s' \<and> map_of (sc_grants s') (wt_sequence v) = None"
    using seq fresh f(5,6,7) by (auto simp: enqueue_waiters [OF enq] le_SucI)
  have "distinct (dict_keys (sc_queues s')) \<and> distinct (sc_order s')
      \<and> set (sc_order s') = set (dict_keys (sc_queues s'))"
    using inv empty by (auto simp: queues_inv_def order f(8) distinct_update dom_update)
  moreover have "\<forall>v q. map_of (sc_queues s') v = Some q \<longrightarrow> queue_ok v q"
    using queues new by (simp add: f(8) map_of_update_iff)
  ultimately show ?thesis
    using inj grants by (simp add: queues_inv_def)
qed

lemma enqueue_inv:
  assumes inv: "sched_inv tok s" and enq: "enqueue ws key prio s = (s', w)"
  shows "sched_inv tok s'"
proof -
  note f = enqueue_frame [OF enq]
  have "map_of (sc_grants s) (Suc (sc_sequence s)) = None"
    using inv unfolding sched_inv_def grants_inv_def
    by (metis Suc_n_not_le_n option.exhaust)
  with enqueue_queues [OF _ _ enq] inv have "queues_inv s'" by (simp add: sched_inv_def)
  moreover have "active_inv tok s'" using inv active_inv_cong [of s' s tok] f by (simp add: sched_inv_def)
  moreover have "grants_inv tok s'" using inv f by (auto simp: sched_inv_def grants_inv_def le_SucI)
  ultimately show ?thesis by (simp add: sched_inv_def)
qed

subsection \<open>Granting and releasing\<close>

lemma eligible_cong:
  assumes "sc_policy s' = sc_policy s" "sc_active s' = sc_active s" "sc_active_ws s' = sc_active_ws s"
  shows "eligible s' w = eligible s w"
  by (simp only: eligible_def assms)

lemma eligible_compatible:
  "eligible s w \<Longrightarrow> a \<in> set (sc_active s) \<Longrightarrow> compatible a (lease, ws, wt_key w)"
  by (auto simp: eligible_def compatible_def list_ex_iff key_blocked_sym split: if_splits)

lemma activate_active_inv:
  assumes tok: "inj tok" and inv: "active_inv tok s" and el: "eligible s w" and ws: "wt_workspace w = ws"
    and room: "int (length (sc_active s)) < global_limit (sc_policy s)"
  shows "active_inv tok (activate tok ws w s)"
proof -
  let ?l = "lease_name tok (sc_tokens s)"
  have new: "?l \<notin> fst ` set (sc_active s)"
    using inv lease_fresh [OF tok, of "sc_tokens s"] by (auto simp: active_inv_def)
  then have act: "sc_active (activate tok ws w s) = sc_active s @ [(?l, ws, wt_key w)]"
    by (simp add: activate_def Let_def set_update_new)
  have cnt: "active_in (activate tok ws w s) v = active_in s v + (if v = ws then 1 else 0)" for v
    by (simp add: active_in_def act)
  have lim: "int (active_in s ws) < per_workspace_limit (sc_policy s)"
    using el inv ws by (auto simp: eligible_def active_inv_def split: if_splits)
  have "sorted_wrt compatible (sc_active (activate tok ws w s))"
    using inv eligible_compatible [OF el] by (simp add: act sorted_wrt_append active_inv_def)
  moreover have "distinct (dict_keys (sc_active (activate tok ws w s)))"
    using inv new by (simp add: act active_inv_def)
  moreover have "set (dict_keys (sc_active (activate tok ws w s))) \<subseteq> lease_name tok ` {..<Suc (sc_tokens s)}"
    using inv by (auto simp: act active_inv_def)
  moreover have "int (length (sc_active (activate tok ws w s))) \<le> global_limit (sc_policy s)"
    using room by (simp add: act)
  moreover have "int (active_in (activate tok ws w s) v) \<le> per_workspace_limit (sc_policy s)" for v
    using inv lim by (simp add: cnt active_inv_def)
  moreover have "dict_get 0 (sc_active_ws (activate tok ws w s)) v = int (active_in (activate tok ws w s) v)" for v
    using inv by (simp add: cnt active_inv_def) (simp add: activate_def Let_def dict_get_update)
  moreover have "distinct (dict_keys (sc_active_ws (activate tok ws w s)))"
    using inv by (simp add: activate_def Let_def active_inv_def distinct_update)
  ultimately show ?thesis
    using inv unfolding active_inv_def by (simp add: activate_def Let_def)
qed

lemma activate_frame [simp]:
  "sc_policy (activate tok ws w s) = sc_policy s" "sc_queues (activate tok ws w s) = sc_queues s"
  "sc_order (activate tok ws w s) = sc_order s" "sc_sequence (activate tok ws w s) = sc_sequence s"
  "sc_tokens (activate tok ws w s) = Suc (sc_tokens s)"
  "sc_grants (activate tok ws w s) = AList.update (wt_sequence w) (lease_name tok (sc_tokens s)) (sc_grants s)"
  by (simp_all add: activate_def Let_def)

lemma activate_waiters [simp]: "all_waiters (activate tok ws w s) = all_waiters s"
  by (simp add: all_waiters_def)

lemma activate_grants_inv:
  assumes tok: "inj tok" and inv: "grants_inv tok s" and w: "wt_sequence w \<le> sc_sequence s"
  shows "grants_inv tok (activate tok ws w s)"
proof -
  let ?l = "lease_name tok (sc_tokens s)"
  have old: "n \<le> sc_sequence s" "lease \<in> lease_name tok ` {..<sc_tokens s}"
    if "map_of (sc_grants s) n = Some lease" for n lease
    using inv that by (auto simp: grants_inv_def)
  then have new: "map_of (sc_grants s) n \<noteq> Some ?l" for n
    using lease_fresh [OF tok, of "sc_tokens s"] by blast
  have inj: "map_of (sc_grants s) n = Some lease \<Longrightarrow> map_of (sc_grants s) m = Some lease \<Longrightarrow> n = m" for n m lease
    using inv unfolding grants_inv_def by blast
  have "lease_name tok ` {..<sc_tokens s} \<subseteq> lease_name tok ` {..<Suc (sc_tokens s)}" by auto
  then have "\<forall>n lease. map_of (sc_grants (activate tok ws w s)) n = Some lease \<longrightarrow>
      n \<le> sc_sequence s \<and> lease \<in> lease_name tok ` {..<Suc (sc_tokens s)}"
    using old w by (auto simp: map_of_update_iff)
  moreover have "\<forall>n m lease. map_of (sc_grants (activate tok ws w s)) n = Some lease \<longrightarrow>
      map_of (sc_grants (activate tok ws w s)) m = Some lease \<longrightarrow> n = m"
    using inj new by (auto simp: map_of_update_iff)
  ultimately show ?thesis by (simp add: grants_inv_def)
qed

lemma activate_queues_inv:
  assumes inv: "queues_inv s" and w: "\<forall>v\<in>all_waiters s. wt_sequence v \<noteq> wt_sequence w"
  shows "queues_inv (activate tok ws w s)"
  using assms by (simp add: queues_inv_def map_of_update_iff)

lemma order_edit_inv: "queues_inv s \<Longrightarrow> mset order = mset (sc_order s) \<Longrightarrow> queues_inv (s\<lparr>sc_order := order\<rparr>)"
  by (auto simp: queues_inv_def all_waiters_def dest: mset_eq_imp_distinct_iff mset_eq_setD)

lemma pop_head_waiters:
  assumes inv: "queues_inv s" and q: "queue_of s ws = w # rest"
  shows "all_waiters (pop_head ws s) = all_waiters s - {w}"
proof -
  note look = queue_of_lookup [OF q]
  have "queue_ok ws (w # rest)" using inv look by (simp add: queues_inv_def)
  then have d: "w \<notin> set rest" and ws: "wt_workspace w = ws"
    using queue_ok_distinct [of ws "w # rest"] by (simp_all add: queue_ok_def)
  have other: "v = ws" if "map_of (sc_queues s) v = Some q'" "w \<in> set q'" for v q'
    using inv that ws by (auto simp: queues_inv_def queue_ok_def)
  have eq: "all_waiters (pop_head ws s) = set rest \<union> {w. \<exists>v q'. v \<noteq> ws \<and> map_of (sc_queues s) v = Some q' \<and> w \<in> set q'}"
    unfolding pop_head_edit all_waiters_edit [OF look] by (simp add: q)
  have "v \<in> all_waiters (pop_head ws s)" if "v \<in> all_waiters s" "v \<noteq> w" for v
  proof -
    from that(1) obtain u q' where u: "map_of (sc_queues s) u = Some q'" "v \<in> set q'" by (rule all_waitersE)
    show ?thesis
    proof (cases "u = ws")
      case True
      then have "q' = w # rest" using u look by simp
      then show ?thesis using u that(2) by (simp add: eq)
    next
      case False
      then show ?thesis using u unfolding eq by blast
    qed
  qed
  moreover have "w \<notin> all_waiters (pop_head ws s)" using d other unfolding eq by blast
  moreover have "all_waiters (pop_head ws s) \<subseteq> all_waiters s"
    using look unfolding eq by (auto intro: all_waitersI)
  ultimately show ?thesis by blast
qed

lemma pop_head_queues_inv:
  assumes inv: "queues_inv s" and q: "queue_of s ws = w # rest"
  shows "queues_inv (pop_head ws s)"
  unfolding pop_head_edit
  using edit_queue_inv [OF inv queue_of_lookup [OF q] queue_ok_tl [OF queue_of_ok [OF inv q]]] q
  by (auto dest: list.set_sel)

text \<open>One iteration of the grant loop.\<close>

lemma grant_one_inv:
  assumes tok: "inj tok" and inv: "sched_inv tok s"
    and room: "int (length (sc_active s)) < global_limit (sc_policy s)"
    and nc: "next_candidate s = (s', Some (ws, w))"
  shows "sched_inv tok (activate tok ws w (pop_head ws s'))"
    and "all_waiters (activate tok ws w (pop_head ws s')) = all_waiters s - {w}"
    and "w \<in> all_waiters s" and "wt_workspace w = ws"
proof -
  from nc obtain xs rest ys where o: "sc_order s = xs @ ws # ys" and top: "top_eligible s ws w"
    and q: "queue_of s ws = w # rest" and s': "s' = s\<lparr>sc_order := ys @ xs @ [ws]\<rparr>"
    by (rule next_candidate_SomeE)
  have qinv: "queues_inv s" using inv by (simp add: sched_inv_def)
  have q': "queue_of s' ws = w # rest" by (simp add: s' queue_of_def) (use q in \<open>simp add: queue_of_def\<close>)
  have ok: "queue_ok ws (w # rest)" by (rule queue_of_ok [OF qinv q])
  show wsw: "wt_workspace w = ws" using ok by (simp add: queue_ok_def)
  show wm: "w \<in> all_waiters s" using queue_of_subset [of s ws] q by auto
  have qinv': "queues_inv s'" unfolding s' by (rule order_edit_inv [OF qinv]) (simp add: o)
  have p: "queues_inv (pop_head ws s')" by (rule pop_head_queues_inv [OF qinv' q'])
  have all: "all_waiters s' = all_waiters s" by (simp add: s' all_waiters_def)
  note pw = pop_head_waiters [OF qinv' q', unfolded all]
  show "all_waiters (activate tok ws w (pop_head ws s')) = all_waiters s - {w}" by (simp add: pw)
  have "inj_on wt_sequence (all_waiters s)" using qinv by (simp add: queues_inv_def)
  then have "\<forall>v\<in>all_waiters (pop_head ws s'). wt_sequence v \<noteq> wt_sequence w"
    using wm by (auto simp: pw inj_on_def)
  from activate_queues_inv [OF p this] have "queues_inv (activate tok ws w (pop_head ws s'))" .
  moreover have "active_inv tok (pop_head ws s')"
    using inv active_inv_cong [of "pop_head ws s'" s tok] by (simp add: sched_inv_def pop_head_edit s')
  moreover have "eligible (pop_head ws s') w = eligible s w"
    by (rule eligible_cong) (simp_all add: pop_head_edit s')
  moreover have "grants_inv tok (pop_head ws s')"
    using inv grants_inv_cong [of "pop_head ws s'" s tok] by (simp add: sched_inv_def pop_head_edit s')
  moreover have "wt_sequence w \<le> sc_sequence (pop_head ws s')"
    using qinv wm by (simp add: pop_head_edit s' queues_inv_def)
  ultimately show "sched_inv tok (activate tok ws w (pop_head ws s'))"
    using activate_active_inv [OF tok, of "pop_head ws s'" w ws] activate_grants_inv [OF tok, of "pop_head ws s'" w ws]
      wsw room top_eligible_eligible [OF top] by (simp add: sched_inv_def pop_head_edit s')
qed

end
