(* ===== verification/Scheduler_System.thy ===== *)
theory Scheduler_System
  imports Scheduler_Safety
begin

text \<open>
  The scheduler as a system of concurrent callers: one step per critical section
  (\<open>acquire\<close> up to its wait, a wake-up of a blocked \<open>acquire\<close>, a \<open>ProcessLease.release\<close>),
  and the properties of its reachable states and of its choices.
\<close>

subsection \<open>What granting and releasing do\<close>

lemma grant_waiters_rule:
  assumes "inj tok" "sched_inv tok s"
    and stop: "\<And>s. sched_inv tok s \<Longrightarrow>
      int (length (sc_active s)) \<ge> global_limit (sc_policy s) \<or> eligible_heads s (sc_order s) = [] \<Longrightarrow> P s s"
    and one: "\<And>s s' ws w r. sched_inv tok s \<Longrightarrow> next_candidate s = (s', Some (ws, w)) \<Longrightarrow>
      int (length (sc_active s)) < global_limit (sc_policy s) \<Longrightarrow>
      sched_inv tok (activate tok ws w (pop_head ws s')) \<Longrightarrow>
      P (activate tok ws w (pop_head ws s')) r \<Longrightarrow> P s r"
  shows "P s (grant_waiters tok s)"
  using assms(2)
proof (induction "queued s" arbitrary: s rule: less_induct)
  case less
  show ?case
  proof (cases "int (length (sc_active s)) < global_limit (sc_policy s)")
    case room: True
    show ?thesis
    proof (cases "next_candidate s")
      case (Pair s' c)
      show ?thesis
      proof (cases c)
        case None
        with Pair room less.prems stop next_candidate_NoneD [of s s'] show ?thesis
          by (auto simp: grant_waiters.simps [of tok s])
      next
        case (Some x)
        obtain ws w where x: "x = (ws, w)" by (cases x)
        let ?t = "activate tok ws w (pop_head ws s')"
        have n: "next_candidate s = (s', Some (ws, w))" using Pair Some x by simp
        have inv: "sched_inv tok ?t" by (rule grant_one_inv(1) [OF assms(1) less.prems room n])
        have "P ?t (grant_waiters tok ?t)"
          using less.hyps [OF _ inv] next_candidate_pop_lt [OF n] by simp
        from one [OF less.prems n room inv this] room n show ?thesis
          by (simp add: grant_waiters.simps [of tok s])
      qed
    qed
  next
    case False
    with less.prems stop show ?thesis by (simp add: grant_waiters.simps [of tok s])
  qed
qed

lemma grant_waiters_inv [op_inv]: "inj tok \<Longrightarrow> sched_inv tok s \<Longrightarrow> sched_inv tok (grant_waiters tok s)"
  by (rule grant_waiters_rule [where P = "\<lambda>_ r. sched_inv tok r"])

lemma grant_waiters_stops:
  assumes "inj tok" "sched_inv tok s"
  shows "int (length (sc_active (grant_waiters tok s))) = global_limit (sc_policy (grant_waiters tok s))
       \<or> eligible_heads (grant_waiters tok s) (sc_order (grant_waiters tok s)) = []"
  using assms(1,2)
proof (rule grant_waiters_rule [where P = "\<lambda>_ r. int (length (sc_active r)) = global_limit (sc_policy r)
       \<or> eligible_heads r (sc_order r) = []"])
  fix s assume "sched_inv tok s"
    and "int (length (sc_active s)) \<ge> global_limit (sc_policy s) \<or> eligible_heads s (sc_order s) = []"
  then show "int (length (sc_active s)) = global_limit (sc_policy s) \<or> eligible_heads s (sc_order s) = []"
    by (auto simp: sched_inv_def active_inv_def)
qed

text \<open>Granting moves waiters from the queues into leases and touches nothing else.\<close>

definition moved :: "(nat \<Rightarrow> string) \<Rightarrow> sched \<Rightarrow> sched \<Rightarrow> bool" where
  "moved tok s r \<longleftrightarrow>
     sc_policy r = sc_policy s \<and> sc_sequence r = sc_sequence s \<and>
     all_waiters r \<subseteq> all_waiters s \<and> sc_tokens s \<le> sc_tokens r \<and>
     (\<forall>w\<in>all_waiters s. (map_of (sc_grants r) (wt_sequence w) = None) = (w \<in> all_waiters r)) \<and>
     (\<forall>n. (\<forall>w\<in>all_waiters s. wt_sequence w \<noteq> n) \<longrightarrow> map_of (sc_grants r) n = map_of (sc_grants s) n) \<and>
     (\<forall>lease. lease \<in> fst ` set (sc_active r) \<longleftrightarrow> lease \<in> fst ` set (sc_active s) \<or>
        (\<exists>w\<in>all_waiters s. map_of (sc_grants r) (wt_sequence w) = Some lease))"

lemma moved_refl: "sched_inv tok s \<Longrightarrow> moved tok s s"
  by (auto simp: moved_def sched_inv_def queues_inv_def)

lemma next_candidate_frame:
  assumes "next_candidate s = (s', Some (ws, w))"
  shows "sc_policy (pop_head ws s') = sc_policy s" "sc_sequence (pop_head ws s') = sc_sequence s"
    "sc_grants (pop_head ws s') = sc_grants s" "sc_active (pop_head ws s') = sc_active s"
    "sc_tokens (pop_head ws s') = sc_tokens s"
  using assms by (auto elim!: next_candidate_SomeE simp: pop_head_edit)

lemma moved_one:
  assumes tok: "inj tok" and inv: "sched_inv tok s" and nc: "next_candidate s = (s', Some (ws, w))"
    and room: "int (length (sc_active s)) < global_limit (sc_policy s)"
    and t: "t = activate tok ws w (pop_head ws s')" and m: "moved tok t r"
  shows "moved tok s r"
proof -
  note g = grant_one_inv [OF tok inv room nc, folded t]
  note f = next_candidate_frame [OF nc]
  let ?l = "lease_name tok (sc_tokens s)"
  have grants: "sc_grants t = AList.update (wt_sequence w) ?l (sc_grants s)" by (simp add: t f)
  have inj: "inj_on wt_sequence (all_waiters s)" using inv by (simp add: sched_inv_def queues_inv_def)
  have act: "fst ` set (sc_active t) = insert ?l (fst ` set (sc_active s))"
    by (simp add: t activate_def Let_def f dom_update)
  have w: "map_of (sc_grants r) (wt_sequence w) = Some ?l"
  proof -
    have "\<forall>v\<in>all_waiters t. wt_sequence v \<noteq> wt_sequence w"
      using g(2,3) inj by (auto simp: inj_on_def)
    with m have "map_of (sc_grants r) (wt_sequence w) = map_of (sc_grants t) (wt_sequence w)"
      by (simp add: moved_def)
    then show ?thesis by (simp add: grants map_of_update_iff)
  qed
  have "w \<notin> all_waiters r" using m g(2) by (auto simp: moved_def)
  then have a: "\<forall>v\<in>all_waiters s. (map_of (sc_grants r) (wt_sequence v) = None) = (v \<in> all_waiters r)"
    using m g(2) w unfolding moved_def by (metis DiffI empty_iff insert_iff option.distinct(1))
  have b: "map_of (sc_grants r) n = map_of (sc_grants s) n" if "\<forall>v\<in>all_waiters s. wt_sequence v \<noteq> n" for n
    using m that g(2,3) by (auto simp: moved_def grants map_of_update_iff)
  have c: "lease \<in> fst ` set (sc_active r) \<longleftrightarrow> lease \<in> fst ` set (sc_active s) \<or>
        (\<exists>v\<in>all_waiters s. map_of (sc_grants r) (wt_sequence v) = Some lease)" for lease
  proof -
    have "lease \<in> fst ` set (sc_active r) \<longleftrightarrow> lease \<in> fst ` set (sc_active t) \<or>
        (\<exists>v\<in>all_waiters t. map_of (sc_grants r) (wt_sequence v) = Some lease)"
      using m unfolding moved_def by blast
    then show ?thesis using g(2,3) w unfolding act by auto
  qed
  have "sc_policy r = sc_policy s \<and> sc_sequence r = sc_sequence s \<and> all_waiters r \<subseteq> all_waiters s
      \<and> sc_tokens s \<le> sc_tokens r"
    using m g(2) f by (auto simp: moved_def t)
  with a b c show ?thesis by (auto simp: moved_def)
qed

lemma grant_waiters_moved:
  assumes "inj tok" "sched_inv tok s"
  shows "moved tok s (grant_waiters tok s)"
  using assms
  by (rule grant_waiters_rule) (auto intro: moved_refl moved_one [OF assms(1)])

lemma active_in_delete:
  assumes "distinct (dict_keys (sc_active s))" "map_of (sc_active s) lease = Some (ws, key)"
    "sc_active s1 = AList.delete lease (sc_active s)"
  shows "active_in s1 v = active_in s v - (if v = ws then 1 else 0)" and "v = ws \<Longrightarrow> 0 < active_in s v"
proof -
  have "length (filter (\<lambda>a. fst (snd a) = v) (AList.delete lease d)) + (if v = ws then 1 else 0)
      = length (filter (\<lambda>a. fst (snd a) = v) d)"
    if "distinct (dict_keys d)" "map_of d lease = Some (ws, key)" for d :: "(string, string \<times> concurrency_key option) dict"
    using that
  proof (induction d)
    case (Cons p d)
    then show ?case
      by (cases p; cases "fst p = lease") (auto simp: delete_absent)
  qed simp
  from this [OF assms(1,2)] show "active_in s1 v = active_in s v - (if v = ws then 1 else 0)"
    and "v = ws \<Longrightarrow> 0 < active_in s v"
    by (auto simp: active_in_def assms(3))
qed

lemma all_waiters_cong: "sc_queues r = sc_queues s \<Longrightarrow> all_waiters r = all_waiters s"
  by (simp add: all_waiters_def)

lemma drop_active_frame [simp]:
  "sc_policy (drop_active lease ws s) = sc_policy s" "sc_queues (drop_active lease ws s) = sc_queues s"
  "sc_order (drop_active lease ws s) = sc_order s" "sc_sequence (drop_active lease ws s) = sc_sequence s"
  "sc_tokens (drop_active lease ws s) = sc_tokens s" "sc_grants (drop_active lease ws s) = sc_grants s"
  "sc_active (drop_active lease ws s) = AList.delete lease (sc_active s)"
  "all_waiters (drop_active lease ws s) = all_waiters s"
  by (simp_all add: drop_active_def Let_def all_waiters_def)

lemma drop_active_inv [op_inv]:
  assumes inv: "sched_inv tok s" and look: "map_of (sc_active s) lease = Some (ws, key)"
  shows "sched_inv tok (drop_active lease ws s)"
proof -
  let ?s = "drop_active lease ws s"
  have ai: "active_inv tok s" using inv by (simp add: sched_inv_def)
  have d: "distinct (dict_keys (sc_active s))" using ai by (simp add: active_inv_def)
  have cnt: "active_in ?s v = active_in s v - (if v = ws then 1 else 0)"
      "v = ws \<Longrightarrow> 0 < active_in s v" for v
    using active_in_delete [OF d look, of ?s] by simp_all
  have counts: "dict_get 0 (sc_active_ws ?s) v = int (active_in ?s v)" for v
  proof -
    have "dict_get 0 (sc_active_ws s) u = int (active_in s u)" for u
      using ai by (simp add: active_inv_def)
    then show ?thesis using cnt [of v]
      by (auto simp: drop_active_def Let_def dict_get_update dict_get_delete)
  qed
  have "int (length (sc_active ?s)) \<le> global_limit (sc_policy ?s)"
    using ai length_delete_le [of lease "sc_active s"] by (simp add: active_inv_def)
  moreover have "distinct (dict_keys (sc_active ?s))" using d by (simp add: distinct_delete)
  moreover have "sorted_wrt compatible (sc_active ?s)"
      "set (dict_keys (sc_active ?s)) \<subseteq> lease_name tok ` {..<sc_tokens ?s}"
    using ai by (auto simp: active_inv_def AList.delete_eq sorted_wrt_filter_list)
  moreover have "distinct (dict_keys (sc_active_ws ?s))"
    using ai by (simp add: drop_active_def Let_def active_inv_def distinct_delete distinct_update)
  moreover have "int (active_in ?s v) \<le> per_workspace_limit (sc_policy ?s)" for v
  proof -
    have "int (active_in s v) \<le> per_workspace_limit (sc_policy s)" using ai by (simp add: active_inv_def)
    then show ?thesis using cnt(1) [of v] by simp
  qed
  ultimately have "active_inv tok ?s"
    using ai counts by (simp add: active_inv_def)
  moreover have "queues_inv ?s" "grants_inv tok ?s"
    using inv by (simp_all add: sched_inv_def queues_inv_def grants_inv_def)
  ultimately show ?thesis by (simp add: sched_inv_def)
qed

lemma sched_release_inv [op_inv]: "inj tok \<Longrightarrow> sched_inv tok s \<Longrightarrow> sched_inv tok (sched_release tok lease s)"
  by (auto simp: sched_release_def intro: grant_waiters_inv drop_active_inv split: option.splits)

subsection \<open>The system of callers\<close>

text \<open>
  The blocked calls of \<open>acquire\<close> and the leases handed out.  A call that ends with a lease adds
  an unreleased \<^typ>\<open>process_lease\<close>, a call that times out disappears.
\<close>

record sched_system =
  ss_sched :: sched
  ss_calls :: "acquire_call list"
  ss_leases :: "process_lease list"

definition start_system :: "queue_policy \<Rightarrow> sched_system" where
  "start_system p = \<lparr>ss_sched = new_sched p, ss_calls = [], ss_leases = []\<rparr>"

fun settle_call :: "acquire_result \<Rightarrow> acquire_call \<Rightarrow> sched_system \<Rightarrow> sched_system" where
  "settle_call (Acquired lease) c y =
     y\<lparr>ss_leases := ss_leases y @ [\<lparr>pl_lease = lease, pl_released = False\<rparr>]\<rparr>"
| "settle_call (Timed_out e) c y = y"
| "settle_call (Waiting remaining) c y = y\<lparr>ss_calls := ss_calls y @ [c]\<rparr>"

inductive sched_step :: "(nat \<Rightarrow> string) \<Rightarrow> sched_system \<Rightarrow> sched_system \<Rightarrow> bool" for tok where
  step_begin:
    "acquire_begin tok start now ws key prio t (ss_sched y) = Inr (s', c, r) \<Longrightarrow>
     sched_step tok y (settle_call r c (y\<lparr>ss_sched := s'\<rparr>))"
| step_resume:
    "c \<in> set (ss_calls y) \<Longrightarrow> acquire_resume tok now c (ss_sched y) = (s', r) \<Longrightarrow>
     sched_step tok y (settle_call r c (y\<lparr>ss_sched := s', ss_calls := remove1 c (ss_calls y)\<rparr>))"
| step_release:
    "i < length (ss_leases y) \<Longrightarrow> lease_release tok (ss_leases y ! i) (ss_sched y) = (l', s', b) \<Longrightarrow>
     sched_step tok y (y\<lparr>ss_sched := s', ss_leases := (ss_leases y)[i := l']\<rparr>)"

inductive_cases sched_stepE: "sched_step tok y z"

inductive sched_reachable :: "(nat \<Rightarrow> string) \<Rightarrow> queue_policy \<Rightarrow> sched_system \<Rightarrow> bool" for tok p where
  reach_start: "sched_reachable tok p (start_system p)"
| reach_step: "sched_reachable tok p y \<Longrightarrow> sched_step tok y z \<Longrightarrow> sched_reachable tok p z"

subsection \<open>The invariant of the system\<close>

text \<open>
  Every queued waiter belongs to one blocked call, and every active lease is either held by an
  unreleased lease object or waits to be picked up by the one blocked call it was granted to.
\<close>

definition held :: "sched_system \<Rightarrow> string \<Rightarrow> bool" where
  "held y lease \<longleftrightarrow> \<lparr>pl_lease = lease, pl_released = False\<rparr> \<in> set (ss_leases y)"

definition granted_to :: "sched_system \<Rightarrow> acquire_call \<Rightarrow> string option" where
  "granted_to y c = map_of (sc_grants (ss_sched y)) (wt_sequence (ac_waiter c))"

definition calls_inv :: "sched_system \<Rightarrow> bool" where
  "calls_inv y \<longleftrightarrow>
     distinct (map (\<lambda>c. wt_sequence (ac_waiter c)) (ss_calls y)) \<and>
     (\<forall>c\<in>set (ss_calls y). wt_sequence (ac_waiter c) \<le> sc_sequence (ss_sched y)) \<and>
     (\<forall>w\<in>all_waiters (ss_sched y). \<exists>c\<in>set (ss_calls y). ac_waiter c = w) \<and>
     (\<forall>c\<in>set (ss_calls y). granted_to y c = None \<longrightarrow> ac_waiter c \<in> all_waiters (ss_sched y))"

definition leases_inv :: "sched_system \<Rightarrow> bool" where
  "leases_inv y \<longleftrightarrow>
     distinct (map pl_lease (ss_leases y)) \<and>
     (\<forall>lease. lease \<in> fst ` set (sc_active (ss_sched y)) \<longleftrightarrow>
        held y lease \<or> (\<exists>c\<in>set (ss_calls y). granted_to y c = Some lease)) \<and>
     (\<forall>l\<in>set (ss_leases y). \<forall>c\<in>set (ss_calls y). granted_to y c \<noteq> Some (pl_lease l)) \<and>
     (\<forall>l\<in>set (ss_leases y). \<exists>n. map_of (sc_grants (ss_sched y)) n = Some (pl_lease l))"

definition system_inv :: "(nat \<Rightarrow> string) \<Rightarrow> sched_system \<Rightarrow> bool" where
  "system_inv tok y \<longleftrightarrow> sched_inv tok (ss_sched y) \<and> calls_inv y \<and> leases_inv y"

lemma granted_to_update [simp]:
  "granted_to (y\<lparr>ss_sched := s, ss_calls := cs\<rparr>) c = map_of (sc_grants s) (wt_sequence (ac_waiter c))"
  "granted_to (y\<lparr>ss_sched := s\<rparr>) c = map_of (sc_grants s) (wt_sequence (ac_waiter c))"
  by (simp_all add: granted_to_def)

lemma held_update [simp]:
  "held (y\<lparr>ss_sched := s, ss_calls := cs\<rparr>) = held y" "held (y\<lparr>ss_sched := s\<rparr>) = held y"
  by (simp_all add: held_def fun_eq_iff)

lemma calls_of_sequence:
  assumes "calls_inv y" "c \<in> set (ss_calls y)" "d \<in> set (ss_calls y)"
    "wt_sequence (ac_waiter c) = wt_sequence (ac_waiter d)"
  shows "c = d"
  using assms by (auto simp: calls_inv_def distinct_map inj_on_def)

lemma system_grant:
  assumes tok: "inj tok" and inv: "system_inv tok y"
  shows "system_inv tok (y\<lparr>ss_sched := grant_waiters tok (ss_sched y)\<rparr>)"
proof -
  let ?s = "ss_sched y" let ?r = "grant_waiters tok ?s"
  have si: "sched_inv tok ?s" and ci: "calls_inv y" and li: "leases_inv y"
    using inv by (simp_all add: system_inv_def)
  have ri: "sched_inv tok ?r" by (rule grant_waiters_inv [OF tok si])
  have m: "moved tok ?s ?r" by (rule grant_waiters_moved [OF tok si])
  have ungr: "map_of (sc_grants ?s) (wt_sequence w) = None" if "w \<in> all_waiters ?s" for w
    using si that by (simp add: sched_inv_def queues_inv_def)
  have keep: "map_of (sc_grants ?r) n = Some lease" if "map_of (sc_grants ?s) n = Some lease" for n lease
  proof -
    have "\<forall>w\<in>all_waiters ?s. wt_sequence w \<noteq> n" using ungr that by force
    with m that show ?thesis by (simp add: moved_def)
  qed
  have who: "w = ac_waiter c" if "w \<in> all_waiters ?s" "c \<in> set (ss_calls y)" "wt_sequence w = wt_sequence (ac_waiter c)" for w c
  proof -
    from ci that(1) obtain d where "d \<in> set (ss_calls y)" "ac_waiter d = w" by (auto simp: calls_inv_def)
    with calls_of_sequence [OF ci that(2) this(1)] that(3) show ?thesis by simp
  qed
  have other: "map_of (sc_grants ?r) (wt_sequence (ac_waiter c)) = granted_to y c"
    if "c \<in> set (ss_calls y)" "ac_waiter c \<notin> all_waiters ?s" for c
  proof -
    have "\<forall>w\<in>all_waiters ?s. wt_sequence w \<noteq> wt_sequence (ac_waiter c)" using who that by metis
    with m show ?thesis by (simp add: moved_def granted_to_def)
  qed
  have "calls_inv (y\<lparr>ss_sched := ?r\<rparr>)"
    using ci m other unfolding calls_inv_def moved_def by (auto 0 3)
  moreover have "leases_inv (y\<lparr>ss_sched := ?r\<rparr>)"
  proof -
    have eqv: "(\<exists>c\<in>set (ss_calls y). map_of (sc_grants ?r) (wt_sequence (ac_waiter c)) = Some lease) \<longleftrightarrow>
        (\<exists>c\<in>set (ss_calls y). granted_to y c = Some lease) \<or>
        (\<exists>w\<in>all_waiters ?s. map_of (sc_grants ?r) (wt_sequence w) = Some lease)"
      (is "?new \<longleftrightarrow> ?old \<or> ?wait") for lease
    proof
      assume ?new
      then obtain c where c: "c \<in> set (ss_calls y)" "map_of (sc_grants ?r) (wt_sequence (ac_waiter c)) = Some lease"
        by blast
      show "?old \<or> ?wait"
      proof (cases "ac_waiter c \<in> all_waiters ?s")
        case True
        with c(2) show ?thesis by blast
      next
        case False
        from other [OF c(1) this] c have "granted_to y c = Some lease" by simp
        with c(1) show ?thesis by blast
      qed
    next
      assume "?old \<or> ?wait"
      then show ?new
      proof
        assume ?old
        then show ?new using keep by (auto simp: granted_to_def)
      next
        assume ?wait
        then obtain w where w: "w \<in> all_waiters ?s" "map_of (sc_grants ?r) (wt_sequence w) = Some lease" by blast
        with ci obtain c where "c \<in> set (ss_calls y)" "ac_waiter c = w" unfolding calls_inv_def by blast
        with w show ?new by blast
      qed
    qed
    have a: "lease \<in> fst ` set (sc_active ?r) \<longleftrightarrow>
        held y lease \<or> (\<exists>c\<in>set (ss_calls y). map_of (sc_grants ?r) (wt_sequence (ac_waiter c)) = Some lease)" for lease
    proof -
      have "lease \<in> fst ` set (sc_active ?r) \<longleftrightarrow> lease \<in> fst ` set (sc_active ?s) \<or>
          (\<exists>w\<in>all_waiters ?s. map_of (sc_grants ?r) (wt_sequence w) = Some lease)"
        using m by (simp only: moved_def)
      moreover have "lease \<in> fst ` set (sc_active ?s) \<longleftrightarrow>
          held y lease \<or> (\<exists>c\<in>set (ss_calls y). granted_to y c = Some lease)"
        using li by (simp only: leases_inv_def)
      ultimately show ?thesis unfolding eqv by argo
    qed
    have b: "map_of (sc_grants ?r) (wt_sequence (ac_waiter c)) \<noteq> Some (pl_lease l)"
      if "l \<in> set (ss_leases y)" "c \<in> set (ss_calls y)" for l c
    proof
      assume g: "map_of (sc_grants ?r) (wt_sequence (ac_waiter c)) = Some (pl_lease l)"
      from li that(1) obtain n where n: "map_of (sc_grants ?s) n = Some (pl_lease l)" by (auto simp: leases_inv_def)
      from ri g keep [OF n] have "n = wt_sequence (ac_waiter c)" unfolding sched_inv_def grants_inv_def by blast
      with n li that show False by (auto simp: leases_inv_def granted_to_def)
    qed
    have c: "\<exists>n. map_of (sc_grants ?r) n = Some (pl_lease l)" if "l \<in> set (ss_leases y)" for l
    proof -
      from li that obtain n where "map_of (sc_grants ?s) n = Some (pl_lease l)" by (auto simp: leases_inv_def)
      from keep [OF this] show ?thesis ..
    qed
    have "distinct (map pl_lease (ss_leases y))" using li by (simp only: leases_inv_def)
    then show ?thesis using a b c by (simp add: leases_inv_def)
  qed
  ultimately show ?thesis using ri by (simp add: system_inv_def)
qed

lemma system_cong:
  assumes "ss_sched z = ss_sched y" "ss_leases z = ss_leases y" "mset (ss_calls z) = mset (ss_calls y)"
  shows "system_inv tok z = system_inv tok y"
proof -
  have s: "set (ss_calls z) = set (ss_calls y)" using assms(3) by (rule mset_eq_setD)
  have "mset (map f (ss_calls z)) = mset (map f (ss_calls y))" for f :: "acquire_call \<Rightarrow> nat"
    using assms(3) by simp
  then have "distinct (map f (ss_calls z)) = distinct (map f (ss_calls y))" for f :: "acquire_call \<Rightarrow> nat"
    by (rule mset_eq_imp_distinct_iff)
  moreover have "granted_to z = granted_to y" "held z = held y"
    by (simp_all add: granted_to_def held_def fun_eq_iff assms)
  ultimately show ?thesis
    by (simp add: system_inv_def calls_inv_def leases_inv_def s assms(1,2))
qed

lemma system_enqueue:
  assumes inv: "system_inv tok y" and enq: "enqueue ws key prio (ss_sched y) = (s1, w)" and c: "ac_waiter c = w"
  shows "system_inv tok (y\<lparr>ss_sched := s1, ss_calls := ss_calls y @ [c]\<rparr>)"
proof -
  note f = enqueue_frame [OF enq]
  have si: "sched_inv tok (ss_sched y)" and ci: "calls_inv y" and li: "leases_inv y"
    using inv by (simp_all add: system_inv_def)
  have ws: "wt_sequence w = Suc (sc_sequence (ss_sched y))" by (simp add: f(7))
  have le: "wt_sequence (ac_waiter d) \<le> sc_sequence (ss_sched y)" if "d \<in> set (ss_calls y)" for d
    using ci that by (simp add: calls_inv_def)
  have new: "map_of (sc_grants (ss_sched y)) (wt_sequence w) = None"
    using si unfolding sched_inv_def grants_inv_def ws by (metis Suc_n_not_le_n option.exhaust)
  have "calls_inv (y\<lparr>ss_sched := s1, ss_calls := ss_calls y @ [c]\<rparr>)"
    using ci le unfolding calls_inv_def
    by (force simp: f(5,6) c ws enqueue_waiters [OF enq] granted_to_def)
  moreover have "leases_inv (y\<lparr>ss_sched := s1, ss_calls := ss_calls y @ [c]\<rparr>)"
    using li new by (simp add: leases_inv_def f(2,5) c granted_to_def)
  ultimately show ?thesis using enqueue_inv [OF si enq] by (simp add: system_inv_def)
qed

lemma remove1_calls:
  assumes "calls_inv y" "c \<in> set (ss_calls y)"
  shows "set (remove1 c (ss_calls y)) = set (ss_calls y) - {c}"
    and "distinct (map (\<lambda>c. wt_sequence (ac_waiter c)) (remove1 c (ss_calls y)))"
proof -
  have "distinct (map (\<lambda>c. wt_sequence (ac_waiter c)) (ss_calls y))" using assms(1) by (simp add: calls_inv_def)
  then show "set (remove1 c (ss_calls y)) = set (ss_calls y) - {c}"
    and "distinct (map (\<lambda>c. wt_sequence (ac_waiter c)) (remove1 c (ss_calls y)))"
    by (auto simp: distinct_map set_remove1_eq distinct_remove1 intro: inj_on_subset)
qed

lemma system_pickup:
  assumes inv: "system_inv tok y" and c: "c \<in> set (ss_calls y)" and g: "granted_to y c = Some lease"
  shows "system_inv tok (y\<lparr>ss_calls := remove1 c (ss_calls y),
     ss_leases := ss_leases y @ [\<lparr>pl_lease = lease, pl_released = False\<rparr>]\<rparr>)"
    (is "system_inv tok ?z")
proof -
  have si: "sched_inv tok (ss_sched y)" and ci: "calls_inv y" and li: "leases_inv y"
    using inv by (simp_all add: system_inv_def)
  note r = remove1_calls [OF ci c]
  have gz: "granted_to ?z d = granted_to y d" for d by (simp add: granted_to_def)
  have hz: "held ?z l \<longleftrightarrow> held y l \<or> l = lease" for l by (auto simp: held_def)
  have "map_of (sc_grants (ss_sched y)) (wt_sequence (ac_waiter c)) \<noteq> None" using g by (simp add: granted_to_def)
  then have nw: "ac_waiter c \<notin> all_waiters (ss_sched y)"
    using si by (auto simp: sched_inv_def queues_inv_def)
  have only: "d = c" if "d \<in> set (ss_calls y)" "granted_to y d = Some lease" for d
  proof -
    have "wt_sequence (ac_waiter d) = wt_sequence (ac_waiter c)"
      using si g that(2) unfolding sched_inv_def grants_inv_def granted_to_def by blast
    then show ?thesis by (rule calls_of_sequence [OF ci that(1) c])
  qed
  have "calls_inv ?z"
    using ci nw r(2) unfolding calls_inv_def gz by (auto simp: r(1))
  moreover have "leases_inv ?z"
  proof -
    have "\<forall>l\<in>set (ss_leases y). granted_to y c \<noteq> Some (pl_lease l)" using li c by (simp add: leases_inv_def)
    then have "distinct (map pl_lease (ss_leases ?z))" using li g by (auto simp: leases_inv_def)
    moreover have "l \<in> fst ` set (sc_active (ss_sched ?z)) \<longleftrightarrow>
        held ?z l \<or> (\<exists>d\<in>set (ss_calls ?z). granted_to ?z d = Some l)" for l
    proof -
      have "l \<in> fst ` set (sc_active (ss_sched y)) \<longleftrightarrow>
          held y l \<or> (\<exists>d\<in>set (ss_calls y). granted_to y d = Some l)" using li by (simp add: leases_inv_def)
      then show ?thesis unfolding gz hz using c g by (auto simp: r(1))
    qed
    moreover have "\<forall>l\<in>set (ss_leases ?z). \<forall>d\<in>set (ss_calls ?z). granted_to ?z d \<noteq> Some (pl_lease l)"
      using li only unfolding leases_inv_def gz by (auto simp: r(1))
    moreover have "\<forall>l\<in>set (ss_leases ?z). \<exists>n. map_of (sc_grants (ss_sched ?z)) n = Some (pl_lease l)"
      using li g unfolding leases_inv_def granted_to_def by auto
    ultimately show ?thesis by (simp add: leases_inv_def)
  qed
  ultimately show ?thesis using si by (simp add: system_inv_def)
qed

lemma system_abandon:
  assumes inv: "system_inv tok y" and c: "c \<in> set (ss_calls y)" and g: "granted_to y c = None"
  shows "system_inv tok (y\<lparr>ss_sched := remove_waiter (ac_waiter c) (ss_sched y), ss_calls := remove1 c (ss_calls y)\<rparr>)"
    (is "system_inv tok ?z")
proof -
  have si: "sched_inv tok (ss_sched y)" and ci: "calls_inv y" and li: "leases_inv y"
    using inv by (simp_all add: system_inv_def)
  note r = remove1_calls [OF ci c]
  have wt: "all_waiters (remove_waiter (ac_waiter c) (ss_sched y)) = all_waiters (ss_sched y) - {ac_waiter c}"
    using si by (intro remove_waiter_waiters) (simp add: sched_inv_def)
  have uniq: "d = c" if "d \<in> set (ss_calls y)" "ac_waiter d = ac_waiter c" for d
    by (rule calls_of_sequence [OF ci that(1) c]) (simp add: that(2))
  have gz: "granted_to ?z d = granted_to y d" for d by (simp add: granted_to_def)
  have "calls_inv ?z"
    using ci r(2) uniq unfolding calls_inv_def gz by (auto simp: r(1) wt)
  moreover have "leases_inv ?z"
    using li g unfolding leases_inv_def gz by (auto simp: r(1))
  ultimately show ?thesis using remove_waiter_inv [OF si] by (simp add: system_inv_def)
qed

lemma system_drop:
  assumes inv: "system_inv tok y" and i: "i < length (ss_leases y)" and u: "\<not> pl_released (ss_leases y ! i)"
    and look: "map_of (sc_active (ss_sched y)) (pl_lease (ss_leases y ! i)) = Some (ws, key)"
  shows "system_inv tok (y\<lparr>ss_sched := drop_active (pl_lease (ss_leases y ! i)) ws (ss_sched y),
     ss_leases := (ss_leases y)[i := (ss_leases y ! i)\<lparr>pl_released := True\<rparr>]\<rparr>)"
    (is "system_inv tok ?z")
proof -
  have si: "sched_inv tok (ss_sched y)" and ci: "calls_inv y" and li: "leases_inv y"
    using inv by (simp_all add: system_inv_def)
  let ?l = "ss_leases y ! i"
  have d: "distinct (map pl_lease (ss_leases y))" using li by (simp add: leases_inv_def)
  have same: "map pl_lease (ss_leases ?z) = map pl_lease (ss_leases y)"
    by (rule nth_equalityI) (simp_all add: nth_list_update [OF i])
  have gz: "granted_to ?z d = granted_to y d" for d by (simp add: granted_to_def)
  have eq: "l = ?l" if "l \<in> set (ss_leases y)" "pl_lease l = pl_lease ?l" for l
    using d that i by (auto simp: distinct_map inj_on_def)
  have "set (ss_leases ?z) = insert (?l\<lparr>pl_released := True\<rparr>) (set (ss_leases y) - {?l})"
    using d i by (simp add: set_update_distinct distinct_map)
  then have hz: "held ?z x \<longleftrightarrow> held y x \<and> x \<noteq> pl_lease ?l" for x
    using eq [of "\<lparr>pl_lease = x, pl_released = False\<rparr>"] u by (cases ?l) (auto simp: held_def)
  have pls: "l \<in> set (ss_leases ?z) \<Longrightarrow> pl_lease l \<in> pl_lease ` set (ss_leases y)" for l
    using arg_cong [OF same, of set] by auto
  have "calls_inv ?z" using ci unfolding calls_inv_def gz by simp
  moreover have "leases_inv ?z"
  proof -
    have "\<forall>c\<in>set (ss_calls y). granted_to y c \<noteq> Some (pl_lease ?l)" using li i by (simp add: leases_inv_def)
    then have "\<forall>x. x \<in> fst ` set (sc_active (ss_sched ?z)) \<longleftrightarrow>
        held ?z x \<or> (\<exists>d\<in>set (ss_calls ?z). granted_to ?z d = Some x)"
      using li unfolding gz hz by (auto simp: leases_inv_def keys_delete)
    moreover have "\<forall>l\<in>set (ss_leases ?z). \<forall>d\<in>set (ss_calls ?z). granted_to ?z d \<noteq> Some (pl_lease l)"
      using li pls unfolding gz leases_inv_def by fastforce
    moreover have "\<forall>l\<in>set (ss_leases ?z). \<exists>n. map_of (sc_grants (ss_sched ?z)) n = Some (pl_lease l)"
      using li pls unfolding leases_inv_def by fastforce
    ultimately show ?thesis using d same by (simp add: leases_inv_def)
  qed
  ultimately show ?thesis using drop_active_inv [OF si look] by (simp add: system_inv_def)
qed

lemma system_settle:
  assumes inv: "system_inv tok y" and c: "c \<in> set (ss_calls y)" and tok: "inj tok"
    and chk: "acquire_check tok now timeout deadline (ac_waiter c) (ss_sched y) = (s', r)"
  shows "system_inv tok (settle_call r c (y\<lparr>ss_sched := s', ss_calls := remove1 c (ss_calls y)\<rparr>))"
proof (cases "granted_to y c")
  case (Some lease)
  then have "s' = ss_sched y" "r = Acquired lease" using chk by (auto simp: acquire_check_def granted_to_def)
  with system_pickup [OF inv c Some] show ?thesis by simp
next
  case None
  show ?thesis
  proof (cases "deadline - now \<le> 0")
    case True
    then have "s' = grant_waiters tok (remove_waiter (ac_waiter c) (ss_sched y))" "\<exists>e. r = Timed_out e"
      using chk None by (auto simp: acquire_check_def granted_to_def)
    then show ?thesis
      using system_grant [OF tok system_abandon [OF inv c None]]
      by (elim exE) (erule system_cong [THEN iffD1, rotated 3], simp_all)
  next
    case False
    then have "s' = ss_sched y" "r = Waiting (deadline - now)"
      using chk None by (auto simp: acquire_check_def granted_to_def)
    then show ?thesis using inv c
      by (subst system_cong [of _ y]) simp_all
  qed
qed

lemma system_step_inv [op_inv]:
  assumes tok: "inj tok" and inv: "system_inv tok y" and step: "sched_step tok y z"
  shows "system_inv tok z"
  using step
proof cases
  case (step_begin start now ws key prio t s' c r)
  obtain s1 w where enq: "enqueue ws key prio (ss_sched y) = (s1, w)" by fastforce
  let ?y1 = "y\<lparr>ss_sched := s1, ss_calls := ss_calls y @ [c]\<rparr>"
  from step_begin(2) enq have c: "ac_waiter c = w"
    and chk: "acquire_check tok now (ac_timeout c) (start + ac_timeout c) w (grant_waiters tok s1) = (s', r)"
    by (auto simp: acquire_begin_def Let_def split: if_splits prod.splits)
  have y1: "system_inv tok ?y1" by (rule system_enqueue [OF inv enq c])
  have cm: "c \<notin> set (ss_calls y)"
  proof
    assume m: "c \<in> set (ss_calls y)"
    then have "wt_sequence w \<le> sc_sequence (ss_sched y)" using inv c by (auto simp: system_inv_def calls_inv_def)
    then show False using enqueue_frame(7) [OF enq] by simp
  qed
  let ?y2 = "?y1\<lparr>ss_sched := grant_waiters tok (ss_sched ?y1)\<rparr>"
  have "system_inv tok (settle_call r c (?y2\<lparr>ss_sched := s', ss_calls := remove1 c (ss_calls ?y2)\<rparr>))"
    by (rule system_settle [OF system_grant [OF tok y1] _ tok, of c now "ac_timeout c" "start + ac_timeout c"])
      (simp_all add: chk c)
  then show ?thesis using step_begin(1) cm by (simp add: remove1_append remove1_idem)
next
  case (step_resume c now s' r)
  let ?y2 = "y\<lparr>ss_sched := grant_waiters tok (ss_sched y)\<rparr>"
  have "system_inv tok (settle_call r c (?y2\<lparr>ss_sched := s', ss_calls := remove1 c (ss_calls ?y2)\<rparr>))"
    by (rule system_settle [OF system_grant [OF tok inv] _ tok, of c now "ac_timeout c" "ac_deadline c"])
      (use step_resume in \<open>simp_all add: acquire_resume_def\<close>)
  then show ?thesis using step_resume(1) by simp
next
  case (step_release i l' s' b)
  let ?l = "ss_leases y ! i"
  show ?thesis
  proof (cases "pl_released ?l")
    case True
    with step_release(3) have "l' = ?l" "s' = ss_sched y" by (auto simp: lease_release_def)
    then have "z = y" unfolding step_release(1) by simp
    with inv show ?thesis by simp
  next
    case False
    have "held y (pl_lease ?l)"
      using False step_release(2) unfolding held_def by (cases ?l) (metis nth_mem pl_lease_def process_lease.select_convs)
    then have "pl_lease ?l \<in> fst ` set (sc_active (ss_sched y))"
      using inv by (simp add: system_inv_def leases_inv_def)
    then obtain ws key where look: "map_of (sc_active (ss_sched y)) (pl_lease ?l) = Some (ws, key)"
      by (metis (no_types) map_of_eq_None_iff not_Some_eq surj_pair)
    from step_release(3) False look
    have "l' = ?l\<lparr>pl_released := True\<rparr>" "s' = grant_waiters tok (drop_active (pl_lease ?l) ws (ss_sched y))"
      by (auto simp: lease_release_def sched_release_def)
    then show ?thesis
      unfolding step_release(1) using system_grant [OF tok system_drop [OF inv step_release(2) False look]]
      by (elim system_cong [THEN iffD1, rotated 3]) simp_all
  qed
qed

lemma system_start_inv: "policy_ok p \<Longrightarrow> system_inv tok (start_system p)"
  by (simp add: system_inv_def start_system_def new_sched_inv calls_inv_def leases_inv_def held_def)
    (simp add: new_sched_def all_waiters_def)

lemma sched_reachable_inv:
  assumes "inj tok" "policy_ok p" "sched_reachable tok p y"
  shows "system_inv tok y"
  using assms(3) by induction (auto intro: system_start_inv [OF assms(2)] system_step_inv [OF assms(1)])

subsection \<open>A concrete run\<close>

text \<open>One slot, held by workspace \<open>a\<close>, with a caller of workspace \<open>b\<close> blocked behind it.\<close>

definition demo_tok :: "nat \<Rightarrow> string" where
  "demo_tok n = replicate n CHR ''x''"

definition demo_policy :: queue_policy where
  "demo_policy = \<lparr>global_limit = 1, per_workspace_limit = 1, queue_timeout_seconds = 30\<rparr>"

definition begin_call :: "string \<Rightarrow> sched_system \<Rightarrow> sched_system" where
  "begin_call ws y =
     (case acquire_begin demo_tok 0 0 ws None 0 None (ss_sched y) of
        Inl _ \<Rightarrow> y | Inr (s, c, r) \<Rightarrow> settle_call r c (y\<lparr>ss_sched := s\<rparr>))"

definition demo_a :: sched_system where
  "demo_a = begin_call ''a'' (start_system demo_policy)"

definition demo_ab :: sched_system where
  "demo_ab = begin_call ''b'' demo_a"

definition demo_abc :: sched_system where
  "demo_abc = begin_call ''c'' demo_ab"

definition demo2_policy :: queue_policy where
  "demo2_policy = \<lparr>global_limit = 2, per_workspace_limit = 1, queue_timeout_seconds = 30\<rparr>"

definition demo_aa :: sched_system where
  "demo_aa = begin_call ''a'' (begin_call ''a'' (start_system demo2_policy))"

lemma demo_tok_inj: "inj demo_tok"
  by (auto simp: inj_def demo_tok_def)

lemma demo_policy_ok: "policy_ok demo_policy"
  by code_simp

lemma begin_call_reachable:
  assumes "sched_reachable demo_tok p y" "is_ok (acquire_begin demo_tok 0 0 ws None 0 None (ss_sched y))"
  shows "sched_reachable demo_tok p (begin_call ws y)"
  using assms(2)
  by (cases "acquire_begin demo_tok 0 0 ws None 0 None (ss_sched y)")
    (auto simp: begin_call_def intro: reach_step [OF assms(1)] step_begin)

lemma demo_reachable:
  "sched_reachable demo_tok demo_policy demo_a"
  "sched_reachable demo_tok demo_policy demo_ab"
  "sched_reachable demo_tok demo_policy demo_abc"
proof -
  have "is_ok (acquire_begin demo_tok 0 0 ''a'' None 0 None (ss_sched (start_system demo_policy)))"
    "is_ok (acquire_begin demo_tok 0 0 ''b'' None 0 None (ss_sched demo_a))"
    "is_ok (acquire_begin demo_tok 0 0 ''c'' None 0 None (ss_sched demo_ab))"
    by code_simp+
  then show "sched_reachable demo_tok demo_policy demo_a"
    "sched_reachable demo_tok demo_policy demo_ab" "sched_reachable demo_tok demo_policy demo_abc"
    unfolding demo_abc_def demo_ab_def demo_a_def
    by (auto intro!: begin_call_reachable reach_start)
qed

lemma demo2_policy_ok: "policy_ok demo2_policy"
  by code_simp

lemma demo_aa_reachable: "sched_reachable demo_tok demo2_policy demo_aa"
proof -
  have "is_ok (acquire_begin demo_tok 0 0 ''a'' None 0 None (ss_sched (start_system demo2_policy)))"
    "is_ok (acquire_begin demo_tok 0 0 ''a'' None 0 None (ss_sched (begin_call ''a'' (start_system demo2_policy))))"
    by code_simp+
  then show ?thesis unfolding demo_aa_def by (auto intro!: begin_call_reachable reach_start)
qed

subsection \<open>Properties of the reachable states\<close>

lemma grant_waiters_policy: "inj tok \<Longrightarrow> sched_inv tok s \<Longrightarrow> sc_policy (grant_waiters tok s) = sc_policy s"
  using grant_waiters_moved by (auto simp: moved_def)

lemma acquire_check_policy:
  "inj tok \<Longrightarrow> sched_inv tok s \<Longrightarrow> acquire_check tok now t d w s = (s', r) \<Longrightarrow> sc_policy s' = sc_policy s"
  by (auto simp: acquire_check_def Let_def grant_waiters_policy remove_waiter_inv split: option.splits if_splits)

lemma settle_call_sched [simp]: "ss_sched (settle_call r c y) = ss_sched y"
  by (cases r) simp_all

text \<open>After a critical section no waiter at the head of a queue could still be granted.\<close>

definition quiescent :: "sched \<Rightarrow> bool" where
  "quiescent s \<longleftrightarrow>
     int (length (sc_active s)) = global_limit (sc_policy s) \<or> eligible_heads s (sc_order s) = []"

lemma acquire_check_quiescent:
  assumes "inj tok" "sched_inv tok s" "quiescent s" "acquire_check tok now t d w s = (s', r)"
  shows "quiescent s'"
  using assms grant_waiters_stops [OF assms(1) remove_waiter_inv [OF assms(2), of w]]
  by (auto simp: acquire_check_def Let_def quiescent_def split: option.splits if_splits)

lemma sched_step_state:
  assumes tok: "inj tok" and inv: "system_inv tok y" and step: "sched_step tok y z" and q: "quiescent (ss_sched y)"
  shows "sc_policy (ss_sched z) = sc_policy (ss_sched y) \<and> quiescent (ss_sched z)"
proof -
  have si: "sched_inv tok (ss_sched y)" using inv by (simp add: system_inv_def)
  have gq: "quiescent (grant_waiters tok s)" if "sched_inv tok s" for s
    using grant_waiters_stops [OF tok that] by (simp add: quiescent_def)
  show ?thesis using step
  proof cases
    case (step_begin start now ws key prio t s' c r)
    obtain s1 w where enq: "enqueue ws key prio (ss_sched y) = (s1, w)" by fastforce
    from step_begin(2) enq obtain t' d where
      chk: "acquire_check tok now t' d w (grant_waiters tok s1) = (s', r)"
      by (auto simp: acquire_begin_def Let_def split: if_splits prod.splits)
    have s1: "sched_inv tok s1" by (rule enqueue_inv [OF si enq])
    have g1: "sched_inv tok (grant_waiters tok s1)" by (rule grant_waiters_inv [OF tok s1])
    show ?thesis
      using acquire_check_policy [OF tok g1 chk] acquire_check_quiescent [OF tok g1 gq [OF s1] chk]
        grant_waiters_policy [OF tok s1] enqueue_frame(1) [OF enq] step_begin(1) by simp
  next
    case (step_resume c now s' r)
    then have chk: "acquire_check tok now (ac_timeout c) (ac_deadline c) (ac_waiter c) (grant_waiters tok (ss_sched y)) = (s', r)"
      by (simp add: acquire_resume_def)
    have g1: "sched_inv tok (grant_waiters tok (ss_sched y))" by (rule grant_waiters_inv [OF tok si])
    show ?thesis
      using acquire_check_policy [OF tok g1 chk] acquire_check_quiescent [OF tok g1 gq [OF si] chk]
        grant_waiters_policy [OF tok si] step_resume(1) by simp
  next
    case (step_release i l' s' b)
    have "sc_policy s' = sc_policy (ss_sched y) \<and> quiescent s'"
    proof (cases "pl_released (ss_leases y ! i) \<or> map_of (sc_active (ss_sched y)) (pl_lease (ss_leases y ! i)) = None")
      case True
      then have "s' = ss_sched y"
        using step_release(3) by (auto simp: lease_release_def sched_release_def split: if_splits)
      with q show ?thesis by simp
    next
      case False
      then obtain ws key where look: "map_of (sc_active (ss_sched y)) (pl_lease (ss_leases y ! i)) = Some (ws, key)"
        by auto
      note d = drop_active_inv [OF si look]
      have "s' = grant_waiters tok (drop_active (pl_lease (ss_leases y ! i)) ws (ss_sched y))"
        using step_release(3) False look by (auto simp: lease_release_def sched_release_def)
      with gq [OF d] grant_waiters_policy [OF tok d] show ?thesis by simp
    qed
    with step_release(1) show ?thesis by simp
  qed
qed

lemma sched_reachable_state:
  assumes tok: "inj tok" and p: "policy_ok p" and r: "sched_reachable tok p y"
  shows "sc_policy (ss_sched y) = p \<and> quiescent (ss_sched y)"
  using r
proof induction
  case reach_start
  show ?case by (simp add: start_system_def new_sched_def quiescent_def)
next
  case (reach_step y z)
  with sched_step_state [OF tok sched_reachable_inv [OF tok p reach_step(1)] reach_step(2)] show ?case by simp
qed

text \<open>
  C1. Admission control: in every reachable state of the scheduler at most \<open>global_limit\<close> leases are
  active, at most \<open>per_workspace_limit\<close> per workspace, the per-workspace counters are exact, and no
  two active leases hold conflicting concurrency keys (a writer excludes every other holder of
  its resource).
\<close>
theorem scheduler_admission:
  assumes "inj tok" "policy_ok p" "sched_reachable tok p y"
  shows "int (length (sc_active (ss_sched y))) \<le> global_limit p \<and>
    int (active_in (ss_sched y) ws) \<le> per_workspace_limit p \<and>
    dict_get 0 (sn_active_by_workspace (snapshot (ss_sched y))) ws = int (active_in (ss_sched y) ws) \<and>
    (\<forall>i j. i < j \<longrightarrow> j < length (sc_active (ss_sched y)) \<longrightarrow>
      \<not> key_blocked (snd (snd (sc_active (ss_sched y) ! i))) (snd (snd (sc_active (ss_sched y) ! j))))"
  using sched_reachable_inv [OF assms] sched_reachable_state [OF assms]
  by (auto simp: system_inv_def sched_inv_def active_inv_def snapshot_def compatible_def sorted_wrt_iff_nth_less)

theorem scheduler_admission_witness:
  "int (length (sc_active (ss_sched demo_abc))) \<le> global_limit demo_policy
   \<and> int (active_in (ss_sched demo_abc) ''a'') \<le> per_workspace_limit demo_policy"
  using scheduler_admission [OF demo_tok_inj demo_policy_ok demo_reachable(3)] by blast

text \<open>
  C3. Work conservation: in every reachable state either all global slots are taken or no waiter at
  the head of its workspace's queue is eligible, so a free slot is never left idle.
\<close>
theorem scheduler_work_conserving:
  assumes "inj tok" "policy_ok p" "sched_reachable tok p y"
    and "int (length (sc_active (ss_sched y))) < global_limit p"
    and "queue_of (ss_sched y) ws = w # rest"
  shows "\<not> eligible (ss_sched y) w"
proof -
  have "queues_inv (ss_sched y)"
    using sched_reachable_inv [OF assms(1-3)] by (simp add: system_inv_def sched_inv_def)
  then have "ws \<in> set (sc_order (ss_sched y))"
    using map_of_Some_keys [OF queue_of_lookup [OF assms(5)]] by (simp add: queues_inv_def)
  moreover have "eligible_heads (ss_sched y) (sc_order (ss_sched y)) = []"
    using sched_reachable_state [OF assms(1-3)] assms(4) by (auto simp: quiescent_def)
  ultimately show ?thesis
    using assms(5) eligible_heads_iff [of ws w "ss_sched y" "sc_order (ss_sched y)"] by simp
qed

theorem scheduler_work_conserving_witness:
  "\<not> eligible (ss_sched demo_aa) (hd (queue_of (ss_sched demo_aa) ''a''))"
proof -
  have "int (length (sc_active (ss_sched demo_aa))) < global_limit demo2_policy" by code_simp
  moreover have "queue_of (ss_sched demo_aa) ''a'' = [hd (queue_of (ss_sched demo_aa) ''a'')]" by code_simp
  ultimately show ?thesis
    by (rule scheduler_work_conserving [OF demo_tok_inj demo2_policy_ok demo_aa_reachable])
qed

text \<open>
  C2. No slot is leaked and no waiter forgotten: a lease is active exactly when some unreleased
  \<open>ProcessLease\<close> holds it or a blocked \<open>acquire\<close> it was granted to has yet to wake up, and every
  queued waiter belongs to a blocked \<open>acquire\<close>.
\<close>
theorem scheduler_no_leak:
  assumes "inj tok" "policy_ok p" "sched_reachable tok p y"
  shows "(lease \<in> set (dict_keys (sc_active (ss_sched y))) \<longleftrightarrow>
      held y lease \<or> (\<exists>c\<in>set (ss_calls y). granted_to y c = Some lease)) \<and>
    (\<forall>w\<in>all_waiters (ss_sched y). \<exists>c\<in>set (ss_calls y). ac_waiter c = w)"
  using sched_reachable_inv [OF assms] by (auto simp: system_inv_def leases_inv_def calls_inv_def)

theorem scheduler_no_leak_witness:
  "''lease-'' \<in> set (dict_keys (sc_active (ss_sched demo_ab))) \<longleftrightarrow>
      held demo_ab ''lease-'' \<or> (\<exists>c\<in>set (ss_calls demo_ab). granted_to demo_ab c = Some ''lease-'')"
  by (rule scheduler_no_leak [OF demo_tok_inj demo_policy_ok demo_reachable(2), THEN conjunct1])

subsection \<open>Order, fairness, timeout and release\<close>

text \<open>
  Order of service: the waiter granted next is the oldest of its workspace (first in, first
  out) and no eligible head of another queue has a higher priority.
\<close>
lemma scheduler_order:
  assumes "sched_inv tok s" "next_candidate s = (s', Some (ws, w))"
  shows "eligible s w \<and> wt_workspace w = ws \<and>
    (\<forall>v\<in>set (queue_of s ws). v \<noteq> w \<longrightarrow> wt_sequence w < wt_sequence v) \<and>
    (\<forall>u v rest. queue_of s u = v # rest \<longrightarrow> eligible s v \<longrightarrow> wt_priority v \<le> wt_priority w)"
proof -
  from assms(2) obtain rest where top: "top_eligible s ws w" and q: "queue_of s ws = w # rest"
    by (elim next_candidate_SomeE)
  have qi: "queues_inv s" using assms(1) by (simp add: sched_inv_def)
  have ok: "queue_ok ws (w # rest)" by (rule queue_of_ok [OF qi q])
  have a: "eligible s w \<and> wt_workspace w = ws" using top_eligible_eligible [OF top] ok by (simp add: queue_ok_def)
  have b: "\<forall>v\<in>set (queue_of s ws). v \<noteq> w \<longrightarrow> wt_sequence w < wt_sequence v"
    using ok q by (auto simp: queue_ok_def)
  have "wt_priority v \<le> wt_priority w" if "queue_of s u = v # rest" "eligible s v" for u v rest
  proof -
    have "u \<in> set (sc_order s)"
      using qi map_of_Some_keys [OF queue_of_lookup [OF that(1)]] by (simp add: queues_inv_def)
    then have "(u, v) \<in> set (eligible_heads s (sc_order s))" using that by (simp add: eligible_heads_iff)
    with top show ?thesis by (auto simp: top_eligible_def)
  qed
  with a b show ?thesis by blast
qed

text \<open>A state with an urgent and an ordinary waiter behind a free slot.\<close>

definition demo_queue :: sched where
  "demo_queue = fst (enqueue ''b'' None 5 (fst (enqueue ''a'' None 0 (new_sched demo_policy))))"

lemma demo_queue_inv: "sched_inv demo_tok demo_queue"
  unfolding demo_queue_def
  by (metis enqueue_inv new_sched_inv demo_policy_ok prod.collapse)

lemma scheduler_order_witness:
  "wt_priority (hd (queue_of demo_queue ''a'')) \<le> wt_priority (hd (queue_of demo_queue ''b''))"
proof -
  have "next_candidate demo_queue = (fst (next_candidate demo_queue), Some (''b'', hd (queue_of demo_queue ''b'')))"
    by code_simp
  moreover have "queue_of demo_queue ''a'' = hd (queue_of demo_queue ''a'') # []" by code_simp
  moreover have "eligible demo_queue (hd (queue_of demo_queue ''a''))" by code_simp
  ultimately show ?thesis using scheduler_order [OF demo_queue_inv] by blast
qed

text \<open>The place of a workspace in the round-robin order.\<close>

definition place :: "string \<Rightarrow> string list \<Rightarrow> nat" where
  "place ws order = length (takeWhile (\<lambda>v. v \<noteq> ws) order)"

lemma place_append: "ws \<notin> set xs \<Longrightarrow> place ws (xs @ ys) = length xs + place ws ys"
  by (simp add: place_def takeWhile_append)

lemma place_append_in: "ws \<in> set xs \<Longrightarrow> place ws (xs @ ys) = place ws xs"
  by (induction xs) (auto simp: place_def)

lemma place_remove1: "v \<noteq> ws \<Longrightarrow> place ws (remove1 v xs) \<le> place ws xs"
  by (induction xs) (auto simp: place_def)

text \<open>
  C12. Round-robin fairness: whenever another workspace is served, every waiting workspace of the
  same top priority moves strictly forward in the order, so it is bypassed at most as often
  as there are workspaces before it.
\<close>
theorem scheduler_fair:
  assumes "sched_inv tok s" "next_candidate s = (s', Some (ws, w))"
    and "top_eligible s v u" "v \<noteq> ws"
  shows "place v (sc_order (activate tok ws w (pop_head ws s'))) < place v (sc_order s)"
proof -
  from assms(2) obtain xs rest ys where o: "sc_order s = xs @ ws # ys"
    and s': "s' = s\<lparr>sc_order := ys @ xs @ [ws]\<rparr>" and xs: "\<forall>x\<in>set xs. \<forall>v. \<not> top_eligible s x v"
    by (elim next_candidate_SomeE)
  have v: "v \<in> set (sc_order s)" "v \<notin> set xs"
    using assms(3) xs by (auto simp: top_eligible_def eligible_heads_iff)
  then have vy: "v \<in> set ys" using assms(4) by (simp add: o)
  have "place v (sc_order s) = length xs + Suc (place v ys)"
    using v(2) assms(4) by (simp add: o place_append) (simp add: place_def)
  moreover have "place v (ys @ xs @ [ws]) = place v ys"
    using vy by (rule place_append_in)
  moreover have "place v (sc_order (pop_head ws s')) \<le> place v (ys @ xs @ [ws])"
    using place_remove1 [of ws v "ys @ xs @ [ws]"] assms(4)
    by (simp add: pop_head_edit edit_queue_def s')
  ultimately show ?thesis by simp
qed

definition demo_round :: sched where
  "demo_round = fst (enqueue ''b'' None 0 (fst (enqueue ''a'' None 0 (new_sched demo_policy))))"

theorem scheduler_fair_witness:
  "place ''b'' (sc_order (activate demo_tok ''a'' (hd (queue_of demo_round ''a''))
     (pop_head ''a'' (fst (next_candidate demo_round))))) < place ''b'' (sc_order demo_round)"
proof (rule scheduler_fair)
  show "sched_inv demo_tok demo_round"
    unfolding demo_round_def by (metis enqueue_inv new_sched_inv demo_policy_ok prod.collapse)
  show "next_candidate demo_round = (fst (next_candidate demo_round), Some (''a'', hd (queue_of demo_round ''a'')))"
    by code_simp
  show "top_eligible demo_round ''b'' (hd (queue_of demo_round ''b''))" by code_simp
  show "''b'' \<noteq> ''a''" by simp
qed

text \<open>
  A call of \<open>acquire\<close> that times out does so only after its deadline and leaves nothing behind:
  its waiter is in no queue, no lease was granted to it, and every other blocked call keeps
  its waiter or its grant.
\<close>
lemma acquire_timeout_clean:
  assumes "inj tok" "policy_ok p" "sched_reachable tok p y" "c \<in> set (ss_calls y)"
    and "acquire_resume tok now c (ss_sched y) = (s', Timed_out e)"
  shows "ac_deadline c \<le> now \<and> ac_waiter c \<notin> all_waiters s' \<and>
    map_of (sc_grants s') (wt_sequence (ac_waiter c)) = None \<and>
    (\<forall>d\<in>set (ss_calls y). d \<noteq> c \<longrightarrow>
      ac_waiter d \<in> all_waiters s' \<or> map_of (sc_grants s') (wt_sequence (ac_waiter d)) \<noteq> None)"
proof (intro conjI ballI impI)
  have inv: "system_inv tok y" by (rule sched_reachable_inv [OF assms(1-3)])
  let ?g = "grant_waiters tok (ss_sched y)"
  let ?y = "y\<lparr>ss_sched := ?g\<rparr>"
  have g: "system_inv tok ?y" by (rule system_grant [OF assms(1) inv])
  from assms(5) have none: "map_of (sc_grants ?g) (wt_sequence (ac_waiter c)) = None"
    and late: "ac_deadline c - now \<le> 0" and s': "s' = grant_waiters tok (remove_waiter (ac_waiter c) ?g)"
    by (auto simp: acquire_resume_def acquire_check_def Let_def split: option.splits if_splits)
  have gs: "sched_inv tok ?g" using g by (simp add: system_inv_def)
  let ?r = "remove_waiter (ac_waiter c) ?g"
  have r: "sched_inv tok ?r" by (rule remove_waiter_inv [OF gs])
  have m: "moved tok ?r s'" unfolding s' by (rule grant_waiters_moved [OF assms(1) r])
  have wr: "all_waiters ?r = all_waiters ?g - {ac_waiter c}"
    using gs by (intro remove_waiter_waiters) (simp add: sched_inv_def)
  show "ac_deadline c \<le> now" using late by simp
  show "ac_waiter c \<notin> all_waiters s'" using m wr by (auto simp: moved_def)
  have seq: "wt_sequence w \<noteq> wt_sequence (ac_waiter c)" if "w \<in> all_waiters ?r" for w
  proof
    assume eq: "wt_sequence w = wt_sequence (ac_waiter c)"
    from that wr have w: "w \<in> all_waiters ?g" "w \<noteq> ac_waiter c" by auto
    with g obtain d where "d \<in> set (ss_calls ?y)" "ac_waiter d = w" by (auto simp: system_inv_def calls_inv_def)
    with calls_of_sequence [of ?y d c] g assms(4) eq w(2) show False by (auto simp: system_inv_def)
  qed
  then show "map_of (sc_grants s') (wt_sequence (ac_waiter c)) = None"
    using m none by (simp add: moved_def)
  show "ac_waiter d \<in> all_waiters s' \<or> map_of (sc_grants s') (wt_sequence (ac_waiter d)) \<noteq> None"
    if d: "d \<in> set (ss_calls y)" "d \<noteq> c" for d
  proof (cases "map_of (sc_grants ?g) (wt_sequence (ac_waiter d))")
    case None
    then have "ac_waiter d \<in> all_waiters ?g" using g d(1) by (simp add: system_inv_def calls_inv_def)
    moreover have "ac_waiter d \<noteq> ac_waiter c"
      using calls_of_sequence [of ?y d c] g d assms(4) by (auto simp: system_inv_def)
    ultimately have "ac_waiter d \<in> all_waiters ?r" by (simp add: wr)
    with m show ?thesis unfolding moved_def by blast
  next
    case (Some lease)
    have "\<forall>w\<in>all_waiters ?r. map_of (sc_grants ?g) (wt_sequence w) = None"
      using r by (simp add: sched_inv_def queues_inv_def)
    then have "\<forall>w\<in>all_waiters ?r. wt_sequence w \<noteq> wt_sequence (ac_waiter d)" using Some by force
    with m Some show ?thesis by (simp add: moved_def)
  qed
qed

lemma acquire_timeout_clean_witness:
  "ac_waiter (hd (ss_calls demo_abc)) \<notin>
     all_waiters (fst (acquire_resume demo_tok 31 (hd (ss_calls demo_abc)) (ss_sched demo_abc)))"
proof (rule acquire_timeout_clean [OF demo_tok_inj demo_policy_ok demo_reachable(3), THEN conjunct2, THEN conjunct1])
  show "hd (ss_calls demo_abc) \<in> set (ss_calls demo_abc)" by code_simp
  show "acquire_resume demo_tok 31 (hd (ss_calls demo_abc)) (ss_sched demo_abc) =
    (fst (acquire_resume demo_tok 31 (hd (ss_calls demo_abc)) (ss_sched demo_abc)),
     Timed_out (Queue_timeout_error ''b'' 30))" by code_simp
qed

text \<open>
  A lease is released exactly once: the first release of a held lease frees precisely that lease
  and reports it, a second release of the same object reports nothing to do and changes
  nothing, whatever happened to the scheduler in between.
\<close>
lemma lease_release_once:
  assumes "inj tok" "policy_ok p" "sched_reachable tok p y" "l \<in> set (ss_leases y)" "\<not> pl_released l"
    and "lease_release tok l (ss_sched y) = (l', s', b)"
  shows "b \<and> pl_released l' \<and> pl_lease l \<in> set (dict_keys (sc_active (ss_sched y)))
      \<and> pl_lease l \<notin> set (dict_keys (sc_active s'))
      \<and> (\<forall>x\<in>set (dict_keys (sc_active (ss_sched y))). x \<noteq> pl_lease l \<longrightarrow> x \<in> set (dict_keys (sc_active s')))
      \<and> (\<forall>t. lease_release tok l' t = (l', t, False))"
proof -
  have inv: "system_inv tok y" by (rule sched_reachable_inv [OF assms(1-3)])
  then have si: "sched_inv tok (ss_sched y)" and li: "leases_inv y" by (simp_all add: system_inv_def)
  have "\<lparr>pl_lease = pl_lease l, pl_released = False\<rparr> = l"
    by (rule process_lease.equality) (use assms(5) in simp_all)
  then have "held y (pl_lease l)" using assms(4) by (simp add: held_def)
  with li have act: "pl_lease l \<in> fst ` set (sc_active (ss_sched y))" by (simp add: leases_inv_def)
  then obtain ws key where look: "map_of (sc_active (ss_sched y)) (pl_lease l) = Some (ws, key)"
    by (metis (no_types) map_of_eq_None_iff not_Some_eq surj_pair)
  let ?d = "drop_active (pl_lease l) ws (ss_sched y)"
  have r: "b" "l' = l\<lparr>pl_released := True\<rparr>" "s' = grant_waiters tok ?d"
    using assms(5,6) look by (auto simp: lease_release_def sched_release_def)
  have d: "sched_inv tok ?d" by (rule drop_active_inv [OF si look])
  have m: "moved tok ?d s'" unfolding r(3) by (rule grant_waiters_moved [OF assms(1) d])
  obtain n where n: "map_of (sc_grants (ss_sched y)) n = Some (pl_lease l)"
    using li assms(4) by (auto simp: leases_inv_def)
  have "map_of (sc_grants s') (wt_sequence w) \<noteq> Some (pl_lease l)" if w: "w \<in> all_waiters ?d" for w
  proof
    assume g: "map_of (sc_grants s') (wt_sequence w) = Some (pl_lease l)"
    have ungr: "\<forall>v\<in>all_waiters ?d. map_of (sc_grants ?d) (wt_sequence v) = None"
      using d by (simp add: sched_inv_def queues_inv_def)
    then have "\<forall>v\<in>all_waiters ?d. wt_sequence v \<noteq> n" using n by force
    then have "map_of (sc_grants s') n = Some (pl_lease l)" using m n by (simp add: moved_def)
    moreover have "grants_inv tok s'" using grant_waiters_inv [OF assms(1) d] by (simp add: r(3) sched_inv_def)
    ultimately have "n = wt_sequence w" using g unfolding grants_inv_def by blast
    then show False using ungr n w by force
  qed
  moreover have mem: "x \<in> fst ` set (sc_active s') \<longleftrightarrow> x \<in> fst ` set (sc_active ?d) \<or>
      (\<exists>w\<in>all_waiters ?d. map_of (sc_grants s') (wt_sequence w) = Some x)" for x
    using m by (simp only: moved_def)
  ultimately have gone: "pl_lease l \<notin> fst ` set (sc_active s')" by (auto simp: keys_delete)
  have "x \<in> set (dict_keys (sc_active s'))"
    if "x \<in> set (dict_keys (sc_active (ss_sched y)))" "x \<noteq> pl_lease l" for x
    using that mem [of x] by (simp add: keys_delete)
  moreover have "lease_release tok l' t = (l', t, False)" for t using r by (simp add: lease_release_def)
  ultimately show ?thesis using r act gone by auto
qed

lemma lease_release_once_witness:
  "fst (lease_release demo_tok (hd (ss_leases demo_abc)) (ss_sched demo_abc)) \<noteq> hd (ss_leases demo_abc)"
proof -
  let ?r = "lease_release demo_tok (hd (ss_leases demo_abc)) (ss_sched demo_abc)"
  have "hd (ss_leases demo_abc) \<in> set (ss_leases demo_abc)" "\<not> pl_released (hd (ss_leases demo_abc))"
    by code_simp+
  moreover have "?r = (fst ?r, fst (snd ?r), snd (snd ?r))" by simp
  ultimately have "pl_released (fst ?r)"
    by (rule lease_release_once [OF demo_tok_inj demo_policy_ok demo_reachable(3), THEN conjunct2, THEN conjunct1])
  then show ?thesis by code_simp
qed

end
