(* ===== verification/Json_Values.thy ===== *)
theory Json_Values
  imports Py_Strings "HOL-Library.Multiset"
begin

text \<open>
  The values of Python's \<open>json\<close> module: what an MCP argument, a tool result or a JSON column of
  the database can be.  An object is a dict with string keys in insertion order.  A TEXT column
  that holds \<open>json.dumps(v)\<close> is modelled by \<open>v\<close> itself; \<open>dumps(.., sort_keys=True)\<close> is
  \<open>canon\<close>, which orders the keys of every object.
\<close>

datatype json =
    JNull
  | JBool bool
  | JInt int
  | JFloat real
  | JStr string
  | JArr "json list"
  | JObj "(string \<times> json) list"

text \<open>\<open>obj.get(k, dflt)\<close> on an object.\<close>

definition jget :: "(string \<times> json) list \<Rightarrow> string \<Rightarrow> json \<Rightarrow> json" where
  "jget obj k dflt = dict_get dflt obj k"

fun is_jstr :: "json \<Rightarrow> bool" where
  "is_jstr (JStr s) = True"
| "is_jstr _ = False"

fun jstr :: "json \<Rightarrow> string" where
  "jstr (JStr s) = s"
| "jstr _ = []"

text \<open>\<open>bool(v)\<close>.\<close>

fun truthy :: "json \<Rightarrow> bool" where
  "truthy JNull = False"
| "truthy (JBool b) = b"
| "truthy (JInt i) = (i \<noteq> 0)"
| "truthy (JFloat r) = (r \<noteq> 0)"
| "truthy (JStr s) = (s \<noteq> [])"
| "truthy (JArr xs) = (xs \<noteq> [])"
| "truthy (JObj kvs) = (kvs \<noteq> [])"

primrec canon :: "json \<Rightarrow> json" where
  "canon JNull = JNull"
| "canon (JBool b) = JBool b"
| "canon (JInt i) = JInt i"
| "canon (JFloat r) = JFloat r"
| "canon (JStr s) = JStr s"
| "canon (JArr xs) = JArr (map canon xs)"
| "canon (JObj kvs) = JObj (sort_key fst (map (map_prod id canon) kvs))"

text \<open>\<open>obj.setdefault(k, v)\<close>.\<close>

definition set_default :: "string \<Rightarrow> json \<Rightarrow> (string \<times> json) list \<Rightarrow> (string \<times> json) list" where
  "set_default k v d = (if map_of d k = None then AList.update k v d else d)"

definition opt_str :: "string option \<Rightarrow> json" where
  "opt_str v = (case v of None \<Rightarrow> JNull | Some s \<Rightarrow> JStr s)"

lemma jget_simps [simp]:
  "jget [] k d = d"
  "jget ((k', v) # kvs) k d = (if k' = k then v else jget kvs k d)"
  by (simp_all add: jget_def dict_get_def)

text \<open>The order in which a caller lists the keys of an object does not matter after sorting.\<close>

lemma canon_obj_perm:
  assumes "distinct (map fst kvs)" "mset kvs = mset kvs'"
  shows "canon (JObj kvs) = canon (JObj kvs')"
proof -
  let ?m = "map (map_prod id canon)"
  have ms: "mset (?m kvs) = mset (sort_key fst (?m kvs'))" using assms(2) by simp
  have "map fst (?m kvs) = map fst kvs" by simp
  with assms(1) have "distinct (map fst (?m kvs))" by simp
  then have "inj_on fst (set (?m kvs))" by (simp only: distinct_map)
  then have "sort_key fst (?m kvs) = sort_key fst (?m kvs')"
    by (intro sort_key_inj_key_eq [OF ms]) simp_all
  then show ?thesis by simp
qed

lemma map_of_set_default: "map_of (set_default k v d) k' = (if k' = k \<and> map_of d k = None then Some v else map_of d k')"
  by (simp add: set_default_def map_of_update_iff)

end
