(* ===== verification/Envelope.thy ===== *)
theory Envelope
  imports Json_Values
begin

text \<open>
  The response envelope of \<open>app/services/envelope.py\<close> and the audit table of
  \<open>app/storage/database.py\<close>.  \<open>fresh\<close> is the identifier \<open>generate_request_id()\<close> would return.
\<close>

definition generate_request_id :: "(nat \<Rightarrow> string) \<Rightarrow> nat \<Rightarrow> string" where
  "generate_request_id tok n = ''req_'' @ tok n"

definition chosen_request_id :: "string option \<Rightarrow> string \<Rightarrow> json" where
  "chosen_request_id request_id fresh =
     JStr (case request_id of Some r \<Rightarrow> if r = [] then fresh else r | None \<Rightarrow> fresh)"

definition with_field :: "string \<Rightarrow> json option \<Rightarrow> (string \<times> json) list \<Rightarrow> (string \<times> json) list" where
  "with_field k v env = (case v of None \<Rightarrow> env | Some j \<Rightarrow> AList.update k j env)"

record ok_options =
  oo_workspace_id :: "string option"
  oo_request_id :: "string option"
  oo_revision :: "int option"
  oo_warnings :: "string list"
  oo_truncated :: bool
  oo_next_cursor :: "string option"

definition ok_defaults :: ok_options where
  "ok_defaults = \<lparr>oo_workspace_id = None, oo_request_id = None, oo_revision = None, oo_warnings = [],
     oo_truncated = False, oo_next_cursor = None\<rparr>"

definition ok_result :: "string \<Rightarrow> json \<Rightarrow> ok_options \<Rightarrow> json" where
  "ok_result fresh result opts =
     (let envelope =
        [(''ok'', JBool True),
         (''request_id'', chosen_request_id (oo_request_id opts) fresh),
         (''result'', result),
         (''warnings'', JArr (map JStr (oo_warnings opts))),
         (''truncated'', JBool (oo_truncated opts)),
         (''next_cursor'', opt_str (oo_next_cursor opts))]
      in JObj (with_field ''revision'' (map_option JInt (oo_revision opts))
                (with_field ''workspace_id'' (map_option JStr (oo_workspace_id opts)) envelope)))"

record error_options =
  eo_retryable :: bool
  eo_suggested_next_tool :: "string option"
  eo_workspace_id :: "string option"
  eo_request_id :: "string option"
  eo_extra :: "(string \<times> json) list"

definition error_defaults :: error_options where
  "error_defaults = \<lparr>eo_retryable = False, eo_suggested_next_tool = None, eo_workspace_id = None,
     eo_request_id = None, eo_extra = []\<rparr>"

text \<open>\<open>error.update(extra)\<close>: every key of \<open>extra\<close> overwrites or extends the block.\<close>

definition dict_merge :: "(string \<times> json) list \<Rightarrow> (string \<times> json) list \<Rightarrow> (string \<times> json) list" where
  "dict_merge d extra = foldl (\<lambda>acc kv. AList.update (fst kv) (snd kv) acc) d extra"

definition error_result :: "string \<Rightarrow> string \<Rightarrow> string \<Rightarrow> error_options \<Rightarrow> json" where
  "error_result fresh code message opts =
     (let error =
        dict_merge
          (with_field ''suggested_next_tool'' (map_option JStr (eo_suggested_next_tool opts))
             [(''code'', JStr code), (''message'', JStr message), (''retryable'', JBool (eo_retryable opts))])
          (eo_extra opts);
        envelope =
        [(''ok'', JBool False),
         (''request_id'', chosen_request_id (eo_request_id opts) fresh),
         (''error'', JObj error)]
      in JObj (with_field ''workspace_id'' (map_option JStr (eo_workspace_id opts)) envelope))"

fun env_field :: "string \<Rightarrow> json \<Rightarrow> json" where
  "env_field k (JObj kvs) = jget kvs k JNull"
| "env_field k _ = JNull"

definition env_ok :: "json \<Rightarrow> bool" where
  "env_ok j = (env_field ''ok'' j = JBool True)"

definition env_code :: "json \<Rightarrow> string" where
  "env_code j = jstr (env_field ''code'' (env_field ''error'' j))"

definition elapsed_ms :: "real \<Rightarrow> real \<Rightarrow> int" where
  "elapsed_ms now start = (let d = (now - start) * 1000 in if d \<ge> 0 then \<lfloor>d\<rfloor> else \<lceil>d\<rceil>)"

subsection \<open>The audit table\<close>

record operation_row =
  op_id :: string
  op_workspace :: "string option"
  op_tool :: string
  op_summary :: string
  op_success :: bool
  op_request_id :: "string option"
  op_input_summary :: "string option"
  op_status :: string
  op_duration_ms :: "int option"
  op_error_code :: "string option"

text \<open>\<open>log_operation\<close>: an insert, refused when the operation id is taken (the primary key).\<close>

definition log_operation :: "operation_row \<Rightarrow> operation_row list \<Rightarrow> string + operation_row list" where
  "log_operation row table =
     (if op_id row \<in> set (map op_id table) then Inl ''UNIQUE constraint failed: operations.operation_id''
      else Inr (table @ [row]))"

record audit_call =
  au_tool :: string
  au_request_id :: string
  au_workspace :: "string option"
  au_input_summary :: string
  au_success :: bool
  au_duration_ms :: int
  au_error_code :: "string option"
  au_result_status :: "string option"

definition audit_row :: "string \<Rightarrow> audit_call \<Rightarrow> operation_row" where
  "audit_row op a =
     \<lparr>op_id = ''op_'' @ op, op_workspace = au_workspace a, op_tool = au_tool a,
      op_summary = take 500 (au_input_summary a), op_success = au_success a,
      op_request_id = Some (au_request_id a), op_input_summary = Some (take 500 (au_input_summary a)),
      op_status = (case au_result_status a of
         Some r \<Rightarrow> if r = [] then (if au_success a then ''success'' else ''error'') else r
       | None \<Rightarrow> if au_success a then ''success'' else ''error''),
      op_duration_ms = Some (au_duration_ms a), op_error_code = au_error_code a\<rparr>"

text \<open>\<open>audit_event\<close> swallows every failure of the insert.\<close>

definition audit_event :: "string \<Rightarrow> audit_call \<Rightarrow> operation_row list \<Rightarrow> operation_row list" where
  "audit_event op a table =
     (case log_operation (audit_row op a) table of Inl _ \<Rightarrow> table | Inr table' \<Rightarrow> table')"

subsection \<open>Reading envelopes back\<close>

lemma map_of_with_field:
  "map_of (with_field k v env) k' = (if k' = k then (case v of None \<Rightarrow> map_of env k' | Some j \<Rightarrow> Some j) else map_of env k')"
  by (simp add: with_field_def map_of_update_iff split: option.splits)

lemma env_field_obj: "env_field k (JObj kvs) = (case map_of kvs k of None \<Rightarrow> JNull | Some v \<Rightarrow> v)"
  by (simp add: jget_def dict_get_def)

lemma map_of_dict_merge:
  "k \<notin> set (map fst extra) \<Longrightarrow> map_of (dict_merge d extra) k = map_of d k"
  unfolding dict_merge_def
  by (induction extra arbitrary: d) (auto simp: map_of_update_iff)

lemma ok_result_fields [simp]:
  "env_ok (ok_result fresh r opts)" "env_field ''result'' (ok_result fresh r opts) = r"
  by (simp_all add: env_ok_def ok_result_def Let_def env_field_obj map_of_with_field del: env_field.simps)

lemma error_result_fields [simp]:
  "\<not> env_ok (error_result fresh c msg opts)"
  "''code'' \<notin> set (map fst (eo_extra opts)) \<Longrightarrow> env_code (error_result fresh c msg opts) = c"
  by (simp_all add: env_ok_def env_code_def error_result_def Let_def env_field_obj map_of_with_field
      map_of_dict_merge del: env_field.simps)

end
