(* ===== verification/Path_Guard.thy ===== *)
theory Path_Guard
  imports Py_Strings
begin

text \<open>
  The path guard of \<open>app/services/path_guard.py\<close> with POSIX path syntax.  An absolute path is the
  list of its components below the root.  \<open>Path.resolve\<close> (which follows symbolic links) and
  \<open>Path.exists\<close> are the file system's and are parameters.
\<close>

definition slash :: char where
  "slash = CHR ''/''"

text \<open>The components of \<open>Path(s).parts\<close> without the root: empty and \<open>.\<close> components are dropped.\<close>

definition path_parts :: "string \<Rightarrow> string list" where
  "path_parts s = filter (\<lambda>p. p \<noteq> [] \<and> p \<noteq> ''.'') (py_split slash s)"

definition is_absolute :: "string \<Rightarrow> bool" where
  "is_absolute s = py_startswith s ''/''"

definition default_deny :: "string list" where
  "default_deny = [''.git'', ''.env'', ''.env.local'']"

text \<open>\<open>_deny_set\<close>: the configured names, stripped and lower-cased, blanks dropped.\<close>

definition deny_set :: "string list option \<Rightarrow> string set" where
  "deny_set configured =
     set (map (\<lambda>p. py_lower (py_strip p))
       (filter (\<lambda>p. py_strip p \<noteq> []) (case configured of None \<Rightarrow> default_deny | Some d \<Rightarrow> d)))"

definition resolve_within ::
  "(string list \<Rightarrow> string list) \<Rightarrow> (string list \<Rightarrow> bool) \<Rightarrow> string list \<Rightarrow> string \<Rightarrow> bool \<Rightarrow> string + string list" where
  "resolve_within resolve path_exists worktree relative must_exist =
     (if relative = [] then Inl ''path must be a non-empty relative path''
      else if is_absolute relative \<or> list_ex (\<lambda>part. part = ''..'') (path_parts relative)
        then Inl (''path escapes the workspace: '' @ py_repr relative)
      else
        let base = resolve worktree;
            candidate = resolve (base @ path_parts relative)
        in if \<not> prefix base candidate then Inl (''path escapes the workspace: '' @ py_repr relative)
           else if must_exist \<and> \<not> path_exists candidate
             then Inl (''path does not exist in workspace: '' @ py_repr relative)
           else Inr candidate)"

definition is_denied ::
  "(string list \<Rightarrow> string list) \<Rightarrow> string list option \<Rightarrow> string list \<Rightarrow> string list option \<Rightarrow> bool" where
  "is_denied resolve configured absolute_path base_dir =
     (let parts = (case base_dir of
            None \<Rightarrow> absolute_path
          | Some r \<Rightarrow> (if prefix (resolve r) (resolve absolute_path)
                       then drop (length (resolve r)) (resolve absolute_path) else absolute_path))
      in list_ex (\<lambda>part. py_lower part \<in> deny_set configured) parts)"

lemma resolve_within_inside:
  "resolve_within resolve ex wt rel me = Inr p \<Longrightarrow> prefix (resolve wt) p"
  by (auto simp: resolve_within_def Let_def split: if_splits)

lemma resolve_within_relative:
  "resolve_within resolve ex wt rel me = Inr p \<Longrightarrow> \<not> is_absolute rel \<and> ''..'' \<notin> set (path_parts rel)"
  by (auto simp: resolve_within_def Let_def list_ex_iff split: if_splits)

lemma resolve_within_plain:
  assumes "resolve wt = wt" "resolve (wt @ path_parts rel) = wt @ path_parts rel"
    and "rel \<noteq> []" "\<not> is_absolute rel" "''..'' \<notin> set (path_parts rel)"
  shows "resolve_within resolve ex wt rel False = Inr (wt @ path_parts rel)"
  using assms by (auto simp: resolve_within_def Let_def list_ex_iff)

end
