(* ===== verification/Workspace_Plan.thy ===== *)
theory Workspace_Plan
  imports Envelope Path_Guard
begin

text \<open>
  The workspace plan: the service \<open>app/services/workspace_plan.py\<close> and the plan tables of
  \<open>app/storage/database.py\<close>.  A statement of a transaction is a function on the tables; an
  exception after some statements leaves them changed, and the \<open>rollback\<close> in the handlers puts
  the state of \<open>BEGIN IMMEDIATE\<close> back.  Lookups in other tables and the file system are the
  fields of an environment record.
\<close>

subsection \<open>Exceptions and tables\<close>

datatype plan_error =
    Plan_ValueError string
  | Plan_TypeError string
  | Plan_SqlError string

record plan_row =
  pr_plan_id :: string
  pr_explanation :: string
  pr_revision :: int
  pr_created_at :: string
  pr_updated_at :: string

record step_row =
  sr_step_id :: string
  sr_plan_id :: string
  sr_index :: nat
  sr_text :: string
  sr_status :: string
  sr_evidence :: "json option"
  sr_reason :: json
  sr_created_at :: string
  sr_updated_at :: string

record plan_db =
  pd_workspaces :: "string list"
  pd_plans :: "(string, plan_row) dict"
  pd_steps :: "step_row list"
  pd_audit :: "operation_row list"

record plan_env =
  pe_process :: "string \<Rightarrow> string option"
  pe_artifact :: "string \<Rightarrow> (string \<times> string) option"
  pe_checks :: "string \<Rightarrow> string \<Rightarrow> string list"
  pe_worktree :: "string \<Rightarrow> string list option"
  pe_resolve :: "string list \<Rightarrow> string list"
  pe_is_file :: "string list \<Rightarrow> bool"
  pe_exists :: "string list \<Rightarrow> bool"

subsection \<open>Validation\<close>

definition valid_statuses :: "string list" where
  "valid_statuses = [''pending'', ''in_progress'', ''completed'', ''blocked'', ''cancelled'']"

definition valid_evidence_types :: "string list" where
  "valid_evidence_types = [''process_id'', ''check_id'', ''artifact_id'', ''git_commit'', ''git_diff'', ''file_path'']"

definition hex_digit :: "char \<Rightarrow> bool" where
  "hex_digit c = (c \<in> set ''0123456789abcdef'')"

text \<open>A regular expression \<open>^prefix[0-9a-f]{n}$\<close>; the dollar also matches before one final newline.\<close>

definition chomp :: "string \<Rightarrow> string" where
  "chomp s = (if s \<noteq> [] \<and> last s = newline then butlast s else s)"

definition hex_id :: "string \<Rightarrow> nat \<Rightarrow> string \<Rightarrow> bool" where
  "hex_id pre n s =
     (prefix pre s \<and> list_all hex_digit (drop (length pre) s) \<and> length (drop (length pre) s) = n)"

definition canonical_process_id :: "string \<Rightarrow> bool" where
  "canonical_process_id s = (hex_id ''pr-'' 8 s \<or> hex_id ''pr-'' 8 (chomp s))"

definition canonical_artifact_id :: "string \<Rightarrow> bool" where
  "canonical_artifact_id s =
     (hex_id ''artifact-'' 16 s \<or> hex_id ''artifact-'' 16 (chomp s) \<or>
      hex_id ''artifact_'' 16 s \<or> hex_id ''artifact_'' 16 (chomp s))"

text \<open>\<open>x not in frozenset\<close> raises on an unhashable value (a list or an object).\<close>

fun hashable :: "json \<Rightarrow> bool" where
  "hashable (JArr _) = False"
| "hashable (JObj _) = False"
| "hashable _ = True"

text \<open>\<open>repr\<close> of a hashable value (the digits of a float are not modelled).\<close>

fun scalar_repr :: "json \<Rightarrow> string" where
  "scalar_repr (JStr s) = py_repr s"
| "scalar_repr (JInt i) = py_str_int i"
| "scalar_repr (JBool b) = (if b then ''True'' else ''False'')"
| "scalar_repr JNull = ''None''"
| "scalar_repr _ = ''float''"

definition status_message :: "string \<Rightarrow> string" where
  "status_message got = '' must be one of ['' @ py_join '', '' (map py_repr (sort valid_statuses)) @ ''], got: '' @ got"

definition validate_step :: "json \<Rightarrow> plan_error + string option" where
  "validate_step step =
     (case step of
        JObj kvs \<Rightarrow>
          let sid = jget kvs ''id'' (JStr []); text = jget kvs ''text'' (JStr []);
              status = jget kvs ''status'' (JStr ''pending'')
          in if \<not> truthy sid \<or> \<not> is_jstr sid
               then Inr (Some ''step.id is required and must be a non-empty string'')
             else if \<not> truthy text \<or> \<not> is_jstr text
               then Inr (Some ''step.text is required and must be a non-empty string'')
             else if \<not> hashable status then Inl (Plan_TypeError ''unhashable type'')
             else if \<not> is_jstr status \<or> jstr status \<notin> set valid_statuses
               then Inr (Some (''step.status'' @ status_message (scalar_repr status)))
             else Inr None
      | _ \<Rightarrow> Inr (Some ''each step must be a dict''))"

definition resolve_evidence_path :: "plan_env \<Rightarrow> string list \<Rightarrow> string \<Rightarrow> bool \<Rightarrow> string + string list" where
  "resolve_evidence_path env worktree rel must_exist =
     resolve_within (pe_resolve env) (pe_exists env) worktree rel must_exist"

definition validate_evidence_item :: "plan_env \<Rightarrow> string \<Rightarrow> json \<Rightarrow> plan_error option" where
  "validate_evidence_item env ws item =
     (case item of
        JObj kvs \<Rightarrow>
          let t = jget kvs ''type'' JNull; i = jget kvs ''id'' JNull in
          if \<not> hashable t then Some (Plan_TypeError ''unhashable type'')
          else if \<not> is_jstr t \<or> jstr t \<notin> set valid_evidence_types \<or> \<not> is_jstr i
            then Some (Plan_ValueError ''evidence items require a supported type and non-empty string id'')
          else if jstr t = ''process_id'' \<and> canonical_process_id (jstr i) \<and> pe_process env (jstr i) = None
            then Some (Plan_ValueError (''process evidence not found: '' @ jstr i))
          else if jstr t = ''process_id'' \<and> canonical_process_id (jstr i) \<and> pe_process env (jstr i) \<noteq> Some ws
            then Some (Plan_ValueError (''process evidence belongs to another workspace: '' @ jstr i))
          else if jstr t = ''artifact_id'' \<and> canonical_artifact_id (jstr i) \<and> pe_artifact env (jstr i) = None
            then Some (Plan_ValueError (''artifact evidence not found: '' @ jstr i))
          else if jstr t = ''artifact_id'' \<and> canonical_artifact_id (jstr i)
                  \<and> map_option fst (pe_artifact env (jstr i)) \<noteq> Some ws
            then Some (Plan_ValueError (''artifact evidence belongs to another workspace: '' @ jstr i))
          else if jstr t = ''file_path'' then
            (case pe_worktree env ws of
               None \<Rightarrow> Some (Plan_ValueError (''workspace not found: '' @ ws))
             | Some wt \<Rightarrow>
                 (case resolve_evidence_path env wt (jstr i) False of
                    Inl msg \<Rightarrow> Some (Plan_ValueError msg)
                  | Inr _ \<Rightarrow> None))
          else None
      | _ \<Rightarrow> Some (Plan_ValueError ''each evidence item must be an object''))"

fun validate_evidence_items :: "plan_env \<Rightarrow> string \<Rightarrow> json list \<Rightarrow> plan_error option" where
  "validate_evidence_items env ws [] = None"
| "validate_evidence_items env ws (item # items) =
     (case validate_evidence_item env ws item of
        Some e \<Rightarrow> Some e
      | None \<Rightarrow> validate_evidence_items env ws items)"

fun validate_evidence :: "plan_env \<Rightarrow> string \<Rightarrow> json \<Rightarrow> plan_error option" where
  "validate_evidence env ws JNull = None"
| "validate_evidence env ws (JArr items) = validate_evidence_items env ws items"
| "validate_evidence env ws _ = Some (Plan_ValueError ''evidence must be a list'')"

subsection \<open>The plan tables\<close>

type_synonym 'a plan_txn = "plan_db \<times> (plan_error + 'a)"

definition plan_steps_of :: "string \<Rightarrow> step_row list \<Rightarrow> step_row list" where
  "plan_steps_of plan_id rows = filter (\<lambda>r. sr_plan_id r = plan_id) rows"

text \<open>Binding a value to a TEXT parameter: a list or a dict is not supported by \<open>sqlite3\<close>.\<close>

definition bindable :: "json \<Rightarrow> bool" where
  "bindable j = hashable j"

definition step_row_of :: "string \<Rightarrow> string \<Rightarrow> nat \<Rightarrow> (string \<times> json) list \<Rightarrow> step_row" where
  "step_row_of plan_id now i kvs =
     (let evidence = jget kvs ''evidence'' JNull in
      \<lparr>sr_step_id = jstr (jget kvs ''id'' JNull), sr_plan_id = plan_id, sr_index = i,
       sr_text = jstr (jget kvs ''text'' JNull),
       sr_status = jstr (jget kvs ''status'' (JStr ''pending'')),
       sr_evidence = (if truthy evidence then Some evidence else None),
       sr_reason = jget kvs ''blocked_reason'' JNull,
       sr_created_at = now, sr_updated_at = now\<rparr>)"

fun obj_fields :: "json \<Rightarrow> (string \<times> json) list" where
  "obj_fields (JObj kvs) = kvs"
| "obj_fields _ = []"

text \<open>The insert loop, one statement per step.\<close>

fun insert_steps :: "string \<Rightarrow> string \<Rightarrow> nat \<Rightarrow> json list \<Rightarrow> plan_db \<Rightarrow> unit plan_txn" where
  "insert_steps plan_id now i [] db = (db, Inr ())"
| "insert_steps plan_id now i (step # steps) db =
     (let row = step_row_of plan_id now i (obj_fields step) in
      if \<not> bindable (sr_reason row) then (db, Inl (Plan_SqlError ''type is not supported''))
      else if (plan_id, sr_step_id row) \<in> set (map (\<lambda>r. (sr_plan_id r, sr_step_id r)) (pd_steps db))
        then (db, Inl (Plan_SqlError ''UNIQUE constraint failed''))
      else insert_steps plan_id now (Suc i) steps (db\<lparr>pd_steps := pd_steps db @ [row]\<rparr>))"

definition write_steps :: "string \<Rightarrow> string \<Rightarrow> json list \<Rightarrow> int \<Rightarrow> plan_db \<Rightarrow> int plan_txn" where
  "write_steps plan_id now steps revision db =
     (case insert_steps plan_id now 0 steps
             (db\<lparr>pd_steps := filter (\<lambda>r. sr_plan_id r \<noteq> plan_id) (pd_steps db)\<rparr>) of
        (db', Inl e) \<Rightarrow> (db', Inl e)
      | (db', Inr _) \<Rightarrow> (db', Inr revision))"

definition conflict_message :: "int \<Rightarrow> int \<Rightarrow> string" where
  "conflict_message expected current =
     ''plan revision conflict: expected '' @ py_str_int expected @ '', current is '' @ py_str_int current"

definition replace_plan_body ::
  "string \<Rightarrow> string \<Rightarrow> string \<Rightarrow> string \<Rightarrow> json list \<Rightarrow> int option \<Rightarrow> plan_db \<Rightarrow> int plan_txn" where
  "replace_plan_body fresh_id now ws explanation steps expected db =
     (case map_of (pd_plans db) ws of
        None \<Rightarrow>
          (case expected of
             Some _ \<Rightarrow> (db, Inl (Plan_ValueError ''expected_revision must be omitted when creating a plan''))
           | None \<Rightarrow>
               if ws \<notin> set (pd_workspaces db) then (db, Inl (Plan_SqlError ''FOREIGN KEY constraint failed''))
               else if fresh_id \<in> set (map (\<lambda>p. pr_plan_id (snd p)) (pd_plans db))
                 then (db, Inl (Plan_SqlError ''UNIQUE constraint failed''))
               else write_steps fresh_id now steps 1
                      (db\<lparr>pd_plans := AList.update ws
                        \<lparr>pr_plan_id = fresh_id, pr_explanation = explanation, pr_revision = 1,
                         pr_created_at = now, pr_updated_at = now\<rparr> (pd_plans db)\<rparr>))
      | Some row \<Rightarrow>
          (case expected of
             None \<Rightarrow> (db, Inl (Plan_ValueError ''expected_revision is required when updating an existing plan''))
           | Some e \<Rightarrow>
               if pr_revision row \<noteq> e then (db, Inl (Plan_ValueError (conflict_message e (pr_revision row))))
               else write_steps (pr_plan_id row) now steps (pr_revision row + 1)
                      (db\<lparr>pd_plans := AList.update ws
                        (row\<lparr>pr_explanation := explanation, pr_revision := pr_revision row + 1, pr_updated_at := now\<rparr>)
                        (pd_plans db)\<rparr>)))"

definition replace_plan ::
  "string \<Rightarrow> string \<Rightarrow> string \<Rightarrow> string \<Rightarrow> json list \<Rightarrow> int option \<Rightarrow> plan_db \<Rightarrow> int plan_txn" where
  "replace_plan fresh_id now ws explanation steps expected =
     transact (replace_plan_body fresh_id now ws explanation steps expected)"

definition set_step :: "string \<Rightarrow> string \<Rightarrow> string \<Rightarrow> json option \<Rightarrow> json \<Rightarrow> string \<Rightarrow> step_row \<Rightarrow> step_row" where
  "set_step plan_id step_id status evidence reason now r =
     (if sr_plan_id r = plan_id \<and> sr_step_id r = step_id
      then r\<lparr>sr_status := status, sr_evidence := evidence, sr_reason := reason, sr_updated_at := now\<rparr> else r)"

definition busy_message :: "step_row \<Rightarrow> string" where
  "busy_message other = ''step '' @ py_repr (sr_step_id other)
     @ '' is already 'in_progress'; mark it completed or blocked first''"

definition update_step_body ::
  "string \<Rightarrow> string \<Rightarrow> string \<Rightarrow> string \<Rightarrow> json option \<Rightarrow> json \<Rightarrow> int option \<Rightarrow> plan_db \<Rightarrow> int plan_txn" where
  "update_step_body now ws step_id status evidence reason expected db =
     (case map_of (pd_plans db) ws of
        None \<Rightarrow> (db, Inl (Plan_ValueError ''plan not found''))
      | Some row \<Rightarrow>
          let mine = plan_steps_of (pr_plan_id row) (pd_steps db) in
          if step_id \<notin> set (map sr_step_id mine)
            then (db, Inl (Plan_ValueError (''step not found: '' @ py_repr step_id)))
          else if status = ''in_progress''
                  \<and> list_ex (\<lambda>r. sr_status r = ''in_progress'' \<and> sr_step_id r \<noteq> step_id) mine
            then (db, Inl (Plan_ValueError (busy_message
                   (hd (filter (\<lambda>r. sr_status r = ''in_progress'' \<and> sr_step_id r \<noteq> step_id) mine)))))
          else
            let write = (\<lambda>db' revision.
                  if \<not> bindable reason then (db', Inl (Plan_SqlError ''type is not supported''))
                  else (db'\<lparr>pd_steps := map (set_step (pr_plan_id row) step_id status evidence reason now) (pd_steps db')\<rparr>,
                        Inr revision))
            in case expected of
                 None \<Rightarrow> write db (pr_revision row)
               | Some e \<Rightarrow>
                   if pr_revision row \<noteq> e then (db, Inl (Plan_ValueError (conflict_message e (pr_revision row))))
                   else write (db\<lparr>pd_plans := AList.update ws
                           (row\<lparr>pr_revision := pr_revision row + 1, pr_updated_at := now\<rparr>) (pd_plans db)\<rparr>)
                         (pr_revision row + 1))"

definition update_plan_step_with_revision ::
  "string \<Rightarrow> string \<Rightarrow> string \<Rightarrow> string \<Rightarrow> json option \<Rightarrow> json \<Rightarrow> int option \<Rightarrow> plan_db \<Rightarrow> int plan_txn" where
  "update_plan_step_with_revision now ws step_id status evidence reason expected =
     transact (update_step_body now ws step_id status evidence reason expected)"

definition get_plan_steps :: "string \<Rightarrow> plan_db \<Rightarrow> step_row list" where
  "get_plan_steps ws db =
     (case map_of (pd_plans db) ws of
        None \<Rightarrow> []
      | Some row \<Rightarrow> sort_key sr_index (plan_steps_of (pr_plan_id row) (pd_steps db)))"

subsection \<open>The plan a client reads\<close>

record step_view =
  sv_id :: string
  sv_text :: string
  sv_status :: string
  sv_evidence :: json
  sv_evidence_status :: "(json \<times> json \<times> string) list option"
  sv_blocked_reason :: "json option"
  sv_created_at :: string
  sv_updated_at :: string

record plan_view =
  pv_plan_id :: string
  pv_explanation :: string
  pv_revision :: int
  pv_created_at :: string
  pv_updated_at :: string
  pv_steps :: "step_view list"

text \<open>The freshness of one evidence item: its type, its id and the status word.\<close>

definition evidence_status :: "plan_env \<Rightarrow> string \<Rightarrow> json \<Rightarrow> json \<times> json \<times> string" where
  "evidence_status env ws item =
     (case item of
        JObj kvs \<Rightarrow>
          let t = jget kvs ''type'' JNull; i = jget kvs ''id'' JNull; n = jstr i in
          (t, i,
           if \<not> is_jstr t \<or> jstr t \<notin> set valid_evidence_types \<or> \<not> is_jstr i then ''invalid''
           else if jstr t = ''process_id'' then
             (case pe_process env n of
                None \<Rightarrow> if \<not> canonical_process_id n then ''unresolved'' else ''stale''
              | Some w \<Rightarrow> if w \<noteq> ws then ''cross_workspace'' else ''available'')
           else if jstr t = ''artifact_id'' then
             (case pe_artifact env n of
                None \<Rightarrow> if \<not> canonical_artifact_id n then ''unresolved'' else ''stale''
              | Some (w, status) \<Rightarrow> if w \<noteq> ws then ''cross_workspace'' else status)
           else if jstr t = ''check_id'' then
             (if pe_checks env ws n = [] then ''unresolved''
              else if ''passed'' \<in> set (pe_checks env ws n) then ''available'' else ''stale'')
           else if jstr t = ''file_path'' then
             (case pe_worktree env ws of
                None \<Rightarrow> ''stale''
              | Some wt \<Rightarrow> (case resolve_evidence_path env wt n True of
                    Inl _ \<Rightarrow> ''invalid''
                  | Inr p \<Rightarrow> if pe_is_file env p then ''available'' else ''stale''))
           else if py_strip n \<noteq> [] then ''available'' else ''invalid'')
      | _ \<Rightarrow> (JNull, JNull, ''invalid''))"

definition evidence_statuses :: "plan_env \<Rightarrow> string \<Rightarrow> json \<Rightarrow> (json \<times> json \<times> string) list" where
  "evidence_statuses env ws evidence =
     (case evidence of JArr items \<Rightarrow> map (evidence_status env ws) items | _ \<Rightarrow> [(JNull, JNull, ''invalid'')])"

definition view_step :: "plan_env \<Rightarrow> string \<Rightarrow> step_row \<Rightarrow> step_view" where
  "view_step env ws r =
     \<lparr>sv_id = sr_step_id r, sv_text = sr_text r, sv_status = sr_status r,
      sv_evidence = (case sr_evidence r of None \<Rightarrow> JArr [] | Some e \<Rightarrow> e),
      sv_evidence_status = map_option (evidence_statuses env ws) (sr_evidence r),
      sv_blocked_reason = (if truthy (sr_reason r) then Some (sr_reason r) else None),
      sv_created_at = sr_created_at r, sv_updated_at = sr_updated_at r\<rparr>"

definition get_plan :: "plan_env \<Rightarrow> string \<Rightarrow> plan_db \<Rightarrow> plan_view option" where
  "get_plan env ws db =
     map_option (\<lambda>row.
       \<lparr>pv_plan_id = pr_plan_id row, pv_explanation = pr_explanation row, pv_revision = pr_revision row,
        pv_created_at = pr_created_at row, pv_updated_at = pr_updated_at row,
        pv_steps = map (view_step env ws) (get_plan_steps ws db)\<rparr>)
     (map_of (pd_plans db) ws)"

subsection \<open>The service operations\<close>

text \<open>The validation loop of \<open>update_plan\<close>: shape, evidence and uniqueness of each step in turn.\<close>

fun check_steps :: "plan_env \<Rightarrow> string \<Rightarrow> nat \<Rightarrow> string list \<Rightarrow> json list \<Rightarrow> plan_error option" where
  "check_steps env ws i seen [] = None"
| "check_steps env ws i seen (step # steps) =
     (case validate_step step of
        Inl e \<Rightarrow> Some e
      | Inr (Some err) \<Rightarrow> Some (Plan_ValueError (''step '' @ nat_str i @ '': '' @ err))
      | Inr None \<Rightarrow>
          (case validate_evidence env ws (jget (obj_fields step) ''evidence'' JNull) of
             Some e \<Rightarrow> Some e
           | None \<Rightarrow>
               let sid = jstr (jget (obj_fields step) ''id'' JNull) in
               if sid \<in> set seen then Some (Plan_ValueError (''duplicate step id: '' @ py_repr sid))
               else check_steps env ws (Suc i) (sid # seen) steps))"

definition step_status :: "json \<Rightarrow> string" where
  "step_status step = jstr (jget (obj_fields step) ''status'' (JStr ''pending''))"

definition check_plan :: "plan_env \<Rightarrow> string \<Rightarrow> string \<Rightarrow> json list \<Rightarrow> plan_error option" where
  "check_plan env ws explanation steps =
     (if py_strip explanation = [] then Some (Plan_ValueError ''explanation must be a non-empty string'')
      else if steps = [] then Some (Plan_ValueError ''steps must be a non-empty list'')
      else if length steps > 50 then Some (Plan_ValueError ''steps must have at most 50 entries'')
      else case check_steps env ws 0 [] steps of
             Some e \<Rightarrow> Some e
           | None \<Rightarrow>
               let n = length (filter (\<lambda>s. step_status s = ''in_progress'') steps) in
               if n > 1 then Some (Plan_ValueError (''at most one step can be 'in_progress', found '' @ nat_str n))
               else None)"

text \<open>The audit row is written after the commit; a taken operation id raises then.\<close>

definition audit_plan :: "operation_row \<Rightarrow> plan_db \<Rightarrow> unit plan_txn" where
  "audit_plan row db =
     (case log_operation row (pd_audit db) of
        Inl msg \<Rightarrow> (db, Inl (Plan_SqlError msg))
      | Inr table \<Rightarrow> (db\<lparr>pd_audit := table\<rparr>, Inr ()))"

record call_ids =
  ci_plan_id :: string
  ci_operation_id :: string
  ci_request_id :: string
  ci_now :: string
  ci_duration_ms :: int

definition plan_audit_row :: "call_ids \<Rightarrow> string \<Rightarrow> string \<Rightarrow> string \<Rightarrow> string \<Rightarrow> operation_row" where
  "plan_audit_row c ws tool summary input =
     \<lparr>op_id = ci_operation_id c, op_workspace = Some ws, op_tool = tool, op_summary = summary, op_success = True,
      op_request_id = Some (ci_request_id c), op_input_summary = Some input, op_status = ''success'',
      op_duration_ms = Some (ci_duration_ms c), op_error_code = None\<rparr>"

definition update_plan ::
  "plan_env \<Rightarrow> call_ids \<Rightarrow> string \<Rightarrow> string \<Rightarrow> json list \<Rightarrow> int option \<Rightarrow> plan_db \<Rightarrow> plan_view option plan_txn" where
  "update_plan env c ws explanation steps expected db =
     (case check_plan env ws explanation steps of
        Some e \<Rightarrow> (db, Inl e)
      | None \<Rightarrow>
          let existing = map_of (pd_plans db) ws in
          case replace_plan (ci_plan_id c) (ci_now c) ws explanation steps expected db of
            (db1, Inl e) \<Rightarrow> (db1, Inl e)
          | (db1, Inr revision) \<Rightarrow>
              let summary = ''plan '' @ (if existing \<noteq> None then ''updated'' else ''created'') @ '': ''
                              @ nat_str (length steps) @ '' steps'' in
              case audit_plan (plan_audit_row c ws ''update_workspace_plan'' summary
                     (''steps='' @ nat_str (length steps))) db1 of
                (db2, Inl e) \<Rightarrow> (db2, Inl e)
              | (db2, Inr _) \<Rightarrow> (db2, Inr (get_plan env ws db2)))"

definition json_list :: "json list option \<Rightarrow> json" where
  "json_list xs = (case xs of None \<Rightarrow> JNull | Some ys \<Rightarrow> JArr ys)"

definition step_input :: "string \<Rightarrow> string \<Rightarrow> json list option \<Rightarrow> string" where
  "step_input step_id status evidence =
     ''step_id='' @ py_repr step_id @ '' status='' @ py_repr status @ '' evidence_count=''
      @ nat_str (case evidence of None \<Rightarrow> 0 | Some items \<Rightarrow> length items)"

definition update_step_status ::
  "plan_env \<Rightarrow> call_ids \<Rightarrow> string \<Rightarrow> string \<Rightarrow> string \<Rightarrow> json list option \<Rightarrow> string option \<Rightarrow> int option \<Rightarrow> plan_db
    \<Rightarrow> (plan_view option \<times> int) plan_txn" where
  "update_step_status env c ws step_id status evidence blocked_reason expected db =
     (if status \<notin> set valid_statuses then (db, Inl (Plan_ValueError (''status'' @ status_message (py_repr status))))
      else case validate_evidence env ws (json_list evidence) of
        Some e \<Rightarrow> (db, Inl e)
      | None \<Rightarrow>
          (if map_of (pd_plans db) ws = None then (db, Inl (Plan_ValueError ''plan not found''))
           else case find (\<lambda>r. sr_step_id r = step_id) (get_plan_steps ws db) of
             None \<Rightarrow> (db, Inl (Plan_ValueError (''step not found: '' @ py_repr step_id)))
           | Some found \<Rightarrow>
               let evidence' = (case evidence of Some items \<Rightarrow> Some (JArr items) | None \<Rightarrow> sr_evidence found);
                   reason = (case blocked_reason of Some r \<Rightarrow> JStr r | None \<Rightarrow> sr_reason found)
               in case update_plan_step_with_revision (ci_now c) ws step_id status evidence' reason expected db of
                    (db1, Inl e) \<Rightarrow> (db1, Inl e)
                  | (db1, Inr revision) \<Rightarrow>
                      (case audit_plan (plan_audit_row c ws ''update_workspace_plan_step''
                              (''plan step '' @ step_id @ '' changed to '' @ status)
                              (step_input step_id status evidence)) db1 of
                         (db2, Inl e) \<Rightarrow> (db2, Inl e)
                       | (db2, Inr _) \<Rightarrow> (db2, Inr (get_plan env ws db2, revision)))))"

subsection \<open>The tools\<close>

datatype 'r reply = Reply_ok 'r | Reply_error string string

text \<open>\<open>ValueError\<close> becomes an error reply, anything else escapes the handler.\<close>

definition plan_code :: "string \<Rightarrow> string" where
  "plan_code msg = (if py_contains ''revision conflict'' msg then ''PLAN_REVISION_CONFLICT'' else ''INVALID_INPUT'')"

definition failed_audit :: "call_ids \<Rightarrow> string \<Rightarrow> string \<Rightarrow> string \<Rightarrow> string \<Rightarrow> plan_db \<Rightarrow> plan_db" where
  "failed_audit c tool ws input code db =
     db\<lparr>pd_audit := audit_event (ci_operation_id c)
       \<lparr>au_tool = tool, au_request_id = ci_request_id c, au_workspace = Some ws, au_input_summary = input,
        au_success = False, au_duration_ms = ci_duration_ms c, au_error_code = Some code, au_result_status = None\<rparr>
       (pd_audit db)\<rparr>"

definition answer_plan :: "call_ids \<Rightarrow> string \<Rightarrow> string \<Rightarrow> string \<Rightarrow> 'a plan_txn \<Rightarrow> plan_db \<times> (plan_error + 'a reply)" where
  "answer_plan c tool ws input r =
     (case r of
        (db, Inr x) \<Rightarrow> (db, Inr (Reply_ok x))
      | (db, Inl (Plan_ValueError msg)) \<Rightarrow>
          (failed_audit c tool ws input (plan_code msg) db, Inr (Reply_error (plan_code msg) msg))
      | (db, Inl e) \<Rightarrow> (db, Inl e))"

definition get_workspace_plan_tool :: "plan_env \<Rightarrow> string \<Rightarrow> plan_db \<Rightarrow> plan_view option reply" where
  "get_workspace_plan_tool env ws db =
     (if ws \<notin> set (pd_workspaces db) then Reply_error ''WORKSPACE_NOT_FOUND'' (''workspace not found: '' @ ws)
      else Reply_ok (get_plan env ws db))"

definition update_workspace_plan_tool ::
  "plan_env \<Rightarrow> call_ids \<Rightarrow> string \<Rightarrow> string \<Rightarrow> json list \<Rightarrow> int option \<Rightarrow> plan_db
    \<Rightarrow> plan_db \<times> (plan_error + plan_view option reply)" where
  "update_workspace_plan_tool env c ws explanation steps expected db =
     (let input = ''steps='' @ nat_str (length steps) in
      if ws \<notin> set (pd_workspaces db)
      then (failed_audit c ''update_workspace_plan'' ws input ''WORKSPACE_NOT_FOUND'' db,
            Inr (Reply_error ''WORKSPACE_NOT_FOUND'' (''workspace not found: '' @ ws)))
      else answer_plan c ''update_workspace_plan'' ws input (update_plan env c ws explanation steps expected db))"

definition update_workspace_plan_step_tool ::
  "plan_env \<Rightarrow> call_ids \<Rightarrow> string \<Rightarrow> string \<Rightarrow> string \<Rightarrow> json list option \<Rightarrow> string option \<Rightarrow> int option \<Rightarrow> plan_db
    \<Rightarrow> plan_db \<times> (plan_error + (plan_view option \<times> int) reply)" where
  "update_workspace_plan_step_tool env c ws step_id status evidence blocked_reason expected db =
     (let input = step_input step_id status evidence in
      if ws \<notin> set (pd_workspaces db)
      then (failed_audit c ''update_workspace_plan_step'' ws input ''WORKSPACE_NOT_FOUND'' db,
            Inr (Reply_error ''WORKSPACE_NOT_FOUND'' (''workspace not found: '' @ ws)))
      else answer_plan c ''update_workspace_plan_step'' ws input
             (update_step_status env c ws step_id status evidence blocked_reason expected db))"

end
