(* ===== verification/Plan_Safety.thy ===== *)
theory Plan_Safety
  imports Workspace_Plan
begin

text \<open>
  Correctness of the workspace plan: what a successful update stores, that a failed one stores
  nothing, the invariant of the plan tables over all histories, and freedom from lost updates,
  proved once for every store with optimistic revisions.
\<close>

subsection \<open>Stores with optimistic revisions\<close>

text \<open>
  A write names the revision it was based on and is accepted only when that is still the current
  one, which it then increments.
\<close>

locale revisioned_store =
  fixes revision :: "'s \<Rightarrow> 'k \<Rightarrow> int option"
    and put :: "'k \<Rightarrow> 'w \<Rightarrow> int \<Rightarrow> 's \<Rightarrow> 's option"
  assumes accepted: "put k w r s = Some s' \<Longrightarrow> revision s k = Some r \<and> revision s' k = Some (r + 1)"
    and untouched: "put k w r s = Some s' \<Longrightarrow> k' \<noteq> k \<Longrightarrow> revision s' k' = revision s k'"
begin

text \<open>The revisions that a run of writers, all of them based on revision \<open>r\<close>, gets accepted.\<close>

fun attempts :: "int \<Rightarrow> ('k \<times> 'w) list \<Rightarrow> 's \<Rightarrow> 's \<times> ('k \<times> 'w) list" where
  "attempts r [] s = (s, [])"
| "attempts r ((k, w) # ws) s =
     (case put k w r s of
        None \<Rightarrow> attempts r ws s
      | Some s' \<Rightarrow> (let (s'', won) = attempts r ws s' in (s'', (k, w) # won)))"

lemma stale_never_wins:
  assumes "revision s k = Some r'" "r < r'" "attempts r ws s = (s', won)"
  shows "(\<forall>(k', w)\<in>set won. k' \<noteq> k) \<and> revision s' k = Some r'"
  using assms
proof (induction ws arbitrary: s s' won)
  case (Cons kw ws)
  obtain k1 w1 where kw: "kw = (k1, w1)" by (cases kw)
  show ?case
  proof (cases "put k1 w1 r s")
    case None
    with Cons kw show ?thesis by simp
  next
    case (Some s1)
    then have "k1 \<noteq> k" using accepted [OF Some] Cons.prems(1,2) by auto
    moreover have "revision s1 k = Some r'" using untouched [OF Some] \<open>k1 \<noteq> k\<close> Cons.prems(1) by simp
    moreover obtain s2 won2 where a: "attempts r ws s1 = (s2, won2)" by (cases "attempts r ws s1")
    ultimately have "(\<forall>(k', w)\<in>set won2. k' \<noteq> k) \<and> revision s2 k = Some r'"
      using Cons.IH [OF _ Cons.prems(2) a] by simp
    moreover have "won = (k1, w1) # won2" "s' = s2" using Cons.prems(3) kw Some a by simp_all
    ultimately show ?thesis using \<open>k1 \<noteq> k\<close> by simp
  qed
qed simp

lemma one_winner:
  assumes "attempts r ws s = (s', won)"
  shows "length (filter (\<lambda>kw. fst kw = k) won) \<le> 1"
  using assms
proof (induction ws arbitrary: s s' won)
  case (Cons kw ws)
  obtain k1 w1 where kw: "kw = (k1, w1)" by (cases kw)
  show ?case
  proof (cases "put k1 w1 r s")
    case None
    with Cons kw show ?thesis by simp
  next
    case (Some s1)
    obtain s2 won2 where a: "attempts r ws s1 = (s2, won2)" by (cases "attempts r ws s1")
    have "filter (\<lambda>kw. fst kw = k1) won2 = []"
      using stale_never_wins [of s1 k1 "r + 1" r ws s2 won2] accepted [OF Some] a by (auto simp: filter_empty_conv)
    then show ?thesis using Cons.IH [OF a] Cons.prems kw Some a by auto
  qed
qed simp

end

subsection \<open>The statements of the transactions\<close>

definition rows_from :: "string \<Rightarrow> string \<Rightarrow> nat \<Rightarrow> json list \<Rightarrow> step_row list" where
  "rows_from plan_id now i steps = map (\<lambda>(j, s). step_row_of plan_id now j (obj_fields s)) (enumerate i steps)"

lemma rows_from_simps [simp]:
  "rows_from plan_id now i [] = []"
  "rows_from plan_id now i (s # steps) = step_row_of plan_id now i (obj_fields s) # rows_from plan_id now (Suc i) steps"
  by (simp_all add: rows_from_def)

lemma step_row_of_fields [simp]:
  "sr_plan_id (step_row_of plan_id now i kvs) = plan_id" "sr_index (step_row_of plan_id now i kvs) = i"
  by (simp_all add: step_row_of_def Let_def)

lemma rows_from_index: "map sr_index (rows_from plan_id now i steps) = [i..<i + length steps]"
  by (simp add: rows_from_def comp_def split_def flip: map_fst_enumerate)

lemma rows_from_plan: "r \<in> set (rows_from plan_id now i steps) \<Longrightarrow> sr_plan_id r = plan_id"
  by (auto simp: rows_from_def)

lemma insert_steps_ok:
  assumes "insert_steps plan_id now i steps db = (db', Inr u)"
  shows "db' = db\<lparr>pd_steps := pd_steps db @ rows_from plan_id now i steps\<rparr>
    \<and> distinct (map sr_step_id (rows_from plan_id now i steps))
    \<and> (\<forall>r\<in>set (rows_from plan_id now i steps). (plan_id, sr_step_id r) \<notin> (\<lambda>r. (sr_plan_id r, sr_step_id r)) ` set (pd_steps db))"
  using assms
proof (induction steps arbitrary: i db)
  case (Cons s steps)
  let ?row = "step_row_of plan_id now i (obj_fields s)"
  from Cons.prems have new: "(plan_id, sr_step_id ?row) \<notin> (\<lambda>r. (sr_plan_id r, sr_step_id r)) ` set (pd_steps db)"
    and rest: "insert_steps plan_id now (Suc i) steps (db\<lparr>pd_steps := pd_steps db @ [?row]\<rparr>) = (db', Inr u)"
    by (simp_all add: Let_def split: if_splits)
  from Cons.IH [OF rest] new show ?case by (fastforce simp: image_iff)
qed simp

lemma insert_steps_frame:
  "insert_steps plan_id now i steps db = (db', r) \<Longrightarrow> pd_plans db' = pd_plans db \<and> pd_audit db' = pd_audit db \<and> pd_workspaces db' = pd_workspaces db"
proof (induction steps arbitrary: i db)
  case (Cons s steps)
  then show ?case by (fastforce simp: Let_def split: if_splits)
qed simp

lemma write_steps_ok:
  assumes "write_steps plan_id now steps revision db = (db', Inr rev')"
  shows "rev' = revision \<and> distinct (map sr_step_id (rows_from plan_id now 0 steps)) \<and>
    db' = db\<lparr>pd_steps := filter (\<lambda>r. sr_plan_id r \<noteq> plan_id) (pd_steps db) @ rows_from plan_id now 0 steps\<rparr>"
  using assms by (auto simp: write_steps_def dest!: insert_steps_ok split: prod.splits sum.splits)

text \<open>What a successful \<open>replace_plan\<close> does, in one equation per case.\<close>

definition stored_plan :: "string \<Rightarrow> string \<Rightarrow> string \<Rightarrow> string \<Rightarrow> json list \<Rightarrow> plan_row \<Rightarrow> plan_db \<Rightarrow> plan_db" where
  "stored_plan ws explanation now plan_id steps row db =
     db\<lparr>pd_plans := AList.update ws row (pd_plans db),
        pd_steps := filter (\<lambda>r. sr_plan_id r \<noteq> plan_id) (pd_steps db) @ rows_from plan_id now 0 steps\<rparr>"

lemma replace_plan_ok:
  assumes "replace_plan fresh_id now ws explanation steps expected db = (db', Inr rv)"
  obtains (created) "map_of (pd_plans db) ws = None" "expected = None" "rv = 1" "ws \<in> set (pd_workspaces db)"
      "fresh_id \<notin> (\<lambda>p. pr_plan_id (snd p)) ` set (pd_plans db)"
      "db' = stored_plan ws explanation now fresh_id steps
         \<lparr>pr_plan_id = fresh_id, pr_explanation = explanation, pr_revision = 1, pr_created_at = now, pr_updated_at = now\<rparr> db"
      "distinct (map sr_step_id (rows_from fresh_id now 0 steps))"
  | (updated) row where "map_of (pd_plans db) ws = Some row" "expected = Some (pr_revision row)" "rv = pr_revision row + 1"
      "db' = stored_plan ws explanation now (pr_plan_id row) steps
         (row\<lparr>pr_explanation := explanation, pr_revision := pr_revision row + 1, pr_updated_at := now\<rparr>) db"
      "distinct (map sr_step_id (rows_from (pr_plan_id row) now 0 steps))"
proof -
  from assms have body: "replace_plan_body fresh_id now ws explanation steps expected db = (db', Inr rv)"
    by (auto simp: replace_plan_def transact_def split: prod.splits sum.splits)
  show thesis
  proof (cases "map_of (pd_plans db) ws")
    case None
    show thesis
      by (rule created)
        (use body None in \<open>auto simp: replace_plan_body_def stored_plan_def dest!: write_steps_ok split: option.splits if_splits\<close>)
  next
    case (Some row)
    show thesis
      by (rule updated [of row])
        (use body Some in \<open>auto simp: replace_plan_body_def stored_plan_def dest!: write_steps_ok split: option.splits if_splits\<close>)
  qed
qed

lemma update_step_ok:
  assumes "update_plan_step_with_revision now ws step_id status evidence reason expected db = (db', Inr rv)"
  obtains row plans where "map_of (pd_plans db) ws = Some row"
    "db' = db\<lparr>pd_plans := plans, pd_steps := map (set_step (pr_plan_id row) step_id status evidence reason now) (pd_steps db)\<rparr>"
    "expected = None \<and> plans = pd_plans db \<and> rv = pr_revision row
     \<or> expected = Some (pr_revision row) \<and> rv = pr_revision row + 1
       \<and> plans = AList.update ws (row\<lparr>pr_revision := pr_revision row + 1, pr_updated_at := now\<rparr>) (pd_plans db)"
    "status = ''in_progress'' \<longrightarrow> (\<forall>r\<in>set (plan_steps_of (pr_plan_id row) (pd_steps db)). sr_status r = ''in_progress'' \<longrightarrow> sr_step_id r = step_id)"
    "step_id \<in> sr_step_id ` set (plan_steps_of (pr_plan_id row) (pd_steps db))"
proof -
  from assms have body: "update_step_body now ws step_id status evidence reason expected db = (db', Inr rv)"
    by (auto simp: update_plan_step_with_revision_def transact_def split: prod.splits sum.splits)
  then obtain row where row: "map_of (pd_plans db) ws = Some row"
    by (auto simp: update_step_body_def split: option.splits)
  let ?plans = "case expected of None \<Rightarrow> pd_plans db
    | Some e \<Rightarrow> AList.update ws (row\<lparr>pr_revision := pr_revision row + 1, pr_updated_at := now\<rparr>) (pd_plans db)"
  show thesis
    by (rule that [OF row, of ?plans])
      (use body row in \<open>auto simp: update_step_body_def Let_def list_ex_iff split: option.splits if_splits\<close>)
qed

subsection \<open>The invariant of the plan tables\<close>

definition in_progress_rows :: "step_row list \<Rightarrow> step_row list" where
  "in_progress_rows rows = filter (\<lambda>r. sr_status r = ''in_progress'') rows"

definition rows_ok :: "step_row list \<Rightarrow> bool" where
  "rows_ok rows \<longleftrightarrow>
     map sr_index rows = [0..<length rows] \<and> distinct (map sr_step_id rows) \<and>
     length (in_progress_rows rows) \<le> 1 \<and> (\<forall>r\<in>set rows. sr_status r \<in> set valid_statuses)"

definition plan_inv :: "plan_db \<Rightarrow> bool" where
  "plan_inv db \<longleftrightarrow>
     (\<forall>ws ws' row row'. map_of (pd_plans db) ws = Some row \<longrightarrow> map_of (pd_plans db) ws' = Some row' \<longrightarrow>
        pr_plan_id row = pr_plan_id row' \<longrightarrow> ws = ws') \<and>
     (\<forall>ws row. map_of (pd_plans db) ws = Some row \<longrightarrow>
        1 \<le> pr_revision row \<and> rows_ok (plan_steps_of (pr_plan_id row) (pd_steps db)))"

lemma rows_ok_sorted: "rows_ok rows \<Longrightarrow> sort_key sr_index rows = rows"
  by (rule sort_key_id_if_sorted) (simp add: rows_ok_def)

lemma filter_one:
  assumes "distinct (map g xs)" "\<forall>x\<in>set xs. P x \<longrightarrow> g x = a"
  shows "length (filter P xs) \<le> 1"
  using assms
proof (induction xs)
  case (Cons x xs)
  show ?case
  proof (cases "P x")
    case True
    with Cons.prems have "\<forall>y\<in>set xs. \<not> P y" by (auto simp: image_iff)
    with True show ?thesis by (simp add: filter_False)
  next
    case False
    with Cons show ?thesis by simp
  qed
qed simp

lemma check_steps_statuses:
  "check_steps env ws i seen steps = None \<Longrightarrow> s \<in> set steps \<Longrightarrow> step_status s \<in> set valid_statuses"
proof (induction steps arbitrary: i seen)
  case (Cons t steps)
  from Cons.prems(1) have v: "validate_step t = Inr None"
    and rest: "check_steps env ws (Suc i) (jstr (jget (obj_fields t) ''id'' JNull) # seen) steps = None"
    by (simp_all add: Let_def split: sum.splits option.splits if_splits)
  show ?case
  proof (cases "s = t")
    case True
    with v show ?thesis
      by (cases t) (auto simp: validate_step_def step_status_def Let_def split: if_splits)
  next
    case False
    with Cons.prems(2) Cons.IH [OF rest] show ?thesis by simp
  qed
qed simp

lemma rows_from_status: "map sr_status (rows_from plan_id now i steps) = map step_status steps"
  by (induction steps arbitrary: i) (simp_all add: step_row_of_def Let_def step_status_def)

lemma length_filter_map: "length (filter P xs) = length (filter Q ys)"
  if "map f xs = map g ys" "\<And>x. P x = R (f x)" "\<And>y. Q y = R (g y)" for f :: "'a \<Rightarrow> 'c" and g :: "'b \<Rightarrow> 'c"
proof -
  have "filter R (map f xs) = filter R (map g ys)" using that(1) by simp
  moreover have "R \<circ> f = P" "R \<circ> g = Q" using that(2,3) by (auto simp: comp_def)
  ultimately have "map f (filter P xs) = map g (filter Q ys)" by (simp add: filter_map)
  then show ?thesis by (metis length_map)
qed

lemma rows_from_ok:
  assumes "check_plan env ws explanation steps = None" "distinct (map sr_step_id (rows_from plan_id now 0 steps))"
  shows "rows_ok (rows_from plan_id now 0 steps)"
proof -
  from assms(1) have cs: "check_steps env ws 0 [] steps = None"
    and n: "length (filter (\<lambda>s. step_status s = ''in_progress'') steps) \<le> 1"
    by (auto simp: check_plan_def Let_def split: if_splits option.splits)
  have st: "map sr_status (rows_from plan_id now 0 steps) = map step_status steps" by (rule rows_from_status)
  have "length (in_progress_rows (rows_from plan_id now 0 steps)) \<le> 1"
    using n length_filter_map [OF st, of "\<lambda>r. sr_status r = ''in_progress''" "\<lambda>s. s = ''in_progress''"
        "\<lambda>s. step_status s = ''in_progress''"] by (simp add: in_progress_rows_def)
  moreover have "set (map sr_status (rows_from plan_id now 0 steps)) \<subseteq> set valid_statuses"
    unfolding st using check_steps_statuses [OF cs] by auto
  ultimately show ?thesis
    using assms(2) by (auto simp: rows_ok_def rows_from_index) (simp add: rows_from_def)
qed

lemma plan_steps_of_stored:
  "plan_steps_of p (pd_steps (stored_plan ws ex now plan_id steps row db)) =
     (if p = plan_id then rows_from plan_id now 0 steps else plan_steps_of p (pd_steps db))"
  using rows_from_plan [of _ plan_id now 0 steps]
  by (auto simp: stored_plan_def plan_steps_of_def filter_id_conv filter_empty_conv intro: filter_cong)

lemma stored_plan_inv:
  assumes inv: "plan_inv db" and ok: "rows_ok (rows_from plan_id now 0 steps)"
    and row: "pr_plan_id row = plan_id" "1 \<le> pr_revision row"
    and own: "\<forall>ws' row'. map_of (pd_plans db) ws' = Some row' \<longrightarrow> pr_plan_id row' = plan_id \<longrightarrow> ws' = ws"
  shows "plan_inv (stored_plan ws ex now plan_id steps row db)"
proof -
  have look: "map_of (pd_plans (stored_plan ws ex now plan_id steps row db)) v =
      (if v = ws then Some row else map_of (pd_plans db) v)" for v
    by (simp add: stored_plan_def map_of_update_iff)
  show ?thesis
    using inv ok row own unfolding plan_inv_def look plan_steps_of_stored by (auto split: if_splits)
qed

lemma plan_steps_of_set_step:
  "plan_steps_of p (map (set_step plan_id step_id status ev reason now) rows) =
     map (set_step plan_id step_id status ev reason now) (plan_steps_of p rows)"
  by (induction rows) (auto simp: plan_steps_of_def set_step_def)

lemma set_step_fields [simp]:
  "sr_step_id (set_step p i status ev reason now r) = sr_step_id r"
  "sr_index (set_step p i status ev reason now r) = sr_index r"
  "sr_text (set_step p i status ev reason now r) = sr_text r"
  "sr_plan_id (set_step p i status ev reason now r) = sr_plan_id r"
  by (simp_all add: set_step_def)

lemma set_step_other: "plan_id \<noteq> p \<Longrightarrow> map (set_step plan_id i status ev reason now) (plan_steps_of p rows) = plan_steps_of p rows"
  by (rule map_idI) (auto simp: plan_steps_of_def set_step_def)

lemma set_step_rows_ok:
  assumes ok: "rows_ok rows" and st: "status \<in> set valid_statuses"
    and excl: "status = ''in_progress'' \<longrightarrow> (\<forall>r\<in>set rows. sr_status r = ''in_progress'' \<longrightarrow> sr_step_id r = step_id)"
  shows "rows_ok (map (set_step plan_id step_id status ev reason now) rows)"
proof -
  let ?f = "set_step plan_id step_id status ev reason now"
  have d: "distinct (map sr_step_id rows)" using ok by (simp add: rows_ok_def)
  have "length (in_progress_rows (map ?f rows)) \<le> 1"
  proof (cases "status = ''in_progress''")
    case True
    with excl have "\<forall>r\<in>set rows. sr_status (?f r) = ''in_progress'' \<longrightarrow> sr_step_id r = step_id"
      by (auto simp: set_step_def)
    from filter_one [OF d this] show ?thesis by (simp add: in_progress_rows_def filter_map comp_def)
  next
    case False
    then have "\<And>r. sr_status (?f r) = ''in_progress'' \<Longrightarrow> sr_status r = ''in_progress''"
      by (auto simp: set_step_def split: if_splits)
    then have "length (filter (\<lambda>r. sr_status (?f r) = ''in_progress'') rows) \<le> length (in_progress_rows rows)"
      unfolding in_progress_rows_def by (induction rows) auto
    with ok show ?thesis by (simp add: rows_ok_def in_progress_rows_def filter_map comp_def)
  qed
  moreover have "sr_status (?f r) \<in> set valid_statuses" if "r \<in> set rows" for r
    using that ok st by (auto simp: rows_ok_def set_step_def)
  moreover have "map sr_index (map ?f rows) = map sr_index rows" "map sr_step_id (map ?f rows) = map sr_step_id rows"
    by (simp_all add: comp_def)
  ultimately show ?thesis using ok unfolding rows_ok_def by (auto simp del: map_map)
qed

lemma audit_self [simp]: "\<exists>a. db = db\<lparr>pd_audit := a\<rparr>"
  by (rule exI [of _ "pd_audit db"]) simp

lemma update_plan_okD:
  assumes "update_plan env c ws explanation steps expected db = (db', r)"
  shows "(\<exists>e. check_plan env ws explanation steps = Some e \<and> db' = db \<and> r = Inl e)
    \<or> (\<exists>e. replace_plan (ci_plan_id c) (ci_now c) ws explanation steps expected db = (db', Inl e) \<and> r = Inl e)
    \<or> (\<exists>db1 rv audit. check_plan env ws explanation steps = None \<and>
         replace_plan (ci_plan_id c) (ci_now c) ws explanation steps expected db = (db1, Inr rv) \<and>
         db' = db1\<lparr>pd_audit := audit\<rparr> \<and> (r = Inr (get_plan env ws db') \<or> (\<exists>e. r = Inl e \<and> ci_operation_id c \<in> op_id ` set (pd_audit db1))))"
  using assms
  by (auto simp: update_plan_def audit_plan_def log_operation_def plan_audit_row_def Let_def
      split: option.splits prod.splits sum.splits if_splits)

lemma replace_plan_error: "replace_plan i now ws ex steps expected db = (db', Inl e) \<Longrightarrow> db' = db"
  by (auto simp: replace_plan_def transact_def split: prod.splits sum.splits)

lemma update_step_error: "update_plan_step_with_revision now ws i status ev reason expected db = (db', Inl e) \<Longrightarrow> db' = db"
  by (auto simp: update_plan_step_with_revision_def transact_def split: prod.splits sum.splits)

lemma plan_inv_audit [simp]: "plan_inv (db\<lparr>pd_audit := a\<rparr>) = plan_inv db"
  by (simp add: plan_inv_def)

lemma replace_plan_inv:
  assumes inv: "plan_inv db" and chk: "check_plan env ws explanation steps = None"
    and rp: "replace_plan i now ws explanation steps expected db = (db', Inr rv)"
  shows "plan_inv db'"
  using rp
proof (cases rule: replace_plan_ok)
  case created
  have "\<forall>ws' row'. map_of (pd_plans db) ws' = Some row' \<longrightarrow> pr_plan_id row' = i \<longrightarrow> ws' = ws"
    using created(5) by (force dest: map_of_SomeD)
  with created(6) stored_plan_inv [OF inv rows_from_ok [OF chk created(7)]] show ?thesis by simp
next
  case (updated row)
  have "1 \<le> pr_revision row" "\<forall>ws' row'. map_of (pd_plans db) ws' = Some row' \<longrightarrow> pr_plan_id row' = pr_plan_id row \<longrightarrow> ws' = ws"
    using inv updated(1) unfolding plan_inv_def by blast+
  with updated(4) stored_plan_inv [OF inv rows_from_ok [OF chk updated(5)]] show ?thesis by simp
qed

lemma update_step_inv:
  assumes inv: "plan_inv db" and st: "status \<in> set valid_statuses"
    and us: "update_plan_step_with_revision now ws step_id status ev reason expected db = (db', Inr rv)"
  shows "plan_inv db'"
  using us
proof (cases rule: update_step_ok)
  case (1 row plans)
  have one: "1 \<le> pr_revision row" "rows_ok (plan_steps_of (pr_plan_id row) (pd_steps db))"
    using inv 1(1) unfolding plan_inv_def by blast+
  have look: "map_of plans v = Some r \<Longrightarrow> \<exists>r0. map_of (pd_plans db) v = Some r0 \<and> pr_plan_id r0 = pr_plan_id r \<and> pr_revision r0 \<le> pr_revision r" for v r
    using 1(1,3) by (auto simp: map_of_update_iff split: if_splits)
  have "rows_ok (plan_steps_of p (map (set_step (pr_plan_id row) step_id status ev reason now) (pd_steps db)))"
    if "rows_ok (plan_steps_of p (pd_steps db))" for p
    unfolding plan_steps_of_set_step
    using that set_step_rows_ok [OF one(2) st 1(4)] set_step_other [of "pr_plan_id row" p]
    by (cases "p = pr_plan_id row") auto
  note rows = this
  show ?thesis unfolding 1(2) plan_inv_def
  proof (intro conjI allI impI)
    fix v v' r r'
    assume a: "map_of (pd_plans (db\<lparr>pd_plans := plans, pd_steps := map (set_step (pr_plan_id row) step_id status ev reason now) (pd_steps db)\<rparr>)) v = Some r"
      "map_of (pd_plans (db\<lparr>pd_plans := plans, pd_steps := map (set_step (pr_plan_id row) step_id status ev reason now) (pd_steps db)\<rparr>)) v' = Some r'"
      "pr_plan_id r = pr_plan_id r'"
    from look [of v r] look [of v' r'] a obtain r0 r0' where "map_of (pd_plans db) v = Some r0" "map_of (pd_plans db) v' = Some r0'"
      "pr_plan_id r0 = pr_plan_id r0'" by auto
    with inv show "v = v'" unfolding plan_inv_def by blast
  next
    fix v r
    assume a: "map_of (pd_plans (db\<lparr>pd_plans := plans, pd_steps := map (set_step (pr_plan_id row) step_id status ev reason now) (pd_steps db)\<rparr>)) v = Some r"
    from look [of v r] a obtain r0 where r0: "map_of (pd_plans db) v = Some r0" "pr_plan_id r0 = pr_plan_id r" "pr_revision r0 \<le> pr_revision r"
      by auto
    then have "1 \<le> pr_revision r0" "rows_ok (plan_steps_of (pr_plan_id r0) (pd_steps db))"
      using inv unfolding plan_inv_def by blast+
    with r0 rows show "1 \<le> pr_revision r"
      "rows_ok (plan_steps_of (pr_plan_id r) (pd_steps (db\<lparr>pd_plans := plans, pd_steps := map (set_step (pr_plan_id row) step_id status ev reason now) (pd_steps db)\<rparr>)))"
      by simp_all
  qed
qed

lemma update_plan_inv: "plan_inv db \<Longrightarrow> plan_inv (fst (update_plan env c ws ex steps expected db))"
  using update_plan_okD [of env c ws ex steps expected db "fst (update_plan env c ws ex steps expected db)"
      "snd (update_plan env c ws ex steps expected db)"]
  by (auto dest: replace_plan_error replace_plan_inv)

lemma update_step_statusD:
  assumes "update_step_status env c ws step_id status ev reason expected db = (db', r)"
  shows "(db' = db \<and> (\<exists>e. r = Inl e)) \<or> (status \<in> set valid_statuses \<and>
     (\<exists>ev' reason' db1 rv audit. update_plan_step_with_revision (ci_now c) ws step_id status ev' reason' expected db = (db1, Inr rv) \<and>
       db' = db1\<lparr>pd_audit := audit\<rparr> \<and> (r = Inr (get_plan env ws db', rv) \<or> (\<exists>e. r = Inl e \<and> ci_operation_id c \<in> op_id ` set (pd_audit db1)))))"
proof (cases "\<exists>e. r = Inl e \<and> db' = db")
  case True
  then show ?thesis by blast
next
  case False
  let ?found = "find (\<lambda>r. sr_step_id r = step_id) (get_plan_steps ws db)"
  from assms False have st: "status \<in> set valid_statuses" and ve: "validate_evidence env ws (json_list ev) = None"
    and pl: "map_of (pd_plans db) ws \<noteq> None" and fd: "?found \<noteq> None"
    by (auto simp: update_step_status_def split: if_splits option.splits)
  then obtain found where found: "?found = Some found" by blast
  define ev' where "ev' = (case ev of Some items \<Rightarrow> Some (JArr items) | None \<Rightarrow> sr_evidence found)"
  define reason' where "reason' = (case reason of Some r \<Rightarrow> JStr r | None \<Rightarrow> sr_reason found)"
  obtain db1 x where u: "update_plan_step_with_revision (ci_now c) ws step_id status ev' reason' expected db = (db1, x)"
    by fastforce
  note eqs = st ve pl found u [unfolded ev'_def reason'_def]
  show ?thesis
  proof (cases x)
    case (Inl e)
    with assms eqs have "db' = db1" "r = Inl e" by (auto simp: update_step_status_def)
    with Inl u update_step_error [of "ci_now c" ws step_id status ev' reason' expected db db1 e] show ?thesis by simp
  next
    case (Inr rv)
    with assms eqs have "(\<exists>audit. db' = db1\<lparr>pd_audit := audit\<rparr>) \<and>
      (r = Inr (get_plan env ws db', rv) \<or> (\<exists>e. r = Inl e \<and> ci_operation_id c \<in> op_id ` set (pd_audit db1)))"
      by (auto simp: update_step_status_def audit_plan_def log_operation_def plan_audit_row_def split: if_splits)
    with Inr u st show ?thesis by blast
  qed
qed

lemma update_step_status_inv:
  assumes "plan_inv db"
  shows "plan_inv (fst (update_step_status env c ws step_id status ev reason expected db))"
proof -
  obtain db' r where u: "update_step_status env c ws step_id status ev reason expected db = (db', r)" by fastforce
  from update_step_statusD [OF u] assms have "plan_inv db'" by (auto dest: update_step_inv)
  with u show ?thesis by simp
qed

subsection \<open>Histories\<close>

inductive plan_reachable :: "plan_db \<Rightarrow> bool" where
  plan_start: "plan_reachable \<lparr>pd_workspaces = wss, pd_plans = [], pd_steps = [], pd_audit = audit\<rparr>"
| plan_workspace: "plan_reachable db \<Longrightarrow> plan_reachable (db\<lparr>pd_workspaces := ws # pd_workspaces db\<rparr>)"
| plan_update: "plan_reachable db \<Longrightarrow> plan_reachable (fst (update_workspace_plan_tool env c ws ex steps expected db))"
| plan_update_step: "plan_reachable db \<Longrightarrow>
    plan_reachable (fst (update_workspace_plan_step_tool env c ws step_id status ev reason expected db))"

lemma failed_audit_tables [simp]:
  "pd_plans (failed_audit c t ws i code db) = pd_plans db" "pd_steps (failed_audit c t ws i code db) = pd_steps db"
  "plan_inv (failed_audit c t ws i code db) = plan_inv db"
  by (simp_all add: failed_audit_def)

lemma answer_plan_tables:
  "pd_plans (fst (answer_plan c t ws i r)) = pd_plans (fst r)" "pd_steps (fst (answer_plan c t ws i r)) = pd_steps (fst r)"
  "plan_inv (fst (answer_plan c t ws i r)) = plan_inv (fst r)"
  by (cases r; simp add: answer_plan_def split: sum.splits plan_error.splits)+

lemma plan_reachable_inv: "plan_reachable db \<Longrightarrow> plan_inv db"
proof (induction rule: plan_reachable.induct)
  case plan_start
  show ?case by (simp add: plan_inv_def)
next
  case plan_workspace
  then show ?case by (simp add: plan_inv_def)
next
  case plan_update
  then show ?case
    by (simp add: update_workspace_plan_tool_def Let_def answer_plan_tables update_plan_inv)
next
  case plan_update_step
  then show ?case
    by (simp add: update_workspace_plan_step_tool_def Let_def answer_plan_tables update_step_status_inv)
qed

subsection \<open>Properties\<close>

definition demo_plan_env :: plan_env where
  "demo_plan_env = \<lparr>pe_process = Map.empty, pe_artifact = Map.empty, pe_checks = (\<lambda>_ _. []),
     pe_worktree = (\<lambda>ws. if ws = ''w'' then Some [''repo''] else None), pe_resolve = (\<lambda>p. p),
     pe_is_file = (\<lambda>_. False), pe_exists = (\<lambda>_. False)\<rparr>"

definition demo_ids :: "string \<Rightarrow> call_ids" where
  "demo_ids o_id = \<lparr>ci_plan_id = ''plan_1'', ci_operation_id = o_id, ci_request_id = ''req'', ci_now = ''t'', ci_duration_ms = 0\<rparr>"

definition demo_plan_db :: plan_db where
  "demo_plan_db = \<lparr>pd_workspaces = [''w''], pd_plans = [], pd_steps = [], pd_audit = []\<rparr>"

definition demo_steps :: "json list" where
  "demo_steps = [JObj [(''id'', JStr ''a''), (''text'', JStr ''x''), (''status'', JStr ''in_progress'')],
                 JObj [(''id'', JStr ''b''), (''text'', JStr ''y'')]]"

definition demo_planned :: plan_db where
  "demo_planned = fst (update_workspace_plan_tool demo_plan_env (demo_ids ''1'') ''w'' ''goal'' demo_steps None demo_plan_db)"

lemma demo_plan_reachable: "plan_reachable demo_plan_db" "plan_reachable demo_planned"
proof -
  show "plan_reachable demo_plan_db" unfolding demo_plan_db_def by (rule plan_start)
  then show "plan_reachable demo_planned" unfolding demo_planned_def by (rule plan_update)
qed

text \<open>
  C14. What a successful \<open>update_plan\<close> stores is what the caller sent: the plan read back has the
  explanation, the next revision (1 for a new plan) and exactly the given steps in order, and
  the plans of all other workspaces read as before.
\<close>
theorem update_plan_roundtrip:
  assumes "plan_reachable db" "update_plan env c ws explanation steps expected db = (db', Inr r)"
  shows "r = get_plan env ws db' \<and> (\<exists>v. r = Some v \<and> pv_explanation v = explanation \<and>
      pv_revision v = (case map_of (pd_plans db) ws of None \<Rightarrow> 1 | Some row \<Rightarrow> pr_revision row + 1) \<and>
      map (\<lambda>s. (sv_id s, sv_text s, sv_status s)) (pv_steps v) =
        map (\<lambda>s. (jstr (jget (obj_fields s) ''id'' JNull), jstr (jget (obj_fields s) ''text'' JNull), step_status s)) steps) \<and>
    (\<forall>env' ws'. ws' \<noteq> ws \<longrightarrow> get_plan env' ws' db' = get_plan env' ws' db)"
proof -
  have inv: "plan_inv db" by (rule plan_reachable_inv [OF assms(1)])
  from update_plan_okD [OF assms(2)] obtain db1 rv audit where chk: "check_plan env ws explanation steps = None"
    and rp: "replace_plan (ci_plan_id c) (ci_now c) ws explanation steps expected db = (db1, Inr rv)"
    and db': "db' = db1\<lparr>pd_audit := audit\<rparr>" and r: "r = get_plan env ws db'" by auto
  have "\<exists>row plan_id. db1 = stored_plan ws explanation (ci_now c) plan_id steps row db \<and> pr_plan_id row = plan_id \<and>
      pr_explanation row = explanation \<and>
      pr_revision row = (case map_of (pd_plans db) ws of None \<Rightarrow> 1 | Some row \<Rightarrow> pr_revision row + 1) \<and>
      rows_ok (rows_from plan_id (ci_now c) 0 steps) \<and>
      (\<forall>ws' row'. map_of (pd_plans db) ws' = Some row' \<longrightarrow> pr_plan_id row' = plan_id \<longrightarrow> ws' = ws)"
    using rp
  proof (cases rule: replace_plan_ok)
    case created
    have "\<forall>ws' row'. map_of (pd_plans db) ws' = Some row' \<longrightarrow> pr_plan_id row' = ci_plan_id c \<longrightarrow> ws' = ws"
      using created(5) by (force dest: map_of_SomeD)
    with created rows_from_ok [OF chk created(7)] show ?thesis
      by (intro exI [of _ "\<lparr>pr_plan_id = ci_plan_id c, pr_explanation = explanation, pr_revision = 1,
            pr_created_at = ci_now c, pr_updated_at = ci_now c\<rparr>"] exI [of _ "ci_plan_id c"]) simp
  next
    case (updated row)
    have "\<forall>ws' row'. map_of (pd_plans db) ws' = Some row' \<longrightarrow> pr_plan_id row' = pr_plan_id row \<longrightarrow> ws' = ws"
      using inv updated(1) unfolding plan_inv_def by blast
    note own = this
    show ?thesis
    proof (intro exI conjI)
      show "db1 = stored_plan ws explanation (ci_now c) (pr_plan_id row) steps
        (row\<lparr>pr_explanation := explanation, pr_revision := pr_revision row + 1, pr_updated_at := ci_now c\<rparr>) db"
        by (rule updated(4))
    qed (simp, simp, simp add: updated(1), rule rows_from_ok [OF chk updated(5)], rule own)
  qed
  then obtain row plan_id where db1: "db1 = stored_plan ws explanation (ci_now c) plan_id steps row db"
    and row: "pr_plan_id row = plan_id" "pr_explanation row = explanation"
      "pr_revision row = (case map_of (pd_plans db) ws of None \<Rightarrow> 1 | Some row \<Rightarrow> pr_revision row + 1)"
    and ok: "rows_ok (rows_from plan_id (ci_now c) 0 steps)"
    and own: "\<forall>ws' row'. map_of (pd_plans db) ws' = Some row' \<longrightarrow> pr_plan_id row' = plan_id \<longrightarrow> ws' = ws"
    by blast
  have look: "map_of (pd_plans db') v = (if v = ws then Some row else map_of (pd_plans db) v)" for v
    by (simp add: db' db1 stored_plan_def map_of_update_iff)
  have st: "plan_steps_of p (pd_steps db') = (if p = plan_id then rows_from plan_id (ci_now c) 0 steps else plan_steps_of p (pd_steps db))" for p
    by (simp add: db' db1 plan_steps_of_stored)
  have read: "get_plan_steps ws db' = rows_from plan_id (ci_now c) 0 steps"
    by (simp add: get_plan_steps_def look row(1) st rows_ok_sorted [OF ok])
  have "map (\<lambda>s. (sv_id s, sv_text s, sv_status s)) (map (view_step env ws) (rows_from plan_id (ci_now c) i steps)) =
        map (\<lambda>s. (jstr (jget (obj_fields s) ''id'' JNull), jstr (jget (obj_fields s) ''text'' JNull), step_status s)) steps" for i
    by (induction steps arbitrary: i) (simp_all add: view_step_def step_row_of_def Let_def step_status_def)
  moreover have "get_plan env' ws' db' = get_plan env' ws' db" if "ws' \<noteq> ws" for env' ws'
  proof -
    have "get_plan_steps ws' db' = get_plan_steps ws' db"
      using that own by (auto simp: get_plan_steps_def look st split: option.splits)
    with that show ?thesis by (simp add: get_plan_def look)
  qed
  ultimately show ?thesis using r row by (simp add: get_plan_def look read)
qed

theorem update_plan_roundtrip_witness:
  "map sv_id (pv_steps (the (get_plan demo_plan_env ''w'' demo_planned))) = [''a'', ''b'']"
proof -
  let ?u = "update_plan demo_plan_env (demo_ids ''1'') ''w'' ''goal'' demo_steps None demo_plan_db"
  have "?u = (fst ?u, Inr (get_plan demo_plan_env ''w'' demo_planned))" by code_simp
  from update_plan_roundtrip [OF demo_plan_reachable(1) this]
  obtain v where "get_plan demo_plan_env ''w'' demo_planned = Some v"
    "map (\<lambda>s. (sv_id s, sv_text s, sv_status s)) (pv_steps v) =
      map (\<lambda>s. (jstr (jget (obj_fields s) ''id'' JNull), jstr (jget (obj_fields s) ''text'' JNull), step_status s)) demo_steps"
    by blast
  moreover from arg_cong [OF this(2), of "map fst"] have "map sv_id (pv_steps v) = [''a'', ''b'']"
    by (simp add: demo_steps_def comp_def)
  ultimately show ?thesis by simp
qed

text \<open>
  C15. In every history of tool calls each plan a client can read has unique step ids, valid statuses,
  at most one step in progress and a positive revision.
\<close>
theorem plan_history_invariant:
  assumes "plan_reachable db" "get_plan env ws db = Some v"
  shows "distinct (map sv_id (pv_steps v)) \<and> 1 \<le> pv_revision v \<and>
    length (filter (\<lambda>s. sv_status s = ''in_progress'') (pv_steps v)) \<le> 1 \<and>
    (\<forall>s\<in>set (pv_steps v). sv_status s \<in> set valid_statuses)"
proof -
  from assms(2) obtain row where row: "map_of (pd_plans db) ws = Some row"
    and v: "pv_revision v = pr_revision row" "pv_steps v = map (view_step env ws) (get_plan_steps ws db)"
    by (auto simp: get_plan_def)
  have ok: "rows_ok (plan_steps_of (pr_plan_id row) (pd_steps db))" "1 \<le> pr_revision row"
    using plan_reachable_inv [OF assms(1)] row unfolding plan_inv_def by blast+
  then have g: "get_plan_steps ws db = plan_steps_of (pr_plan_id row) (pd_steps db)"
    by (simp add: get_plan_steps_def row rows_ok_sorted)
  have "sv_id \<circ> view_step env ws = sr_step_id" "sv_status \<circ> view_step env ws = sr_status"
    by (simp_all add: fun_eq_iff view_step_def)
  moreover from this(2) have "(\<lambda>s. sv_status s = ''in_progress'') \<circ> view_step env ws = (\<lambda>r. sr_status r = ''in_progress'')"
    by (simp add: fun_eq_iff)
  ultimately show ?thesis
    using ok by (simp add: v g rows_ok_def in_progress_rows_def filter_map) (simp add: view_step_def)
qed

theorem plan_history_invariant_witness:
  "length (filter (\<lambda>s. sv_status s = ''in_progress'') (pv_steps (the (get_plan demo_plan_env ''w'' demo_planned)))) \<le> 1"
proof -
  have "get_plan demo_plan_env ''w'' demo_planned = Some (the (get_plan demo_plan_env ''w'' demo_planned))"
    by code_simp
  from plan_history_invariant [OF demo_plan_reachable(2) this] show ?thesis by blast
qed

lemma replace_plan_audit:
  "replace_plan i now ws ex steps expected db = (db', Inr rv) \<Longrightarrow> pd_audit db' = pd_audit db"
  by (erule replace_plan_ok) (simp_all add: stored_plan_def)

lemma update_step_audit:
  "update_plan_step_with_revision now ws i st ev reason expected db = (db', Inr rv) \<Longrightarrow> pd_audit db' = pd_audit db"
  by (erule update_step_ok) simp

text \<open>
  A plan call that does not succeed (invalid input, a stale or missing revision, an exception of the
  database in the middle of the insert loop) leaves the plan and step tables exactly as they
  were; \<open>ci_operation_id\<close> is the fresh id of the audit row.
\<close>
lemma plan_failure_atomic:
  assumes "update_workspace_plan_tool env c ws explanation steps expected db = (db1, r1)"
    and "update_workspace_plan_step_tool env c ws step_id status ev reason expected db = (db2, r2)"
    and "ci_operation_id c \<notin> op_id ` set (pd_audit db)"
  shows "((\<forall>v. r1 \<noteq> Inr (Reply_ok v)) \<longrightarrow> pd_plans db1 = pd_plans db \<and> pd_steps db1 = pd_steps db) \<and>
    ((\<forall>v. r2 \<noteq> Inr (Reply_ok v)) \<longrightarrow> pd_plans db2 = pd_plans db \<and> pd_steps db2 = pd_steps db)"
proof (intro conjI impI)
  assume fail: "\<forall>v. r1 \<noteq> Inr (Reply_ok v)"
  have "pd_plans db1 = pd_plans db \<and> pd_steps db1 = pd_steps db"
  proof (cases "ws \<in> set (pd_workspaces db)")
    case False
    with assms(1) show ?thesis by (auto simp: update_workspace_plan_tool_def Let_def)
  next
    case True
    obtain d x where u: "update_plan env c ws explanation steps expected db = (d, x)" by fastforce
    with True assms(1) have a: "(db1, r1) = answer_plan c ''update_workspace_plan'' ws (''steps='' @ nat_str (length steps)) (d, x)"
      by (simp add: update_workspace_plan_tool_def Let_def)
    then have "x \<noteq> Inr v" for v using fail by (auto simp: answer_plan_def)
    with update_plan_okD [OF u] assms(3) have "pd_plans d = pd_plans db \<and> pd_steps d = pd_steps db"
      by (auto dest: replace_plan_error replace_plan_audit)
    with a show ?thesis by (metis answer_plan_tables(1,2) fst_conv)
  qed
  then show "pd_plans db1 = pd_plans db" "pd_steps db1 = pd_steps db" by simp_all
next
  assume fail: "\<forall>v. r2 \<noteq> Inr (Reply_ok v)"
  have "pd_plans db2 = pd_plans db \<and> pd_steps db2 = pd_steps db"
  proof (cases "ws \<in> set (pd_workspaces db)")
    case False
    with assms(2) show ?thesis by (auto simp: update_workspace_plan_step_tool_def Let_def)
  next
    case True
    obtain d x where u: "update_step_status env c ws step_id status ev reason expected db = (d, x)" by fastforce
    with True assms(2) have a: "(db2, r2) = answer_plan c ''update_workspace_plan_step'' ws
        (step_input step_id status ev) (d, x)"
      by (simp add: update_workspace_plan_step_tool_def Let_def)
    then have "x \<noteq> Inr v" for v using fail by (cases v) (auto simp: answer_plan_def)
    with update_step_statusD [OF u] assms(3) have "pd_plans d = pd_plans db \<and> pd_steps d = pd_steps db"
      by (auto dest: update_step_audit)
    with a show ?thesis by (metis answer_plan_tables(1,2) fst_conv)
  qed
  then show "pd_plans db2 = pd_plans db" "pd_steps db2 = pd_steps db" by simp_all
qed

text \<open>A plan with a step whose \<open>blocked_reason\<close> the database refuses after the first insert.\<close>

definition demo_bad_steps :: "json list" where
  "demo_bad_steps = demo_steps @ [JObj [(''id'', JStr ''c''), (''text'', JStr ''z''), (''blocked_reason'', JArr [])]]"

lemma plan_failure_atomic_witness:
  "pd_steps (fst (update_workspace_plan_tool demo_plan_env (demo_ids ''2'') ''w'' ''goal'' demo_bad_steps (Some 1) demo_planned))
   = pd_steps demo_planned"
proof -
  let ?a = "update_workspace_plan_tool demo_plan_env (demo_ids ''2'') ''w'' ''goal'' demo_bad_steps (Some 1) demo_planned"
  let ?b = "update_workspace_plan_step_tool demo_plan_env (demo_ids ''2'') ''w'' ''b'' ''in_progress'' None None (Some 1) demo_planned"
  have h: "ci_operation_id (demo_ids ''2'') \<notin> op_id ` set (pd_audit demo_planned)" by code_simp
  have "snd ?a = Inl (Plan_SqlError ''type is not supported'')" by code_simp
  then have a: "?a = (fst ?a, Inl (Plan_SqlError ''type is not supported''))" by (metis surjective_pairing)
  from plan_failure_atomic [OF a surjective_pairing [of ?b] h] show ?thesis by blast
qed

subsection \<open>Lost updates\<close>

text \<open>A write to the plan of a workspace: a whole plan or one step.\<close>

datatype plan_write =
    Replace_plan string string string "json list"
  | Change_step string string string "json option" json

definition plan_revision :: "plan_db \<Rightarrow> string \<Rightarrow> int option" where
  "plan_revision db ws = map_option pr_revision (map_of (pd_plans db) ws)"

fun plan_put :: "string \<Rightarrow> plan_write \<Rightarrow> int \<Rightarrow> plan_db \<Rightarrow> plan_db option" where
  "plan_put ws (Replace_plan fresh_id now explanation steps) r db =
     (case replace_plan fresh_id now ws explanation steps (Some r) db of (_, Inl _) \<Rightarrow> None | (db', Inr _) \<Rightarrow> Some db')"
| "plan_put ws (Change_step now step_id status ev reason) r db =
     (case update_plan_step_with_revision now ws step_id status ev reason (Some r) db of
        (_, Inl _) \<Rightarrow> None | (db', Inr _) \<Rightarrow> Some db')"

lemma plan_put_revision:
  assumes "plan_put ws w r db = Some db'"
  shows "plan_revision db ws = Some r \<and> plan_revision db' v = (if v = ws then Some (r + 1) else plan_revision db v)"
proof (cases w)
  case (Replace_plan i now ex steps)
  with assms obtain rv where "replace_plan i now ws ex steps (Some r) db = (db', Inr rv)"
    by (auto split: prod.splits sum.splits)
  then show ?thesis
    by (cases rule: replace_plan_ok) (auto simp: plan_revision_def stored_plan_def map_of_update_iff)
next
  case (Change_step now i st ev reason)
  with assms obtain rv where "update_plan_step_with_revision now ws i st ev reason (Some r) db = (db', Inr rv)"
    by (auto split: prod.splits sum.splits)
  then show ?thesis
    by (cases rule: update_step_ok) (auto simp: plan_revision_def map_of_update_iff)
qed

interpretation plans: revisioned_store plan_revision plan_put
  by unfold_locales (use plan_put_revision in \<open>metis\<close>)+

text \<open>The writers run one after the other; the accepted ones are reported.\<close>

fun run_writers :: "int \<Rightarrow> (string \<times> plan_write) list \<Rightarrow> plan_db \<Rightarrow> plan_db \<times> (string \<times> plan_write) list" where
  "run_writers r [] db = (db, [])"
| "run_writers r ((ws, w) # writers) db =
     (case plan_put ws w r db of
        None \<Rightarrow> run_writers r writers db
      | Some db1 \<Rightarrow> (let (db2, won) = run_writers r writers db1 in (db2, (ws, w) # won)))"

lemma run_writers_attempts: "run_writers r writers db = plans.attempts r writers db"
  by (induction r writers db rule: run_writers.induct) (auto split: option.splits)

text \<open>
  No lost update: of any number of writers that all read the plan of a workspace at the same
  revision and pass it as \<open>expected_revision\<close>, at most one is accepted, whatever they write.
\<close>
lemma plan_no_lost_update:
  "length (filter (\<lambda>kw. fst kw = ws) (snd (run_writers r writers db))) \<le> 1"
  unfolding run_writers_attempts by (metis plans.one_winner prod.collapse)

text \<open>
  The revision only guards callers that pass it: a step update without \<open>expected_revision\<close>
  changes the step and leaves the revision as it was, so a later replacement based on that
  revision is accepted and overwrites it.
\<close>
lemma unversioned_step_update_invisible:
  assumes "update_plan_step_with_revision now ws step_id status ev reason None db = (db', Inr rv)"
  shows "plan_revision db' ws = plan_revision db ws \<and> plan_revision db ws = Some rv"
  using assms by (cases rule: update_step_ok) (auto simp: plan_revision_def)

lemma unversioned_step_update_invisible_witness:
  "plan_revision (fst (update_plan_step_with_revision ''now'' ''w'' ''a'' ''completed'' None JNull None demo_planned)) ''w''
   = plan_revision demo_planned ''w''"
proof -
  let ?u = "update_plan_step_with_revision ''now'' ''w'' ''a'' ''completed'' None JNull None demo_planned"
  have "?u = (fst ?u, Inr 1)" by code_simp
  from unversioned_step_update_invisible [OF this] show ?thesis by blast
qed

text \<open>
  A \<open>file_path\<close> evidence item whose file no longer exists is reported as \<open>invalid\<close>: the existence check
  of \<open>resolve_within\<close> raises before the branch that would report \<open>stale\<close> is reached.
\<close>
lemma missing_file_evidence_invalid:
  assumes "pe_worktree env ws = Some wt" "\<forall>p. \<not> pe_exists env p"
  shows "snd (snd (evidence_status env ws (JObj [(''type'', JStr ''file_path''), (''id'', JStr path)]))) = ''invalid''"
  using assms
  by (auto simp: evidence_status_def valid_evidence_types_def resolve_evidence_path_def resolve_within_def Let_def
      split: sum.splits)

lemma missing_file_evidence_invalid_witness:
  "snd (snd (evidence_status demo_plan_env ''w'' (JObj [(''type'', JStr ''file_path''), (''id'', JStr ''gone.txt'')]))) = ''invalid''"
  by (rule missing_file_evidence_invalid [of _ _ "[''repo'']"]) (simp_all add: demo_plan_env_def)

end
