(* ===== verification/Process_Table.thy ===== *)
theory Process_Table
  imports Py_Strings
begin

text \<open>
  The processes table of \<open>app/storage/database.py\<close> and its helpers.  The table is a dict from the
  process id (the primary key) to the row; timestamps are arguments.
\<close>

record proc_row =
  pc_workspace :: string
  pc_tool :: string
  pc_sha :: "string option"
  pc_preview :: "string option"
  pc_directory :: "string option"
  pc_status :: string
  pc_pid :: "int option"
  pc_exit_code :: "int option"
  pc_started_at :: "string option"
  pc_completed_at :: "string option"
  pc_stdout :: "string option"
  pc_stderr :: "string option"
  pc_identity :: "string option"
  pc_heartbeat :: "string option"
  pc_offset :: int
  pc_job :: "string option"
  pc_recovery :: "string option"

type_synonym proc_table = "(string, proc_row) dict"

definition insert_process ::
  "string list \<Rightarrow> string \<Rightarrow> string \<Rightarrow> string \<Rightarrow> string option \<Rightarrow> string option \<Rightarrow> string option \<Rightarrow> string option \<Rightarrow> string option
    \<Rightarrow> proc_table \<Rightarrow> string + proc_table" where
  "insert_process workspaces pid ws tool sha preview dir out err table =
     (if pid \<in> fst ` set table then Inl ''UNIQUE constraint failed: processes.process_id''
      else if ws \<notin> set workspaces then Inl ''FOREIGN KEY constraint failed''
      else Inr (AList.update pid
        \<lparr>pc_workspace = ws, pc_tool = tool, pc_sha = sha, pc_preview = preview, pc_directory = dir,
         pc_status = ''queued'', pc_pid = None, pc_exit_code = None, pc_started_at = None, pc_completed_at = None,
         pc_stdout = out, pc_stderr = err, pc_identity = None, pc_heartbeat = None, pc_offset = 0,
         pc_job = None, pc_recovery = None\<rparr> table))"

definition incomplete :: "proc_row \<Rightarrow> bool" where
  "incomplete r = (pc_status r = ''queued'' \<or> pc_status r = ''running'')"

definition list_incomplete_processes :: "proc_table \<Rightarrow> (string \<times> proc_row) list" where
  "list_incomplete_processes table = filter (\<lambda>(pid, r). incomplete r) table"

definition interrupt_incomplete_processes :: "string \<Rightarrow> proc_table \<Rightarrow> proc_table \<times> nat" where
  "interrupt_incomplete_processes now table =
     (map (\<lambda>(pid, r). (pid, if incomplete r then r\<lparr>pc_status := ''interrupted'', pc_completed_at := Some now\<rparr> else r)) table,
      length (list_incomplete_processes table))"

definition keep :: "'a option \<Rightarrow> 'a option \<Rightarrow> 'a option" where
  "keep new old = (case new of None \<Rightarrow> old | Some v \<Rightarrow> Some v)"

definition update_row :: "string \<Rightarrow> (proc_row \<Rightarrow> proc_row) \<Rightarrow> proc_table \<Rightarrow> proc_table" where
  "update_row pid f table =
     (case map_of table pid of None \<Rightarrow> table | Some r \<Rightarrow> AList.update pid (f r) table)"

definition update_process_status ::
  "string \<Rightarrow> string \<Rightarrow> string \<Rightarrow> int option \<Rightarrow> int option \<Rightarrow> string option \<Rightarrow> proc_table \<Rightarrow> proc_table" where
  "update_process_status now pid status os_pid exit_code completed_at =
     update_row pid (\<lambda>r. r\<lparr>pc_status := status, pc_pid := keep os_pid (pc_pid r),
       pc_exit_code := keep exit_code (pc_exit_code r), pc_completed_at := keep completed_at (pc_completed_at r),
       pc_started_at := (if status = ''running'' then Some now else pc_started_at r)\<rparr>)"

definition update_process_runtime ::
  "string \<Rightarrow> int option \<Rightarrow> string option \<Rightarrow> string option \<Rightarrow> int option \<Rightarrow> string option \<Rightarrow> string option
    \<Rightarrow> proc_table \<Rightarrow> string + proc_table" where
  "update_process_runtime pid os_pid identity heartbeat offset job recovery table =
     (case offset of
        Some n \<Rightarrow> if n < 0 then Inl ''last_output_offset must not be negative''
          else Inr (update_row pid (\<lambda>r. r\<lparr>pc_pid := keep os_pid (pc_pid r), pc_identity := keep identity (pc_identity r),
            pc_heartbeat := keep heartbeat (pc_heartbeat r), pc_offset := n, pc_job := keep job (pc_job r),
            pc_recovery := keep recovery (pc_recovery r)\<rparr>) table)
      | None \<Rightarrow> Inr (update_row pid (\<lambda>r. r\<lparr>pc_pid := keep os_pid (pc_pid r), pc_identity := keep identity (pc_identity r),
            pc_heartbeat := keep heartbeat (pc_heartbeat r), pc_job := keep job (pc_job r),
            pc_recovery := keep recovery (pc_recovery r)\<rparr>) table))"

lemma map_of_update_row:
  "map_of (update_row pid f table) k = (if k = pid then map_option f (map_of table pid) else map_of table k)"
  by (auto simp: update_row_def map_of_update_iff split: option.splits)

lemma keys_update_row [simp]: "fst ` set (update_row pid f table) = fst ` set table"
  by (auto simp: update_row_def dom_update dest: map_of_Some_keys split: option.splits)

end
