(* ===== verification/Paged_Reader.thy ===== *)
theory Paged_Reader
  imports Op_Prelude
begin

text \<open>
  The interface of everything a client reads page by page with a cursor.  \<open>remaining\<close> is the
  specification: what a reader at a cursor still has to see.  A page takes a prefix of it, the
  returned cursor stands for the rest, and the more-flag says whether the rest is non-empty.
  Where the budget also counts the items of a page, the reader is \<open>paged_reader\<close>.
\<close>

locale page_source =
  fixes ok :: "'s \<Rightarrow> bool"
    and page :: "'s \<Rightarrow> 'c \<Rightarrow> nat \<Rightarrow> 'a list \<times> 'c \<times> bool"
    and remaining :: "'s \<Rightarrow> 'c \<Rightarrow> 'a list"
  assumes splits: "ok s \<Longrightarrow> 0 < n \<Longrightarrow> page s c n = (xs, c', more) \<Longrightarrow> remaining s c = xs @ remaining s c'"
    and flag: "ok s \<Longrightarrow> 0 < n \<Longrightarrow> page s c n = (xs, c', more) \<Longrightarrow> more \<longleftrightarrow> remaining s c' \<noteq> []"
    and progress: "ok s \<Longrightarrow> 0 < n \<Longrightarrow> page s c n = (xs, c', True) \<Longrightarrow> xs \<noteq> []"
begin

text \<open>A client that reads pages until the flag is off, at most \<open>k\<close> of them after the first.\<close>

fun drain :: "nat \<Rightarrow> 's \<Rightarrow> 'c \<Rightarrow> nat \<Rightarrow> 'a list \<times> 'c" where
  "drain 0 s c n = (case page s c n of (xs, c', more) \<Rightarrow> (xs, c'))"
| "drain (Suc k) s c n =
     (case page s c n of
        (xs, c', more) \<Rightarrow> if more then (let (ys, c'') = drain k s c' n in (xs @ ys, c'')) else (xs, c'))"

lemma drain_prefix:
  assumes "ok s" "0 < n" "drain k s c n = (xs, c')"
  shows "remaining s c = xs @ remaining s c'"
  using assms(3)
proof (induction k arbitrary: c xs c')
  case 0
  then show ?case using splits [OF assms(1,2)] by (auto split: prod.splits)
next
  case (Suc k)
  obtain ys c1 more where p: "page s c n = (ys, c1, more)" by (cases "page s c n")
  obtain zs c2 where d: "drain k s c1 n = (zs, c2)" by (cases "drain k s c1 n")
  show ?case
    using Suc.prems Suc.IH [OF d] splits [OF assms(1,2) p] p d by (auto split: if_splits prod.splits)
qed

lemma drain_all:
  assumes "ok s" "0 < n" "length (remaining s c) \<le> k"
  shows "fst (drain k s c n) = remaining s c \<and> remaining s (snd (drain k s c n)) = []"
  using assms(3)
proof (induction k arbitrary: c)
  case 0
  obtain xs c1 more where p: "page s c n = (xs, c1, more)" by (cases "page s c n")
  show ?case using 0 splits [OF assms(1,2) p] p by simp
next
  case (Suc k)
  obtain xs c1 more where p: "page s c n = (xs, c1, more)" by (cases "page s c n")
  note sp = splits [OF assms(1,2) p]
  show ?case
  proof (cases more)
    case True
    with p have "xs \<noteq> []" using progress [OF assms(1,2), of c xs c1] by simp
    then have "length (remaining s c1) \<le> k" using Suc.prems sp by (cases xs) auto
    from Suc.IH [OF this] sp p True show ?thesis by (auto split: prod.splits)
  next
    case False
    with flag [OF assms(1,2) p] sp p show ?thesis by simp
  qed
qed

end

locale paged_reader = page_source +
  assumes bounded: "ok s \<Longrightarrow> 0 < n \<Longrightarrow> page s c n = (xs, c', more) \<Longrightarrow> length xs \<le> n"
begin

text \<open>With \<open>k\<close> further pages at most \<open>(k + 1) * n\<close> items are read.\<close>

lemma drain_bounded:
  assumes "ok s" "0 < n"
  shows "length (fst (drain k s c n)) \<le> Suc k * n"
proof (induction k arbitrary: c)
  case 0
  then show ?case using bounded [OF assms] by (auto split: prod.splits)
next
  case (Suc k)
  obtain xs c1 more where p: "page s c n = (xs, c1, more)" by (cases "page s c n")
  show ?case using bounded [OF assms p] Suc.IH [of c1] p by (auto split: prod.splits)
qed

end

end
