(* ===== verification/Event_Stream.thy ===== *)
theory Event_Stream
  imports Json_Values Path_Guard Process_Table Paged_Reader
begin

text \<open>
  The durable event stream of \<open>app/services/event_store.py\<close>: cursors, validation, the append-only
  table with its autoincrement ids and per-process sequence numbers, the transactions that
  combine a process update with its event, pagination, retention and long polling.  The size
  of an encoded payload is a parameter \<open>size_of\<close>; times are arguments.
\<close>

subsection \<open>Constants and errors\<close>

definition event_types :: "string list" where
  "event_types = [''tool.queued'', ''tool.started'', ''process.output'', ''process.exited'', ''artifact.created'',
     ''check.completed'', ''change_set.begun'', ''change_set.staged'', ''change_set.validated'',
     ''change_set.validation_failed'', ''change_set.committed'', ''change_set.rolled_back'', ''change_set.recovery_required'']"

definition terminal_process_statuses :: "string list" where
  "terminal_process_statuses = [''passed'', ''failed'', ''timed_out'', ''cancelled'', ''resource_exhausted'',
     ''interrupted'', ''lost'', ''recovery_required'']"

definition sensitive_keys :: "string list" where
  "sensitive_keys = [''authorization'', ''authorization_header'', ''api_key'', ''apikey'', ''cookie'', ''environment'',
     ''env'', ''script'', ''command'']"

datatype event_error =
    Ev_ValueError string
  | Ev_KeyError string
  | Ev_SqlError string
  | Invalid_cursor
  | Cursor_expired string
  | Wait_limit

subsection \<open>Cursors\<close>

function hex_str :: "nat \<Rightarrow> string" where
  "hex_str n = (if n < 16 then [hex_char n] else hex_str (n div 16) @ [hex_char (n mod 16)])"
  by auto
termination by (relation "measure id") auto

declare hex_str.simps [simp del]

definition hex_value :: "char \<Rightarrow> nat option" where
  "hex_value c = (let n = char_code c in
     if 48 \<le> n \<and> n \<le> 57 then Some (n - 48) else if 97 \<le> n \<and> n \<le> 102 then Some (n - 87) else None)"

fun hex_parse :: "nat \<Rightarrow> string \<Rightarrow> nat option" where
  "hex_parse acc [] = Some acc"
| "hex_parse acc (c # s) = (case hex_value c of None \<Rightarrow> None | Some d \<Rightarrow> hex_parse (16 * acc + d) s)"

definition encode_cursor :: "int \<Rightarrow> event_error + string" where
  "encode_cursor event_id =
     (if event_id < 0 then Inl (Ev_ValueError ''event_id must not be negative'')
      else Inr (''evt1_'' @ hex_str (nat event_id)))"

definition cursor_of :: "nat \<Rightarrow> string" where
  "cursor_of n = ''evt1_'' @ hex_str n"

definition decode_cursor :: "string \<Rightarrow> event_error + nat" where
  "decode_cursor cursor =
     (if \<not> prefix ''evt1_'' cursor then Inl Invalid_cursor
      else let digits = drop 5 cursor in
        if digits = [] \<or> length digits > 16 then Inl Invalid_cursor
        else case hex_parse 0 digits of None \<Rightarrow> Inl Invalid_cursor | Some n \<Rightarrow> Inr n)"

subsection \<open>Validation\<close>

text \<open>\<open>str.casefold\<close> below code point 256: lower case, and the sharp s becomes two letters.\<close>

definition py_casefold :: "string \<Rightarrow> string" where
  "py_casefold s = concat (map (\<lambda>c. if char_code c = 223 then ''ss'' else [py_lower_char c]) s)"

definition path_key :: "string \<Rightarrow> bool" where
  "path_key k = (py_contains ''path'' (py_casefold k) \<or> py_contains ''directory'' (py_casefold k))"

text \<open>
  The recursive search: objects nested in objects, and objects that are direct items of a list.
\<close>

fun find_sensitive_key :: "(string \<times> json) list \<Rightarrow> string option"
  and find_in_items :: "json list \<Rightarrow> string option" where
  "find_sensitive_key [] = None"
| "find_sensitive_key ((key, nested) # rest) =
     (if py_casefold key \<in> set sensitive_keys then Some key
      else if is_jstr nested \<and> path_key key \<and> is_absolute (jstr nested) then Some key
      else case (case nested of JObj kvs \<Rightarrow> find_sensitive_key kvs | JArr items \<Rightarrow> find_in_items items | _ \<Rightarrow> None) of
             Some found \<Rightarrow> Some found
           | None \<Rightarrow> find_sensitive_key rest)"
| "find_in_items [] = None"
| "find_in_items (item # items) =
     (case (case item of JObj kvs \<Rightarrow> find_sensitive_key kvs | _ \<Rightarrow> None) of
        Some found \<Rightarrow> Some found
      | None \<Rightarrow> find_in_items items)"

definition validate_event ::
  "(json \<Rightarrow> nat) \<Rightarrow> nat \<Rightarrow> string \<Rightarrow> string option \<Rightarrow> string option \<Rightarrow> (string \<times> json) list \<Rightarrow> event_error option" where
  "validate_event size_of max_payload_bytes event_type ws pid payload =
     (if event_type \<notin> set event_types then Some (Ev_ValueError (''unknown event type: '' @ event_type))
      else if ws = None \<or> ws = Some [] then Some (Ev_ValueError ''workspace_id is required'')
      else if pid = Some [] then Some (Ev_ValueError ''process_id must be non-empty'')
      else case find_sensitive_key payload of
        Some k \<Rightarrow> Some (Ev_ValueError (''sensitive event payload key is not allowed: '' @ k))
      | None \<Rightarrow>
          if size_of (JObj payload) > max_payload_bytes then Some (Ev_ValueError ''event payload exceeds max_payload_bytes'')
          else None)"

definition validate_filters :: "string list option \<Rightarrow> event_error + string list" where
  "validate_filters types =
     (case types of
        None \<Rightarrow> Inr []
      | Some ts \<Rightarrow> (if set ts \<subseteq> set event_types then Inr (rev (remdups (rev ts)))
                    else Inl (Ev_ValueError ''unknown event types'')))"

subsection \<open>The tables\<close>

record event_row =
  ev_id :: nat
  ev_request :: "string option"
  ev_workspace :: "string option"
  ev_process :: "string option"
  ev_type :: string
  ev_sequence :: "nat option"
  ev_payload :: "(string \<times> json) list"
  ev_created_at :: string

record event_db =
  ed_workspaces :: "string list"
  ed_events :: "event_row list"
  ed_last_id :: nat
  ed_processes :: proc_table
  ed_watermarks :: "(string, nat) dict"

type_synonym 'a event_txn = "event_db \<times> (event_error + 'a)"

definition max_id :: "event_row list \<Rightarrow> nat" where
  "max_id rows = fold max (map ev_id rows) 0"

definition next_sequence :: "string \<Rightarrow> event_row list \<Rightarrow> nat" where
  "next_sequence pid rows =
     Suc (fold max (map (\<lambda>r. case ev_sequence r of None \<Rightarrow> 0 | Some n \<Rightarrow> n)
       (filter (\<lambda>r. ev_process r = Some pid) rows)) 0)"

text \<open>\<open>_insert_locked\<close>: the foreign key of the workspace is checked by the database.\<close>

definition insert_locked ::
  "string \<Rightarrow> string \<Rightarrow> string option \<Rightarrow> string option \<Rightarrow> string option \<Rightarrow> (string \<times> json) list \<Rightarrow> event_db \<Rightarrow> event_row event_txn" where
  "insert_locked now event_type request ws pid payload db =
     (let row = \<lparr>ev_id = Suc (ed_last_id db), ev_request = request, ev_workspace = ws, ev_process = pid,
                 ev_type = event_type, ev_sequence = map_option (\<lambda>p. next_sequence p (ed_events db)) pid,
                 ev_payload = payload, ev_created_at = now\<rparr>
      in if ws \<noteq> None \<and> the ws \<notin> set (ed_workspaces db) then (db, Inl (Ev_SqlError ''FOREIGN KEY constraint failed''))
         else (db\<lparr>ed_events := ed_events db @ [row], ed_last_id := Suc (ed_last_id db)\<rparr>, Inr row))"

definition append_event ::
  "(json \<Rightarrow> nat) \<Rightarrow> nat \<Rightarrow> string \<Rightarrow> string \<Rightarrow> string option \<Rightarrow> string option \<Rightarrow> string option \<Rightarrow> (string \<times> json) list
    \<Rightarrow> event_db \<Rightarrow> event_row event_txn" where
  "append_event size_of max_payload_bytes now event_type request ws pid payload db =
     (case validate_event size_of max_payload_bytes event_type ws pid payload of
        Some e \<Rightarrow> (db, Inl e)
      | None \<Rightarrow> transact (insert_locked now event_type request ws pid payload) db)"

definition last_terminal_event :: "string \<Rightarrow> event_db \<Rightarrow> event_row option" where
  "last_terminal_event pid db =
     (case filter (\<lambda>r. ev_process r = Some pid \<and> ev_type r = ''process.exited'') (ed_events db) of
        [] \<Rightarrow> None
      | rows \<Rightarrow> Some (last rows))"

text \<open>The reply of a transition: an event of the table, or the synthetic one with the stored status.\<close>

datatype exit_reply = Exit_event event_row | Exit_status string string

record exit_info =
  ex_exit_code :: "int option"
  ex_completed_at :: "string option"
  ex_recovery_status :: "string option"
  ex_reason :: "string option"
  ex_request :: "string option"
  ex_offsets :: "(string, int) dict option"

definition opt_or :: "string option \<Rightarrow> string option \<Rightarrow> string option" where
  "opt_or a b = (case a of Some s \<Rightarrow> if s = [] then b else a | None \<Rightarrow> b)"

definition exit_payload :: "string \<Rightarrow> exit_info \<Rightarrow> (string \<times> json) list" where
  "exit_payload status x =
     [(''status'', JStr status),
      (''exit_code'', (case ex_exit_code x of None \<Rightarrow> JNull | Some n \<Rightarrow> JInt n)),
      (''reason'', opt_str (opt_or (ex_reason x) (ex_recovery_status x)))]
     @ (case ex_offsets x of
          None \<Rightarrow> []
        | Some offs \<Rightarrow> if offs = [] then [] else
            [(''stdout_offset'', JInt (dict_get 0 offs ''stdout'')), (''stderr_offset'', JInt (dict_get 0 offs ''stderr''))])"

definition transition_body :: "string \<Rightarrow> string \<Rightarrow> string \<Rightarrow> exit_info \<Rightarrow> event_db \<Rightarrow> exit_reply event_txn" where
  "transition_body now pid status x db =
     (case map_of (ed_processes db) pid of
        None \<Rightarrow> (db, Inl (Ev_KeyError (''process not found: '' @ pid)))
      | Some r \<Rightarrow>
          if pc_status r \<in> set terminal_process_statuses then
            (db, Inr (case last_terminal_event pid db of Some e \<Rightarrow> Exit_event e | None \<Rightarrow> Exit_status pid (pc_status r)))
          else
            let r' = r\<lparr>pc_status := status,
                       pc_completed_at := Some (case opt_or (ex_completed_at x) None of Some t \<Rightarrow> t | None \<Rightarrow> now),
                       pc_exit_code := keep (ex_exit_code x) (pc_exit_code r),
                       pc_recovery := keep (ex_recovery_status x) (pc_recovery r)\<rparr>;
                db1 = db\<lparr>ed_processes := AList.update pid r' (ed_processes db)\<rparr>
            in case insert_locked now ''process.exited'' (ex_request x) (Some (pc_workspace r)) (Some pid) (exit_payload status x) db1 of
                 (db2, Inl e) \<Rightarrow> (db2, Inl e)
               | (db2, Inr row) \<Rightarrow> (db2, Inr (Exit_event row)))"

definition transition_process :: "string \<Rightarrow> string \<Rightarrow> string \<Rightarrow> exit_info \<Rightarrow> event_db \<Rightarrow> exit_reply event_txn" where
  "transition_process now pid status x db =
     (if status \<notin> set terminal_process_statuses
      then (db, Inl (Ev_ValueError (''not a terminal process status: '' @ status)))
      else transact (transition_body now pid status x) db)"

definition start_body :: "string \<Rightarrow> string \<Rightarrow> int \<Rightarrow> string \<Rightarrow> string option \<Rightarrow> bool \<Rightarrow> event_db \<Rightarrow> event_row event_txn" where
  "start_body now pid os_pid tool request recovered db =
     (case map_of (ed_processes db) pid of
        None \<Rightarrow> (db, Inl (Ev_KeyError (''process not found: '' @ pid)))
      | Some r \<Rightarrow>
          let r' = r\<lparr>pc_status := ''running'', pc_pid := Some os_pid, pc_started_at := Some now\<rparr>
          in insert_locked now ''tool.started'' request (Some (pc_workspace r)) (Some pid)
               [(''tool_name'', JStr tool), (''pid'', JInt os_pid), (''working_directory_redacted'', JStr ''.''),
                (''recovered'', JBool recovered)]
               (db\<lparr>ed_processes := AList.update pid r' (ed_processes db)\<rparr>))"

definition start_process :: "string \<Rightarrow> string \<Rightarrow> int \<Rightarrow> string \<Rightarrow> string option \<Rightarrow> bool \<Rightarrow> event_db \<Rightarrow> event_row event_txn" where
  "start_process now pid os_pid tool request recovered =
     transact (start_body now pid os_pid tool request recovered)"

subsection \<open>Reading pages\<close>

record event_filter =
  ef_workspace :: string
  ef_process :: "string option"
  ef_types :: "string list"

definition matches :: "event_filter \<Rightarrow> event_row \<Rightarrow> bool" where
  "matches f r =
     (ev_workspace r = Some (ef_workspace f) \<and>
      (case ef_process f of None \<Rightarrow> True | Some p \<Rightarrow> ev_process r = Some p) \<and>
      (ef_types f = [] \<or> ev_type r \<in> set (ef_types f)))"

definition workspace_events :: "string \<Rightarrow> event_row list \<Rightarrow> event_row list" where
  "workspace_events ws rows = filter (\<lambda>r. ev_workspace r = Some ws) rows"

definition resolve_after :: "string option \<Rightarrow> string \<Rightarrow> bool \<Rightarrow> event_db \<Rightarrow> event_error + nat" where
  "resolve_after cursor ws from_beginning db =
     (case cursor of
        Some c \<Rightarrow> decode_cursor c
      | None \<Rightarrow> if from_beginning then Inr 0 else Inr (max_id (workspace_events ws (ed_events db))))"

definition check_retention :: "nat \<Rightarrow> string \<Rightarrow> event_db \<Rightarrow> event_error option" where
  "check_retention after ws db =
     (let expired_through = dict_get 0 (ed_watermarks db) ws in
      if after < expired_through then Some (Cursor_expired (cursor_of expired_through)) else None)"

text \<open>The rows of the query: those after the cursor that match, in id order.\<close>

definition matching_after :: "event_filter \<Rightarrow> nat \<Rightarrow> event_db \<Rightarrow> event_row list" where
  "matching_after f after db = sort_key ev_id (filter (\<lambda>r. after < ev_id r \<and> matches f r) (ed_events db))"

definition read_page :: "event_filter \<Rightarrow> event_db \<Rightarrow> nat \<Rightarrow> nat \<Rightarrow> event_row list \<times> nat \<times> bool" where
  "read_page f db after page_limit =
     (let rows = take (page_limit + 1) (matching_after f after db);
          selected = take page_limit rows;
          observed = (if selected = [] then after else ev_id (last selected))
      in (selected, observed, length rows > page_limit))"

record event_page =
  ep_events :: "event_row list"
  ep_cursor :: string
  ep_has_more :: bool
  ep_timed_out :: bool
  ep_shutdown :: bool

definition page_limit_of :: "nat \<Rightarrow> int \<Rightarrow> nat" where
  "page_limit_of max_page_size limit = nat (max 1 (min limit (int max_page_size)))"

definition list_after ::
  "nat \<Rightarrow> string option \<Rightarrow> string \<Rightarrow> string option \<Rightarrow> string list option \<Rightarrow> int \<Rightarrow> bool \<Rightarrow> event_db \<Rightarrow> event_error + event_page" where
  "list_after max_page_size cursor ws pid types limit from_beginning db =
     obind (validate_filters types) (\<lambda>ts.
     obind (resolve_after cursor ws from_beginning db) (\<lambda>after.
     case check_retention after ws db of
       Some e \<Rightarrow> Inl e
     | None \<Rightarrow>
         let (events, observed, has_more) =
               read_page \<lparr>ef_workspace = ws, ef_process = pid, ef_types = ts\<rparr> db after (page_limit_of max_page_size limit)
         in Inr \<lparr>ep_events = events, ep_cursor = cursor_of observed, ep_has_more = has_more, ep_timed_out = False,
                 ep_shutdown = False\<rparr>))"

subsection \<open>Retention\<close>

text \<open>\<open>SELECT DISTINCT workspace_id ... WHERE workspace_id IS NOT NULL\<close>.\<close>

definition event_workspaces :: "event_db \<Rightarrow> string list" where
  "event_workspaces db = remdups (List.map_filter ev_workspace (ed_events db))"

definition expired_through :: "string \<Rightarrow> nat \<Rightarrow> string \<Rightarrow> event_db \<Rightarrow> nat" where
  "expired_through cutoff max_events ws db =
     (let mine = sort_key ev_id (workspace_events ws (ed_events db));
          excess = take (length mine - max_events) mine
      in max (max_id excess) (max_id (filter (\<lambda>r. ev_created_at r < cutoff) mine)))"

definition cleanup_workspace :: "string \<Rightarrow> nat \<Rightarrow> string \<Rightarrow> event_db \<times> nat \<Rightarrow> event_db \<times> nat" where
  "cleanup_workspace cutoff max_events ws st =
     (let (db, deleted) = st; through = expired_through cutoff max_events ws db in
      if through = 0 then (db, deleted)
      else let gone = filter (\<lambda>r. ev_workspace r = Some ws \<and> ev_id r \<le> through) (ed_events db) in
        (db\<lparr>ed_events := filter (\<lambda>r. \<not> (ev_workspace r = Some ws \<and> ev_id r \<le> through)) (ed_events db),
            ed_watermarks := AList.update ws (max (dict_get 0 (ed_watermarks db) ws) through) (ed_watermarks db)\<rparr>,
         deleted + length gone))"

definition cleanup :: "string \<Rightarrow> int \<Rightarrow> int \<Rightarrow> event_db \<Rightarrow> nat event_txn" where
  "cleanup cutoff retention_days max_events db =
     (if retention_days < 0 \<or> max_events < 1 then (db, Inl (Ev_ValueError ''invalid event retention settings''))
      else let (db', deleted) = foldl (\<lambda>st ws. cleanup_workspace cutoff (nat max_events) ws st) (db, 0) (event_workspaces db)
           in (db', Inr deleted))"

subsection \<open>Long polling\<close>

text \<open>
  The notifier of one database and the waiters blocked in \<open>Condition.wait\<close>.  All database writes and
  the wait loop run under the notifier's condition, so a pass of the loop up to the wait is one
  atomic step.
\<close>

record event_waiter =
  wa_workspace :: string
  wa_process :: "string option"
  wa_types :: "string list option"
  wa_limit :: int
  wa_cursor :: string
  wa_deadline :: real
  wa_generation :: nat

record event_system =
  es_db :: event_db
  es_generation :: nat
  es_waiters :: "event_waiter list"
  es_shutting_down :: bool

datatype wait_outcome = Wait_page event_page | Wait_error event_error | Wait_block event_waiter

text \<open>
  One pass of the loop body.  \<open>generation\<close> is the waiter's local copy; the thread waits only when no
  notification came since, and then refreshes the copy (at the return of the wait).
\<close>

definition waiter_page :: "nat \<Rightarrow> event_waiter \<Rightarrow> event_db \<Rightarrow> event_error + event_page" where
  "waiter_page max_page_size w db =
     list_after max_page_size (Some (wa_cursor w)) (wa_workspace w) (wa_process w) (wa_types w) (wa_limit w) False db"

definition wait_pass :: "nat \<Rightarrow> real \<Rightarrow> event_waiter \<Rightarrow> event_system \<Rightarrow> wait_outcome" where
  "wait_pass max_page_size now w y =
     (case waiter_page max_page_size w (es_db y) of
        Inl e \<Rightarrow> Wait_error e
      | Inr page \<Rightarrow>
          if ep_events page \<noteq> [] \<or> ep_has_more page then Wait_page page
          else if es_shutting_down y then Wait_page (page\<lparr>ep_shutdown := True\<rparr>)
          else if wa_deadline w - now \<le> 0 then Wait_page (page\<lparr>ep_timed_out := True\<rparr>)
          else Wait_block (w\<lparr>wa_generation := es_generation y\<rparr>))"

definition settle_wait :: "wait_outcome \<Rightarrow> event_system \<Rightarrow> event_system" where
  "settle_wait r y = (case r of Wait_block w \<Rightarrow> y\<lparr>es_waiters := es_waiters y @ [w]\<rparr> | _ \<Rightarrow> y)"

text \<open>Entering \<open>wait_after\<close>: the first page, then the waiter limit, then the loop.\<close>

definition wait_begin ::
  "nat \<Rightarrow> nat \<Rightarrow> real \<Rightarrow> real \<Rightarrow> real \<Rightarrow> real \<Rightarrow> event_waiter \<Rightarrow> string option \<Rightarrow> bool \<Rightarrow> event_system \<Rightarrow> event_system \<times> wait_outcome" where
  "wait_begin max_page_size max_waiters max_wait timeout_seconds start now w cursor from_beginning y =
     (let timeout = max 0 (min timeout_seconds max_wait) in
      case list_after max_page_size cursor (wa_workspace w) (wa_process w) (wa_types w) (wa_limit w) from_beginning (es_db y) of
        Inl e \<Rightarrow> (y, Wait_error e)
      | Inr first \<Rightarrow>
          if ep_events first \<noteq> [] \<or> ep_has_more first \<or> timeout = 0 then (y, Wait_page first)
          else if length (es_waiters y) \<ge> max_waiters then (y, Wait_error Wait_limit)
          else
            let w' = w\<lparr>wa_cursor := ep_cursor first, wa_deadline := start + timeout, wa_generation := es_generation y\<rparr>;
                r = wait_pass max_page_size now w' y
            in (settle_wait r y, r))"

definition wait_resume :: "nat \<Rightarrow> real \<Rightarrow> event_waiter \<Rightarrow> event_system \<Rightarrow> event_system \<times> wait_outcome" where
  "wait_resume max_page_size now w y =
     (let r = wait_pass max_page_size now w y in
      (settle_wait r (y\<lparr>es_waiters := remove1 w (es_waiters y)\<rparr>), r))"

definition notify_locked :: "event_system \<Rightarrow> event_system" where
  "notify_locked y = y\<lparr>es_generation := Suc (es_generation y)\<rparr>"

text \<open>A writing operation of the store on the system: commit, then notify; nothing on an exception.\<close>

definition publish :: "(event_db \<Rightarrow> 'a event_txn) \<Rightarrow> event_system \<Rightarrow> event_system" where
  "publish f y =
     (case f (es_db y) of
        (_, Inl _) \<Rightarrow> y
      | (db', Inr _) \<Rightarrow> notify_locked (y\<lparr>es_db := db'\<rparr>))"

definition transition_and_notify :: "string \<Rightarrow> string \<Rightarrow> string \<Rightarrow> exit_info \<Rightarrow> event_system \<Rightarrow> event_system" where
  "transition_and_notify now pid status x y =
     (case map_of (ed_processes (es_db y)) pid of
        Some r \<Rightarrow> if pc_status r \<in> set terminal_process_statuses then y
          else publish (transition_process now pid status x) y
      | None \<Rightarrow> y)"

definition cleanup_and_notify :: "string \<Rightarrow> int \<Rightarrow> int \<Rightarrow> event_system \<Rightarrow> event_system" where
  "cleanup_and_notify cutoff days max_events y =
     (case cleanup cutoff days max_events (es_db y) of
        (_, Inl _) \<Rightarrow> y
      | (db', Inr deleted) \<Rightarrow> if deleted = 0 then y\<lparr>es_db := db'\<rparr> else notify_locked (y\<lparr>es_db := db'\<rparr>))"

definition shutdown :: "event_system \<Rightarrow> event_system" where
  "shutdown y = notify_locked (y\<lparr>es_shutting_down := True\<rparr>)"

end
