(* ===== verification/Event_Safety.thy ===== *)
theory Event_Safety
  imports Event_Stream
begin

text \<open>
  Correctness of the event stream: cursors, the invariant of the tables over all histories,
  complete pagination, honest retention, idempotent process exits and long polling without
  lost wake-ups.
\<close>

subsection \<open>Cursors\<close>

lemma char_code_of: "n < 256 \<Longrightarrow> char_code (char_of n) = n"
  by (simp add: char_code_def)

lemma hex_value_char: "d < 16 \<Longrightarrow> hex_value (hex_char d) = Some d"
  by (auto simp: hex_value_def hex_char_def char_code_of Let_def)

lemma hex_parse_append:
  "hex_parse acc (s @ t) = (case hex_parse acc s of None \<Rightarrow> None | Some n \<Rightarrow> hex_parse n t)"
  by (induction s arbitrary: acc) (auto split: option.splits)

lemma hex_parse_str: "hex_parse acc (hex_str n) = Some (acc * 16 ^ length (hex_str n) + n)"
proof (induction n arbitrary: acc rule: hex_str.induct)
  case (1 n)
  show ?case
  proof (cases "n < 16")
    case True
    then show ?thesis by (simp add: hex_str.simps [of n] hex_value_char)
  next
    case False
    then have "hex_str n = hex_str (n div 16) @ [hex_char (n mod 16)]" by (simp add: hex_str.simps [of n])
    then show ?thesis using 1 [OF False, of acc] by (simp add: hex_parse_append hex_value_char algebra_simps)
  qed
qed

lemma hex_str_length: "0 < k \<Longrightarrow> n < 16 ^ k \<Longrightarrow> length (hex_str n) \<le> k"
proof (induction k arbitrary: n)
  case (Suc k)
  show ?case
  proof (cases "n < 16")
    case True
    then show ?thesis by (simp add: hex_str.simps [of n])
  next
    case False
    with Suc.prems have "k \<noteq> 0" by (cases k) auto
    moreover have "n div 16 < 16 ^ k" using Suc.prems by (simp add: less_mult_imp_div_less mult.commute)
    ultimately have "length (hex_str (n div 16)) \<le> k" using Suc.IH by simp
    then show ?thesis using False by (simp add: hex_str.simps [of n])
  qed
qed simp

lemma hex_str_nonempty: "hex_str n \<noteq> []"
  by (simp add: hex_str.simps [of n])

lemma decode_cursor_of:
  assumes "n < 16 ^ 16"
  shows "decode_cursor (cursor_of n) = Inr n"
proof -
  have "length (hex_str n) \<le> 16" using hex_str_length [of 16 n] assms by simp
  then show ?thesis
    using hex_parse_str [of 0 n] by (simp add: decode_cursor_def cursor_of_def hex_str_nonempty)
qed

lemma cursor_of_inj: "cursor_of n = cursor_of m \<longleftrightarrow> n = m"
  using hex_parse_str [of 0 n] hex_parse_str [of 0 m] unfolding cursor_of_def
  by (metis add_0 mult_zero_left option.inject same_append_eq)

text \<open>
  Cursors round-trip: every event id below 16 to the power 16 (SQLite ids are below 2 to the power 63) is encoded to
  a cursor that decodes to the same id, and distinct ids have distinct cursors.
\<close>
lemma cursor_roundtrip:
  assumes "0 \<le> i" "i < 16 ^ 16"
  shows "\<exists>c. encode_cursor i = Inr c \<and> decode_cursor c = Inr (nat i) \<and>
    (\<forall>j c'. encode_cursor j = Inr c' \<longrightarrow> j \<noteq> i \<longrightarrow> c' \<noteq> c)"
proof -
  have n: "nat i < 16 ^ 16" using assms by simp
  have enc: "encode_cursor j = Inr c' \<Longrightarrow> 0 \<le> j \<and> c' = cursor_of (nat j)" for j c'
    by (simp add: encode_cursor_def cursor_of_def split: if_splits)
  have "c' \<noteq> cursor_of (nat i)" if "encode_cursor j = Inr c'" "j \<noteq> i" for j c'
    using enc [OF that(1)] that(2) assms(1) by (auto simp: cursor_of_inj)
  moreover have "encode_cursor i = Inr (cursor_of (nat i))" using assms by (simp add: encode_cursor_def cursor_of_def)
  ultimately show ?thesis using decode_cursor_of [OF n] by blast
qed

lemma cursor_roundtrip_witness: "decode_cursor ''evt1_ff'' = Inr 255"
proof -
  have "encode_cursor 255 = Inr ''evt1_ff''" by code_simp
  with cursor_roundtrip [of 255] show ?thesis by auto
qed

subsection \<open>The invariant of the tables\<close>

definition events_inv :: "event_db \<Rightarrow> bool" where
  "events_inv db \<longleftrightarrow>
     sorted_wrt (\<lambda>a b. ev_id a < ev_id b) (ed_events db) \<and>
     (\<forall>r\<in>set (ed_events db). 0 < ev_id r \<and> ev_id r \<le> ed_last_id db) \<and>
     (\<forall>ws. dict_get 0 (ed_watermarks db) ws \<le> ed_last_id db) \<and>
     (\<forall>r\<in>set (ed_events db). \<forall>ws. ev_workspace r = Some ws \<longrightarrow> dict_get 0 (ed_watermarks db) ws < ev_id r) \<and>
     sorted_wrt (\<lambda>a b. \<forall>p m n. ev_process a = Some p \<longrightarrow> ev_process b = Some p \<longrightarrow>
        ev_sequence a = Some m \<longrightarrow> ev_sequence b = Some n \<longrightarrow> m < n) (ed_events db)"

lemma fold_max_ge: "(m::nat) \<le> fold max xs m" "x \<in> set xs \<Longrightarrow> x \<le> fold max xs m"
proof -
  show ge: "m \<le> fold max xs m" for m :: nat and xs
    by (induction xs arbitrary: m) (auto intro: order_trans [OF max.cobounded2])
  show "x \<in> set xs \<Longrightarrow> x \<le> fold max xs m"
    by (induction xs arbitrary: m) (auto intro: order_trans [OF max.cobounded1 ge])
qed

lemma fold_max_least: "(m::nat) \<le> k \<Longrightarrow> \<forall>x\<in>set xs. x \<le> k \<Longrightarrow> fold max xs m \<le> k"
  by (induction xs arbitrary: m) auto

lemma max_id_ge: "r \<in> set rows \<Longrightarrow> ev_id r \<le> max_id rows"
  by (simp add: max_id_def fold_max_ge)

lemma max_id_le: "\<forall>r\<in>set rows. ev_id r \<le> k \<Longrightarrow> max_id rows \<le> k"
  by (simp add: max_id_def fold_max_least)

lemma next_sequence_gt:
  assumes "r \<in> set rows" "ev_process r = Some p" "ev_sequence r = Some n"
  shows "n < next_sequence p rows"
proof -
  have "n \<in> set (map (\<lambda>r. case ev_sequence r of None \<Rightarrow> 0 | Some n \<Rightarrow> n) (filter (\<lambda>r. ev_process r = Some p) rows))"
    using assms by force
  from fold_max_ge(2) [OF this, of 0] show ?thesis by (simp add: next_sequence_def)
qed

lemma insert_locked_inv:
  assumes inv: "events_inv db" and ins: "insert_locked now t rq ws pid pl db = (db', Inr row)"
  shows "events_inv db'"
proof -
  let ?row = "\<lparr>ev_id = Suc (ed_last_id db), ev_request = rq, ev_workspace = ws, ev_process = pid, ev_type = t,
    ev_sequence = map_option (\<lambda>p. next_sequence p (ed_events db)) pid, ev_payload = pl, ev_created_at = now\<rparr>"
  have db': "db' = db\<lparr>ed_events := ed_events db @ [?row], ed_last_id := Suc (ed_last_id db)\<rparr>"
    using ins by (auto simp: insert_locked_def Let_def split: if_splits)
  have "ev_id r < Suc (ed_last_id db)" if "r \<in> set (ed_events db)" for r
    using inv that by (auto simp: events_inv_def less_Suc_eq_le)
  moreover have "dict_get 0 (ed_watermarks db) v < Suc (ed_last_id db)" for v
    using inv by (auto simp: events_inv_def less_Suc_eq_le)
  ultimately show ?thesis
    using inv unfolding events_inv_def db'
    by (auto simp: sorted_wrt_append next_sequence_gt less_imp_le)
qed

lemma events_inv_processes [simp]: "events_inv (db\<lparr>ed_processes := ps\<rparr>) = events_inv db"
  by (simp add: events_inv_def)

lemma append_event_inv [op_inv]:
  "events_inv db \<Longrightarrow> events_inv (fst (append_event size_of mx now t rq ws pid pl db))"
  by (auto simp: append_event_def transact_def split: option.splits prod.splits sum.splits dest: insert_locked_inv)

lemma start_process_inv [op_inv]:
  "events_inv db \<Longrightarrow> events_inv (fst (start_process now pid os tool rq rec db))"
  by (auto simp: start_process_def transact_def start_body_def Let_def split: option.splits prod.splits sum.splits
      dest!: insert_locked_inv [rotated])

lemma transition_process_inv [op_inv]:
  "events_inv db \<Longrightarrow> events_inv (fst (transition_process now pid st x db))"
  by (auto simp: transition_process_def transact_def transition_body_def Let_def split: option.splits prod.splits sum.splits
      dest!: insert_locked_inv [rotated])

lemma sort_key_filter_sorted:
  assumes "sorted_wrt (\<lambda>a b. ev_id a < ev_id b) rows"
  shows "sort_key ev_id (filter P rows) = filter P rows"
proof (rule sort_key_id_if_sorted)
  have "sorted_wrt (\<lambda>a b. ev_id a < ev_id b) (filter P rows)" by (rule sorted_wrt_filter_list [OF assms])
  then show "sorted (map ev_id (filter P rows))"
    by (simp add: sorted_wrt_map sorted_wrt_mono_rel [of _ "\<lambda>a b. ev_id a < ev_id b"] less_imp_le)
qed

lemma events_sorted: "events_inv db \<Longrightarrow> sorted_wrt (\<lambda>a b. ev_id a < ev_id b) (ed_events db)"
  by (simp add: events_inv_def)

lemma expired_through_le: "events_inv db \<Longrightarrow> expired_through cutoff n ws db \<le> ed_last_id db"
  by (auto simp: expired_through_def Let_def events_inv_def workspace_events_def intro!: max_id_le dest!: in_set_takeD)

lemma cleanup_workspace_inv:
  assumes "events_inv db"
  shows "events_inv (fst (cleanup_workspace cutoff n ws (db, d)))"
proof -
  let ?t = "expired_through cutoff n ws db"
  show ?thesis
  proof (cases "?t = 0")
    case True
    then show ?thesis using assms by (simp add: cleanup_workspace_def)
  next
    case False
    have le: "?t \<le> ed_last_id db" by (rule expired_through_le [OF assms])
    have "sorted_wrt (\<lambda>a b. ev_id a < ev_id b) (filter P (ed_events db))"
      "sorted_wrt (\<lambda>a b. \<forall>p m n. ev_process a = Some p \<longrightarrow> ev_process b = Some p \<longrightarrow>
        ev_sequence a = Some m \<longrightarrow> ev_sequence b = Some n \<longrightarrow> m < n) (filter P (ed_events db))" for P
      using assms by (auto simp: events_inv_def intro: sorted_wrt_filter_list)
    then show ?thesis
      using assms le False
      by (auto simp: cleanup_workspace_def Let_def events_inv_def dict_get_update split: if_splits)
  qed
qed

text \<open>What retention removed is at or below the watermark it leaves behind.\<close>

definition honest :: "event_db \<Rightarrow> event_db \<Rightarrow> bool" where
  "honest db db' \<longleftrightarrow>
     (\<forall>r\<in>set (ed_events db). \<forall>ws. ev_workspace r = Some ws \<longrightarrow>
        r \<in> set (ed_events db') \<or> ev_id r \<le> dict_get 0 (ed_watermarks db') ws) \<and>
     (\<forall>ws. dict_get 0 (ed_watermarks db) ws \<le> dict_get 0 (ed_watermarks db') ws) \<and>
     ed_last_id db \<le> ed_last_id db'"

lemma honest_refl: "honest db db"
  by (simp add: honest_def)

lemma honest_trans: "honest a b \<Longrightarrow> honest b c \<Longrightarrow> honest a c"
  unfolding honest_def by (meson order_trans)

lemma honest_append: "honest db (db\<lparr>ed_events := ed_events db @ rows, ed_last_id := ed_last_id db + n, ed_processes := ps\<rparr>)"
  by (simp add: honest_def)

lemma cleanup_workspace_honest: "honest db (fst (cleanup_workspace cutoff n ws (db, d)))"
  by (auto simp: honest_def cleanup_workspace_def Let_def dict_get_update)

lemma cleanup_fold:
  "events_inv (fst st) \<Longrightarrow> events_inv (fst (foldl (\<lambda>st ws. cleanup_workspace cutoff n ws st) st wss))
     \<and> honest (fst st) (fst (foldl (\<lambda>st ws. cleanup_workspace cutoff n ws st) st wss))"
proof (induction wss arbitrary: st)
  case Nil
  then show ?case by (simp add: honest_refl)
next
  case (Cons ws wss)
  obtain db d where st: "st = (db, d)" by (cases st)
  with Cons.prems have i: "events_inv (fst (cleanup_workspace cutoff n ws st))" by (simp add: cleanup_workspace_inv)
  have "honest (fst st) (fst (cleanup_workspace cutoff n ws st))" by (simp add: st cleanup_workspace_honest)
  with Cons.IH [OF i] show ?case by (auto intro: honest_trans)
qed

lemma cleanup_inv [op_inv]: "events_inv db \<Longrightarrow> events_inv (fst (cleanup cutoff days n db))"
  using cleanup_fold [of "(db, 0)" cutoff "nat n" "event_workspaces db"]
  by (auto simp: cleanup_def split: prod.splits)

lemma cleanup_honest: "events_inv db \<Longrightarrow> honest db (fst (cleanup cutoff days n db))"
  using cleanup_fold [of "(db, 0)" cutoff "nat n" "event_workspaces db"]
  by (auto simp: cleanup_def honest_refl split: prod.splits)

lemma insert_locked_honest:
  "insert_locked now t rq ws pid pl db = (db', r) \<Longrightarrow> honest db db'"
  by (auto simp: insert_locked_def Let_def honest_def split: if_splits)

lemma honest_processes [simp]:
  "honest (db\<lparr>ed_processes := ps\<rparr>) db' = honest db db'" "honest db (db'\<lparr>ed_processes := ps\<rparr>) = honest db db'"
  by (simp_all add: honest_def)

lemma append_event_honest: "honest db (fst (append_event size_of mx now t rq ws pid pl db))"
  by (auto simp: append_event_def transact_def honest_refl split: option.splits prod.splits sum.splits dest: insert_locked_honest)

lemma start_process_honest: "honest db (fst (start_process now pid os tool rq rec db))"
  by (auto simp: start_process_def transact_def start_body_def Let_def honest_refl split: option.splits prod.splits sum.splits
      dest!: insert_locked_honest)

lemma transition_process_honest: "honest db (fst (transition_process now pid st x db))"
  by (auto simp: transition_process_def transact_def transition_body_def Let_def honest_refl split: option.splits prod.splits sum.splits
      dest!: insert_locked_honest)

subsection \<open>Pagination\<close>

lemma matching_after_inv: "events_inv db \<Longrightarrow> matching_after f c db = filter (\<lambda>r. c < ev_id r \<and> matches f r) (ed_events db)"
  by (simp add: matching_after_def sort_key_filter_sorted events_sorted)

lemma filter_after_split:
  assumes "sorted_wrt (\<lambda>a b. ev_id a < ev_id b) rows" "filter (\<lambda>r. c < ev_id r \<and> Q r) rows = xs @ ys" "xs \<noteq> []"
  shows "filter (\<lambda>r. ev_id (last xs) < ev_id r \<and> Q r) rows = ys"
proof -
  have c: "c < ev_id (last xs)"
  proof -
    have "last xs \<in> set (filter (\<lambda>r. c < ev_id r \<and> Q r) rows)" using assms(2,3) by simp
    then show ?thesis by simp
  qed
  have s: "sorted_wrt (\<lambda>a b. ev_id a < ev_id b) (xs @ ys)"
    using sorted_wrt_filter_list [OF assms(1), of "\<lambda>r. c < ev_id r \<and> Q r"] assms(2) by simp
  have "filter (\<lambda>r. ev_id (last xs) < ev_id r \<and> Q r) rows
      = filter (\<lambda>r. ev_id (last xs) < ev_id r) (filter (\<lambda>r. c < ev_id r \<and> Q r) rows)"
    using c by (auto intro: filter_cong)
  also have "\<dots> = filter (\<lambda>r. ev_id (last xs) < ev_id r) xs @ filter (\<lambda>r. ev_id (last xs) < ev_id r) ys"
    by (simp add: assms(2))
  also have "filter (\<lambda>r. ev_id (last xs) < ev_id r) xs = []"
  proof -
    have "xs = butlast xs @ [last xs]" using assms(3) by simp
    then have "sorted_wrt (\<lambda>a b. ev_id a < ev_id b) (butlast xs @ [last xs])" using s by (metis sorted_wrt_append)
    then have "\<forall>r\<in>set (butlast xs). ev_id r < ev_id (last xs)" by (simp add: sorted_wrt_append)
    then have "\<forall>r\<in>set xs. ev_id r \<le> ev_id (last xs)"
      by (metis \<open>xs = butlast xs @ [last xs]\<close> less_imp_le order_refl rotate1.simps(2) set_ConsD set_rotate1)
    then show ?thesis by (auto simp: filter_empty_conv not_less)
  qed
  also have "filter (\<lambda>r. ev_id (last xs) < ev_id r) ys = ys"
    using s assms(3) by (auto simp: sorted_wrt_append filter_id_conv)
  finally show ?thesis by simp
qed

lemma read_page_splits:
  assumes inv: "events_inv db" and n: "0 < n" and p: "read_page f db c n = (xs, c', hm)"
  shows "matching_after f c db = xs @ matching_after f c' db" (is ?splits)
    and "hm \<longleftrightarrow> matching_after f c' db \<noteq> []" (is ?flag)
    and "length xs \<le> n" (is ?len) and "hm \<Longrightarrow> xs \<noteq> []"
proof -
  let ?m = "matching_after f c db"
  have m: "?m = filter (\<lambda>r. c < ev_id r \<and> matches f r) (ed_events db)" by (rule matching_after_inv [OF inv])
  have xs: "xs = take n ?m" using p by (auto simp: read_page_def Let_def)
  have mo: "hm \<longleftrightarrow> n < length ?m" using p by (auto simp: read_page_def Let_def)
  have c': "c' = (if xs = [] then c else ev_id (last xs))" using p xs by (auto simp: read_page_def Let_def)
  have rest: "matching_after f c' db = drop n ?m"
  proof (cases "xs = []")
    case True
    then have "?m = []" using n xs by simp
    with True c' show ?thesis by simp
  next
    case False
    have "filter (\<lambda>r. c < ev_id r \<and> matches f r) (ed_events db) = xs @ drop n ?m" using m xs by simp
    from filter_after_split [OF events_sorted [OF inv] this False] False c'
    show ?thesis by (simp add: matching_after_inv [OF inv])
  qed
  show ?splits using xs rest by simp
  show ?flag using mo rest by auto
  show ?len using xs by simp
  show "hm \<Longrightarrow> xs \<noteq> []" using xs mo n by auto
qed

interpretation event_pages: paged_reader events_inv "\<lambda>db fc n. case fc of (f, c) \<Rightarrow>
    (case read_page f db c n of (xs, c', hm) \<Rightarrow> (xs, (f, c'), hm))"
  "\<lambda>db fc. matching_after (fst fc) (snd fc) db"
proof
  fix db :: event_db and n :: nat and fc xs fc' hm
  assume a: "events_inv db" "0 < n" "(case fc of (f, c) \<Rightarrow>
    (case read_page f db c n of (xs, c', hm) \<Rightarrow> (xs, (f, c'), hm))) = (xs, fc', hm)"
  then obtain f c c' where fc: "fc = (f, c)" "fc' = (f, c')" "read_page f db c n = (xs, c', hm)"
    by (auto split: prod.splits)
  note r = read_page_splits [OF a(1,2) fc(3)]
  show "matching_after (fst fc) (snd fc) db = xs @ matching_after (fst fc') (snd fc') db"
    "hm = (matching_after (fst fc') (snd fc') db \<noteq> [])" "length xs \<le> n"
    using r fc by simp_all
next
  fix db :: event_db and n :: nat and fc xs fc'
  assume a: "events_inv db" "0 < n" "(case fc of (f, c) \<Rightarrow>
    (case read_page f db c n of (xs, c', hm) \<Rightarrow> (xs, (f, c'), hm))) = (xs, fc', True)"
  then obtain f c c' where "read_page f db c n = (xs, c', True)" by (auto split: prod.splits)
  from read_page_splits(4) [OF a(1,2) this] show "xs \<noteq> []" by simp
qed

subsection \<open>Histories of the stream\<close>

record stream_config =
  cf_payload_bytes :: nat
  cf_page_size :: nat
  cf_waiters :: nat
  cf_wait_seconds :: real

inductive event_step :: "(json \<Rightarrow> nat) \<Rightarrow> stream_config \<Rightarrow> event_system \<Rightarrow> event_system \<Rightarrow> bool" for size_of cf where
  es_append: "event_step size_of cf y (publish (append_event size_of (cf_payload_bytes cf) now t rq ws pid pl) y)"
| es_start: "event_step size_of cf y (publish (start_process now pid os tool rq rec) y)"
| es_transition: "event_step size_of cf y (transition_and_notify now pid st x y)"
| es_cleanup: "event_step size_of cf y (cleanup_and_notify cutoff days n y)"
| es_shutdown: "event_step size_of cf y (shutdown y)"
| es_processes: "event_step size_of cf y (y\<lparr>es_db := (es_db y)\<lparr>ed_processes := ps\<rparr>\<rparr>)"
| es_workspace: "event_step size_of cf y (y\<lparr>es_db := (es_db y)\<lparr>ed_workspaces := ws # ed_workspaces (es_db y)\<rparr>\<rparr>)"
| es_wait: "event_step size_of cf y
    (fst (wait_begin (cf_page_size cf) (cf_waiters cf) (cf_wait_seconds cf) secs start now w cursor beginning y))"
| es_wake: "w \<in> set (es_waiters y) \<Longrightarrow> event_step size_of cf y (fst (wait_resume (cf_page_size cf) now w y))"

inductive_cases event_stepE: "event_step size_of cf y z"

definition empty_stream :: event_system where
  "empty_stream = \<lparr>es_db = \<lparr>ed_workspaces = [], ed_events = [], ed_last_id = 0, ed_processes = [], ed_watermarks = []\<rparr>,
     es_generation = 0, es_waiters = [], es_shutting_down = False\<rparr>"

inductive stream_runs :: "(json \<Rightarrow> nat) \<Rightarrow> stream_config \<Rightarrow> event_system \<Rightarrow> event_system \<Rightarrow> bool" for size_of cf y where
  runs_refl: "stream_runs size_of cf y y"
| runs_step: "stream_runs size_of cf y z \<Longrightarrow> event_step size_of cf z u \<Longrightarrow> stream_runs size_of cf y u"

lemma publish_db: "es_db (publish f y) = (case f (es_db y) of (_, Inl _) \<Rightarrow> es_db y | (db', Inr _) \<Rightarrow> db')"
  by (auto simp: publish_def notify_locked_def split: prod.splits sum.splits)

lemma settle_wait_db [simp]: "es_db (settle_wait r y) = es_db y"
  by (cases r) (simp_all add: settle_wait_def)

lemma wait_db [simp]:
  "es_db (fst (wait_begin mp mw ws secs start now w c b y)) = es_db y"
  "es_db (fst (wait_resume mp now w y)) = es_db y"
  by (auto simp: wait_begin_def wait_resume_def Let_def split: sum.splits)

lemma publish_keeps:
  assumes "P (es_db y)" "P (fst (f (es_db y)))"
  shows "P (es_db (publish f y))"
  using assms by (auto simp: publish_db split: prod.splits sum.splits)

lemma event_step_db:
  assumes inv: "events_inv (es_db y)" and step: "event_step size_of cf y z"
  shows "events_inv (es_db z) \<and> honest (es_db y) (es_db z)"
proof -
  let ?P = "\<lambda>db. events_inv db \<and> honest (es_db y) db"
  have refl: "?P (es_db y)" using inv by (simp add: honest_refl)
  show ?thesis using step
  proof cases
    case (es_append now t rq ws pid pl)
    show ?thesis unfolding es_append
      by (rule publish_keeps [where P = ?P, OF refl]) (simp add: append_event_inv append_event_honest inv)
  next
    case (es_start now pid os tool rq rec)
    show ?thesis unfolding es_start
      by (rule publish_keeps [where P = ?P, OF refl]) (simp add: start_process_inv start_process_honest inv)
  next
    case (es_transition now pid st x)
    have "?P (es_db (publish (transition_process now pid st x) y))"
      by (rule publish_keeps [where P = ?P, OF refl]) (simp add: transition_process_inv transition_process_honest inv)
    with refl show ?thesis unfolding es_transition by (simp add: transition_and_notify_def split: option.splits)
  next
    case (es_cleanup cutoff days n)
    have "es_db z = es_db y \<or> es_db z = fst (cleanup cutoff days n (es_db y))"
      unfolding es_cleanup by (auto simp: cleanup_and_notify_def notify_locked_def split: prod.splits sum.splits)
    with refl cleanup_inv [OF inv] cleanup_honest [OF inv] show ?thesis by metis
  next
    case es_shutdown
    with refl show ?thesis by (simp add: shutdown_def notify_locked_def)
  next
    case (es_processes ps)
    with refl show ?thesis by simp
  next
    case (es_workspace ws)
    with refl show ?thesis by (simp add: events_inv_def honest_def)
  qed (use refl in simp_all)
qed

lemma stream_runs_db:
  assumes "stream_runs size_of cf y z" "events_inv (es_db y)"
  shows "events_inv (es_db z) \<and> honest (es_db y) (es_db z)"
  using assms
proof induction
  case runs_refl
  then show ?case by (simp add: honest_refl)
next
  case (runs_step z u)
  from runs_step.IH [OF runs_step.prems] have z: "events_inv (es_db z)" "honest (es_db y) (es_db z)" by auto
  from event_step_db [OF z(1) runs_step.hyps(2)] honest_trans [OF z(2)] show ?case by blast
qed

lemma empty_stream_inv: "events_inv (es_db empty_stream)"
  by (simp add: empty_stream_def events_inv_def)

subsection \<open>Waiters\<close>

lemma list_after_cong:
  assumes "ed_events db' = ed_events db" "ed_watermarks db' = ed_watermarks db"
  shows "list_after mp c ws pid ts l b db' = list_after mp c ws pid ts l b db"
proof -
  have "resolve_after c ws b db' = resolve_after c ws b db" "\<And>a. check_retention a ws db' = check_retention a ws db"
    "\<And>f a n. read_page f db' a n = read_page f db a n"
    by (simp_all add: resolve_after_def check_retention_def read_page_def matching_after_def assms split: option.splits)
  then show ?thesis by (simp add: list_after_def cong del: option.case_cong_weak)
qed

definition idle_page :: "nat \<Rightarrow> event_waiter \<Rightarrow> event_db \<Rightarrow> bool" where
  "idle_page mp w db = (case waiter_page mp w db of Inl _ \<Rightarrow> False | Inr p \<Rightarrow> ep_events p = [] \<and> \<not> ep_has_more p)"

definition waiters_inv :: "stream_config \<Rightarrow> event_system \<Rightarrow> bool" where
  "waiters_inv cf y \<longleftrightarrow>
     length (es_waiters y) \<le> cf_waiters cf \<and>
     (\<forall>w\<in>set (es_waiters y). wa_generation w \<le> es_generation y \<and>
        (wa_generation w = es_generation y \<longrightarrow> idle_page (cf_page_size cf) w (es_db y) \<and> \<not> es_shutting_down y))"

lemma idle_pageD: "idle_page mp w db \<Longrightarrow> \<exists>p. waiter_page mp w db = Inr p \<and> ep_events p = [] \<and> \<not> ep_has_more p"
  by (auto simp: idle_page_def split: sum.splits)

lemma idle_page_cong:
  assumes "ed_events db' = ed_events db" "ed_watermarks db' = ed_watermarks db"
  shows "idle_page mp w db' = idle_page mp w db"
  unfolding idle_page_def waiter_page_def list_after_cong [OF assms] by (rule refl)

lemma notify_waiters:
  assumes "waiters_inv cf y" "es_waiters z = es_waiters y" "es_generation z = Suc (es_generation y)"
  shows "waiters_inv cf z"
  unfolding waiters_inv_def assms(2,3)
proof (intro conjI ballI impI)
  show "length (es_waiters y) \<le> cf_waiters cf" using assms(1) by (simp add: waiters_inv_def)
  fix w assume "w \<in> set (es_waiters y)"
  then have "wa_generation w \<le> es_generation y" using assms(1) by (simp add: waiters_inv_def)
  then show "wa_generation w \<le> Suc (es_generation y)"
    "wa_generation w = Suc (es_generation y) \<Longrightarrow> idle_page (cf_page_size cf) w (es_db z)"
    "wa_generation w = Suc (es_generation y) \<Longrightarrow> \<not> es_shutting_down z" by simp_all
qed

lemma publish_waiters: "waiters_inv cf y \<Longrightarrow> waiters_inv cf (publish f y)"
proof (cases "f (es_db y)")
  case (Pair db' r)
  assume inv: "waiters_inv cf y"
  show ?thesis
  proof (cases r)
    case (Inl e)
    with Pair inv show ?thesis by (simp add: publish_def)
  next
    case (Inr x)
    with Pair show ?thesis by (intro notify_waiters [OF inv]) (simp_all add: publish_def notify_locked_def)
  qed
qed

lemma wait_pass_block:
  assumes "wait_pass mp now w y = Wait_block w'"
  shows "w' = w\<lparr>wa_generation := es_generation y\<rparr> \<and> idle_page mp w' (es_db y) \<and> \<not> es_shutting_down y"
  using assms by (auto simp: wait_pass_def idle_page_def waiter_page_def split: sum.splits if_splits)

lemma settle_waiters:
  assumes inv: "waiters_inv cf y" and r: "wait_pass (cf_page_size cf) now w y = r"
    and room: "length (es_waiters y') < cf_waiters cf"
    and sub: "set (es_waiters y') \<subseteq> set (es_waiters y)"
    and same: "es_generation y' = es_generation y" "es_db y' = es_db y" "es_shutting_down y' = es_shutting_down y"
  shows "waiters_inv cf (settle_wait r y')"
proof (cases r)
  case (Wait_block w')
  from wait_pass_block r this have "w' = w\<lparr>wa_generation := es_generation y\<rparr> \<and> idle_page (cf_page_size cf) w' (es_db y) \<and> \<not> es_shutting_down y"
    by blast
  with inv room sub show ?thesis by (auto simp: waiters_inv_def settle_wait_def Wait_block same)
qed (use inv room sub in \<open>auto simp: waiters_inv_def settle_wait_def same\<close>)

lemma max_id_attained: "max_id rows \<noteq> 0 \<Longrightarrow> \<exists>r\<in>set rows. ev_id r = max_id rows"
proof -
  have "fold max xs m \<noteq> m \<Longrightarrow> fold max xs m \<in> set xs" for xs :: "nat list" and m
  proof (induction xs arbitrary: m)
    case (Cons x xs)
    show ?case
    proof (cases "fold max xs (max x m) = max x m")
      case True
      then have "fold max (x # xs) m = max x m" by simp
      with Cons.prems show ?thesis by (metis list.set_intros(1) max_def)
    next
      case False
      from Cons.IH [OF this] show ?thesis by simp
    qed
  qed simp
  from this [of "map ev_id rows" 0] show "max_id rows \<noteq> 0 \<Longrightarrow> \<exists>r\<in>set rows. ev_id r = max_id rows"
    unfolding max_id_def by force
qed

lemma expired_through_attained:
  assumes "expired_through cutoff n ws db \<noteq> 0"
  shows "\<exists>r\<in>set (ed_events db). ev_workspace r = Some ws \<and> ev_id r = expired_through cutoff n ws db"
proof -
  let ?mine = "sort_key ev_id (workspace_events ws (ed_events db))"
  let ?a = "take (length ?mine - n) ?mine" and ?b = "filter (\<lambda>r. ev_created_at r < cutoff) ?mine"
  have "expired_through cutoff n ws db = max_id ?a \<or> expired_through cutoff n ws db = max_id ?b"
    by (auto simp: expired_through_def Let_def max_def)
  then have "\<exists>r\<in>set ?mine. ev_id r = expired_through cutoff n ws db"
  proof
    assume e: "expired_through cutoff n ws db = max_id ?a"
    with assms max_id_attained [of ?a] obtain r where "r \<in> set ?a" "ev_id r = max_id ?a" by auto
    with e show ?thesis by (metis in_set_takeD)
  next
    assume e: "expired_through cutoff n ws db = max_id ?b"
    with assms max_id_attained [of ?b] obtain r where "r \<in> set ?b" "ev_id r = max_id ?b" by metis
    with e show ?thesis by (metis filter_is_subset subsetD)
  qed
  then obtain r where "r \<in> set ?mine" "ev_id r = expired_through cutoff n ws db" by blast
  then show ?thesis by (auto simp: workspace_events_def)
qed

lemma cleanup_fold_idle:
  "snd (foldl (\<lambda>st ws. cleanup_workspace cutoff n ws st) (db, d) wss) = 0 \<Longrightarrow>
   d = 0 \<and> fst (foldl (\<lambda>st ws. cleanup_workspace cutoff n ws st) (db, d) wss) = db"
proof (induction wss arbitrary: db d)
  case (Cons ws wss)
  obtain db1 d1 where c: "cleanup_workspace cutoff n ws (db, d) = (db1, d1)" by fastforce
  have "snd (foldl (\<lambda>st ws. cleanup_workspace cutoff n ws st) (db1, d1) wss) = 0" using Cons.prems c by simp
  from Cons.IH [OF this]
  have z: "d1 = 0" "fst (foldl (\<lambda>st ws. cleanup_workspace cutoff n ws st) (db1, d1) wss) = db1" by blast+
  have "expired_through cutoff n ws db = 0"
  proof (rule ccontr)
    assume ne: "expired_through cutoff n ws db \<noteq> 0"
    from expired_through_attained [OF this] have
      "filter (\<lambda>r. ev_workspace r = Some ws \<and> ev_id r \<le> expired_through cutoff n ws db) (ed_events db) \<noteq> []"
      by (auto simp: filter_empty_conv)
    with c ne z(1) show False by (auto simp: cleanup_workspace_def Let_def)
  qed
  with c have "db1 = db" "d1 = d" by (simp_all add: cleanup_workspace_def)
  with z c show ?case by simp
qed simp

lemma event_step_waiters:
  assumes inv: "waiters_inv cf y" and step: "event_step size_of cf y z"
  shows "waiters_inv cf z"
  using step
proof cases
  case (es_cleanup cutoff days n)
  obtain db' r where c: "cleanup cutoff days n (es_db y) = (db', r)" by fastforce
  show ?thesis
  proof (cases r)
    case (Inl e)
    then show ?thesis using inv c es_cleanup by (simp add: cleanup_and_notify_def)
  next
    case (Inr deleted)
    show ?thesis
    proof (cases "deleted = 0")
      case True
      with c Inr cleanup_fold_idle [of cutoff "nat n" "es_db y" 0 "event_workspaces (es_db y)"] have "db' = es_db y"
        by (auto simp: cleanup_def split: if_splits prod.splits)
      then show ?thesis using inv c Inr True es_cleanup by (simp add: cleanup_and_notify_def)
    next
      case False
      then show ?thesis unfolding es_cleanup using c Inr
        by (intro notify_waiters [OF inv]) (simp_all add: cleanup_and_notify_def notify_locked_def)
    qed
  qed
next
  case es_shutdown
  show ?thesis unfolding es_shutdown
    by (rule notify_waiters [OF inv]) (simp_all add: shutdown_def notify_locked_def)
next
  case (es_transition now pid st x)
  show ?thesis unfolding es_transition transition_and_notify_def
    using inv publish_waiters [OF inv, of "transition_process now pid st x"] by (simp split: option.split)
next
  case (es_wait secs start now w cursor beginning)
  then show ?thesis using inv
    by (auto simp: wait_begin_def Let_def intro!: settle_waiters [OF inv] split: sum.splits)
next
  case (es_wake w now)
  have "length (remove1 w (es_waiters y)) < cf_waiters cf"
  proof -
    have "length (es_waiters y) \<le> cf_waiters cf" using inv by (simp add: waiters_inv_def)
    moreover have "length (remove1 w (es_waiters y)) < length (es_waiters y)"
      using length_pos_if_in_set [OF es_wake(2)] es_wake(2) by (simp add: length_remove1)
    ultimately show ?thesis by simp
  qed
  then show ?thesis unfolding es_wake
    by (simp add: wait_resume_def Let_def) (auto intro!: settle_waiters [OF inv] dest: set_remove1_subset [THEN subsetD])
next
  case (es_processes ps)
  then show ?thesis using inv by (simp add: waiters_inv_def idle_page_cong [of "es_db y\<lparr>ed_processes := ps\<rparr>" "es_db y"])
next
  case (es_workspace ws)
  then show ?thesis using inv
    by (simp add: waiters_inv_def idle_page_cong [of "es_db y\<lparr>ed_workspaces := ws # ed_workspaces (es_db y)\<rparr>" "es_db y"])
qed (use publish_waiters [OF inv] in simp_all)

lemma stream_runs_waiters: "stream_runs size_of cf y z \<Longrightarrow> waiters_inv cf y \<Longrightarrow> waiters_inv cf z"
  by (induction rule: stream_runs.induct) (auto intro: event_step_waiters)

lemma empty_stream_waiters: "waiters_inv cf empty_stream"
  by (simp add: empty_stream_def waiters_inv_def)

subsection \<open>Properties\<close>

definition demo_stream_config :: stream_config where
  "demo_stream_config = \<lparr>cf_payload_bytes = 100, cf_page_size = 2, cf_waiters = 1, cf_wait_seconds = 25\<rparr>"

definition demo_size :: "json \<Rightarrow> nat" where
  "demo_size j = 1"

definition put_event :: "string \<Rightarrow> event_system \<Rightarrow> event_system" where
  "put_event t y = publish (append_event demo_size 100 t ''artifact.created'' None (Some ''w'') None []) y"

definition demo_stream :: event_system where
  "demo_stream = put_event ''c'' (put_event ''b'' (put_event ''a''
     (empty_stream\<lparr>es_db := (es_db empty_stream)\<lparr>ed_workspaces := ''w'' # ed_workspaces (es_db empty_stream)\<rparr>\<rparr>)))"

definition demo_waiter :: event_waiter where
  "demo_waiter = \<lparr>wa_workspace = ''w'', wa_process = None, wa_types = None, wa_limit = 10, wa_cursor = [], wa_deadline = 0,
     wa_generation = 0\<rparr>"

definition demo_waiting :: event_system where
  "demo_waiting = fst (wait_begin 2 1 25 20 0 0 demo_waiter None False demo_stream)"

lemma demo_stream_runs: "stream_runs demo_size demo_stream_config empty_stream demo_stream"
  "stream_runs demo_size demo_stream_config empty_stream demo_waiting"
proof -
  have put: "stream_runs demo_size demo_stream_config empty_stream (put_event t y)"
    if "stream_runs demo_size demo_stream_config empty_stream y" for t y
    using runs_step [OF that es_append [of demo_size demo_stream_config y t "''artifact.created''" None "Some ''w''" None "[]"]]
    by (simp add: put_event_def demo_stream_config_def)
  show a: "stream_runs demo_size demo_stream_config empty_stream demo_stream"
    unfolding demo_stream_def by (intro put runs_step [OF runs_refl es_workspace])
  show "stream_runs demo_size demo_stream_config empty_stream demo_waiting"
    using runs_step [OF a es_wait [of demo_size demo_stream_config demo_stream 20 0 0 demo_waiter None False]]
    by (simp add: demo_waiting_def demo_stream_config_def)
qed

text \<open>
  C16. In every history of the stream the ids of the stored events are strictly increasing and never
  exceed the last id handed out, and the sequence numbers of one process are strictly
  increasing in id order.
\<close>
theorem stream_ordered:
  assumes "stream_runs size_of cf empty_stream y"
  shows "sorted_wrt (\<lambda>a b. ev_id a < ev_id b \<and>
        (\<forall>p m n. ev_process a = Some p \<longrightarrow> ev_process b = Some p \<longrightarrow> ev_sequence a = Some m \<longrightarrow> ev_sequence b = Some n \<longrightarrow> m < n))
      (ed_events (es_db y)) \<and>
    (\<forall>r\<in>set (ed_events (es_db y)). ev_id r \<le> ed_last_id (es_db y))"
proof -
  have "sorted_wrt P xs \<Longrightarrow> sorted_wrt Q xs \<Longrightarrow> sorted_wrt (\<lambda>a b. P a b \<and> Q a b) xs" for P Q and xs :: "event_row list"
    by (induction xs) auto
  then show ?thesis
    using stream_runs_db [OF assms empty_stream_inv] by (simp add: events_inv_def)
qed

theorem stream_ordered_witness: "sorted (map ev_id (ed_events (es_db demo_stream)))"
  using stream_ordered [OF demo_stream_runs(1)]
  by (auto simp: sorted_wrt_map elim!: sorted_wrt_mono_rel [rotated])

text \<open>The client loop over \<open>list_after\<close>: follow the returned cursors while more is announced.\<close>

fun follow :: "nat \<Rightarrow> nat \<Rightarrow> string \<Rightarrow> string option \<Rightarrow> string list option \<Rightarrow> int \<Rightarrow> event_db \<Rightarrow> string \<Rightarrow> event_error + event_row list" where
  "follow 0 mp ws pid ts limit db c = Inr []"
| "follow (Suc k) mp ws pid ts limit db c =
     obind (list_after mp (Some c) ws pid ts limit False db) (\<lambda>p.
       if ep_has_more p then obind (follow k mp ws pid ts limit db (ep_cursor p)) (\<lambda>rest. Inr (ep_events p @ rest))
       else Inr (ep_events p))"

lemma follow_drain:
  assumes inv: "events_inv db" and small: "ed_last_id db < 16 ^ 16" "c < 16 ^ 16"
    and ts: "validate_filters ts = Inr tys" and ret: "check_retention c ws db = None"
  shows "follow (Suc k) mp ws pid ts limit db (cursor_of c) =
    Inr (fst (event_pages.drain k db (\<lparr>ef_workspace = ws, ef_process = pid, ef_types = tys\<rparr>, c) (page_limit_of mp limit)))"
  using small(2) ret
proof (induction k arbitrary: c)
  case 0
  then show ?case
    by (auto simp: list_after_def ts resolve_after_def decode_cursor_of Let_def split: prod.splits)
next
  case (Suc k)
  let ?f = "\<lparr>ef_workspace = ws, ef_process = pid, ef_types = tys\<rparr>"
  obtain xs c' hm where p: "read_page ?f db c (page_limit_of mp limit) = (xs, c', hm)" by (metis prod_cases3)
  have l: "list_after mp (Some (cursor_of c)) ws pid ts limit False db = Inr
      \<lparr>ep_events = xs, ep_cursor = cursor_of c', ep_has_more = hm, ep_timed_out = False, ep_shutdown = False\<rparr>"
    using Suc.prems by (simp add: list_after_def ts resolve_after_def decode_cursor_of p)
  have c': "c' < 16 ^ 16 \<and> c \<le> c'"
  proof (cases "xs = []")
    case True
    then show ?thesis using p Suc.prems by (auto simp: read_page_def Let_def split: if_splits)
  next
    case False
    then have "c' = ev_id (last xs)" "last xs \<in> set (matching_after ?f c db)"
      using p by (auto simp: read_page_def Let_def intro: in_set_takeD [OF last_in_set])
    then have "c < c'" "c' \<le> ed_last_id db"
      using inv by (auto simp: matching_after_def events_inv_def)
    then show ?thesis using small(1) by simp
  qed
  then have "check_retention c' ws db = None"
    using Suc.prems(2) by (auto simp: check_retention_def Let_def split: if_splits)
  from Suc.IH [OF _ this] c' show ?case
    by (subst follow.simps(2)) (simp add: l p split: prod.splits del: follow.simps)
qed

text \<open>
  C17. Pagination is complete: a client that follows the returned cursors from any cursor that
  retention accepts gets exactly the matching events after it, in id order, each once, whatever
  the page size (\<open>k\<close> pages suffice as soon as \<open>k\<close> exceeds the number of matching events).
\<close>
theorem pages_complete:
  assumes "stream_runs size_of cf empty_stream y" "ed_last_id (es_db y) < 16 ^ 16" "c < 16 ^ 16"
    and "validate_filters ts = Inr tys" "check_retention c ws (es_db y) = None"
    and "length (ed_events (es_db y)) < k"
  shows "follow k mp ws pid ts limit (es_db y) (cursor_of c) =
    Inr (filter (\<lambda>r. c < ev_id r \<and> matches \<lparr>ef_workspace = ws, ef_process = pid, ef_types = tys\<rparr> r) (ed_events (es_db y)))"
proof -
  let ?f = "\<lparr>ef_workspace = ws, ef_process = pid, ef_types = tys\<rparr>" and ?n = "page_limit_of mp limit"
  have inv: "events_inv (es_db y)" using stream_runs_db [OF assms(1) empty_stream_inv] by blast
  obtain j where k: "k = Suc j" using assms(6) by (cases k) auto
  have n: "0 < ?n" by (simp add: page_limit_of_def)
  have "length (matching_after ?f c (es_db y)) \<le> j"
    using assms(6) k by (auto simp: matching_after_def less_Suc_eq_le intro: order_trans [OF length_filter_le])
  then have "fst (event_pages.drain j (es_db y) (?f, c) ?n) = matching_after ?f c (es_db y)"
    using event_pages.drain_all [OF inv n, of "(?f, c)" j] by simp
  with follow_drain [OF inv assms(2-5)] k show ?thesis by (simp add: matching_after_inv [OF inv] del: follow.simps)
qed

theorem pages_complete_witness:
  "follow 4 1 ''w'' None None 10 (es_db demo_stream) ''evt1_1'' =
    Inr (filter (\<lambda>r. 1 < ev_id r \<and> matches \<lparr>ef_workspace = ''w'', ef_process = None, ef_types = []\<rparr> r) (ed_events (es_db demo_stream)))"
proof -
  have "ed_last_id (es_db demo_stream) = 3" by code_simp
  then have small: "ed_last_id (es_db demo_stream) < 16 ^ 16" "(1::nat) < 16 ^ 16" by simp_all
  have a: "validate_filters None = Inr []" "check_retention 1 ''w'' (es_db demo_stream) = None" "length (ed_events (es_db demo_stream)) < 4"
    by code_simp+
  have "cursor_of 1 = ''evt1_1''" by code_simp
  with pages_complete [OF demo_stream_runs(1) small a] show ?thesis by (simp only:)
qed

text \<open>
  Retention never hides a loss: when a page is returned for a cursor in some later state, every
  event of the workspace after that cursor that existed earlier still exists; otherwise the
  reader gets \<open>EVENT_CURSOR_EXPIRED\<close> with a recovery cursor, and reading from that one works.
\<close>
lemma retention_honest:
  assumes "stream_runs size_of cf empty_stream y" "stream_runs size_of cf y z"
    and "decode_cursor cur = Inr c" "ed_last_id (es_db z) < 16 ^ 16"
    and "validate_filters ts = Inr tys"
  shows "(\<forall>page. list_after mp (Some cur) ws pid ts limit fb (es_db z) = Inr page \<longrightarrow>
      (\<forall>r\<in>set (ed_events (es_db y)). ev_workspace r = Some ws \<longrightarrow> c < ev_id r \<longrightarrow> r \<in> set (ed_events (es_db z)))) \<and>
    (\<forall>e. list_after mp (Some cur) ws pid ts limit fb (es_db z) = Inl e \<longrightarrow>
      (\<exists>rc page. e = Cursor_expired rc \<and> list_after mp (Some rc) ws pid ts limit fb (es_db z) = Inr page))"
proof -
  have y: "events_inv (es_db y)" using stream_runs_db [OF assms(1) empty_stream_inv] by blast
  from stream_runs_db [OF assms(2) y] have z: "events_inv (es_db z)" and h: "honest (es_db y) (es_db z)" by auto
  let ?w = "dict_get 0 (ed_watermarks (es_db z)) ws"
  have w: "?w < 16 ^ 16" using z assms(4) unfolding events_inv_def by (meson le_less_trans)
  have list: "list_after mp (Some k) ws pid ts limit fb (es_db z) =
      (case check_retention n ws (es_db z) of Some e \<Rightarrow> Inl e | None \<Rightarrow>
         (let (events, observed, has_more) = read_page \<lparr>ef_workspace = ws, ef_process = pid, ef_types = tys\<rparr> (es_db z) n (page_limit_of mp limit)
          in Inr \<lparr>ep_events = events, ep_cursor = cursor_of observed, ep_has_more = has_more, ep_timed_out = False, ep_shutdown = False\<rparr>))"
    if "decode_cursor k = Inr n" for k n
    using that by (simp add: list_after_def assms(5) resolve_after_def)
  have ret: "check_retention n ws (es_db z) = (if n < ?w then Some (Cursor_expired (cursor_of ?w)) else None)" for n
    by (simp add: check_retention_def Let_def)
  have "r \<in> set (ed_events (es_db z))"
    if "\<not> c < ?w" "r \<in> set (ed_events (es_db y))" "ev_workspace r = Some ws" "c < ev_id r" for r
  proof -
    have "r \<in> set (ed_events (es_db z)) \<or> ev_id r \<le> ?w" using h that(2,3) unfolding honest_def by blast
    with that show ?thesis by linarith
  qed
  moreover have "\<exists>page. list_after mp (Some (cursor_of ?w)) ws pid ts limit fb (es_db z) = Inr page"
    unfolding list [OF decode_cursor_of [OF w]] ret by (simp add: Let_def split: prod.splits)
  ultimately show ?thesis
    unfolding list [OF assms(3)] ret by (auto simp: Let_def split: if_splits prod.splits)
qed

definition demo_cleaned :: event_system where
  "demo_cleaned = cleanup_and_notify [] 0 1 demo_stream"

lemma retention_honest_witness:
  "\<exists>rc page. list_after 2 (Some ''evt1_1'') ''w'' None None 10 False (es_db demo_cleaned) = Inl (Cursor_expired rc) \<and>
     list_after 2 (Some rc) ''w'' None None 10 False (es_db demo_cleaned) = Inr page"
proof -
  have r: "stream_runs demo_size demo_stream_config demo_stream demo_cleaned"
    unfolding demo_cleaned_def by (intro runs_step [OF runs_refl es_cleanup])
  have d: "decode_cursor ''evt1_1'' = Inr 1" "validate_filters None = Inr []" by code_simp+
  have "ed_last_id (es_db demo_cleaned) = 3" by code_simp
  then have s: "ed_last_id (es_db demo_cleaned) < 16 ^ 16" by simp
  have "list_after 2 (Some ''evt1_1'') ''w'' None None 10 False (es_db demo_cleaned) = Inl (Cursor_expired ''evt1_2'')"
    by code_simp
  with retention_honest [OF demo_stream_runs(1) r d(1) s d(2), of 2 "''w''" None 10 False] show ?thesis by blast
qed

lemma last_terminal_event_alt:
  "last_terminal_event pid db =
     (let rows = filter (\<lambda>r. ev_process r = Some pid \<and> ev_type r = ''process.exited'') (ed_events db)
      in if rows = [] then None else Some (last rows))"
  by (simp add: last_terminal_event_def Let_def split: list.split)

text \<open>
  A process ends once: a transition of a live process stores the status and appends exactly one
  \<open>process.exited\<close> event; every later transition, to whatever status, changes nothing and answers
  with that same event.
\<close>
lemma process_exit_once:
  assumes "map_of (ed_processes db) pid = Some r" "pc_status r \<notin> set terminal_process_statuses"
    and "transition_process now pid status x db = (db1, Inr reply)"
    and "status' \<in> set terminal_process_statuses"
  shows "\<exists>e. reply = Exit_event e \<and> ed_events db1 = ed_events db @ [e] \<and> ev_type e = ''process.exited'' \<and>
    ev_process e = Some pid \<and> map_option pc_status (map_of (ed_processes db1) pid) = Some status \<and>
    transition_process now' pid status' x' db1 = (db1, Inr (Exit_event e))"
proof -
  have st: "status \<in> set terminal_process_statuses" using assms(3) by (auto simp: transition_process_def split: if_splits)
  from assms(3) st have "transition_body now pid status x db = (db1, Inr reply)"
    by (simp add: transition_process_def transact_Inr)
  then obtain e where e: "reply = Exit_event e" "ed_events db1 = ed_events db @ [e]" "ev_type e = ''process.exited''"
      "ev_process e = Some pid" "map_option pc_status (map_of (ed_processes db1) pid) = Some status"
    using assms(1,2)
    by (auto simp: transition_body_def Let_def insert_locked_def map_of_update_iff split: if_splits)
  from e(5) obtain r1 where r1: "map_of (ed_processes db1) pid = Some r1" "pc_status r1 = status" by auto
  have "last_terminal_event pid db1 = Some e"
    by (simp add: last_terminal_event_alt e)
  then have "transition_body now' pid status' x' db1 = (db1, Inr (Exit_event e))"
    using r1 st by (simp add: transition_body_def)
  then have "transition_process now' pid status' x' db1 = (db1, Inr (Exit_event e))"
    using assms(4) by (simp add: transition_process_def transact_Inr)
  with e show ?thesis by blast
qed

definition demo_proc :: proc_row where
  "demo_proc = \<lparr>pc_workspace = ''w'', pc_tool = ''run_pwsh'', pc_sha = None, pc_preview = None, pc_directory = None,
     pc_status = ''running'', pc_pid = Some 7, pc_exit_code = None, pc_started_at = None, pc_completed_at = None,
     pc_stdout = None, pc_stderr = None, pc_identity = None, pc_heartbeat = None, pc_offset = 0, pc_job = None, pc_recovery = None\<rparr>"

definition demo_exit :: exit_info where
  "demo_exit = \<lparr>ex_exit_code = Some 0, ex_completed_at = None, ex_recovery_status = None, ex_reason = None,
     ex_request = None, ex_offsets = None\<rparr>"

lemma process_exit_once_witness:
  "fst (transition_process ''t2'' ''p'' ''failed'' demo_exit
      (fst (transition_process ''t'' ''p'' ''passed'' demo_exit ((es_db demo_stream)\<lparr>ed_processes := [(''p'', demo_proc)]\<rparr>))))
   = fst (transition_process ''t'' ''p'' ''passed'' demo_exit ((es_db demo_stream)\<lparr>ed_processes := [(''p'', demo_proc)]\<rparr>))"
proof -
  let ?db = "(es_db demo_stream)\<lparr>ed_processes := [(''p'', demo_proc)]\<rparr>"
  let ?t = "transition_process ''t'' ''p'' ''passed'' demo_exit ?db"
  have "map_of (ed_processes ?db) ''p'' = Some demo_proc" by simp
  moreover have "pc_status demo_proc \<notin> set terminal_process_statuses" "''failed'' \<in> set terminal_process_statuses"
    by code_simp+
  moreover have "?t = (fst ?t, Inr (case snd ?t of Inr x \<Rightarrow> x | Inl _ \<Rightarrow> Exit_status [] []))" by code_simp
  ultimately have "\<exists>e. transition_process ''t2'' ''p'' ''failed'' demo_exit (fst ?t) = (fst ?t, Inr (Exit_event e))"
    using process_exit_once by blast
  then show ?thesis by auto
qed



text \<open>
  A reader without a cursor can be told its cursor is expired: once retention has removed every event
  of a workspace, the position it starts from is below the watermark.
\<close>
lemma fresh_reader_expired:
  assumes "workspace_events ws (ed_events db) = []" "0 < dict_get 0 (ed_watermarks db) ws"
    and "validate_filters ts = Inr tys"
  shows "list_after mp None ws pid ts limit False db = Inl (Cursor_expired (cursor_of (dict_get 0 (ed_watermarks db) ws)))"
  using assms by (simp add: list_after_def resolve_after_def check_retention_def max_id_def Let_def)

lemma fresh_reader_expired_witness:
  "list_after 2 None ''w'' None None 10 False (es_db (cleanup_and_notify ''z'' 0 1 demo_stream)) = Inl (Cursor_expired ''evt1_3'')"
proof -
  let ?db = "es_db (cleanup_and_notify ''z'' 0 1 demo_stream)"
  have a: "workspace_events ''w'' (ed_events ?db) = []" "0 < dict_get 0 (ed_watermarks ?db) ''w''" "validate_filters None = Inr []"
    "cursor_of (dict_get 0 (ed_watermarks ?db) ''w'') = ''evt1_3''"
    by code_simp+
  from fresh_reader_expired [OF a(1-3)] a(4) show ?thesis by simp
qed

text \<open>
  The payload filter does not look into lists of lists: a payload in which a sensitive key sits in an
  object nested two lists deep is accepted.
\<close>
lemma nested_list_unfiltered:
  "find_sensitive_key [(''items'', JArr [JArr [JObj [(''command'', JStr secret)]]])] = None"
  by code_simp

end
