(* ===== verification/Idempotency_Store.thy ===== *)
theory Idempotency_Store
  imports Envelope
begin

text \<open>
  The idempotency keys of \<open>app/storage/idempotency.py\<close>.  The table is a dict from the key (its
  primary key) to the row; \<open>INSERT OR REPLACE\<close> is a dict update.  SHA-256 over the canonical JSON
  text is a parameter \<open>sha\<close> on canonical values.  A tool is a function on the whole world, table
  included, because a tool may itself store keys; it may raise.
\<close>

subsection \<open>The interface: a cache of results under keys\<close>

text \<open>
  What the replay logic needs of its storage: a lookup that returns what was stored last under a
  key.  The facts of the locale are about any sequence of later stores.
\<close>

locale replay_cache =
  fixes lookup :: "'s \<Rightarrow> 'k \<Rightarrow> 'r option"
    and store :: "'k \<Rightarrow> 'r \<Rightarrow> 's \<Rightarrow> 's"
  assumes lookup_store: "lookup (store k r s) k' = (if k' = k then Some r else lookup s k')"
begin

lemma lookup_hit: "lookup (store k r s) k = Some r"
  by (simp add: lookup_store)

lemma lookup_miss: "k' \<noteq> k \<Longrightarrow> lookup (store k r s) k' = lookup s k'"
  by (simp add: lookup_store)

lemma lookup_after_stores:
  "k \<notin> fst ` set ops \<Longrightarrow> lookup (foldl (\<lambda>s (k, r). store k r s) s ops) k = lookup s k"
  by (induction ops arbitrary: s) (auto simp: lookup_store)

end

subsection \<open>The table\<close>

record idem_row =
  ir_tool :: string
  ir_hash :: string
  ir_result :: json
  ir_created_at :: string

type_synonym idem_table = "(string, idem_row) dict"

definition input_hash :: "(json \<Rightarrow> string) \<Rightarrow> string \<Rightarrow> (string \<times> json) list \<Rightarrow> string" where
  "input_hash sha tool inputs = sha (canon (JObj [(''tool'', JStr tool), (''inputs'', JObj inputs)]))"

definition get_idempotent_result :: "string \<Rightarrow> string \<Rightarrow> idem_table \<Rightarrow> json option" where
  "get_idempotent_result key h table =
     (case map_of table key of
        None \<Rightarrow> None
      | Some row \<Rightarrow>
          if ir_hash row \<noteq> h
          then Some (JObj [(''_mismatch'', JBool True), (''stored_hash'', JStr (ir_hash row))])
          else if ir_result row = JNull then None
          else Some (ir_result row))"

definition store_idempotent_result :: "string \<Rightarrow> string \<Rightarrow> string \<Rightarrow> json \<Rightarrow> string \<Rightarrow> idem_table \<Rightarrow> idem_table" where
  "store_idempotent_result key tool h result now table =
     AList.update key \<lparr>ir_tool = tool, ir_hash = h, ir_result = result, ir_created_at = now\<rparr> table"

text \<open>\<open>expire_old_keys\<close>: rows older than the cutoff go, ISO timestamps compare as strings.\<close>

definition expire_old_keys :: "string \<Rightarrow> idem_table \<Rightarrow> idem_table \<times> nat" where
  "expire_old_keys cutoff table =
     (let kept = filter (\<lambda>(k, row). \<not> ir_created_at row < cutoff) table
      in (kept, length table - length kept))"

subsection \<open>Running a tool under a key\<close>

record 'w idem_world =
  iw_keys :: idem_table
  iw_rest :: 'w

type_synonym 'w tool_fn = "'w idem_world \<Rightarrow> 'w idem_world \<times> (string + json)"

definition is_mismatch :: "json \<Rightarrow> bool" where
  "is_mismatch j = (case j of JObj kvs \<Rightarrow> truthy (jget kvs ''_mismatch'' JNull) | _ \<Rightarrow> False)"

definition mismatch_error :: "string \<Rightarrow> string \<Rightarrow> json \<Rightarrow> json" where
  "mismatch_error fresh key cached =
     error_result fresh ''IDEMPOTENCY_KEY_MISMATCH''
       (''idempotency_key '' @ py_repr key @ '' was used with different inputs'')
       (error_defaults\<lparr>eo_extra := [(''idempotency_key'', JStr key), (''stored_hash'', env_field ''stored_hash'' cached)]\<rparr>)"

definition with_idempotency ::
  "(json \<Rightarrow> string) \<Rightarrow> string \<Rightarrow> string \<Rightarrow> string option \<Rightarrow> string \<Rightarrow> (string \<times> json) list \<Rightarrow> 'w tool_fn \<Rightarrow> 'w tool_fn" where
  "with_idempotency sha fresh now idempotency_key tool inputs fn w =
     (case idempotency_key of
        None \<Rightarrow> fn w
      | Some key \<Rightarrow>
          let h = input_hash sha tool inputs in
          case get_idempotent_result key h (iw_keys w) of
            Some cached \<Rightarrow> (w, Inr (if is_mismatch cached then mismatch_error fresh key cached else cached))
          | None \<Rightarrow>
              (case fn w of
                 (w', Inl e) \<Rightarrow> (w', Inl e)
               | (w', Inr result) \<Rightarrow>
                   (w'\<lparr>iw_keys := store_idempotent_result key tool h result now (iw_keys w')\<rparr>, Inr result)))"

interpretation idem: replay_cache "map_of :: idem_table \<Rightarrow> string \<Rightarrow> idem_row option" AList.update
  by unfold_locales (simp add: map_of_update_iff)

subsection \<open>Properties\<close>

lemma is_mismatch_marker [simp]: "is_mismatch (JObj ((''_mismatch'', JBool True) # kvs))"
  by (simp add: is_mismatch_def)

lemma get_after_store:
  "get_idempotent_result key h' (store_idempotent_result key tool h result now table) =
     (if h \<noteq> h' then Some (JObj [(''_mismatch'', JBool True), (''stored_hash'', JStr h)])
      else if result = JNull then None else Some result)"
  by (simp add: get_idempotent_result_def store_idempotent_result_def idem.lookup_hit)

lemma input_hash_perm:
  assumes "distinct (map fst inputs)" "mset inputs = mset inputs'"
  shows "input_hash sha tool inputs = input_hash sha tool inputs'"
  using canon_obj_perm [OF assms] by (simp add: input_hash_def)

text \<open>A run of requests, each with its own key, tool, inputs and body.\<close>

record 'w keyed_request =
  kr_key :: "string option"
  kr_tool :: string
  kr_inputs :: "(string \<times> json) list"
  kr_fn :: "'w tool_fn"
  kr_now :: string
  kr_fresh :: string

definition run_request :: "(json \<Rightarrow> string) \<Rightarrow> 'w keyed_request \<Rightarrow> 'w tool_fn" where
  "run_request sha r = with_idempotency sha (kr_fresh r) (kr_now r) (kr_key r) (kr_tool r) (kr_inputs r) (kr_fn r)"

definition run_requests :: "(json \<Rightarrow> string) \<Rightarrow> 'w keyed_request list \<Rightarrow> 'w idem_world \<Rightarrow> 'w idem_world" where
  "run_requests sha rs w = foldl (\<lambda>w r. fst (run_request sha r w)) w rs"

text \<open>The body of a request leaves the row of a key alone.\<close>

definition respects_key :: "string \<Rightarrow> 'w tool_fn \<Rightarrow> bool" where
  "respects_key key fn = (\<forall>w. map_of (iw_keys (fst (fn w))) key = map_of (iw_keys w) key)"

lemma run_request_other_key:
  assumes "kr_key r \<noteq> Some key" "respects_key key (kr_fn r)"
  shows "map_of (iw_keys (fst (run_request sha r w))) key = map_of (iw_keys w) key"
proof -
  obtain w' x where fn: "kr_fn r w = (w', x)" by (cases "kr_fn r w")
  then have "map_of (iw_keys w') key = map_of (iw_keys w) key"
    using assms(2) unfolding respects_key_def by (metis fst_conv)
  then show ?thesis
    using assms(1) fn
    by (auto simp: run_request_def with_idempotency_def store_idempotent_result_def Let_def idem.lookup_miss
        split: option.splits sum.splits)
qed

lemma run_request_same_key:
  assumes "kr_key r = Some key" "map_of (iw_keys w) key = Some row" "ir_result row \<noteq> JNull"
  shows "fst (run_request sha r w) = w"
  using assms by (auto simp: run_request_def with_idempotency_def get_idempotent_result_def Let_def)

lemma run_requests_keep_row:
  assumes "map_of (iw_keys w) key = Some row" "ir_result row \<noteq> JNull"
    and "\<forall>r\<in>set rs. kr_key r \<noteq> Some key \<longrightarrow> respects_key key (kr_fn r)"
  shows "map_of (iw_keys (run_requests sha rs w)) key = Some row"
  using assms
proof (induction rs arbitrary: w)
  case (Cons r rs)
  have "map_of (iw_keys (fst (run_request sha r w))) key = Some row"
    using Cons.prems run_request_other_key [of r key sha w] run_request_same_key [of r key w row sha]
    by (cases "kr_key r = Some key") auto
  from Cons.IH [OF this Cons.prems(2)] Cons.prems(3) show ?case
    by (simp add: run_requests_def)
qed (simp add: run_requests_def)

text \<open>
  C13. Retrying is safe: once a call with a key has returned a result, the same call (same tool, the
  inputs in any key order) made after any sequence of other requests returns that stored
  result and does not run the tool again, so the world does not change.
\<close>
theorem idempotent_replay:
  assumes "with_idempotency sha fresh now (Some key) tool inputs fn w = (w1, Inr result)"
    and "get_idempotent_result key (input_hash sha tool inputs) (iw_keys w) = None"
    and "result \<noteq> JNull" "\<not> is_mismatch result"
    and "\<forall>r\<in>set rs. kr_key r \<noteq> Some key \<longrightarrow> respects_key key (kr_fn r)"
    and "distinct (map fst inputs)" "mset inputs = mset inputs'"
  shows "with_idempotency sha fresh' now' (Some key) tool inputs' fn' (run_requests sha rs w1)
       = (run_requests sha rs w1, Inr result)"
proof -
  have h: "input_hash sha tool inputs' = input_hash sha tool inputs"
    using input_hash_perm [OF assms(6,7)] by simp
  from assms(1,2) obtain w' where w1: "w1 = w'\<lparr>iw_keys := store_idempotent_result key tool (input_hash sha tool inputs) result now (iw_keys w')\<rparr>"
    by (auto simp: with_idempotency_def Let_def split: prod.splits sum.splits)
  then have "map_of (iw_keys w1) key = Some \<lparr>ir_tool = tool, ir_hash = input_hash sha tool inputs,
      ir_result = result, ir_created_at = now\<rparr>"
    by (simp add: store_idempotent_result_def idem.lookup_hit)
  from run_requests_keep_row [OF this _ assms(5)] assms(3)
  have "map_of (iw_keys (run_requests sha rs w1)) key = Some \<lparr>ir_tool = tool, ir_hash = input_hash sha tool inputs,
      ir_result = result, ir_created_at = now\<rparr>" by simp
  then show ?thesis
    using assms(3,4) by (simp add: with_idempotency_def get_idempotent_result_def h)
qed

definition demo_body :: "nat tool_fn" where
  "demo_body w = (w\<lparr>iw_rest := Suc (iw_rest w)\<rparr>, Inr (JInt (int (iw_rest w))))"

definition demo_world :: "nat idem_world" where
  "demo_world = \<lparr>iw_keys = [], iw_rest = 0\<rparr>"

definition demo_sha :: "json \<Rightarrow> string" where
  "demo_sha j = (case j of JObj kvs \<Rightarrow> concat (map fst kvs) | _ \<Rightarrow> [])"

theorem idempotent_replay_witness:
  "snd (with_idempotency demo_sha ''f'' ''t2'' (Some ''k'') ''tool'' [(''b'', JNull), (''a'', JNull)] demo_body
     (fst (with_idempotency demo_sha ''f'' ''t1'' (Some ''k'') ''tool'' [(''a'', JNull), (''b'', JNull)] demo_body demo_world)))
   = Inr (JInt 0)"
proof -
  let ?r = "with_idempotency demo_sha ''f'' ''t1'' (Some ''k'') ''tool'' [(''a'', JNull), (''b'', JNull)] demo_body demo_world"
  have "?r = (fst ?r, Inr (JInt 0))"
    by (simp add: with_idempotency_def get_idempotent_result_def demo_world_def demo_body_def)
  moreover have "get_idempotent_result ''k'' (input_hash demo_sha ''tool'' [(''a'', JNull), (''b'', JNull)]) (iw_keys demo_world) = None"
    by (simp add: get_idempotent_result_def demo_world_def)
  ultimately have "with_idempotency demo_sha ''f'' ''t2'' (Some ''k'') ''tool'' [(''b'', JNull), (''a'', JNull)] demo_body
      (run_requests demo_sha [] (fst ?r)) = (run_requests demo_sha [] (fst ?r), Inr (JInt 0))"
    by (rule idempotent_replay) (simp_all add: is_mismatch_def)
  then show ?thesis by (simp add: run_requests_def)
qed

text \<open>
  A key that was used with other inputs is refused: the tool does not run, nothing changes, and
  the caller gets the error code \<open>IDEMPOTENCY_KEY_MISMATCH\<close>.
\<close>
lemma idempotent_mismatch:
  assumes "map_of (iw_keys w) key = Some row" "ir_hash row \<noteq> input_hash sha tool inputs"
  shows "\<exists>r. with_idempotency sha fresh now (Some key) tool inputs fn w = (w, Inr r)
    \<and> \<not> env_ok r \<and> env_code r = ''IDEMPOTENCY_KEY_MISMATCH''"
  using assms
  by (simp add: with_idempotency_def get_idempotent_result_def mismatch_error_def error_defaults_def)

lemma idempotent_mismatch_witness:
  "\<exists>r. with_idempotency demo_sha ''f'' ''t2'' (Some ''k'') ''tool'' [] demo_body
      \<lparr>iw_keys = [(''k'', \<lparr>ir_tool = ''tool'', ir_hash = ''other'', ir_result = JNull, ir_created_at = ''t''\<rparr>)], iw_rest = 0\<rparr>
    = (\<lparr>iw_keys = [(''k'', \<lparr>ir_tool = ''tool'', ir_hash = ''other'', ir_result = JNull, ir_created_at = ''t''\<rparr>)], iw_rest = 0\<rparr>, Inr r)
    \<and> \<not> env_ok r \<and> env_code r = ''IDEMPOTENCY_KEY_MISMATCH''"
proof (rule idempotent_mismatch)
  show "map_of (iw_keys (\<lparr>iw_keys = [(''k'', \<lparr>ir_tool = ''tool'', ir_hash = ''other'', ir_result = JNull, ir_created_at = ''t''\<rparr>)], iw_rest = (0::nat)\<rparr>)) ''k''
    = Some \<lparr>ir_tool = ''tool'', ir_hash = ''other'', ir_result = JNull, ir_created_at = ''t''\<rparr>" by simp
  show "ir_hash \<lparr>ir_tool = ''tool'', ir_hash = ''other'', ir_result = JNull, ir_created_at = ''t''\<rparr>
    \<noteq> input_hash demo_sha ''tool'' []" by code_simp
qed

end
