(* ===== verification/Patch_Text.thy ===== *)
theory Patch_Text
  imports Envelope Path_Guard
begin

text \<open>
  The text functions of \<open>app/tools/patcher.py\<close>: the regular expressions (written as the scanners
  they denote on one line), wrapper stripping, path validation, the extraction of changed files,
  the hunk-count check and the error classification.  Characters are those below code point 256.
  A decimal number in a hunk header is unbounded (the interpreter's limit on digits is not modelled).
\<close>

subsection \<open>More of \<open>str\<close>\<close>

text \<open>\<open>s.replace(old, new, count)\<close> and \<open>s.count(old)\<close> for a non-empty \<open>old\<close>; \<open>None\<close> is no limit.\<close>

function py_replace :: "nat option \<Rightarrow> string \<Rightarrow> string \<Rightarrow> string \<Rightarrow> string" where
  "py_replace limit old new s =
     (if limit = Some 0 \<or> s = [] then s
      else if old \<noteq> [] \<and> prefix old s
        then new @ py_replace (map_option (\<lambda>n. n - 1) limit) old new (drop (length old) s)
      else hd s # py_replace limit old new (tl s))"
  by auto
termination by (relation "measure (\<lambda>(limit, old, new, s). length s)") (auto simp: prefix_def)

declare py_replace.simps [simp del]

function py_count :: "string \<Rightarrow> string \<Rightarrow> nat" where
  "py_count old s =
     (if s = [] then 0
      else if old \<noteq> [] \<and> prefix old s then Suc (py_count old (drop (length old) s))
      else py_count old (tl s))"
  by auto
termination by (relation "measure (\<lambda>(old, s). length s)") (auto simp: prefix_def)

declare py_count.simps [simp del]

definition strip_char :: "char \<Rightarrow> string \<Rightarrow> string" where
  "strip_char c s = rev (dropWhile (\<lambda>d. d = c) (rev (dropWhile (\<lambda>d. d = c) s)))"

subsection \<open>The line patterns\<close>

text \<open>
  \<open>_PATCH_HEADER_RE\<close>.  The white space is taken greedily; when nothing else is left the
  path is its last character.
\<close>

definition header_match :: "string \<Rightarrow> (string \<times> string) option" where
  "header_match line =
     (if py_startswith line ''---'' \<or> py_startswith line ''+++''
      then let rest = drop 3 line; body = dropWhile py_isspace rest in
        if rest = [] \<or> \<not> py_isspace (hd rest) then None
        else if body \<noteq> [] then Some (take 3 line, body)
        else if 2 \<le> length rest then Some (take 3 line, [last rest])
        else None
      else None)"

definition take_digits :: "string \<Rightarrow> (string \<times> string) option" where
  "take_digits s = (let d = takeWhile py_isdigit_ascii s in if d = [] then None else Some (d, dropWhile py_isdigit_ascii s))"

text \<open>\<open>(\d+)(?:,(\d+))?\<close> followed by the literal \<open>stop\<close>; the count is 1 when the group is absent.\<close>

definition take_range :: "string \<Rightarrow> string \<Rightarrow> ((nat \<times> nat) \<times> string) option" where
  "take_range stop s =
     (case take_digits s of
        None \<Rightarrow> None
      | Some (start, s1) \<Rightarrow>
          let cnt = (if s1 \<noteq> [] \<and> hd s1 = CHR '',''
                     then (case take_digits (tl s1) of None \<Rightarrow> None | Some (n, s2) \<Rightarrow> Some (py_int_of 0 n, s2))
                     else Some (1, s1))
          in case cnt of
               None \<Rightarrow> None
             | Some (n, s2) \<Rightarrow>
                 if py_startswith s2 stop then Some ((py_int_of 0 start, n), drop (length stop) s2) else None)"

text \<open>\<open>_HUNK_HEADER_RE\<close>: the old and the new range.\<close>

definition hunk_header_match :: "string \<Rightarrow> ((nat \<times> nat) \<times> (nat \<times> nat)) option" where
  "hunk_header_match line =
     (if py_startswith line ''@@ -''
      then case take_range '' +'' (drop 4 line) of
             None \<Rightarrow> None
           | Some (old, s1) \<Rightarrow>
               (case take_range '' @@'' s1 of
                  None \<Rightarrow> None
                | Some (new, s2) \<Rightarrow> if s2 = [] \<or> hd s2 = CHR '' '' then Some (old, new) else None)
      else None)"

definition diff_line_match :: "string \<Rightarrow> bool" where
  "diff_line_match line = (line \<noteq> [] \<and> hd line \<in> set '' @+-'')"

text \<open>The wrapper patterns, case-insensitive: \<open>at least lead marks, the word, patch, at least trail marks\<close>.\<close>

definition wrapper_match :: "char \<Rightarrow> nat \<Rightarrow> nat \<Rightarrow> string \<Rightarrow> string \<Rightarrow> bool" where
  "wrapper_match c lead trail word line =
     (let l = py_lower line;
          r1 = dropWhile py_isspace (dropWhile (\<lambda>d. d = c) l);
          r2 = drop (length word) r1;
          r3 = dropWhile py_isspace r2;
          r4 = dropWhile py_isspace (drop 5 r3)
      in lead \<le> length (takeWhile (\<lambda>d. d = c) l) \<and> py_startswith r1 word
         \<and> r2 \<noteq> [] \<and> py_isspace (hd r2) \<and> py_startswith r3 ''patch''
         \<and> trail \<le> length r4 \<and> list_all (\<lambda>d. d = c) r4)"

definition is_wrapper :: "string \<Rightarrow> bool" where
  "is_wrapper line =
     (wrapper_match (CHR ''*'') 3 3 ''begin'' line \<or> wrapper_match (CHR ''*'') 3 3 ''end'' line
      \<or> wrapper_match (CHR ''-'') 3 2 ''begin'' line \<or> wrapper_match (CHR ''-'') 3 2 ''end'' line)"

subsection \<open>Wrapper stripping\<close>

definition normalise_newlines :: "string \<Rightarrow> string" where
  "normalise_newlines raw = py_replace None [carriage] [newline] (py_replace None [carriage, newline] [newline] raw)"

definition starts_diff :: "string \<Rightarrow> bool" where
  "starts_diff line = (py_startswith (py_strip line) ''--- '' \<or> py_startswith (py_strip line) ''diff --git '')"

definition looks_like_diff :: "string \<Rightarrow> bool" where
  "looks_like_diff line = (let stripped = py_strip line in
     diff_line_match stripped \<or> header_match stripped \<noteq> None \<or> hunk_header_match stripped \<noteq> None)"

text \<open>\<open>lines[diff_start : last_diff + 1]\<close>, where \<open>last_diff\<close> is at least \<open>diff_start\<close>.\<close>

definition trim_diff :: "string list \<Rightarrow> string list" where
  "trim_diff from_start =
     (let kept = rev (dropWhile (\<lambda>l. \<not> looks_like_diff l) (rev from_start))
      in if kept = [] then take 1 from_start else kept)"

definition strip_patch_wrappers :: "string \<Rightarrow> string" where
  "strip_patch_wrappers raw =
     (let text = normalise_newlines raw;
          lines = filter (\<lambda>l. \<not> is_wrapper l) (py_split newline text);
          text = py_join [newline] lines;
          lines = py_split newline text;
          from_start = dropWhile (\<lambda>l. \<not> starts_diff l) lines
      in if from_start = [] then text
         else py_join [newline] (trim_diff from_start) @ [newline])"

subsection \<open>Path validation\<close>

definition drop_ab :: "string \<Rightarrow> string" where
  "drop_ab p = (if py_startswith p ''a/'' \<or> py_startswith p ''b/'' then drop 2 p else p)"

definition is_ascii_letter :: "char \<Rightarrow> bool" where
  "is_ascii_letter c = (let n = char_code c in (65 \<le> n \<and> n \<le> 90) \<or> (97 \<le> n \<and> n \<le> 122))"

definition drive_path :: "string \<Rightarrow> bool" where
  "drive_path p = (case p of (c # d # e # _) \<Rightarrow> is_ascii_letter c \<and> d = CHR '':'' \<and> (e = slash \<or> e = backslash) | _ \<Rightarrow> False)"

definition dev_null :: string where
  "dev_null = ''/dev/null''"

definition header_path_error :: "string \<Rightarrow> string option" where
  "header_path_error path =
     (let raw_path = drop_ab (strip_char dquote (py_strip path))
      in if raw_path = dev_null then None
         else if is_absolute raw_path \<or> drive_path raw_path \<or> py_startswith raw_path ''/'' \<or> py_startswith raw_path [backslash]
           then Some (''patch contains absolute path: '' @ py_repr raw_path)
         else if ''..'' \<in> set (py_split slash (map (\<lambda>c. if c = backslash then slash else c) raw_path))
           then Some (''patch contains path traversal: '' @ py_repr raw_path)
         else None)"

fun validate_header_lines :: "string list \<Rightarrow> string + unit" where
  "validate_header_lines [] = Inr ()"
| "validate_header_lines (line # lines) =
     (case header_match line of
        None \<Rightarrow> validate_header_lines lines
      | Some (_, path) \<Rightarrow>
          (case header_path_error path of Some e \<Rightarrow> Inl e | None \<Rightarrow> validate_header_lines lines))"

definition validate_patch_paths :: "string \<Rightarrow> string + unit" where
  "validate_patch_paths patch = validate_header_lines (py_splitlines patch)"

subsection \<open>Changed files\<close>

record file_change =
  fc_path :: string
  fc_old_path :: "string option"
  fc_status :: string

definition normalise_header_path :: "string \<Rightarrow> string" where
  "normalise_header_path raw_path = drop_ab (strip_char dquote (takeWhile (\<lambda>c. c \<noteq> tab) (py_strip raw_path)))"

definition change_of :: "string \<Rightarrow> string \<Rightarrow> file_change" where
  "change_of old_path new_path =
     (if old_path = dev_null then \<lparr>fc_path = new_path, fc_old_path = None, fc_status = ''added''\<rparr>
      else if new_path = dev_null then \<lparr>fc_path = old_path, fc_old_path = None, fc_status = ''deleted''\<rparr>
      else if old_path \<noteq> new_path then \<lparr>fc_path = new_path, fc_old_path = Some old_path, fc_status = ''renamed''\<rparr>
      else \<lparr>fc_path = new_path, fc_old_path = None, fc_status = ''modified''\<rparr>)"

fun header_changes :: "string list \<Rightarrow> file_change list" where
  "header_changes (l1 # l2 # lines) =
     (case (header_match l1, header_match l2) of
        (Some (m1, p1), Some (m2, p2)) \<Rightarrow>
          if m1 = ''---'' \<and> m2 = ''+++''
          then change_of (normalise_header_path p1) (normalise_header_path p2) # header_changes lines
          else header_changes (l2 # lines)
      | _ \<Rightarrow> header_changes (l2 # lines))"
| "header_changes _ = []"

fun dedup_changes :: "(string \<times> string) list \<Rightarrow> file_change list \<Rightarrow> file_change list" where
  "dedup_changes seen [] = []"
| "dedup_changes seen (c # cs) =
     (let key = (fc_path c, fc_status c)
      in if key \<in> set seen then dedup_changes seen cs else c # dedup_changes (key # seen) cs)"

definition extract_file_changes :: "string \<Rightarrow> file_change list" where
  "extract_file_changes patch = dedup_changes [] (header_changes (py_splitlines patch))"

definition extract_changed_files :: "string \<Rightarrow> string list" where
  "extract_changed_files patch = map fc_path (extract_file_changes patch)"

subsection \<open>The hunk-count check\<close>

record diagnostic =
  dg_line :: nat
  dg_content :: string
  dg_message :: string

text \<open>The lines that end the body of a hunk.\<close>

definition hunk_stops :: "string \<Rightarrow> string list \<Rightarrow> bool" where
  "hunk_stops content following =
     (py_startswith content ''@@'' \<or> py_startswith content ''diff --git ''
      \<or> (py_startswith content ''--- '' \<and> (case following of [] \<Rightarrow> False | (l # _) \<Rightarrow> py_startswith l ''+++ '')))"

definition no_newline_marker :: string where
  "no_newline_marker = backslash # '' No newline at end of file''"

text \<open>The inner loop: the cursor, the remaining lines and the counts so far.\<close>

fun scan_hunk :: "nat \<Rightarrow> string list \<Rightarrow> nat \<Rightarrow> nat \<Rightarrow> diagnostic + (nat \<times> string list \<times> nat \<times> nat)" where
  "scan_hunk cursor [] old new = Inr (cursor, [], old, new)"
| "scan_hunk cursor (content # following) old new =
     (if hunk_stops content following then Inr (cursor, content # following, old, new)
      else if py_startswith content no_newline_marker then scan_hunk (Suc cursor) following old new
      else if content = [] \<or> hd content \<notin> set '' +-''
        then Inl \<lparr>dg_line = Suc cursor, dg_content = content, dg_message = ''hunk content line must start with space, +, or -''\<rparr>
      else scan_hunk (Suc cursor) following (if hd content \<in> set '' -'' then Suc old else old)
             (if hd content \<in> set '' +'' then Suc new else new))"

definition count_message :: "nat \<Rightarrow> nat \<Rightarrow> nat \<Rightarrow> nat \<Rightarrow> string" where
  "count_message eo en ao an =
     ''hunk line count does not match header: expected old/new '' @ nat_str eo @ ''/'' @ nat_str en
      @ '', found '' @ nat_str ao @ ''/'' @ nat_str an"

lemma scan_hunk_shorter: "scan_hunk cursor lines old new = Inr (cursor', rest, old', new') \<Longrightarrow> length rest \<le> length lines"
proof (induction cursor lines old new rule: scan_hunk.induct)
  case (2 cursor content following old new)
  then show ?case
    by (cases "hunk_stops content following"; cases "py_startswith content no_newline_marker";
        cases "content = [] \<or> hd content \<notin> set '' +-''") (simp_all del: list.set)
qed simp

text \<open>The outer loop, with the index of the first remaining line; \<open>Inr\<close> says whether a hunk was seen.\<close>

function scan_patch :: "nat \<Rightarrow> bool \<Rightarrow> string list \<Rightarrow> diagnostic + bool" where
  "scan_patch index saw [] = Inr saw"
| "scan_patch index saw (line # lines) =
     (if \<not> py_startswith line ''@@'' then scan_patch (Suc index) saw lines
      else case hunk_header_match line of
        None \<Rightarrow> Inl \<lparr>dg_line = Suc index, dg_content = line, dg_message = ''invalid unified-diff hunk header''\<rparr>
      | Some ((_, expected_old), (_, expected_new)) \<Rightarrow>
          (case scan_hunk (Suc index) lines 0 0 of
             Inl d \<Rightarrow> Inl d
           | Inr (cursor, rest, actual_old, actual_new) \<Rightarrow>
               if (actual_old, actual_new) \<noteq> (expected_old, expected_new)
               then Inl \<lparr>dg_line = Suc index, dg_content = line,
                         dg_message = count_message expected_old expected_new actual_old actual_new\<rparr>
               else scan_patch cursor True rest))"
  by pat_completeness auto
termination
  by (relation "measure (\<lambda>(i, saw, lines). length lines)") (auto dest!: scan_hunk_shorter)

definition validate_unified_diff :: "string \<Rightarrow> diagnostic option" where
  "validate_unified_diff patch =
     (let lines = py_splitlines patch
      in case scan_patch 0 False lines of
           Inl d \<Rightarrow> Some d
         | Inr True \<Rightarrow> None
         | Inr False \<Rightarrow> Some \<lparr>dg_line = 1, dg_content = (case lines of [] \<Rightarrow> [] | (l # _) \<Rightarrow> l),
                              dg_message = ''patch contains no unified-diff hunks''\<rparr>)"

definition diagnostic_preview :: "string \<Rightarrow> nat \<Rightarrow> nat \<Rightarrow> string" where
  "diagnostic_preview patch line_number radius =
     (let lines = py_splitlines patch;
          start = line_number - radius - 1;
          stop = min (length lines) (line_number + radius)
      in py_join [newline] (map (\<lambda>i. nat_str (i + 1) @ '': '' @ lines ! i) [start..<stop]))"

subsection \<open>Classification\<close>

definition code_extensions :: "string list" where
  "code_extensions = [''.py'', ''.js'', ''.ts'', ''.jsx'', ''.tsx'', ''.java'', ''.go'', ''.rs'', ''.c'', ''.cpp'', ''.h'',
     ''.hpp'', ''.cs'', ''.rb'', ''.php'', ''.swift'', ''.kt'', ''.scala'']"

definition docs_extensions :: "string list" where
  "docs_extensions = [''.md'', ''.rst'', ''.txt'', ''.adoc'', ''.tex'']"

definition config_extensions :: "string list" where
  "config_extensions = [''.json'', ''.yaml'', ''.yml'', ''.toml'', ''.ini'', ''.cfg'', ''.conf'', ''.env.example'']"

text \<open>\<open>Path(p).suffix\<close>: from the last dot of the name, unless it is the first or the last character.\<close>

definition path_suffix :: "string \<Rightarrow> string" where
  "path_suffix p = (let name = (case rev (path_parts p) of [] \<Rightarrow> [] | (n # _) \<Rightarrow> n);
       ext = rev (takeWhile (\<lambda>c. c \<noteq> CHR ''.'') (rev name))
     in if length ext = length name \<or> Suc (length ext) = length name \<or> ext = [] then [] else CHR ''.'' # ext)"

text \<open>The part of \<open>line.split(sep)\<close> before the first separator, when there is one.\<close>

fun before_sep :: "string \<Rightarrow> string \<Rightarrow> string option" where
  "before_sep sep [] = None"
| "before_sep sep (c # s) = (if prefix sep (c # s) then Some [] else map_option (Cons c) (before_sep sep s))"

definition change_kind_of_line :: "string \<Rightarrow> string option" where
  "change_kind_of_line line =
     (case before_sep '' | '' line of
        None \<Rightarrow> None
      | Some p \<Rightarrow>
          let ext = py_lower (path_suffix (py_strip p))
          in Some (if ext \<in> set code_extensions then ''code'' else if ext \<in> set docs_extensions then ''docs''
                   else if ext \<in> set config_extensions then ''config'' else ''other''))"

definition classify_change_kind :: "string \<Rightarrow> string" where
  "classify_change_kind diff_stdout =
     (if diff_stdout = [] then ''unknown''
      else case remdups (List.map_filter change_kind_of_line (py_splitlines diff_stdout)) of
             [] \<Rightarrow> ''unknown'' | [k] \<Rightarrow> k | _ \<Rightarrow> ''mixed'')"

definition classify_patch_error :: "string \<Rightarrow> string" where
  "classify_patch_error stderr =
     (if stderr = [] then ''unknown''
      else let err_lower = py_lower stderr in
        if py_contains ''corrupt patch'' err_lower then ''format_error''
        else if py_contains ''malformed patch'' err_lower \<or> py_contains ''invalid hunk header'' err_lower then ''format_error''
        else if py_contains ''no such file'' err_lower \<or> py_contains ''does not exist'' err_lower then ''file_not_found''
        else if py_contains ''does not match'' err_lower \<or> py_contains ''patch failed'' err_lower then ''conflict''
        else if py_contains ''already exists'' err_lower then ''conflict''
        else if py_contains ''error:'' stderr then ''format_error''
        else ''unknown'')"

text \<open>\<open>re.search(r"(?:at|line)\s+(\d+)", detail, re.IGNORECASE)\<close>.\<close>

definition number_after :: "string \<Rightarrow> string \<Rightarrow> nat option" where
  "number_after word s =
     (let rest = drop (length word) s; body = dropWhile py_isspace rest
      in if py_startswith (py_lower s) word \<and> rest \<noteq> [] \<and> py_isspace (hd rest)
         then map_option (\<lambda>(d, _). py_int_of 0 d) (take_digits body) else None)"

fun search_line_number :: "string \<Rightarrow> nat option" where
  "search_line_number [] = None"
| "search_line_number (c # s) =
     (case number_after ''at'' (c # s) of
        Some n \<Rightarrow> Some n
      | None \<Rightarrow> (case number_after ''line'' (c # s) of Some n \<Rightarrow> Some n | None \<Rightarrow> search_line_number s))"

text \<open>A multi-line search for a marker at the start of a line, followed by white space.\<close>

fun has_marker_line :: "string \<Rightarrow> bool \<Rightarrow> string \<Rightarrow> bool" where
  "has_marker_line marker at_start [] = False"
| "has_marker_line marker at_start (c # s) =
     ((at_start \<and> py_startswith (c # s) marker \<and> drop (length marker) (c # s) \<noteq> []
        \<and> py_isspace (hd (drop (length marker) (c # s))))
      \<or> has_marker_line marker (c = newline) s)"

definition has_diff_header :: "string \<Rightarrow> bool" where
  "has_diff_header stripped = (has_marker_line ''---'' True stripped \<and> has_marker_line ''+++'' True stripped)"

end
