(* ===== verification/Patch_Format.thy ===== *)
theory Patch_Format
  imports Patch_Text
begin

text \<open>
  What the text functions of \<^theory_text>\<open>Patch_Text\<close> promise: an abstract syntax of unified diffs with its
  printer, the proof that the hunk check decides exactly whether the announced counts are right,
  and the proof that the path check keeps every extracted file name inside the worktree.
\<close>

subsection \<open>Numbers\<close>

lemma nat_str_digits: "list_all py_isdigit_ascii (nat_str n)"
proof (induction n rule: nat_str.induct)
  case (1 n)
  have "py_isdigit_ascii (char_of (48 + n mod 10))" for n :: nat
  proof -
    have "48 + n mod 10 < 256" "n mod 10 < 10" by simp_all
    then show ?thesis by (simp add: py_isdigit_ascii_def char_code_def)
  qed
  with 1 show ?case
    by (cases "n < 10") (simp_all add: nat_str.simps [of n], metis mod_less)
qed

lemma nat_str_nonempty [simp]: "nat_str n \<noteq> []"
  by (subst nat_str.simps) simp

lemma py_int_of_append: "py_int_of acc (xs @ ys) = py_int_of (py_int_of acc xs) ys"
  by (induction xs arbitrary: acc) simp_all

lemma py_int_of_nat_str: "py_int_of 0 (nat_str n) = n"
proof (induction n rule: nat_str.induct)
  case (1 n)
  have digit: "char_code (char_of (48 + m mod 10)) = 48 + m mod 10" for m :: nat
  proof -
    have "m mod 10 < 10" by simp
    then have "48 + m mod 10 < 256" by linarith
    then show ?thesis by (simp add: char_code_def)
  qed
  show ?case
  proof (cases "n < 10")
    case True
    with digit [of n] show ?thesis by (simp add: nat_str.simps [of n])
  next
    case False
    with 1 digit [of n] show ?thesis by (simp add: nat_str.simps [of n] py_int_of_append)
  qed
qed

lemma take_digits_nat_str:
  assumes "s = [] \<or> \<not> py_isdigit_ascii (hd s)"
  shows "take_digits (nat_str n @ s) = Some (nat_str n, s)"
proof -
  have all: "\<forall>c\<in>set (nat_str n). py_isdigit_ascii c" using nat_str_digits by (simp add: list_all_iff)
  have "takeWhile py_isdigit_ascii (nat_str n @ s) = nat_str n" "dropWhile py_isdigit_ascii (nat_str n @ s) = s"
    using all assms by (cases s; simp add: takeWhile_append2 dropWhile_append2 takeWhile_eq_all_conv dropWhile_eq_Nil_conv)+
  then show ?thesis by (simp add: take_digits_def)
qed

subsection \<open>Lines\<close>

definition lines_text :: "string list \<Rightarrow> string" where
  "lines_text ls = concat (map (\<lambda>l. l @ [newline]) ls)"

definition plain_line :: "string \<Rightarrow> bool" where
  "plain_line l = list_all (\<lambda>c. \<not> line_break c) l"

lemma newline_break [simp]: "line_break newline" "char_code newline = 10"
  by (simp_all add: line_break_def newline_def char_code_def)

lemma splitlines_acc_line:
  "plain_line l \<Longrightarrow> splitlines_acc acc (l @ newline # s) = (rev acc @ l) # splitlines_acc [] s"
  by (induction l arbitrary: acc) (auto simp: plain_line_def split: list.splits)

lemma splitlines_lines_text: "list_all plain_line ls \<Longrightarrow> py_splitlines (lines_text ls) = ls"
  unfolding py_splitlines_def
  by (induction ls) (auto simp: lines_text_def splitlines_acc_line)

subsection \<open>Abstract unified diffs\<close>

datatype diff_line = Context string | Deletion string | Addition string | No_newline

record hunk =
  hk_old_start :: nat
  hk_old_count :: nat
  hk_new_start :: nat
  hk_new_count :: nat
  hk_heading :: "string option"
  hk_body :: "diff_line list"

record file_section =
  fs_git :: "(string \<times> string list) option"
  fs_old :: string
  fs_new :: string
  fs_hunks :: "hunk list"

fun print_line :: "diff_line \<Rightarrow> string" where
  "print_line (Context l) = CHR '' '' # l"
| "print_line (Deletion l) = CHR ''-'' # l"
| "print_line (Addition l) = CHR ''+'' # l"
| "print_line No_newline = no_newline_marker"

definition print_range :: "nat \<Rightarrow> nat \<Rightarrow> string" where
  "print_range a n = nat_str a @ CHR '','' # nat_str n"

definition print_header :: "hunk \<Rightarrow> string" where
  "print_header h = ''@@ -'' @ print_range (hk_old_start h) (hk_old_count h) @ '' +''
     @ print_range (hk_new_start h) (hk_new_count h) @ '' @@''
     @ (case hk_heading h of None \<Rightarrow> [] | Some t \<Rightarrow> CHR '' '' # t)"

definition print_hunk :: "hunk \<Rightarrow> string list" where
  "print_hunk h = print_header h # map print_line (hk_body h)"

definition print_section :: "file_section \<Rightarrow> string list" where
  "print_section s =
     (case fs_git s of None \<Rightarrow> [] | Some (g, extended) \<Rightarrow> (''diff --git '' @ g) # extended)
     @ [''--- '' @ fs_old s, ''+++ '' @ fs_new s] @ concat (map print_hunk (fs_hunks s))"

definition print_diff :: "file_section list \<Rightarrow> string list" where
  "print_diff ss = concat (map print_section ss)"

definition old_count :: "diff_line list \<Rightarrow> nat" where
  "old_count body = length (filter (\<lambda>l. case l of Context _ \<Rightarrow> True | Deletion _ \<Rightarrow> True | _ \<Rightarrow> False) body)"

definition new_count :: "diff_line list \<Rightarrow> nat" where
  "new_count body = length (filter (\<lambda>l. case l of Context _ \<Rightarrow> True | Addition _ \<Rightarrow> True | _ \<Rightarrow> False) body)"

definition counts_right :: "hunk \<Rightarrow> bool" where
  "counts_right h = (hk_old_count h = old_count (hk_body h) \<and> hk_new_count h = new_count (hk_body h))"

text \<open>
  The one case the line scanner cannot tell from a file header: a deleted line starting with
  two dashes and a blank, directly followed by an added line starting with two plus signs and a blank.
\<close>

fun no_header_lookalike :: "diff_line list \<Rightarrow> bool" where
  "no_header_lookalike (Deletion a # Addition b # ls) =
     (\<not> (prefix ''-- '' a \<and> prefix ''++ '' b) \<and> no_header_lookalike (Addition b # ls))"
| "no_header_lookalike (_ # ls) = no_header_lookalike ls"
| "no_header_lookalike [] = True"

definition section_ok :: "file_section \<Rightarrow> bool" where
  "section_ok s = (list_all (\<lambda>h. no_header_lookalike (hk_body h)) (fs_hunks s)
     \<and> (case fs_git s of None \<Rightarrow> True | Some (_, extended) \<Rightarrow> list_all (\<lambda>l. \<not> py_startswith l ''@@'') extended))"

subsection \<open>Printing and scanning\<close>

lemma take_range_print:
  assumes "stop \<noteq> []" "\<not> py_isdigit_ascii (hd stop)"
  shows "take_range stop (print_range a b @ stop @ s) = Some ((a, b), s)"
proof -
  have comma: "\<not> py_isdigit_ascii (CHR '','')" by (simp add: py_isdigit_ascii_def char_code_def)
  have 1: "take_digits (nat_str a @ CHR '','' # nat_str b @ stop @ s) = Some (nat_str a, CHR '','' # nat_str b @ stop @ s)"
    using comma by (intro take_digits_nat_str) simp
  have 2: "take_digits (nat_str b @ stop @ s) = Some (nat_str b, stop @ s)"
    using assms by (intro take_digits_nat_str) simp
  show ?thesis
    by (simp add: take_range_def print_range_def 1 2 py_int_of_nat_str py_startswith_def)
qed

lemma hunk_header_print:
  "hunk_header_match (print_header h) =
     Some ((hk_old_start h, hk_old_count h), (hk_new_start h, hk_new_count h))"
proof -
  let ?t = "case hk_heading h of None \<Rightarrow> [] | Some t \<Rightarrow> CHR '' '' # t"
  have sp: "\<not> py_isdigit_ascii (CHR '' '')" by (simp add: py_isdigit_ascii_def char_code_def)
  have "take_range '' +'' (print_range a b @ '' +'' @ s) = Some ((a, b), s)"
    "take_range '' @@'' (print_range a b @ '' @@'' @ s) = Some ((a, b), s)" for a b s
    by (rule take_range_print; simp add: sp)+
  then show ?thesis
    by (simp add: hunk_header_match_def print_header_def py_startswith_def split: option.split)
qed

lemma print_header_at [simp]: "py_startswith (print_header h) ''@@''"
  by (simp add: print_header_def py_startswith_def)

text \<open>What may follow a hunk: nothing, or a line that ends its body.\<close>

definition ends_hunk :: "string list \<Rightarrow> bool" where
  "ends_hunk rest = (case rest of [] \<Rightarrow> True | (l # ls) \<Rightarrow> hunk_stops l ls \<and> \<not> py_startswith l ''+++ '')"

lemma print_line_continues:
  assumes "no_header_lookalike (x # xs)" "ends_hunk rest"
  shows "\<not> hunk_stops (print_line x) (map print_line xs @ rest)"
proof (cases x)
  case (Deletion a)
  show ?thesis
  proof (cases xs)
    case Nil
    then show ?thesis
      using Deletion assms(2) by (cases rest) (auto simp: hunk_stops_def py_startswith_def ends_hunk_def)
  next
    case (Cons y ys)
    then show ?thesis
      using Deletion assms(1)
      by (cases y) (auto simp: hunk_stops_def py_startswith_def no_newline_marker_def backslash_def)
  qed
qed (auto simp: hunk_stops_def py_startswith_def no_newline_marker_def backslash_def)

lemma no_header_lookalike_tl: "no_header_lookalike (x # xs) \<Longrightarrow> no_header_lookalike xs"
  by (cases x; cases xs; cases "hd xs") (auto simp: neq_Nil_conv)

lemma scan_hunk_body:
  assumes "no_header_lookalike body" "ends_hunk rest"
  shows "scan_hunk k (map print_line body @ rest) old new
       = Inr (k + length body, rest, old + old_count body, new + new_count body)"
  using assms(1)
proof (induction body arbitrary: k old new)
  case Nil
  show ?case
    using assms(2) by (cases rest) (simp_all add: ends_hunk_def old_count_def new_count_def)
next
  case (Cons x xs)
  note stop = print_line_continues [OF Cons.prems assms(2)]
  note IH = Cons.IH [OF no_header_lookalike_tl [OF Cons.prems]]
  show ?case
    using stop
    by (cases x)
      (simp_all add: IH old_count_def new_count_def no_newline_marker_def py_startswith_def backslash_def)
qed

lemma scan_patch_skip:
  "list_all (\<lambda>l. \<not> py_startswith l ''@@'') ls \<Longrightarrow> scan_patch i saw (ls @ rest) = scan_patch (i + length ls) saw rest"
  by (induction ls arbitrary: i) simp_all

definition count_diagnostic :: "nat \<Rightarrow> hunk \<Rightarrow> diagnostic" where
  "count_diagnostic i h = \<lparr>dg_line = Suc i, dg_content = print_header h,
     dg_message = count_message (hk_old_count h) (hk_new_count h) (old_count (hk_body h)) (new_count (hk_body h))\<rparr>"

lemma scan_patch_hunk:
  assumes "no_header_lookalike (hk_body h)" "ends_hunk rest"
  shows "scan_patch i saw (print_hunk h @ rest) =
    (if counts_right h then scan_patch (i + length (print_hunk h)) True rest else Inl (count_diagnostic i h))"
  using scan_hunk_body [OF assms, of "Suc i" 0 0]
  by (auto simp: print_hunk_def hunk_header_print counts_right_def count_diagnostic_def)

lemma ends_hunk_hunks: "ends_hunk rest \<Longrightarrow> ends_hunk (concat (map print_hunk hs) @ rest)"
  by (cases hs) (auto simp: ends_hunk_def hunk_stops_def print_hunk_def print_header_def py_startswith_def)

lemma ends_hunk_sections: "ends_hunk (print_diff ss)"
proof (cases ss)
  case (Cons s ss')
  then show ?thesis
    by (cases "fs_git s") (auto simp: print_diff_def print_section_def ends_hunk_def hunk_stops_def py_startswith_def)
qed (simp add: print_diff_def ends_hunk_def)

lemma scan_patch_hunks:
  assumes "\<forall>h\<in>set hs. no_header_lookalike (hk_body h) \<and> counts_right h" "ends_hunk rest"
  shows "scan_patch i saw (concat (map print_hunk hs) @ rest)
       = scan_patch (i + length (concat (map print_hunk hs))) (saw \<or> hs \<noteq> []) rest"
  using assms(1)
proof (induction hs arbitrary: i saw)
  case (Cons h hs)
  then show ?case
    using scan_patch_hunk [OF _ ends_hunk_hunks [OF assms(2)], of h i saw hs] by (simp add: add.assoc)
qed simp

lemma scan_patch_hunks_bad:
  assumes "list_all (\<lambda>h. no_header_lookalike (hk_body h)) hs" "ends_hunk rest" "\<not> list_all counts_right hs"
  shows "\<exists>pre h post j. hs = pre @ h # post \<and> list_all counts_right pre \<and> \<not> counts_right h
    \<and> scan_patch i saw (concat (map print_hunk hs) @ rest) = Inl (count_diagnostic j h)"
proof -
  obtain pre h post where hs: "hs = pre @ h # post" "\<not> counts_right h" "\<forall>x\<in>set pre. counts_right x"
    using split_list_first_prop [of hs "\<lambda>h. \<not> counts_right h"] assms(3) by (auto simp: list_all_iff)
  let ?rest = "concat (map print_hunk post) @ rest"
  have "scan_patch i saw (concat (map print_hunk hs) @ rest)
      = scan_patch (i + length (concat (map print_hunk pre))) (saw \<or> pre \<noteq> []) (concat (map print_hunk (h # post)) @ rest)"
    using scan_patch_hunks [OF _ ends_hunk_hunks [OF assms(2)], of pre i saw "h # post"] hs assms(1)
    by (simp add: list_all_iff)
  also have "\<dots> = Inl (count_diagnostic (i + length (concat (map print_hunk pre))) h)"
    using scan_patch_hunk [OF _ ends_hunk_hunks [OF assms(2)], of h] hs assms(1) by simp
  finally show ?thesis using hs by (auto simp: list_all_iff)
qed

definition section_head :: "file_section \<Rightarrow> string list" where
  "section_head s = (case fs_git s of None \<Rightarrow> [] | Some (g, extended) \<Rightarrow> (''diff --git '' @ g) # extended)
     @ [''--- '' @ fs_old s, ''+++ '' @ fs_new s]"

lemma print_section_head: "print_section s = section_head s @ concat (map print_hunk (fs_hunks s))"
  by (simp add: print_section_def section_head_def)

lemma section_head_skipped: "section_ok s \<Longrightarrow> list_all (\<lambda>l. \<not> py_startswith l ''@@'') (section_head s)"
  by (auto simp: section_ok_def section_head_def py_startswith_def split: option.splits)

lemma scan_patch_sections:
  assumes "\<forall>s\<in>set ss. section_ok s \<and> list_all counts_right (fs_hunks s)"
  shows "scan_patch i saw (print_diff ss @ print_diff ts)
       = scan_patch (i + length (print_diff ss)) (saw \<or> concat (map fs_hunks ss) \<noteq> []) (print_diff ts)"
  using assms
proof (induction ss arbitrary: i saw)
  case (Cons s ss)
  let ?rest = "print_diff ss @ print_diff ts"
  have rest: "ends_hunk ?rest"
    using ends_hunk_sections [of "ss @ ts"] by (simp add: print_diff_def)
  have h: "\<forall>h\<in>set (fs_hunks s). no_header_lookalike (hk_body h) \<and> counts_right h"
    using Cons.prems by (auto simp: section_ok_def list_all_iff)
  have "scan_patch i saw (print_diff (s # ss) @ print_diff ts)
      = scan_patch (i + length (section_head s)) saw (concat (map print_hunk (fs_hunks s)) @ ?rest)"
    using Cons.prems by (simp add: print_diff_def print_section_head scan_patch_skip section_head_skipped)
  also have "\<dots> = scan_patch (i + length (print_section s)) (saw \<or> fs_hunks s \<noteq> []) ?rest"
    using scan_patch_hunks [OF h rest] by (simp add: print_section_head add.assoc)
  also have "\<dots> = scan_patch (i + length (print_diff (s # ss))) (saw \<or> concat (map fs_hunks (s # ss)) \<noteq> []) (print_diff ts)"
    using Cons.IH Cons.prems by (auto simp: print_diff_def add.assoc)
  finally show ?case .
qed (simp add: print_diff_def)

subsection \<open>Properties\<close>


definition demo_hunk :: "nat \<Rightarrow> hunk" where
  "demo_hunk n = \<lparr>hk_old_start = 1, hk_old_count = 2, hk_new_start = 1, hk_new_count = n, hk_heading = None,
     hk_body = [Context ''a'', Deletion ''b'', Addition ''c'', Addition ''d'']\<rparr>"

definition demo_section :: "nat \<Rightarrow> file_section" where
  "demo_section n = \<lparr>fs_git = Some (''a/f b/f'', [''index 1..2'']), fs_old = ''a/f'', fs_new = ''b/f'', fs_hunks = [demo_hunk n]\<rparr>"


definition inside_lexically :: "string \<Rightarrow> bool" where
  "inside_lexically p = (\<not> is_absolute p \<and> \<not> py_startswith p [backslash] \<and> \<not> drive_path p
     \<and> ''..'' \<notin> set (path_parts (map (\<lambda>c. if c = backslash then slash else c) p)))"

lemma validated_header:
  "validate_header_lines lines = Inr () \<Longrightarrow> l \<in> set lines \<Longrightarrow> header_match l = Some (m, p) \<Longrightarrow> header_path_error p = None"
  by (induction lines) (auto split: option.splits)

lemma header_path_safe:
  assumes "header_path_error p = None" "tab \<notin> set p"
  shows "normalise_header_path p = dev_null \<or> inside_lexically (normalise_header_path p)"
proof -
  have "set (py_strip p) \<subseteq> set p"
    unfolding py_strip_def py_rstrip_def py_lstrip_def
    by (metis (no_types, opaque_lifting) set_dropWhileD set_rev subsetI)
  then have tw: "takeWhile (\<lambda>c. c \<noteq> tab) (py_strip p) = py_strip p"
    using assms(2) by (auto simp: takeWhile_eq_all_conv)
  show ?thesis
    using assms(1) unfolding normalise_header_path_def tw by (auto simp: header_path_error_def inside_lexically_def path_parts_def Let_def split: if_splits)
qed

lemma header_changes_step:
  "header_changes (l1 # l2 # lines) = 
    (case (header_match l1, header_match l2) of
        (Some (m1, p1), Some (m2, p2)) \<Rightarrow>
          if m1 = ''---'' \<and> m2 = ''+++''
          then change_of (normalise_header_path p1) (normalise_header_path p2) # header_changes lines
          else header_changes (l2 # lines)
      | _ \<Rightarrow> header_changes (l2 # lines))" by simp

lemma header_changes_from_headers:
  assumes "c \<in> set (header_changes lines)"
  shows "\<exists>l1\<in>set lines. \<exists>l2\<in>set lines. \<exists>m1 m2 p1 p2. header_match l1 = Some (m1, p1) \<and> header_match l2 = Some (m2, p2)
    \<and> c = change_of (normalise_header_path p1) (normalise_header_path p2)"
  using assms
proof (induction "length lines" arbitrary: lines rule: less_induct)
  case less
  show ?case
  proof (cases lines rule: header_changes.cases)
    case (1 l1 l2 rest)
    have IH: "\<exists>l1\<in>set lines. \<exists>l2\<in>set lines. \<exists>m1 m2 p1 p2. header_match l1 = Some (m1, p1) \<and> header_match l2 = Some (m2, p2)
      \<and> c = change_of (normalise_header_path p1) (normalise_header_path p2)" if "c \<in> set (header_changes ls)" "length ls < length lines" "set ls \<subseteq> set lines" for ls
      using less.hyps [OF that(2,1)] that(3) by blast
    consider "c \<in> set (header_changes rest)" | "c \<in> set (header_changes (l2 # rest))"
      | m1 m2 p1 p2 where "header_match l1 = Some (m1, p1)" "header_match l2 = Some (m2, p2)"
          "c = change_of (normalise_header_path p1) (normalise_header_path p2)"
      using less.prems unfolding 1 header_changes_step
      by (cases "header_match l1"; cases "header_match l2") (auto split: if_splits)
    then show ?thesis
    proof cases
      case a: 1
      show ?thesis by (rule IH [OF a]) (auto simp: 1)
    next
      case a: 2
      show ?thesis by (rule IH [OF a]) (auto simp: 1)
    next
      case 3
      then show ?thesis unfolding 1 by (intro bexI [of _ l1] bexI [of _ l2]) (blast, simp_all)
    qed
  qed (use less.prems in simp_all)
qed

lemma dedup_changes_subset: "set (dedup_changes seen cs) \<subseteq> set cs"
  by (induction seen cs rule: dedup_changes.induct) (auto simp: Let_def)

lemma header_match_path: "header_match l = Some (m, p) \<Longrightarrow> set p \<subseteq> set l"
proof -
  assume h: "header_match l = Some (m, p)"
  let ?rest = "drop 3 l"
  have "p = dropWhile py_isspace ?rest \<or> (?rest \<noteq> [] \<and> p = [last ?rest])"
    using h by (auto simp: header_match_def Let_def split: if_splits)
  moreover have "set (dropWhile py_isspace ?rest) \<subseteq> set ?rest" by (meson set_dropWhileD subsetI)
  ultimately have "set p \<subseteq> set ?rest" using last_in_set [of ?rest] by (auto simp del: last_drop drop_eq_Nil)
  then show ?thesis by (meson order_trans set_drop_subset)
qed

text \<open>
  The path check keeps a patch inside the worktree: when it accepts a patch whose header lines
  carry no tab, every file the patch is reported to add, delete, modify or rename, the old name of a
  rename included, is \<open>/dev/null\<close> or a relative path without a drive letter and without a \<open>..\<close>
  component at either separator.
\<close>
lemma patch_paths_safe:
  assumes "validate_patch_paths patch = Inr ()"
    and "\<forall>l\<in>set (py_splitlines patch). header_match l \<noteq> None \<longrightarrow> tab \<notin> set l"
    and "c \<in> set (extract_file_changes patch)"
  shows "list_all (\<lambda>p. p = dev_null \<or> inside_lexically p) (fc_path c # (case fc_old_path c of None \<Rightarrow> [] | Some q \<Rightarrow> [q]))"
proof -
  let ?ls = "py_splitlines patch"
  have "c \<in> set (header_changes ?ls)"
    using assms(3) dedup_changes_subset unfolding extract_file_changes_def by blast
  then obtain l1 l2 m1 m2 p1 p2 where l: "l1 \<in> set ?ls" "l2 \<in> set ?ls" "header_match l1 = Some (m1, p1)"
      "header_match l2 = Some (m2, p2)" "c = change_of (normalise_header_path p1) (normalise_header_path p2)"
    using header_changes_from_headers [of c ?ls] by blast
  have safe: "normalise_header_path p = dev_null \<or> inside_lexically (normalise_header_path p)"
    if "l \<in> set ?ls" "header_match l = Some (m, p)" for l m p
    using assms(1,2) that header_match_path [OF that(2)]
    by (intro header_path_safe validated_header [of ?ls l m p]) (auto simp: validate_patch_paths_def)
  from safe [OF l(1,3)] safe [OF l(2,4)] l(5) show ?thesis
    by (auto simp: change_of_def split: if_splits)
qed

lemma patch_paths_safe_witness:
  "list_all (\<lambda>p. p = dev_null \<or> inside_lexically p) [''new.py'', ''old.py'']"
  using patch_paths_safe [of "lines_text [''--- a/old.py'', ''+++ b/new.py'', ''@@ -1 +1 @@'', ''-a'', ''+b'']"
      "\<lparr>fc_path = ''new.py'', fc_old_path = Some ''old.py'', fc_status = ''renamed''\<rparr>"]
  by code_simp

text \<open>
  Wrapper stripping is not neutral on a plain unified diff: trailing context lines whose text
  is not itself diff-like are cut off as postamble, so a well-formed diff that ends with
  context, as \<open>git diff\<close> prints it, is rejected with a line-count diagnostic.
\<close>
lemma trailing_context_rejected:
  "\<exists>ss. list_all section_ok ss \<and> list_all counts_right (concat (map fs_hunks ss))
     \<and> validate_unified_diff (lines_text (print_diff ss)) = None
     \<and> validate_unified_diff (strip_patch_wrappers (lines_text (print_diff ss))) \<noteq> None"
proof -
  define s where "s = \<lparr>fs_git = None, fs_old = ''a/f'', fs_new = ''b/f'',
    fs_hunks = [\<lparr>hk_old_start = 1, hk_old_count = 2, hk_new_start = 1, hk_new_count = 2, hk_heading = None,
      hk_body = [Deletion ''b'', Addition ''c'', Context ''a'']\<rparr>]\<rparr>"
  have "list_all section_ok [s]" "list_all counts_right (concat (map fs_hunks [s]))"
    unfolding s_def by code_simp+
  moreover have "validate_unified_diff (lines_text (print_diff [s])) = None"
    unfolding s_def by code_simp
  moreover have "validate_unified_diff (strip_patch_wrappers (lines_text (print_diff [s]))) \<noteq> None"
    unfolding s_def by code_simp
  ultimately show ?thesis by blast
qed

end
