(* ===== verification/Workspace_Table.thy ===== *)
theory Workspace_Table
  imports Envelope
begin

text \<open>
  The workspaces table of \<open>app/storage/database.py\<close> with its helpers, and the lookup and the name
  functions of \<open>app/services/workspace_manager.py\<close>.  The table is a dict from the workspace id to
  the row; the current time is an argument.
\<close>

record workspace_row =
  ws_project :: string
  ws_task :: string
  ws_path :: string
  ws_base :: string
  ws_status :: string
  ws_created :: string
  ws_accessed :: string
  ws_closed :: "string option"
  ws_main_head :: "string option"
  ws_main_sha :: "string option"
  ws_revision :: int
  ws_current_head :: "string option"
  ws_last_patch :: "string option"
  ws_last_check :: "string option"
  ws_changed_files :: "string option"

type_synonym workspace_table = "(string, workspace_row) dict"

record new_workspace =
  nw_project :: string
  nw_task :: string
  nw_path :: string
  nw_base :: string
  nw_main_head :: "string option"
  nw_main_sha :: "string option"

definition new_row :: "string \<Rightarrow> new_workspace \<Rightarrow> workspace_row" where
  "new_row now nw = \<lparr>ws_project = nw_project nw, ws_task = nw_task nw, ws_path = nw_path nw, ws_base = nw_base nw,
     ws_status = ''active'', ws_created = now, ws_accessed = now, ws_closed = None,
     ws_main_head = nw_main_head nw, ws_main_sha = nw_main_sha nw, ws_revision = 1, ws_current_head = Some (nw_base nw),
     ws_last_patch = None, ws_last_check = None, ws_changed_files = None\<rparr>"

definition insert_workspace ::
  "string \<Rightarrow> string \<Rightarrow> new_workspace \<Rightarrow> workspace_table \<Rightarrow> string + (workspace_table \<times> workspace_row)" where
  "insert_workspace now wid nw table =
     (if wid \<in> fst ` set table then Inl ''UNIQUE constraint failed: workspaces.workspace_id''
      else let table' = AList.update wid (new_row now nw) table in
        case map_of table' wid of
          None \<Rightarrow> Inl (''failed to insert workspace: '' @ wid)
        | Some row \<Rightarrow> Inr (table', row))"

definition update_workspace :: "string \<Rightarrow> (workspace_row \<Rightarrow> workspace_row) \<Rightarrow> workspace_table \<Rightarrow> workspace_table" where
  "update_workspace wid f table =
     (case map_of table wid of None \<Rightarrow> table | Some row \<Rightarrow> AList.update wid (f row) table)"

text \<open>\<open>ORDER BY created_at DESC\<close>; rows created at the same instant stay in table order.\<close>

definition list_workspaces :: "string option \<Rightarrow> workspace_table \<Rightarrow> (string \<times> workspace_row) list" where
  "list_workspaces project_id table =
     rev (sort_key (\<lambda>r. ws_created (snd r)) (rev
       (case project_id of
          None \<Rightarrow> table
        | Some p \<Rightarrow> if p = [] then table else filter (\<lambda>r. ws_project (snd r) = p) table)))"

definition update_workspace_status :: "string \<Rightarrow> string \<Rightarrow> string \<Rightarrow> workspace_table \<Rightarrow> workspace_table" where
  "update_workspace_status now wid status =
     update_workspace wid (\<lambda>row. if status = ''closed'' then row\<lparr>ws_status := status, ws_closed := Some now\<rparr>
                                 else row\<lparr>ws_status := status\<rparr>)"

definition touch_workspace :: "string \<Rightarrow> string \<Rightarrow> workspace_table \<Rightarrow> workspace_table" where
  "touch_workspace now wid = update_workspace wid (\<lambda>row. row\<lparr>ws_accessed := now\<rparr>)"

definition increment_workspace_revision :: "string \<Rightarrow> workspace_table \<Rightarrow> workspace_table \<times> int" where
  "increment_workspace_revision wid table =
     (let table' = update_workspace wid (\<lambda>row. row\<lparr>ws_revision := ws_revision row + 1\<rparr>) table
      in (table', case map_of table' wid of None \<Rightarrow> 0 | Some row \<Rightarrow> ws_revision row))"

subsection \<open>Identifiers and names\<close>

definition is_hex_lower :: "char \<Rightarrow> bool" where
  "is_hex_lower c = (let n = char_code c in (48 \<le> n \<and> n \<le> 57) \<or> (97 \<le> n \<and> n \<le> 102))"

text \<open>
  \<open>_WORKSPACE_ID_RE.match\<close>: \<open>ws-\<close> and eight lower-case hex digits; \<open>$\<close> also matches before a
  final newline.
\<close>

definition workspace_id_match :: "string \<Rightarrow> bool" where
  "workspace_id_match s =
     (let t = (if s \<noteq> [] \<and> last s = newline then butlast s else s)
      in py_startswith t ''ws-'' \<and> length t = 11 \<and> list_all is_hex_lower (drop 3 t))"

definition ensure_safe_task_name :: "string \<Rightarrow> string + string" where
  "ensure_safe_task_name task =
     (if task = [] \<or> py_strip task = [] then Inl ''task_name must not be empty''
      else if length task > 200 then Inl ''task_name must be 200 characters or fewer''
      else if list_ex (\<lambda>ch. ch \<in> set task) [CHR ''/'', CHR 0x5C, CHR 0x00] then Inl ''task_name must not contain path separators''
      else Inr (py_strip task))"

definition task_char :: "char \<Rightarrow> bool" where
  "task_char c = (let n = char_code c in (65 \<le> n \<and> n \<le> 90) \<or> (97 \<le> n \<and> n \<le> 122) \<or> (48 \<le> n \<and> n \<le> 57)
     \<or> c = CHR ''.'' \<or> c = CHR ''_'' \<or> c = CHR ''-'')"

text \<open>\<open>re.sub(r"[^A-Za-z0-9._-]+", "-", s)\<close>: each maximal run of other characters becomes one dash.\<close>

fun dash_runs :: "bool \<Rightarrow> string \<Rightarrow> string" where
  "dash_runs in_run [] = []"
| "dash_runs in_run (c # s) =
     (if task_char c then c # dash_runs False s
      else if in_run then dash_runs True s else CHR ''-'' # dash_runs True s)"

definition strip_dashes :: "string \<Rightarrow> string" where
  "strip_dashes s = rev (dropWhile (\<lambda>c. c = CHR ''-'') (rev (dropWhile (\<lambda>c. c = CHR ''-'') s)))"

definition worktree_dir_name :: "string \<Rightarrow> string \<Rightarrow> string" where
  "worktree_dir_name wid task =
     (let safe = strip_dashes (dash_runs False task)
      in wid @ ''-'' @ (if safe = [] then ''task'' else safe))"

text \<open>\<open>workspace_manager.get_workspace\<close>: the record as it was before the access time is updated.\<close>

definition get_workspace :: "string \<Rightarrow> string \<Rightarrow> workspace_table \<Rightarrow> workspace_table \<times> workspace_row option" where
  "get_workspace now wid table =
     (if \<not> workspace_id_match wid then (table, None)
      else case map_of table wid of
        None \<Rightarrow> (table, None)
      | Some row \<Rightarrow> (touch_workspace now wid table, Some row))"

subsection \<open>Facts\<close>

lemma map_of_update_workspace:
  "map_of (update_workspace wid f table) k = (if k = wid then map_option f (map_of table k) else map_of table k)"
  by (simp add: update_workspace_def map_of_update_iff split: option.splits)

lemma keys_update_workspace: "fst ` set (update_workspace wid f table) = fst ` set table"
  by (auto simp: update_workspace_def dom_map_of_conv_image_fst [symmetric] map_of_update_iff dom_def split: option.splits)

lemma get_workspace_row:
  "get_workspace now wid table = (table', Some row) \<Longrightarrow> workspace_id_match wid \<and> map_of table wid = Some row
     \<and> table' = touch_workspace now wid table"
  by (auto simp: get_workspace_def split: if_splits option.splits)

lemma list_workspaces_set:
  "set (list_workspaces (Some p) table) = (if p = [] then set table else {r \<in> set table. ws_project (snd r) = p})"
  by (auto simp: list_workspaces_def)

text \<open>The directory name of a worktree has no separator and is never \<open>.\<close> or \<open>..\<close>.\<close>

lemma dash_runs_chars: "c \<in> set (dash_runs b s) \<Longrightarrow> task_char c"
  by (induction b s rule: dash_runs.induct) (auto simp: task_char_def split: if_splits)

lemma worktree_dir_name_chars:
  assumes "list_all task_char wid"
  shows "list_all task_char (worktree_dir_name wid task)"
proof -
  have "set (strip_dashes s) \<subseteq> set s" for s
    unfolding strip_dashes_def by (auto dest!: set_dropWhileD)
  then have "list_all task_char (strip_dashes (dash_runs False task))"
    using dash_runs_chars by (fastforce simp: list_all_iff)
  moreover have "list_all task_char ''-''" "list_all task_char ''task''" by code_simp+
  ultimately show ?thesis using assms by (simp add: worktree_dir_name_def Let_def)
qed

end
