(* ===== verification/Patcher.thy ===== *)
theory Patcher
  imports Patch_Format Workspace_Table Idempotency_Store
begin

text \<open>
  The tools \<open>apply_patch\<close> and \<open>replace_text\<close> of \<open>app/tools/patcher.py\<close> as functions on the world:
  the files (contents and modes by resolved path), the workspaces table and the audit table.  The
  git program, path resolution, SHA-256 and UTF-8 are parameters, gathered in \<open>patch_env\<close>.
\<close>

record tree =
  tr_files :: "string list \<Rightarrow> string option"
  tr_modes :: "string list \<Rightarrow> nat option"

record patch_world =
  pw_tree :: tree
  pw_workspaces :: workspace_table
  pw_ops :: "operation_row list"

text \<open>\<open>_run_git\<close>: the process ended, or git is missing or timed out.\<close>

datatype git_reply = Git_done (gr_code: int) (gr_stdout: string) (gr_stderr: string) | Git_error string

fun exit_of :: "git_reply \<Rightarrow> int" where
  "exit_of (Git_done c _ _) = c"
| "exit_of (Git_error _) = 1"

fun out_of :: "git_reply \<Rightarrow> string" where
  "out_of (Git_done _ s _) = s"
| "out_of (Git_error _) = []"

fun err_of :: "git_reply \<Rightarrow> string" where
  "err_of (Git_done _ _ s) = s"
| "err_of (Git_error _) = []"

datatype git_run = Ended int string string | Not_found | Timed_out

definition run_git :: "nat \<Rightarrow> tree \<times> git_run \<Rightarrow> tree \<times> git_reply" where
  "run_git timeout r = (fst r, (case snd r of
       Ended c out err \<Rightarrow> Git_done c out err
     | Not_found \<Rightarrow> Git_error ''git executable not found''
     | Timed_out \<Rightarrow> Git_error (''git command timed out after '' @ nat_str timeout @ ''s'')))"

text \<open>\<open>pe_proc worktree cmd input tree\<close> runs the process; \<open>pe_git_env\<close> is \<open>GIT_EXECUTABLE\<close>.\<close>

record patch_env =
  pe_now :: string
  pe_exists :: "tree \<Rightarrow> string list \<Rightarrow> bool"
  pe_resolve :: "string list \<Rightarrow> string list"
  pe_sha :: "string \<Rightarrow> string"
  pe_proc :: "string list \<Rightarrow> string list \<Rightarrow> string option \<Rightarrow> tree \<Rightarrow> tree \<times> git_run"
  pe_git_env :: "string option"
  pe_deny :: "string list option"
  pe_decode :: "string \<Rightarrow> string option"
  pe_encode :: "string \<Rightarrow> string"

definition git_executable :: "patch_env \<Rightarrow> string" where
  "git_executable env = (case pe_git_env env of None \<Rightarrow> ''git'' | Some g \<Rightarrow> g)"

definition git_cmd :: "patch_env \<Rightarrow> string list \<Rightarrow> string list \<Rightarrow> string option \<Rightarrow> tree \<Rightarrow> tree \<times> git_reply" where
  "git_cmd env wt cmd inp t = run_git 30 (pe_proc env wt cmd inp t)"

text \<open>\<open>db.log_operation\<close> followed by \<open>db.complete_operation\<close>, which only stamps a time.\<close>

definition log_op :: "string \<Rightarrow> string \<Rightarrow> string \<Rightarrow> string \<Rightarrow> bool \<Rightarrow> patch_world \<Rightarrow> string + patch_world" where
  "log_op op tool summary ws success w =
     map_sum id (\<lambda>ops. w\<lparr>pw_ops := ops\<rparr>)
       (log_operation \<lparr>op_id = op, op_workspace = Some ws, op_tool = tool, op_summary = summary, op_success = success,
          op_request_id = None, op_input_summary = None, op_status = (if success then ''success'' else ''error''),
          op_duration_ms = None, op_error_code = None\<rparr> (pw_ops w))"

type_synonym patch_reply = "patch_world \<times> (string + json)"

text \<open>Log, then answer; an exception of the insert is raised instead of the answer.\<close>

definition logged :: "string \<Rightarrow> string \<Rightarrow> string \<Rightarrow> string \<Rightarrow> bool \<Rightarrow> json \<Rightarrow> patch_world \<Rightarrow> patch_reply" where
  "logged op tool summary ws success reply w =
     (case log_op op tool summary ws success w of Inl e \<Rightarrow> (w, Inl e) | Inr w' \<Rightarrow> (w', Inr reply))"

record patch_call =
  ca_workspace :: string
  ca_patch :: string
  ca_explanation :: string
  ca_check_only :: bool
  ca_expected_sha :: "(string \<times> string) list option"
  ca_expected_head :: "string option"
  ca_op :: string
  ca_fresh :: string

definition path_text :: "string list \<Rightarrow> string" where
  "path_text p = ''/'' @ py_join ''/'' p"

definition error_in :: "patch_call \<Rightarrow> string \<Rightarrow> string \<Rightarrow> (string \<times> json) list \<Rightarrow> json" where
  "error_in ca code msg extra =
     error_result (ca_fresh ca) code msg (error_defaults\<lparr>eo_workspace_id := Some (ca_workspace ca), eo_extra := extra\<rparr>)"

definition not_applied :: "patch_call \<Rightarrow> (string \<times> json) list" where
  "not_applied ca = [(''applied'', JBool False), (''check_only'', JBool (ca_check_only ca))]"

subsection \<open>The guards\<close>

definition max_patch_chars :: int where
  "max_patch_chars = 10000000"

text \<open>\<open>get_workspace\<close> on the world: it touches the row it finds.\<close>

definition find_workspace :: "patch_env \<Rightarrow> string \<Rightarrow> patch_world \<Rightarrow> patch_world \<times> workspace_row option" where
  "find_workspace env wid w =
     (let (table, row) = get_workspace (pe_now env) wid (pw_workspaces w) in (w\<lparr>pw_workspaces := table\<rparr>, row))"

text \<open>Workspace lookup and input validation: an error, or the worktree.\<close>

definition locate :: "patch_env \<Rightarrow> patch_call \<Rightarrow> patch_world \<Rightarrow> patch_world \<times> (json + string list)" where
  "locate env ca w =
     (let (w, row) = find_workspace env (ca_workspace ca) w
      in (w, case row of
        None \<Rightarrow> Inl (error_in ca ''WORKSPACE_NOT_FOUND'' (''workspace not found: '' @ ca_workspace ca) [])
      | Some row \<Rightarrow>
          let worktree = path_parts (ws_path row)
          in if \<not> pe_exists env (pw_tree w) worktree
             then Inl (error_in ca ''STALE_WORKSPACE'' (''worktree path missing on disk: '' @ path_text worktree) [])
             else if ca_patch ca = [] \<or> py_strip (ca_patch ca) = []
             then Inl (error_in ca ''INVALID_INPUT'' ''patch must be a non-empty string'' [])
             else if int (length (ca_patch ca)) > max_patch_chars
             then Inl (error_in ca ''INVALID_INPUT'' (''patch exceeds maximum size of '' @ py_str_int max_patch_chars @ '' characters'') [])
             else Inr worktree))"

definition check_head :: "patch_env \<Rightarrow> patch_call \<Rightarrow> string list \<Rightarrow> tree \<Rightarrow> tree \<times> json option" where
  "check_head env ca wt t =
     (case ca_expected_head ca of
        None \<Rightarrow> (t, None)
      | Some expected \<Rightarrow>
          let (t', head) = git_cmd env wt [''git'', ''rev-parse'', ''HEAD''] None t;
              actual = py_strip (out_of head)
          in (t', if exit_of head \<noteq> 0
                  then Some (error_in ca ''INTERNAL_ERROR'' ''could not read workspace HEAD'' [])
                  else if actual \<noteq> expected
                  then Some (error_in ca ''FILE_CHANGED''
                         (''workspace HEAD changed since it was read: expected '' @ take 12 expected @ '', actual '' @ take 12 actual)
                         ([(''expected_head'', JStr expected), (''actual_head'', JStr actual)] @ not_applied ca))
                  else None))"

definition no_headers_message :: string where
  "no_headers_message = ''No unified diff headers found in the input. Expected format: a unified diff with ``---`` and ``+++`` file headers followed by ``@@`` hunk headers.''"

definition join_path :: "string list \<Rightarrow> string \<Rightarrow> string list" where
  "join_path wt p = (if is_absolute p then path_parts p else wt @ path_parts p)"

definition file_sha :: "patch_env \<Rightarrow> tree \<Rightarrow> string list \<Rightarrow> string option" where
  "file_sha env t p = map_option (pe_sha env) (tr_files t p)"

text \<open>The optimistic locks on file contents, in the order of the dict.\<close>

fun check_hashes :: "patch_env \<Rightarrow> patch_call \<Rightarrow> string list \<Rightarrow> tree \<Rightarrow> (string \<times> string) list \<Rightarrow> json option" where
  "check_hashes env ca wt t [] = None"
| "check_hashes env ca wt t ((relative, expected) # items) =
     (let normalised = normalise_header_path relative;
          candidate = pe_resolve env (join_path wt normalised);
          actual = file_sha env t candidate
      in if normalised = dev_null then check_hashes env ca wt t items
         else if \<not> prefix (pe_resolve env wt) candidate
         then Some (error_in ca ''PATH_DENIED'' (''expected_sha256 path escapes workspace: '' @ py_repr relative) (not_applied ca))
         else if actual \<noteq> Some expected
         then Some (error_in ca ''FILE_CHANGED'' (''file changed since it was read: '' @ normalised)
                ([(''path'', JStr normalised), (''expected_sha256'', JStr expected), (''actual_sha256'', opt_str actual)] @ not_applied ca))
         else check_hashes env ca wt t items)"

subsection \<open>The replies\<close>

definition check_syntax :: "patch_call \<Rightarrow> string \<Rightarrow> patch_world \<Rightarrow> patch_reply option" where
  "check_syntax ca stripped w =
     (case validate_unified_diff stripped of
        None \<Rightarrow> None
      | Some d \<Rightarrow>
          Some (logged (ca_op ca) ''apply_patch'' (''patch rejected (format_error): '' @ dg_message d) (ca_workspace ca) False
            (error_result (ca_fresh ca) ''INVALID_INPUT'' ''patch is not a valid unified diff'' (error_defaults\<lparr>eo_extra :=
               [(''error_type'', JStr ''format_error''), (''line'', JInt (int (dg_line d))), (''line_content'', JStr (dg_content d)),
                (''parser_message'', JStr (dg_message d)),
                (''normalized_patch_preview'', JStr (diagnostic_preview stripped (dg_line d) 2)),
                (''workspace_id'', JStr (ca_workspace ca))] @ not_applied ca\<rparr>)) w))"

definition check_paths :: "patch_call \<Rightarrow> string \<Rightarrow> patch_world \<Rightarrow> patch_reply option" where
  "check_paths ca stripped w =
     (case validate_patch_paths stripped of
        Inr _ \<Rightarrow> None
      | Inl e \<Rightarrow> Some (logged (ca_op ca) ''apply_patch'' (''patch rejected: '' @ e) (ca_workspace ca) False
                       (error_in ca ''PATH_DENIED'' e (not_applied ca)) w))"

definition or_else :: "string \<Rightarrow> string \<Rightarrow> string" where
  "or_else a b = (if a = [] then b else a)"

definition git_detail :: "git_reply \<Rightarrow> string \<Rightarrow> string" where
  "git_detail r dflt = or_else (py_strip (err_of r)) (or_else (py_strip (out_of r)) dflt)"

definition check_failed :: "patch_call \<Rightarrow> string \<Rightarrow> git_reply \<Rightarrow> patch_world \<Rightarrow> patch_reply" where
  "check_failed ca stripped r w =
     (let detail = git_detail r ''git apply --check failed (unknown error)'';
          error_type = classify_patch_error detail;
          patch_lines = py_splitlines stripped;
          located = (case search_line_number detail of
              None \<Rightarrow> []
            | Some n \<Rightarrow>
                [(''line'', JInt (int n)),
                 (''line_content'', JStr (if 0 < n \<and> n \<le> length patch_lines then patch_lines ! (n - 1) else [])),
                 (''parser_message'', JStr detail), (''normalized_patch_preview'', JStr (diagnostic_preview stripped n 2))])
      in logged (ca_op ca) ''apply_patch'' (''apply --check failed ('' @ error_type @ ''): '' @ take 200 detail) (ca_workspace ca) False
           (error_in ca ''PATCH_CONFLICT'' ''patch did not apply cleanly''
              ([(''error_type'', JStr error_type), (''check_details'', JStr detail), (''workspace_id'', JStr (ca_workspace ca))]
               @ not_applied ca @ located)) w)"

definition change_json :: "file_change \<Rightarrow> json" where
  "change_json c =
     (case fc_old_path c of
        None \<Rightarrow> JObj [(''path'', JStr (fc_path c)), (''status'', JStr (fc_status c))]
      | Some q \<Rightarrow> JObj [(''path'', JStr (fc_path c)), (''old_path'', JStr q), (''status'', JStr (fc_status c))])"

definition changes_fields :: "string \<Rightarrow> (string \<times> json) list" where
  "changes_fields stripped = [(''changed_files'', JArr (map JStr (extract_changed_files stripped))),
     (''file_changes'', JArr (map change_json (extract_file_changes stripped)))]"

definition ok_in :: "patch_call \<Rightarrow> (string \<times> json) list \<Rightarrow> json" where
  "ok_in ca fs = ok_result (ca_fresh ca)
     (JObj ([(''workspace_id'', JStr (ca_workspace ca)), (''explanation'', JStr (ca_explanation ca))] @ fs))
     (ok_defaults\<lparr>oo_workspace_id := Some (ca_workspace ca)\<rparr>)"

definition check_passed :: "patch_call \<Rightarrow> string \<Rightarrow> patch_world \<Rightarrow> patch_reply" where
  "check_passed ca stripped w =
     logged (ca_op ca) ''apply_patch'' (''check_only passed: '' @ take 100 (ca_explanation ca)) (ca_workspace ca) True
       (ok_in ca ([(''applied'', JBool False), (''check_only'', JBool True), (''check_passed'', JBool True),
          (''check_details'', JStr ''Patch applies cleanly.'')] @ changes_fields stripped)) w"

definition apply_failed :: "patch_call \<Rightarrow> git_reply \<Rightarrow> patch_world \<Rightarrow> patch_reply" where
  "apply_failed ca r w =
     (let detail = git_detail r ''git apply failed (unknown error)''; error_type = classify_patch_error detail
      in logged (ca_op ca) ''apply_patch'' (''apply failed ('' @ error_type @ ''): '' @ take 200 detail) (ca_workspace ca) False
           (error_in ca ''PATCH_CONFLICT'' ''git apply failed''
              ([(''error_type'', JStr error_type), (''apply_details'', JStr detail)] @ not_applied ca)) w)"

text \<open>Run a read-out command on the tree of the world.\<close>

definition observe :: "patch_env \<Rightarrow> string list \<Rightarrow> string list \<Rightarrow> patch_world \<Rightarrow> patch_world \<times> git_reply" where
  "observe env wt cmd w = (let (t, r) = git_cmd env wt cmd None (pw_tree w) in (w\<lparr>pw_tree := t\<rparr>, r))"

definition apply_succeeded :: "patch_env \<Rightarrow> patch_call \<Rightarrow> string list \<Rightarrow> string \<Rightarrow> patch_world \<Rightarrow> patch_reply" where
  "apply_succeeded env ca wt stripped w =
     (let git = git_executable env;
          (w, status) = observe env wt [git, ''status'', ''--short'', ''--branch''] w;
          (w, stat) = observe env wt [git, ''diff'', ''--stat'', ''--no-color''] w;
          (w, diff) = observe env wt [git, ''diff'', ''--no-color''] w;
          files = extract_changed_files stripped
      in logged (ca_op ca) ''apply_patch''
           (''applied patch: '' @ nat_str (length files) @ '' file(s) changed. '' @ take 100 (ca_explanation ca)) (ca_workspace ca) True
           (ok_in ca ([(''applied'', JBool True), (''check_only'', JBool False)] @ changes_fields stripped
              @ [(''change_kind'', JStr (classify_change_kind (out_of stat))), (''diff_stat'', JStr (py_strip (out_of stat))),
                 (''diff'', JStr (py_strip (out_of diff))), (''git_status'', JStr (py_strip (out_of status)))])) w)"

subsection \<open>\<open>_apply_patch\<close>\<close>

text \<open>Dry run, then the application itself, once every guard has passed.\<close>

definition check_and_apply :: "patch_env \<Rightarrow> patch_call \<Rightarrow> string list \<Rightarrow> string \<Rightarrow> patch_world \<Rightarrow> patch_reply" where
  "check_and_apply env ca wt stripped w =
     (let git = git_executable env;
          (t, check) = git_cmd env wt [git, ''apply'', ''--check'', ''--''] (Some stripped) (pw_tree w);
          w = w\<lparr>pw_tree := t\<rparr>
      in if exit_of check \<noteq> 0 then check_failed ca stripped check w
         else if ca_check_only ca then check_passed ca stripped w
         else let (t, applied) = git_cmd env wt [git, ''apply'', ''--''] (Some stripped) (pw_tree w);
                  w = w\<lparr>pw_tree := t\<rparr>
              in if exit_of applied \<noteq> 0 then apply_failed ca applied w
                 else apply_succeeded env ca wt stripped w)"

definition apply_patch :: "patch_env \<Rightarrow> patch_call \<Rightarrow> patch_world \<Rightarrow> patch_reply" where
  "apply_patch env ca w =
     (case locate env ca w of
        (w, Inl e) \<Rightarrow> (w, Inr e)
      | (w, Inr wt) \<Rightarrow>
          let (t, head) = check_head env ca wt (pw_tree w); w = w\<lparr>pw_tree := t\<rparr> in
          case head of Some e \<Rightarrow> (w, Inr e) | None \<Rightarrow>
          let stripped = strip_patch_wrappers (ca_patch ca) in
          if \<not> has_diff_header stripped then (w, Inr (error_in ca ''INVALID_INPUT'' no_headers_message (not_applied ca)))
          else case check_syntax ca stripped w of Some reply \<Rightarrow> reply | None \<Rightarrow>
          case check_paths ca stripped w of Some reply \<Rightarrow> reply | None \<Rightarrow>
          case check_hashes env ca wt (pw_tree w) (case ca_expected_sha ca of None \<Rightarrow> [] | Some items \<Rightarrow> items) of
            Some e \<Rightarrow> (w, Inr e)
          | None \<Rightarrow> check_and_apply env ca wt stripped w)"

subsection \<open>\<open>_replace_text\<close>\<close>

record replace_call =
  rc_workspace :: string
  rc_path :: string
  rc_old :: string
  rc_new :: string
  rc_explanation :: string
  rc_expected_sha :: "string option"
  rc_all :: bool
  rc_op :: string
  rc_fresh :: string
  rc_tmp :: string

definition replace_error :: "replace_call \<Rightarrow> string \<Rightarrow> string \<Rightarrow> (string \<times> json) list \<Rightarrow> json" where
  "replace_error rc code msg extra =
     error_result (rc_fresh rc) code msg (error_defaults\<lparr>eo_workspace_id := Some (rc_workspace rc), eo_extra := extra\<rparr>)"

text \<open>Where the operating system makes the write of the new file fail, with the mode a new file gets.\<close>

datatype io_fault = No_fault | Write_fails string | Chmod_fails | Replace_fails

record io_env =
  io_fault :: io_fault
  io_new_mode :: nat

definition tree_put :: "string list \<Rightarrow> string \<Rightarrow> nat option \<Rightarrow> tree \<Rightarrow> tree" where
  "tree_put p bytes mode t = t\<lparr>tr_files := (tr_files t)(p \<mapsto> bytes), tr_modes := (tr_modes t)(p := mode)\<rparr>"

definition tree_unlink :: "string list \<Rightarrow> tree \<Rightarrow> tree" where
  "tree_unlink p t = t\<lparr>tr_files := (tr_files t)(p := None), tr_modes := (tr_modes t)(p := None)\<rparr>"

definition temporary_name :: "string list \<Rightarrow> string \<Rightarrow> string list" where
  "temporary_name target tmp = butlast target @ [''.'' @ last target @ ''.'' @ tmp @ ''.tmp'']"

text \<open>
  The write to a temporary file, the copy of the mode and the rename; \<open>finally\<close> removes the temporary
  file on every path.
\<close>

definition swap_in :: "io_env \<Rightarrow> string list \<Rightarrow> string list \<Rightarrow> string \<Rightarrow> tree \<Rightarrow> tree \<times> string option" where
  "swap_in io temporary target bytes t =
     (let (t', failed) =
        (case io_fault io of
           Write_fails part \<Rightarrow> (tree_put temporary part (Some (io_new_mode io)) t, Some ''write failed'')
         | fault \<Rightarrow>
             let t1 = tree_put temporary bytes (Some (io_new_mode io)) t in
             if fault = Chmod_fails then (t1, Some ''chmod failed'')
             else let t2 = tree_put temporary bytes (tr_modes t1 target) t1 in
             if fault = Replace_fails then (t2, Some ''replace failed'')
             else (tree_unlink temporary (tree_put target bytes (tr_modes t2 temporary) t2), None))
      in (tree_unlink temporary t', failed))"

definition replace_reply :: "patch_env \<Rightarrow> replace_call \<Rightarrow> string list \<Rightarrow> string list \<Rightarrow> nat \<Rightarrow> string \<Rightarrow> patch_world \<Rightarrow> patch_reply" where
  "replace_reply env rc wt target occurrences sha_before w =
     (let git = git_executable env;
          (w, status) = observe env wt [git, ''status'', ''--short'', ''--branch''] w;
          (w, stat) = observe env wt [git, ''diff'', ''--stat'', ''--no-color''] w;
          (w, diff) = observe env wt [git, ''diff'', ''--no-color'', ''--'', rc_path rc] w
      in logged (rc_op rc) ''replace_text'' (''replaced text in '' @ rc_path rc @ '': '' @ take 100 (rc_explanation rc)) (rc_workspace rc) True
           (ok_result (rc_fresh rc)
              (JObj [(''workspace_id'', JStr (rc_workspace rc)), (''path'', JStr (rc_path rc)),
                 (''replacements'', JInt (if rc_all rc then int occurrences else 1)), (''changed_files'', JArr [JStr (rc_path rc)]),
                 (''file_changes'', JArr [JObj [(''path'', JStr (rc_path rc)), (''status'', JStr ''modified'')]]),
                 (''sha256_before'', JStr sha_before), (''sha256_after'', opt_str (file_sha env (pw_tree w) target)),
                 (''diff_stat'', JStr (py_strip (out_of stat))), (''diff'', JStr (py_strip (out_of diff))),
                 (''git_status'', JStr (py_strip (out_of status)))])
              (ok_defaults\<lparr>oo_workspace_id := Some (rc_workspace rc)\<rparr>)) w)"

text \<open>The guards: an error reply, or the worktree, the target, its content and the number of occurrences.\<close>

definition check_replace :: "patch_env \<Rightarrow> replace_call \<Rightarrow> patch_world \<Rightarrow> patch_world \<times> (json + (string list \<times> string list \<times> string \<times> nat))" where
  "check_replace env rc w =
     (let (w, row) = find_workspace env (rc_workspace rc) w in
      (w, case row of
        None \<Rightarrow> Inl (replace_error rc ''WORKSPACE_NOT_FOUND'' (''workspace not found: '' @ rc_workspace rc) [])
      | Some row \<Rightarrow>
        let wt = path_parts (ws_path row); t = pw_tree w in
        case resolve_within (pe_resolve env) (pe_exists env t) wt (rc_path rc) True of
          Inl e \<Rightarrow> Inl (replace_error rc ''PATH_DENIED'' e [])
        | Inr target \<Rightarrow>
          if is_denied (pe_resolve env) (pe_deny env) target (Some wt)
            then Inl (replace_error rc ''PATH_DENIED'' ''path is denied by policy'' [])
          else case tr_files t target of
            None \<Rightarrow> Inl (replace_error rc ''INVALID_INPUT'' ''path is not a regular file'' [])
          | Some raw \<Rightarrow>
            if rc_old rc = [] then Inl (replace_error rc ''INVALID_INPUT'' ''old_text must be non-empty'' [])
            else if rc_expected_sha rc \<noteq> None \<and> Some (pe_sha env raw) \<noteq> rc_expected_sha rc
            then Inl (replace_error rc ''FILE_CHANGED'' (''file changed since it was read: '' @ rc_path rc)
                   [(''error_type'', JStr ''stale_content''), (''expected_sha256'', opt_str (rc_expected_sha rc)),
                    (''actual_sha256'', JStr (pe_sha env raw)), (''path'', JStr (rc_path rc))])
            else case pe_decode env raw of
              None \<Rightarrow> Inl (replace_error rc ''INVALID_INPUT'' ''file is not valid UTF-8 text'' [])
            | Some content \<Rightarrow>
              let occurrences = py_count (rc_old rc) content in
              if occurrences = 0
              then Inl (replace_error rc ''PATCH_CONFLICT'' ''old_text was not found''
                     [(''error_type'', JStr ''conflict''), (''path'', JStr (rc_path rc))])
              else if occurrences > 1 \<and> \<not> rc_all rc
              then Inl (replace_error rc ''PATCH_CONFLICT'' ''old_text is ambiguous; set replace_all=true or provide more context''
                     [(''error_type'', JStr ''conflict''), (''occurrences'', JInt (int occurrences)), (''path'', JStr (rc_path rc))])
              else Inr (wt, target, content, occurrences)))"

definition replace_text :: "patch_env \<Rightarrow> io_env \<Rightarrow> replace_call \<Rightarrow> patch_world \<Rightarrow> patch_reply" where
  "replace_text env io rc w =
     (case check_replace env rc w of
        (w, Inl e) \<Rightarrow> (w, Inr e)
      | (w, Inr (wt, target, content, occurrences)) \<Rightarrow>
          let sha_before = (case file_sha env (pw_tree w) target of None \<Rightarrow> [] | Some h \<Rightarrow> h);
              updated = py_replace (if rc_all rc then None else Some 1) (rc_old rc) (rc_new rc) content;
              (t, failed) = swap_in io (temporary_name target (rc_tmp rc)) target (pe_encode env updated) (pw_tree w);
              w = w\<lparr>pw_tree := t\<rparr>
          in case failed of
               Some e \<Rightarrow> (w, Inl e)
             | None \<Rightarrow> replace_reply env rc wt target occurrences sha_before w)"

subsection \<open>The tools\<close>

definition lift_world :: "(patch_world \<Rightarrow> patch_reply) \<Rightarrow> patch_world tool_fn" where
  "lift_world f iw = (let (w, r) = f (iw_rest iw) in (iw\<lparr>iw_rest := w\<rparr>, r))"

definition apply_patch_tool ::
  "(json \<Rightarrow> string) \<Rightarrow> patch_env \<Rightarrow> string option \<Rightarrow> patch_call \<Rightarrow> patch_world tool_fn" where
  "apply_patch_tool sha env key ca =
     with_idempotency sha (ca_fresh ca) (pe_now env) key ''apply_patch''
       [(''workspace_id'', JStr (ca_workspace ca)), (''patch_sha256'', JStr (pe_sha env (pe_encode env (ca_patch ca)))),
        (''explanation_sha256'', JStr (pe_sha env (pe_encode env (ca_explanation ca)))),
        (''check_only'', JBool (ca_check_only ca)), (''expected_head'', opt_str (ca_expected_head ca))]
       (lift_world (apply_patch env ca))"

definition replace_text_tool ::
  "(json \<Rightarrow> string) \<Rightarrow> patch_env \<Rightarrow> io_env \<Rightarrow> string option \<Rightarrow> replace_call \<Rightarrow> patch_world tool_fn" where
  "replace_text_tool sha env io key rc =
     with_idempotency sha (rc_fresh rc) (pe_now env) key ''replace_text''
       [(''workspace_id'', JStr (rc_workspace rc)), (''path'', JStr (rc_path rc)),
        (''old_text_sha256'', JStr (pe_sha env (pe_encode env (rc_old rc)))),
        (''new_text_sha256'', JStr (pe_sha env (pe_encode env (rc_new rc)))),
        (''replace_all'', JBool (rc_all rc))]
       (lift_world (replace_text env io rc))"

end
