(* ===== verification/Patcher_Safety.thy ===== *)
theory Patcher_Safety
  imports Patcher
begin

text \<open>
  What the patch tools do to the worktree: \<open>apply_patch\<close> changes it only through a git run that every
  guard and the dry run preceded, \<open>replace_text\<close> replaces exactly the occurrences it counted in
  exactly one file, or nothing.
\<close>

subsection \<open>Splitting at the occurrences\<close>

lemma py_join_cons: "ws \<noteq> [] \<Longrightarrow> py_join sep ((c # w) # ws) = c # py_join sep (w # ws)"
  by (cases ws) simp_all

lemma py_join_Nil_cons: "ws \<noteq> [] \<Longrightarrow> py_join sep ([] # ws) = sep @ py_join sep ws"
  by (cases ws) simp_all

lemma py_join_hd: "py_join sep ((c # w) # ws) = c # py_join sep (w # ws)"
  by (cases ws) simp_all

lemma py_count_steps:
  "py_count old [] = 0"
  "old \<noteq> [] \<Longrightarrow> py_count old (old @ u) = Suc (py_count old u)"
  "old = [] \<or> \<not> prefix old (c # t) \<Longrightarrow> py_count old (c # t) = py_count old t"
  by (auto simp: py_count.simps [of old "[]"] py_count.simps [of old "old @ u"] py_count.simps [of old "c # t"])

lemma py_replace_steps:
  "py_replace m old new [] = []"
  "py_replace (Some 0) old new s = s"
  "old \<noteq> [] \<Longrightarrow> py_replace None old new (old @ u) = new @ py_replace None old new u"
  "old \<noteq> [] \<Longrightarrow> py_replace (Some (Suc n)) old new (old @ u) = new @ py_replace (Some n) old new u"
  "m \<noteq> Some 0 \<Longrightarrow> old = [] \<or> \<not> prefix old (c # t) \<Longrightarrow> py_replace m old new (c # t) = c # py_replace m old new t"
  by (auto simp: py_replace.simps [of m old new "[]"] py_replace.simps [of "Some 0" old new s]
      py_replace.simps [of _ old new "old @ u"] py_replace.simps [of m old new "c # t"])

text \<open>A text is empty, starts with an occurrence, or does not.\<close>

lemma occurrence_cases:
  obtains "s = []" | u where "old \<noteq> []" "s = old @ u" | c t where "s = c # t" "old = [] \<or> \<not> prefix old (c # t)"
  by (cases s) (auto simp: prefix_def)

lemma occurrence_induct [case_names Nil Hit Miss]:
  assumes "P []" "\<And>u. old \<noteq> [] \<Longrightarrow> P u \<Longrightarrow> P (old @ u)"
    "\<And>c t. old = [] \<or> \<not> prefix old (c # t) \<Longrightarrow> P t \<Longrightarrow> P (c # t)"
  shows "P s"
proof (induction s rule: length_induct)
  case (1 s)
  show ?case
    by (rule occurrence_cases [where s = s and old = old]) (use 1 assms in auto)
qed

lemma replace_parts:
  "\<exists>parts. length parts = Suc (py_count old s) \<and> s = py_join old parts \<and> py_replace None old new s = py_join new parts"
proof (induction s rule: occurrence_induct [of _ old])
  case Nil
  then show ?case by (intro exI [of _ "[[]]"]) (simp add: py_count_steps py_replace_steps)
next
  case (Hit u)
  then obtain parts where p: "length parts = Suc (py_count old u)" "u = py_join old parts"
      "py_replace None old new u = py_join new parts" by blast
  then have "parts \<noteq> []" by auto
  with p Hit(1) show ?case
    by (intro exI [of _ "[] # parts"]) (simp add: py_count_steps(2) py_replace_steps(3) py_join_Nil_cons)
next
  case (Miss c t)
  then obtain parts where p: "length parts = Suc (py_count old t)" "t = py_join old parts"
      "py_replace None old new t = py_join new parts" by blast
  then obtain w ws where "parts = w # ws" by (cases parts) auto
  with p Miss(1) show ?case
    by (intro exI [of _ "(c # w) # ws"]) (simp add: py_count_steps(3) py_replace_steps(5) py_join_hd)
qed

lemma replace_none_left: "py_count old s = 0 \<Longrightarrow> py_replace m old new s = s"
  by (induction s arbitrary: m rule: occurrence_induct [of _ old])
    (auto simp: py_count_steps py_replace_steps(1) split: if_splits, (metis py_replace_steps(2,5))+)

lemma replace_single: "py_count old s = 1 \<Longrightarrow> py_replace (Some 1) old new s = py_replace None old new s"
  by (induction s rule: occurrence_induct [of _ old])
    (simp_all add: py_count_steps py_replace_steps replace_none_left)

subsection \<open>Git\<close>

text \<open>
  The documented behaviour of git the tools rely on: only \<open>git apply\<close> without \<open>--check\<close> writes to the
  worktree, and when it ends with a failure code it has written nothing.
\<close>

definition git_atomic :: "patch_env \<Rightarrow> bool" where
  "git_atomic env = (\<forall>wt cmd inp t.
     (cmd \<noteq> [git_executable env, ''apply'', ''--''] \<longrightarrow> fst (pe_proc env wt cmd inp t) = t)
     \<and> (\<forall>c out err. snd (pe_proc env wt cmd inp t) = Ended c out err \<longrightarrow> c \<noteq> 0 \<longrightarrow> fst (pe_proc env wt cmd inp t) = t))"

lemma git_read_tree:
  assumes "git_atomic env" "cmd \<noteq> [git_executable env, ''apply'', ''--'']"
  shows "fst (git_cmd env wt cmd inp t) = t"
  using assms by (simp add: git_atomic_def git_cmd_def run_git_def)

lemma logged_tree [op_frame]: "pw_tree (fst (logged op tool sm ws ok j w)) = pw_tree w"
  by (auto simp: logged_def log_op_def log_operation_def split: sum.splits if_splits)

lemma logged_reply: "snd (logged op tool sm ws ok j w) = Inr r \<Longrightarrow> r = j"
  by (auto simp: logged_def split: sum.splits)

lemma observe_tree [op_frame]:
  assumes "git_atomic env" "cmd \<noteq> [git_executable env, ''apply'', ''--'']"
  shows "pw_tree (fst (observe env wt cmd w)) = pw_tree w"
  using git_read_tree [OF assms] by (simp add: observe_def split: prod.split) (metis fst_conv)

lemma find_workspace_tree [op_frame]: "pw_tree (fst (find_workspace env wid w)) = pw_tree w"
  by (simp add: find_workspace_def split: prod.split)

subsection \<open>\<open>apply_patch\<close>\<close>

definition git_apply :: "patch_env \<Rightarrow> string list \<Rightarrow> string \<Rightarrow> tree \<Rightarrow> tree \<times> git_reply" where
  "git_apply env wt stripped t = git_cmd env wt [git_executable env, ''apply'', ''--''] (Some stripped) t"

definition dry_run :: "patch_env \<Rightarrow> string list \<Rightarrow> string \<Rightarrow> tree \<Rightarrow> tree \<times> git_reply" where
  "dry_run env wt stripped t = git_cmd env wt [git_executable env, ''apply'', ''--check'', ''--''] (Some stripped) t"

text \<open>Everything the tool checks before it lets git write.\<close>

definition all_guards :: "patch_env \<Rightarrow> patch_call \<Rightarrow> string list \<Rightarrow> tree \<Rightarrow> bool" where
  "all_guards env ca wt t =
     (let stripped = strip_patch_wrappers (ca_patch ca) in
      \<not> ca_check_only ca \<and> validate_unified_diff stripped = None \<and> validate_patch_paths stripped = Inr ()
      \<and> (case ca_expected_head ca of None \<Rightarrow> True
         | Some h \<Rightarrow> py_strip (out_of (snd (git_cmd env wt [''git'', ''rev-parse'', ''HEAD''] None t))) = h)
      \<and> list_all (\<lambda>(p, h). normalise_header_path p = dev_null
            \<or> file_sha env t (pe_resolve env (join_path wt (normalise_header_path p))) = Some h)
          (case ca_expected_sha ca of None \<Rightarrow> [] | Some items \<Rightarrow> items)
      \<and> exit_of (snd (dry_run env wt stripped t)) = 0)"

lemma check_hashes_None:
  "check_hashes env ca wt t items = None \<Longrightarrow>
     list_all (\<lambda>(p, h). normalise_header_path p = dev_null
       \<or> file_sha env t (pe_resolve env (join_path wt (normalise_header_path p))) = Some h) items"
  by (induction items) (auto simp: Let_def split: if_splits)

lemma logged_result:
  assumes "logged op tool sm ws ok j w = (w', r)"
  shows "pw_tree w' = pw_tree w" "r = Inr x \<Longrightarrow> x = j"
  using logged_tree [of op tool sm ws ok j w] logged_reply [of op tool sm ws ok j w x] assms by simp_all

lemma observe_result:
  assumes "git_atomic env" "observe env wt (git # ''status'' # args) w = (w1, r1) \<or> observe env wt (git # ''diff'' # args) w = (w1, r1)"
  shows "pw_tree w1 = pw_tree w"
  using assms(2) observe_tree [OF assms(1), of "git # ''status'' # args" wt w] observe_tree [OF assms(1), of "git # ''diff'' # args" wt w]
  by auto

lemma apply_succeeded_result:
  assumes "git_atomic env" "apply_succeeded env ca wt stripped w = (w', r)"
  shows "pw_tree w' = pw_tree w" "r = Inr j \<Longrightarrow> env_ok j"
proof -
  obtain w1 r1 where 1: "observe env wt [git_executable env, ''status'', ''--short'', ''--branch''] w = (w1, r1)" by fastforce
  obtain w2 r2 where 2: "observe env wt [git_executable env, ''diff'', ''--stat'', ''--no-color''] w1 = (w2, r2)" by fastforce
  obtain w3 r3 where 3: "observe env wt [git_executable env, ''diff'', ''--no-color''] w2 = (w3, r3)" by fastforce
  have t: "pw_tree w1 = pw_tree w" "pw_tree w2 = pw_tree w1" "pw_tree w3 = pw_tree w2"
    using observe_result [OF assms(1)] 1 2 3 by blast+
  note out = assms(2) [unfolded apply_succeeded_def Let_def 1 prod.case 2 3]
  from logged_result(1) [OF out] t show "pw_tree w' = pw_tree w" by simp
  show "env_ok j" if "r = Inr j"
    using logged_result(2) [OF out that] by (simp add: ok_in_def)
qed

lemma check_failed_result:
  assumes "check_failed ca stripped c w = (w', r)"
  shows "pw_tree w' = pw_tree w" "r = Inr j \<Longrightarrow> \<not> env_ok j"
  using logged_result [OF assms [unfolded check_failed_def Let_def]] by (simp_all add: error_in_def)

lemma check_passed_result:
  assumes "check_passed ca stripped w = (w', r)"
  shows "pw_tree w' = pw_tree w"
  using logged_result(1) [OF assms [unfolded check_passed_def]] .

lemma apply_failed_result:
  assumes "apply_failed ca a w = (w', r)"
  shows "pw_tree w' = pw_tree w" "r = Inr j \<Longrightarrow> \<not> env_ok j"
  using logged_result [OF assms [unfolded apply_failed_def Let_def]] by (simp_all add: error_in_def)

text \<open>The outcomes of the last stage: nothing written, or written by git after a passed dry run.\<close>

lemma check_and_apply_cases:
  assumes "git_atomic env" "check_and_apply env ca wt stripped w = (w', r)"
  shows "(pw_tree w' = pw_tree w \<and> (\<forall>j. r = Inr j \<longrightarrow> env_ok j \<longrightarrow> ca_check_only ca))
    \<or> (\<not> ca_check_only ca \<and> exit_of (snd (dry_run env wt stripped (pw_tree w))) = 0
       \<and> pw_tree w' = fst (git_apply env wt stripped (pw_tree w))
       \<and> (\<forall>j. r = Inr j \<longrightarrow> (env_ok j \<longleftrightarrow> exit_of (snd (git_apply env wt stripped (pw_tree w))) = 0)))"
proof -
  let ?t = "pw_tree w"
  have "fst (dry_run env wt stripped ?t) = ?t"
    unfolding dry_run_def by (rule git_read_tree [OF assms(1)]) simp
  then obtain c where d: "dry_run env wt stripped ?t = (?t, c)" by (metis prod.collapse)
  obtain t a where g: "git_apply env wt stripped ?t = (t, a)" by fastforce
  note run = assms(2) [unfolded check_and_apply_def Let_def, folded dry_run_def git_apply_def, unfolded d prod.case]
  consider (check) "exit_of c \<noteq> 0" | (only) "exit_of c = 0" "ca_check_only ca"
    | (failed) "exit_of c = 0" "\<not> ca_check_only ca" "exit_of a \<noteq> 0"
    | (applied) "exit_of c = 0" "\<not> ca_check_only ca" "exit_of a = 0" by blast
  then show ?thesis
  proof cases
    case check
    then have "check_failed ca stripped c w = (w', r)" using run by simp
    from check_failed_result [OF this] show ?thesis by blast
  next
    case only
    then have "check_passed ca stripped w = (w', r)" using run by simp
    from check_passed_result [OF this] only show ?thesis by blast
  next
    case failed
    then have "apply_failed ca a (w\<lparr>pw_tree := t\<rparr>) = (w', r)" using run g by (simp add: git_apply_def)
    from apply_failed_result [OF this] failed d g show ?thesis by simp
  next
    case applied
    then have "apply_succeeded env ca wt stripped (w\<lparr>pw_tree := t\<rparr>) = (w', r)" using run g by (simp add: git_apply_def)
    from apply_succeeded_result [OF assms(1) this] applied d g show ?thesis by simp
  qed
qed

lemma locate_result:
  assumes "locate env ca w = (w1, x)"
  shows "pw_tree w1 = pw_tree w"
    and "x = Inr wt \<Longrightarrow> \<exists>row. map_of (pw_workspaces w) (ca_workspace ca) = Some row \<and> wt = path_parts (ws_path row)"
    and "x = Inl e \<Longrightarrow> \<not> env_ok e"
proof -
  obtain w2 row where f: "find_workspace env (ca_workspace ca) w = (w2, row)" by fastforce
  then have "pw_tree w2 = pw_tree w" using find_workspace_tree [of env "ca_workspace ca" w] by simp
  then show "pw_tree w1 = pw_tree w" using assms f by (simp add: locate_def)
  have row: "row = Some rw \<Longrightarrow> map_of (pw_workspaces w) (ca_workspace ca) = Some rw" for rw
    using f by (auto simp: find_workspace_def split: prod.splits dest: get_workspace_row)
  show "\<exists>row. map_of (pw_workspaces w) (ca_workspace ca) = Some row \<and> wt = path_parts (ws_path row)" if "x = Inr wt"
    using assms f row that by (auto simp: locate_def Let_def split: option.splits if_splits)
  show "\<not> env_ok e" if "x = Inl e"
    using assms f that by (auto simp: locate_def Let_def error_in_def split: option.splits if_splits)
qed

lemma check_head_result:
  assumes "git_atomic env" "check_head env ca wt t = (t', h)"
  shows "t' = t" "h = Some e \<Longrightarrow> \<not> env_ok e"
    and "h = None \<Longrightarrow> case ca_expected_head ca of None \<Rightarrow> True
      | Some h \<Rightarrow> py_strip (out_of (snd (git_cmd env wt [''git'', ''rev-parse'', ''HEAD''] None t))) = h"
proof -
  have g: "fst (git_cmd env wt [''git'', ''rev-parse'', ''HEAD''] None t) = t"
    by (rule git_read_tree [OF assms(1)]) simp
  obtain r where "git_cmd env wt [''git'', ''rev-parse'', ''HEAD''] None t = (t, r)" using g by (metis prod.collapse)
  note unf = assms(2) [unfolded check_head_def Let_def this prod.case]
  show "t' = t" "h = Some e \<Longrightarrow> \<not> env_ok e"
    using unf by (auto simp: error_in_def split: option.splits if_splits)
  show "h = None \<Longrightarrow> case ca_expected_head ca of None \<Rightarrow> True
      | Some h \<Rightarrow> py_strip (out_of (snd (git_cmd env wt [''git'', ''rev-parse'', ''HEAD''] None t))) = h"
    using unf \<open>git_cmd env wt [''git'', ''rev-parse'', ''HEAD''] None t = (t, r)\<close>
    by (auto split: option.splits if_splits)
qed

lemma check_syntax_result:
  "check_syntax ca s w = Some (w', r) \<Longrightarrow> pw_tree w' = pw_tree w"
  "check_syntax ca s w = Some (w', Inr j) \<Longrightarrow> \<not> env_ok j"
  "check_syntax ca s w = None \<longleftrightarrow> validate_unified_diff s = None"
proof -
  show "check_syntax ca s w = Some (w', r) \<Longrightarrow> pw_tree w' = pw_tree w"
    by (cases "validate_unified_diff s") (simp_all only: check_syntax_def option.case option.inject option.distinct(1), rule logged_result(1))
  show "check_syntax ca s w = Some (w', Inr j) \<Longrightarrow> \<not> env_ok j"
    by (cases "validate_unified_diff s") (simp_all only: check_syntax_def option.case option.inject option.distinct(1), drule logged_result(2) [OF _ refl], simp)
  show "check_syntax ca s w = None \<longleftrightarrow> validate_unified_diff s = None"
    by (cases "validate_unified_diff s") (simp_all add: check_syntax_def)
qed

lemma check_paths_result:
  "check_paths ca s w = Some (w', r) \<Longrightarrow> pw_tree w' = pw_tree w"
  "check_paths ca s w = Some (w', Inr j) \<Longrightarrow> \<not> env_ok j"
  "check_paths ca s w = None \<longleftrightarrow> validate_patch_paths s = Inr ()"
proof -
  show "check_paths ca s w = Some (w', r) \<Longrightarrow> pw_tree w' = pw_tree w"
    by (cases "validate_patch_paths s") (simp_all only: check_paths_def sum.case option.inject option.distinct(1), rule logged_result(1))
  show "check_paths ca s w = Some (w', Inr j) \<Longrightarrow> \<not> env_ok j"
    by (cases "validate_patch_paths s") (simp_all only: check_paths_def sum.case option.inject option.distinct(1), drule logged_result(2) [OF _ refl], simp add: error_in_def)
  show "check_paths ca s w = None \<longleftrightarrow> validate_patch_paths s = Inr ()"
    by (cases "validate_patch_paths s") (simp_all add: check_paths_def)
qed

lemma check_hashes_error: "check_hashes env ca wt t items = Some e \<Longrightarrow> \<not> env_ok e"
  by (induction items) (auto simp: Let_def error_in_def split: if_splits)

definition reply_ok :: "string + json \<Rightarrow> bool" where
  "reply_ok r = (case r of Inl _ \<Rightarrow> False | Inr j \<Rightarrow> env_ok j)"

lemma reply_ok_Inr [simp]: "reply_ok (Inr j) = env_ok j" "\<not> reply_ok (Inl e)"
  by (simp_all add: reply_ok_def)

lemma guard_chain:
  assumes "(case h of Some e \<Rightarrow> (w, Inr e) | None \<Rightarrow> if \<not> good then early
      else case a of Some reply \<Rightarrow> reply | None \<Rightarrow> case b of Some reply \<Rightarrow> reply | None \<Rightarrow>
        case c of Some e \<Rightarrow> (w, Inr e) | None \<Rightarrow> last_step) = (w', r)"
  shows "h \<noteq> None \<or> \<not> good \<or> (h = None \<and> good \<and> a = Some (w', r)) \<or> (h = None \<and> good \<and> a = None \<and> b = Some (w', r))
    \<or> (\<exists>e. c = Some e \<and> w' = w \<and> r = Inr e) \<or> (h = None \<and> a = None \<and> b = None \<and> c = None \<and> last_step = (w', r))"
  using assms by (auto split: option.splits if_splits)


definition demo_tree :: tree where
  "demo_tree = \<lparr>tr_files = [[''w'', ''f''] \<mapsto> ''b''], tr_modes = [[''w'', ''f''] \<mapsto> 420]\<rparr>"

definition demo_env :: patch_env where
  "demo_env = \<lparr>pe_now = ''t'', pe_exists = (\<lambda>t p. True), pe_resolve = (\<lambda>p. p), pe_sha = (\<lambda>s. s),
     pe_proc = (\<lambda>wt cmd inp t. if cmd = [''git'', ''apply'', ''--''] then (tree_put (wt @ [''f'']) ''c'' (Some 420) t, Ended 0 [] [])
                              else (t, Ended 0 [] [])),
     pe_git_env = None, pe_deny = None, pe_decode = Some, pe_encode = (\<lambda>s. s)\<rparr>"

definition demo_patch_world :: patch_world where
  "demo_patch_world = \<lparr>pw_tree = demo_tree, pw_workspaces = [(''ws-0123abcd'', new_row ''t''
     \<lparr>nw_project = ''p'', nw_task = ''t'', nw_path = ''/w'', nw_base = ''h'', nw_main_head = None, nw_main_sha = None\<rparr>)], pw_ops = []\<rparr>"

definition demo_patch_call :: patch_call where
  "demo_patch_call = \<lparr>ca_workspace = ''ws-0123abcd'', ca_patch = lines_text [''--- a/f'', ''+++ b/f'', ''@@ -1 +1 @@'', ''-b'', ''+c''],
     ca_explanation = ''e'', ca_check_only = False, ca_expected_sha = Some [(''f'', ''b'')], ca_expected_head = None,
     ca_op = ''op'', ca_fresh = ''r''\<rparr>"

lemma demo_env_atomic: "git_atomic demo_env"
  by (auto simp: git_atomic_def demo_env_def git_executable_def)

lemma demo_apply: "tr_files (pw_tree (fst (apply_patch demo_env demo_patch_call demo_patch_world))) [''w'', ''f''] = Some ''c''"
  by code_simp


subsection \<open>\<open>replace_text\<close>\<close>

lemma temporary_differs: "temporary_name target tmp \<noteq> target"
proof
  assume a: "temporary_name target tmp = target"
  then have "last target = ''.'' @ last target @ ''.'' @ tmp @ ''.tmp''" by (metis last_snoc temporary_name_def)
  then have "length (last target) = length (''.'' @ last target @ ''.'' @ tmp @ ''.tmp'')" by metis
  then show False by simp
qed

text \<open>The swap either restores the tree or changes the content of the target alone.\<close>

lemma swap_in_atomic:
  assumes "temporary \<noteq> target" "tr_files t temporary = None" "tr_modes t temporary = None"
  shows "swap_in io temporary target bytes t = (t', failed) \<Longrightarrow>
    (if failed = None then t' = t\<lparr>tr_files := (tr_files t)(target \<mapsto> bytes)\<rparr> else t' = t)"
  using assms
  by (cases "io_fault io") (auto simp: swap_in_def Let_def tree_put_def tree_unlink_def intro!: tree.equality ext)

lemma check_replace_result:
  assumes "check_replace env rc w = (w1, x)"
  shows "pw_tree w1 = pw_tree w"
    and "x = Inl e \<Longrightarrow> \<not> env_ok e"
    and "x = Inr (wt, target, content, n) \<Longrightarrow> \<exists>row raw. map_of (pw_workspaces w) (rc_workspace rc) = Some row
      \<and> wt = path_parts (ws_path row) \<and> prefix (pe_resolve env wt) target
      \<and> \<not> is_denied (pe_resolve env) (pe_deny env) target (Some wt) \<and> tr_files (pw_tree w) target = Some raw
      \<and> (rc_expected_sha rc = None \<or> rc_expected_sha rc = Some (pe_sha env raw)) \<and> pe_decode env raw = Some content
      \<and> n = py_count (rc_old rc) content \<and> n \<noteq> 0 \<and> (rc_all rc \<or> n = 1)"
proof -
  obtain w2 row where f: "find_workspace env (rc_workspace rc) w = (w2, row)" by fastforce
  then have t: "pw_tree w2 = pw_tree w" using find_workspace_tree [of env "rc_workspace rc" w] by simp
  have row: "row = Some rw \<Longrightarrow> map_of (pw_workspaces w) (rc_workspace rc) = Some rw" for rw
    using f by (auto simp: find_workspace_def split: prod.splits dest: get_workspace_row)
  note unf = assms [unfolded check_replace_def f prod.case Let_def t]
  then have "w1 = w2" by simp
  with t show "pw_tree w1 = pw_tree w" by simp
  show "\<not> env_ok e" if "x = Inl e"
    using unf that by (auto simp: replace_error_def simp del: error_result_def split: option.splits sum.splits if_splits)
  show "\<exists>row raw. map_of (pw_workspaces w) (rc_workspace rc) = Some row
      \<and> wt = path_parts (ws_path row) \<and> prefix (pe_resolve env wt) target
      \<and> \<not> is_denied (pe_resolve env) (pe_deny env) target (Some wt) \<and> tr_files (pw_tree w) target = Some raw
      \<and> (rc_expected_sha rc = None \<or> rc_expected_sha rc = Some (pe_sha env raw)) \<and> pe_decode env raw = Some content
      \<and> n = py_count (rc_old rc) content \<and> n \<noteq> 0 \<and> (rc_all rc \<or> n = 1)" if "x = Inr (wt, target, content, n)"
    using unf that row by (auto split: option.splits sum.splits if_splits dest: resolve_within_inside)
qed

lemma replace_reply_result:
  assumes "git_atomic env" "replace_reply env rc wt target n sha w = (w', r)"
  shows "pw_tree w' = pw_tree w" "r = Inr j \<Longrightarrow> env_ok j"
proof -
  obtain w1 r1 where 1: "observe env wt [git_executable env, ''status'', ''--short'', ''--branch''] w = (w1, r1)" by fastforce
  obtain w2 r2 where 2: "observe env wt [git_executable env, ''diff'', ''--stat'', ''--no-color''] w1 = (w2, r2)" by fastforce
  obtain w3 r3 where 3: "observe env wt [git_executable env, ''diff'', ''--no-color'', ''--'', rc_path rc] w2 = (w3, r3)" by fastforce
  have t: "pw_tree w1 = pw_tree w" "pw_tree w2 = pw_tree w1" "pw_tree w3 = pw_tree w2"
    using observe_result [OF assms(1)] 1 2 3 by blast+
  note out = assms(2) [unfolded replace_reply_def Let_def 1 prod.case 2 3]
  from logged_result(1) [OF out] t show "pw_tree w' = pw_tree w" by simp
  show "env_ok j" if "r = Inr j"
    using logged_result(2) [OF out that] by simp
qed


definition demo_replace :: replace_call where
  "demo_replace = \<lparr>rc_workspace = ''ws-0123abcd'', rc_path = ''f'', rc_old = ''b'', rc_new = ''xy'', rc_explanation = ''e'',
     rc_expected_sha = Some ''b'', rc_all = False, rc_op = ''op'', rc_fresh = ''r'', rc_tmp = ''0''\<rparr>"

lemma demo_replaced:
  "tr_files (pw_tree (fst (replace_text demo_env \<lparr>io_fault = No_fault, io_new_mode = 384\<rparr> demo_replace demo_patch_world))) [''w'', ''f''] = Some ''xy''"
  by code_simp


end
