(* ===== verification/Step_Runs.thy ===== *)
theory Step_Runs
  imports Op_Prelude
begin

text \<open>
  Sequencing of steps on a state that may raise: an exception stops the run in the state reached.
  \<open>finally_do\<close> runs its second step on every path, \<open>on_error\<close> handles an exception in the state it
  left.  The second half states what it means that a run keeps a relation between states, with one
  introduction rule per way of composing runs.
\<close>

named_theorems step_frame "introduction rules for what a run keeps"

type_synonym ('s, 'e, 'a) step = "'s \<Rightarrow> 's \<times> ('e + 'a)"

definition done_with :: "'a \<Rightarrow> ('s, 'e, 'a) step" where
  "done_with x w = (w, Inr x)"

definition raise_error :: "'e \<Rightarrow> ('s, 'e, 'a) step" where
  "raise_error e w = (w, Inl e)"

definition and_then :: "('s, 'e, 'a) step \<Rightarrow> ('a \<Rightarrow> ('s, 'e, 'b) step) \<Rightarrow> ('s, 'e, 'b) step" where
  "and_then m f w = (case m w of (w', Inl e) \<Rightarrow> (w', Inl e) | (w', Inr x) \<Rightarrow> f x w')"

definition check_that :: "bool \<Rightarrow> 'e \<Rightarrow> ('s, 'e, unit) step" where
  "check_that b e = (if b then done_with () else raise_error e)"

definition modify :: "('s \<Rightarrow> 's) \<Rightarrow> ('s, 'e, unit) step" where
  "modify f w = (f w, Inr ())"

definition finally_do :: "('s, 'e, 'a) step \<Rightarrow> ('s \<Rightarrow> 's) \<Rightarrow> ('s, 'e, 'a) step" where
  "finally_do m f w = (let (w', r) = m w in (f w', r))"

definition on_error :: "('s, 'e, 'a) step \<Rightarrow> ('e \<Rightarrow> ('s, 'e, 'a) step) \<Rightarrow> ('s, 'e, 'a) step" where
  "on_error m h w = (case m w of (w', Inl e) \<Rightarrow> h e w' | (w', Inr x) \<Rightarrow> (w', Inr x))"

fun for_each :: "('a \<Rightarrow> ('s, 'e, unit) step) \<Rightarrow> 'a list \<Rightarrow> ('s, 'e, unit) step" where
  "for_each f [] = done_with ()"
| "for_each f (x # xs) = and_then (f x) (\<lambda>_. for_each f xs)"

fun map_each :: "('a \<Rightarrow> ('s, 'e, 'b) step) \<Rightarrow> 'a list \<Rightarrow> ('s, 'e, 'b list) step" where
  "map_each f [] = done_with []"
| "map_each f (x # xs) = and_then (f x) (\<lambda>y. and_then (map_each f xs) (\<lambda>ys. done_with (y # ys)))"

lemma and_then_Inr: "and_then m f w = (w', Inr y) \<longleftrightarrow> (\<exists>w1 x. m w = (w1, Inr x) \<and> f x w1 = (w', Inr y))"
  by (auto simp: and_then_def split: prod.splits sum.splits)

lemma and_then_Inl:
  "and_then m f w = (w', Inl e) \<longleftrightarrow> m w = (w', Inl e) \<or> (\<exists>w1 x. m w = (w1, Inr x) \<and> f x w1 = (w', Inl e))"
  by (auto simp: and_then_def split: prod.splits sum.splits)

lemma and_thenE:
  assumes "and_then m f w = (w', r)"
  obtains (raised) e where "m w = (w', Inl e)" "r = Inl e" | (went_on) w1 x where "m w = (w1, Inr x)" "f x w1 = (w', r)"
  using assms by (auto simp: and_then_def split: prod.splits sum.splits)

lemma on_errorE:
  assumes "on_error m h w = (w', r)"
  obtains (fine) x where "m w = (w', Inr x)" "r = Inr x" | (caught) w1 e where "m w = (w1, Inl e)" "h e w1 = (w', r)"
  using assms by (auto simp: on_error_def split: prod.splits sum.splits)

lemma step_simps [simp]:
  "done_with x w = (w', r) \<longleftrightarrow> w' = w \<and> r = Inr x"
  "raise_error e w = (w', r) \<longleftrightarrow> w' = w \<and> r = Inl e"
  "check_that b e w = (w', u) \<longleftrightarrow> w' = w \<and> u = (if b then Inr () else Inl e)"
  "modify g w = (w', u) \<longleftrightarrow> w' = g w \<and> u = Inr ()"
  by (auto simp: done_with_def raise_error_def check_that_def modify_def)

text \<open>A relation between states that every step of a run keeps, reflexively and transitively.\<close>

definition keeps :: "('s \<Rightarrow> 's \<Rightarrow> bool) \<Rightarrow> ('s, 'e, 'a) step \<Rightarrow> bool" where
  "keeps R m = (\<forall>w. R w (fst (m w)))"

lemma keepsD: "keeps R m \<Longrightarrow> m w = (w', r) \<Longrightarrow> R w w'"
  unfolding keeps_def by (metis fst_conv)

lemma keeps_simple [intro]:
  assumes "reflp R"
  shows "keeps R (done_with x)" "keeps R (raise_error e)" "keeps R (check_that b e')"
  using reflpD [OF assms] by (simp_all add: keeps_def done_with_def raise_error_def check_that_def)

lemma keeps_and_then [intro]:
  assumes "transp R" "keeps R m" "\<And>x. keeps R (f x)"
  shows "keeps R (and_then m f)"
  unfolding keeps_def and_then_def
proof
  fix w
  obtain w1 r where m: "m w = (w1, r)" by fastforce
  have 1: "R w w1" using keepsD [OF assms(2) m] .
  show "R w (fst (case m w of (w', Inl e) \<Rightarrow> (w', Inl e) | (w', Inr x) \<Rightarrow> f x w'))"
  proof (cases r)
    case (Inr x)
    have "R w1 (fst (f x w1))" using assms(3) [of x] by (simp add: keeps_def)
    with 1 show ?thesis using m Inr transpD [OF assms(1)] by fastforce
  qed (use m 1 in simp)
qed

lemma keeps_modify [intro]: "(\<And>w. R w (g w)) \<Longrightarrow> keeps R (modify g)"
  by (simp add: keeps_def modify_def)

lemma keeps_finally [intro]:
  assumes "transp R" "keeps R m" "\<And>w. R w (g w)"
  shows "keeps R (finally_do m g)"
  using assms unfolding keeps_def finally_do_def by (auto simp: split: prod.split dest: transpD) (metis fst_conv transpD)

lemma keeps_for_each [intro]: "reflp R \<Longrightarrow> transp R \<Longrightarrow> (\<And>x. keeps R (f x)) \<Longrightarrow> keeps R (for_each f xs)"
  by (induction xs) auto

lemma keeps_map_each [intro]: "reflp R \<Longrightarrow> transp R \<Longrightarrow> (\<And>x. keeps R (f x)) \<Longrightarrow> keeps R (map_each f xs)"
  by (induction xs) auto

text \<open>A part of the state that a run does not change.\<close>

definition same :: "('s \<Rightarrow> 'f) \<Rightarrow> 's \<Rightarrow> 's \<Rightarrow> bool" where
  "same f w w' = (f w' = f w)"

lemma same_preorder [simp]: "reflp (same f)" "transp (same f)"
  by (auto simp: same_def reflp_def transp_def)

lemma keeps_sameD: "keeps (same f) m \<Longrightarrow> m w = (w', r) \<Longrightarrow> f w' = f w"
  using keepsD [of "same f" m w w' r] by (simp add: same_def)

lemma keeps_same_steps [step_frame]:
  "keeps (same f) (done_with x)" "keeps (same f) (raise_error e)" "keeps (same f) (check_that b e')"
  by (rule keeps_simple, simp)+

lemma keeps_same_and_then [step_frame]:
  "keeps (same f) m \<Longrightarrow> (\<And>x. keeps (same f) (g x)) \<Longrightarrow> keeps (same f) (and_then m g)"
  by (rule keeps_and_then) simp_all

text \<open>Where the first step's value is known to satisfy \<open>P\<close>.\<close>

lemma keeps_same_and_then_when:
  assumes "keeps (same f) m" "\<And>w w' x. m w = (w', Inr x) \<Longrightarrow> P x" "\<And>x. P x \<Longrightarrow> keeps (same f) (g x)"
  shows "keeps (same f) (and_then m g)"
  unfolding keeps_def
proof
  fix w
  obtain w' r where run: "and_then m g w = (w', r)" by fastforce
  then have "f w' = f w"
  proof (cases rule: and_thenE)
    case (raised e)
    then show ?thesis using keeps_sameD [OF assms(1)] by simp
  next
    case (went_on w1 x)
    then show ?thesis
      using keeps_sameD [OF assms(1) went_on(1)] keeps_sameD [OF assms(3) [OF assms(2) [OF went_on(1)]] went_on(2)] by simp
  qed
  then show "same f w (fst (and_then m g w))" using run by (simp add: same_def)
qed

lemma keeps_same_modify [step_frame]: "(\<And>w. f (g w) = f w) \<Longrightarrow> keeps (same f) (modify g)"
  by (rule keeps_modify) (simp add: same_def)

lemma keeps_same_finally [step_frame]:
  "keeps (same f) m \<Longrightarrow> (\<And>w. f (g w) = f w) \<Longrightarrow> keeps (same f) (finally_do m g)"
  by (rule keeps_finally) (simp_all add: same_def)

lemma keeps_same_for_each [step_frame]: "(\<And>x. keeps (same f) (g x)) \<Longrightarrow> keeps (same f) (for_each g xs)"
  by (rule keeps_for_each) simp_all

lemma keeps_same_map_each [step_frame]: "(\<And>x. keeps (same f) (g x)) \<Longrightarrow> keeps (same f) (map_each g xs)"
  by (rule keeps_map_each) simp_all

lemma keeps_same_on_error [step_frame]:
  assumes "keeps (same f) m" "\<And>e. keeps (same f) (h e)"
  shows "keeps (same f) (on_error m h)"
  unfolding keeps_def on_error_def
proof
  fix w
  obtain w1 r where m: "m w = (w1, r)" by fastforce
  have 1: "f w1 = f w" using keeps_sameD [OF assms(1) m] .
  have "f (fst (h e w1)) = f w1" for e using assms(2) [of e] by (simp add: keeps_def same_def)
  then show "same f w (fst (case m w of (w', Inl e) \<Rightarrow> h e w' | (w', Inr x) \<Rightarrow> (w', Inr x)))"
    using m 1 by (cases r) (simp_all add: same_def)
qed

text \<open>How a run ends that starts in a state \<open>w\<close> with \<open>f w = t\<close>, where all but the last step keep \<open>f\<close>.\<close>

definition ends :: "('s \<Rightarrow> 'f) \<Rightarrow> 'f \<Rightarrow> ('s \<Rightarrow> 'e + 'a \<Rightarrow> bool) \<Rightarrow> ('s, 'e, 'a) step \<Rightarrow> bool" where
  "ends f t Q m = (\<forall>w w' r. f w = t \<longrightarrow> m w = (w', r) \<longrightarrow> Q w' r)"

lemma endsD: "ends f t Q m \<Longrightarrow> f w = t \<Longrightarrow> m w = (w', r) \<Longrightarrow> Q w' r"
  by (simp add: ends_def)

lemma ends_and_then_when:
  assumes "\<And>w e. f w = t \<Longrightarrow> Q w (Inl e)" "keeps (same f) m" "\<And>w w1 x. f w = t \<Longrightarrow> m w = (w1, Inr x) \<Longrightarrow> P x"
    and "\<And>x. P x \<Longrightarrow> ends f t Q (g x)"
  shows "ends f t Q (and_then m g)"
  unfolding ends_def
proof (intro allI impI)
  fix w w' r
  assume start: "f w = t" and "and_then m g w = (w', r)"
  from this(2) show "Q w' r"
  proof (cases rule: and_thenE)
    case (raised e)
    then show ?thesis using assms(1) [of w' e] keeps_sameD [OF assms(2) raised(1)] start by simp
  next
    case (went_on w1 x)
    then show ?thesis
      using endsD [OF assms(4) [OF assms(3) [OF start went_on(1)]] _ went_on(2)] keeps_sameD [OF assms(2) went_on(1)] start by simp
  qed
qed

lemmas ends_and_then = ends_and_then_when [where P = "\<lambda>_. True", OF _ _ TrueI, simplified]

end
