(* ===== verification/Local_Disk.thy ===== *)
theory Local_Disk
  imports Path_Guard Step_Runs
begin

text \<open>
  The files of the machine as the services use them: a finite map from absolute paths to bytes and
  mode, the set of directories, and the JSON documents the services write next to them
  (\<open>json.dump\<close> and \<open>json.loads\<close> are inverse, so a document is its value).  An operation of the
  operating system can fail; which ones do is a parameter \<open>io\<close> of the operations that write.
\<close>

type_synonym path = "string list"
type_synonym disk = "(path, string \<times> nat) dict"

definition disk_bytes :: "disk \<Rightarrow> path \<Rightarrow> string option" where
  "disk_bytes d p = map_option fst (map_of d p)"

definition disk_mode :: "disk \<Rightarrow> path \<Rightarrow> nat" where
  "disk_mode d p = (case map_of d p of None \<Rightarrow> 0 | Some f \<Rightarrow> snd f)"

definition is_file :: "disk \<Rightarrow> path \<Rightarrow> bool" where
  "is_file d p = (map_of d p \<noteq> None)"

definition put_file :: "path \<Rightarrow> string \<times> nat \<Rightarrow> disk \<Rightarrow> disk" where
  "put_file p f d = AList.update p f d"

definition unlink :: "path \<Rightarrow> disk \<Rightarrow> disk" where
  "unlink p d = AList.delete p d"

text \<open>\<open>shutil.rmtree(dir, ignore_errors=True)\<close>, \<open>shutil.copytree(src, dst)\<close> and \<open>path.rglob\<close>.\<close>

definition below :: "path \<Rightarrow> path \<Rightarrow> bool" where
  "below dir p = prefix dir p"

definition files_below :: "path \<Rightarrow> disk \<Rightarrow> disk" where
  "files_below dir d = filter (\<lambda>e. below dir (fst e)) d"

definition remove_tree :: "path \<Rightarrow> disk \<Rightarrow> disk" where
  "remove_tree dir d = filter (\<lambda>e. \<not> below dir (fst e)) d"

definition copy_tree :: "path \<Rightarrow> path \<Rightarrow> disk \<Rightarrow> disk" where
  "copy_tree src dst d = d @ map (\<lambda>e. (dst @ drop (length src) (fst e), snd e)) (files_below src d)"

definition move_tree :: "path \<Rightarrow> path \<Rightarrow> disk \<Rightarrow> disk" where
  "move_tree src dst d = map (\<lambda>e. if below src (fst e) then (dst @ drop (length src) (fst e), snd e) else e) d"

definition directory_size :: "path \<Rightarrow> disk \<Rightarrow> nat" where
  "directory_size dir d = sum_list (map (\<lambda>e. length (fst (snd e))) (files_below dir d))"

definition file_count :: "path \<Rightarrow> disk \<Rightarrow> nat" where
  "file_count dir d = length (files_below dir d)"

subsection \<open>Facts\<close>

lemma map_of_filter_key: "map_of (filter (\<lambda>e. P (fst e)) d) k = (if P k then map_of d k else None)"
  by (induction d) auto

lemma map_of_remove_tree: "map_of (remove_tree dir d) p = (if below dir p then None else map_of d p)"
  using map_of_filter_key [of "\<lambda>k. \<not> below dir k" d p] by (simp add: remove_tree_def)

lemma map_of_files_below: "map_of (files_below dir d) p = (if below dir p then map_of d p else None)"
  using map_of_filter_key [of "below dir" d p] by (simp add: files_below_def)

lemma map_of_shifted:
  "map_of (map (\<lambda>e. (dst @ drop (length src) (fst e), snd e)) (files_below src d)) (dst @ q) = map_of d (src @ q)"
  by (induction d) (auto simp: files_below_def below_def prefix_def, metis)

lemma map_of_shifted_outside:
  "\<not> below dst p \<Longrightarrow> map_of (map (\<lambda>e. (dst @ drop (length src) (fst e), snd e)) (files_below src d)) p = None"
  by (induction d) (auto simp: files_below_def below_def)

lemma map_of_copy_tree:
  "files_below dst d = [] \<Longrightarrow>
     map_of (copy_tree src dst d) p = (if below dst p then map_of d (src @ drop (length dst) p) else map_of d p)"
  using map_of_files_below [of dst d p] map_of_shifted [of dst src d "drop (length dst) p"]
    map_of_shifted_outside [of dst p src d]
  by (auto simp: copy_tree_def map_add_def below_def prefix_def split: option.splits)

end
