(* ===== verification/Change_Set_Data.thy ===== *)
theory Change_Set_Data
  imports Patcher Local_Disk
begin

text \<open>
  The data of \<open>app/services/change_set_store.py\<close> and its Git plumbing: the three tables, the
  directories of the change sets, the temporary index, tree listings and manifests.  The git
  program (with its object store), tar decoding, hashing, UTF-8, ISO dates and path resolution
  are parameters; every \<open>git\<close> call of the code is a call of \<open>ce_proc\<close> with the code's arguments.
\<close>

subsection \<open>Tables and state\<close>

definition active_statuses :: "string list" where
  "active_statuses = [''open'', ''validated'', ''committing'', ''recovery_required'']"

definition terminal_statuses :: "string list" where
  "terminal_statuses = [''committed'', ''rolled_back'', ''expired'']"

datatype cs_error = Change_set_error string string "(string \<times> json) list" | Other_error string

record cs_row =
  cr_workspace :: string
  cr_explanation :: string
  cr_status :: string
  cr_revision :: int
  cr_base_head :: string
  cr_before :: string
  cr_staged :: "string option"
  cr_validated :: "string option"
  cr_after :: "string option"
  cr_phase :: "string option"
  cr_error_code :: "string option"
  cr_error_message :: "string option"
  cr_created :: string
  cr_updated :: string
  cr_validated_at :: "string option"
  cr_committed_at :: "string option"
  cr_closed_at :: "string option"
  cr_expires :: string

record cs_op =
  co_set :: string
  co_id :: string
  co_ordinal :: nat
  co_type :: string
  co_input :: string
  co_payload_ref :: string
  co_created :: string
  co_result :: json

record cs_file =
  cf_path :: string
  cf_type :: string
  cf_before_exists :: bool
  cf_before_sha :: "string option"
  cf_before_mode :: "int option"
  cf_after_exists :: bool
  cf_after_sha :: "string option"
  cf_after_mode :: "int option"

record cs_world =
  cw_disk :: disk
  cw_dirs :: "path list"
  cw_docs :: "(path, json) dict"
  cw_sets :: "(string, cs_row) dict"
  cw_ops :: "cs_op list"
  cw_files :: "(string \<times> cs_file) list"
  cw_workspaces :: workspace_table

type_synonym 'a cs_step = "(cs_world, cs_error, 'a) step"

record cs_config =
  ck_enabled :: bool
  ck_ttl_hours :: int
  ck_max_operations :: int
  ck_max_changed_files :: int
  ck_max_staging_bytes :: int
  ck_max_patch_chars :: int
  ck_retain_hours :: int

record git_call =
  gc_cwd :: path
  gc_args :: "string list"
  gc_work_tree :: "path option"
  gc_index :: "path option"
  gc_input :: "string option"

record git_exit =
  ge_code :: int
  ge_out :: string
  ge_err :: string

datatype tar_kind = Tar_file | Tar_dir | Tar_link | Tar_other

record tar_member =
  tm_name :: string
  tm_kind :: tar_kind
  tm_data :: string
  tm_mode :: nat

text \<open>
  \<open>ce_uuid\<close> is the fresh identifier of a call, one per purpose; \<open>ce_io\<close> says which paths the
  operating system lets the service write; \<open>ce_time\<close> and \<open>ce_iso\<close> are \<open>datetime.fromisoformat\<close> and
  \<open>isoformat\<close> in seconds.
\<close>

record cs_env =
  ce_root :: path
  ce_proc :: "git_call \<Rightarrow> disk \<Rightarrow> disk \<times> (string + git_exit)"
  ce_resolve :: "path \<Rightarrow> path"
  ce_symlink :: "disk \<Rightarrow> path \<Rightarrow> bool"
  ce_untar :: "string \<Rightarrow> tar_member list"
  ce_sha :: "string \<Rightarrow> string"
  ce_json_sha :: "json \<Rightarrow> string"
  ce_text :: "string \<Rightarrow> string"
  ce_decode :: "string \<Rightarrow> string option"
  ce_encode :: "string \<Rightarrow> string"
  ce_deny :: "string list option"
  ce_cfg :: cs_config
  ce_now :: int
  ce_iso :: "int \<Rightarrow> string"
  ce_time :: "string \<Rightarrow> int"
  ce_uuid :: "string \<Rightarrow> string"
  ce_io :: "path \<Rightarrow> bool"

definition now_iso :: "cs_env \<Rightarrow> string" where
  "now_iso env = ce_iso env (ce_now env)"

definition cs_fail :: "string \<Rightarrow> string \<Rightarrow> 'a cs_step" where
  "cs_fail code msg = raise_error (Change_set_error code msg [])"

definition cs_check :: "bool \<Rightarrow> string \<Rightarrow> string \<Rightarrow> unit cs_step" where
  "cs_check b code msg = check_that b (Change_set_error code msg [])"

definition read_world :: "(cs_world \<Rightarrow> 'a) \<Rightarrow> 'a cs_step" where
  "read_world f w = (w, Inr (f w))"

definition the_or :: "cs_error \<Rightarrow> 'a option \<Rightarrow> 'a cs_step" where
  "the_or e x = (case x of None \<Rightarrow> raise_error e | Some y \<Rightarrow> done_with y)"

subsection \<open>Directories, documents and the disk\<close>

text \<open>\<open>str.isalnum\<close> below code point 256.\<close>

definition alnum_char :: "char \<Rightarrow> bool" where
  "alnum_char c = (let n = char_code c in (48 \<le> n \<and> n \<le> 57) \<or> (65 \<le> n \<and> n \<le> 90) \<or> (97 \<le> n \<and> n \<le> 122)
     \<or> n \<in> {170, 178, 179, 181, 185, 186, 188, 189, 190} \<or> (192 \<le> n \<and> n \<noteq> 215 \<and> n \<noteq> 247))"

definition directory_of :: "cs_env \<Rightarrow> string \<Rightarrow> path cs_step" where
  "directory_of env csid =
     (let rest = drop 3 csid; candidate = ce_resolve env (ce_root env @ [csid]) in
      if \<not> py_startswith csid ''cs_'' \<or> rest = [] \<or> \<not> list_all alnum_char rest
         \<or> \<not> prefix (ce_resolve env (ce_root env)) candidate
      then cs_fail ''CHANGE_SET_NOT_FOUND'' ''change set not found'' else done_with candidate)"

definition add_dirs :: "path list \<Rightarrow> cs_world \<Rightarrow> cs_world" where
  "add_dirs ps w = w\<lparr>cw_dirs := ps @ cw_dirs w\<rparr>"

definition remove_dir :: "path \<Rightarrow> cs_world \<Rightarrow> cs_world" where
  "remove_dir p w = w\<lparr>cw_disk := remove_tree p (cw_disk w), cw_dirs := filter (\<lambda>d. \<not> below p d) (cw_dirs w),
     cw_docs := filter (\<lambda>e. \<not> below p (fst e)) (cw_docs w)\<rparr>"

definition on_disk :: "(disk \<Rightarrow> disk) \<Rightarrow> cs_world \<Rightarrow> cs_world" where
  "on_disk f w = w\<lparr>cw_disk := f (cw_disk w)\<rparr>"

definition io_check :: "cs_env \<Rightarrow> path \<Rightarrow> unit cs_step" where
  "io_check env p = check_that (ce_io env p) (Other_error ''OSError'')"

text \<open>\<open>_write_json\<close> writes a temporary file and renames it, so the document changes as a whole or not at all.\<close>

definition write_json :: "cs_env \<Rightarrow> path \<Rightarrow> json \<Rightarrow> unit cs_step" where
  "write_json env p v =
     and_then (io_check env p) (\<lambda>_.
     modify (\<lambda>w. (add_dirs [butlast p] w)\<lparr>cw_docs := AList.update p v (cw_docs w)\<rparr>))"

definition write_bytes :: "cs_env \<Rightarrow> path \<Rightarrow> string \<Rightarrow> unit cs_step" where
  "write_bytes env p b = and_then (io_check env p) (\<lambda>_. modify (on_disk (put_file p (b, 420))))"

subsection \<open>Git\<close>

definition git_failure :: "git_exit \<Rightarrow> string \<Rightarrow> string" where
  "git_failure r dflt = (let detail = py_strip (if ge_err r = [] then ge_out r else ge_err r)
     in if detail = [] then dflt else detail)"

definition git_run_in :: "cs_env \<Rightarrow> git_call \<Rightarrow> git_exit cs_step" where
  "git_run_in env call w =
     (case ce_proc env call (cw_disk w) of
        (d, Inl e) \<Rightarrow> (w\<lparr>cw_disk := d\<rparr>, Inl (Other_error e))
      | (d, Inr r) \<Rightarrow> (w\<lparr>cw_disk := d\<rparr>, Inr r))"

definition git_checked :: "cs_env \<Rightarrow> git_call \<Rightarrow> git_exit cs_step" where
  "git_checked env call =
     and_then (git_run_in env call) (\<lambda>r.
       if ge_code r \<noteq> 0 then cs_fail ''CHANGE_SET_VALIDATION_FAILED'' (git_failure r ''Git operation failed'')
       else done_with r)"

definition plain_call :: "path \<Rightarrow> string list \<Rightarrow> git_call" where
  "plain_call repo args = \<lparr>gc_cwd = repo, gc_args = args, gc_work_tree = None, gc_index = None, gc_input = None\<rparr>"

definition workspace_of :: "string \<Rightarrow> (workspace_row \<times> path) cs_step" where
  "workspace_of wid w =
     (case map_of (cw_workspaces w) wid of
        None \<Rightarrow> (w, Inl (Change_set_error ''WORKSPACE_NOT_FOUND'' (''workspace not found: '' @ wid) []))
      | Some row \<Rightarrow>
          let p = path_parts (ws_path row) in
          if p \<notin> set (cw_dirs w) then (w, Inl (Change_set_error ''STALE_WORKSPACE'' ''workspace directory is missing'' []))
          else (w, Inr (row, p)))"

definition unfinished_markers :: "string list" where
  "unfinished_markers = [''MERGE_HEAD'', ''CHERRY_PICK_HEAD'', ''REVERT_HEAD'', ''BISECT_LOG'', ''rebase-apply'', ''rebase-merge'']"

definition path_exists :: "cs_world \<Rightarrow> path \<Rightarrow> bool" where
  "path_exists w p = (is_file (cw_disk w) p \<or> p \<in> set (cw_dirs w))"

text \<open>What \<open>os.walk\<close> lists below the repository once directories named \<open>.git\<close> are pruned.\<close>

definition walked :: "path \<Rightarrow> cs_world \<Rightarrow> path list" where
  "walked repo w =
     (let rel = (\<lambda>p. drop (length repo) p) in
      filter (\<lambda>p. below repo p \<and> p \<noteq> repo \<and> ''.git'' \<notin> set (rel p)) (cw_dirs w)
      @ filter (\<lambda>p. below repo p \<and> ''.git'' \<notin> set (butlast (rel p))) (map fst (cw_disk w)))"

definition ensure_supported :: "cs_env \<Rightarrow> path \<Rightarrow> unit cs_step" where
  "ensure_supported env repo =
     and_then (git_checked env (plain_call repo [''rev-parse'', ''--git-dir''])) (\<lambda>r.
     let git_dir = py_strip (ge_out r);
         actual = (if is_absolute git_dir then path_parts git_dir else ce_resolve env (repo @ path_parts git_dir)) in
     and_then (read_world (\<lambda>w. find (\<lambda>m. path_exists w (actual @ [m])) unfinished_markers)) (\<lambda>marker.
     case marker of
       Some m \<Rightarrow> cs_fail ''CHANGE_SET_INVALID_STATE'' (''cannot begin during unfinished Git operation ('' @ m @ '')'')
     | None \<Rightarrow>
         and_then (read_world (\<lambda>w. list_ex (ce_symlink env (cw_disk w)) (walked repo w))) (\<lambda>linked.
         cs_check (\<not> linked) ''CHANGE_SET_LIMIT_EXCEEDED'' ''symlinks are not supported in change sets'')))"

subsection \<open>Trees\<close>

definition temporary_index :: "cs_env \<Rightarrow> path \<Rightarrow> path cs_step" where
  "temporary_index env dir =
     and_then (modify (add_dirs [dir])) (\<lambda>_. done_with (dir @ [''index-'' @ ce_uuid env ''index'']))"

definition index_call :: "path \<Rightarrow> string list \<Rightarrow> path \<Rightarrow> git_call" where
  "index_call repo args index = (plain_call repo args)\<lparr>gc_index := Some index\<rparr>"

definition add_call :: "path \<Rightarrow> path \<Rightarrow> path \<Rightarrow> git_call" where
  "add_call repo work index = (index_call repo [''add'', ''-A'', ''--'', ''.''] index)\<lparr>gc_work_tree := Some work\<rparr>"

definition workspace_tree :: "cs_env \<Rightarrow> path \<Rightarrow> string cs_step" where
  "workspace_tree env repo =
     and_then (temporary_index env (ce_root env @ [''.indexes''])) (\<lambda>index.
     finally_do
       (and_then (git_checked env (index_call repo [''read-tree'', ''HEAD''] index)) (\<lambda>_.
        and_then (git_checked env (add_call repo repo index)) (\<lambda>_.
        and_then (git_checked env (index_call repo [''write-tree''] index)) (\<lambda>r. done_with (py_strip (ge_out r))))))
       (on_disk (unlink index)))"

fun py_words :: "string \<Rightarrow> string \<Rightarrow> string list" where
  "py_words acc [] = (if acc = [] then [] else [rev acc])"
| "py_words acc (c # s) =
     (if py_isspace c then (if acc = [] then py_words [] s else rev acc # py_words [] s) else py_words (c # acc) s)"

definition split_tab :: "string \<Rightarrow> (string \<times> string) option" where
  "split_tab s = (let a = takeWhile (\<lambda>c. c \<noteq> tab) s in if length a = length s then None else Some (a, drop (Suc (length a)) s))"

text \<open>One record of \<open>ls-tree -r -z\<close>: mode, kind, object id and name.\<close>

definition parse_entry :: "string \<Rightarrow> (string \<times> string \<times> string \<times> string) option" where
  "parse_entry item =
     (case split_tab item of
        None \<Rightarrow> None
      | Some (meta, name) \<Rightarrow> (case py_words [] meta of [mode, kind, oid] \<Rightarrow> Some (mode, kind, oid, name) | _ \<Rightarrow> None))"

type_synonym entries = "(string, string \<times> string) dict"

fun collect_entries :: "entries \<Rightarrow> string list \<Rightarrow> cs_error + entries" where
  "collect_entries acc [] = Inr acc"
| "collect_entries acc (item # items) =
     (if item = [] then collect_entries acc items
      else case parse_entry item of
        None \<Rightarrow> Inl (Other_error ''not enough values to unpack'')
      | Some (mode, kind, oid, name) \<Rightarrow>
          if kind = ''commit'' \<and> mode = ''160000'' then collect_entries acc items
          else if kind = ''blob'' \<and> mode = ''120000'' then collect_entries acc items
          else if kind \<noteq> ''blob'' \<or> mode \<notin> set [''100644'', ''100755'']
          then Inl (Change_set_error ''CHANGE_SET_VALIDATION_FAILED'' ''change sets support regular files only'' [])
          else collect_entries (AList.update name (mode, oid) acc) items)"

fun collect_special :: "entries \<Rightarrow> string list \<Rightarrow> cs_error + entries" where
  "collect_special acc [] = Inr acc"
| "collect_special acc (item # items) =
     (if item = [] then collect_special acc items
      else case parse_entry item of
        None \<Rightarrow> Inl (Other_error ''not enough values to unpack'')
      | Some (mode, kind, oid, name) \<Rightarrow>
          if (kind, mode) \<in> set [(''blob'', ''120000''), (''commit'', ''160000'')]
          then collect_special (AList.update name (mode, oid) acc) items
          else collect_special acc items)"

definition list_tree :: "(entries \<Rightarrow> string list \<Rightarrow> cs_error + entries) \<Rightarrow> cs_env \<Rightarrow> path \<Rightarrow> string \<Rightarrow> entries cs_step" where
  "list_tree collect env repo tree =
     and_then (git_checked env (plain_call repo [''ls-tree'', ''-r'', ''-z'', tree])) (\<lambda>r.
     case collect [] (py_split (CHR 0x00) (ge_out r)) of Inl e \<Rightarrow> raise_error e | Inr es \<Rightarrow> done_with es)"

definition tree_entries :: "cs_env \<Rightarrow> path \<Rightarrow> string \<Rightarrow> entries cs_step" where
  "tree_entries = list_tree collect_entries"

definition tree_special_entries :: "cs_env \<Rightarrow> path \<Rightarrow> string \<Rightarrow> entries cs_step" where
  "tree_special_entries = list_tree collect_special"

definition keep_special :: "cs_env \<Rightarrow> path \<Rightarrow> path \<Rightarrow> string \<times> string \<times> string \<Rightarrow> unit cs_step" where
  "keep_special env repo index e =
     (case e of (p, mode, oid) \<Rightarrow>
        and_then (git_checked env (index_call repo
          [''update-index'', ''--add'', ''--cacheinfo'', mode @ '','' @ oid @ '','' @ p] index)) (\<lambda>_. done_with ()))"

definition tree_from_directory :: "cs_env \<Rightarrow> path \<Rightarrow> path \<Rightarrow> string \<Rightarrow> path \<Rightarrow> string cs_step" where
  "tree_from_directory env repo source base_tree owner =
     and_then (temporary_index env owner) (\<lambda>index.
     finally_do
       (and_then (git_checked env (index_call repo [''read-tree'', base_tree] index)) (\<lambda>_.
        and_then (git_checked env (add_call repo source index)) (\<lambda>_.
        and_then (tree_special_entries env repo base_tree) (\<lambda>special.
        and_then (for_each (keep_special env repo index) special) (\<lambda>_.
        and_then (git_checked env (index_call repo [''write-tree''] index)) (\<lambda>r. done_with (py_strip (ge_out r))))))))
       (on_disk (unlink index)))"

text \<open>\<open>_materialize\<close>: every member is checked before anything is extracted; links are left out.\<close>

definition check_member :: "tar_member \<Rightarrow> cs_error option" where
  "check_member m =
     (if is_absolute (tm_name m) \<or> ''..'' \<in> set (path_parts (tm_name m))
      then Some (Change_set_error ''CHANGE_SET_VALIDATION_FAILED'' ''unsafe Git tree entry'' [])
      else if tm_kind m = Tar_other
      then Some (Change_set_error ''CHANGE_SET_VALIDATION_FAILED'' ''unsupported Git archive entry'' [])
      else None)"

definition extract_member :: "path \<Rightarrow> tar_member \<Rightarrow> cs_world \<Rightarrow> cs_world" where
  "extract_member dest m w =
     (let p = dest @ path_parts (tm_name m) in
      case tm_kind m of
        Tar_file \<Rightarrow> on_disk (put_file p (tm_data m, tm_mode m)) (add_dirs [butlast p] w)
      | Tar_dir \<Rightarrow> add_dirs [p] w
      | _ \<Rightarrow> w)"

definition materialize :: "cs_env \<Rightarrow> path \<Rightarrow> string \<Rightarrow> path \<Rightarrow> unit cs_step" where
  "materialize env repo tree dest =
     and_then (git_checked env (plain_call repo [''archive'', ''--format=tar'', tree])) (\<lambda>r.
     and_then (read_world (\<lambda>w. path_exists w dest)) (\<lambda>taken.
     and_then (check_that (\<not> taken) (Other_error ''FileExistsError'')) (\<lambda>_.
     and_then (modify (add_dirs [dest])) (\<lambda>_.
     let members = ce_untar env (ge_out r) in
     case List.map_filter check_member members of
       (e # _) \<Rightarrow> raise_error e
     | [] \<Rightarrow> modify (\<lambda>w. foldl (\<lambda>w m. extract_member dest m w) w members)))))"

subsection \<open>Manifests\<close>

definition octal :: "string \<Rightarrow> int" where
  "octal s = foldl (\<lambda>acc c. 8 * acc + int (char_code c - 48)) 0 s"

definition blob_sha256 :: "cs_env \<Rightarrow> path \<Rightarrow> string \<Rightarrow> string cs_step" where
  "blob_sha256 env repo oid =
     and_then (git_checked env (plain_call repo [''cat-file'', ''blob'', oid])) (\<lambda>r. done_with (ce_sha env (ge_out r)))"

definition opt_blob :: "cs_env \<Rightarrow> path \<Rightarrow> (string \<times> string) option \<Rightarrow> string option cs_step" where
  "opt_blob env repo e =
     (case e of None \<Rightarrow> done_with None | Some (_, oid) \<Rightarrow> and_then (blob_sha256 env repo oid) (\<lambda>h. done_with (Some h)))"

definition manifest_item :: "cs_env \<Rightarrow> path \<Rightarrow> entries \<Rightarrow> entries \<Rightarrow> string \<Rightarrow> cs_file cs_step" where
  "manifest_item env repo old new p =
     (let b = map_of old p; a = map_of new p in
      and_then (opt_blob env repo b) (\<lambda>bsha.
      and_then (opt_blob env repo a) (\<lambda>asha.
      done_with \<lparr>cf_path = p,
        cf_type = (if b = None then ''added'' else if a = None then ''deleted'' else ''modified''),
        cf_before_exists = (b \<noteq> None), cf_before_sha = bsha, cf_before_mode = map_option (\<lambda>e. octal (fst e)) b,
        cf_after_exists = (a \<noteq> None), cf_after_sha = asha, cf_after_mode = map_option (\<lambda>e. octal (fst e)) a\<rparr>)))"

definition changed_paths :: "entries \<Rightarrow> entries \<Rightarrow> string list" where
  "changed_paths old new =
     filter (\<lambda>p. map_of old p \<noteq> map_of new p) (sort (remdups (dict_keys old @ dict_keys new)))"

definition manifest :: "cs_env \<Rightarrow> path \<Rightarrow> string \<Rightarrow> string \<Rightarrow> cs_file list cs_step" where
  "manifest env repo before after =
     and_then (tree_entries env repo before) (\<lambda>old.
     and_then (tree_entries env repo after) (\<lambda>new.
     map_each (manifest_item env repo old new) (changed_paths old new)))"

definition diff_trees :: "cs_env \<Rightarrow> path \<Rightarrow> string \<Rightarrow> string \<Rightarrow> string cs_step" where
  "diff_trees env repo before after =
     and_then (git_checked env (plain_call repo [''diff'', ''--binary'', ''--no-color'', before, after, ''--''])) (\<lambda>r.
     if py_contains ''GIT binary patch'' (ge_out r) \<or> CHR 0x00 \<in> set (ge_out r)
     then cs_fail ''CHANGE_SET_VALIDATION_FAILED'' ''binary files are not supported in change sets''
     else done_with (ge_out r))"

definition save_manifest :: "string \<Rightarrow> cs_file list \<Rightarrow> cs_world \<Rightarrow> cs_world" where
  "save_manifest csid fs w = w\<lparr>cw_files := filter (\<lambda>r. fst r \<noteq> csid) (cw_files w) @ map (Pair csid) fs\<rparr>"

definition stored_manifest :: "string \<Rightarrow> cs_world \<Rightarrow> cs_file list" where
  "stored_manifest csid w = sort_key cf_path (map snd (filter (\<lambda>r. fst r = csid) (cw_files w)))"

definition assert_manifest_matches :: "string \<Rightarrow> cs_file list \<Rightarrow> unit cs_step" where
  "assert_manifest_matches csid fs =
     and_then (read_world (stored_manifest csid)) (\<lambda>stored.
     cs_check (stored = fs) ''CHANGE_SET_VALIDATION_FAILED'' ''staging manifest does not match the database'')"

text \<open>\<open>_payload_hash\<close>: the operation type and the payload as one canonical object.\<close>

definition payload_hash :: "cs_env \<Rightarrow> string \<Rightarrow> (string \<times> json) list \<Rightarrow> string" where
  "payload_hash env typ payload = ce_json_sha env (canon (JObj (dict_merge [(''operation_type'', JStr typ)] payload)))"

definition set_ops :: "string \<Rightarrow> cs_world \<Rightarrow> cs_op list" where
  "set_ops csid w = sort_key co_ordinal (filter (\<lambda>x. co_set x = csid) (cw_ops w))"

definition validate_operation :: "cs_env \<Rightarrow> path \<Rightarrow> cs_op \<Rightarrow> unit cs_step" where
  "validate_operation env dir row =
     (let p = ce_resolve env (dir @ path_parts (co_payload_ref row)) in
      if \<not> prefix (ce_resolve env dir) p
      then cs_fail ''CHANGE_SET_VALIDATION_FAILED'' ''operation payload path escapes its change-set directory''
      else and_then (read_world (\<lambda>w. map_of (cw_docs w) p)) (\<lambda>doc.
        case doc of
          None \<Rightarrow> cs_fail ''CHANGE_SET_VALIDATION_FAILED'' ''operation payload is missing or unreadable''
        | Some (JObj payload) \<Rightarrow>
            cs_check (payload_hash env (co_type row) payload = co_input row) ''CHANGE_SET_VALIDATION_FAILED''
              ''operation payload hash does not match the database''
        | Some _ \<Rightarrow> cs_fail ''CHANGE_SET_VALIDATION_FAILED'' ''operation payload hash does not match the database''))"

definition validate_stored_operations :: "cs_env \<Rightarrow> string \<Rightarrow> path \<Rightarrow> unit cs_step" where
  "validate_stored_operations env csid dir =
     and_then (read_world (set_ops csid)) (for_each (validate_operation env dir))"

end
