(* ===== verification/Change_Set_Store.thy ===== *)
theory Change_Set_Store
  imports Change_Set_Data
begin

text \<open>
  The operations of \<open>app/services/change_set_store.py\<close>: beginning a change set, staging operations in
  an isolated copy, validation, the commit with its rollback, rolling back, reconciliation after
  a crash, and cleanup.  The locks make each operation run alone on its workspace or change
  set; an operation is one step on the state.
\<close>

subsection \<open>Lookup and expiry\<close>

definition get_set :: "string \<Rightarrow> cs_row cs_step" where
  "get_set csid w =
     (case map_of (cw_sets w) csid of
        None \<Rightarrow> (w, Inl (Change_set_error ''CHANGE_SET_NOT_FOUND'' (''change set not found: '' @ csid) []))
      | Some r \<Rightarrow> (w, Inr r))"

definition workspace_id_for :: "string \<Rightarrow> cs_world \<Rightarrow> string option" where
  "workspace_id_for csid w = map_option cr_workspace (map_of (cw_sets w) csid)"

definition update_set :: "string \<Rightarrow> (cs_row \<Rightarrow> cs_row) \<Rightarrow> cs_world \<Rightarrow> cs_world" where
  "update_set csid f w =
     (case map_of (cw_sets w) csid of None \<Rightarrow> w | Some r \<Rightarrow> w\<lparr>cw_sets := AList.update csid (f r) (cw_sets w)\<rparr>)"

definition update_set_if :: "string \<Rightarrow> (cs_row \<Rightarrow> bool) \<Rightarrow> (cs_row \<Rightarrow> cs_row) \<Rightarrow> cs_world \<Rightarrow> cs_world" where
  "update_set_if csid cond f = update_set csid (\<lambda>r. if cond r then f r else r)"

definition is_open :: "cs_row \<Rightarrow> bool" where
  "is_open r = (cr_status r = ''open'' \<or> cr_status r = ''validated'')"

definition close_as :: "string \<Rightarrow> string \<Rightarrow> cs_row \<Rightarrow> cs_row" where
  "close_as status now r = r\<lparr>cr_status := status, cr_closed_at := Some now, cr_updated := now\<rparr>"

definition drop_staging :: "cs_env \<Rightarrow> string \<Rightarrow> unit cs_step" where
  "drop_staging env csid = and_then (directory_of env csid) (\<lambda>d. modify (remove_dir (d @ [''staging''])))"

definition expire_if_needed :: "cs_env \<Rightarrow> string \<Rightarrow> cs_row \<Rightarrow> cs_row cs_step" where
  "expire_if_needed env csid r =
     (if \<not> is_open r \<or> ce_time env (cr_expires r) > ce_now env then done_with r
      else and_then (modify (update_set_if csid is_open (close_as ''expired'' (now_iso env)))) (\<lambda>_.
           and_then (drop_staging env csid) (\<lambda>_. cs_fail ''CHANGE_SET_EXPIRED'' ''change set has expired'')))"

definition active_set :: "cs_env \<Rightarrow> string \<Rightarrow> string list \<Rightarrow> cs_row cs_step" where
  "active_set env csid allowed =
     and_then (get_set csid) (\<lambda>r.
     and_then (expire_if_needed env csid r) (\<lambda>r.
     if cr_status r \<in> set allowed then done_with r
     else raise_error (Change_set_error ''CHANGE_SET_INVALID_STATE''
            (''change set is '' @ cr_status r @ ''; expected one of ['' @ py_join '', '' (map py_repr (sort allowed)) @ '']'')
            [(''status'', JStr (cr_status r))])))"

subsection \<open>Summaries and the journal\<close>

definition count_type :: "string \<Rightarrow> cs_file list \<Rightarrow> json" where
  "count_type t fs = JInt (int (length (filter (\<lambda>f. cf_type f = t) fs)))"

definition diff_stat :: "cs_file list \<Rightarrow> json" where
  "diff_stat fs = JObj [(''files'', JInt (int (length fs))), (''added'', count_type ''added'' fs),
     (''modified'', count_type ''modified'' fs), (''deleted'', count_type ''deleted'' fs)]"

definition opt_int :: "int option \<Rightarrow> json" where
  "opt_int v = (case v of None \<Rightarrow> JNull | Some i \<Rightarrow> JInt i)"

definition file_json :: "cs_file \<Rightarrow> json" where
  "file_json f = JObj [(''path'', JStr (cf_path f)), (''change_type'', JStr (cf_type f)),
     (''before_exists'', JBool (cf_before_exists f)), (''before_sha256'', opt_str (cf_before_sha f)), (''before_mode'', opt_int (cf_before_mode f)),
     (''after_exists'', JBool (cf_after_exists f)), (''after_sha256'', opt_str (cf_after_sha f)), (''after_mode'', opt_int (cf_after_mode f))]"

definition op_json :: "cs_op \<Rightarrow> json" where
  "op_json x = JObj [(''operation_id'', JStr (co_id x)), (''ordinal'', JInt (int (co_ordinal x))), (''operation_type'', JStr (co_type x)),
     (''input_sha256'', JStr (co_input x)), (''created_at'', JStr (co_created x))]"

definition row_fields :: "string \<Rightarrow> cs_row \<Rightarrow> (string \<times> json) list" where
  "row_fields csid r =
     [(''change_set_id'', JStr csid), (''workspace_id'', JStr (cr_workspace r)), (''explanation'', JStr (cr_explanation r)),
      (''status'', JStr (cr_status r)), (''revision'', JInt (cr_revision r)), (''base_head'', JStr (cr_base_head r)),
      (''before_tree_hash'', JStr (cr_before r)), (''staged_digest'', opt_str (cr_staged r)),
      (''validated_digest'', opt_str (cr_validated r)), (''after_tree_hash'', opt_str (cr_after r)),
      (''commit_phase'', opt_str (cr_phase r)), (''error_code'', opt_str (cr_error_code r)),
      (''error_message'', opt_str (cr_error_message r)), (''created_at'', JStr (cr_created r)), (''updated_at'', JStr (cr_updated r)),
      (''validated_at'', opt_str (cr_validated_at r)), (''committed_at'', opt_str (cr_committed_at r)),
      (''closed_at'', opt_str (cr_closed_at r)), (''expires_at'', JStr (cr_expires r))]"

text \<open>The preview is of the first 20000 characters of \<open>final.patch\<close>; its size is counted in bytes.\<close>

definition get_summary :: "cs_env \<Rightarrow> string \<Rightarrow> (string \<times> json) list cs_step" where
  "get_summary env csid =
     and_then (get_set csid) (\<lambda>r.
     and_then (directory_of env csid) (\<lambda>d.
     and_then (read_world (\<lambda>w. (set_ops csid w, stored_manifest csid w, disk_bytes (cw_disk w) (d @ [''final.patch''])))) (\<lambda>(ops, fs, final).
     done_with (row_fields csid r @
       [(''operations'', JArr (map op_json ops)), (''changed_files'', JArr (map file_json fs)), (''diff_stat'', diff_stat fs),
        (''diff_preview'', JStr (case final of None \<Rightarrow> [] | Some b \<Rightarrow> take 20000 (ce_text env b))),
        (''diff_truncated'', JBool (case final of None \<Rightarrow> False | Some b \<Rightarrow> int (length b) > 20000))]))))"

definition journal :: "cs_env \<Rightarrow> string \<Rightarrow> string \<Rightarrow> unit cs_step" where
  "journal env csid phase =
     and_then (directory_of env csid) (\<lambda>d.
     and_then (write_json env (d @ [''journal.json'']) (JObj [(''phase'', JStr phase), (''updated_at'', JStr (now_iso env))])) (\<lambda>_.
     modify (update_set csid (\<lambda>r. r\<lparr>cr_phase := Some phase, cr_updated := now_iso env\<rparr>))))"

subsection \<open>Beginning a change set\<close>

definition parse_size :: "string \<Rightarrow> int option" where
  "parse_size s = (let t = py_strip s in if t = [] \<or> \<not> list_all py_isdigit_ascii t then None else Some (int (py_int_of 0 t)))"

definition sum_sizes :: "string \<Rightarrow> int option" where
  "sum_sizes out = (let vs = map parse_size (py_splitlines out)
     in if list_all (\<lambda>v. v \<noteq> None) vs then Some (sum_list (map the vs)) else None)"

definition snapshot_bytes :: "cs_env \<Rightarrow> path \<Rightarrow> entries \<Rightarrow> int cs_step" where
  "snapshot_bytes env repo es =
     (if es = [] then done_with 0
      else and_then (git_checked env ((plain_call repo [''cat-file'', ''--batch-check=%(objectsize)''])
             \<lparr>gc_input := Some (py_join [newline] (map (snd \<circ> snd) es) @ [newline])\<rparr>)) (\<lambda>r.
           the_or (Other_error ''ValueError'') (sum_sizes (ge_out r))))"

definition limit_check :: "cs_env \<Rightarrow> int \<Rightarrow> string \<Rightarrow> unit cs_step" where
  "limit_check env n msg = cs_check (n \<le> ck_max_staging_bytes (ce_cfg env)) ''CHANGE_SET_LIMIT_EXCEEDED'' msg"

text \<open>The unique index on active change sets of a workspace, and the primary key.\<close>

definition insert_set :: "string \<Rightarrow> cs_row \<Rightarrow> unit cs_step" where
  "insert_set csid r w =
     (if csid \<in> fst ` set (cw_sets w)
         \<or> (cr_status r \<in> set active_statuses
            \<and> list_ex (\<lambda>e. cr_workspace (snd e) = cr_workspace r \<and> cr_status (snd e) \<in> set active_statuses) (cw_sets w))
      then (w, Inl (Change_set_error ''CHANGE_SET_ALREADY_ACTIVE'' ''workspace already has an active change set'' []))
      else (w\<lparr>cw_sets := AList.update csid r (cw_sets w)\<rparr>, Inr ()))"

definition fresh_row :: "cs_env \<Rightarrow> string \<Rightarrow> string \<Rightarrow> string \<Rightarrow> string \<Rightarrow> cs_row" where
  "fresh_row env wid explanation base_head before =
     \<lparr>cr_workspace = wid, cr_explanation = explanation, cr_status = ''open'', cr_revision = 1, cr_base_head = base_head,
      cr_before = before, cr_staged = None, cr_validated = None, cr_after = None, cr_phase = None, cr_error_code = None,
      cr_error_message = None, cr_created = now_iso env, cr_updated = now_iso env, cr_validated_at = None,
      cr_committed_at = None, cr_closed_at = None, cr_expires = ce_iso env (ce_now env + 3600 * ck_ttl_hours (ce_cfg env))\<rparr>"

definition open_directory :: "cs_env \<Rightarrow> string \<Rightarrow> string \<Rightarrow> path \<Rightarrow> path \<Rightarrow> string \<Rightarrow> string \<Rightarrow> string \<Rightarrow> (string \<times> json) list cs_step" where
  "open_directory env csid wid repo dir explanation base_head before =
     and_then (materialize env repo before (dir @ [''staging''])) (\<lambda>_.
     and_then (read_world (\<lambda>w. int (directory_size (dir @ [''staging'']) (cw_disk w)))) (\<lambda>size.
     and_then (limit_check env size ''workspace snapshot exceeds max_staging_bytes'') (\<lambda>_.
     and_then (insert_set csid (fresh_row env wid explanation base_head before)) (\<lambda>_.
     and_then (read_world (\<lambda>w. int (file_count (dir @ [''staging'']) (cw_disk w)))) (\<lambda>n.
     and_then (write_json env (dir @ [''manifest.json'']) (JObj
        [(''change_set_id'', JStr csid), (''workspace_id'', JStr wid), (''base_head'', JStr base_head), (''before_tree_hash'', JStr before),
         (''file_count'', JInt n), (''staging_bytes'', JInt size), (''created_at'', JStr (now_iso env))])) (\<lambda>_.
     and_then (write_json env (dir @ [''journal.json'']) (JObj [(''phase'', JStr ''open''), (''updated_at'', JStr (now_iso env))])) (\<lambda>_.
     get_summary env csid)))))))"

definition begin_set :: "cs_env \<Rightarrow> string \<Rightarrow> string \<Rightarrow> (string \<times> json) list cs_step" where
  "begin_set env wid explanation =
     and_then (cs_check (ck_enabled (ce_cfg env)) ''CHANGE_SET_INVALID_STATE'' ''change sets are disabled'') (\<lambda>_.
     and_then (cs_check (py_strip explanation \<noteq> []) ''INVALID_INPUT'' ''explanation must be non-empty'') (\<lambda>_.
     and_then (workspace_of wid) (\<lambda>(_, repo).
     and_then (ensure_supported env repo) (\<lambda>_.
     and_then (git_checked env (plain_call repo [''rev-parse'', ''HEAD''])) (\<lambda>head.
     and_then (workspace_tree env repo) (\<lambda>before.
     and_then (tree_entries env repo before) (\<lambda>es.
     and_then (snapshot_bytes env repo es) (\<lambda>total.
     and_then (limit_check env total ''workspace snapshot exceeds max_staging_bytes'') (\<lambda>_.
     let csid = ''cs_'' @ ce_uuid env ''change_set'' in
     and_then (directory_of env csid) (\<lambda>dir.
     and_then (read_world (\<lambda>w. path_exists w dir)) (\<lambda>taken.
     and_then (check_that (\<not> taken) (Other_error ''FileExistsError'')) (\<lambda>_.
     and_then (modify (add_dirs [dir])) (\<lambda>_.
     on_error (open_directory env csid wid repo dir explanation (py_strip (ge_out head)) before)
       (\<lambda>e. and_then (modify (remove_dir dir)) (\<lambda>_. raise_error e)))))))))))))))"

subsection \<open>Staging\<close>

definition posix_normal :: "string \<Rightarrow> string" where
  "posix_normal p =
     (let parts = path_parts p;
          lead = (if py_startswith p ''//'' \<and> \<not> py_startswith p ''///'' then ''//'' else if is_absolute p then ''/'' else [])
      in if lead = [] \<and> parts = [] then ''.'' else lead @ py_join ''/'' parts)"

definition hits_special :: "string \<Rightarrow> string \<Rightarrow> bool" where
  "hits_special raw special =
     (let n = posix_normal (map (\<lambda>c. if c = backslash then slash else c) raw)
      in n = special \<or> py_startswith n (special @ ''/''))"

definition reject_special_paths :: "cs_env \<Rightarrow> string \<Rightarrow> string list \<Rightarrow> unit cs_step" where
  "reject_special_paths env csid paths =
     and_then (get_set csid) (\<lambda>r.
     and_then (workspace_of (cr_workspace r)) (\<lambda>(_, repo).
     and_then (tree_special_entries env repo (cr_before r)) (\<lambda>special.
     case find (\<lambda>p. list_ex (hits_special p) (dict_keys special)) paths of
       None \<Rightarrow> done_with ()
     | Some p \<Rightarrow> cs_fail ''PATH_DENIED'' (''change sets cannot edit symlink or submodule path: '' @ p))))"

definition operation_replay :: "string \<Rightarrow> string \<Rightarrow> string \<Rightarrow> (string \<times> json) list option cs_step" where
  "operation_replay csid opid input =
     and_then (read_world (\<lambda>w. find (\<lambda>x. co_set x = csid \<and> co_id x = opid) (cw_ops w))) (\<lambda>found.
     case found of
       None \<Rightarrow> done_with None
     | Some x \<Rightarrow>
         if co_input x \<noteq> input then cs_fail ''IDEMPOTENCY_CONFLICT'' ''operation_id was already used with different inputs''
         else case co_result x of
           JObj kvs \<Rightarrow> done_with (Some kvs)
         | _ \<Rightarrow> cs_fail ''CHANGE_SET_VALIDATION_FAILED'' ''stored operation result is invalid'')"

definition pad4 :: "nat \<Rightarrow> string" where
  "pad4 n = (let s = nat_str n in replicate (4 - length s) (CHR ''0'') @ s)"

record staged_op =
  so_set :: string
  so_type :: string
  so_payload :: "(string \<times> json) list"
  so_id :: string
  so_input :: string
  so_count :: nat

definition staged_result :: "staged_op \<Rightarrow> cs_row \<Rightarrow> nat \<Rightarrow> cs_file list \<Rightarrow> string \<Rightarrow> int \<Rightarrow> (string \<times> json) list" where
  "staged_result sop r ordinal fs digest sz =
     [(''change_set_id'', JStr (so_set sop)), (''workspace_id'', JStr (cr_workspace r)), (''operation_id'', JStr (so_id sop)),
      (''ordinal'', JInt (int ordinal)), (''operation_type'', JStr (so_type sop)), (''revision'', JInt (cr_revision r + 1)),
      (''changed_files'', JArr (map file_json fs)), (''staged_digest'', JStr digest),
      (''validation_invalidated'', JBool (cr_status r = ''validated'')), (''staging_bytes'', JInt sz)]"

definition next_ordinal :: "string \<Rightarrow> cs_world \<Rightarrow> nat" where
  "next_ordinal csid w = Suc (foldl max 0 (map co_ordinal (filter (\<lambda>x. co_set x = csid) (cw_ops w))))"

definition reopen :: "string \<Rightarrow> string \<Rightarrow> cs_row \<Rightarrow> cs_row" where
  "reopen digest now r = r\<lparr>cr_status := ''open'', cr_revision := cr_revision r + 1, cr_staged := Some digest, cr_validated := None,
     cr_after := None, cr_validated_at := None, cr_updated := now, cr_error_code := None, cr_error_message := None\<rparr>"

text \<open>The transaction that records a staged operation; a taken operation id rolls it back.\<close>

definition record_operation :: "cs_env \<Rightarrow> staged_op \<Rightarrow> cs_row \<Rightarrow> string \<Rightarrow> cs_file list \<Rightarrow> string \<Rightarrow> int \<Rightarrow> (string \<times> json) list cs_step" where
  "record_operation env sop r payload_ref fs digest sz w =
     (let ordinal = next_ordinal (so_set sop) w; result = staged_result sop r ordinal fs digest sz in
      if list_ex (\<lambda>x. co_set x = so_set sop \<and> co_id x = so_id sop) (cw_ops w) then (w, Inl (Other_error ''IntegrityError''))
      else (update_set_if (so_set sop) is_open (reopen digest (now_iso env))
              (save_manifest (so_set sop) fs
                (w\<lparr>cw_ops := cw_ops w @ [\<lparr>co_set = so_set sop, co_id = so_id sop, co_ordinal = ordinal, co_type = so_type sop,
                   co_input = so_input sop, co_payload_ref = payload_ref, co_created = now_iso env, co_result = JObj result\<rparr>]\<rparr>)),
            Inr result))"

definition stage_body :: "cs_env \<Rightarrow> staged_op \<Rightarrow> cs_row \<Rightarrow> path \<Rightarrow> (path \<Rightarrow> unit cs_step) \<Rightarrow> (string \<times> json) list cs_step" where
  "stage_body env sop r dir apply =
     (let staging = dir @ [''staging'']; name = pad4 (Suc (so_count sop)) @ ''.'' @ so_type sop @ ''.json'' in
     and_then (apply staging) (\<lambda>_.
     and_then (read_world (\<lambda>w. int (directory_size staging (cw_disk w)))) (\<lambda>size.
     and_then (limit_check env size ''max_staging_bytes exceeded'') (\<lambda>_.
     and_then (workspace_of (cr_workspace r)) (\<lambda>(_, repo).
     and_then (tree_from_directory env repo staging (cr_before r) dir) (\<lambda>after.
     and_then (manifest env repo (cr_before r) after) (\<lambda>fs.
     and_then (cs_check (int (length fs) \<le> ck_max_changed_files (ce_cfg env)) ''CHANGE_SET_LIMIT_EXCEEDED'' ''max_changed_files exceeded'') (\<lambda>_.
     let digest = ce_sha env (cr_before r @ after @ so_input sop @ py_str_int (cr_revision r + 1)) in
     and_then (write_json env (dir @ [''operations'', name]) (JObj (so_payload sop))) (\<lambda>_.
     record_operation env sop r (''operations/'' @ name) fs digest size)))))))))"

text \<open>The staging copy is checkpointed first and put back when anything raises.\<close>

definition stage :: "cs_env \<Rightarrow> string \<Rightarrow> string \<Rightarrow> (string \<times> json) list \<Rightarrow> string option \<Rightarrow> (path \<Rightarrow> unit cs_step) \<Rightarrow> (string \<times> json) list cs_step" where
  "stage env csid typ payload operation_id apply =
     (let opid = (case operation_id of Some i \<Rightarrow> if i = [] then ''op_'' @ ce_uuid env ''operation'' else i
                                     | None \<Rightarrow> ''op_'' @ ce_uuid env ''operation'');
          input = payload_hash env typ payload in
     and_then (operation_replay csid opid input) (\<lambda>replay.
     case replay of
       Some kvs \<Rightarrow> done_with (AList.update ''idempotent_replay'' (JBool True) kvs)
     | None \<Rightarrow>
       and_then (active_set env csid [''open'', ''validated'']) (\<lambda>r.
       and_then (read_world (\<lambda>w. length (filter (\<lambda>x. co_set x = csid) (cw_ops w)))) (\<lambda>count.
       and_then (cs_check (int count < ck_max_operations (ce_cfg env)) ''CHANGE_SET_LIMIT_EXCEEDED'' ''max_operations exceeded'') (\<lambda>_.
       and_then (directory_of env csid) (\<lambda>dir.
       let staging = dir @ [''staging'']; checkpoint = dir @ [''.checkpoint-'' @ ce_uuid env ''checkpoint''];
           sop = \<lparr>so_set = csid, so_type = typ, so_payload = payload, so_id = opid, so_input = input, so_count = count\<rparr> in
       and_then (read_world (\<lambda>w. staging \<in> set (cw_dirs w))) (\<lambda>present.
       and_then (check_that present (Other_error ''FileNotFoundError'')) (\<lambda>_.
       and_then (modify (\<lambda>w. on_disk (copy_tree staging checkpoint) (add_dirs [checkpoint] w))) (\<lambda>_.
       finally_do
         (on_error (stage_body env sop r dir apply)
           (\<lambda>e. and_then (modify (\<lambda>w. add_dirs [staging] (on_disk (move_tree checkpoint staging) (remove_dir staging w)))) (\<lambda>_. raise_error e)))
         (remove_dir checkpoint))))))))))"

text \<open>\<open>stage_patch\<close>: the guards, then the edit of the staging copy.\<close>

definition resolve_staged :: "cs_env \<Rightarrow> path \<Rightarrow> string \<Rightarrow> bool \<Rightarrow> cs_world \<Rightarrow> string + path" where
  "resolve_staged env staging p must_exist w = resolve_within (ce_resolve env) (path_exists w) staging p must_exist"

definition patch_target_ok :: "cs_env \<Rightarrow> path \<Rightarrow> string \<Rightarrow> unit cs_step" where
  "patch_target_ok env staging p w =
     (case resolve_staged env staging p False w of
        Inl e \<Rightarrow> (w, Inl (Other_error e))
      | Inr target \<Rightarrow>
          if is_denied (ce_resolve env) (ce_deny env) target (Some staging)
          then (w, Inl (Change_set_error ''PATH_DENIED'' (''path is denied: '' @ p) [])) else (w, Inr ()))"

definition patch_hash_ok :: "cs_env \<Rightarrow> path \<Rightarrow> string \<times> string \<Rightarrow> unit cs_step" where
  "patch_hash_ok env staging e w =
     (case resolve_staged env staging (fst e) False w of
        Inl msg \<Rightarrow> (w, Inl (Other_error msg))
      | Inr target \<Rightarrow>
          let actual = map_option (ce_sha env) (disk_bytes (cw_disk w) target) in
          if actual = Some (snd e) then (w, Inr ())
          else (w, Inl (Change_set_error ''CHANGE_SET_CONFLICT'' (''staged file changed: '' @ fst e)
                 [(''path'', JStr (fst e)), (''expected_sha256'', JStr (snd e)), (''actual_sha256'', opt_str actual)])))"

definition input_call :: "path \<Rightarrow> string list \<Rightarrow> string \<Rightarrow> git_call" where
  "input_call repo args inp = (plain_call repo args)\<lparr>gc_input := Some inp\<rparr>"

definition git_apply_staged :: "cs_env \<Rightarrow> path \<Rightarrow> string \<Rightarrow> unit cs_step" where
  "git_apply_staged env staging patch =
     and_then (git_run_in env (input_call staging [''apply'', ''--check'', ''--''] patch)) (\<lambda>c.
     and_then (cs_check (ge_code c = 0) ''CHANGE_SET_CONFLICT'' (git_failure c ''patch does not apply'')) (\<lambda>_.
     and_then (git_run_in env (input_call staging [''apply'', ''--''] patch)) (\<lambda>a.
     cs_check (ge_code a = 0) ''CHANGE_SET_CONFLICT'' (git_failure a ''patch could not be staged''))))"

definition hashes_json :: "(string \<times> string) list option \<Rightarrow> json" where
  "hashes_json e = (case e of None \<Rightarrow> JNull | Some items \<Rightarrow> JObj (map (map_prod id JStr) items))"

definition change_paths :: "string \<Rightarrow> string list" where
  "change_paths stripped =
     concat (map (\<lambda>c. (case fc_old_path c of None \<Rightarrow> [] | Some q \<Rightarrow> [q]) @ [fc_path c]) (extract_file_changes stripped))"

definition diagnostic_fields :: "diagnostic \<Rightarrow> (string \<times> json) list" where
  "diagnostic_fields d = [(''line'', JInt (int (dg_line d))), (''line_content'', JStr (dg_content d)), (''parser_message'', JStr (dg_message d))]"

definition stage_patch ::
  "cs_env \<Rightarrow> string \<Rightarrow> string \<Rightarrow> string \<Rightarrow> (string \<times> string) list option \<Rightarrow> string option \<Rightarrow> (string \<times> json) list cs_step" where
  "stage_patch env csid patch explanation expected operation_id =
     and_then (cs_check (py_strip patch \<noteq> []) ''INVALID_INPUT'' ''patch must be non-empty'') (\<lambda>_.
     and_then (cs_check (int (length patch) \<le> ck_max_patch_chars (ce_cfg env)) ''CHANGE_SET_LIMIT_EXCEEDED'' ''max_patch_chars exceeded'') (\<lambda>_.
     let stripped = strip_patch_wrappers patch in
     case validate_unified_diff stripped of
       Some d \<Rightarrow> raise_error (Change_set_error ''INVALID_INPUT'' ''patch is not a valid unified diff'' (diagnostic_fields d))
     | None \<Rightarrow>
     case validate_patch_paths stripped of
       Inl e \<Rightarrow> cs_fail ''PATH_DENIED'' e
     | Inr _ \<Rightarrow>
     let paths = change_paths stripped in
     and_then (reject_special_paths env csid paths) (\<lambda>_.
     and_then (cs_check (distinct paths) ''INVALID_INPUT'' ''patch contains a duplicate target path'') (\<lambda>_.
     stage env csid ''patch''
       [(''patch'', JStr stripped), (''explanation'', JStr explanation), (''expected_sha256'', hashes_json expected)] operation_id
       (\<lambda>staging.
          and_then (for_each (patch_target_ok env staging) paths) (\<lambda>_.
          and_then (for_each (patch_hash_ok env staging) (case expected of None \<Rightarrow> [] | Some items \<Rightarrow> items)) (\<lambda>_.
          git_apply_staged env staging (ce_encode env stripped))))))))"

text \<open>\<open>stage_replace\<close>.\<close>

definition replace_staged :: "cs_env \<Rightarrow> string \<Rightarrow> string \<Rightarrow> string \<Rightarrow> string option \<Rightarrow> bool \<Rightarrow> path \<Rightarrow> unit cs_step" where
  "replace_staged env p old_text new_text expected replace_all staging w =
     (case resolve_staged env staging p True w of
        Inl e \<Rightarrow> (w, Inl (Change_set_error ''PATH_DENIED'' e []))
      | Inr target \<Rightarrow>
        if is_denied (ce_resolve env) (ce_deny env) target (Some staging)
        then (w, Inl (Change_set_error ''PATH_DENIED'' ''path is denied by policy'' []))
        else case disk_bytes (cw_disk w) target of
          None \<Rightarrow> (w, Inl (Change_set_error ''INVALID_INPUT'' ''path is not a regular file'' []))
        | Some raw \<Rightarrow>
          if ce_symlink env (cw_disk w) target then (w, Inl (Change_set_error ''INVALID_INPUT'' ''path is not a regular file'' []))
          else if expected \<noteq> None \<and> Some (ce_sha env raw) \<noteq> expected
          then (w, Inl (Change_set_error ''CHANGE_SET_CONFLICT'' (''staged file changed: '' @ p)
                 [(''expected_sha256'', opt_str expected), (''actual_sha256'', JStr (ce_sha env raw))]))
          else case ce_decode env raw of
            None \<Rightarrow> (w, Inl (Change_set_error ''INVALID_INPUT'' ''file is not valid UTF-8'' []))
          | Some content \<Rightarrow>
            let occurrences = py_count old_text content in
            if occurrences = 0 then (w, Inl (Change_set_error ''CHANGE_SET_CONFLICT'' ''old_text was not found'' []))
            else if occurrences > 1 \<and> \<not> replace_all
            then (w, Inl (Change_set_error ''CHANGE_SET_CONFLICT'' ''old_text is ambiguous; set replace_all=true''
                   [(''occurrences'', JInt (int occurrences))]))
            else
              let updated = ce_encode env (py_replace (if replace_all then None else Some 1) old_text new_text content);
                  mode = disk_mode (cw_disk w) target; temporary = temporary_name target (ce_uuid env ''temporary'')
              in finally_do
                   (and_then (io_check env temporary) (\<lambda>_.
                    and_then (modify (on_disk (put_file temporary (updated, mode)))) (\<lambda>_.
                    and_then (io_check env target) (\<lambda>_.
                    modify (on_disk (\<lambda>d. put_file target (updated, mode) (unlink temporary d)))))))
                   (on_disk (unlink temporary)) w)"

definition stage_replace ::
  "cs_env \<Rightarrow> string \<Rightarrow> string \<Rightarrow> string \<Rightarrow> string \<Rightarrow> string \<Rightarrow> string option \<Rightarrow> bool \<Rightarrow> string option \<Rightarrow> (string \<times> json) list cs_step" where
  "stage_replace env csid p old_text new_text explanation expected replace_all operation_id =
     and_then (cs_check (old_text \<noteq> []) ''INVALID_INPUT'' ''old_text must be non-empty'') (\<lambda>_.
     and_then (reject_special_paths env csid [p]) (\<lambda>_.
     stage env csid ''replace''
       [(''path'', JStr p), (''old_text'', JStr old_text), (''new_text'', JStr new_text), (''explanation'', JStr explanation),
        (''expected_sha256'', opt_str expected), (''replace_all'', JBool replace_all)] operation_id
       (replace_staged env p old_text new_text expected replace_all)))"

subsection \<open>Validation\<close>

text \<open>The final patch must apply to a fresh copy of the before tree, which is removed in any case.\<close>

definition check_final_patch :: "cs_env \<Rightarrow> path \<Rightarrow> path \<Rightarrow> string \<Rightarrow> string \<Rightarrow> unit cs_step" where
  "check_final_patch env repo dir before patch =
     (let clean = dir @ [''.validation-'' @ ce_uuid env ''validation''] in
      finally_do
        (and_then (materialize env repo before clean) (\<lambda>_.
         and_then (git_run_in env (input_call clean [''apply'', ''--check'', ''--''] patch)) (\<lambda>c.
         cs_check (ge_code c = 0) ''CHANGE_SET_VALIDATION_FAILED'' (git_failure c ''final patch validation failed''))))
        (remove_dir clean))"

definition validation_digest :: "cs_env \<Rightarrow> string \<Rightarrow> cs_row \<Rightarrow> string \<Rightarrow> cs_op list \<Rightarrow> string" where
  "validation_digest env csid r after ops =
     ce_sha env (csid @ py_str_int (cr_revision r) @ cr_before r @ after @ concat (map co_input ops) @ ''default:v1'')"

definition mark_validated :: "string \<Rightarrow> string \<Rightarrow> string \<Rightarrow> cs_row \<Rightarrow> cs_row" where
  "mark_validated digest after now r = r\<lparr>cr_status := ''validated'', cr_validated := Some digest, cr_after := Some after,
     cr_validated_at := Some now, cr_updated := now, cr_error_code := None, cr_error_message := None\<rparr>"

definition validated_result :: "cs_env \<Rightarrow> string \<Rightarrow> cs_row \<Rightarrow> string \<Rightarrow> string \<Rightarrow> cs_file list \<Rightarrow> string \<Rightarrow> bool \<Rightarrow> (string \<times> json) list" where
  "validated_result env csid r after digest fs patch changed =
     (let preview = ce_text env patch in
      [(''change_set_id'', JStr csid), (''workspace_id'', JStr (cr_workspace r)), (''status'', JStr ''validated''),
       (''revision'', JInt (cr_revision r)), (''before_tree_hash'', JStr (cr_before r)), (''after_tree_hash'', JStr after),
       (''validated_digest'', JStr digest), (''changed_files'', JArr (map file_json fs)),
       (''validators'', JArr [JObj [(''name'', JStr ''structure''), (''status'', JStr ''passed'')],
                              JObj [(''name'', JStr ''git_apply_check''), (''status'', JStr ''passed'')]]),
       (''diff_stat'', diff_stat fs), (''diff_preview'', JStr (take 20000 preview)),
       (''diff_truncated'', JBool (int (length preview) > 20000)),
       (''warnings'', JArr (if changed then [JStr ''workspace changed since this change set began''] else []))])"

definition validate_body :: "cs_env \<Rightarrow> string \<Rightarrow> cs_row \<Rightarrow> int \<Rightarrow> path \<Rightarrow> path \<Rightarrow> (string \<times> json) list cs_step" where
  "validate_body env csid r expected dir repo =
     and_then (validate_stored_operations env csid dir) (\<lambda>_.
     and_then (read_world (\<lambda>w. int (directory_size (dir @ [''staging'']) (cw_disk w)))) (\<lambda>sz.
     and_then (limit_check env sz ''max_staging_bytes exceeded'') (\<lambda>_.
     and_then (tree_from_directory env repo (dir @ [''staging'']) (cr_before r) dir) (\<lambda>after.
     and_then (manifest env repo (cr_before r) after) (\<lambda>fs.
     and_then (assert_manifest_matches csid fs) (\<lambda>_.
     and_then (cs_check (int (length fs) \<le> ck_max_changed_files (ce_cfg env)) ''CHANGE_SET_LIMIT_EXCEEDED'' ''max_changed_files exceeded'') (\<lambda>_.
     and_then (diff_trees env repo (cr_before r) after) (\<lambda>patch.
     and_then (check_final_patch env repo dir (cr_before r) patch) (\<lambda>_.
     and_then (read_world (set_ops csid)) (\<lambda>ops.
     let digest = validation_digest env csid r after ops in
     and_then (write_bytes env (dir @ [''final.patch'']) patch) (\<lambda>_.
     and_then (modify (\<lambda>w. update_set_if csid (\<lambda>q. cr_revision q = expected) (mark_validated digest after (now_iso env))
                             (save_manifest csid fs w))) (\<lambda>_.
     and_then (workspace_tree env repo) (\<lambda>current.
     done_with (validated_result env csid r after digest fs patch (current \<noteq> cr_before r)))))))))))))))"

definition mark_invalid :: "string \<Rightarrow> string \<Rightarrow> string \<Rightarrow> cs_row \<Rightarrow> cs_row" where
  "mark_invalid code msg now r = r\<lparr>cr_status := ''open'', cr_validated := None, cr_after := None, cr_validated_at := None,
     cr_updated := now, cr_error_code := Some code, cr_error_message := Some (take 1000 msg)\<rparr>"

definition validate_set :: "cs_env \<Rightarrow> string \<Rightarrow> int \<Rightarrow> string \<Rightarrow> (string \<times> json) list cs_step" where
  "validate_set env csid expected profile =
     and_then (active_set env csid [''open'', ''validated'']) (\<lambda>r.
     if cr_revision r \<noteq> expected
     then raise_error (Change_set_error ''CHANGE_SET_CONFLICT'' ''change set revision changed''
            [(''expected_revision'', JInt expected), (''actual_revision'', JInt (cr_revision r))])
     else
     and_then (cs_check (profile = ''default'') ''CHANGE_SET_VALIDATION_FAILED'' ''only the default validation profile is supported'') (\<lambda>_.
     and_then (directory_of env csid) (\<lambda>dir.
     and_then (workspace_of (cr_workspace r)) (\<lambda>(_, repo).
     on_error (validate_body env csid r expected dir repo)
       (\<lambda>e. case e of
          Change_set_error code msg _ \<Rightarrow>
            and_then (modify (update_set csid (mark_invalid code msg (now_iso env)))) (\<lambda>_. raise_error e)
        | Other_error _ \<Rightarrow> raise_error e)))))"

subsection \<open>Commit\<close>

definition mode_json :: "disk \<Rightarrow> path \<Rightarrow> json" where
  "mode_json d p = (if is_file d p then JInt (int (disk_mode d p)) else JNull)"

text \<open>Copy one file of the manifest to the rollback directory and describe it.\<close>

definition snapshot_file :: "cs_env \<Rightarrow> path \<Rightarrow> path \<Rightarrow> cs_file \<Rightarrow> json cs_step" where
  "snapshot_file env repo saved f =
     and_then (read_world (\<lambda>w. (resolve_staged env repo (cf_path f) False w, w))) (\<lambda>(target, w).
     case target of
       Inl e \<Rightarrow> raise_error (Other_error e)
     | Inr target \<Rightarrow>
       let base = [(''path'', JStr (cf_path f)), (''exists'', JBool (is_file (cw_disk w) target)), (''mode'', mode_json (cw_disk w) target)] in
       case map_of (cw_disk w) target of
         None \<Rightarrow> done_with (JObj base)
       | Some (bytes, mode) \<Rightarrow>
         (case resolve_staged env saved (cf_path f) False w of
            Inl e \<Rightarrow> raise_error (Other_error e)
          | Inr dest \<Rightarrow>
              and_then (io_check env dest) (\<lambda>_.
              and_then (modify (\<lambda>w. on_disk (put_file dest (bytes, mode)) (add_dirs [butlast dest] w))) (\<lambda>_.
              done_with (JObj (base @ [(''sha256'', JStr (ce_sha env bytes))]))))))"

definition snapshot_rollback :: "cs_env \<Rightarrow> path \<Rightarrow> path \<Rightarrow> cs_file list \<Rightarrow> unit cs_step" where
  "snapshot_rollback env repo dir fs =
     (let saved = dir @ [''rollback''] in
      and_then (modify (add_dirs [saved])) (\<lambda>_.
      and_then (map_each (snapshot_file env repo saved) fs) (\<lambda>items.
      write_json env (saved @ [''manifest.json'']) (JArr items))))"

fun as_nat :: "json \<Rightarrow> nat" where
  "as_nat (JInt i) = nat i"
| "as_nat _ = 0"

definition restore_file :: "cs_env \<Rightarrow> path \<Rightarrow> path \<Rightarrow> json \<Rightarrow> unit cs_step" where
  "restore_file env repo saved item =
     (let p = jstr (env_field ''path'' item) in
      and_then (read_world (\<lambda>w. (resolve_staged env repo p False w, w))) (\<lambda>(target, w).
      case target of
        Inl e \<Rightarrow> raise_error (Other_error e)
      | Inr target \<Rightarrow>
        if is_denied (ce_resolve env) (ce_deny env) target (Some repo)
        then cs_fail ''CHANGE_SET_RECOVERY_REQUIRED'' ''rollback manifest contains a denied path''
        else if truthy (env_field ''exists'' item) then
          (case resolve_staged env saved p True w of
             Inl e \<Rightarrow> raise_error (Other_error e)
           | Inr source \<Rightarrow>
             (case disk_bytes (cw_disk w) source of
                None \<Rightarrow> raise_error (Other_error ''FileNotFoundError'')
              | Some bytes \<Rightarrow>
                  and_then (cs_check (JStr (ce_sha env bytes) = env_field ''sha256'' item) ''CHANGE_SET_RECOVERY_REQUIRED''
                    ''rollback snapshot hash mismatch'') (\<lambda>_.
                  and_then (modify (add_dirs [butlast target])) (\<lambda>_.
                  let temporary = temporary_name target (ce_uuid env ''restore'') in
                  and_then (io_check env temporary) (\<lambda>_.
                  and_then (modify (on_disk (put_file temporary (bytes, disk_mode (cw_disk w) source)))) (\<lambda>_.
                  and_then (io_check env target) (\<lambda>_.
                  modify (on_disk (\<lambda>d. put_file target (bytes, as_nat (env_field ''mode'' item)) (unlink temporary d))))))))))
        else if path_exists w target then
          and_then (cs_check (is_file (cw_disk w) target \<and> \<not> ce_symlink env (cw_disk w) target) ''CHANGE_SET_RECOVERY_REQUIRED''
            ''rollback target is not a regular file'') (\<lambda>_.
          and_then (io_check env target) (\<lambda>_. modify (on_disk (unlink target))))
        else done_with ()))"

definition restore :: "cs_env \<Rightarrow> path \<Rightarrow> path \<Rightarrow> unit cs_step" where
  "restore env repo dir =
     (let saved = dir @ [''rollback''] in
      and_then (read_world (\<lambda>w. map_of (cw_docs w) (saved @ [''manifest.json'']))) (\<lambda>doc.
      case doc of
        Some (JArr items) \<Rightarrow> for_each (restore_file env repo saved) items
      | _ \<Rightarrow> raise_error (Other_error ''FileNotFoundError'')))"

definition bump_workspace :: "string \<Rightarrow> string \<Rightarrow> cs_world \<Rightarrow> cs_world" where
  "bump_workspace now wid w =
     w\<lparr>cw_workspaces := update_workspace wid (\<lambda>r. r\<lparr>ws_revision := ws_revision r + 1, ws_last_patch := Some now\<rparr>) (cw_workspaces w)\<rparr>"

definition mark_committed :: "string \<Rightarrow> cs_row \<Rightarrow> cs_row" where
  "mark_committed now r = r\<lparr>cr_status := ''committed'', cr_phase := Some ''complete'', cr_committed_at := Some now,
     cr_closed_at := Some now, cr_updated := now\<rparr>"

text \<open>The part of the commit that writes to the worktree and its proof by the tree hash.\<close>

definition commit_body :: "cs_env \<Rightarrow> string \<Rightarrow> cs_row \<Rightarrow> path \<Rightarrow> string \<Rightarrow> (string \<times> json) list cs_step" where
  "commit_body env csid r repo patch =
     and_then (git_run_in env (input_call repo [''apply'', ''--check'', ''--''] patch)) (\<lambda>c.
     and_then (cs_check (ge_code c = 0) ''CHANGE_SET_CONFLICT'' (git_failure c ''final patch no longer applies'')) (\<lambda>_.
     and_then (journal env csid ''applying'') (\<lambda>_.
     and_then (git_run_in env (input_call repo [''apply'', ''--''] patch)) (\<lambda>a.
     and_then (cs_check (ge_code a = 0) ''CHANGE_SET_CONFLICT'' (git_failure a ''final patch failed'')) (\<lambda>_.
     and_then (workspace_tree env repo) (\<lambda>actual.
     and_then (cs_check (Some actual = cr_after r) ''CHANGE_SET_VALIDATION_FAILED'' ''workspace after tree does not match validated tree'') (\<lambda>_.
     and_then (journal env csid ''files_applied'') (\<lambda>_.
     and_then (modify (\<lambda>w. bump_workspace (now_iso env) (cr_workspace r)
        (update_set_if csid (\<lambda>q. cr_status q = ''committing'') (mark_committed (now_iso env)) w))) (\<lambda>_.
     and_then (journal env csid ''complete'') (\<lambda>_.
     get_summary env csid))))))))))"

definition error_code_of :: "cs_error \<Rightarrow> string" where
  "error_code_of e = (case e of Change_set_error c _ _ \<Rightarrow> c | Other_error _ \<Rightarrow> ''INTERNAL_ERROR'')"

definition error_text_of :: "cs_error \<Rightarrow> string" where
  "error_text_of e = (case e of Change_set_error _ m _ \<Rightarrow> m | Other_error m \<Rightarrow> m)"

definition after_rollback :: "cs_error \<Rightarrow> cs_error" where
  "after_rollback e = (case e of
     Change_set_error c m d \<Rightarrow> Change_set_error c m (AList.update ''rollback_performed'' (JBool True) d)
   | Other_error m \<Rightarrow> Change_set_error ''INTERNAL_ERROR'' m [(''rollback_performed'', JBool True)])"

definition mark_recovery :: "string \<Rightarrow> string \<Rightarrow> cs_row \<Rightarrow> cs_row" where
  "mark_recovery msg now r = r\<lparr>cr_status := ''recovery_required'', cr_error_code := Some ''CHANGE_SET_RECOVERY_REQUIRED'',
     cr_error_message := Some (take 1000 msg), cr_updated := now\<rparr>"

definition mark_rolled_back :: "cs_error \<Rightarrow> string \<Rightarrow> cs_row \<Rightarrow> cs_row" where
  "mark_rolled_back e now r = (close_as ''rolled_back'' now r)\<lparr>cr_error_code := Some (error_code_of e), cr_error_message := Some (take 1000 (error_text_of e))\<rparr>"

definition undo_commit :: "cs_env \<Rightarrow> path \<Rightarrow> path \<Rightarrow> string \<Rightarrow> unit cs_step" where
  "undo_commit env repo dir before =
     and_then (restore env repo dir) (\<lambda>_.
     and_then (workspace_tree env repo) (\<lambda>h.
     cs_check (h = before) ''CHANGE_SET_RECOVERY_REQUIRED'' ''rollback did not restore the before tree''))"

definition commit_failed :: "cs_env \<Rightarrow> string \<Rightarrow> cs_row \<Rightarrow> path \<Rightarrow> path \<Rightarrow> cs_error \<Rightarrow> (string \<times> json) list cs_step" where
  "commit_failed env csid r repo dir original w =
     (case undo_commit env repo dir (cr_before r) w of
        (w, Inl recovery) \<Rightarrow>
          and_then (modify (update_set csid (mark_recovery (error_text_of recovery) (now_iso env)))) (\<lambda>_.
          and_then (journal env csid ''recovery_required'') (\<lambda>_.
          cs_fail ''CHANGE_SET_RECOVERY_REQUIRED'' ''commit failed and rollback could not be proven'')) w
      | (w, Inr _) \<Rightarrow>
          and_then (modify (update_set csid (mark_rolled_back original (now_iso env)))) (\<lambda>_.
          and_then (journal env csid ''rolled_back'') (\<lambda>_.
          raise_error (after_rollback original))) w)"

text \<open>The guards of \<open>commit\<close> on a record that is not committed yet.\<close>

definition commit_guards :: "cs_env \<Rightarrow> cs_row \<Rightarrow> string \<Rightarrow> string option \<Rightarrow> path cs_step" where
  "commit_guards env r digest expected_tree =
     and_then (cs_check (cr_status r = ''validated'')
        (if cr_status r = ''open'' then ''CHANGE_SET_NOT_VALIDATED'' else ''CHANGE_SET_INVALID_STATE'') (''change set is '' @ cr_status r)) (\<lambda>_.
     and_then (cs_check (cr_validated r = Some digest \<and> cr_after r \<noteq> None \<and> cr_after r \<noteq> Some [])
        ''CHANGE_SET_NOT_VALIDATED'' ''validated digest is stale or invalid'') (\<lambda>_.
     and_then (cs_check (expected_tree = None \<or> expected_tree = Some [] \<or> expected_tree = Some (cr_before r))
        ''CHANGE_SET_CONFLICT'' ''expected_workspace_tree does not match the captured before tree'') (\<lambda>_.
     and_then (workspace_of (cr_workspace r)) (\<lambda>(_, repo).
     and_then (workspace_tree env repo) (\<lambda>actual.
     if actual \<noteq> cr_before r
     then raise_error (Change_set_error ''CHANGE_SET_CONFLICT'' ''workspace changed since this change set began''
            [(''expected_tree'', JStr (cr_before r)), (''actual_tree'', JStr actual)])
     else done_with repo)))))"

definition commit_set :: "cs_env \<Rightarrow> string \<Rightarrow> string \<Rightarrow> string option \<Rightarrow> (string \<times> json) list cs_step" where
  "commit_set env csid digest expected_tree =
     and_then (get_set csid) (\<lambda>r.
     if cr_status r = ''committed'' then
       (if cr_validated r \<noteq> Some digest then cs_fail ''IDEMPOTENCY_CONFLICT'' ''validated digest differs''
        else and_then (get_summary env csid) (\<lambda>s. done_with (AList.update ''idempotent_replay'' (JBool True) s)))
     else
     and_then (commit_guards env r digest expected_tree) (\<lambda>repo.
     and_then (directory_of env csid) (\<lambda>dir.
     and_then (read_world (stored_manifest csid)) (\<lambda>fs.
     and_then (snapshot_rollback env repo dir fs) (\<lambda>_.
     and_then (modify (update_set csid (\<lambda>q. q\<lparr>cr_status := ''committing'', cr_updated := now_iso env\<rparr>))) (\<lambda>_.
     and_then (journal env csid ''commit_intent'') (\<lambda>_.
     and_then (read_world (\<lambda>w. disk_bytes (cw_disk w) (dir @ [''final.patch'']))) (\<lambda>final.
     case final of
       None \<Rightarrow> raise_error (Other_error ''FileNotFoundError'')
     | Some patch \<Rightarrow> on_error (commit_body env csid r repo patch) (commit_failed env csid r repo dir)))))))))"

subsection \<open>Rolling back\<close>

text \<open>What \<open>rollback\<close> decides from the status it reads: a replay, an error, or to go on.\<close>

definition rollback_refusal :: "string \<Rightarrow> cs_error option" where
  "rollback_refusal status =
     (if status = ''committed'' then Some (Change_set_error ''CHANGE_SET_ALREADY_COMMITTED''
         ''a committed change set cannot be rolled back; create an inverse change set'' [])
      else if status \<in> set [''committing'', ''recovery_required'']
        then Some (Change_set_error ''CHANGE_SET_RECOVERY_REQUIRED'' ''change set requires recovery reconciliation'' [])
      else if status = ''expired'' then Some (Change_set_error ''CHANGE_SET_EXPIRED'' ''change set has expired'' [])
      else None)"

definition mark_abandoned :: "string \<Rightarrow> cs_row \<Rightarrow> cs_row" where
  "mark_abandoned now r = (close_as ''rolled_back'' now r)\<lparr>cr_validated := None, cr_after := None\<rparr>"

text \<open>The unconditional writes that follow.\<close>

definition rollback_write :: "cs_env \<Rightarrow> string \<Rightarrow> (string \<times> json) list cs_step" where
  "rollback_write env csid =
     and_then (modify (update_set csid (mark_abandoned (now_iso env)))) (\<lambda>_.
     and_then (drop_staging env csid) (\<lambda>_.
     and_then (journal env csid ''rolled_back'') (\<lambda>_.
     get_summary env csid)))"

definition rollback_set :: "cs_env \<Rightarrow> string \<Rightarrow> (string \<times> json) list cs_step" where
  "rollback_set env csid =
     and_then (get_set csid) (\<lambda>r.
     if cr_status r = ''rolled_back'' then and_then (get_summary env csid) (\<lambda>s. done_with (AList.update ''idempotent_replay'' (JBool True) s))
     else case rollback_refusal (cr_status r) of
       Some e \<Rightarrow> raise_error e
     | None \<Rightarrow> rollback_write env csid)"

subsection \<open>Reconciliation after a crash\<close>

record reconcile_counts =
  rn_committed :: nat
  rn_rolled_back :: nat
  rn_recovery :: nat

definition count_status :: "string \<Rightarrow> reconcile_counts \<Rightarrow> reconcile_counts" where
  "count_status status c =
     (if status = ''committed'' then c\<lparr>rn_committed := Suc (rn_committed c)\<rparr>
      else if status = ''rolled_back'' then c\<lparr>rn_rolled_back := Suc (rn_rolled_back c)\<rparr>
      else c\<lparr>rn_recovery := Suc (rn_recovery c)\<rparr>)"

definition settled_status :: "cs_env \<Rightarrow> string \<Rightarrow> cs_row \<Rightarrow> path \<Rightarrow> string cs_step" where
  "settled_status env csid r repo =
     and_then (workspace_tree env repo) (\<lambda>current.
     if Some current = cr_after r then done_with ''committed''
     else if current = cr_before r then done_with ''rolled_back''
     else on_error
       (and_then (directory_of env csid) (\<lambda>dir.
        and_then (restore env repo dir) (\<lambda>_.
        and_then (workspace_tree env repo) (\<lambda>h.
        and_then (check_that (h = cr_before r) (Other_error ''before tree was not restored'')) (\<lambda>_. done_with ''rolled_back'')))))
       (\<lambda>_. done_with ''recovery_required''))"

definition mark_settled :: "string \<Rightarrow> string \<Rightarrow> cs_row \<Rightarrow> cs_row" where
  "mark_settled status now r = r\<lparr>cr_status := status, cr_phase := Some status, cr_updated := now,
     cr_closed_at := (if status \<noteq> ''recovery_required'' then Some now else cr_closed_at r)\<rparr>"

definition mark_unsettled :: "string \<Rightarrow> cs_row \<Rightarrow> cs_row" where
  "mark_unsettled now r = r\<lparr>cr_status := ''recovery_required'', cr_phase := Some ''recovery_required'', cr_updated := now\<rparr>"

definition reconcile_one :: "cs_env \<Rightarrow> string \<Rightarrow> cs_row \<Rightarrow> string cs_step" where
  "reconcile_one env csid r =
     on_error
       (and_then (workspace_of (cr_workspace r)) (\<lambda>(_, repo).
        and_then (settled_status env csid r repo) (\<lambda>status.
        and_then (modify (update_set csid (mark_settled status (now_iso env)))) (\<lambda>_.
        and_then (journal env csid status) (\<lambda>_. done_with status)))))
       (\<lambda>_. and_then (modify (update_set csid (mark_unsettled (now_iso env)))) (\<lambda>_. done_with ''recovery_required''))"

fun reconcile_rows :: "cs_env \<Rightarrow> (string \<times> cs_row) list \<Rightarrow> reconcile_counts \<Rightarrow> cs_world \<Rightarrow> cs_world \<times> reconcile_counts" where
  "reconcile_rows env [] c w = (w, c)"
| "reconcile_rows env ((csid, r) # rows) c w =
     (case reconcile_one env csid r w of
        (w', Inr status) \<Rightarrow> reconcile_rows env rows (count_status status c) w'
      | (w', Inl _) \<Rightarrow> reconcile_rows env rows c w')"

definition reconcile_incomplete :: "cs_env \<Rightarrow> cs_world \<Rightarrow> cs_world \<times> reconcile_counts" where
  "reconcile_incomplete env w =
     reconcile_rows env (filter (\<lambda>e. cr_status (snd e) = ''committing'') (cw_sets w))
       \<lparr>rn_committed = 0, rn_rolled_back = 0, rn_recovery = 0\<rparr> w"

subsection \<open>Cleanup\<close>

text \<open>One row of \<open>cleanup_expired\<close>: how many were expired and how many directories removed.\<close>

definition cleanup_one :: "cs_env \<Rightarrow> string \<Rightarrow> cs_row \<Rightarrow> (nat \<times> nat) cs_step" where
  "cleanup_one env csid r =
     (if is_open r then
        (if ce_time env (cr_expires r) > ce_now env then done_with (0, 0)
         else and_then (modify (update_set_if csid is_open (close_as ''expired'' (now_iso env)))) (\<lambda>_.
              and_then (drop_staging env csid) (\<lambda>_. done_with (1, 0))))
      else case cr_closed_at r of
        None \<Rightarrow> done_with (0, 0)
      | Some t \<Rightarrow>
          if t \<noteq> [] \<and> ce_time env t \<le> ce_now env - 3600 * ck_retain_hours (ce_cfg env)
          then and_then (directory_of env csid) (\<lambda>d. and_then (modify (remove_dir d)) (\<lambda>_. done_with (0, 1)))
          else done_with (0, 0))"

fun cleanup_rows :: "cs_env \<Rightarrow> (string \<times> cs_row) list \<Rightarrow> (nat \<times> nat) cs_step" where
  "cleanup_rows env [] = done_with (0, 0)"
| "cleanup_rows env ((csid, r) # rows) =
     and_then (cleanup_one env csid r) (\<lambda>(e, c).
     and_then (cleanup_rows env rows) (\<lambda>(e', c'). done_with (e + e', c + c')))"

definition cleanup_expired :: "cs_env \<Rightarrow> (nat \<times> nat) cs_step" where
  "cleanup_expired env =
     and_then (read_world (\<lambda>w. filter (\<lambda>e. cr_status (snd e) \<in> set [''open'', ''validated'', ''committed'', ''rolled_back'', ''expired'']) (cw_sets w)))
       (cleanup_rows env)"

definition assert_workspace_discardable :: "string \<Rightarrow> unit cs_step" where
  "assert_workspace_discardable wid w =
     (case find (\<lambda>e. cr_workspace (snd e) = wid \<and> cr_status (snd e) \<in> set active_statuses) (cw_sets w) of
        None \<Rightarrow> (w, Inr ())
      | Some (csid, r) \<Rightarrow> (w, Inl (Change_set_error ''CHANGE_SET_INVALID_STATE''
          (''workspace has an active change set ('' @ cr_status r @ ''): '' @ csid) [])))"

definition delete_terminal_data :: "cs_env \<Rightarrow> string \<Rightarrow> unit cs_step" where
  "delete_terminal_data env wid =
     and_then (read_world (\<lambda>w. map fst (filter (\<lambda>e. cr_workspace (snd e) = wid \<and> cr_status (snd e) \<in> set terminal_statuses) (cw_sets w))))
       (for_each (\<lambda>csid. and_then (directory_of env csid) (\<lambda>d. modify (remove_dir d))))"

end
