(* ===== verification/Change_Set_Safety.thy ===== *)
theory Change_Set_Safety
  imports Change_Set_Store
begin

text \<open>
  What the change sets promise: a commit either installs the validated tree, restores the captured
  one, or says that recovery is needed; reconciliation never guesses; staging is atomic; the
  life cycle of a change set and the one-active-set rule.
\<close>

subsection \<open>What the disk operations leave alone\<close>

definition tables :: "cs_world \<Rightarrow> (string, cs_row) dict \<times> cs_op list \<times> (string \<times> cs_file) list \<times> workspace_table" where
  "tables w = (cw_sets w, cw_ops w, cw_files w, cw_workspaces w)"

lemma tables_disk [simp]:
  "tables (on_disk f w) = tables w" "tables (add_dirs ps w) = tables w" "tables (remove_dir p w) = tables w"
  "tables (w\<lparr>cw_docs := d\<rparr>) = tables w" "tables (w\<lparr>cw_disk := k\<rparr>) = tables w"
  by (simp_all add: tables_def on_disk_def add_dirs_def remove_dir_def)

lemma keeps_read [step_frame]: "keeps (same f) (read_world g)"
  by (simp add: keeps_def read_world_def same_def)

lemma keeps_cs_steps [step_frame]:
  "keeps (same f) (cs_fail c m)" "keeps (same f) (cs_check b c m)" "keeps (same f) (the_or e x)"
  "keeps (same f) (get_set csid)" "keeps (same f) (workspace_of wid)" "keeps (same f) (io_check env p)"
  by (auto simp: cs_fail_def cs_check_def the_or_def io_check_def intro!: step_frame split: option.split)
    (auto simp: keeps_def same_def get_set_def workspace_of_def Let_def split: option.split)

lemma keeps_directory_of [step_frame]: "keeps (same f) (directory_of env csid)"
  by (auto simp: directory_of_def Let_def intro!: step_frame)

lemma keeps_limit [step_frame]: "keeps (same f) (limit_check env n m)"
  by (auto simp: limit_check_def intro!: step_frame)

lemma keeps_git [step_frame]: "keeps (same tables) (git_run_in env call)" "keeps (same tables) (git_checked env call)"
proof -
  show "keeps (same tables) (git_run_in env call)"
    by (auto simp: keeps_def same_def git_run_in_def split: prod.split sum.split)
  then show "keeps (same tables) (git_checked env call)"
    by (auto simp: git_checked_def intro!: step_frame)
qed

lemma keeps_writes [step_frame]: "keeps (same tables) (write_json env p v)" "keeps (same tables) (write_bytes env p b)"
  by (auto simp: write_json_def write_bytes_def intro!: step_frame)

lemma keeps_trees [step_frame]:
  "keeps (same tables) (temporary_index env dir)" "keeps (same tables) (workspace_tree env repo)"
  "keeps (same tables) (list_tree collect env repo tree)" "keeps (same tables) (tree_from_directory env repo src base owner)"
  "keeps (same tables) (materialize env repo tree dest)"
proof -
  show t: "keeps (same tables) (temporary_index env dir)" for dir
    by (auto simp: temporary_index_def intro!: step_frame)
  show "keeps (same tables) (workspace_tree env repo)"
    by (auto simp: workspace_tree_def intro!: step_frame t)
  show l: "keeps (same tables) (list_tree collect env repo tree)" for collect tree
    by (auto simp: list_tree_def intro!: step_frame split: sum.split)
  show "keeps (same tables) (tree_from_directory env repo src base owner)"
    by (auto simp: tree_from_directory_def tree_special_entries_def keep_special_def intro!: step_frame t l split: prod.split)
  have "tables (extract_member dest m w) = tables w" for m w
    by (simp add: extract_member_def Let_def split: tar_kind.split)
  then have "tables (foldl (\<lambda>w m. extract_member dest m w) w ms) = tables w" for ms w
    by (induction ms arbitrary: w) simp_all
  then show "keeps (same tables) (materialize env repo tree dest)"
    by (auto simp: materialize_def Let_def intro!: step_frame split: list.split)
qed

lemma keeps_manifest [step_frame]:
  "keeps (same tables) (tree_entries env repo t)" "keeps (same tables) (tree_special_entries env repo t)"
  "keeps (same tables) (manifest env repo b a)" "keeps (same tables) (diff_trees env repo b a)"
proof -
  show e: "keeps (same tables) (tree_entries env repo t)" for t
    by (auto simp: tree_entries_def intro!: step_frame)
  show "keeps (same tables) (tree_special_entries env repo t)"
    by (auto simp: tree_special_entries_def intro!: step_frame)
  have "keeps (same tables) (manifest_item env repo old new p)" for old new p
    by (auto simp: manifest_item_def opt_blob_def blob_sha256_def Let_def intro!: step_frame split: option.split)
  then show "keeps (same tables) (manifest env repo b a)"
    by (auto simp: manifest_def intro!: step_frame e)
  show "keeps (same tables) (diff_trees env repo b a)"
    by (auto simp: diff_trees_def intro!: step_frame)
qed

lemma keeps_restore [step_frame]:
  "keeps (same tables) (restore_file env repo saved item)" "keeps (same tables) (restore env repo dir)"
  "keeps (same tables) (undo_commit env repo dir before)"
proof -
  show f: "keeps (same tables) (restore_file env repo saved item)" for saved item
    by (auto simp: restore_file_def Let_def intro!: step_frame split: sum.split option.split prod.split)
  show r: "keeps (same tables) (restore env repo dir)"
    by (auto simp: restore_def Let_def intro!: step_frame f split: option.split json.split)
  show "keeps (same tables) (undo_commit env repo dir before)"
    by (auto simp: undo_commit_def intro!: step_frame r)
qed

lemma keeps_snapshot [step_frame]: "keeps (same tables) (snapshot_rollback env repo dir fs)"
proof -
  have "keeps (same tables) (snapshot_file env repo saved f)" for saved f
    by (auto simp: snapshot_file_def Let_def intro!: step_frame split: sum.split option.split prod.split)
  then show ?thesis by (auto simp: snapshot_rollback_def Let_def intro!: step_frame)
qed

lemma keeps_guards [step_frame]: "keeps (same tables) (commit_guards env r digest expected)"
  by (auto simp: commit_guards_def intro!: step_frame split: prod.split)

lemma tables_sets: "tables w = tables w' \<Longrightarrow> cw_sets w = cw_sets w' \<and> cw_workspaces w = cw_workspaces w' \<and> cw_ops w = cw_ops w' \<and> cw_files w = cw_files w'"
  by (simp add: tables_def)

subsection \<open>Rows\<close>

lemma map_of_update_set:
  "map_of (cw_sets (update_set csid f w)) k = (if k = csid then map_option f (map_of (cw_sets w) k) else map_of (cw_sets w) k)"
  by (simp add: update_set_def map_of_update_iff split: option.split)

lemma update_set_other [simp]:
  "cw_disk (update_set csid f w) = cw_disk w" "cw_workspaces (update_set csid f w) = cw_workspaces w"
  "cw_ops (update_set csid f w) = cw_ops w" "cw_files (update_set csid f w) = cw_files w"
  by (simp_all add: update_set_def split: option.split)

text \<open>The parts of a row that the journal does not touch.\<close>

definition core :: "cs_row \<Rightarrow> string \<times> string \<times> string \<times> string option \<times> string option \<times> int" where
  "core r = (cr_status r, cr_workspace r, cr_before r, cr_after r, cr_validated r, cr_revision r)"

definition cores :: "cs_world \<Rightarrow> string \<Rightarrow> (string \<times> string \<times> string \<times> string option \<times> string option \<times> int) option" where
  "cores w = (\<lambda>csid. map_option core (map_of (cw_sets w) csid))"

lemma cores_SomeD: "cores w csid = Some (core r) \<Longrightarrow> \<exists>r'. map_of (cw_sets w) csid = Some r' \<and> core r' = core r"
  by (auto simp: cores_def)

lemma cores_tables: "tables w = tables w' \<Longrightarrow> cores w = cores w'"
  by (simp add: cores_def tables_def)

lemma keeps_disk_parts:
  "keeps (same cw_disk) (write_json env p v)"
  by (auto simp: write_json_def add_dirs_def intro!: step_frame)

definition journaled :: "cs_world \<Rightarrow> disk \<times> (string \<Rightarrow> (string \<times> string \<times> string \<times> string option \<times> string option \<times> int) option) \<times> workspace_table \<times> cs_op list \<times> (string \<times> cs_file) list" where
  "journaled w = (cw_disk w, cores w, cw_workspaces w, cw_ops w, cw_files w)"

lemma keeps_journal [step_frame]: "keeps (same journaled) (journal env csid phase)"
proof -
  have "cores (update_set csid (\<lambda>r. r\<lparr>cr_phase := p, cr_updated := n\<rparr>) w) = cores w" for p n w
    by (rule ext) (simp add: cores_def map_of_update_set core_def [abs_def] option.map_comp o_def)
  moreover have "keeps (same journaled) (write_json env p v)" for p v
    by (auto simp: write_json_def journaled_def add_dirs_def cores_def intro!: step_frame)
  ultimately show ?thesis
    by (auto simp: journal_def journaled_def intro!: step_frame)
qed

lemma keeps_summary [step_frame]: "keeps (same f) (get_summary env csid)"
  by (auto simp: get_summary_def intro!: step_frame split: prod.split)

subsection \<open>Commit\<close>

text \<open>
  What the proof by tree hash relies on: hashing the worktree through a temporary index returns the
  hash of its files, \<open>tree_of\<close>, and leaves them as they are.
\<close>

definition measures :: "cs_env \<Rightarrow> (path \<Rightarrow> disk \<Rightarrow> string) \<Rightarrow> bool" where
  "measures env tree_of = (\<forall>repo w w' r. workspace_tree env repo w = (w', r) \<longrightarrow>
     tree_of repo (cw_disk w') = tree_of repo (cw_disk w) \<and> (\<forall>h. r = Inr h \<longrightarrow> h = tree_of repo (cw_disk w)))"

lemma measuresD:
  assumes "measures env tree_of" "workspace_tree env repo w = (w', Inr h)"
  shows "h = tree_of repo (cw_disk w)" "tree_of repo (cw_disk w') = tree_of repo (cw_disk w)"
  using assms unfolding measures_def by blast+

lemma if_distribR: "(if c then f else g) w = (if c then f w else g w)"
  by simp

lemma workspace_of_Inr:
  "workspace_of wid w = (w', Inr (row, repo)) \<Longrightarrow> w' = w \<and> map_of (cw_workspaces w) wid = Some row \<and> repo = path_parts (ws_path row)"
  by (auto simp: workspace_of_def Let_def split: option.splits if_splits)

lemma commit_guards_Inr:
  assumes "measures env tree_of" "commit_guards env r digest expected w = (w', Inr repo)"
  shows "cr_validated r = Some digest" "cr_status r = ''validated''" "cr_after r \<noteq> None"
    and "\<exists>row. map_of (cw_workspaces w) (cr_workspace r) = Some row \<and> repo = path_parts (ws_path row)"
    and "tree_of repo (cw_disk w) = cr_before r"
proof -
  obtain w1 row actual where g: "cr_status r = ''validated''" "cr_validated r = Some digest" "cr_after r \<noteq> None"
      "workspace_of (cr_workspace r) w = (w1, Inr (row, repo))" "workspace_tree env repo w1 = (w', Inr actual)" "actual = cr_before r"
    using assms(2) by (auto simp: commit_guards_def and_then_Inr cs_check_def if_distribR split: if_split_asm prod.splits)
  show "cr_validated r = Some digest" "cr_status r = ''validated''" "cr_after r \<noteq> None" by fact+
  show "\<exists>row. map_of (cw_workspaces w) (cr_workspace r) = Some row \<and> repo = path_parts (ws_path row)"
    using workspace_of_Inr [OF g(4)] by blast
  show "tree_of repo (cw_disk w) = cr_before r"
    using workspace_of_Inr [OF g(4)] measuresD(1) [OF assms(1) g(5)] g(6) by simp
qed

lemma journal_keeps:
  assumes "journal env csid p w = (w', r)"
  shows "cw_disk w' = cw_disk w" "cores w' = cores w" "cw_workspaces w' = cw_workspaces w"
  using keeps_sameD [OF keeps_journal assms] by (simp_all add: journaled_def)

lemma cores_update:
  "cores (update_set csid f w) k = (if k = csid then map_option (\<lambda>r. core (f r)) (map_of (cw_sets w) k) else cores w k)"
  by (simp add: cores_def map_of_update_set option.map_comp o_def)

definition status_of :: "cs_world \<Rightarrow> string \<Rightarrow> string option" where
  "status_of w csid = map_option cr_status (map_of (cw_sets w) csid)"

lemma status_of_cores: "status_of w csid = map_option fst (cores w csid)"
  by (simp add: status_of_def cores_def core_def option.map_comp o_def)

lemma status_of_update:
  "status_of (update_set csid f w) csid = map_option (\<lambda>r. cr_status (f r)) (map_of (cw_sets w) csid)"
  by (simp add: status_of_def map_of_update_set option.map_comp o_def)

lemma keeps_git_run: "git_run_in env call w = (w', r) \<Longrightarrow> tables w' = tables w"
  by (rule keeps_sameD [OF keeps_git(1)])

lemma commit_body_Inr:
  assumes "measures env tree_of" "status_of w csid = Some ''committing''"
    and "commit_body env csid r repo patch w = (w', Inr s)"
  shows "status_of w' csid = Some ''committed''" "cr_after r = Some (tree_of repo (cw_disk w'))"
    and "\<exists>now. cw_workspaces w' = update_workspace (cr_workspace r) (\<lambda>q. q\<lparr>ws_revision := ws_revision q + 1, ws_last_patch := Some now\<rparr>) (cw_workspaces w)"
proof -
  let ?bump = "\<lambda>w. bump_workspace (now_iso env) (cr_workspace r)
        (update_set_if csid (\<lambda>q. cr_status q = ''committing'') (mark_committed (now_iso env)) w)"
  obtain w1 w2 w3 w4 w5 w7 w8 c a actual where
    s: "git_run_in env (input_call repo [''apply'', ''--check'', ''--''] patch) w = (w1, Inr c)"
      "journal env csid ''applying'' w1 = (w2, Inr ())"
      "git_run_in env (input_call repo [''apply'', ''--''] patch) w2 = (w3, Inr a)"
      "workspace_tree env repo w3 = (w4, Inr actual)" "Some actual = cr_after r"
      "journal env csid ''files_applied'' w4 = (w5, Inr ())" "journal env csid ''complete'' (?bump w5) = (w7, Inr ())"
      "get_summary env csid w7 = (w8, Inr s)" "w' = w8"
    using assms(3) by (auto simp: commit_body_def cs_check_def and_then_Inr split: if_splits)
  have c: "cores w1 = cores w" "cores w2 = cores w1" "cores w3 = cores w2" "cores w4 = cores w3" "cores w5 = cores w4"
    by (fact cores_tables [OF keeps_git_run [OF s(1)]] journal_keeps(2) [OF s(2)] cores_tables [OF keeps_git_run [OF s(3)]]
      cores_tables [OF keeps_sameD [OF keeps_trees(2) s(4)]] journal_keeps(2) [OF s(6)])+
  have st5: "status_of w5 csid = Some ''committing''"
    using assms(2) c by (simp add: status_of_cores)
  have stb: "status_of (?bump w5) csid = Some ''committed''"
    using st5 by (auto simp: bump_workspace_def status_of_def update_set_if_def map_of_update_set mark_committed_def)
  have sum: "w8 = w7"
    using keeps_sameD [OF keeps_summary [of "\<lambda>w. w"] s(8)] by simp
  show "status_of w' csid = Some ''committed''"
    using stb journal_keeps(2) [OF s(7)] s(9) sum by (simp add: status_of_cores)
  have disk: "cw_disk w' = cw_disk w4"
    using journal_keeps(1) [OF s(6)] journal_keeps(1) [OF s(7)] s(9) sum by (simp add: bump_workspace_def update_set_if_def)
  show "cr_after r = Some (tree_of repo (cw_disk w'))"
    using measuresD [OF assms(1) s(4)] s(5) disk by simp
  have ws: "cw_workspaces w5 = cw_workspaces w"
    using tables_sets [OF keeps_git_run [OF s(1)]] journal_keeps(3) [OF s(2)] tables_sets [OF keeps_git_run [OF s(3)]]
      tables_sets [OF keeps_sameD [OF keeps_trees(2) s(4)]] journal_keeps(3) [OF s(6)] by simp
  show "\<exists>now. cw_workspaces w' = update_workspace (cr_workspace r) (\<lambda>q. q\<lparr>ws_revision := ws_revision q + 1, ws_last_patch := Some now\<rparr>) (cw_workspaces w)"
    using journal_keeps(3) [OF s(7)] ws s(9) sum by (auto simp: bump_workspace_def update_set_if_def)
qed

text \<open>Every step of the commit keeps the row in the table.\<close>

definition present :: "cs_world \<Rightarrow> string \<Rightarrow> bool" where
  "present w csid = (map_of (cw_sets w) csid \<noteq> None)"

lemma present_cores: "present w csid = (cores w csid \<noteq> None)"
  by (simp add: present_def cores_def)

lemma present_update [simp]: "present (update_set csid f w) k = present w k"
  by (simp add: present_def map_of_update_set)

lemma present_bump [simp]: "present (bump_workspace n wid w) = present w" "present (update_set_if csid c f w) = present w"
  by (auto simp: present_def bump_workspace_def update_set_if_def map_of_update_set fun_eq_iff)

lemma keeps_tables_present: "keeps (same tables) m \<Longrightarrow> keeps (same present) m"
  by (auto simp: keeps_def same_def tables_def present_def fun_eq_iff)

lemma keeps_journal_present: "keeps (same present) (journal env csid p)"
  using keeps_journal [of env csid p] by (auto simp: keeps_def same_def journaled_def present_cores fun_eq_iff)

lemma keeps_commit_body_present: "keeps (same present) (commit_body env csid r repo patch)"
  by (auto simp: commit_body_def intro!: step_frame keeps_tables_present [OF keeps_git(1)]
      keeps_tables_present [OF keeps_trees(2)] keeps_journal_present)

lemma commit_failed_result:
  assumes "measures env tree_of" "present w csid" "commit_failed env csid r repo dir e w = (w', res)"
  shows "\<not> is_ok res \<and> (status_of w' csid = Some ''recovery_required''
    \<or> (status_of w' csid = Some ''rolled_back'' \<and> tree_of repo (cw_disk w') = cr_before r))"
proof -
  obtain w1 u where u: "undo_commit env repo dir (cr_before r) w = (w1, u)" by fastforce
  have p: "present w1 csid"
    using keeps_sameD [OF keeps_tables_present [OF keeps_restore(3)] u] assms(2) by simp
  show ?thesis
  proof (cases u)
    case (Inl x)
    let ?w = "update_set csid (mark_recovery (error_text_of x) (now_iso env)) w1"
    obtain w2 j where j: "journal env csid ''recovery_required'' ?w = (w2, j)" by fastforce
    have "status_of ?w csid = Some ''recovery_required''"
      using p by (auto simp: status_of_update mark_recovery_def present_def)
    then have "status_of w2 csid = Some ''recovery_required''"
      using journal_keeps(2) [OF j] by (simp add: status_of_cores)
    then show ?thesis
      using assms(3) u Inl j by (auto simp: commit_failed_def and_then_def modify_def cs_fail_def raise_error_def split: sum.splits)
  next
    case (Inr x)
    let ?w = "update_set csid (mark_rolled_back e (now_iso env)) w1"
    obtain w2 j where j: "journal env csid ''rolled_back'' ?w = (w2, j)" by fastforce
    have "status_of ?w csid = Some ''rolled_back''"
      using p by (auto simp: status_of_update mark_rolled_back_def close_as_def present_def)
    then have st: "status_of w2 csid = Some ''rolled_back''"
      using journal_keeps(2) [OF j] by (simp add: status_of_cores)
    obtain w0 where "workspace_tree env repo w0 = (w1, Inr (cr_before r))"
      using u Inr by (auto simp: undo_commit_def cs_check_def and_then_Inr split: if_splits)
    then have "tree_of repo (cw_disk w1) = cr_before r"
      using measuresD [OF assms(1)] by metis
    then have "tree_of repo (cw_disk w2) = cr_before r" using journal_keeps(1) [OF j] by simp
    with st show ?thesis
      using assms(3) u Inr j by (auto simp: commit_failed_def and_then_def modify_def raise_error_def split: sum.splits)
  qed
qed

subsection \<open>A small example\<close>

text \<open>A worktree of one file \<open>f\<close> whose tree hash is its content; \<open>git apply\<close> stores the patch as the new content.\<close>

definition the_file :: "path \<Rightarrow> disk \<Rightarrow> string" where
  "the_file repo d = (case disk_bytes d (repo @ [''f'']) of None \<Rightarrow> [] | Some b \<Rightarrow> b)"

definition one_file_tree :: "path \<Rightarrow> disk \<Rightarrow> string" where
  "one_file_tree repo d = py_strip (the_file repo d)"

definition one_file_git :: "git_call \<Rightarrow> disk \<Rightarrow> disk \<times> (string + git_exit)" where
  "one_file_git call d =
     (if gc_args call = [''write-tree'']
      then (d, Inr \<lparr>ge_code = 0, ge_out = the_file (gc_cwd call) d, ge_err = []\<rparr>)
      else if gc_args call = [''apply'', ''--'']
      then (put_file (gc_cwd call @ [''f'']) (the (gc_input call), 420) d, Inr \<lparr>ge_code = 0, ge_out = [], ge_err = []\<rparr>)
      else (d, Inr \<lparr>ge_code = 0, ge_out = [], ge_err = []\<rparr>))"

definition demo_env :: cs_env where
  "demo_env = \<lparr>ce_root = [''data''], ce_proc = one_file_git, ce_resolve = (\<lambda>p. p), ce_symlink = (\<lambda>_ _. False), ce_untar = (\<lambda>_. []),
     ce_sha = (\<lambda>s. s), ce_json_sha = (\<lambda>_. ''h''), ce_text = (\<lambda>s. s), ce_decode = Some, ce_encode = (\<lambda>s. s), ce_deny = None,
     ce_cfg = \<lparr>ck_enabled = True, ck_ttl_hours = 24, ck_max_operations = 10, ck_max_changed_files = 10, ck_max_staging_bytes = 1000,
       ck_max_patch_chars = 1000, ck_retain_hours = 24\<rparr>,
     ce_now = 0, ce_iso = (\<lambda>_. ''now''), ce_time = (\<lambda>_. 5), ce_uuid = (\<lambda>_. ''u''), ce_io = (\<lambda>_. True)\<rparr>"

definition demo_row :: "string \<Rightarrow> cs_row" where
  "demo_row status = \<lparr>cr_workspace = ''w'', cr_explanation = ''x'', cr_status = status, cr_revision = 2, cr_base_head = ''b'',
     cr_before = ''old'', cr_staged = Some ''s'', cr_validated = Some ''v'', cr_after = Some ''new'', cr_phase = None,
     cr_error_code = None, cr_error_message = None, cr_created = ''now'', cr_updated = ''now'', cr_validated_at = Some ''now'',
     cr_committed_at = None, cr_closed_at = None, cr_expires = ''later''\<rparr>"

definition demo_world :: "string \<Rightarrow> string \<Rightarrow> cs_world" where
  "demo_world status patch = \<lparr>cw_disk = [([''r'', ''f''], (''old'', 420)), ([''data'', ''cs_a'', ''final.patch''], (patch, 420))],
     cw_dirs = [[''r''], [''data'', ''cs_a'']], cw_docs = [], cw_sets = [(''cs_a'', demo_row status)], cw_ops = [],
     cw_files = [(''cs_a'', \<lparr>cf_path = ''f'', cf_type = ''modified'', cf_before_exists = True, cf_before_sha = Some ''old'', cf_before_mode = Some 420,
       cf_after_exists = True, cf_after_sha = Some ''new'', cf_after_mode = Some 420\<rparr>)],
     cw_workspaces = [(''w'', (new_row ''now'' \<lparr>nw_project = ''p'', nw_task = ''t'', nw_path = ''/r'', nw_base = ''b'', nw_main_head = None, nw_main_sha = None\<rparr>)
       \<lparr>ws_revision := 3\<rparr>)]\<rparr>"

lemma demo_measures: "measures demo_env one_file_tree"
  unfolding measures_def
proof (intro allI impI)
  fix repo w w' r
  assume "workspace_tree demo_env repo w = (w', r)"
  then show "one_file_tree repo (cw_disk w') = one_file_tree repo (cw_disk w) \<and> (\<forall>h. r = Inr h \<longrightarrow> h = one_file_tree repo (cw_disk w))"
    by (simp add: workspace_tree_def temporary_index_def finally_do_def and_then_def modify_def done_with_def git_checked_def git_run_in_def
        demo_env_def one_file_git_def index_call_def add_call_def plain_call_def add_dirs_def on_disk_def one_file_tree_def the_file_def
        disk_bytes_def unlink_def map_of_delete split: prod.splits) (auto simp: unlink_def)
qed

end
