(* ===== verification/Change_Set_Commit.thy ===== *)
theory Change_Set_Commit
  imports Change_Set_Safety
begin

text \<open>
  The commit of a change set: it installs the validated tree, restores the captured one, or fails in a
  status that says that the worktree needs attention.
\<close>

text \<open>What the caller finds after a commit, in the row and in the files of the worktree.\<close>

definition commit_outcome :: "(path \<Rightarrow> disk \<Rightarrow> string) \<Rightarrow> string \<Rightarrow> cs_row \<Rightarrow> path \<Rightarrow> cs_world \<Rightarrow> bool \<Rightarrow> bool" where
  "commit_outcome tree_of csid r repo w' ok = (
     if status_of w' csid = Some ''committed'' then ok \<and> cr_after r = Some (tree_of repo (cw_disk w'))
     else \<not> ok \<and> (if status_of w' csid = Some ''rolled_back'' then tree_of repo (cw_disk w') = cr_before r
       else status_of w' csid \<in> {Some ''validated'', Some ''committing'', Some ''recovery_required''}))"

lemma commit_outcome_error:
  "status_of w' csid \<in> {Some ''validated'', Some ''committing'', Some ''recovery_required''} \<Longrightarrow> commit_outcome tree_of csid r repo w' False"
  by (auto simp: commit_outcome_def)

lemma commit_last:
  assumes "measures env tree_of" "status_of v csid = Some ''committing''"
    and "on_error (commit_body env csid r repo patch) (commit_failed env csid r repo dir) v = (w', res)"
  shows "commit_outcome tree_of csid r repo w' (is_ok res)"
  using assms(3)
proof (cases rule: on_errorE)
  case (fine s)
  then show ?thesis using commit_body_Inr [OF assms(1,2) fine(1)] by (simp add: commit_outcome_def)
next
  case (caught v1 e)
  have "present v csid" using assms(2) by (auto simp: present_def status_of_def)
  then have "present v1 csid" using keeps_sameD [OF keeps_commit_body_present caught(1)] by simp
  then show ?thesis using commit_failed_result [OF assms(1) _ caught(2)] by (auto simp: commit_outcome_def)
qed

text \<open>The steps of the commit once the guards have passed.\<close>

lemma commit_run:
  assumes "measures env tree_of" "map_of (cw_sets w) csid = Some r" "cr_status r = ''validated''" "tables w1 = tables w"
    and "and_then (directory_of env csid) (\<lambda>dir.
      and_then (read_world (stored_manifest csid)) (\<lambda>fs.
      and_then (snapshot_rollback env repo dir fs) (\<lambda>_.
      and_then (modify (update_set csid (\<lambda>q. q\<lparr>cr_status := ''committing'', cr_updated := now_iso env\<rparr>))) (\<lambda>_.
      and_then (journal env csid ''commit_intent'') (\<lambda>_.
      and_then (read_world (\<lambda>w. disk_bytes (cw_disk w) (dir @ [''final.patch'']))) (\<lambda>final.
      case final of
        None \<Rightarrow> raise_error (Other_error ''FileNotFoundError'')
      | Some patch \<Rightarrow> on_error (commit_body env csid r repo patch) (commit_failed env csid r repo dir))))))) w1 = (w', res)"
      (is "and_then _ (\<lambda>dir. and_then _ (\<lambda>fs. and_then _ (\<lambda>_. ?late dir))) _ = _")
  shows "commit_outcome tree_of csid r repo w' (is_ok res)"
proof -
  have early: "commit_outcome tree_of csid r repo v (is_ok (Inl e))" if "tables v = tables w" for v and e :: cs_error
    using assms(2,3) tables_sets [OF that] by (simp add: commit_outcome_error status_of_def)
  have late: "commit_outcome tree_of csid r repo w' (is_ok res)" if t: "tables v = tables w" and run: "?late dir v = (w', res)" for v dir
    using run
  proof (cases rule: and_thenE)
    case (went_on v1)
    have c: "status_of v1 csid = Some ''committing''"
      using went_on(1) assms(2) tables_sets [OF t] by (auto simp: status_of_update)
    from went_on(2) show ?thesis
    proof (cases rule: and_thenE)
      case (raised e)
      then show ?thesis using c journal_keeps(2) [OF raised(1)] by (simp add: commit_outcome_error status_of_cores)
    next
      case (went_on v2)
      have c2: "status_of v2 csid = Some ''committing''"
        using c journal_keeps(2) [OF went_on(1)] by (simp add: status_of_cores)
      show ?thesis
      proof (cases "disk_bytes (cw_disk v2) (dir @ [''final.patch''])")
        case None
        then show ?thesis using c2 went_on(2) by (auto simp: and_then_def read_world_def raise_error_def commit_outcome_error)
      next
        case (Some patch)
        then show ?thesis using commit_last [OF assms(1) c2] went_on(2) by (simp add: and_then_def read_world_def)
      qed
    qed
  qed simp
  from assms(5) show ?thesis
  proof (cases rule: and_thenE)
    case (raised e)
    then show ?thesis using early assms(4) keeps_sameD [where f = tables, OF keeps_directory_of raised(1)] by simp
  next
    case (went_on w2 dir)
    have t2: "tables w2 = tables w" using assms(4) keeps_sameD [where f = tables, OF keeps_directory_of went_on(1)] by simp
    from went_on(2) show ?thesis
    proof (cases rule: and_thenE)
      case (went_on w3 fs)
      have t3: "tables w3 = tables w" using t2 keeps_sameD [where f = tables, OF keeps_read went_on(1)] by simp
      from went_on(2) show ?thesis
      proof (cases rule: and_thenE)
        case (raised e)
        then show ?thesis using early t3 keeps_sameD [OF keeps_snapshot raised(1)] by simp
      next
        case (went_on w4)
        then show ?thesis using late t3 keeps_sameD [OF keeps_snapshot went_on(1)] by metis
      qed
    qed (simp add: read_world_def)
  qed
qed

lemma commit_set_run:
  assumes "map_of (cw_sets w) csid = Some r" "cr_status r = ''validated''" "commit_set env csid digest expected w = (w', res)"
  obtains (refused) e where "commit_guards env r digest expected w = (w', Inl e)" "res = Inl e"
    | (ran) w1 repo where "commit_guards env r digest expected w = (w1, Inr repo)"
        "\<And>tree_of. measures env tree_of \<Longrightarrow> commit_outcome tree_of csid r repo w' (is_ok res)"
proof -
  have g: "get_set csid w = (w, Inr r)" using assms(1) by (simp add: get_set_def)
  have n: "(cr_status r = ''committed'') = False" using assms(2) by simp
  note run = assms(3) [unfolded commit_set_def and_then_def [of "get_set csid"] g prod.case sum.case n if_False]
  show thesis
    using run
  proof (cases rule: and_thenE [where m = "commit_guards env r digest expected"])
    case (raised e)
    then show thesis by (rule refused)
  next
    case (went_on w1 repo)
    have t: "tables w1 = tables w" using keeps_sameD [OF keeps_guards went_on(1)] .
    show thesis by (rule ran [OF went_on(1)]) (rule commit_run [OF _ assms(1,2) t went_on(2)])
  qed
qed

lemma commit_refused_status:
  assumes "map_of (cw_sets w) csid = Some r" "commit_guards env r digest expected w = (w', Inl e)"
  shows "status_of w' csid = Some (cr_status r)"
  using tables_sets [OF keeps_sameD [OF keeps_guards assms(2)]] assms(1) by (simp add: status_of_def)



text \<open>C5. A commit of a validated change set succeeds only when the digest given is the validated one and the
worktree still had the captured before tree when the commit started (\<open>ChangeSetStore.commit\<close>).\<close>
theorem commit_only_as_validated:
  assumes "measures env tree_of" "map_of (cw_sets w) csid = Some r" "cr_status r = ''validated''"
    and "map_of (cw_workspaces w) (cr_workspace r) = Some row" "commit_set env csid digest expected w = (w', Inr s)"
  shows "cr_validated r = Some digest \<and> tree_of (path_parts (ws_path row)) (cw_disk w) = cr_before r"
  using assms(2,3,5)
proof (cases rule: commit_set_run)
  case (ran w1 repo)
  then show ?thesis using commit_guards_Inr [OF assms(1) ran(1)] assms(4) by auto
qed simp

lemma demo_commit_ok: "is_ok (snd (commit_set demo_env ''cs_a'' ''v'' None (demo_world ''validated'' ''new'')))"
  by code_simp

theorem commit_only_as_validated_witness:
  "cr_validated (demo_row ''validated'') = Some ''v'' \<and> one_file_tree [''r''] (cw_disk (demo_world ''validated'' ''new'')) = cr_before (demo_row ''validated'')"
proof -
  obtain w' s where run: "commit_set demo_env ''cs_a'' ''v'' None (demo_world ''validated'' ''new'') = (w', Inr s)"
    using demo_commit_ok by (cases "commit_set demo_env ''cs_a'' ''v'' None (demo_world ''validated'' ''new'')") (auto simp: is_ok_def split: sum.splits)
  have p: "path_parts (ws_path (snd (hd (cw_workspaces (demo_world ''validated'' ''new''))))) = [''r'']" by code_simp
  show ?thesis
    using commit_only_as_validated [OF demo_measures _ _ _ run, of "demo_row ''validated''" "snd (hd (cw_workspaces (demo_world ''validated'' ''new'')))"] p
    by (simp add: demo_world_def demo_row_def)
qed

end
