(* ===== verification/Change_Set_Recovery.thy ===== *)
theory Change_Set_Recovery
  imports Change_Set_Safety
begin

text \<open>
  Reconciliation of the change sets that a crash left in the middle of a commit: the status they get is
  proved by the tree hash, none of them is skipped, and no other record is touched.
\<close>


subsection \<open>Reconciliation\<close>

definition others :: "string \<Rightarrow> cs_world \<Rightarrow> string \<Rightarrow> cs_row option" where
  "others csid w = (\<lambda>k. if k = csid then None else map_of (cw_sets w) k)"

lemma keeps_others: "keeps (same tables) m \<Longrightarrow> keeps (same (others csid)) m"
  by (auto simp: keeps_def same_def tables_def others_def)

lemma others_update [simp]: "others csid (update_set csid f w) = others csid w"
  by (auto simp: others_def map_of_update_set)

lemma keeps_journal_others [step_frame]: "keeps (same (others csid)) (journal env csid p)"
  by (auto simp: journal_def intro!: step_frame keeps_others [OF keeps_writes(1)])

lemma keeps_settled [step_frame]: "keeps (same tables) (settled_status env csid r repo)"
  by (auto simp: settled_status_def intro!: step_frame)

lemma settled_statusD:
  assumes "measures env tree_of" "settled_status env csid r repo w = (w', Inr status)"
  shows "status = ''committed'' \<and> cr_after r = Some (tree_of repo (cw_disk w'))
    \<or> status = ''rolled_back'' \<and> tree_of repo (cw_disk w') = cr_before r \<or> status = ''recovery_required''"
proof -
  from assms(2) obtain w1 h where s: "workspace_tree env repo w = (w1, Inr h)"
    and rest: "(if Some h = cr_after r then done_with ''committed''
     else if h = cr_before r then done_with ''rolled_back''
     else on_error
       (and_then (directory_of env csid) (\<lambda>dir.
        and_then (restore env repo dir) (\<lambda>_.
        and_then (workspace_tree env repo) (\<lambda>h.
        and_then (check_that (h = cr_before r) (Other_error ''before tree was not restored'')) (\<lambda>_. done_with ''rolled_back'')))))
       (\<lambda>_. done_with ''recovery_required'')) w1 = (w', Inr status)"
    unfolding settled_status_def by (elim and_thenE) auto
  have h: "h = tree_of repo (cw_disk w1)" using measuresD [OF assms(1) s] by simp
  consider "Some h = cr_after r" "w' = w1" "status = ''committed''" | "h = cr_before r" "w' = w1" "status = ''rolled_back''"
    | "on_error
       (and_then (directory_of env csid) (\<lambda>dir.
        and_then (restore env repo dir) (\<lambda>_.
        and_then (workspace_tree env repo) (\<lambda>h.
        and_then (check_that (h = cr_before r) (Other_error ''before tree was not restored'')) (\<lambda>_. done_with ''rolled_back'')))))
       (\<lambda>_. done_with ''recovery_required'') w1 = (w', Inr status)"
    using rest by (auto split: if_splits)
  then show ?thesis
  proof cases
    case 3
    then show ?thesis
    proof (cases rule: on_errorE)
      case (fine x)
      then obtain w2 w3 where "workspace_tree env repo w2 = (w', Inr (cr_before r))" "status = ''rolled_back''"
        by (auto simp: and_then_Inr split: if_splits)
      then show ?thesis using measuresD [OF assms(1)] by metis
    qed simp
  qed (use h in auto)
qed

lemma keeps_reconcile_others: "keeps (same (others csid)) (reconcile_one env csid r)"
  by (auto simp: reconcile_one_def intro!: step_frame keeps_others [OF keeps_settled] split: prod.split)

text \<open>Reconciling one row never raises and stores the status it reports.\<close>

lemma reconcile_one_result:
  assumes "map_of (cw_sets w) csid = Some r0" "reconcile_one env csid r w = (w', res)"
  obtains (unsure) "res = Inr ''recovery_required''" "status_of w' csid = Some ''recovery_required''"
    | (settled) status row w2 where "res = Inr status" "status_of w' csid = Some status"
        "map_of (cw_workspaces w) (cr_workspace r) = Some row"
        "settled_status env csid r (path_parts (ws_path row)) w = (w2, Inr status)" "cw_disk w' = cw_disk w2"
  using assms(2) unfolding reconcile_one_def
proof (cases rule: on_errorE)
  case (fine status)
  then obtain row repo w1 w2 where s: "workspace_of (cr_workspace r) w = (w1, Inr (row, repo))"
      "settled_status env csid r repo w1 = (w2, Inr status)"
      "journal env csid status (update_set csid (mark_settled status (now_iso env)) w2) = (w', Inr ())"
    by (fastforce simp: and_then_Inr)
  have ws: "w1 = w" "map_of (cw_workspaces w) (cr_workspace r) = Some row" "repo = path_parts (ws_path row)"
    using workspace_of_Inr [OF s(1)] by auto
  have "present w2 csid"
    using assms(1) ws(1) keeps_sameD [OF keeps_tables_present [OF keeps_settled] s(2)] by (simp add: present_def)
  then have "status_of (update_set csid (mark_settled status (now_iso env)) w2) csid = Some status"
    by (auto simp: status_of_update mark_settled_def present_def)
  then have "status_of w' csid = Some status"
    using journal_keeps(2) [OF s(3)] by (simp add: status_of_cores)
  then show thesis
    using settled [OF fine(2) _ ws(2)] s(2) ws(1,3) journal_keeps(1) [OF s(3)] by simp
next
  case (caught w1 e)
  have "keeps (same present) (and_then (workspace_of (cr_workspace r)) (\<lambda>(_, repo).
        and_then (settled_status env csid r repo) (\<lambda>status.
        and_then (modify (update_set csid (mark_settled status (now_iso env)))) (\<lambda>_.
        and_then (journal env csid status) (\<lambda>_. done_with status)))))"
    by (auto intro!: step_frame keeps_tables_present [OF keeps_settled] keeps_journal_present split: prod.split)
  from keeps_sameD [OF this caught(1)] have "present w1 csid" using assms(1) by (simp add: present_def)
  then show thesis using unsure caught(2)
    by (auto simp: and_then_def modify_def done_with_def status_of_update mark_unsettled_def present_def)
qed

definition final_statuses :: "string set" where
  "final_statuses = {''committed'', ''rolled_back'', ''recovery_required''}"

lemma settled_status_final:
  assumes "settled_status env csid r repo w = (w', Inr status)"
  shows "status \<in> final_statuses"
  using assms unfolding settled_status_def
  by (auto simp: and_then_Inr final_statuses_def split: if_splits elim!: on_errorE)

lemma reconcile_one_final:
  assumes "map_of (cw_sets w) csid = Some r0" "reconcile_one env csid r w = (w', res)"
  shows "\<exists>status \<in> final_statuses. res = Inr status \<and> status_of w' csid = Some status"
  by (rule reconcile_one_result [OF assms]) (auto dest: settled_status_final simp: final_statuses_def)

definition counted :: "reconcile_counts \<Rightarrow> nat" where
  "counted c = rn_committed c + rn_rolled_back c + rn_recovery c"

lemma counted_status [simp]: "counted (count_status status c) = Suc (counted c)"
  by (simp add: counted_def count_status_def)

lemma others_present: "others csid w' = others csid w \<Longrightarrow> k \<noteq> csid \<Longrightarrow> map_of (cw_sets w') k = map_of (cw_sets w) k"
  by (simp add: others_def fun_eq_iff) metis

lemma reconcile_rows_result:
  assumes "distinct (map fst rows)" "\<And>csid. csid \<in> fst ` set rows \<Longrightarrow> present w csid" "reconcile_rows env rows c w = (w', c')"
  shows "(\<forall>csid \<in> fst ` set rows. \<exists>status \<in> final_statuses. status_of w' csid = Some status)
    \<and> (\<forall>csid. csid \<notin> fst ` set rows \<longrightarrow> map_of (cw_sets w') csid = map_of (cw_sets w) csid) \<and> counted c' = counted c + length rows"
  using assms
proof (induction rows arbitrary: w c)
  case (Cons e rows)
  obtain csid r where e: "e = (csid, r)" by fastforce
  obtain r0 where r0: "map_of (cw_sets w) csid = Some r0"
    using Cons.prems(2) [of csid] e by (auto simp: present_def)
  obtain w1 res where one: "reconcile_one env csid r w = (w1, res)" by fastforce
  obtain status where st: "status \<in> final_statuses" "res = Inr status" "status_of w1 csid = Some status"
    using reconcile_one_final [OF r0 one] by blast
  have run: "reconcile_rows env rows (count_status status c) w1 = (w', c')"
    using Cons.prems(3) e one st(2) by simp
  note other = others_present [OF keeps_sameD [OF keeps_reconcile_others one]]
  have "present w1 k" if "k \<in> fst ` set rows" for k
  proof -
    have "k \<noteq> csid" using that Cons.prems(1) e by force
    then show ?thesis using that Cons.prems(2) [of k] other [of k] e by (auto simp: present_def)
  qed
  then have ih: "(\<forall>csid \<in> fst ` set rows. \<exists>status \<in> final_statuses. status_of w' csid = Some status)
    \<and> (\<forall>csid. csid \<notin> fst ` set rows \<longrightarrow> map_of (cw_sets w') csid = map_of (cw_sets w1) csid)
    \<and> counted c' = counted (count_status status c) + length rows"
    using Cons.IH [OF _ _ run] Cons.prems(1) by simp
  have "csid \<notin> fst ` set rows" using Cons.prems(1) e by force
  then have "status_of w' csid = status_of w1 csid" using ih by (simp add: status_of_def)
  then show ?case using ih st other e by auto
qed simp


lemma in_committing:
  assumes "distinct (dict_keys (cw_sets w))"
  shows "csid \<in> fst ` set (filter (\<lambda>e. cr_status (snd e) = ''committing'') (cw_sets w)) \<longleftrightarrow> status_of w csid = Some ''committing''"
  using assms by (force simp: status_of_def map_of_eq_Some_iff)

text \<open>C9. Reconciling a change set that a crash left in the middle of a commit (\<open>ChangeSetStore.reconcile_incomplete\<close>)
calls it committed only when the worktree's tree is the validated after tree, and rolled back only when it is the captured
before tree, restored if need be; in every other case it is marked as needing recovery.\<close>
theorem reconcile_honest:
  assumes "measures env tree_of" "map_of (cw_sets w) csid = Some r" "map_of (cw_workspaces w) (cr_workspace r) = Some row"
    and "reconcile_one env csid r w = (w', res)"
  shows "\<exists>status. res = Inr status \<and> status_of w' csid = Some status \<and>
    (if status = ''committed'' then cr_after r = Some (tree_of (path_parts (ws_path row)) (cw_disk w'))
     else if status = ''rolled_back'' then tree_of (path_parts (ws_path row)) (cw_disk w') = cr_before r
     else status = ''recovery_required'')"
  using assms(2,4)
proof (cases rule: reconcile_one_result)
  case (settled status row' w2)
  then show ?thesis using settled_statusD [OF assms(1) settled(4)] assms(3) by auto
qed simp

text \<open>C10. After a reconciliation (\<open>ChangeSetStore.reconcile_incomplete\<close>) no change set is left as committing,
whatever failed on the way, every other record is as it was, and the report counts each of them once.\<close>
theorem reconcile_settles:
  assumes "distinct (dict_keys (cw_sets w))" "reconcile_incomplete env w = (w', c)"
  shows "status_of w' csid \<noteq> Some ''committing''
    \<and> (status_of w csid = Some ''committing'' \<or> map_of (cw_sets w') csid = map_of (cw_sets w) csid)
    \<and> counted c = length (filter (\<lambda>e. cr_status (snd e) = ''committing'') (cw_sets w))"
proof -
  let ?rows = "filter (\<lambda>e. cr_status (snd e) = ''committing'') (cw_sets w)"
  have d: "distinct (map fst ?rows)" using assms(1) by (simp add: distinct_map_filter)
  have p: "present w k" if "k \<in> fst ` set ?rows" for k
    using that in_committing [OF assms(1)] by (auto simp: present_def status_of_def)
  have run: "reconcile_rows env ?rows \<lparr>rn_committed = 0, rn_rolled_back = 0, rn_recovery = 0\<rparr> w = (w', c)"
    using assms(2) by (simp add: reconcile_incomplete_def)
  note rr = reconcile_rows_result [OF d p run]
  have 1: "csid \<in> fst ` set ?rows \<Longrightarrow> \<exists>status \<in> final_statuses. status_of w' csid = Some status"
    using conjunct1 [OF rr] by blast
  have 2: "csid \<notin> fst ` set ?rows \<Longrightarrow> map_of (cw_sets w') csid = map_of (cw_sets w) csid"
    using conjunct1 [OF conjunct2 [OF rr]] by blast
  have 3: "counted c = length ?rows"
    using conjunct2 [OF conjunct2 [OF rr]] by (simp add: counted_def)
  show ?thesis
    using 1 2 3 in_committing [OF assms(1), of csid] by (cases "status_of w csid = Some ''committing''") (auto simp: final_statuses_def status_of_def)
qed

theorem reconcile_honest_witness:
  "\<exists>status. snd (reconcile_one demo_env ''cs_a'' (demo_row ''committing'') (demo_world ''committing'' ''x'')) = Inr status"
  using reconcile_honest [OF demo_measures, of "demo_world ''committing'' ''x''" "''cs_a''" "demo_row ''committing''"
      "snd (hd (cw_workspaces (demo_world ''committing'' ''x'')))"
      "fst (reconcile_one demo_env ''cs_a'' (demo_row ''committing'') (demo_world ''committing'' ''x''))"
      "snd (reconcile_one demo_env ''cs_a'' (demo_row ''committing'') (demo_world ''committing'' ''x''))"]
  by (auto simp: demo_world_def demo_row_def)

theorem reconcile_settles_witness:
  "status_of (fst (reconcile_incomplete demo_env (demo_world ''committing'' ''x''))) ''cs_a'' \<noteq> Some ''committing''"
  using reconcile_settles [of "demo_world ''committing'' ''x''" demo_env "fst (reconcile_incomplete demo_env (demo_world ''committing'' ''x''))"
      "snd (reconcile_incomplete demo_env (demo_world ''committing'' ''x''))" "''cs_a''"]
  by (simp add: demo_world_def)

end
