(* ===== verification/Change_Set_Staging.thy ===== *)
theory Change_Set_Staging
  imports Change_Set_Safety
begin

text \<open>
  Staging an operation: the checkpoint puts the staging copy back when anything raises, so an operation is
  recorded together with its edit or not at all, and a staged operation takes back an earlier validation.
\<close>


subsection \<open>Files that a run leaves alone\<close>

definition part :: "path \<Rightarrow> cs_world \<Rightarrow> path \<Rightarrow> (string \<times> nat) option" where
  "part dir w = (\<lambda>p. if below dir p then map_of (cw_disk w) p else None)"

text \<open>The git program, run outside of \<open>dir\<close>, does not write below \<open>dir\<close>.\<close>

definition git_spares :: "cs_env \<Rightarrow> path \<Rightarrow> bool" where
  "git_spares env dir = (\<forall>call d p. \<not> below dir (gc_cwd call) \<longrightarrow> below dir p \<longrightarrow> map_of (fst (ce_proc env call d)) p = map_of d p)"

definition kept :: "path \<Rightarrow> cs_world \<Rightarrow> _" where
  "kept dir w = (tables w, part dir w)"

lemma keeps_kept: "keeps (same tables) m \<Longrightarrow> keeps (same (part dir)) m \<Longrightarrow> keeps (same (kept dir)) m"
  by (auto simp: keeps_def same_def kept_def)

lemma part_disk [simp]:
  "part dir (add_dirs ps w) = part dir w" "part dir (w\<lparr>cw_docs := x\<rparr>) = part dir w"
  by (rule ext, simp add: part_def add_dirs_def)+

lemma part_unlink: "\<not> below dir p \<Longrightarrow> part dir (on_disk (unlink p) w) = part dir w"
  by (rule ext) (auto simp: part_def on_disk_def unlink_def map_of_delete_iff)

lemma part_put: "\<not> below dir p \<Longrightarrow> part dir (on_disk (put_file p x) w) = part dir w"
  by (rule ext) (auto simp: part_def on_disk_def put_file_def map_of_update_iff)

lemma keeps_git_part:
  assumes "git_spares env dir" "\<not> below dir (gc_cwd call)"
  shows "keeps (same (part dir)) (git_run_in env call)" "keeps (same (part dir)) (git_checked env call)"
proof -
  have "map_of (fst (ce_proc env call d)) p = map_of d p" if "below dir p" for d p
    using assms that by (simp add: git_spares_def)
  then have "part dir (fst (git_run_in env call w)) = part dir w" for w
    by (auto simp: git_run_in_def part_def fun_eq_iff split: prod.splits sum.splits) (metis fst_conv)+
  then show "keeps (same (part dir)) (git_run_in env call)" by (simp add: keeps_def same_def)
  then show "keeps (same (part dir)) (git_checked env call)" by (auto simp: git_checked_def intro!: step_frame)
qed

lemma keeps_write_json_part: "keeps (same (part dir)) (write_json env p v)"
  by (auto simp: write_json_def intro!: step_frame)

lemma call_cwd [simp]:
  "gc_cwd (plain_call repo args) = repo" "gc_cwd (index_call repo args index) = repo" "gc_cwd (add_call repo src index) = repo"
  "gc_cwd (input_call repo args inp) = repo"
  by (simp_all add: plain_call_def index_call_def add_call_def input_call_def)

lemma keeps_trees_part:
  assumes "git_spares env dir" "\<not> below dir repo" "\<not> below dir (owner @ [''index-'' @ ce_uuid env ''index''])"
  shows "keeps (same (part dir)) (tree_from_directory env repo src base owner)" "keeps (same (part dir)) (manifest env repo b a)"
proof -
  note g = keeps_git_part(2) [OF assms(1)]
  have l: "keeps (same (part dir)) (list_tree collect env repo tree)" for collect tree
    using assms(2) by (auto simp: list_tree_def intro!: step_frame g split: sum.split)
  have i: "keeps (same (part dir)) (keep_special env repo index e)" for index e
    using assms(2) by (auto simp: keep_special_def intro!: step_frame g split: prod.split)
  have "keeps (same (part dir)) (and_then (git_checked env (index_call repo [''read-tree'', base] index)) (\<lambda>_.
        and_then (git_checked env (add_call repo src index)) (\<lambda>_.
        and_then (tree_special_entries env repo base) (\<lambda>special.
        and_then (for_each (keep_special env repo index) special) (\<lambda>_.
        and_then (git_checked env (index_call repo [''write-tree''] index)) (\<lambda>r. done_with (py_strip (ge_out r))))))))" for index
    using assms(2) by (auto simp: tree_special_entries_def intro!: step_frame g l i)
  moreover have "keeps (same (part dir)) (temporary_index env owner)"
    by (auto simp: temporary_index_def intro!: step_frame)
  moreover have "index = owner @ [''index-'' @ ce_uuid env ''index'']" if "temporary_index env owner w = (w', Inr index)" for w w' index
    using that by (simp add: temporary_index_def and_then_Inr)
  ultimately show "keeps (same (part dir)) (tree_from_directory env repo src base owner)"
    unfolding tree_from_directory_def
    using assms(3) part_unlink
    by (intro keeps_same_and_then_when [where P = "\<lambda>index. index = owner @ [''index-'' @ ce_uuid env ''index'']"] keeps_same_finally) simp_all
  have "keeps (same (part dir)) (manifest_item env repo old new p)" for old new p
    using assms(2) by (auto simp: manifest_item_def opt_blob_def blob_sha256_def Let_def intro!: step_frame g split: option.split)
  then show "keeps (same (part dir)) (manifest env repo b a)"
    by (auto simp: manifest_def tree_entries_def intro!: step_frame l)
qed


subsection \<open>Staging\<close>

definition recorded :: "cs_env \<Rightarrow> staged_op \<Rightarrow> cs_world \<Rightarrow> cs_world \<Rightarrow> bool" where
  "recorded env sop w w' = (\<exists>digest r x. map_of (cw_sets w) (so_set sop) = Some r
     \<and> map_of (cw_sets w') (so_set sop) = Some (if is_open r then reopen digest (now_iso env) r else r)
     \<and> (\<forall>k. k \<noteq> so_set sop \<longrightarrow> map_of (cw_sets w') k = map_of (cw_sets w) k)
     \<and> cw_ops w' = cw_ops w @ [x] \<and> co_id x = so_id sop \<and> co_input x = so_input sop \<and> co_ordinal x = next_ordinal (so_set sop) w)"

definition staged_or_same :: "cs_env \<Rightarrow> staged_op \<Rightarrow> path \<Rightarrow> cs_world \<Rightarrow> cs_world \<Rightarrow> cs_error + (string \<times> json) list \<Rightarrow> bool" where
  "staged_or_same env sop cp w w' r \<longleftrightarrow> part cp w' = part cp w \<and> (if is_ok r then recorded env sop w w' else tables w' = tables w)"

lemma kept_eq: "kept dir w = kept dir w' \<longleftrightarrow> tables w = tables w' \<and> part dir w = part dir w'"
  by (simp add: kept_def)

lemma staged_or_same_kept:
  assumes "kept cp w0 = kept cp w"
  shows "staged_or_same env sop cp w0 w' r = staged_or_same env sop cp w w' r"
  using assms tables_sets [of w0 w] by (auto simp: staged_or_same_def recorded_def next_ordinal_def kept_eq)

lemma record_operation_result:
  assumes "map_of (cw_sets w) (so_set sop) = Some r0" "record_operation env sop r ref fs digest sz w = (w', res)"
  shows "staged_or_same env sop cp w w' res"
proof (cases "list_ex (\<lambda>x. co_set x = so_set sop \<and> co_id x = so_id sop) (cw_ops w)")
  case True
  then show ?thesis using assms(2) by (auto simp: record_operation_def staged_or_same_def)
next
  case False
  define w1 where "w1 = save_manifest (so_set sop) fs
                (w\<lparr>cw_ops := cw_ops w @ [\<lparr>co_set = so_set sop, co_id = so_id sop, co_ordinal = next_ordinal (so_set sop) w, co_type = so_type sop,
                   co_input = so_input sop, co_payload_ref = ref, co_created = now_iso env,
                   co_result = JObj (staged_result sop r (next_ordinal (so_set sop) w) fs digest sz)\<rparr>]\<rparr>)"
  have w': "w' = update_set_if (so_set sop) is_open (reopen digest (now_iso env)) w1" "is_ok res"
    using assms(2) False by (auto simp: record_operation_def Let_def w1_def)
  have "cw_sets w1 = cw_sets w" "part cp w1 = part cp w"
    by (simp_all add: w1_def save_manifest_def part_def fun_eq_iff)
  moreover have "part cp w' = part cp w1" by (simp add: w'(1) update_set_if_def part_def fun_eq_iff)
  moreover have "\<exists>x. cw_ops w' = cw_ops w @ [x] \<and> co_id x = so_id sop \<and> co_input x = so_input sop \<and> co_ordinal x = next_ordinal (so_set sop) w"
    by (simp add: w'(1) update_set_if_def w1_def save_manifest_def)
  ultimately show ?thesis
    using w' assms(1) by (auto simp: staged_or_same_def recorded_def update_set_if_def map_of_update_set)
qed

lemma stage_body_result:
  assumes "map_of (cw_sets w) (so_set sop) = Some r0" "keeps (same (kept cp)) (edit (dir @ [''staging'']))"
    and "git_spares env cp" "map_of (cw_workspaces w) (cr_workspace r) = Some row" "\<not> below cp (path_parts (ws_path row))"
    and "\<not> below cp (dir @ [''index-'' @ ce_uuid env ''index''])"
    and "stage_body env sop r dir edit w = (w', res)"
  shows "staged_or_same env sop cp w w' res"
proof -
  let ?Q = "\<lambda>w' (res :: cs_error + (string \<times> json) list). staged_or_same env sop cp w w' res"
  have Q: "?Q v (Inl e)" if "kept cp v = kept cp w" for v e
    using that by (simp add: staged_or_same_def kept_eq)
  have last: "ends (kept cp) (kept cp w) ?Q (record_operation env sop r ref fs digest sz)" for ref fs digest sz
    unfolding ends_def
  proof (intro allI impI)
    fix v v' res
    assume v: "kept cp v = kept cp w" and run: "record_operation env sop r ref fs digest sz v = (v', res)"
    have "map_of (cw_sets v) (so_set sop) = Some r0" using v assms(1) tables_sets [of v w] by (simp add: kept_eq)
    then show "?Q v' res" using record_operation_result [OF _ run] staged_or_same_kept [OF v] by blast
  qed
  have repo: "\<not> below cp (snd x)" if "kept cp v = kept cp w" "workspace_of (cr_workspace r) v = (v', Inr x)" for v v' x
    using that workspace_of_Inr [of "cr_workspace r" v v' "fst x" "snd x"] assms(4,5) tables_sets [of v w] by (auto simp: kept_eq)
  note k = keeps_kept [OF keeps_writes(1) keeps_write_json_part]
  have tail: "ends (kept cp) (kept cp w) ?Q (case x of (_, repo) \<Rightarrow>
     and_then (tree_from_directory env repo (dir @ [''staging'']) (cr_before r) dir) (\<lambda>after.
     and_then (manifest env repo (cr_before r) after) (\<lambda>fs.
     and_then (cs_check (int (length fs) \<le> ck_max_changed_files (ce_cfg env)) ''CHANGE_SET_LIMIT_EXCEEDED'' ''max_changed_files exceeded'') (\<lambda>_.
     and_then (write_json env (dir @ [''operations'', pad4 (Suc (so_count sop)) @ ''.'' @ so_type sop @ ''.json'']) (JObj (so_payload sop))) (\<lambda>_.
     record_operation env sop r (''operations/'' @ pad4 (Suc (so_count sop)) @ ''.'' @ so_type sop @ ''.json'') fs
       (ce_sha env (cr_before r @ after @ so_input sop @ py_str_int (cr_revision r + 1))) size)))))"
    if "\<not> below cp (snd x)" for x :: "workspace_row \<times> path" and size
  proof -
    note t = keeps_kept [OF keeps_trees(4) keeps_trees_part(1) [OF assms(3) that assms(6)]]
      keeps_kept [OF keeps_manifest(3) keeps_trees_part(2) [OF assms(3) that assms(6)]]
    show ?thesis
      using t by (cases x) (auto intro!: ends_and_then [where f = "kept cp" and Q = ?Q, OF Q] last k step_frame)
  qed
  note seq = ends_and_then [where f = "kept cp" and Q = ?Q, OF Q]
  have "ends (kept cp) (kept cp w) ?Q (stage_body env sop r dir edit)"
    unfolding stage_body_def Let_def
    by (rule seq, assumption, rule assms(2), rule seq, assumption, rule keeps_read, rule seq, assumption, rule keeps_limit,
        rule ends_and_then_when [where f = "kept cp" and P = "\<lambda>x. \<not> below cp (snd x)" and Q = ?Q, OF Q])
       (assumption, rule keeps_cs_steps(5), erule (1) repo, erule tail)
  from endsD [OF this refl assms(7)] show ?thesis .
qed

lemma map_of_move_tree:
  assumes "files_below dst d = []"
  shows "map_of (move_tree src dst d) (dst @ q) = map_of d (src @ q)"
  using assms
proof (induction d)
  case (Cons e d)
  have "\<not> below dst (fst e)" "files_below dst d = []"
    using Cons.prems by (auto simp: files_below_def split: if_splits)
  then have ih: "map_of (move_tree src dst d) (dst @ q) = map_of d (src @ q)" and n: "fst e \<noteq> dst @ q"
    using Cons.IH by (auto simp: below_def)
  show ?case
  proof (cases "below src (fst e)")
    case True
    then obtain z where "fst e = src @ z" by (auto simp: below_def prefix_def)
    then show ?thesis using ih by (simp add: move_tree_def below_def)
  next
    case False
    then have "fst e \<noteq> src @ q" by (auto simp: below_def)
    then show ?thesis using ih n False by (simp add: move_tree_def)
  qed
qed (simp add: move_tree_def)

definition restore_staging :: "path \<Rightarrow> path \<Rightarrow> cs_world \<Rightarrow> cs_world" where
  "restore_staging staging checkpoint w = add_dirs [staging] (on_disk (move_tree checkpoint staging) (remove_dir staging w))"

lemma checkpoint_restores:
  assumes "\<not> below cp staging" "\<not> below staging cp" "length cp = length staging"
    and "files_below cp (cw_disk w) = []" "part cp w2 = part cp (on_disk (copy_tree staging cp) (add_dirs [cp] w))"
    and "below staging p"
  shows "map_of (cw_disk (remove_dir cp (restore_staging staging cp w2))) p = map_of (cw_disk w) p"
proof -
  obtain q where p: "p = staging @ q" using assms(6) by (auto simp: below_def prefix_def)
  have apart: "\<not> below cp (staging @ q)" for q
    using assms(1,3) by (auto simp: below_def prefix_def)
  have apart': "\<not> below staging (cp @ q)" for q
    using assms(2,3) by (auto simp: below_def prefix_def)
  have "part cp w2 (cp @ q) = map_of (cw_disk w2) (cp @ q)"
    by (simp add: part_def below_def)
  moreover have "part cp (on_disk (copy_tree staging cp) (add_dirs [cp] w)) (cp @ q) = map_of (cw_disk w) (staging @ q)"
    using map_of_copy_tree [OF assms(4), of staging "cp @ q"] by (simp add: part_def below_def on_disk_def add_dirs_def)
  ultimately have saved: "map_of (cw_disk w2) (cp @ q) = map_of (cw_disk w) (staging @ q)"
    using assms(5) by simp
  have "files_below staging (remove_tree staging (cw_disk w2)) = []"
    by (simp add: files_below_def remove_tree_def filter_empty_conv)
  then have "map_of (move_tree cp staging (remove_tree staging (cw_disk w2))) (staging @ q)
      = map_of (remove_tree staging (cw_disk w2)) (cp @ q)"
    by (rule map_of_move_tree)
  also have "\<dots> = map_of (cw_disk w2) (cp @ q)"
    using apart' by (simp add: map_of_remove_tree)
  finally show ?thesis
    using p saved apart by (simp add: restore_staging_def remove_dir_def on_disk_def add_dirs_def map_of_remove_tree)
qed

lemma tables_restore_staging [simp]: "tables (restore_staging staging cp w) = tables w"
  by (simp add: restore_staging_def)

definition checkpoint_of :: "cs_env \<Rightarrow> path \<Rightarrow> path" where
  "checkpoint_of env dir = dir @ [''.checkpoint-'' @ ce_uuid env ''checkpoint'']"

definition set_directory :: "cs_env \<Rightarrow> string \<Rightarrow> path" where
  "set_directory env csid = ce_resolve env (ce_root env @ [csid])"

lemma checkpoint_apart:
  "\<not> below (checkpoint_of env dir) (dir @ [''staging''])" "\<not> below (dir @ [''staging'']) (checkpoint_of env dir)"
  "length (checkpoint_of env dir) = length (dir @ [''staging''])"
  "\<not> below (checkpoint_of env dir) (dir @ [''index-'' @ ce_uuid env ''index''])"
  by (auto simp: checkpoint_of_def below_def)

text \<open>An edit of the staging copy that leaves the tables and the checkpoint alone.\<close>

definition edits_staging :: "cs_env \<Rightarrow> string \<Rightarrow> (path \<Rightarrow> unit cs_step) \<Rightarrow> bool" where
  "edits_staging env csid edit = keeps (same (kept (checkpoint_of env (set_directory env csid)))) (edit (set_directory env csid @ [''staging'']))"


text \<open>What the caller of \<open>stage\<close> finds: the operation recorded, or tables and staging copy as before.\<close>

definition staged_sop :: "cs_env \<Rightarrow> string \<Rightarrow> string \<Rightarrow> (string \<times> json) list \<Rightarrow> string \<Rightarrow> cs_world \<Rightarrow> staged_op" where
  "staged_sop env csid typ payload i w = \<lparr>so_set = csid, so_type = typ, so_payload = payload, so_id = i, so_input = payload_hash env typ payload,
     so_count = length (filter (\<lambda>x. co_set x = csid) (cw_ops w))\<rparr>"

definition stage_outcome :: "cs_env \<Rightarrow> path \<Rightarrow> staged_op \<Rightarrow> cs_world \<Rightarrow> cs_world \<Rightarrow> bool \<Rightarrow> bool" where
  "stage_outcome env staging sop w w' ok =
     (if ok then recorded env sop w w'
      else tables w' = tables w \<and> (\<forall>p. below staging p \<longrightarrow> map_of (cw_disk w') p = map_of (cw_disk w) p))"

lemma recorded_tables:
  "tables u = tables w \<Longrightarrow> tables u' = tables w' \<Longrightarrow> recorded env sop u u' = recorded env sop w w'"
  by (simp add: recorded_def next_ordinal_def tables_def)

lemma stage_guarded_result:
  assumes "map_of (cw_sets w) (so_set sop) = Some r0" "keeps (same (kept (checkpoint_of env dir))) (edit (dir @ [''staging'']))"
    and "git_spares env (checkpoint_of env dir)" "files_below (checkpoint_of env dir) (cw_disk w) = []"
    and "map_of (cw_workspaces w) (cr_workspace r) = Some row" "\<not> below (checkpoint_of env dir) (path_parts (ws_path row))"
    and "finally_do
         (on_error (stage_body env sop r dir edit)
           (\<lambda>e. and_then (modify (restore_staging (dir @ [''staging'']) (checkpoint_of env dir))) (\<lambda>_. raise_error e)))
         (remove_dir (checkpoint_of env dir))
         (on_disk (copy_tree (dir @ [''staging'']) (checkpoint_of env dir)) (add_dirs [checkpoint_of env dir] w)) = (w', res)"
  shows "stage_outcome env (dir @ [''staging'']) sop w w' (is_ok res)"
proof -
  let ?cp = "checkpoint_of env dir" and ?st = "dir @ [''staging'']"
  let ?w1 = "on_disk (copy_tree ?st ?cp) (add_dirs [?cp] w)"
  have t1: "tables ?w1 = tables w" by simp
  have r1: "map_of (cw_sets ?w1) (so_set sop) = Some r0" using assms(1) by (simp add: on_disk_def add_dirs_def)
  obtain w2 where run: "on_error (stage_body env sop r dir edit)
      (\<lambda>e. and_then (modify (restore_staging ?st ?cp)) (\<lambda>_. raise_error e)) ?w1 = (w2, res)" and w': "w' = remove_dir ?cp w2"
    using assms(7) by (auto simp: finally_do_def split: prod.splits)
  have row: "map_of (cw_workspaces ?w1) (cr_workspace r) = Some row" using assms(5) by (simp add: on_disk_def add_dirs_def)
  note body = stage_body_result [where dir = dir and edit = edit, OF r1 assms(2,3) row assms(6) checkpoint_apart(4) [of env dir]]
  show ?thesis
    using run
  proof (cases rule: on_errorE)
    case (fine s)
    have "recorded env sop ?w1 w2" using body [OF fine(1)] fine(2) by (simp add: staged_or_same_def)
    moreover have "tables w' = tables w2" using w' by simp
    ultimately show ?thesis
      using recorded_tables [OF t1, of w2 w'] fine(2) by (simp add: stage_outcome_def)
  next
    case (caught w3 e)
    have w2: "w2 = restore_staging ?st ?cp w3" "res = Inl e" using caught(2) by (auto simp: and_then_def modify_def raise_error_def)
    have b: "part ?cp w3 = part ?cp ?w1" "tables w3 = tables ?w1" using body [OF caught(1)] by (auto simp: staged_or_same_def)
    have "tables w' = tables w" using b(2) t1 w' w2(1) by simp
    moreover have "map_of (cw_disk w') p = map_of (cw_disk w) p" if "below ?st p" for p
      using checkpoint_restores [OF checkpoint_apart(1,2,3) assms(4) b(1) that] w' w2(1) by simp
    ultimately show ?thesis using w2(2) by (simp add: stage_outcome_def)
  qed
qed

lemma stage_outcome_refused: "stage_outcome env staging sop w w False"
  by (simp add: stage_outcome_def)

lemma active_set_result:
  assumes "map_of (cw_sets w) csid = Some r" "ce_now env < ce_time env (cr_expires r)"
  shows "active_set env csid allowed w = (w, if cr_status r \<in> set allowed then Inr r
     else Inl (Change_set_error ''CHANGE_SET_INVALID_STATE''
            (''change set is '' @ cr_status r @ ''; expected one of ['' @ py_join '', '' (map py_repr (sort allowed)) @ '']'')
            [(''status'', JStr (cr_status r))]))"
  using assms by (simp add: active_set_def get_set_def expire_if_needed_def and_then_def done_with_def raise_error_def)

lemma directory_of_cases:
  obtains (found) "directory_of env csid w = (w, Inr (set_directory env csid))" | (missing) e where "directory_of env csid w = (w, Inl e)"
  by (cases "directory_of env csid w") (auto simp: directory_of_def Let_def set_directory_def cs_fail_def split: if_splits)

text \<open>The steps of \<open>stage\<close> before the checkpoint, none of which changes anything.\<close>

lemma stage_steps:
  assumes "find (\<lambda>x. co_set x = csid \<and> co_id x = i) (cw_ops w) = None" "i \<noteq> []"
    and "map_of (cw_sets w) csid = Some r" "ce_now env < ce_time env (cr_expires r)"
    and "stage env csid typ payload (Some i) edit w = (w', res)"
  obtains (refused) e where "w' = w" "res = Inl e"
    | (started) "is_open r" "finally_do
         (on_error (stage_body env (staged_sop env csid typ payload i w) r (set_directory env csid) edit)
           (\<lambda>e. and_then (modify (restore_staging (set_directory env csid @ [''staging'']) (checkpoint_of env (set_directory env csid)))) (\<lambda>_. raise_error e)))
         (remove_dir (checkpoint_of env (set_directory env csid)))
         (on_disk (copy_tree (set_directory env csid @ [''staging'']) (checkpoint_of env (set_directory env csid)))
            (add_dirs [checkpoint_of env (set_directory env csid)] w)) = (w', res)"
proof -
  have rep: "operation_replay csid i input w = (w, Inr None)" for input
    using assms(1) by (simp add: operation_replay_def and_then_def read_world_def done_with_def)
  note simps = stage_def and_then_def rep Let_def active_set_result [OF assms(3,4)] assms(2) read_world_def cs_check_def check_that_def
    modify_def done_with_def raise_error_def
  show thesis
  proof (cases "is_open r \<and> int (length (filter (\<lambda>x. co_set x = csid) (cw_ops w))) < ck_max_operations (ce_cfg env)")
    case False
    then show thesis using assms(5) refused by (auto simp: simps is_open_def split: if_splits)
  next
    case True
    then have ok: "cr_status r = ''open'' \<or> cr_status r = ''validated''" "int (length (filter (\<lambda>x. co_set x = csid) (cw_ops w))) < ck_max_operations (ce_cfg env)"
      by (auto simp: is_open_def)
    show thesis
    proof (cases rule: directory_of_cases [of env csid w])
      case (missing e)
      then show thesis using assms(5) refused ok by (auto simp: simps split: if_splits)
    next
      case found
      show thesis
      proof (cases "set_directory env csid @ [''staging''] \<in> set (cw_dirs w)")
        case False
        then show thesis using assms(5) refused ok found by (auto simp: simps split: if_splits)
      next
        case present: True
        show thesis
          using assms(5) ok found present True
          by (intro started) (simp_all add: simps staged_sop_def checkpoint_of_def restore_staging_def [abs_def])
      qed
    qed
  qed
qed

lemma stage_result:
  assumes "find (\<lambda>x. co_set x = csid \<and> co_id x = i) (cw_ops w) = None" "i \<noteq> []"
    and "map_of (cw_sets w) csid = Some r" "ce_now env < ce_time env (cr_expires r)"
    and "edits_staging env csid edit" "git_spares env (checkpoint_of env (set_directory env csid))"
    and "files_below (checkpoint_of env (set_directory env csid)) (cw_disk w) = []"
    and "map_of (cw_workspaces w) (cr_workspace r) = Some row" "\<not> below (checkpoint_of env (set_directory env csid)) (path_parts (ws_path row))"
    and "stage env csid typ payload (Some i) edit w = (w', res)"
  shows "stage_outcome env (set_directory env csid @ [''staging'']) (staged_sop env csid typ payload i w) w w' (is_ok res)
    \<and> (is_ok res \<longrightarrow> is_open r)"
  using assms(1-4,10)
proof (cases rule: stage_steps)
  case started
  have "map_of (cw_sets w) (so_set (staged_sop env csid typ payload i w)) = Some r" using assms(3) by (simp add: staged_sop_def)
  from stage_guarded_result [OF this _ assms(6-9) started(2)] show ?thesis
    using assms(5) started(1) by (simp add: edits_staging_def)
qed (simp add: stage_outcome_refused)


subsection \<open>The two edits\<close>

text \<open>The path guard keeps a staged path below the staging copy, so neither edit reaches the checkpoint.\<close>

lemma checkpoint_outside_staging:
  assumes "prefix (dir @ [''staging'']) target"
  shows "\<not> below (checkpoint_of env dir) target" "\<not> below (checkpoint_of env dir) (temporary_name target u)"
proof -
  obtain q where q: "target = dir @ [''staging''] @ q" using assms by (auto simp: prefix_def)
  show "\<not> below (checkpoint_of env dir) target" by (auto simp: q checkpoint_of_def below_def)
  show "\<not> below (checkpoint_of env dir) (temporary_name target u)"
    by (cases q rule: rev_cases) (auto simp: q checkpoint_of_def below_def temporary_name_def butlast_append)
qed

lemma keeps_kept_modify: "(\<And>w. tables (g w) = tables w) \<Longrightarrow> (\<And>w. part dir (g w) = part dir w) \<Longrightarrow> keeps (same (kept dir)) (modify g)"
  by (intro keeps_same_modify) (simp add: kept_def)

lemma on_disk_comp: "on_disk (\<lambda>d. f (g d)) w = on_disk f (on_disk g w)"
  by (simp add: on_disk_def)

lemma replace_edits_staging:
  assumes "ce_resolve env (set_directory env csid @ [''staging'']) = set_directory env csid @ [''staging'']"
  shows "edits_staging env csid (replace_staged env p old_text new_text expected replace_all)"
  unfolding edits_staging_def keeps_def
proof
  let ?cp = "checkpoint_of env (set_directory env csid)" and ?st = "set_directory env csid @ [''staging'']"
  fix w
  show "same (kept ?cp) w (fst (replace_staged env p old_text new_text expected replace_all ?st w))"
  proof (cases "resolve_staged env ?st p True w")
    case (Inl e)
    then show ?thesis by (simp add: replace_staged_def same_def)
  next
    case (Inr target)
    have "prefix ?st target" using resolve_within_inside Inr assms unfolding resolve_staged_def by metis
    note out = checkpoint_outside_staging [OF this]
    let ?t = "temporary_name target (ce_uuid env ''temporary'')"
    have "keeps (same (kept ?cp)) (finally_do
                   (and_then (io_check env ?t) (\<lambda>_.
                    and_then (modify (on_disk (put_file ?t (x, m)))) (\<lambda>_.
                    and_then (io_check env target) (\<lambda>_.
                    modify (on_disk (\<lambda>d. put_file target (x, m) (unlink ?t d)))))))
                   (on_disk (unlink ?t)))" for x m
      using out by (auto simp: on_disk_comp kept_def part_put part_unlink intro!: step_frame)
    then have "same (kept ?cp) w (fst (finally_do
                   (and_then (io_check env ?t) (\<lambda>_.
                    and_then (modify (on_disk (put_file ?t (x, m)))) (\<lambda>_.
                    and_then (io_check env target) (\<lambda>_.
                    modify (on_disk (\<lambda>d. put_file target (x, m) (unlink ?t d)))))))
                   (on_disk (unlink ?t)) w))" for x m by (simp add: keeps_def)
    then show ?thesis
      using Inr by (simp add: replace_staged_def Let_def split: option.split) (simp add: same_def)
  qed
qed

lemma patch_edits_staging:
  assumes "git_spares env (checkpoint_of env (set_directory env csid))"
  shows "edits_staging env csid (\<lambda>staging.
          and_then (for_each (patch_target_ok env staging) paths) (\<lambda>_.
          and_then (for_each (patch_hash_ok env staging) hashes) (\<lambda>_.
          git_apply_staged env staging patch)))"
proof -
  have "keeps (same f) (patch_target_ok env staging p)" "keeps (same f) (patch_hash_ok env staging e)" for f :: "cs_world \<Rightarrow> 'f" and staging p e
    by (simp_all add: keeps_def same_def patch_target_ok_def patch_hash_ok_def Let_def split: sum.split)
  then show ?thesis
    unfolding edits_staging_def
    by (auto simp: git_apply_staged_def checkpoint_apart(1) intro!: step_frame keeps_kept [OF keeps_git(1) keeps_git_part(1) [OF assms]])
qed


lemma recorded_reopens:
  assumes "recorded env sop w w'" "map_of (cw_sets w) (so_set sop) = Some r" "is_open r"
  shows "\<exists>r'. map_of (cw_sets w') (so_set sop) = Some r' \<and> cr_status r' = ''open''"
  using assms by (auto simp: recorded_def reopen_def)

lemma commit_open_refused:
  assumes "map_of (cw_sets w) csid = Some r" "cr_status r = ''open''"
  shows "commit_set env csid digest expected w = (w, Inl (Change_set_error ''CHANGE_SET_NOT_VALIDATED'' ''change set is open'' []))"
  using assms by (simp add: commit_set_def and_then_def get_set_def commit_guards_def cs_check_def check_that_def raise_error_def)

text \<open>Whatever was validated before, after a staged operation (\<open>ChangeSetStore._stage\<close>) a commit is
refused with \<open>CHANGE_SET_NOT_VALIDATED\<close> and changes nothing, until the set is validated again.\<close>
lemma staging_invalidates:
  assumes "find (\<lambda>x. co_set x = csid \<and> co_id x = i) (cw_ops w) = None" "i \<noteq> []"
    and "map_of (cw_sets w) csid = Some r" "ce_now env < ce_time env (cr_expires r)"
    and "edits_staging env csid edit" "git_spares env (checkpoint_of env (set_directory env csid))"
    and "files_below (checkpoint_of env (set_directory env csid)) (cw_disk w) = []"
    and "map_of (cw_workspaces w) (cr_workspace r) = Some row" "\<not> below (checkpoint_of env (set_directory env csid)) (path_parts (ws_path row))"
    and "stage env csid kind payload (Some i) edit w = (w', Inr kvs)"
  shows "commit_set env' csid digest expected w' = (w', Inl (Change_set_error ''CHANGE_SET_NOT_VALIDATED'' ''change set is open'' []))"
proof -
  have "recorded env (staged_sop env csid kind payload i w) w w'" "is_open r"
    using stage_result [OF assms] by (auto simp: stage_outcome_def)
  then obtain r' where "map_of (cw_sets w') csid = Some r'" "cr_status r' = ''open''"
    using recorded_reopens [of env "staged_sop env csid kind payload i w" w w' r] assms(3) by (auto simp: staged_sop_def)
  then show ?thesis by (rule commit_open_refused)
qed

definition staging_world :: cs_world where
  "staging_world = (demo_world ''validated'' [])\<lparr>
     cw_disk := [([''r'', ''f''], (''old'', 420)), ([''data'', ''cs_a'', ''staging'', ''f''], (''old'', 420))],
     cw_dirs := [[''r''], [''data'', ''cs_a'', ''staging'']]\<rparr>"

lemma demo_git_spares: "git_spares demo_env (checkpoint_of demo_env (set_directory demo_env ''cs_a''))"
  unfolding git_spares_def
proof (intro allI impI)
  fix call :: git_call and d :: disk and p
  let ?cp = "checkpoint_of demo_env (set_directory demo_env ''cs_a'')"
  assume "\<not> below ?cp (gc_cwd call)" "below ?cp p"
  moreover have "last ?cp \<noteq> ''f''" by (simp add: checkpoint_of_def)
  ultimately have "gc_cwd call @ [''f''] \<noteq> p"
    by (auto simp: below_def prefix_snoc)
  then show "map_of (fst (ce_proc demo_env call d)) p = map_of d p"
    by (auto simp: demo_env_def one_file_git_def put_file_def map_of_update_iff)
qed

lemma demo_staging:
  "files_below (checkpoint_of demo_env (set_directory demo_env ''cs_a'')) (cw_disk staging_world) = []"
  "\<not> below (checkpoint_of demo_env (set_directory demo_env ''cs_a'')) [''r'']"
  by code_simp+

lemma demo_edit: "edits_staging demo_env ''cs_a'' (replace_staged demo_env ''f'' ''old'' ''new'' None False)"
  by (rule replace_edits_staging) (simp add: demo_env_def)

lemma demo_paths: "set_directory demo_env ''cs_a'' = [''data'', ''cs_a'']" "path_parts ''/r'' = [''r'']"
  by code_simp+

lemma staging_demo_facts:
  "find (\<lambda>x. co_set x = ''cs_a'' \<and> co_id x = ''o'') (cw_ops staging_world) = None"
  "map_of (cw_sets staging_world) ''cs_a'' = Some (demo_row ''validated'')" "ce_now demo_env < ce_time demo_env (cr_expires (demo_row ''validated''))"
  "map_of (cw_workspaces staging_world) (cr_workspace (demo_row ''validated'')) = Some (snd (hd (cw_workspaces staging_world)))"
  "\<not> below (checkpoint_of demo_env (set_directory demo_env ''cs_a'')) (path_parts (ws_path (snd (hd (cw_workspaces staging_world)))))"
  using demo_staging(2) by (simp_all add: staging_world_def demo_world_def demo_row_def demo_env_def new_row_def demo_paths)


lemma demo_stage_ok: "is_ok (snd (stage demo_env ''cs_a'' ''replace'' [] (Some ''o'') (replace_staged demo_env ''f'' ''old'' ''new'' None False) staging_world))"
  by code_simp

lemma staging_invalidates_witness:
  "snd (commit_set demo_env ''cs_a'' ''v'' None
     (fst (stage demo_env ''cs_a'' ''replace'' [] (Some ''o'') (replace_staged demo_env ''f'' ''old'' ''new'' None False) staging_world)))
   = Inl (Change_set_error ''CHANGE_SET_NOT_VALIDATED'' ''change set is open'' [])"
proof -
  obtain w' kvs where run: "stage demo_env ''cs_a'' ''replace'' [] (Some ''o'') (replace_staged demo_env ''f'' ''old'' ''new'' None False) staging_world = (w', Inr kvs)"
    using demo_stage_ok by (cases "stage demo_env ''cs_a'' ''replace'' [] (Some ''o'') (replace_staged demo_env ''f'' ''old'' ''new'' None False) staging_world")
      (auto simp: is_ok_def split: sum.splits)
  show ?thesis
    using staging_invalidates [OF staging_demo_facts(1) _ staging_demo_facts(2,3) demo_edit demo_git_spares demo_staging(1) staging_demo_facts(4,5) run] run
    by simp
qed

end
