(* ===== verification/Process_Manager.thy ===== *)
theory Process_Manager
  imports Scheduler_System Event_Stream Envelope Workspace_Table
begin

text \<open>
  The process manager of \<open>app/services/process_manager.py\<close>.  Its state is the scheduler with the
  lease objects it handed out, the database (processes and events), the audit log, the
  bookkeeping objects of the managed processes and the table of those that run.  The operating
  system is a view \<open>os_view\<close> the operations read (file sizes, exit codes, liveness) and a log of
  what they did to it.  \<open>claim_completion\<close> is a step of its own: whoever claims a process runs the
  rest of its completion while other calls proceed.
\<close>

subsection \<open>State\<close>

datatype os_action =
    Wrote string string
  | Closed_stdin string
  | Interrupted string
  | Terminated string
  | Killed_tree string
  | Closed_pty string
  | Closed_resource string
  | Resized string int int

datatype stdin_handle = No_stdin | Pipe_open | Pipe_closed

record running_process =
  rp_workspace :: string
  rp_pid :: int
  rp_stdout :: "string list"
  rp_stderr :: "string list"
  rp_directory :: "string list"
  rp_deadline :: real
  rp_pty :: bool
  rp_stdin :: stdin_handle
  rp_lease :: "nat option"
  rp_identity :: "string option"
  rp_resource :: bool
  rp_tool :: string
  rp_request :: "string option"
  rp_out :: int
  rp_err :: int
  rp_completed :: bool
  rp_finalized :: bool

record manager_config =
  mc_max_running :: int
  mc_per_workspace :: int
  mc_max_output :: int
  mc_default_timeout :: int
  mc_max_timeout :: int
  mc_queue_timeout :: real
  mc_heartbeat :: real
  mc_artifacts :: bool
  mc_events :: bool
  mc_limits :: resource_limits

record spawn_request =
  sq_process :: string
  sq_workspace :: string
  sq_script :: string
  sq_directory :: "string list"
  sq_timeout :: int
  sq_tool :: string
  sq_request :: "string option"
  sq_terminal :: "(int \<times> int) option"
  sq_outputs :: "string list"

record manager =
  pm_slots :: sched_system
  pm_db :: event_db
  pm_ops :: "operation_row list"
  pm_objects :: "(string, running_process) dict"
  pm_running :: "string list"
  pm_pending :: "(acquire_call \<times> spawn_request) list"
  pm_shutting :: bool
  pm_actions :: "os_action list"

text \<open>
  What the operating system and the other services answer: \<open>os_size\<close> is \<open>stat().st_size\<close> (None when it
  raises), \<open>os_tree\<close> lists \<open>rglob\<close> with the sizes of the regular files, \<open>os_poll\<close> is \<open>proc.poll()\<close>, \<open>os_kill_group\<close>
  and \<open>os_kill_one\<close> say what \<open>killpg\<close> and \<open>kill\<close> raise, \<open>os_taskkill\<close> is the exit code of \<open>taskkill\<close>.
\<close>

datatype kill_result = Kill_done | Kill_no_process | Kill_error

record artifact_info =
  ai_id :: string
  ai_kind :: string
  ai_path :: string
  ai_size :: int

record os_view =
  os_windows :: bool
  os_now :: string
  os_clock :: real
  os_size :: "string list \<Rightarrow> int option"
  os_tree :: "string list \<Rightarrow> int option list option"
  os_exists :: "string list \<Rightarrow> bool"
  os_resolve :: "string list \<Rightarrow> string list"
  os_poll :: "int \<Rightarrow> int option"
  os_alive :: "int \<Rightarrow> bool"
  os_identity :: "int \<Rightarrow> string option"
  os_kill_group :: "int \<Rightarrow> kill_result"
  os_kill_one :: "int \<Rightarrow> kill_result"
  os_taskkill :: "int \<Rightarrow> int option"
  os_git_status :: "string list \<Rightarrow> string + string"
  os_artifacts :: "string \<Rightarrow> artifact_info list option"
  os_tok :: "nat \<Rightarrow> string"
  os_size_of :: "json \<Rightarrow> nat"
  os_max_payload :: nat
  os_sha :: "string \<Rightarrow> string"
  os_fresh :: "string \<Rightarrow> string"
  os_error_text :: "sched_error \<Rightarrow> string"

datatype manager_error = Manager_runtime string | Manager_value string | Manager_database string

type_synonym reply = "(string \<times> json) list"

subsection \<open>Helpers\<close>

definition optional_positive_int :: "int option \<Rightarrow> int option" where
  "optional_positive_int v = (case v of None \<Rightarrow> None | Some n \<Rightarrow> if n > 0 then Some n else None)"

definition file_size :: "os_view \<Rightarrow> string list \<Rightarrow> int" where
  "file_size os p = (case os_size os p of None \<Rightarrow> 0 | Some n \<Rightarrow> n)"

definition tree_size :: "os_view \<Rightarrow> string list \<Rightarrow> int" where
  "tree_size os base =
     (case os_tree os base of None \<Rightarrow> 0 | Some sizes \<Rightarrow> sum_list (map (\<lambda>s. case s of None \<Rightarrow> 0 | Some n \<Rightarrow> n) sizes))"

definition process_id_match :: "string \<Rightarrow> bool" where
  "process_id_match s =
     (let t = (if s \<noteq> [] \<and> last s = newline then butlast s else s)
      in py_startswith t ''pr-'' \<and> length t = 11 \<and> list_all is_hex_lower (drop 3 t))"

definition redacted_artifact_path :: "os_view \<Rightarrow> string \<Rightarrow> string list \<Rightarrow> string" where
  "redacted_artifact_path os raw workspace =
     (if \<not> is_absolute raw then (if path_parts raw = [] then ''.'' else py_join ''/'' (path_parts raw))
      else let p = os_resolve os (path_parts raw); base = os_resolve os workspace in
        if prefix base p then (let rel = drop (length base) p in if rel = [] then ''.'' else py_join ''/'' rel)
        else if path_parts raw = [] then [] else last (path_parts raw))"

text \<open>\<open>_read_tail\<close> on the decoded text of the file; None when it does not exist or cannot be read.\<close>

definition read_tail :: "string option \<Rightarrow> int \<Rightarrow> string \<times> bool" where
  "read_tail text n =
     (case text of
        None \<Rightarrow> ([], False)
      | Some t \<Rightarrow> if int (length t) \<le> n then (t, False)
          else if n > 0 then (drop (length t - nat n) t, True)
          else (drop (nat (- n)) t, True))"

definition resolve_cwd :: "os_view \<Rightarrow> string list \<Rightarrow> string option \<Rightarrow> manager_error + string list" where
  "resolve_cwd os worktree wd =
     (case wd of
        None \<Rightarrow> Inr worktree
      | Some s \<Rightarrow>
          if s = [] then Inr worktree
          else let candidate = os_resolve os (if is_absolute s then path_parts s else worktree @ path_parts s) in
            if prefix (os_resolve os worktree) candidate then Inr candidate
            else Inl (Manager_value (''working_directory escapes the worktree: '' @ py_repr s)))"

definition build_command_line :: "string \<Rightarrow> string \<Rightarrow> string \<Rightarrow> string list" where
  "build_command_line python shell command =
     (let shell = py_strip (py_lower shell) in
      if shell = ''pwsh'' then [''pwsh.exe'', ''-NoLogo'', ''-NoProfile'', ''-ExecutionPolicy'', ''Bypass'', ''-Command'', command]
      else if shell = ''cmd'' then [''cmd.exe'', ''/c'', command]
      else if shell = ''python'' then
        (if py_lower (py_strip command) \<in> set [[], ''python'', ''python3'', ''repl'', ''-i'']
         then [python, ''-u'', ''-i''] else [python, ''-u'', ''-c'', command])
      else if shell = ''wsl-bash'' then [''wsl'', ''--'', ''bash'', ''-c'', command]
      else if command \<noteq> [] then [shell, ''-c'', command] else [shell])"

definition setdefault :: "string \<Rightarrow> string \<Rightarrow> (string, string) dict \<Rightarrow> (string, string) dict" where
  "setdefault k v d = (if k \<in> set (dict_keys d) then d else AList.update k v d)"

record proxy_config =
  px_enabled :: bool
  px_url :: string
  px_no_proxy :: "string list"

definition build_env :: "(string, string) dict \<Rightarrow> proxy_config \<Rightarrow> (string, string) dict option \<Rightarrow> (string, string) dict" where
  "build_env environ px env =
     (let merged = (case env of None \<Rightarrow> environ | Some e \<Rightarrow> fold (\<lambda>(k, v). AList.update k v) e environ);
          merged = AList.update ''PYTHONIOENCODING'' ''utf-8'' (AList.update ''PYTHONUTF8'' ''1'' merged);
          no_proxy = py_join '','' (px_no_proxy px)
      in if \<not> px_enabled px then merged
         else fold (\<lambda>(k, v). setdefault k v)
           [(''HTTP_PROXY'', px_url px), (''HTTPS_PROXY'', px_url px), (''ALL_PROXY'', px_url px), (''NO_PROXY'', no_proxy),
            (''http_proxy'', px_url px), (''https_proxy'', px_url px), (''all_proxy'', px_url px), (''no_proxy'', no_proxy)] merged)"


subsection \<open>Configuration\<close>

text \<open>The entries of the configuration mapping; None where a key is absent.\<close>

record manager_settings =
  ms_max_running :: "int option"
  ms_per_workspace :: "int option"
  ms_max_output_chars :: "int option"
  ms_default_timeout :: "int option"
  ms_max_timeout :: "int option"
  ms_queue_timeout :: "real option"
  ms_heartbeat :: "real option"
  ms_register_artifacts :: "bool option"
  ms_cpu_time :: "int option"
  ms_memory :: "int option"
  ms_max_processes :: "int option"
  ms_max_output_bytes :: "int option option"
  ms_max_disk :: "int option"

definition cfg_get :: "'a \<Rightarrow> 'a option \<Rightarrow> 'a" where
  "cfg_get dflt v = (case v of None \<Rightarrow> dflt | Some x \<Rightarrow> x)"

definition manager_policy :: "manager_settings \<Rightarrow> queue_policy" where
  "manager_policy c =
     (let max_running = cfg_get 3 (ms_max_running c);
          per_workspace = max 1 (min (cfg_get max_running (ms_per_workspace c)) max_running)
      in \<lparr>global_limit = max_running, per_workspace_limit = per_workspace, queue_timeout_seconds = cfg_get 0 (ms_queue_timeout c)\<rparr>)"

definition manager_limits :: "manager_settings \<Rightarrow> resource_limits" where
  "manager_limits c =
     \<lparr>cpu_time_seconds = optional_positive_int (ms_cpu_time c), memory_bytes = optional_positive_int (ms_memory c),
      max_processes = optional_positive_int (ms_max_processes c),
      max_output_bytes = optional_positive_int (cfg_get (Some (cfg_get 200000 (ms_max_output_chars c) * 4)) (ms_max_output_bytes c)),
      max_disk_bytes = optional_positive_int (ms_max_disk c)\<rparr>"

text \<open>The constructor: the policy and the limits check themselves.\<close>

definition new_manager :: "manager_settings \<Rightarrow> bool \<Rightarrow> event_db \<Rightarrow> operation_row list \<Rightarrow> sched_error + (manager_config \<times> manager)" where
  "new_manager c events db ops =
     obind (check_policy (manager_policy c)) (\<lambda>policy.
     obind (check_limits (manager_limits c)) (\<lambda>limits.
     Inr (\<lparr>mc_max_running = global_limit policy, mc_per_workspace = per_workspace_limit policy,
           mc_max_output = cfg_get 200000 (ms_max_output_chars c), mc_default_timeout = cfg_get 600 (ms_default_timeout c),
           mc_max_timeout = cfg_get 3600 (ms_max_timeout c), mc_queue_timeout = queue_timeout_seconds policy,
           mc_heartbeat = max (1/10) (cfg_get 2 (ms_heartbeat c)), mc_artifacts = cfg_get True (ms_register_artifacts c),
           mc_events = events, mc_limits = limits\<rparr>,
          \<lparr>pm_slots = start_system policy, pm_db = db, pm_ops = ops, pm_objects = [], pm_running = [], pm_pending = [],
           pm_shutting = False, pm_actions = []\<rparr>)))"

subsection \<open>Records and events\<close>

definition on_db :: "(event_db \<Rightarrow> event_db) \<Rightarrow> manager \<Rightarrow> manager" where
  "on_db f s = s\<lparr>pm_db := f (pm_db s)\<rparr>"

definition on_table :: "(proc_table \<Rightarrow> proc_table) \<Rightarrow> manager \<Rightarrow> manager" where
  "on_table f = on_db (\<lambda>db. db\<lparr>ed_processes := f (ed_processes db)\<rparr>)"

definition act :: "os_action \<Rightarrow> manager \<Rightarrow> manager" where
  "act a s = s\<lparr>pm_actions := pm_actions s @ [a]\<rparr>"

definition get_record :: "manager \<Rightarrow> string \<Rightarrow> proc_row option" where
  "get_record s pid = map_of (ed_processes (pm_db s)) pid"

definition set_object :: "string \<Rightarrow> (running_process \<Rightarrow> running_process) \<Rightarrow> manager \<Rightarrow> manager" where
  "set_object pid f s =
     (case map_of (pm_objects s) pid of None \<Rightarrow> s | Some r \<Rightarrow> s\<lparr>pm_objects := AList.update pid (f r) (pm_objects s)\<rparr>)"

text \<open>\<open>_append_event\<close> swallows every exception of the store.\<close>

definition pm_event :: "manager_config \<Rightarrow> os_view \<Rightarrow> string \<Rightarrow> string \<Rightarrow> string \<Rightarrow> string option \<Rightarrow> (string \<times> json) list \<Rightarrow> manager \<Rightarrow> manager" where
  "pm_event cf os kind ws pid request payload s =
     (if \<not> mc_events cf then s
      else on_db (\<lambda>db. fst (append_event (os_size_of os) (os_max_payload os) (os_now os) kind request (Some ws) (Some pid) payload db)) s)"

definition update_runtime ::
  "string \<Rightarrow> int option \<Rightarrow> string option \<Rightarrow> string option \<Rightarrow> int option \<Rightarrow> string option \<Rightarrow> string option \<Rightarrow> manager \<Rightarrow> manager" where
  "update_runtime pid os_pid identity heartbeat offset job recovery =
     on_table (\<lambda>t. case update_process_runtime pid os_pid identity heartbeat offset job recovery t of Inl _ \<Rightarrow> t | Inr t' \<Rightarrow> t')"

definition mark_process_started :: "manager_config \<Rightarrow> os_view \<Rightarrow> string \<Rightarrow> int \<Rightarrow> string \<Rightarrow> string option \<Rightarrow> manager \<Rightarrow> manager" where
  "mark_process_started cf os pid os_pid tool request s =
     (let fallback = on_table (update_process_status (os_now os) pid ''running'' (Some os_pid) None None) in
      if mc_events cf then
        (case start_process (os_now os) pid os_pid tool request False (pm_db s) of
           (db, Inr _) \<Rightarrow> s\<lparr>pm_db := db\<rparr>
         | (db, Inl _) \<Rightarrow> fallback (s\<lparr>pm_db := db\<rparr>))
      else fallback s)"

definition check_completed :: "manager_config \<Rightarrow> os_view \<Rightarrow> string \<Rightarrow> string \<Rightarrow> string option \<Rightarrow> exit_reply \<Rightarrow> manager \<Rightarrow> manager" where
  "check_completed cf os pid status request event s =
     (case get_record s pid of
        None \<Rightarrow> s
      | Some r \<Rightarrow>
          if py_startswith (pc_tool r) ''run_check:'' \<and> (case event of Exit_event e \<Rightarrow> ev_type e = ''process.exited'' | Exit_status _ _ \<Rightarrow> True)
          then pm_event cf os ''check.completed'' (pc_workspace r) pid request
                 [(''check_id'', JStr (drop (length ''run_check:'') (pc_tool r))), (''status'', JStr status), (''process_id'', JStr pid)] s
          else s)"

definition transition_record :: "manager_config \<Rightarrow> os_view \<Rightarrow> string \<Rightarrow> string \<Rightarrow> exit_info \<Rightarrow> manager \<Rightarrow> manager" where
  "transition_record cf os pid status x s =
     (let fallback = (\<lambda>s.
            let s = on_table (update_process_status (os_now os) pid status None (ex_exit_code x) (Some (os_now os))) s
            in if ex_recovery_status x = None then s else update_runtime pid None None None None None (ex_recovery_status x) s)
      in if mc_events cf then
           (case transition_process (os_now os) pid status x (pm_db s) of
              (db, Inr event) \<Rightarrow> check_completed cf os pid status (ex_request x) event (s\<lparr>pm_db := db\<rparr>)
            | (db, Inl _) \<Rightarrow> fallback (s\<lparr>pm_db := db\<rparr>))
         else fallback s)"

definition exit_with :: "int option \<Rightarrow> string option \<Rightarrow> string \<Rightarrow> string option \<Rightarrow> (string, int) dict option \<Rightarrow> exit_info" where
  "exit_with code recovery reason request offsets =
     \<lparr>ex_exit_code = code, ex_completed_at = None, ex_recovery_status = recovery, ex_reason = Some reason,
      ex_request = request, ex_offsets = offsets\<rparr>"

definition output_event :: "manager_config \<Rightarrow> os_view \<Rightarrow> string \<Rightarrow> running_process \<Rightarrow> string \<Rightarrow> int \<Rightarrow> int \<Rightarrow> manager \<Rightarrow> manager" where
  "output_event cf os pid r stream previous current s =
     (if current = previous then s
      else pm_event cf os ''process.output'' (rp_workspace r) pid (rp_request r)
        ([(''stream'', JStr stream), (''offset_start'', JInt (if current \<ge> previous then previous else 0)), (''offset_end'', JInt current)]
         @ (if current < previous then [(''warning'', JStr ''output_file_truncated'')] else [])) s)"

definition emit_output_events :: "manager_config \<Rightarrow> os_view \<Rightarrow> string \<Rightarrow> manager \<Rightarrow> manager" where
  "emit_output_events cf os pid s =
     (case map_of (pm_objects s) pid of
        None \<Rightarrow> s
      | Some r \<Rightarrow>
          let out = file_size os (rp_stdout r); err = file_size os (rp_stderr r) in
          set_object pid (\<lambda>r. r\<lparr>rp_out := out, rp_err := err\<rparr>)
            (output_event cf os pid r ''stderr'' (rp_err r) err (output_event cf os pid r ''stdout'' (rp_out r) out s)))"

definition offsets_of :: "manager \<Rightarrow> string \<Rightarrow> (string, int) dict option" where
  "offsets_of s pid = map_option (\<lambda>r. [(''stdout'', rp_out r), (''stderr'', rp_err r)]) (map_of (pm_objects s) pid)"


subsection \<open>Completion\<close>

text \<open>\<open>claim_completion\<close>: the first caller wins.\<close>

definition claim_completion :: "string \<Rightarrow> manager \<Rightarrow> manager \<times> bool" where
  "claim_completion pid s =
     (case map_of (pm_objects s) pid of
        None \<Rightarrow> (s, False)
      | Some r \<Rightarrow> if rp_finalized r then (s, False) else (set_object pid (\<lambda>r. r\<lparr>rp_finalized := True\<rparr>) s, True))"

definition release_lease :: "os_view \<Rightarrow> nat \<Rightarrow> manager \<Rightarrow> manager" where
  "release_lease os i s =
     (let y = pm_slots s; (l, sched, _) = lease_release (os_tok os) (ss_leases y ! i) (ss_sched y)
      in s\<lparr>pm_slots := y\<lparr>ss_sched := sched, ss_leases := (ss_leases y)[i := l]\<rparr>\<rparr>)"

definition release_slot :: "os_view \<Rightarrow> string \<Rightarrow> manager \<Rightarrow> manager" where
  "release_slot os pid s =
     (case map_of (pm_objects s) pid of
        None \<Rightarrow> s
      | Some r \<Rightarrow>
          let s = set_object pid (\<lambda>r. r\<lparr>rp_lease := None\<rparr>) s
          in case rp_lease r of None \<Rightarrow> s | Some i \<Rightarrow> release_lease os i s)"

definition cleanup_pty :: "string \<Rightarrow> manager \<Rightarrow> manager" where
  "cleanup_pty pid s =
     (case map_of (pm_objects s) pid of
        None \<Rightarrow> s
      | Some r \<Rightarrow>
          let s = (if rp_pty r then act (Closed_pty pid) s else s);
              s = (if rp_stdin r = Pipe_open then act (Closed_stdin pid) s else s);
              s = (if rp_resource r then act (Closed_resource pid) s else s)
          in set_object pid (\<lambda>r. r\<lparr>rp_pty := False, rp_stdin := (if rp_stdin r = Pipe_open then No_stdin else rp_stdin r), rp_resource := False\<rparr>) s)"

text \<open>The events of the artifacts that the registry found, one per identifier.\<close>

fun artifact_events :: "manager_config \<Rightarrow> os_view \<Rightarrow> string \<Rightarrow> running_process \<Rightarrow> string list \<Rightarrow> artifact_info list \<Rightarrow> manager \<Rightarrow> manager" where
  "artifact_events cf os pid r seen [] s = s"
| "artifact_events cf os pid r seen (a # as) s =
     (if ai_id a = [] \<or> ai_id a \<in> set seen then artifact_events cf os pid r seen as s
      else artifact_events cf os pid r (ai_id a # seen) as
        (pm_event cf os ''artifact.created'' (rp_workspace r) pid (rp_request r)
           [(''artifact_id'', JStr (ai_id a)), (''kind'', JStr (ai_kind a)),
            (''relative_path'', JStr (redacted_artifact_path os (ai_path a) (rp_directory r))), (''size_bytes'', JInt (ai_size a))] s))"

definition register_process_artifacts :: "manager_config \<Rightarrow> os_view \<Rightarrow> string \<Rightarrow> manager \<Rightarrow> manager" where
  "register_process_artifacts cf os pid s =
     (case map_of (pm_objects s) pid of
        None \<Rightarrow> s
      | Some r \<Rightarrow>
          if \<not> mc_artifacts cf then s
          else case os_artifacts os pid of None \<Rightarrow> s | Some as \<Rightarrow> artifact_events cf os pid r [] as s)"

text \<open>What every way of ending a claimed process does, in this order.\<close>

definition complete_process :: "manager_config \<Rightarrow> os_view \<Rightarrow> string \<Rightarrow> string \<Rightarrow> int option \<Rightarrow> string option \<Rightarrow> string \<Rightarrow> manager \<Rightarrow> manager" where
  "complete_process cf os pid status code recovery reason s =
     (let s = emit_output_events cf os pid s;
          request = (case map_of (pm_objects s) pid of None \<Rightarrow> None | Some r \<Rightarrow> rp_request r);
          s = transition_record cf os pid status (exit_with code recovery reason request (offsets_of s pid)) s;
          s = set_object pid (\<lambda>r. r\<lparr>rp_completed := True\<rparr>) s;
          s = s\<lparr>pm_running := removeAll pid (pm_running s)\<rparr>;
          s = release_slot os pid s;
          s = cleanup_pty pid s
      in register_process_artifacts cf os pid s)"

definition git_summary :: "string + string \<Rightarrow> string" where
  "git_summary out =
     (case out of
        Inl e \<Rightarrow> ''git status after pwsh unavailable: '' @ e
      | Inr t \<Rightarrow> ''git status after pwsh: '' @ (if py_strip t = [] then ''(clean)'' else take 200 (py_strip t)))"

definition log_git_status :: "os_view \<Rightarrow> string \<Rightarrow> manager \<Rightarrow> manager" where
  "log_git_status os pid s =
     (case map_of (pm_objects s) pid of
        None \<Rightarrow> s
      | Some r \<Rightarrow>
          if \<not> os_exists os (rp_directory r) then s
          else case log_operation \<lparr>op_id = os_fresh os ''operation'', op_workspace = Some (rp_workspace r), op_tool = ''run_pwsh'',
                 op_summary = git_summary (os_git_status os (rp_directory r)), op_success = True, op_request_id = None,
                 op_input_summary = None, op_status = ''success'', op_duration_ms = None, op_error_code = None\<rparr> (pm_ops s) of
                 Inl _ \<Rightarrow> s | Inr ops \<Rightarrow> s\<lparr>pm_ops := ops\<rparr>)"

text \<open>The three completions after a successful claim.\<close>

definition finish_exit :: "manager_config \<Rightarrow> os_view \<Rightarrow> string \<Rightarrow> int \<Rightarrow> manager \<Rightarrow> manager" where
  "finish_exit cf os pid code s =
     log_git_status os pid
       (complete_process cf os pid (if code = 0 then ''passed'' else ''failed'') (Some code) None ''process_exit'' s)"

text \<open>\<open>_kill_tree\<close>: \<open>taskkill\<close> on Windows, \<open>killpg\<close> and then \<open>kill\<close> elsewhere.\<close>

definition kill_tree :: "os_view \<Rightarrow> int \<Rightarrow> bool" where
  "kill_tree os pid =
     (if os_windows os then
        (case os_taskkill os pid of None \<Rightarrow> False | Some code \<Rightarrow> code = 0 \<or> code = 128 \<or> code = 255 \<or> \<not> os_alive os pid)
      else case os_kill_group os pid of
        Kill_done \<Rightarrow> True
      | Kill_error \<Rightarrow> False
      | Kill_no_process \<Rightarrow> (case os_kill_one os pid of Kill_error \<Rightarrow> False | _ \<Rightarrow> True))"

definition finish_terminated :: "manager_config \<Rightarrow> os_view \<Rightarrow> string \<Rightarrow> string \<Rightarrow> string \<Rightarrow> manager \<Rightarrow> manager" where
  "finish_terminated cf os pid status recovery s =
     complete_process cf os pid status (Some (- 1)) (Some recovery) recovery (act (Terminated pid) (act (Killed_tree pid) s))"

definition finish_cancel :: "manager_config \<Rightarrow> os_view \<Rightarrow> string \<Rightarrow> manager \<Rightarrow> manager \<times> reply" where
  "finish_cancel cf os pid s =
     (let killed = (case map_of (pm_objects s) pid of None \<Rightarrow> False | Some r \<Rightarrow> kill_tree os (rp_pid r));
          s = act (Killed_tree pid) s;
          s = (if killed then s else act (Terminated pid) s)
      in (complete_process cf os pid ''cancelled'' None None ''cancelled_by_caller'' s,
          [(''status'', JStr ''cancelled''), (''process_id'', JStr pid), (''process_tree_terminated'', JBool killed)]))"

subsection \<open>Cancelling and reading results\<close>

definition running_object :: "manager \<Rightarrow> string \<Rightarrow> running_process option" where
  "running_object s pid = (if pid \<in> set (pm_running s) then map_of (pm_objects s) pid else None)"

datatype claimed = Refused reply | Claimed

text \<open>\<open>cancel\<close> up to the claim.\<close>

definition cancel_begin :: "string \<Rightarrow> manager \<Rightarrow> manager \<times> claimed" where
  "cancel_begin pid s =
     (if \<not> process_id_match pid then
        (s, Refused [(''error'', JStr (''invalid process_id format: '' @ py_repr pid)), (''status'', JStr ''unknown''), (''process_tree_terminated'', JBool False)])
      else case running_object s pid of
        None \<Rightarrow>
          (case get_record s pid of
             None \<Rightarrow> (s, Refused [(''error'', JStr (''process not found: '' @ pid)), (''status'', JStr ''unknown''), (''process_tree_terminated'', JBool False)])
           | Some r \<Rightarrow> (s, Refused [(''status'', JStr (pc_status r)), (''process_id'', JStr pid), (''process_tree_terminated'', JBool False),
                                 (''info'', JStr ''process is not running'')]))
      | Some _ \<Rightarrow>
          (case claim_completion pid s of
             (s', True) \<Rightarrow> (s', Claimed)
           | (s', False) \<Rightarrow>
               (s', Refused [(''status'', JStr (case get_record s' pid of None \<Rightarrow> ''unknown'' | Some r \<Rightarrow> pc_status r)), (''process_id'', JStr pid),
                             (''process_tree_terminated'', JBool False), (''info'', JStr ''process completion is already being handled'')])))"

definition cancel :: "manager_config \<Rightarrow> os_view \<Rightarrow> string \<Rightarrow> manager \<Rightarrow> manager \<times> reply" where
  "cancel cf os pid s =
     (case cancel_begin pid s of (s', Refused r) \<Rightarrow> (s', r) | (s', Claimed) \<Rightarrow> finish_cancel cf os pid s')"

definition cancel_all_for_workspace :: "manager_config \<Rightarrow> os_view \<Rightarrow> string \<Rightarrow> manager \<Rightarrow> manager" where
  "cancel_all_for_workspace cf os ws s =
     fold (\<lambda>pid s. fst (cancel cf os pid s))
       (filter (\<lambda>pid. case map_of (pm_objects s) pid of None \<Rightarrow> False | Some r \<Rightarrow> rp_workspace r = ws) (pm_running s)) s"

definition finalize :: "manager_config \<Rightarrow> os_view \<Rightarrow> string \<Rightarrow> int \<Rightarrow> manager \<Rightarrow> manager" where
  "finalize cf os pid code s = (case claim_completion pid s of (s', True) \<Rightarrow> finish_exit cf os pid code s' | (s', False) \<Rightarrow> s')"

definition check_exit :: "manager_config \<Rightarrow> os_view \<Rightarrow> string \<Rightarrow> manager \<Rightarrow> manager" where
  "check_exit cf os pid s =
     (case map_of (pm_objects s) pid of
        None \<Rightarrow> s
      | Some r \<Rightarrow> (case os_poll os (rp_pid r) of None \<Rightarrow> s | Some code \<Rightarrow> finalize cf os pid code s))"

definition terminate_running :: "manager_config \<Rightarrow> os_view \<Rightarrow> string \<Rightarrow> string \<Rightarrow> string \<Rightarrow> manager \<Rightarrow> manager" where
  "terminate_running cf os pid status recovery s =
     (case claim_completion pid s of (s', True) \<Rightarrow> finish_terminated cf os pid status recovery s' | (s', False) \<Rightarrow> s')"


definition build_result :: "(string list \<Rightarrow> string option) \<Rightarrow> (string \<Rightarrow> string \<Rightarrow> json) \<Rightarrow> string \<Rightarrow> proc_row \<Rightarrow> int \<Rightarrow> reply" where
  "build_result text artifacts pid r tail =
     (let output = (\<lambda>p. case p of None \<Rightarrow> ([], False) | Some q \<Rightarrow> if q = [] then ([], False) else read_tail (text (path_parts q)) tail);
          (out, out_cut) = output (pc_stdout r); (err, err_cut) = output (pc_stderr r)
      in [(''process_id'', JStr pid), (''output_artifact_id'', JStr pid), (''status'', JStr (pc_status r)), (''tool_status'', JStr ''success''),
          (''task_status'', JStr (pc_status r)), (''exit_code'', (case pc_exit_code r of None \<Rightarrow> JNull | Some n \<Rightarrow> JInt n)),
          (''started_at'', opt_str (pc_started_at r)), (''completed_at'', opt_str (pc_completed_at r)), (''stdout_tail'', JStr out),
          (''stderr_tail'', JStr err), (''truncated'', JBool (out_cut \<or> err_cut)), (''artifacts'', artifacts (pc_workspace r) pid)])"

definition get_result ::
  "manager_config \<Rightarrow> os_view \<Rightarrow> (string list \<Rightarrow> string option) \<Rightarrow> (string \<Rightarrow> string \<Rightarrow> json) \<Rightarrow> string \<Rightarrow> int option
    \<Rightarrow> manager \<Rightarrow> manager \<times> reply" where
  "get_result cf os text artifacts pid tail s =
     (let s = (if pid \<in> set (pm_running s) then check_exit cf os pid s else s)
      in case get_record s pid of
           None \<Rightarrow> (s, [(''error'', JStr (''process not found: '' @ pid)), (''process_id'', JStr pid)])
         | Some r \<Rightarrow> (s, build_result text artifacts pid r (case tail of None \<Rightarrow> mc_max_output cf | Some n \<Rightarrow> n)))"

subsection \<open>The watchdog\<close>

definition resource_violation :: "manager_config \<Rightarrow> os_view \<Rightarrow> running_process \<Rightarrow> string option" where
  "resource_violation cf os r =
     (if output_limit_exceeded (os_size os) (mc_limits cf) [rp_stdout r, rp_stderr r] then Some ''output_limit_exceeded''
      else case max_disk_bytes (mc_limits cf) of
        None \<Rightarrow> None
      | Some m \<Rightarrow> if tree_size os (rp_directory r) > m then Some ''disk_limit_exceeded'' else None)"

text \<open>
  One pass of the loop after its wait, and whether the loop goes on.  \<open>exited\<close> is the result of the wait.
\<close>

definition watchdog_pass :: "manager_config \<Rightarrow> os_view \<Rightarrow> string \<Rightarrow> bool \<Rightarrow> manager \<Rightarrow> manager \<times> bool" where
  "watchdog_pass cf os pid exited s =
     (case map_of (pm_objects s) pid of
        None \<Rightarrow> (s, False)
      | Some r \<Rightarrow>
          if rp_deadline r - os_clock os \<le> 0 then (terminate_running cf os pid ''timed_out'' ''wall_clock_timeout'' s, False)
          else case (exited, os_poll os (rp_pid r)) of
            (True, Some code) \<Rightarrow> (finalize cf os pid code s, False)
          | _ \<Rightarrow>
            let violation = resource_violation cf os r;
                s = emit_output_events cf os pid s;
                s = update_runtime pid None None (Some (os_now os)) (Some (output_usage (os_size os) [rp_stdout r, rp_stderr r])) None
                      (Some (case violation of None \<Rightarrow> ''monitoring'' | Some v \<Rightarrow> v)) s
            in case violation of
                 None \<Rightarrow> (s, True)
               | Some v \<Rightarrow> (terminate_running cf os pid ''resource_exhausted'' v s, False))"

definition wait_slice :: "manager_config \<Rightarrow> os_view \<Rightarrow> running_process \<Rightarrow> real" where
  "wait_slice cf os r = min (rp_deadline r - os_clock os) (mc_heartbeat cf)"

end
