(* ===== verification/Process_Lifecycle.thy ===== *)
theory Process_Lifecycle
  imports Process_Manager
begin

text \<open>
  The rest of \<open>app/services/process_manager.py\<close>: starting processes (\<open>spawn\<close>, \<open>spawn_interactive\<close>), adopting them
  after a restart, with \<open>app/services/process_recovery.py\<close>, interactive input, and the shutdown.  A spawn is cut where
  it blocks, in \<open>acquire\<close>, and where the operating system answers.
\<close>

subsection \<open>Starting processes\<close>

record spawn_call =
  sp_workspace :: string
  sp_worktree :: "string list"
  sp_script :: string
  sp_directory :: "string option"
  sp_timeout :: "int option"
  sp_tool :: string
  sp_write :: bool
  sp_priority :: int
  sp_request :: "string option"
  sp_terminal :: "(int \<times> int) option"

datatype spawn_progress = Spawn_raised manager_error | Spawn_reply reply | Spawn_waiting | Spawn_admitted nat spawn_request

definition chosen_timeout :: "manager_config \<Rightarrow> int option \<Rightarrow> int" where
  "chosen_timeout cf t =
     min (case t of None \<Rightarrow> mc_default_timeout cf | Some n \<Rightarrow> if n = 0 then mc_default_timeout cf else n) (mc_max_timeout cf)"

definition terminal_ok :: "int \<Rightarrow> int \<Rightarrow> bool" where
  "terminal_ok columns rows \<longleftrightarrow> 20 \<le> columns \<and> columns \<le> 500 \<and> 5 \<le> rows \<and> rows \<le> 200"

definition bad_terminal :: reply where
  "bad_terminal = [(''error'', JStr ''terminal dimensions must be columns 20-500 and rows 5-200'')]"

definition refuse_slot :: "manager_config \<Rightarrow> os_view \<Rightarrow> spawn_request \<Rightarrow> string \<Rightarrow> manager \<Rightarrow> manager \<times> spawn_progress" where
  "refuse_slot cf os q msg s =
     (transition_record cf os (sq_process q) ''failed'' (exit_with (Some (- 1)) (Some ''queue_timeout'') ''queue_timeout'' (sq_request q) None) s,
      Spawn_raised (Manager_runtime msg))"

definition slot_message :: "manager_config \<Rightarrow> string \<Rightarrow> string" where
  "slot_message cf detail =
     ''Maximum concurrent jobs ('' @ py_str_int (mc_max_running cf) @ '') or workspace lock unavailable: '' @ detail"

text \<open>The outcome of \<open>acquire\<close>: a lease object, a timeout, or still waiting.\<close>

definition settle_acquire ::
  "manager_config \<Rightarrow> os_view \<Rightarrow> spawn_request \<Rightarrow> acquire_call \<Rightarrow> acquire_result \<Rightarrow> manager \<Rightarrow> manager \<times> spawn_progress" where
  "settle_acquire cf os q c r s =
     (let s' = s\<lparr>pm_slots := settle_call r c (pm_slots s)\<rparr> in
      case r of
        Acquired _ \<Rightarrow> (s', Spawn_admitted (length (ss_leases (pm_slots s))) q)
      | Timed_out e \<Rightarrow> refuse_slot cf os q (slot_message cf (os_error_text os e)) s'
      | Waiting _ \<Rightarrow> (s'\<lparr>pm_pending := pm_pending s' @ [(c, q)]\<rparr>, Spawn_waiting))"

definition acquire_lease ::
  "manager_config \<Rightarrow> os_view \<Rightarrow> real \<Rightarrow> bool \<Rightarrow> int \<Rightarrow> spawn_request \<Rightarrow> manager \<Rightarrow> manager \<times> spawn_progress" where
  "acquire_lease cf os start write prio q s =
     (if pm_shutting s then refuse_slot cf os q ''Process manager is shutting down; new jobs are not accepted'' s
      else case workspace_key (sq_workspace q) write of
        Inl e \<Rightarrow> (s, Spawn_raised (Manager_value (os_error_text os e)))
      | Inr key \<Rightarrow>
        (case acquire_begin (os_tok os) start (os_clock os) (sq_workspace q) (Some key) prio (Some (mc_queue_timeout cf)) (ss_sched (pm_slots s)) of
           Inl e \<Rightarrow> (s, Spawn_raised (Manager_value (os_error_text os e)))
         | Inr (sched, c, r) \<Rightarrow> settle_acquire cf os q c r (s\<lparr>pm_slots := (pm_slots s)\<lparr>ss_sched := sched\<rparr>\<rparr>)))"

text \<open>\<open>spawn\<close> and \<open>spawn_interactive\<close> up to the lease.\<close>

definition pwsh_prefix :: string where
  "pwsh_prefix = ''$ProgressPreference = '' @ [squote] @ ''SilentlyContinue'' @ [squote, newline] @
     ''$PSNativeCommandUseErrorActionPreference = $true'' @ [newline] @
     ''[Console]::OutputEncoding = [System.Text.UTF8Encoding]::new($false)'' @ [newline] @
     ''$OutputEncoding = [Console]::OutputEncoding'' @ [newline]"

definition script_sha :: "os_view \<Rightarrow> spawn_call \<Rightarrow> string" where
  "script_sha os c =
     (case sp_terminal c of
        None \<Rightarrow> os_sha os (pwsh_prefix @ sp_script c)
      | Some _ \<Rightarrow> if sp_script c = [] then [] else os_sha os (sp_script c))"

definition path_string :: "string list \<Rightarrow> string" where
  "path_string p = ''/'' @ py_join ''/'' p"

definition spawn_begin :: "manager_config \<Rightarrow> os_view \<Rightarrow> string list \<Rightarrow> real \<Rightarrow> spawn_call \<Rightarrow> manager \<Rightarrow> manager \<times> spawn_progress" where
  "spawn_begin cf os processes_dir start c s =
     (if (case sp_terminal c of None \<Rightarrow> False | Some (columns, rows) \<Rightarrow> \<not> terminal_ok columns rows) then (s, Spawn_reply bad_terminal)
      else case resolve_cwd os (sp_worktree c) (sp_directory c) of
        Inl e \<Rightarrow> (s, Spawn_raised e)
      | Inr cwd \<Rightarrow>
        let pid = ''pr-'' @ os_fresh os ''process'';
            q = \<lparr>sq_process = pid, sq_workspace = sp_workspace c, sq_script = sp_script c, sq_directory = cwd,
                 sq_timeout = chosen_timeout cf (sp_timeout c), sq_tool = sp_tool c, sq_request = sp_request c, sq_terminal = sp_terminal c,
                 sq_outputs = processes_dir @ [pid]\<rparr>
        in case insert_process (ed_workspaces (pm_db s)) pid (sp_workspace c) (sp_tool c) (Some (script_sha os c)) (Some (take 200 (sp_script c)))
               (Some (path_string cwd)) (Some (path_string (sq_outputs q @ [''stdout.txt'']))) (Some (path_string (sq_outputs q @ [''stderr.txt''])))
               (ed_processes (pm_db s)) of
             Inl msg \<Rightarrow> (s, Spawn_raised (Manager_database msg))
           | Inr table \<Rightarrow>
               acquire_lease cf os start (sp_terminal c \<noteq> None \<or> sp_write c) (if sp_terminal c = None then sp_priority c else 0) q
                 (pm_event cf os ''tool.queued'' (sp_workspace c) pid (sp_request c)
                   [(''tool_name'', JStr (sp_tool c)), (''priority'', JInt (if sp_terminal c = None then sp_priority c else 0))]
                   (on_table (\<lambda>_. table) s)))"

text \<open>A blocked \<open>acquire\<close> wakes up.\<close>

definition spawn_resume :: "manager_config \<Rightarrow> os_view \<Rightarrow> acquire_call \<times> spawn_request \<Rightarrow> manager \<Rightarrow> manager \<times> spawn_progress" where
  "spawn_resume cf os e s =
     (case acquire_resume (os_tok os) (os_clock os) (fst e) (ss_sched (pm_slots s)) of
        (sched, r) \<Rightarrow>
          settle_acquire cf os (snd e) (fst e) r
            (s\<lparr>pm_slots := (pm_slots s)\<lparr>ss_sched := sched, ss_calls := remove1 (fst e) (ss_calls (pm_slots s))\<rparr>,
               pm_pending := remove1 e (pm_pending s)\<rparr>))"

text \<open>Launching the process once the lease is held: what the operating system answered.\<close>

datatype launch =
    Output_open_failed string
  | Executable_missing string
  | Launch_failed string
  | Pty_unavailable
  | Pty_failed string
  | Launched int "string option" "string option" "string option" bool

definition launch_refusal :: "spawn_request \<Rightarrow> launch \<Rightarrow> (string \<times> reply) option" where
  "launch_refusal q l =
     (let pid = (''process_id'', JStr (sq_process q)); interactive = (sq_terminal q \<noteq> None) in
      case l of
        Output_open_failed e \<Rightarrow> Some (''output_open_failed'', [(''error'', JStr (''cannot open output files: '' @ e)), pid])
      | Executable_missing x \<Rightarrow> Some (''executable_not_found'',
          [(''error'', JStr ((if interactive then ''executable not found: '' else ''pwsh executable not found: '') @ x)), pid])
      | Launch_failed e \<Rightarrow> Some (''process_spawn_failed'',
          [(''error'', JStr ((if interactive then ''cannot start process: '' else ''cannot start pwsh: '') @ e)), pid])
      | Pty_unavailable \<Rightarrow> Some (''pty_unavailable'',
          [(''error'', JStr ''ConPTY is unavailable on this Windows host''), (''code'', JStr ''PTY_UNAVAILABLE'')])
      | Pty_failed e \<Rightarrow> Some (''pty_create_failed'',
          [(''error'', JStr (''ConPTY creation failed: '' @ e)), (''code'', JStr ''PTY_CREATE_FAILED''), pid])
      | Launched _ _ _ _ _ \<Rightarrow> None)"

definition new_object :: "os_view \<Rightarrow> nat \<Rightarrow> spawn_request \<Rightarrow> int \<Rightarrow> string option \<Rightarrow> bool \<Rightarrow> running_process" where
  "new_object os i q os_pid identity pty =
     \<lparr>rp_workspace = sq_workspace q, rp_pid = os_pid, rp_stdout = sq_outputs q @ [''stdout.txt''], rp_stderr = sq_outputs q @ [''stderr.txt''],
      rp_directory = sq_directory q, rp_deadline = os_clock os + real_of_int (sq_timeout q), rp_pty = pty,
      rp_stdin = (if sq_terminal q = None \<or> pty then No_stdin else Pipe_open), rp_lease = Some i, rp_identity = identity, rp_resource = True,
      rp_tool = sq_tool q, rp_request = sq_request q, rp_out = 0, rp_err = 0, rp_completed = False, rp_finalized = False\<rparr>"

definition add_running :: "string \<Rightarrow> running_process \<Rightarrow> manager \<Rightarrow> manager" where
  "add_running pid r s = s\<lparr>pm_objects := AList.update pid r (pm_objects s), pm_running := (if pid \<in> set (pm_running s) then pm_running s else pm_running s @ [pid])\<rparr>"

definition started_reply :: "os_view \<Rightarrow> spawn_request \<Rightarrow> int \<Rightarrow> bool \<Rightarrow> reply" where
  "started_reply os q os_pid pty =
     [(''process_id'', JStr (sq_process q)), (''status'', JStr ''running''), (''pid'', JInt os_pid), (''started_at'', JStr (os_now os))]
     @ (case sq_terminal q of None \<Rightarrow> [] | Some (columns, rows) \<Rightarrow>
          [(''tty'', JBool pty), (''pty'', JBool pty), (''columns'', JInt columns), (''rows'', JInt rows)])"

definition launch_process :: "manager_config \<Rightarrow> os_view \<Rightarrow> nat \<Rightarrow> spawn_request \<Rightarrow> launch \<Rightarrow> manager \<Rightarrow> manager \<times> reply" where
  "launch_process cf os i q l s =
     (case l of
        Launched os_pid identity job job_error pty \<Rightarrow>
          let pid = sq_process q;
              s = mark_process_started cf os pid os_pid (sq_tool q) (sq_request q) s;
              s = update_runtime pid (Some os_pid) identity (Some (os_now os)) None job
                    (Some (case job_error of None \<Rightarrow> ''started'' | Some e \<Rightarrow> if e = [] then ''started'' else ''resource_limits_unavailable:'' @ e)) s;
              s = (if sq_terminal q = None then act (Wrote pid (pwsh_prefix @ sq_script q)) s else s)
          in (add_running pid (new_object os i q os_pid identity pty) s, started_reply os q os_pid pty)
      | _ \<Rightarrow>
          (case launch_refusal q l of
             None \<Rightarrow> (s, [])
           | Some (reason, reply) \<Rightarrow>
               (release_lease os i (transition_record cf os (sq_process q) ''failed'' (exit_with (Some (- 1)) None reason None None) s), reply)))"


subsection \<open>Adopting processes after a restart\<close>

definition opt_text :: "string option \<Rightarrow> string" where
  "opt_text v = (case v of None \<Rightarrow> [] | Some s \<Rightarrow> s)"

definition adoptable :: "os_view \<Rightarrow> string \<Rightarrow> proc_row \<Rightarrow> bool" where
  "adoptable os pid r =
     (case pc_pid r of
        None \<Rightarrow> False
      | Some n \<Rightarrow> process_id_match pid \<and> pc_workspace r \<noteq> [] \<and> n > 0 \<and> opt_text (pc_identity r) \<noteq> []
          \<and> os_alive os n \<and> os_identity os n = Some (opt_text (pc_identity r)))"

definition recovered_object :: "manager_config \<Rightarrow> os_view \<Rightarrow> nat \<Rightarrow> proc_row \<Rightarrow> running_process" where
  "recovered_object cf os i r =
     (let out = path_parts (opt_text (pc_stdout r)); err = path_parts (opt_text (pc_stderr r)) in
      \<lparr>rp_workspace = pc_workspace r, rp_pid = (case pc_pid r of None \<Rightarrow> 0 | Some n \<Rightarrow> n), rp_stdout = out, rp_stderr = err,
       rp_directory = path_parts (opt_text (pc_directory r)), rp_deadline = os_clock os + real_of_int (mc_default_timeout cf), rp_pty = False,
       rp_stdin = No_stdin, rp_lease = Some i, rp_identity = pc_identity r, rp_resource = False,
       rp_tool = (if pc_tool r = [] then ''recovered_process'' else pc_tool r), rp_request = None,
       rp_out = file_size os out, rp_err = file_size os err, rp_completed = False, rp_finalized = False\<rparr>)"

text \<open>The result is None when the call raises.\<close>

definition adopt_recovered_process :: "manager_config \<Rightarrow> os_view \<Rightarrow> real \<Rightarrow> string \<Rightarrow> proc_row \<Rightarrow> manager \<Rightarrow> manager \<times> bool option" where
  "adopt_recovered_process cf os start pid r s =
     (if \<not> adoptable os pid r then (s, Some False)
      else case workspace_key (pc_workspace r) True of
        Inl _ \<Rightarrow> (s, None)
      | Inr key \<Rightarrow>
        (case acquire_begin (os_tok os) start (os_clock os) (pc_workspace r) (Some key) 100 (Some 0) (ss_sched (pm_slots s)) of
           Inl _ \<Rightarrow> (s, None)
         | Inr (sched, c, res) \<Rightarrow>
             let i = length (ss_leases (pm_slots s));
                 s = s\<lparr>pm_slots := settle_call res c ((pm_slots s)\<lparr>ss_sched := sched\<rparr>)\<rparr>
             in case res of
                  Acquired _ \<Rightarrow>
                    if pid \<in> set (pm_running s) then (release_lease os i s, Some True)
                    else (pm_event cf os ''tool.started'' (pc_workspace r) pid None
                            [(''tool_name'', JStr (rp_tool (recovered_object cf os i r))), (''pid'', JInt (rp_pid (recovered_object cf os i r))),
                             (''working_directory_redacted'', JStr ''.''), (''recovered'', JBool True)]
                            (add_running pid (recovered_object cf os i r) s), Some True)
                | _ \<Rightarrow> (s, Some False)))"

definition record_recovery_terminal :: "manager_config \<Rightarrow> os_view \<Rightarrow> string \<Rightarrow> string \<Rightarrow> string \<Rightarrow> manager \<Rightarrow> manager" where
  "record_recovery_terminal cf os pid status reason =
     transition_record cf os pid status (exit_with (Some (- 1)) (Some reason) reason None None)"

text \<open>
  \<open>recover_processes\<close> of \<open>app/services/process_recovery.py\<close>.  Without a manager the record is updated
  directly and a live process counts as adopted.
\<close>

definition recovery_terminal :: "manager_config option \<Rightarrow> os_view \<Rightarrow> string \<Rightarrow> string \<Rightarrow> string \<Rightarrow> manager \<Rightarrow> manager" where
  "recovery_terminal cf os pid status reason s =
     (case cf of
        Some cf \<Rightarrow> record_recovery_terminal cf os pid status reason s
      | None \<Rightarrow> update_runtime pid None None None None None (Some reason)
          (on_table (update_process_status (os_now os) pid status None None (Some (os_now os))) s))"

definition output_offset :: "os_view \<Rightarrow> proc_row \<Rightarrow> int" where
  "output_offset os r =
     (\<Sum>p \<leftarrow> [pc_stdout r, pc_stderr r]. if opt_text p = [] then 0 else file_size os (path_parts (opt_text p)))"

definition recover_one :: "manager_config option \<Rightarrow> os_view \<Rightarrow> real \<Rightarrow> string \<Rightarrow> proc_row \<Rightarrow> manager \<Rightarrow> manager \<times> string" where
  "recover_one cf os start pid r s =
     (if pc_status r = ''queued'' then (recovery_terminal cf os pid ''interrupted'' ''queued_without_process'' s, ''interrupted'')
      else
        let n = (case pc_pid r of None \<Rightarrow> 0 | Some n \<Rightarrow> n) in
        if n \<le> 0 then (recovery_terminal cf os pid ''recovery_required'' ''missing_pid'' s, ''recovery_required'')
        else if \<not> os_alive os n then (recovery_terminal cf os pid ''interrupted'' ''process_not_found'' s, ''interrupted'')
        else if opt_text (pc_identity r) = [] \<or> os_identity os n = None
          then (recovery_terminal cf os pid ''recovery_required'' ''identity_unavailable'' s, ''recovery_required'')
        else if os_identity os n \<noteq> Some (opt_text (pc_identity r))
          then (recovery_terminal cf os pid ''lost'' ''pid_identity_mismatch'' s, ''lost'')
        else
          let (s, adopted) = (case cf of None \<Rightarrow> (s, Some True) | Some cf \<Rightarrow> adopt_recovered_process cf os start pid r s) in
          if adopted = Some True
          then (update_runtime pid None None (Some (os_now os)) (Some (output_offset os r)) None (Some ''recovered'') s, ''recovered'')
          else (recovery_terminal cf os pid ''recovery_required'' ''monitor_adoption_failed'' s, ''recovery_required''))"

fun recover_rows :: "manager_config option \<Rightarrow> os_view \<Rightarrow> real \<Rightarrow> (string \<times> proc_row) list \<Rightarrow> manager \<Rightarrow> manager \<times> (string \<times> string) list" where
  "recover_rows cf os start [] s = (s, [])"
| "recover_rows cf os start ((pid, r) # rows) s =
     (let (s, d) = recover_one cf os start pid r s; (s, ds) = recover_rows cf os start rows s in (s, (pid, d) # ds))"

definition recover_processes :: "manager_config option \<Rightarrow> os_view \<Rightarrow> real \<Rightarrow> manager \<Rightarrow> manager \<times> (string \<times> string) list" where
  "recover_processes cf os start s = recover_rows cf os start (list_incomplete_processes (ed_processes (pm_db s))) s"

subsection \<open>Interactive input\<close>

definition not_running_error :: "manager \<Rightarrow> string \<Rightarrow> reply" where
  "not_running_error s pid =
     [(''error'', JStr (case get_record s pid of None \<Rightarrow> ''process not found: '' @ pid
        | Some r \<Rightarrow> ''process is not running: status='' @ pc_status r))]"

definition ends_line :: "string \<Rightarrow> bool" where
  "ends_line t = (t \<noteq> [] \<and> (last t = newline \<or> last t = carriage))"

definition write_input :: "manager_config \<Rightarrow> os_view \<Rightarrow> string \<Rightarrow> string \<Rightarrow> bool \<Rightarrow> manager \<Rightarrow> manager \<times> reply" where
  "write_input cf os pid text append_newline s =
     (if \<not> process_id_match pid then (s, [(''error'', JStr (''invalid process_id format: '' @ py_repr pid))])
      else case running_object s pid of
        None \<Rightarrow> (s, not_running_error s pid)
      | Some r \<Rightarrow>
        (case os_poll os (rp_pid r) of
           Some code \<Rightarrow> (check_exit cf os pid s, [(''error'', JStr (''process has already exited (exit_code='' @ py_str_int code @ '')''))])
         | None \<Rightarrow>
             let data = text @ (if append_newline \<and> \<not> ends_line text then (if rp_pty r then [carriage, newline] else [newline]) else []) in
             if rp_pty r \<or> rp_stdin r = Pipe_open
             then (act (Wrote pid data) s, [(''status'', JStr ''written''), (''process_id'', JStr pid)])
             else (s, [(''error'', JStr ''process stdin is not available''), (''process_id'', JStr pid)])))"

definition close_stdin :: "string \<Rightarrow> manager \<Rightarrow> manager" where
  "close_stdin pid s =
     (case map_of (pm_objects s) pid of
        None \<Rightarrow> s
      | Some r \<Rightarrow>
          if rp_pty r then act (Wrote pid [CHR 0x1A, carriage, newline]) s
          else if rp_stdin r = Pipe_open then set_object pid (\<lambda>r. r\<lparr>rp_stdin := No_stdin\<rparr>) (act (Closed_stdin pid) s)
          else s)"

definition send_signal :: "manager_config \<Rightarrow> os_view \<Rightarrow> string \<Rightarrow> string \<Rightarrow> manager \<Rightarrow> manager \<times> reply" where
  "send_signal cf os pid sig s =
     (if \<not> process_id_match pid then (s, [(''error'', JStr (''invalid process_id format: '' @ py_repr pid))])
      else case running_object s pid of
        None \<Rightarrow> (s, not_running_error s pid)
      | Some r \<Rightarrow>
          if sig = ''interrupt'' then (act (Interrupted pid) s, [(''status'', JStr ''interrupt_sent''), (''process_id'', JStr pid)])
          else if sig = ''eof'' then (close_stdin pid s, [(''status'', JStr ''eof_sent''), (''process_id'', JStr pid)])
          else if sig = ''terminate'' then cancel cf os pid s
          else (s, [(''error'', JStr (''unsupported signal: '' @ py_repr sig))]))"

text \<open>\<open>conpty\<close> is what \<open>resize\<close> of the wrapper raises; None without the wrapper.\<close>

definition resize_terminal :: "string option option \<Rightarrow> string \<Rightarrow> int \<Rightarrow> int \<Rightarrow> manager \<Rightarrow> manager \<times> reply" where
  "resize_terminal conpty pid columns rows s =
     (if \<not> terminal_ok columns rows then (s, bad_terminal)
      else case running_object s pid of
        None \<Rightarrow> (s, not_running_error s pid)
      | Some r \<Rightarrow>
          if \<not> rp_pty r then (s, [(''error'', JStr ''process does not have an active PTY'')])
          else case conpty of
            None \<Rightarrow> (s, [(''error'', JStr ''ConPTY is unavailable'')])
          | Some (Some e) \<Rightarrow> (s, [(''error'', JStr (''terminal resize failed: '' @ e))])
          | Some None \<Rightarrow> (act (Resized pid columns rows) s,
              [(''status'', JStr ''resized''), (''process_id'', JStr pid), (''columns'', JInt columns), (''rows'', JInt rows)]))"

subsection \<open>Shutdown\<close>

definition shutdown_counts :: "nat \<Rightarrow> nat \<Rightarrow> nat \<Rightarrow> nat \<Rightarrow> reply" where
  "shutdown_counts interrupted terminated killed num =
     [(''interrupted'', JInt (int interrupted)), (''terminated'', JInt (int terminated)), (''killed'', JInt (int killed)), (''total'', JInt (int num))]"

definition claimable :: "manager \<Rightarrow> string \<Rightarrow> bool" where
  "claimable s pid = (case map_of (pm_objects s) pid of None \<Rightarrow> False | Some r \<Rightarrow> \<not> rp_finalized r)"

text \<open>The locked part: the flag and the claims.\<close>

definition shutdown_begin :: "manager \<Rightarrow> manager \<times> string list" where
  "shutdown_begin s =
     (if pm_shutting s then (s, [])
      else
        let claimed = filter (claimable s) (pm_running s)
        in (fold (\<lambda>pid s. fst (claim_completion pid s)) claimed (s\<lparr>pm_shutting := True\<rparr>), claimed))"

definition still_running :: "os_view \<Rightarrow> manager \<Rightarrow> string list \<Rightarrow> string list" where
  "still_running os s pids =
     filter (\<lambda>pid. case map_of (pm_objects s) pid of None \<Rightarrow> False | Some r \<Rightarrow> os_poll os (rp_pid r) = None) pids"

definition finish_shutdown_one :: "manager_config \<Rightarrow> os_view \<Rightarrow> string \<Rightarrow> string \<Rightarrow> manager \<Rightarrow> manager" where
  "finish_shutdown_one cf os stage pid s =
     (let code = (case map_of (pm_objects s) pid of None \<Rightarrow> - 1 | Some r \<Rightarrow> (case os_poll os (rp_pid r) of None \<Rightarrow> - 1 | Some c \<Rightarrow> c))
      in complete_process cf os pid ''interrupted'' (Some code) (Some stage) stage s)"

text \<open>\<open>os1\<close> and \<open>os2\<close> are what the system shows after the two grace periods, \<open>os3\<close> at the end.\<close>

definition finish_shutdown :: "manager_config \<Rightarrow> os_view \<Rightarrow> os_view \<Rightarrow> os_view \<Rightarrow> os_view \<Rightarrow> string list \<Rightarrow> manager \<Rightarrow> manager \<times> reply" where
  "finish_shutdown cf os0 os1 os2 os3 claimed s =
     (let s = fold (\<lambda>pid s. act (Interrupted pid)
                (update_runtime pid None None (Some (os_now os0)) None None (Some ''service_shutdown_interrupt_sent'') s)) claimed s;
          left1 = still_running os1 s claimed;
          s = fold (\<lambda>pid. act (Terminated pid)) left1 s;
          left2 = still_running os2 s left1;
          s = fold (\<lambda>pid. act (Killed_tree pid)) left2 s;
          stage = (\<lambda>pid. if pid \<in> set left2 then ''service_shutdown_kill'' else if pid \<in> set left1 then ''service_shutdown_terminate''
                         else ''service_shutdown_interrupt'');
          s = fold (\<lambda>pid. finish_shutdown_one cf os3 (stage pid) pid) claimed s
      in (s, shutdown_counts (length (filter (\<lambda>pid. stage pid = ''service_shutdown_interrupt'') claimed))
               (length (filter (\<lambda>pid. stage pid = ''service_shutdown_terminate'') claimed))
               (length (filter (\<lambda>pid. stage pid = ''service_shutdown_kill'') claimed)) (length claimed)))"

definition shutdown_manager :: "manager_config \<Rightarrow> os_view \<Rightarrow> os_view \<Rightarrow> os_view \<Rightarrow> os_view \<Rightarrow> real \<Rightarrow> real \<Rightarrow> manager \<Rightarrow> manager \<times> (manager_error + reply)" where
  "shutdown_manager cf os0 os1 os2 os3 grace_seconds terminate_seconds s =
     (if grace_seconds < 0 \<or> terminate_seconds < 0 then (s, Inl (Manager_value ''shutdown grace periods must not be negative''))
      else let (s, claimed) = shutdown_begin s in
        if claimed = [] then (s, Inr (shutdown_counts 0 0 0 0))
        else let (s, r) = finish_shutdown cf os0 os1 os2 os3 claimed s in (s, Inr r))"

text \<open>The directories that \<open>delete_outputs_for_workspace\<close> removes; their number is its result.\<close>

definition outputs_to_delete :: "os_view \<Rightarrow> (string list \<Rightarrow> bool) \<Rightarrow> string list \<Rightarrow> string \<Rightarrow> manager \<Rightarrow> string list list" where
  "outputs_to_delete os is_dir processes_dir ws s =
     (let base = os_resolve os processes_dir in
      filter (\<lambda>p. prefix base p \<and> is_dir p)
        (map (\<lambda>(pid, _). os_resolve os (base @ [pid]))
          (filter (\<lambda>(pid, r). pc_workspace r = ws \<and> process_id_match pid) (ed_processes (pm_db s)))))"

end
