(* ===== verification/Slot_Books.thy ===== *)
theory Slot_Books
  imports Op_Prelude
begin

text \<open>
  Accounting for a pool of slots that are handed out by index: who holds which.  The locale is the interface
  between a pool (the scheduler with its lease objects) and a client that keeps slots for its running processes
  and for requests that are admitted and not launched yet.
\<close>

text \<open>The slots in use are those of the owners in \<open>R\<close> and the reserved ones in \<open>A\<close>, each by one of them.\<close>

definition slot_book :: "(nat \<Rightarrow> bool) \<Rightarrow> ('p \<Rightarrow> nat option) \<Rightarrow> 'p set \<Rightarrow> nat set \<Rightarrow> bool" where
  "slot_book live ow R A \<longleftrightarrow> inj_on ow R \<and> None \<notin> ow ` R \<and> ow ` R \<inter> Some ` A = {}
     \<and> (\<forall>i. live i \<longleftrightarrow> Some i \<in> ow ` R \<or> i \<in> A)"

lemma slot_bookD:
  assumes "slot_book live ow R A"
  shows "inj_on ow R" "None \<notin> ow ` R" "i \<in> A \<Longrightarrow> Some i \<notin> ow ` R" "live i \<longleftrightarrow> Some i \<in> ow ` R \<or> i \<in> A"
  using assms by (auto simp: slot_book_def)

lemma slot_book_cong: "(\<And>i. live' i = live i) \<Longrightarrow> slot_book live ow R A \<Longrightarrow> slot_book live' ow R A"
  by (simp add: slot_book_def)

text \<open>A reserved slot gets its owner.\<close>

lemma book_run:
  assumes b: "slot_book live ow R A" and i: "i \<in> A" and p: "p \<notin> R"
  shows "slot_book live (ow(p := Some i)) (insert p R) (A - {i})"
proof -
  have im: "(ow(p := Some i)) ` insert p R = insert (Some i) (ow ` R)" using p by auto
  have n: "Some i \<notin> ow ` R" by (rule slot_bookD(3) [OF b i])
  have "inj_on (ow(p := Some i)) R" using slot_bookD(1) [OF b] p by (simp add: inj_on_def)
  then have "inj_on (ow(p := Some i)) (insert p R)"
    using n p by (simp add: inj_on_insert image_iff)
  moreover have "None \<notin> insert (Some i) (ow ` R)" using slot_bookD(2) [OF b] by simp
  moreover have "insert (Some i) (ow ` R) \<inter> Some ` (A - {i}) = {}" using b unfolding slot_book_def by blast
  moreover have "live k \<longleftrightarrow> Some k \<in> insert (Some i) (ow ` R) \<or> k \<in> A - {i}" for k
    using slot_bookD(4) [OF b, of k] i by auto
  ultimately show ?thesis unfolding slot_book_def im by blast
qed

locale slot_pool =
  fixes live :: "'y \<Rightarrow> nat \<Rightarrow> bool" and fresh :: "'y \<Rightarrow> nat" and give_back :: "nat \<Rightarrow> 'y \<Rightarrow> 'y"
  assumes fresh_free: "\<not> live y (fresh y)"
    and give_back_live: "live y i \<Longrightarrow> live (give_back i y) k \<longleftrightarrow> live y k \<and> k \<noteq> i"
begin

lemma book_grant:
  assumes b: "slot_book (live y) ow R A" and g: "\<And>k. live y' k \<longleftrightarrow> live y k \<or> k = fresh y"
  shows "slot_book (live y') ow R (insert (fresh y) A)" "fresh y \<notin> A"
  using b g fresh_free [of y] by (auto simp: slot_book_def)

lemma book_refuse:
  assumes b: "slot_book (live y) ow R A" and i: "i \<in> A"
  shows "slot_book (live (give_back i y)) ow R (A - {i})" "live y i"
proof -
  show l: "live y i" using slot_bookD(4) [OF b] i by simp
  have "Some i \<notin> ow ` R" by (rule slot_bookD(3) [OF b i])
  then show "slot_book (live (give_back i y)) ow R (A - {i})"
    using b by (auto simp: slot_book_def give_back_live [OF l])
qed

lemma book_finish:
  assumes b: "slot_book (live y) ow R A" and p: "p \<in> R" "ow p = Some i"
  shows "slot_book (live (give_back i y)) (ow(p := None)) (R - {p}) A" "live y i"
proof -
  have m: "Some i \<in> ow ` R" using p by (metis imageI)
  then show l: "live y i" using slot_bookD(4) [OF b] by simp
  have n: "i \<notin> A" using slot_bookD(3) [OF b] m by blast
  have im: "(ow(p := None)) ` (R - {p}) = ow ` R - {Some i}"
    using inj_on_image_set_diff [OF slot_bookD(1) [OF b], of R "{p}"] p by auto
  have "inj_on (ow(p := None)) (R - {p})" using slot_bookD(1) [OF b] by (auto simp: inj_on_def)
  then show "slot_book (live (give_back i y)) (ow(p := None)) (R - {p}) A"
    using b n unfolding slot_book_def im by (auto simp: give_back_live [OF l])
qed

lemma book_count:
  assumes b: "slot_book (live y) ow R A" and fin: "finite R" "finite A"
  shows "card {i. live y i} = card R + card A"
proof -
  have "Some ` {i. live y i} = ow ` R \<union> Some ` A"
  proof (rule set_eqI)
    fix x show "x \<in> Some ` {i. live y i} \<longleftrightarrow> x \<in> ow ` R \<union> Some ` A"
      using b by (cases x) (auto simp: slot_book_def)
  qed
  moreover have "ow ` R \<inter> Some ` A = {}" using b by (simp add: slot_book_def)
  ultimately have "card (Some ` {i. live y i}) = card (ow ` R) + card (Some ` A)"
    using fin by (simp add: card_Un_disjoint)
  then show ?thesis using slot_bookD(1) [OF b] by (simp add: card_image)
qed

end

end
