(* ===== verification/Process_Books.thy ===== *)
theory Process_Books
  imports Process_Lifecycle Slot_Books
begin

text \<open>
  The process manager as a system of concurrent callers, and its invariant.  The steps are the critical
  sections of the calls: a spawn up to its wait for a slot, the wake-up of a waiting spawn, the launch, the claim
  of a completion, the completion itself, a watchdog pass, an adoption, the shutdown.  The books say who holds which lease,
  who claimed which process and which spawns wait; every step keeps them.
\<close>

subsection \<open>The system of callers, watchdogs and completions\<close>

record manager_system =
  my_state :: manager
  my_admitted :: "(nat \<times> spawn_request) list"
  my_owners :: "string list"

definition admit :: "manager \<times> spawn_progress \<Rightarrow> manager_system \<Rightarrow> manager_system" where
  "admit r y =
     (case r of
        (s, Spawn_admitted i q) \<Rightarrow> y\<lparr>my_state := s, my_admitted := my_admitted y @ [(i, q)]\<rparr>
      | (s, _) \<Rightarrow> y\<lparr>my_state := s\<rparr>)"

definition completions :: "manager_config \<Rightarrow> os_view \<Rightarrow> string \<Rightarrow> manager \<Rightarrow> manager set" where
  "completions cf os pid s =
     {finish_exit cf os pid code s | code. True} \<union> {fst (finish_cancel cf os pid s)}
     \<union> {finish_terminated cf os pid status why s | status why. True} \<union> {finish_shutdown_one cf os stage pid s | stage. True}"

inductive manager_step :: "(nat \<Rightarrow> string) \<Rightarrow> manager_config \<Rightarrow> manager_system \<Rightarrow> manager_system \<Rightarrow> bool" for tok cf where
  step_spawn:
    "os_tok os = tok \<Longrightarrow> manager_step tok cf y (admit (spawn_begin cf os dir start c (my_state y)) y)"
| step_wake:
    "os_tok os = tok \<Longrightarrow> e \<in> set (pm_pending (my_state y)) \<Longrightarrow> manager_step tok cf y (admit (spawn_resume cf os e (my_state y)) y)"
| step_launch:
    "os_tok os = tok \<Longrightarrow> (i, q) \<in> set (my_admitted y) \<Longrightarrow>
     manager_step tok cf y (y\<lparr>my_state := fst (launch_process cf os i q l (my_state y)), my_admitted := remove1 (i, q) (my_admitted y)\<rparr>)"
| step_claim:
    "claim_completion pid (my_state y) = (s', True) \<Longrightarrow>
     manager_step tok cf y (y\<lparr>my_state := s', my_owners := my_owners y @ [pid]\<rparr>)"
| step_complete:
    "os_tok os = tok \<Longrightarrow> pid \<in> set (my_owners y) \<Longrightarrow> s' \<in> completions cf os pid (my_state y) \<Longrightarrow>
     manager_step tok cf y (y\<lparr>my_state := s', my_owners := remove1 pid (my_owners y)\<rparr>)"
| step_watch:
    "manager_step tok cf y (y\<lparr>my_state := emit_output_events cf os pid (my_state y)\<rparr>)"
| step_heartbeat:
    "manager_step tok cf y (y\<lparr>my_state := update_runtime pid None None (Some now) offset None (Some note) (my_state y)\<rparr>)"
| step_input:
    "manager_step tok cf y (y\<lparr>my_state := act a (my_state y)\<rparr>)"
| step_eof:
    "manager_step tok cf y (y\<lparr>my_state := close_stdin pid (my_state y)\<rparr>)"
| step_adopt:
    "os_tok os = tok \<Longrightarrow> get_record (my_state y) pid = Some r \<Longrightarrow>
     manager_step tok cf y (y\<lparr>my_state := fst (adopt_recovered_process cf os start pid r (my_state y))\<rparr>)"
| step_shutdown:
    "shutdown_begin (my_state y) = (s', claimed) \<Longrightarrow>
     manager_step tok cf y (y\<lparr>my_state := s', my_owners := my_owners y @ claimed\<rparr>)"

inductive manager_reachable :: "(nat \<Rightarrow> string) \<Rightarrow> manager_config \<Rightarrow> manager \<Rightarrow> manager_system \<Rightarrow> bool" for tok cf s0 where
  manager_start: "manager_reachable tok cf s0 \<lparr>my_state = s0, my_admitted = [], my_owners = []\<rparr>"
| manager_more: "manager_reachable tok cf s0 y \<Longrightarrow> manager_step tok cf y z \<Longrightarrow> manager_reachable tok cf s0 z"

subsection \<open>What the record and event operations leave alone\<close>

definition slot_part :: "manager \<Rightarrow> _" where
  "slot_part s = (pm_slots s, pm_running s, pm_pending s)"

text \<open>The lease and the claim of every object.\<close>

definition holdings :: "manager \<Rightarrow> string \<Rightarrow> (nat option \<times> bool) option" where
  "holdings s = (\<lambda>pid. map_option (\<lambda>r. (rp_lease r, rp_finalized r)) (map_of (pm_objects s) pid))"

text \<open>The rows of the process table: which exist, and which have an operating-system process.\<close>

definition pids :: "manager \<Rightarrow> string \<Rightarrow> int option option" where
  "pids s = (\<lambda>pid. map_option pc_pid (get_record s pid))"

definition frame :: "manager \<Rightarrow> _" where
  "frame s = (slot_part s, holdings s, pids s)"

lemma map_of_set_object:
  "map_of (pm_objects (set_object pid f s)) k = (if k = pid then map_option f (map_of (pm_objects s) k) else map_of (pm_objects s) k)"
  by (simp add: set_object_def map_of_update_iff split: option.split)

lemma holdings_set_object:
  assumes "\<And>r. rp_lease (f r) = rp_lease r" "\<And>r. rp_finalized (f r) = rp_finalized r"
  shows "holdings (set_object pid f s) = holdings s"
  by (rule ext) (simp add: holdings_def map_of_set_object option.map_comp o_def assms)

lemma set_object_other [simp]:
  "slot_part (set_object pid f s) = slot_part s" "pids (set_object pid f s) = pids s"
  by (auto simp: slot_part_def pids_def get_record_def set_object_def split: option.split)

lemma frame_set_object [op_frame]:
  "(\<And>r. rp_lease (f r) = rp_lease r) \<Longrightarrow> (\<And>r. rp_finalized (f r) = rp_finalized r) \<Longrightarrow> frame (set_object pid f s) = frame s"
  by (simp add: frame_def holdings_set_object)

lemma frame_act [op_frame]: "frame (act a s) = frame s"
  by (simp add: frame_def slot_part_def holdings_def pids_def get_record_def act_def fun_eq_iff)

text \<open>The process ids in the rows of the table.\<close>

definition table_pids :: "proc_table \<Rightarrow> string \<Rightarrow> int option option" where
  "table_pids t = (\<lambda>pid. map_option pc_pid (map_of t pid))"

lemma pids_table: "pids s = table_pids (ed_processes (pm_db s))"
  by (simp add: pids_def table_pids_def get_record_def)

lemma frame_db: "table_pids (ed_processes (f (pm_db s))) = table_pids (ed_processes (pm_db s)) \<Longrightarrow> frame (on_db f s) = frame s"
  by (simp add: frame_def slot_part_def holdings_def pids_table on_db_def)

lemma table_pids_update_row: "table_pids (update_row pid f t) k = (if k = pid then map_option (\<lambda>r. pc_pid (f r)) (map_of t k) else table_pids t k)"
  by (simp add: table_pids_def map_of_update_row option.map_comp o_def)

lemma table_pids_same: "(\<And>r. pc_pid (f r) = pc_pid r) \<Longrightarrow> table_pids (update_row pid f t) = table_pids t"
  by (rule ext) (simp add: table_pids_def map_of_update_row option.map_comp o_def)

lemma frame_runtime [op_frame]: "frame (update_runtime pid None identity heartbeat offset job recovery s) = frame s"
  by (simp add: update_runtime_def on_table_def frame_db update_process_runtime_def table_pids_same keep_def split: option.split)

lemma insert_locked_processes: "ed_processes (fst (insert_locked now t rq ws pid pl db)) = ed_processes db"
  by (simp add: insert_locked_def Let_def)

lemma append_event_processes: "ed_processes (fst (append_event size_of mx now t rq ws pid pl db)) = ed_processes db"
  using insert_locked_processes [of now t rq ws pid pl db]
  by (auto simp: append_event_def transact_def split: option.split prod.split sum.split)

lemma frame_event [op_frame]: "frame (pm_event cf os t ws pid rq pl s) = frame s"
  by (simp add: pm_event_def frame_db append_event_processes)

lemma transition_pids: "table_pids (ed_processes (fst (transition_process now pid status x db))) = table_pids (ed_processes db)"
proof (cases "map_of (ed_processes db) pid")
  case (Some r)
  then have "table_pids (AList.update pid (r\<lparr>pc_status := a, pc_completed_at := b, pc_exit_code := c, pc_recovery := d\<rparr>) (ed_processes db))
      = table_pids (ed_processes db)" for a b c d
    by (auto simp: table_pids_def map_of_update_iff)
  then show ?thesis
    using Some by (auto simp: transition_process_def transact_def transition_body_def Let_def insert_locked_def split: prod.split sum.split option.split)
qed (simp add: transition_process_def transact_def transition_body_def)

lemma frame_transition [op_frame]: "frame (transition_record cf os pid status x s) = frame s"
proof -
  have u: "frame (s\<lparr>pm_db := fst (transition_process now pid status x (pm_db s))\<rparr>) = frame s" for now
    using frame_db [of "\<lambda>db. fst (transition_process now pid status x db)" s] transition_pids by (simp add: on_db_def)
  have st: "frame (on_table (update_process_status now pid status None code fin) s) = frame s" for now code fin s
    by (simp add: on_table_def frame_db update_process_status_def table_pids_same keep_def)
  have c: "frame (check_completed cf os pid status rq ev s) = frame s" for rq ev s
    by (simp add: check_completed_def frame_event split: option.split exit_reply.split)
  show ?thesis
    using u [of "os_now os"] by (auto simp: transition_record_def Let_def st c frame_runtime split: prod.splits sum.splits)
qed

lemma frame_emit [op_frame]: "frame (emit_output_events cf os pid s) = frame s"
  by (simp add: emit_output_events_def Let_def frame_set_object output_event_def frame_event split: option.split)

lemma frame_cleanup [op_frame]: "frame (cleanup_pty pid s) = frame s"
  by (simp add: cleanup_pty_def Let_def frame_set_object frame_act split: option.split)

lemma frame_artifacts [op_frame]: "frame (register_process_artifacts cf os pid s) = frame s"
proof -
  have "frame (artifact_events cf os pid r seen xs s) = frame s" for r seen xs s
    by (induction xs arbitrary: seen s) (simp_all add: frame_event)
  then show ?thesis by (simp add: register_process_artifacts_def split: option.split)
qed

lemma frame_git [op_frame]: "frame (log_git_status os pid s) = frame s"
  by (auto simp: log_git_status_def frame_def slot_part_def holdings_def pids_def get_record_def split: option.split sum.split)

lemma frame_eof [op_frame]: "frame (close_stdin pid s) = frame s"
  by (simp add: close_stdin_def frame_set_object frame_act split: option.split)


subsection \<open>The invariant\<close>

definition lease_of :: "manager \<Rightarrow> string \<Rightarrow> nat option" where
  "lease_of s pid = Option.bind (holdings s pid) fst"

definition live_lease :: "sched_system \<Rightarrow> nat \<Rightarrow> bool" where
  "live_lease y i \<longleftrightarrow> i < length (ss_leases y) \<and> \<not> pl_released (ss_leases y ! i)"

text \<open>
  The lease objects that are not released are those of the running processes and of the spawns between
  admission and launch, one for each.
\<close>

definition lease_book :: "manager \<Rightarrow> (nat \<times> spawn_request) list \<Rightarrow> bool" where
  "lease_book s adm \<longleftrightarrow> distinct (map fst adm)
     \<and> slot_book (live_lease (pm_slots s)) (lease_of s) (set (pm_running s)) (fst ` set adm)"

text \<open>The claim on one process: its object's lease and claim, whether it runs, whether somebody completes it.\<close>

fun claim_ok :: "(nat option \<times> bool) option \<Rightarrow> bool \<Rightarrow> bool \<Rightarrow> bool" where
  "claim_ok None running owned = (\<not> running \<and> \<not> owned)"
| "claim_ok (Some (l, fin)) running owned = ((running \<longleftrightarrow> l \<noteq> None) \<and> (owned \<longleftrightarrow> fin \<and> running) \<and> (running \<or> fin))"

definition claim_book :: "manager \<Rightarrow> string list \<Rightarrow> bool" where
  "claim_book s own \<longleftrightarrow> distinct (pm_running s) \<and> distinct own
     \<and> (\<forall>pid. claim_ok (holdings s pid) (pid \<in> set (pm_running s)) (pid \<in> set own))"

lemma claim_bookD: "claim_book s own \<Longrightarrow> claim_ok (holdings s pid) (pid \<in> set (pm_running s)) (pid \<in> set own)"
  by (simp add: claim_book_def)

lemma claim_book_owned: "claim_book s own \<Longrightarrow> pid \<in> set own \<Longrightarrow> \<exists>i. holdings s pid = Some (Some i, True) \<and> pid \<in> set (pm_running s)"
  using claim_bookD [of s own pid] by (cases "holdings s pid") auto

text \<open>One process changes its books.\<close>

lemma claim_book_change:
  assumes "claim_book s own" "distinct (pm_running s')" "distinct own'"
    "claim_ok (holdings s' pid) (pid \<in> set (pm_running s')) (pid \<in> set own')"
    "\<And>k. k \<noteq> pid \<Longrightarrow> holdings s' k = holdings s k \<and> (k \<in> set (pm_running s') \<longleftrightarrow> k \<in> set (pm_running s)) \<and> (k \<in> set own' \<longleftrightarrow> k \<in> set own)"
  shows "claim_book s' own'"
  unfolding claim_book_def
proof (intro conjI allI)
  show "claim_ok (holdings s' k) (k \<in> set (pm_running s')) (k \<in> set own')" for k
    using claim_bookD [OF assms(1), of k] assms(4,5) by (cases "k = pid") auto
qed (rule assms)+

definition waiting_ids :: "manager \<Rightarrow> (nat \<times> spawn_request) list \<Rightarrow> string list" where
  "waiting_ids s adm = map (sq_process \<circ> snd) adm @ map (sq_process \<circ> snd) (pm_pending s)"

definition id_book :: "manager \<Rightarrow> (nat \<times> spawn_request) list \<Rightarrow> bool" where
  "id_book s adm \<longleftrightarrow> distinct (waiting_ids s adm) \<and> (\<forall>pid \<in> set (waiting_ids s adm). pids s pid = Some None)
     \<and> (\<forall>pid \<in> set (pm_running s). \<exists>n. pids s pid = Some (Some n))"

definition pending_book :: "manager \<Rightarrow> bool" where
  "pending_book s \<longleftrightarrow> mset (map fst (pm_pending s)) \<subseteq># mset (ss_calls (pm_slots s))"

definition all_books :: "manager \<Rightarrow> (nat \<times> spawn_request) list \<Rightarrow> string list \<Rightarrow> bool" where
  "all_books s adm own \<longleftrightarrow> lease_book s adm \<and> claim_book s own \<and> id_book s adm \<and> pending_book s"

definition manager_inv :: "(nat \<Rightarrow> string) \<Rightarrow> queue_policy \<Rightarrow> manager_system \<Rightarrow> bool" where
  "manager_inv tok p y \<longleftrightarrow> sched_reachable tok p (pm_slots (my_state y)) \<and> all_books (my_state y) (my_admitted y) (my_owners y)"

lemmas books = lease_book_def claim_book_def id_book_def pending_book_def waiting_ids_def

lemma books_slots: "all_books s adm own \<Longrightarrow> slot_book (live_lease (pm_slots s)) (lease_of s) (set (pm_running s)) (fst ` set adm)"
  by (simp add: all_books_def lease_book_def)

lemma frameD:
  assumes "frame s' = frame s"
  shows "pm_slots s' = pm_slots s" "pm_running s' = pm_running s" "pm_pending s' = pm_pending s" "holdings s' = holdings s" "pids s' = pids s" "lease_of s' = lease_of s"
  using assms by (simp_all add: frame_def slot_part_def lease_of_def fun_eq_iff)

lemma books_frame:
  assumes "frame s' = frame s"
  shows "all_books s' adm own = all_books s adm own" "pm_slots s' = pm_slots s"
proof -
  have "lease_book s' adm = lease_book s adm" "claim_book s' own = claim_book s own" "id_book s' adm = id_book s adm"
    "pending_book s' = pending_book s"
    by (simp_all only: books frameD [OF assms])
  then show "all_books s' adm own = all_books s adm own" by (simp add: all_books_def)
qed (rule frameD(1) [OF assms])

lemma manager_inv_frame:
  assumes "frame s' = frame (my_state y)"
  shows "manager_inv tok p (y\<lparr>my_state := s'\<rparr>) = manager_inv tok p y"
  by (simp add: manager_inv_def books_frame [OF assms])

subsection \<open>Releasing\<close>

definition drop_lease :: "(nat \<Rightarrow> string) \<Rightarrow> nat \<Rightarrow> sched_system \<Rightarrow> sched_system" where
  "drop_lease tok i y = (let (l, sched, _) = lease_release tok (ss_leases y ! i) (ss_sched y)
     in y\<lparr>ss_sched := sched, ss_leases := (ss_leases y)[i := l]\<rparr>)"

lemma release_lease_slots: "release_lease os i s = s\<lparr>pm_slots := drop_lease (os_tok os) i (pm_slots s)\<rparr>"
  by (simp add: release_lease_def drop_lease_def Let_def split: prod.split)

lemma drop_lease_step:
  assumes "sched_reachable tok p y" "i < length (ss_leases y)"
  shows "sched_reachable tok p (drop_lease tok i y)"
proof -
  obtain l sched b where r: "lease_release tok (ss_leases y ! i) (ss_sched y) = (l, sched, b)" by (metis prod_cases3)
  then show ?thesis
    using reach_step [OF assms(1) step_release [OF assms(2) r]] by (simp add: drop_lease_def)
qed

lemma drop_lease_live:
  assumes "i < length (ss_leases y)"
  shows "live_lease (drop_lease tok i y) k \<longleftrightarrow> live_lease y k \<and> k \<noteq> i" "ss_calls (drop_lease tok i y) = ss_calls y"
proof -
  obtain l sched b where r: "lease_release tok (ss_leases y ! i) (ss_sched y) = (l, sched, b)" by (metis prod_cases3)
  then have "pl_released l" by (auto simp: lease_release_def split: if_splits)
  then show "live_lease (drop_lease tok i y) k \<longleftrightarrow> live_lease y k \<and> k \<noteq> i"
    using r assms by (auto simp: live_lease_def drop_lease_def nth_list_update)
  show "ss_calls (drop_lease tok i y) = ss_calls y" using r by (simp add: drop_lease_def)
qed


text \<open>The scheduler as the pool of the manager's slots.\<close>

interpretation slots: slot_pool live_lease "\<lambda>y. length (ss_leases y)" "drop_lease tok" for tok
  by unfold_locales (simp add: live_lease_def, rule drop_lease_live(1), simp add: live_lease_def)

subsection \<open>Completing\<close>

text \<open>The effect of every completion on the frame.\<close>

definition completed :: "(nat \<Rightarrow> string) \<Rightarrow> string \<Rightarrow> manager \<Rightarrow> manager \<Rightarrow> bool" where
  "completed tok pid s s' \<longleftrightarrow> pm_running s' = removeAll pid (pm_running s) \<and> pm_pending s' = pm_pending s \<and> pids s' = pids s
     \<and> (case holdings s pid of
          Some (Some i, fin) \<Rightarrow> pm_slots s' = drop_lease tok i (pm_slots s) \<and> holdings s' = (holdings s)(pid := Some (None, fin))
        | _ \<Rightarrow> pm_slots s' = pm_slots s \<and> holdings s' = holdings s)"

lemma completed_frame:
  assumes "frame s1 = frame s" "frame s1' = frame s'"
  shows "completed tok pid s1 s1' = completed tok pid s s'"
  by (simp only: completed_def frameD [OF assms(1)] frameD [OF assms(2)])

lemma completed_release: "completed (os_tok os) pid s (release_slot os pid (s\<lparr>pm_running := removeAll pid (pm_running s)\<rparr>))"
proof (cases "map_of (pm_objects s) pid")
  case (Some r)
  let ?s = "s\<lparr>pm_running := removeAll pid (pm_running s)\<rparr>" and ?f = "\<lambda>r. r\<lparr>rp_lease := None\<rparr>"
  have h: "holdings (set_object pid ?f ?s) = (holdings s)(pid := Some (None, rp_finalized r))"
    using Some by (auto simp: holdings_def map_of_set_object)
  have o: "pm_running (set_object pid ?f ?s) = removeAll pid (pm_running s)" "pm_pending (set_object pid ?f ?s) = pm_pending s"
    "pids (set_object pid ?f ?s) = pids s" "pm_slots (set_object pid ?f ?s) = pm_slots s"
    using set_object_other(1) [of pid ?f ?s] by (simp_all add: slot_part_def) (simp add: pids_def get_record_def)
  show ?thesis
  proof (cases "rp_lease r")
    case None
    then have "(holdings s)(pid := Some (None, rp_finalized r)) = holdings s" using Some by (auto simp: holdings_def)
    then show ?thesis using Some None o h by (simp add: release_slot_def Let_def completed_def holdings_def)
  next
    case (Some i)
    have "holdings (release_lease os i x) = holdings x" "pids (release_lease os i x) = pids x" for x
      by (simp_all add: release_lease_slots holdings_def pids_def get_record_def)
    then show ?thesis
      using Some \<open>map_of (pm_objects s) pid = Some r\<close> o h
      by (simp add: release_slot_def Let_def completed_def) (simp add: release_lease_slots holdings_def)
  qed
qed (simp add: release_slot_def completed_def holdings_def pids_def get_record_def)

lemma release_slot_frame:
  assumes "frame s1 = frame s"
  shows "completed (os_tok os) pid s (release_slot os pid (s1\<lparr>pm_running := removeAll pid (pm_running s1)\<rparr>))"
  using completed_release [of os pid s1] completed_frame [OF assms refl] by blast

lemma complete_process_completed: "completed (os_tok os) pid s (complete_process cf os pid status code recovery why s)"
proof -
  let ?s1 = "emit_output_events cf os pid s"
  let ?x = "exit_with code recovery why (case map_of (pm_objects ?s1) pid of None \<Rightarrow> None | Some r \<Rightarrow> rp_request r) (offsets_of ?s1 pid)"
  let ?s2 = "set_object pid (\<lambda>r. r\<lparr>rp_completed := True\<rparr>) (transition_record cf os pid status ?x ?s1)"
  let ?s3 = "release_slot os pid (?s2\<lparr>pm_running := removeAll pid (pm_running ?s2)\<rparr>)"
  have f: "frame ?s2 = frame s" by (simp add: op_frame)
  have g: "frame (register_process_artifacts cf os pid (cleanup_pty pid ?s3)) = frame ?s3" by (simp add: op_frame)
  have "complete_process cf os pid status code recovery why s = register_process_artifacts cf os pid (cleanup_pty pid ?s3)"
    by (simp add: complete_process_def Let_def)
  then show ?thesis
    using completed_frame [OF refl g, of "os_tok os" pid s] release_slot_frame [OF f, of os pid] by simp
qed

lemma completed_via:
  assumes "frame s1 = frame s" "frame s' = frame s2" "completed tok pid s1 s2"
  shows "completed tok pid s s'"
  using completed_frame [OF assms(1) refl, of tok pid s2] completed_frame [OF refl assms(2), of tok pid s] assms(3) by simp

lemma completions_completed:
  assumes "s' \<in> completions cf os pid s"
  shows "completed (os_tok os) pid s s'"
  using assms unfolding completions_def
proof (elim UnE CollectE exE conjE)
  fix code assume "s' = finish_exit cf os pid code s"
  then show ?thesis
    by (simp add: finish_exit_def completed_via [OF refl frame_git complete_process_completed])
next
  assume "s' \<in> {fst (finish_cancel cf os pid s)}"
  then have s': "s' = fst (finish_cancel cf os pid s)" by simp
  show ?thesis
    unfolding s' finish_cancel_def Let_def fst_conv
    by (rule completed_via [OF _ refl complete_process_completed]) (simp add: frame_act)
next
  fix status why assume "s' = finish_terminated cf os pid status why s"
  then show ?thesis
    unfolding finish_terminated_def
    by (simp add: completed_via [OF _ refl complete_process_completed] frame_act)
next
  fix stage assume "s' = finish_shutdown_one cf os stage pid s"
  then show ?thesis
    by (simp add: finish_shutdown_one_def Let_def complete_process_completed)
qed


lemma completed_books:
  assumes b: "all_books s adm own" and own: "pid \<in> set own" and c: "completed tok pid s s'"
  shows "all_books s' adm (remove1 pid own)"
proof -
  have cb: "claim_book s own" using b by (simp add: all_books_def)
  from claim_book_owned [OF this own] obtain i where h: "holdings s pid = Some (Some i, True)" and r: "pid \<in> set (pm_running s)" by blast
  have e: "pm_running s' = removeAll pid (pm_running s)" "pm_pending s' = pm_pending s" "pids s' = pids s"
    "pm_slots s' = drop_lease tok i (pm_slots s)" "holdings s' = (holdings s)(pid := Some (None, True))"
    using c h by (simp_all add: completed_def)
  have l: "lease_of s pid = Some i" and l': "lease_of s' = (lease_of s)(pid := None)"
    using h by (auto simp: lease_of_def e fun_eq_iff)
  note k = books_slots [OF b]
  have "i < length (ss_leases (pm_slots s))" using slots.book_finish(2) [OF k r l] by (simp add: live_lease_def)
  note d = drop_lease_live(2) [OF this, of tok]
  have "set (pm_running s') = set (pm_running s) - {pid}" by (auto simp: e)
  then have "lease_book s' adm"
    using slots.book_finish(1) [OF k r l, of tok] b by (simp add: all_books_def lease_book_def l' e(4))
  moreover have "claim_book s' (remove1 pid own)"
    by (rule claim_book_change [OF cb, of _ _ pid]) (use cb in \<open>auto simp: claim_book_def e distinct_removeAll\<close>)
  moreover have "id_book s' adm" using b by (auto simp: all_books_def id_book_def waiting_ids_def e)
  moreover have "pending_book s'" using b by (simp add: all_books_def pending_book_def e d)
  ultimately show ?thesis by (simp add: all_books_def)
qed



subsection \<open>Claiming\<close>

lemma claim_completion_True:
  assumes "claim_completion pid s = (s', True)"
  shows "\<exists>l. holdings s pid = Some (l, False) \<and> holdings s' = (holdings s)(pid := Some (l, True))"
    "slot_part s' = slot_part s" "pids s' = pids s"
proof -
  from assms obtain r where r: "map_of (pm_objects s) pid = Some r" "\<not> rp_finalized r"
    and s': "s' = set_object pid (\<lambda>r. r\<lparr>rp_finalized := True\<rparr>) s"
    by (auto simp: claim_completion_def split: option.splits if_splits)
  then show "\<exists>l. holdings s pid = Some (l, False) \<and> holdings s' = (holdings s)(pid := Some (l, True))"
    by (auto simp: holdings_def map_of_set_object)
  show "slot_part s' = slot_part s" "pids s' = pids s" by (simp_all add: s')
qed

lemma claim_books:
  assumes b: "all_books s adm own" and c: "claim_completion pid s = (s', True)"
  shows "all_books s' adm (own @ [pid])"
proof -
  obtain l where h: "holdings s pid = Some (l, False)" and h': "holdings s' = (holdings s)(pid := Some (l, True))"
    using claim_completion_True(1) [OF c] by blast
  have e: "pm_slots s' = pm_slots s" "pm_running s' = pm_running s" "pm_pending s' = pm_pending s" "pids s' = pids s"
    using claim_completion_True(2,3) [OF c] by (simp_all add: slot_part_def)
  have l: "lease_of s' = lease_of s" using h by (auto simp: lease_of_def h')
  have cb: "claim_book s own" using b by (simp add: all_books_def)
  have "claim_book s' (own @ [pid])"
    by (rule claim_book_change [OF cb, of _ _ pid])
      (use cb claim_bookD [OF cb, of pid] in \<open>auto simp: claim_book_def e h h'\<close>)
  then show ?thesis
    using b by (simp add: all_books_def lease_book_def id_book_def pending_book_def waiting_ids_def e l)
qed

lemma claimable_iff: "claimable s pid \<longleftrightarrow> (\<exists>l. holdings s pid = Some (l, False))"
  by (auto simp: claimable_def holdings_def split: option.split)

lemma claimable_claim: "claimable s pid \<longleftrightarrow> snd (claim_completion pid s)"
  by (simp add: claimable_def claim_completion_def split: option.split)

lemma claims_books:
  assumes "all_books s adm own" "distinct ps" "\<forall>pid \<in> set ps. claimable s pid"
  shows "all_books (fold (\<lambda>pid s. fst (claim_completion pid s)) ps s) adm (own @ ps)"
  using assms
proof (induction ps arbitrary: s own)
  case (Cons pid ps)
  then obtain s' where c: "claim_completion pid s = (s', True)"
    by (metis claimable_claim list.set_intros(1) prod.collapse)
  have "claimable s' k" if "k \<in> set ps" for k
    using Cons.prems(2,3) that claim_completion_True(1) [OF c] by (auto simp: claimable_iff)
  then show ?case
    using Cons.IH [OF claim_books [OF Cons.prems(1) c]] Cons.prems(2) c by simp
qed simp

lemma claims_slots: "pm_slots (fold (\<lambda>pid s. fst (claim_completion pid s)) ps s) = pm_slots s"
  by (induction ps arbitrary: s) (auto simp: claim_completion_def set_object_def split: option.split)

subsection \<open>Waiting for a slot\<close>

text \<open>A new row of the process table that nobody waits for yet.\<close>

lemma books_new_row:
  assumes b: "all_books s adm own" and new: "pids s pid = None"
    and e: "slot_part s' = slot_part s" "holdings s' = holdings s" "pids s' = (pids s)(pid := Some None)"
  shows "all_books s' adm own" "pid \<notin> set (waiting_ids s' adm)"
proof -
  have f: "pm_slots s' = pm_slots s" "pm_running s' = pm_running s" "pm_pending s' = pm_pending s" "lease_of s' = lease_of s"
    using e by (simp_all add: slot_part_def lease_of_def fun_eq_iff)
  have w: "waiting_ids s' adm = waiting_ids s adm" by (simp add: waiting_ids_def f)
  have "pid \<notin> set (waiting_ids s adm)" using b new by (auto simp: all_books_def id_book_def)
  then show "pid \<notin> set (waiting_ids s' adm)" by (simp add: w)
  have "id_book s' adm" using b new by (auto simp: all_books_def id_book_def w e f)
  then show "all_books s' adm own"
    using b by (simp add: all_books_def lease_book_def claim_book_def pending_book_def f e)
qed

lemma live_settle:
  "live_lease (settle_call r c y) i \<longleftrightarrow> live_lease y i \<or> (\<exists>l. r = Acquired l) \<and> i = length (ss_leases y)"
  by (cases r) (auto simp: live_lease_def nth_append)

lemma drop_frame:
  "holdings (s\<lparr>pm_slots := y\<rparr>) = holdings s" "pids (s\<lparr>pm_slots := y\<rparr>) = pids s" "lease_of (s\<lparr>pm_slots := y\<rparr>) = lease_of s"
  by (simp_all add: holdings_def pids_def get_record_def lease_of_def fun_eq_iff)

lemma lease_book_settle:
  assumes a: "lease_book s adm"
  shows "lease_book (s\<lparr>pm_slots := settle_call (Acquired l) c (pm_slots s)\<rparr>) (adm @ [(length (ss_leases (pm_slots s)), q)])"
    "(length (ss_leases (pm_slots s)), q) \<notin> set adm"
proof -
  let ?n = "length (ss_leases (pm_slots s))"
  have "live_lease (settle_call (Acquired l) c (pm_slots s)) k \<longleftrightarrow> live_lease (pm_slots s) k \<or> k = ?n" for k
    using live_settle [of "Acquired l" c "pm_slots s" k] by simp
  note g = slots.book_grant [where ow = "lease_of s" and R = "set (pm_running s)" and A = "fst ` set adm", OF _ this]
  have n: "?n \<notin> fst ` set adm" using a g(2) by (simp add: lease_book_def)
  then show "lease_book (s\<lparr>pm_slots := settle_call (Acquired l) c (pm_slots s)\<rparr>) (adm @ [(?n, q)])"
    using a g(1) by (simp add: lease_book_def drop_frame)
  show "(?n, q) \<notin> set adm" using n by force
qed

text \<open>A call of \<open>acquire\<close> ends or blocks.\<close>

lemma settle_books:
  assumes b: "all_books (my_state y) (my_admitted y) own"
    and w: "sq_process q \<notin> set (waiting_ids (my_state y) (my_admitted y))" and p: "pids (my_state y) (sq_process q) = Some None"
    and o: "my_owners y = own"
  shows "all_books (my_state (admit (settle_acquire cf os q c r (my_state y)) y)) (my_admitted (admit (settle_acquire cf os q c r (my_state y)) y))
     (my_owners (admit (settle_acquire cf os q c r (my_state y)) y))"
proof -
  let ?s = "my_state y" and ?adm = "my_admitted y"
  let ?s' = "?s\<lparr>pm_slots := settle_call r c (pm_slots ?s)\<rparr>"
  have h: "holdings ?s' = holdings ?s" "pids ?s' = pids ?s" "lease_of ?s' = lease_of ?s"
    by (simp_all add: holdings_def pids_def get_record_def lease_of_def fun_eq_iff)
  have a: "lease_book ?s ?adm" "claim_book ?s own" "id_book ?s ?adm" "pending_book ?s" using b by (simp_all add: all_books_def)
  have cb: "claim_book ?s' own" using a(2) by (simp add: claim_book_def h)
  show ?thesis
  proof (cases r)
    case (Acquired l)
    let ?n = "length (ss_leases (pm_slots ?s))"
    have "lease_book ?s' (?adm @ [(?n, q)])" unfolding Acquired by (rule lease_book_settle(1) [OF a(1)])
    moreover have "id_book ?s' (?adm @ [(?n, q)])" using a(3) w p by (auto simp: id_book_def waiting_ids_def h)
    moreover have "pending_book ?s'" using a(4) Acquired by (simp add: pending_book_def)
    ultimately show ?thesis using cb o Acquired by (simp add: settle_acquire_def admit_def all_books_def)
  next
    case (Timed_out e)
    then have "lease_book ?s' ?adm" "id_book ?s' ?adm" "pending_book ?s'"
      using a by (simp_all add: lease_book_def id_book_def pending_book_def waiting_ids_def h)
    then have "all_books ?s' ?adm own" using cb by (simp add: all_books_def)
    then show ?thesis
      using o Timed_out by (simp add: settle_acquire_def admit_def refuse_slot_def books_frame [OF frame_transition])
  next
    case (Waiting t)
    let ?s2 = "?s'\<lparr>pm_pending := pm_pending ?s @ [(c, q)]\<rparr>"
    have h2: "holdings ?s2 = holdings ?s" "pids ?s2 = pids ?s" "lease_of ?s2 = lease_of ?s"
      by (simp_all add: holdings_def pids_def get_record_def lease_of_def fun_eq_iff)
    have "live_lease (pm_slots ?s2) i \<longleftrightarrow> live_lease (pm_slots ?s) i" for i
      using live_settle [of r c "pm_slots ?s" i] Waiting by simp
    then have "lease_book ?s2 ?adm" using a(1) by (auto simp: lease_book_def h2 intro: slot_book_cong)
    moreover have "id_book ?s2 ?adm" using a(3) w p by (auto simp: id_book_def waiting_ids_def h2)
    moreover have "pending_book ?s2" using a(4) Waiting by (simp add: pending_book_def)
    moreover have "claim_book ?s2 own" using a(2) by (simp add: claim_book_def h2)
    ultimately show ?thesis using o Waiting by (simp add: settle_acquire_def admit_def all_books_def)
  qed
qed


lemma settle_slots: "pm_slots (my_state (admit (settle_acquire cf os q c r s) y)) = settle_call r c (pm_slots s)"
  by (cases r) (simp_all add: settle_acquire_def admit_def refuse_slot_def books_frame(2) [OF frame_transition])

lemma admit_state: "admit r (y\<lparr>my_state := s\<rparr>) = admit r y"
  by (simp add: admit_def split: prod.split spawn_progress.split)

lemma settle_inv:
  assumes "all_books s (my_admitted y) (my_owners y)" "sq_process q \<notin> set (waiting_ids s (my_admitted y))"
    "pids s (sq_process q) = Some None" "sched_reachable tok p (settle_call r c (pm_slots s))"
  shows "manager_inv tok p (admit (settle_acquire cf os q c r s) y)"
  using settle_books [of "y\<lparr>my_state := s\<rparr>" "my_owners y" q cf os c r] assms
  by (simp add: manager_inv_def settle_slots admit_state)

lemma books_sched: "all_books (s\<lparr>pm_slots := (pm_slots s)\<lparr>ss_sched := sched\<rparr>\<rparr>) adm own = all_books s adm own"
proof -
  let ?s = "s\<lparr>pm_slots := (pm_slots s)\<lparr>ss_sched := sched\<rparr>\<rparr>"
  have "holdings ?s = holdings s" "pids ?s = pids s" "lease_of ?s = lease_of s"
    by (simp_all add: holdings_def pids_def get_record_def lease_of_def fun_eq_iff)
  moreover have "live_lease ((pm_slots s)\<lparr>ss_sched := sched\<rparr>) = live_lease (pm_slots s)" by (simp add: live_lease_def fun_eq_iff)
  ultimately show ?thesis by (simp add: all_books_def books)
qed

lemma admit_raised:
  "manager_inv tok p (y\<lparr>my_state := s\<rparr>) \<Longrightarrow> manager_inv tok p (admit (s, Spawn_raised e) y)"
  by (simp add: admit_def)

lemma acquire_lease_inv:
  assumes b: "all_books s (my_admitted y) (my_owners y)" and w: "sq_process q \<notin> set (waiting_ids s (my_admitted y))"
    and p: "pids s (sq_process q) = Some None" and reach: "sched_reachable (os_tok os) p (pm_slots s)"
  shows "manager_inv (os_tok os) p (admit (acquire_lease cf os start wr prio q s) y)"
proof -
  have y: "manager_inv (os_tok os) p (y\<lparr>my_state := s\<rparr>)" using b reach by (simp add: manager_inv_def)
  then have f: "manager_inv (os_tok os) p (y\<lparr>my_state := s'\<rparr>)" if "frame s' = frame s" for s'
    using manager_inv_frame [of s' "y\<lparr>my_state := s\<rparr>"] that by simp
  show ?thesis
  proof (cases "pm_shutting s")
    case True
    then show ?thesis using f [OF frame_transition] by (simp add: acquire_lease_def refuse_slot_def admit_raised)
  next
    case False
    show ?thesis
    proof (cases "workspace_key (sq_workspace q) wr")
      case (Inl e)
      then show ?thesis using False y by (simp add: acquire_lease_def admit_raised)
    next
      case (Inr key)
      show ?thesis
      proof (cases "acquire_begin (os_tok os) start (os_clock os) (sq_workspace q) (Some key) prio (Some (mc_queue_timeout cf)) (ss_sched (pm_slots s))")
        case (Inl e)
        then show ?thesis using False Inr y by (simp add: acquire_lease_def admit_raised)
      next
        case (Inr x)
        obtain sched c r where x: "x = (sched, c, r)" by (cases x)
        let ?s = "s\<lparr>pm_slots := (pm_slots s)\<lparr>ss_sched := sched\<rparr>\<rparr>"
        have "sched_reachable (os_tok os) p (settle_call r c (pm_slots ?s))"
          using reach_step [OF reach step_begin [OF Inr [unfolded x]]] by simp
        then have "manager_inv (os_tok os) p (admit (settle_acquire cf os q c r ?s) y)"
          using b w p by (intro settle_inv) (simp_all add: books_sched waiting_ids_def pids_def get_record_def)
        then show ?thesis using False Inr x \<open>workspace_key _ _ = Inr key\<close> by (simp add: acquire_lease_def)
      qed
    qed
  qed
qed

lemma spawn_row_inv:
  assumes y: "manager_inv (os_tok os) p y"
    and ins: "insert_process wss pid ws tool sha preview path out err (ed_processes (pm_db (my_state y))) = Inr table"
    and q: "sq_process q = pid"
  shows "manager_inv (os_tok os) p (admit (acquire_lease cf os start wr prio q
     (pm_event cf os kind ws' pid' rq pl (on_table (\<lambda>_. table) (my_state y)))) y)"
proof -
  let ?s = "my_state y"
  let ?t = "on_table (\<lambda>_. table) ?s"
  let ?u = "pm_event cf os kind ws' pid' rq pl ?t"
  have new: "pids ?s pid = None" and row: "pids ?t = (pids ?s)(pid := Some None)"
    using ins by (auto simp: insert_process_def pids_table table_pids_def on_table_def on_db_def fun_eq_iff map_of_update_iff
        map_of_eq_None_iff split: if_splits)
  have e: "slot_part ?t = slot_part ?s" "holdings ?t = holdings ?s"
    by (simp_all add: slot_part_def holdings_def on_table_def on_db_def)
  have f: "frame ?u = frame ?t" by (rule frame_event)
  have b: "all_books ?s (my_admitted y) (my_owners y)" and reach: "sched_reachable (os_tok os) p (pm_slots ?s)"
    using y by (simp_all add: manager_inv_def)
  show ?thesis
  proof (rule acquire_lease_inv)
    show "all_books ?u (my_admitted y) (my_owners y)"
      using books_new_row(1) [OF b new e row] by (simp add: books_frame(1) [OF f])
    show "sq_process q \<notin> set (waiting_ids ?u (my_admitted y))"
      using books_new_row(2) [OF b new e row] by (simp add: waiting_ids_def frameD [OF f] q)
    show "pids ?u (sq_process q) = Some None" by (simp add: frameD [OF f] row q)
    show "sched_reachable (os_tok os) p (pm_slots ?u)"
      using reach e by (simp add: frameD [OF f]) (simp add: slot_part_def)
  qed
qed

lemma spawn_begin_inv:
  assumes "manager_inv (os_tok os) p y"
  shows "manager_inv (os_tok os) p (admit (spawn_begin cf os dir start c (my_state y)) y)"
proof -
  let ?s = "my_state y"
  have same: "manager_inv (os_tok os) p (admit (?s, Spawn_raised e) y)" "manager_inv (os_tok os) p (admit (?s, Spawn_reply r) y)" for e r
    using assms by (simp_all add: admit_def)
  show ?thesis
  proof (cases "(case sp_terminal c of None \<Rightarrow> False | Some (columns, rows) \<Rightarrow> \<not> terminal_ok columns rows)")
    case True
    then show ?thesis using same by (simp add: spawn_begin_def)
  next
    case ok: False
    show ?thesis
    proof (cases "resolve_cwd os (sp_worktree c) (sp_directory c)")
      case (Inl e)
      then show ?thesis using ok same by (simp add: spawn_begin_def)
    next
      case (Inr cwd)
      let ?pid = "''pr-'' @ os_fresh os ''process''"
      let ?q = "\<lparr>sq_process = ?pid, sq_workspace = sp_workspace c, sq_script = sp_script c, sq_directory = cwd,
                 sq_timeout = chosen_timeout cf (sp_timeout c), sq_tool = sp_tool c, sq_request = sp_request c, sq_terminal = sp_terminal c,
                 sq_outputs = dir @ [?pid]\<rparr>"
      let ?ins = "insert_process (ed_workspaces (pm_db ?s)) ?pid (sp_workspace c) (sp_tool c) (Some (script_sha os c)) (Some (take 200 (sp_script c)))
               (Some (path_string cwd)) (Some (path_string (sq_outputs ?q @ [''stdout.txt'']))) (Some (path_string (sq_outputs ?q @ [''stderr.txt''])))
               (ed_processes (pm_db ?s))"
      show ?thesis
      proof (cases ?ins)
        case (Inl msg)
        then show ?thesis using ok Inr same by (simp add: spawn_begin_def Let_def)
      next
        case ins: (Inr table)
        show ?thesis
          using ok Inr ins spawn_row_inv [OF assms ins, where q = ?q and cf = cf] by (simp add: spawn_begin_def Let_def)
      qed
    qed
  qed
qed

lemma spawn_resume_inv:
  assumes y: "manager_inv (os_tok os) p y" and e: "e \<in> set (pm_pending (my_state y))"
  shows "manager_inv (os_tok os) p (admit (spawn_resume cf os e (my_state y)) y)"
proof -
  let ?s = "my_state y"
  obtain c q where cq: "e = (c, q)" by (cases e)
  obtain sched r where r: "acquire_resume (os_tok os) (os_clock os) c (ss_sched (pm_slots ?s)) = (sched, r)" by fastforce
  let ?t = "?s\<lparr>pm_slots := (pm_slots ?s)\<lparr>ss_sched := sched, ss_calls := remove1 c (ss_calls (pm_slots ?s))\<rparr>,
               pm_pending := remove1 e (pm_pending ?s)\<rparr>"
  have b: "all_books ?s (my_admitted y) (my_owners y)" and reach: "sched_reachable (os_tok os) p (pm_slots ?s)"
    using y by (simp_all add: manager_inv_def)
  have h: "holdings ?t = holdings ?s" "pids ?t = pids ?s" "lease_of ?t = lease_of ?s"
    by (simp_all add: holdings_def pids_def get_record_def lease_of_def fun_eq_iff)
  have pend: "mset (map fst (pm_pending ?s)) \<subseteq># mset (ss_calls (pm_slots ?s))" using b by (simp add: all_books_def pending_book_def)
  have c: "c \<in> set (ss_calls (pm_slots ?s))"
  proof -
    have "c \<in># mset (map fst (pm_pending ?s))" using e cq by force
    then show ?thesis using mset_subset_eqD [OF pend] by simp
  qed
  have perm: "mset (pm_pending ?s) = add_mset e (mset (pm_pending ?t))" using e by simp
  have w: "mset (waiting_ids ?s (my_admitted y)) = add_mset (sq_process q) (mset (waiting_ids ?t (my_admitted y)))"
    unfolding waiting_ids_def mset_append mset_map perm by (simp add: cq)
  have d: "distinct (waiting_ids ?s (my_admitted y))" using b by (simp add: all_books_def id_book_def)
  then have "distinct (sq_process q # waiting_ids ?t (my_admitted y))"
    using w by (metis distinct.simps(2) mset.simps(2) mset_eq_imp_distinct_iff)
  moreover have ws: "set (waiting_ids ?s (my_admitted y)) = insert (sq_process q) (set (waiting_ids ?t (my_admitted y)))"
    using arg_cong [OF w, of set_mset] by simp
  ultimately have id: "id_book ?t (my_admitted y)" and fresh: "sq_process q \<notin> set (waiting_ids ?t (my_admitted y))"
    and row: "pids ?t (sq_process q) = Some None"
    using b by (simp_all add: all_books_def id_book_def h)
  have "pending_book ?t"
  proof -
    have "mset (map fst (pm_pending ?s)) = add_mset c (mset (map fst (pm_pending ?t)))" by (simp only: mset_map perm) (simp add: cq)
    then have "mset (map fst (pm_pending ?t)) \<subseteq># mset (ss_calls (pm_slots ?s)) - {#c#}" using pend by (simp add: insert_subset_eq_iff)
    then show ?thesis by (simp add: pending_book_def)
  qed
  moreover have "live_lease (pm_slots ?t) = live_lease (pm_slots ?s)" by (simp add: live_lease_def fun_eq_iff)
  ultimately have books: "all_books ?t (my_admitted y) (my_owners y)"
    using b id by (simp add: all_books_def lease_book_def claim_book_def h)
  have "manager_inv (os_tok os) p (admit (settle_acquire cf os q c r ?t) y)"
    using reach_step [OF reach step_resume [OF c r]] by (intro settle_inv books fresh row) simp
  then show ?thesis by (simp add: spawn_resume_def cq r)
qed


subsection \<open>Launching and adopting\<close>

lemma distinct_fst_remove1:
  assumes "distinct (map fst adm)" "(i, q) \<in> set adm"
  shows "fst ` set (remove1 (i, q) adm) = fst ` set adm - {i}" "distinct (map fst (remove1 (i, q) adm))"
proof -
  have m: "mset (map fst adm) = add_mset i (mset (map fst (remove1 (i, q) adm)))" using assms(2) by simp (metis fst_conv image_mset_add_mset insert_DiffM set_mset_mset)
  then have d: "distinct (i # map fst (remove1 (i, q) adm))" using assms(1) by (metis mset.simps(2) mset_eq_imp_distinct_iff)
  then show "distinct (map fst (remove1 (i, q) adm))" by simp
  show "fst ` set (remove1 (i, q) adm) = fst ` set adm - {i}"
    using mset_eq_setD [of "map fst adm" "i # map fst (remove1 (i, q) adm)"] m d by auto
qed

lemma lease_book_drop:
  assumes b: "lease_book s adm" and i: "(i, q) \<in> set adm"
    and e: "pm_slots s' = drop_lease tok i (pm_slots s)" "pm_running s' = pm_running s" "lease_of s' = lease_of s"
  shows "lease_book s' (remove1 (i, q) adm)" "i < length (ss_leases (pm_slots s))"
proof -
  have "i \<in> fst ` set adm" using i by force
  moreover have k: "slot_book (live_lease (pm_slots s)) (lease_of s) (set (pm_running s)) (fst ` set adm)" "distinct (map fst adm)"
    using b by (simp_all add: lease_book_def)
  ultimately show "lease_book s' (remove1 (i, q) adm)"
    using slots.book_refuse(1) [where tok = tok] by (simp add: lease_book_def e distinct_fst_remove1 [OF _ i])
  show "i < length (ss_leases (pm_slots s))"
    using slots.book_refuse(2) [OF k(1) \<open>i \<in> fst ` set adm\<close>] by (simp add: live_lease_def)
qed

lemma lease_book_run:
  assumes b: "lease_book s adm" and i: "(i, q) \<in> set adm" and r: "pid \<notin> set (pm_running s)"
    and e: "pm_slots s' = pm_slots s" "pm_running s' = pm_running s @ [pid]" "lease_of s' = (lease_of s)(pid := Some i)"
  shows "lease_book s' (remove1 (i, q) adm)"
proof -
  have "i \<in> fst ` set adm" using i by force
  moreover have "slot_book (live_lease (pm_slots s)) (lease_of s) (set (pm_running s)) (fst ` set adm)" "distinct (map fst adm)"
    using b by (simp_all add: lease_book_def)
  ultimately show ?thesis
    using book_run [OF _ _ r] by (simp add: lease_book_def e distinct_fst_remove1 [OF _ i])
qed

lemma claim_book_run:
  assumes b: "claim_book s own" and r: "pid \<notin> set (pm_running s)"
    and e: "pm_running s' = pm_running s @ [pid]" "holdings s' = (holdings s)(pid := Some (Some i, False))"
  shows "claim_book s' own"
proof (rule claim_book_change [OF b, of _ _ pid])
  show "claim_ok (holdings s' pid) (pid \<in> set (pm_running s')) (pid \<in> set own)"
    using claim_bookD [OF b, of pid] r by (cases "holdings s pid") (auto simp: e)
qed (use b r in \<open>auto simp: claim_book_def e\<close>)

lemma add_running_frame:
  assumes "pid \<notin> set (pm_running s)"
  shows "pm_slots (add_running pid r s) = pm_slots s" "pm_running (add_running pid r s) = pm_running s @ [pid]"
    "pm_pending (add_running pid r s) = pm_pending s" "pids (add_running pid r s) = pids s"
    "holdings (add_running pid r s) = (holdings s)(pid := Some (rp_lease r, rp_finalized r))"
    "lease_of (add_running pid r s) = (lease_of s)(pid := rp_lease r)"
  using assms by (auto simp: add_running_def pids_def get_record_def holdings_def lease_of_def map_of_update_iff fun_eq_iff)

text \<open>Only the row of one process changes, and it stays.\<close>

definition one_row :: "string \<Rightarrow> (string \<Rightarrow> int option option) \<Rightarrow> (string \<Rightarrow> int option option) \<Rightarrow> bool" where
  "one_row pid f g \<longleftrightarrow> (\<forall>k. k \<noteq> pid \<longrightarrow> g k = f k) \<and> (g pid = None \<longleftrightarrow> f pid = None)"

lemma one_row_update: "one_row pid (table_pids t) (table_pids (update_row pid f t))"
  by (simp add: one_row_def table_pids_update_row) (simp add: table_pids_def)

lemma one_row_start: "one_row pid (table_pids (ed_processes db)) (table_pids (ed_processes (fst (start_process now pid n tool rq rc db))))"
proof (cases "map_of (ed_processes db) pid")
  case (Some r)
  then have "one_row pid (table_pids (ed_processes db)) (table_pids (AList.update pid r' (ed_processes db)))" for r'
    by (simp add: one_row_def table_pids_def map_of_update_iff)
  then show ?thesis
    using Some by (auto simp: start_process_def transact_def start_body_def Let_def insert_locked_def one_row_def split: prod.split sum.split)
qed (simp add: start_process_def transact_def start_body_def one_row_def)

lemma started_row:
  "slot_part (mark_process_started cf os pid n tool rq s) = slot_part s"
  "holdings (mark_process_started cf os pid n tool rq s) = holdings s"
  "one_row pid (pids s) (pids (mark_process_started cf os pid n tool rq s))"
proof -
  let ?st = "\<lambda>s. on_table (update_process_status (os_now os) pid ''running'' (Some n) None None) s"
  have u: "one_row pid (pids s) (pids (?st s))" for s
    by (simp add: pids_table on_table_def on_db_def update_process_status_def one_row_update)
  obtain db r where d: "start_process (os_now os) pid n tool rq False (pm_db s) = (db, r)" by fastforce
  then have "one_row pid (pids s) (pids (s\<lparr>pm_db := db\<rparr>))"
    using one_row_start [of pid "pm_db s" "os_now os" n tool rq False] by (simp add: pids_table)
  with u [of "s\<lparr>pm_db := db\<rparr>"] have "one_row pid (pids s) (pids (?st (s\<lparr>pm_db := db\<rparr>)))" by (simp add: one_row_def)
  with u \<open>one_row pid (pids s) (pids (s\<lparr>pm_db := db\<rparr>))\<close> d
  show "one_row pid (pids s) (pids (mark_process_started cf os pid n tool rq s))"
    by (simp add: mark_process_started_def Let_def split: sum.split)
  show "slot_part (mark_process_started cf os pid n tool rq s) = slot_part s"
    "holdings (mark_process_started cf os pid n tool rq s) = holdings s"
    using d by (simp_all add: mark_process_started_def Let_def slot_part_def holdings_def on_table_def on_db_def split: sum.split)
qed

lemma runtime_pids:
  assumes "pids s pid \<noteq> None"
  shows "pids (update_runtime pid (Some n) identity heartbeat None job recovery s) = (pids s)(pid := Some (Some n))"
    "slot_part (update_runtime pid (Some n) identity heartbeat None job recovery s) = slot_part s"
    "holdings (update_runtime pid (Some n) identity heartbeat None job recovery s) = holdings s"
proof -
  obtain r where "map_of (ed_processes (pm_db s)) pid = Some r" using assms by (auto simp: pids_def get_record_def)
  then show "pids (update_runtime pid (Some n) identity heartbeat None job recovery s) = (pids s)(pid := Some (Some n))"
    by (simp add: update_runtime_def on_table_def on_db_def pids_table update_process_runtime_def fun_eq_iff table_pids_update_row keep_def)
qed (simp_all add: update_runtime_def on_table_def on_db_def slot_part_def holdings_def)

lemma id_book_remove:
  assumes "id_book s adm" "(i, q) \<in> set adm" "pm_pending s' = pm_pending s" "pm_running s' = pm_running s" "pids s' = pids s"
  shows "id_book s' (remove1 (i, q) adm)"
    "sq_process q \<notin> set (waiting_ids s' (remove1 (i, q) adm))"
proof -
  have perm: "mset adm = add_mset (i, q) (mset (remove1 (i, q) adm))" using assms(2) by simp
  have w: "mset (waiting_ids s adm) = add_mset (sq_process q) (mset (waiting_ids s' (remove1 (i, q) adm)))"
    unfolding waiting_ids_def mset_append mset_map perm by (simp add: assms(3))
  have "distinct (waiting_ids s adm)" using assms(1) by (simp add: id_book_def)
  then have d: "distinct (sq_process q # waiting_ids s' (remove1 (i, q) adm))"
    using w by (metis distinct.simps(2) mset.simps(2) mset_eq_imp_distinct_iff)
  then show "sq_process q \<notin> set (waiting_ids s' (remove1 (i, q) adm))" by simp
  have "set (waiting_ids s adm) = insert (sq_process q) (set (waiting_ids s' (remove1 (i, q) adm)))"
    using arg_cong [OF w, of set_mset] by simp
  then show "id_book s' (remove1 (i, q) adm)" using assms(1,4,5) d by (simp add: id_book_def)
qed

lemma launch_refused_books:
  assumes b: "all_books s adm own" and i: "(i, q) \<in> set adm"
  shows "all_books (s\<lparr>pm_slots := drop_lease tok i (pm_slots s)\<rparr>) (remove1 (i, q) adm) own"
proof -
  let ?s = "s\<lparr>pm_slots := drop_lease tok i (pm_slots s)\<rparr>"
  have a: "lease_book s adm" "claim_book s own" "id_book s adm" "pending_book s" using b by (simp_all add: all_books_def)
  show ?thesis
    using lease_book_drop [OF a(1) i, of ?s tok] a(2,4) id_book_remove(1) [OF a(3) i, of ?s]
    by (simp add: all_books_def claim_book_def pending_book_def drop_frame drop_lease_live)
qed

lemma launched_books:
  assumes b: "all_books s adm own" and i: "(i, q) \<in> set adm"
    and e: "slot_part s' = slot_part s" "holdings s' = holdings s" "pids s' = (pids s)(sq_process q := Some (Some n))"
    and r: "rp_lease r = Some i" "\<not> rp_finalized r"
  shows "all_books (add_running (sq_process q) r s') (remove1 (i, q) adm) own"
proof -
  have a: "lease_book s adm" "claim_book s own" "id_book s adm" "pending_book s" using b by (simp_all add: all_books_def)
  have f: "pm_slots s' = pm_slots s" "pm_running s' = pm_running s" "pm_pending s' = pm_pending s" "lease_of s' = lease_of s"
    using e by (simp_all add: slot_part_def lease_of_def fun_eq_iff)
  have "sq_process q \<in> set (waiting_ids s adm)" using i by (force simp: waiting_ids_def)
  then have "pids s (sq_process q) = Some None" using a(3) by (simp add: id_book_def)
  then have nr: "sq_process q \<notin> set (pm_running s)" using a(3) by (auto simp: id_book_def)
  let ?t = "add_running (sq_process q) r s'"
  have nr': "sq_process q \<notin> set (pm_running s')" using nr f by simp
  note t = add_running_frame [OF nr', of r]
  have "lease_book ?t (remove1 (i, q) adm)" by (rule lease_book_run [OF a(1) i nr]) (simp_all add: t f r)
  moreover have "claim_book ?t own" by (rule claim_book_run [OF a(2) nr, of _ i]) (simp_all add: t f r e)
  moreover have "id_book ?t (remove1 (i, q) adm)"
    using id_book_remove [OF a(3) i refl refl refl] by (simp add: id_book_def t f e waiting_ids_def) blast
  moreover have "pending_book ?t" using a(4) by (simp add: pending_book_def t f)
  ultimately show ?thesis by (simp add: all_books_def)
qed


lemma launch_process_inv:
  assumes y: "manager_inv (os_tok os) p y" and i: "(i, q) \<in> set (my_admitted y)"
  shows "manager_inv (os_tok os) p (y\<lparr>my_state := fst (launch_process cf os i q l (my_state y)), my_admitted := remove1 (i, q) (my_admitted y)\<rparr>)"
proof -
  let ?s = "my_state y" and ?pid = "sq_process q"
  have b: "all_books ?s (my_admitted y) (my_owners y)" and reach: "sched_reachable (os_tok os) p (pm_slots ?s)"
    using y by (simp_all add: manager_inv_def)
  show ?thesis
  proof (cases "launch_refusal q l")
    case (Some x)
    obtain reason reply where x: "x = (reason, reply)" by (cases x)
    let ?t = "transition_record cf os ?pid ''failed'' (exit_with (Some (- 1)) None reason None None) ?s"
    have f: "frame ?t = frame ?s" by (rule frame_transition)
    have l: "fst (launch_process cf os i q l ?s) = release_lease os i ?t"
      using Some x by (cases l) (simp_all add: launch_process_def launch_refusal_def Let_def)
    have b': "all_books ?t (my_admitted y) (my_owners y)" using b by (simp add: books_frame [OF f])
    have "i < length (ss_leases (pm_slots ?s))"
      using b lease_book_drop(2) [OF _ i, of ?s "?s\<lparr>pm_slots := drop_lease (os_tok os) i (pm_slots ?s)\<rparr>"] by (simp add: all_books_def drop_frame)
    then show ?thesis
      using launch_refused_books [OF b' i] drop_lease_step [OF reach]
      by (simp add: manager_inv_def l release_lease_slots frameD(1) [OF f])
  next
    case None
    then obtain n identity job job_error pty where l: "l = Launched n identity job job_error pty"
      by (cases l) (auto simp: launch_refusal_def Let_def)
    let ?a = "mark_process_started cf os ?pid n (sq_tool q) (sq_request q) ?s"
    let ?note = "Some (case job_error of None \<Rightarrow> ''started'' | Some e \<Rightarrow> if e = [] then ''started'' else ''resource_limits_unavailable:'' @ e)"
    let ?c = "update_runtime ?pid (Some n) identity (Some (os_now os)) None job ?note ?a"
    let ?d = "if sq_terminal q = None then act (Wrote ?pid (pwsh_prefix @ sq_script q)) ?c else ?c"
    have "?pid \<in> set (waiting_ids ?s (my_admitted y))" using i by (force simp: waiting_ids_def)
    then have "pids ?s ?pid = Some None" using b by (simp add: all_books_def id_book_def)
    then have "pids ?a ?pid \<noteq> None" using started_row(3) [of ?pid ?s] by (simp add: one_row_def)
    note c = runtime_pids [OF this, of n identity "Some (os_now os)" job ?note]
    have "frame ?d = frame ?c" by (simp add: frame_act)
    then have d: "slot_part ?d = slot_part ?s" "holdings ?d = holdings ?s" "pids ?d = (pids ?s)(?pid := Some (Some n))"
      using c started_row [where cf = cf and os = os and pid = ?pid and n = n and tool = "sq_tool q" and rq = "sq_request q" and s = ?s]
      by (auto simp: frame_def one_row_def fun_eq_iff)
    have "rp_lease (new_object os i q n identity pty) = Some i" "\<not> rp_finalized (new_object os i q n identity pty)"
      by (simp_all add: new_object_def)
    note books = launched_books [OF b i d this]
    have "fst (launch_process cf os i q l ?s) = add_running ?pid (new_object os i q n identity pty) ?d"
      by (simp add: l launch_process_def Let_def)
    moreover have "pm_slots (add_running ?pid r ?d) = pm_slots ?s" for r using d(1) by (simp add: add_running_def slot_part_def)
    ultimately show ?thesis using books reach by (simp only: manager_inv_def) simp
  qed
qed

text \<open>A slot for a process that already runs.\<close>

lemma adoption_books:
  assumes b: "all_books s adm own" and n: "pids s pid = Some (Some n)" and r: "rp_lease r = Some (length (ss_leases (pm_slots s)))" "\<not> rp_finalized r"
    and s1: "s1 = s\<lparr>pm_slots := settle_call (Acquired l) c (pm_slots s)\<rparr>"
  shows "pid \<in> set (pm_running s) \<Longrightarrow> all_books (release_lease os (length (ss_leases (pm_slots s))) s1) adm own"
    "pid \<notin> set (pm_running s) \<Longrightarrow> all_books (add_running pid r s1) adm own"
proof -
  let ?n = "length (ss_leases (pm_slots s))" and ?q = "undefined :: spawn_request"
  have a: "lease_book s adm" "claim_book s own" "id_book s adm" "pending_book s" using b by (simp_all add: all_books_def)
  have e: "holdings s1 = holdings s" "pids s1 = pids s" "lease_of s1 = lease_of s" "pm_running s1 = pm_running s" "pm_pending s1 = pm_pending s"
    "ss_calls (pm_slots s1) = ss_calls (pm_slots s)" by (simp_all add: s1 drop_frame)
  have l1: "lease_book s1 (adm @ [(?n, ?q)])" unfolding s1 by (rule lease_book_settle(1) [OF a(1)])
  have m: "(?n, ?q) \<in> set (adm @ [(?n, ?q)])" by simp
  have rm: "remove1 (?n, ?q) (adm @ [(?n, ?q)]) = adm" using lease_book_settle(2) [OF a(1)] by (simp add: remove1_append)
  have w: "waiting_ids s1 adm = waiting_ids s adm" by (simp add: waiting_ids_def e)
  show "all_books (release_lease os ?n s1) adm own" if "pid \<in> set (pm_running s)"
  proof -
    let ?t = "release_lease os ?n s1"
    have t: "?t = s1\<lparr>pm_slots := drop_lease (os_tok os) ?n (pm_slots s1)\<rparr>" by (rule release_lease_slots)
    have "?n < length (ss_leases (pm_slots s1))" by (simp add: s1)
    then show ?thesis
      using lease_book_drop [OF l1 m, of ?t "os_tok os"] a(2-4)
      by (simp add: all_books_def claim_book_def id_book_def pending_book_def waiting_ids_def t drop_frame drop_lease_live e rm)
  qed
  show "all_books (add_running pid r s1) adm own" if nr: "pid \<notin> set (pm_running s)"
  proof -
    have nr1: "pid \<notin> set (pm_running s1)" using nr by (simp add: e)
    let ?t = "add_running pid r s1"
    note t = add_running_frame [OF nr1, of r]
    have "lease_book ?t adm" using lease_book_run [OF l1 m nr1, of ?t] by (simp add: t r rm)
    moreover have "claim_book ?t own" by (rule claim_book_run [OF a(2) nr, of _ ?n]) (simp_all add: t e r)
    moreover have "id_book ?t adm" using a(3) n by (auto simp: id_book_def t e waiting_ids_def)
    moreover have "pending_book ?t" using a(4) by (simp add: pending_book_def t e)
    ultimately show ?thesis by (simp add: all_books_def)
  qed
qed


lemma more_calls_books:
  assumes b: "all_books s adm own" and r: "\<And>l. r \<noteq> Acquired l"
  shows "all_books (s\<lparr>pm_slots := settle_call r c (pm_slots s)\<rparr>) adm own"
proof -
  have l: "live_lease (settle_call r c (pm_slots s)) = live_lease (pm_slots s)" using live_settle [of r c "pm_slots s"] r by auto
  have "mset (ss_calls (pm_slots s)) \<subseteq># mset (ss_calls (settle_call r c (pm_slots s)))" by (cases r) simp_all
  then show ?thesis
    using b by (auto simp: all_books_def books drop_frame l intro: subset_mset.order_trans)
qed

lemma adopted_inv:
  assumes s1: "s1 = s\<lparr>pm_slots := settle_call (Acquired l) c (pm_slots s)\<rparr>" and i: "i = length (ss_leases (pm_slots s))"
    and b: "all_books s (my_admitted y) (my_owners y)" and n: "pids s pid = Some (Some n)"
    and reach: "sched_reachable (os_tok os) p (pm_slots s1)"
  shows "pid \<in> set (pm_running s) \<Longrightarrow> manager_inv (os_tok os) p (y\<lparr>my_state := release_lease os i s1\<rparr>)"
    "pid \<notin> set (pm_running s) \<Longrightarrow> manager_inv (os_tok os) p
       (y\<lparr>my_state := pm_event cf os kind ws pid' rq pl (add_running pid (recovered_object cf os i r) s1)\<rparr>)"
proof -
  let ?o = "recovered_object cf os i r"
  have o: "rp_lease ?o = Some (length (ss_leases (pm_slots s)))" "\<not> rp_finalized ?o" by (simp_all add: recovered_object_def Let_def i)
  note books = adoption_books [OF b n o s1, folded i]
  have "sched_reachable (os_tok os) p (pm_slots (release_lease os i s1))"
    using drop_lease_step [OF reach, of i] s1 i by (simp add: release_lease_slots)
  with books(1) show "pid \<in> set (pm_running s) \<Longrightarrow> manager_inv (os_tok os) p (y\<lparr>my_state := release_lease os i s1\<rparr>)"
    by (simp add: manager_inv_def)
  assume "pid \<notin> set (pm_running s)"
  then have "manager_inv (os_tok os) p (y\<lparr>my_state := add_running pid ?o s1\<rparr>)"
    using books(2) reach by (simp add: manager_inv_def) (simp add: add_running_def)
  then show "manager_inv (os_tok os) p (y\<lparr>my_state := pm_event cf os kind ws pid' rq pl (add_running pid ?o s1)\<rparr>)"
    using manager_inv_frame [OF frame_event, where y = "y\<lparr>my_state := add_running pid ?o s1\<rparr>"] by simp
qed

lemma adopt_inv:
  assumes y: "manager_inv (os_tok os) p y" and r: "get_record (my_state y) pid = Some r"
  shows "manager_inv (os_tok os) p (y\<lparr>my_state := fst (adopt_recovered_process cf os start pid r (my_state y))\<rparr>)"
proof (cases "adoptable os pid r")
  case ok: True
  let ?s = "my_state y" and ?i = "length (ss_leases (pm_slots (my_state y)))"
  have b: "all_books ?s (my_admitted y) (my_owners y)" and reach: "sched_reachable (os_tok os) p (pm_slots ?s)"
    using y by (simp_all add: manager_inv_def)
  obtain n where n: "pids ?s pid = Some (Some n)" using ok r by (auto simp: adoptable_def pids_def split: option.splits)
  show ?thesis
  proof (cases "workspace_key (pc_workspace r) True")
    case key: (Inr key)
    let ?acq = "acquire_begin (os_tok os) start (os_clock os) (pc_workspace r) (Some key) 100 (Some 0) (ss_sched (pm_slots ?s))"
    show ?thesis
    proof (cases ?acq)
      case (Inr x)
      obtain sched c res where x: "x = (sched, c, res)" by (cases x)
      let ?s0 = "?s\<lparr>pm_slots := (pm_slots ?s)\<lparr>ss_sched := sched\<rparr>\<rparr>"
      let ?s1 = "?s0\<lparr>pm_slots := settle_call res c (pm_slots ?s0)\<rparr>"
      have b0: "all_books ?s0 (my_admitted y) (my_owners y)" using b by (simp add: books_sched)
      have n0: "pids ?s0 pid = Some (Some n)" using n by (simp add: drop_frame)
      have reach1: "sched_reachable (os_tok os) p (pm_slots ?s1)"
        using reach_step [OF reach step_begin [OF Inr [unfolded x]]] by simp
      note def = adopt_recovered_process_def Let_def
      show ?thesis
      proof (cases res)
        case (Acquired l)
        then show ?thesis
          using adopted_inv [where y = y and s = ?s0 and l = l and c = c, OF _ _ b0 n0] reach1 ok key Inr x by (simp add: def)
      next
        case (Timed_out e)
        then show ?thesis
          using more_calls_books [OF b0, of res c] reach1 ok key Inr x by (simp add: def manager_inv_def)
      next
        case (Waiting t)
        then show ?thesis
          using more_calls_books [OF b0, of res c] reach1 ok key Inr x by (simp add: def manager_inv_def)
      qed
    qed (use ok key y in \<open>simp add: adopt_recovered_process_def\<close>)
  qed (use ok y in \<open>simp add: adopt_recovered_process_def\<close>)
qed (use y in \<open>simp add: adopt_recovered_process_def\<close>)

subsection \<open>Every step keeps the books\<close>

lemma manager_step_inv [op_inv]:
  assumes step: "manager_step tok cf y z" and y: "manager_inv tok p y"
  shows "manager_inv tok p z"
  using step
proof cases
  case (step_spawn os dir start c)
  then show ?thesis using spawn_begin_inv y by blast
next
  case (step_wake os e)
  then show ?thesis using spawn_resume_inv y by blast
next
  case (step_launch os i q l)
  then show ?thesis using launch_process_inv y by blast
next
  case (step_claim pid s')
  then have "all_books s' (my_admitted y) (my_owners y @ [pid])"
    using claim_books y by (auto simp: manager_inv_def)
  moreover have "pm_slots s' = pm_slots (my_state y)" using claim_completion_True(2) [OF step_claim(2)] by (simp add: slot_part_def)
  ultimately show ?thesis using y by (simp add: step_claim(1) manager_inv_def)
next
  case (step_complete os pid s')
  have c: "completed tok pid (my_state y) s'" using completions_completed [OF step_complete(4)] step_complete(2) by simp
  have b: "all_books (my_state y) (my_admitted y) (my_owners y)" and reach: "sched_reachable tok p (pm_slots (my_state y))"
    using y by (simp_all add: manager_inv_def)
  have "claim_book (my_state y) (my_owners y)" using b by (simp add: all_books_def)
  from claim_book_owned [OF this step_complete(3)]
  obtain i where i: "holdings (my_state y) pid = Some (Some i, True)" "pid \<in> set (pm_running (my_state y))" by blast
  have l: "lease_of (my_state y) pid = Some i" using i by (simp add: lease_of_def)
  have "live_lease (pm_slots (my_state y)) i"
    by (rule slots.book_finish(2) [OF books_slots [OF b] i(2) l])
  then have "sched_reachable tok p (pm_slots s')"
    using c i drop_lease_step [OF reach] by (simp add: completed_def live_lease_def)
  then show ?thesis using completed_books [OF b step_complete(3) c] by (simp add: step_complete(1) manager_inv_def)
next
  case (step_adopt os pid r start)
  then show ?thesis using adopt_inv y by blast
next
  case (step_shutdown s' claimed)
  have b: "all_books (my_state y) (my_admitted y) (my_owners y)" and reach: "sched_reachable tok p (pm_slots (my_state y))"
    using y by (simp_all add: manager_inv_def)
  let ?cs = "filter (claimable (my_state y)) (pm_running (my_state y))" and ?s = "(my_state y)\<lparr>pm_shutting := True\<rparr>"
  have f: "frame ?s = frame (my_state y)" by (simp add: frame_def slot_part_def holdings_def pids_def get_record_def)
  have "distinct ?cs" using b by (simp add: all_books_def claim_book_def)
  moreover have "\<forall>pid \<in> set ?cs. claimable ?s pid" by (simp add: claimable_def)
  ultimately have "all_books (fold (\<lambda>pid s. fst (claim_completion pid s)) ?cs ?s) (my_admitted y) (my_owners y @ ?cs)"
    using claims_books [of ?s] b by (simp add: books_frame [OF f])
  then show ?thesis
    using step_shutdown y reach by (auto simp: shutdown_begin_def Let_def manager_inv_def claims_slots split: if_splits)
qed (simp_all add: manager_inv_frame y op_frame)

lemma manager_start_books:
  assumes "new_manager c events db ops = Inr (cf, s0)"
  shows "manager_inv tok (manager_policy c) \<lparr>my_state = s0, my_admitted = [], my_owners = []\<rparr>"
    "policy_ok (manager_policy c)" "mc_max_running cf = global_limit (manager_policy c)"
proof -
  from assms have p: "check_policy (manager_policy c) = Inr (manager_policy c)"
    by (auto simp: new_manager_def obind_Inr_iff check_policy_def split: if_splits)
  then show "policy_ok (manager_policy c)" by (simp add: policy_ok_def)
  from assms p have s: "s0 = \<lparr>pm_slots = start_system (manager_policy c), pm_db = db, pm_ops = ops, pm_objects = [], pm_running = [], pm_pending = [],
           pm_shutting = False, pm_actions = []\<rparr>" and "mc_max_running cf = global_limit (manager_policy c)"
    by (auto simp: new_manager_def obind_Inr_iff)
  then show "mc_max_running cf = global_limit (manager_policy c)" by blast
  show "manager_inv tok (manager_policy c) \<lparr>my_state = s0, my_admitted = [], my_owners = []\<rparr>"
    by (simp add: manager_inv_def all_books_def lease_book_def claim_book_def id_book_def pending_book_def waiting_ids_def s
        start_system_def live_lease_def holdings_def slot_book_def) (metis reach_start start_system_def)
qed

lemma manager_reachable_inv:
  assumes "manager_reachable tok cf s0 y" "new_manager c events db ops = Inr (cf, s0)"
  shows "manager_inv tok (manager_policy c) y"
  using assms(1) by induction (auto intro: manager_start_books(1) [OF assms(2)] manager_step_inv)

end
