(* ===== verification/Process_Safety.thy ===== *)
theory Process_Safety
  imports Process_Books
begin

text \<open>
  What the process manager promises: bounded running processes, exact slots, one completion per process, a
  watchdog that ends, and which settings it accepts.
\<close>

subsection \<open>Slots\<close>

lemma live_card:
  assumes "system_inv tok y"
  shows "finite {i. live_lease y i}" "card {i. live_lease y i} \<le> length (sc_active (ss_sched y))"
proof -
  let ?A = "{i. live_lease y i}" and ?f = "\<lambda>i. pl_lease (ss_leases y ! i)"
  have i: "?A \<subseteq> {..<length (ss_leases y)}" by (auto simp: live_lease_def)
  then show "finite ?A" by (rule finite_subset) simp
  have d: "distinct (map pl_lease (ss_leases y))" using assms by (simp add: system_inv_def leases_inv_def)
  have inj: "inj_on ?f ?A"
    using d by (auto simp: inj_on_def live_lease_def distinct_conv_nth)
  have held: "held y (?f i)" if "live_lease y i" for i
  proof -
    have "ss_leases y ! i = \<lparr>pl_lease = ?f i, pl_released = False\<rparr>" using that by (cases "ss_leases y ! i") (simp add: live_lease_def)
    then show ?thesis using that unfolding held_def live_lease_def by (metis nth_mem)
  qed
  then have "?f ` ?A \<subseteq> fst ` set (sc_active (ss_sched y))"
    using assms by (auto simp: system_inv_def leases_inv_def)
  then have "card (?f ` ?A) \<le> card (fst ` set (sc_active (ss_sched y)))" by (rule card_mono [rotated]) simp
  also have "\<dots> \<le> length (sc_active (ss_sched y))" by (metis card_image_le card_length le_trans list.set_finite)
  finally show "card ?A \<le> length (sc_active (ss_sched y))" by (simp add: card_image [OF inj])
qed

lemma book_card:
  assumes "all_books s adm own"
  shows "card {i. live_lease (pm_slots s) i} = length (pm_running s) + length adm"
proof -
  have b: "lease_book s adm" "claim_book s own" using assms by (simp_all add: all_books_def)
  have "card {i. live_lease (pm_slots s) i} = card (set (pm_running s)) + card (fst ` set adm)"
    by (rule slots.book_count [OF books_slots [OF assms]]) simp_all
  moreover have "card (set (pm_running s)) = length (pm_running s)" using b(2) by (simp add: claim_book_def distinct_card)
  moreover have "card (fst ` set adm) = length adm" using b(1) distinct_card [of "map fst adm"] by (simp add: lease_book_def)
  ultimately show ?thesis by simp
qed

text \<open>
  C22. The running processes are bounded: from the start of a manager that its configuration accepts, in
  every interleaving of spawns, launches, completions, cancellations, adoptions and the shutdown,
  the running processes and the spawns that hold a slot are together at most \<open>max_running\<close>.
\<close>
theorem running_bounded:
  assumes "new_manager c events db ops = Inr (cf, s0)" "inj tok" "manager_reachable tok cf s0 y"
  shows "int (length (pm_running (my_state y)) + length (my_admitted y)) \<le> mc_max_running cf"
proof -
  have inv: "manager_inv tok (manager_policy c) y" by (rule manager_reachable_inv [OF assms(3,1)])
  note p = manager_start_books(2,3) [OF assms(1)]
  have reach: "sched_reachable tok (manager_policy c) (pm_slots (my_state y))" and b: "all_books (my_state y) (my_admitted y) (my_owners y)"
    using inv by (simp_all add: manager_inv_def)
  have sys: "system_inv tok (pm_slots (my_state y))" by (rule sched_reachable_inv [OF assms(2) p(1) reach])
  have "int (length (sc_active (ss_sched (pm_slots (my_state y))))) \<le> mc_max_running cf"
    using sched_reachable_state [OF assms(2) p(1) reach] sys p(2) by (simp add: system_inv_def sched_inv_def active_inv_def)
  then show ?thesis using live_card(2) [OF sys] book_card [OF b] by simp
qed



text \<open>
  C24. A process is completed once: while somebody owns its completion every other attempt to claim it
  fails, and each of the ways to complete it (exit, cancellation, termination, shutdown) removes it
  from the running processes, gives its slot back and leaves it unclaimable.
\<close>
theorem completed_once:
  assumes "new_manager c events db ops = Inr (cf, s0)" "manager_reachable tok cf s0 y" "pid \<in> set (my_owners y)"
    and "s' \<in> completions cf os pid (my_state y)"
  shows "claim_completion pid (my_state y) = (my_state y, False) \<and> claim_completion pid s' = (s', False)
    \<and> pid \<notin> set (pm_running s') \<and> lease_of s' pid = None
    \<and> (\<exists>i. lease_of (my_state y) pid = Some i \<and> live_lease (pm_slots (my_state y)) i \<and> \<not> live_lease (pm_slots s') i)"
proof -
  let ?s = "my_state y"
  have b: "all_books ?s (my_admitted y) (my_owners y)" using manager_reachable_inv [OF assms(2,1)] by (simp add: manager_inv_def)
  then have cb: "claim_book ?s (my_owners y)" by (simp add: all_books_def)
  obtain i where i: "holdings ?s pid = Some (Some i, True)" and r: "pid \<in> set (pm_running ?s)"
    using claim_book_owned [OF cb assms(3)] by blast
  have c: "completed (os_tok os) pid ?s s'" by (rule completions_completed [OF assms(4)])
  have no: "claim_completion pid x = (x, False)" if "holdings x pid = Some (l, True)" for x l
    using that by (auto simp: holdings_def claim_completion_def)
  have l: "lease_of ?s pid = Some i" using i by (simp add: lease_of_def)
  have live: "live_lease (pm_slots ?s) i"
    by (rule slots.book_finish(2) [OF books_slots [OF b] r l])
  then have "i < length (ss_leases (pm_slots ?s))" by (simp add: live_lease_def)
  note d = drop_lease_live [OF this, of "os_tok os"]
  have e: "holdings s' pid = Some (None, True)" "pm_slots s' = drop_lease (os_tok os) i (pm_slots ?s)" "pm_running s' = removeAll pid (pm_running ?s)"
    using c i by (simp_all add: completed_def)
  then show ?thesis using no [OF i] no [OF e(1)] l live d by (simp add: lease_of_def)
qed

subsection \<open>The watchdog ends\<close>

text \<open>
  The loop of the watchdog over what the operating system shows at each pass: the view and whether the
  wait reported an exit.  The second component says whether the loop still runs after the last view.
\<close>

fun watchdog :: "manager_config \<Rightarrow> string \<Rightarrow> (os_view \<times> bool) list \<Rightarrow> manager \<Rightarrow> manager \<times> bool" where
  "watchdog cf pid [] s = (s, True)"
| "watchdog cf pid ((os, exited) # views) s =
     (case watchdog_pass cf os pid exited s of (s', True) \<Rightarrow> watchdog cf pid views s' | (s', False) \<Rightarrow> (s', False))"

text \<open>Every wait that reports nothing takes its slice.\<close>

fun waits_out :: "manager_config \<Rightarrow> running_process \<Rightarrow> (os_view \<times> bool) list \<Rightarrow> bool" where
  "waits_out cf r ((os, x) # (os', x') # views) \<longleftrightarrow>
     os_clock os + wait_slice cf os r \<le> os_clock os' \<and> waits_out cf r ((os', x') # views)"
| "waits_out cf r _ \<longleftrightarrow> True"

lemma unclaimable_frame: "frame s' = frame s \<Longrightarrow> claimable s' pid = claimable s pid"
  using frameD(4) [of s' s] by (simp add: claimable_iff)

lemma completed_unclaimable: "completed tok pid s s' \<Longrightarrow> \<not> claimable s pid \<Longrightarrow> \<not> claimable s' pid"
  by (auto simp: completed_def claimable_iff split: option.splits)

lemma claimed_unclaimable:
  assumes "claim_completion pid s = (s', b)"
  shows "\<not> claimable s' pid"
proof (cases b)
  case True
  then show ?thesis using claim_completion_True(1) [of pid s s'] assms by (auto simp: claimable_iff)
next
  case False
  then have "s' = s" "\<not> claimable s pid"
    using assms by (auto simp: claim_completion_def claimable_def split: option.splits if_splits)
  then show ?thesis by simp
qed

lemma finalize_unclaimable: "\<not> claimable (finalize cf os pid code s) pid"
proof -
  obtain s' b where c: "claim_completion pid s = (s', b)" by fastforce
  have "finish_exit cf os pid code s' \<in> completions cf os pid s'" by (auto simp: completions_def)
  from completed_unclaimable [OF completions_completed [OF this] claimed_unclaimable [OF c]] claimed_unclaimable [OF c]
  show ?thesis by (simp add: finalize_def c split: bool.split)
qed

lemma terminate_unclaimable: "\<not> claimable (terminate_running cf os pid status why s) pid"
proof -
  obtain s' b where c: "claim_completion pid s = (s', b)" by fastforce
  have "finish_terminated cf os pid status why s' \<in> completions cf os pid s'" by (auto simp: completions_def)
  from completed_unclaimable [OF completions_completed [OF this] claimed_unclaimable [OF c]] claimed_unclaimable [OF c]
  show ?thesis by (simp add: terminate_running_def c split: bool.split)
qed

lemma watchdog_pass_stops: "watchdog_pass cf os pid exited s = (s', False) \<Longrightarrow> \<not> claimable s' pid"
proof (cases "map_of (pm_objects s) pid")
  case None
  assume "watchdog_pass cf os pid exited s = (s', False)"
  with None show ?thesis by (auto simp: watchdog_pass_def claimable_def)
next
  case (Some r)
  assume "watchdog_pass cf os pid exited s = (s', False)"
  then show ?thesis
    using Some by (auto simp: watchdog_pass_def Let_def finalize_unclaimable terminate_unclaimable split: option.splits if_splits bool.splits)
qed

text \<open>A pass that goes on keeps the deadline.\<close>

lemma objects_emit:
  "map_option rp_deadline (map_of (pm_objects (emit_output_events cf os pid s)) k) = map_option rp_deadline (map_of (pm_objects s) k)"
  by (cases "map_of (pm_objects s) pid")
    (simp_all add: emit_output_events_def Let_def map_of_set_object option.map_comp o_def output_event_def pm_event_def on_db_def)

lemma watchdog_pass_continues:
  assumes "watchdog_pass cf os pid exited s = (s', True)"
  shows "\<exists>r. map_of (pm_objects s) pid = Some r \<and> os_clock os < rp_deadline r"
    "map_option rp_deadline (map_of (pm_objects s') k) = map_option rp_deadline (map_of (pm_objects s) k)"
  using assms
  by (auto simp: watchdog_pass_def Let_def update_runtime_def on_table_def on_db_def objects_emit split: option.splits if_splits bool.splits)

lemma watchdog_stops_within:
  assumes "map_of (pm_objects s) pid = Some r" "0 \<le> mc_heartbeat cf" "rp_deadline r0 = rp_deadline r"
    and "waits_out cf r0 views" "n < length views" "rp_deadline r - os_clock (fst (hd views)) \<le> real n * mc_heartbeat cf"
  shows "snd (watchdog cf pid views s) = False \<and> \<not> claimable (fst (watchdog cf pid views s)) pid"
  using assms
proof (induction n arbitrary: views s r)
  case 0
  then obtain os x rest where v: "views = (os, x) # rest" by (cases views) auto
  obtain s' b where p: "watchdog_pass cf os pid x s = (s', b)" by fastforce
  have "\<not> b" using watchdog_pass_continues(1) [of cf os pid x s s'] p 0(1,6) v by (cases b) auto
  then show ?case using watchdog_pass_stops [of cf os pid x s s'] p v by simp
next
  case (Suc n)
  then obtain os x os' x' rest where v: "views = (os, x) # (os', x') # rest"
    by (cases views; cases "tl views") auto
  obtain s' b where p: "watchdog_pass cf os pid x s = (s', b)" by fastforce
  show ?case
  proof (cases b)
    case True
    then obtain r' where r': "map_of (pm_objects s') pid = Some r'" "rp_deadline r' = rp_deadline r"
      using watchdog_pass_continues(2) [of cf os pid x s s' pid] p Suc.prems(1) by auto
    have c: "os_clock os + min (rp_deadline r - os_clock os) (mc_heartbeat cf) \<le> os_clock os'"
      using Suc.prems(3,4) v by (simp add: wait_slice_def)
    have "rp_deadline r' - os_clock os' \<le> real n * mc_heartbeat cf"
    proof (cases "rp_deadline r - os_clock os \<le> mc_heartbeat cf")
      case True
      moreover have "0 \<le> real n * mc_heartbeat cf" using Suc.prems(2) by simp
      ultimately show ?thesis using c r'(2) by (simp add: min_def)
    next
      case False
      then show ?thesis using c Suc.prems(6) v r'(2) by (simp add: min_def algebra_simps)
    qed
    then have "snd (watchdog cf pid ((os', x') # rest) s') = False \<and> \<not> claimable (fst (watchdog cf pid ((os', x') # rest) s')) pid"
      using Suc.prems v r' by (intro Suc.IH [OF r'(1)]) auto
    then show ?thesis using p True v by simp
  next
    case False
    then show ?thesis using watchdog_pass_stops [of cf os pid x s s'] p v by simp
  qed
qed

lemma check_policy_manager:
  "check_policy (manager_policy c) =
     (if cfg_get 3 (ms_max_running c) < 1 then Inl (Sched_ValueError ''global_limit must be at least 1'')
      else if cfg_get 0 (ms_queue_timeout c) < 0 then Inl (Sched_ValueError ''queue_timeout_seconds must not be negative'')
      else Inr (manager_policy c))"
  by (auto simp: check_policy_def manager_policy_def Let_def)

lemma check_limits_manager: "check_limits (manager_limits c) = Inr (manager_limits c)"
  by (simp add: check_limits_def manager_limits_def optional_positive_int_def split: option.split)

lemma positive_limit: "case optional_positive_int v of None \<Rightarrow> True | Some n \<Rightarrow> 0 < n"
  by (simp add: optional_positive_int_def split: option.split)


text \<open>
  The settings the constructor accepts: a manager is created exactly when \<open>max_running\<close> is at least 1
  and the queue timeout is not negative; the other settings cannot make it fail.  It then has a workspace limit
  between 1 and \<open>max_running\<close>, a positive heartbeat interval, only positive resource limits and an empty state.
\<close>
lemma manager_settings_accepted:
  "(case new_manager c events db ops of
      Inl _ \<Rightarrow> cfg_get 3 (ms_max_running c) < 1 \<or> cfg_get 0 (ms_queue_timeout c) < 0
    | Inr (cf, s) \<Rightarrow> 1 \<le> cfg_get 3 (ms_max_running c) \<and> 0 \<le> cfg_get 0 (ms_queue_timeout c)
        \<and> 1 \<le> mc_per_workspace cf \<and> mc_per_workspace cf \<le> mc_max_running cf \<and> 0 < mc_heartbeat cf
        \<and> pm_running s = [] \<and> ss_leases (pm_slots s) = [] \<and> sc_active (ss_sched (pm_slots s)) = []
        \<and> list_all (\<lambda>v. case v of None \<Rightarrow> True | Some n \<Rightarrow> 0 < n)
            [cpu_time_seconds (mc_limits cf), memory_bytes (mc_limits cf), max_processes (mc_limits cf),
             max_output_bytes (mc_limits cf), max_disk_bytes (mc_limits cf)])"
  by (simp add: new_manager_def check_policy_manager check_limits_manager positive_limit)
    (simp add: manager_policy_def manager_limits_def Let_def positive_limit start_system_def new_sched_def less_max_iff_disj)

subsection \<open>A concrete run\<close>

text \<open>One slot; a process of workspace \<open>w\<close> is started, runs and is claimed by a canceller.\<close>

definition demo_settings :: manager_settings where
  "demo_settings = \<lparr>ms_max_running = Some 1, ms_per_workspace = None, ms_max_output_chars = None, ms_default_timeout = Some 5,
     ms_max_timeout = None, ms_queue_timeout = None, ms_heartbeat = None, ms_register_artifacts = None, ms_cpu_time = None,
     ms_memory = None, ms_max_processes = None, ms_max_output_bytes = None, ms_max_disk = None\<rparr>"

definition demo_db :: event_db where
  "demo_db = \<lparr>ed_workspaces = [''w''], ed_events = [], ed_last_id = 0, ed_processes = [], ed_watermarks = []\<rparr>"

definition demo_os :: "real \<Rightarrow> os_view" where
  "demo_os clock = \<lparr>os_windows = False, os_now = ''t'', os_clock = clock, os_size = (\<lambda>_. Some 0), os_tree = (\<lambda>_. Some []),
     os_exists = (\<lambda>_. False), os_resolve = (\<lambda>p. p), os_poll = (\<lambda>_. None), os_alive = (\<lambda>_. True), os_identity = (\<lambda>_. Some ''id''),
     os_kill_group = (\<lambda>_. Kill_done), os_kill_one = (\<lambda>_. Kill_done), os_taskkill = (\<lambda>_. None), os_git_status = (\<lambda>_. Inl ''none''),
     os_artifacts = (\<lambda>_. None), os_tok = demo_tok, os_size_of = (\<lambda>_. 1), os_max_payload = 100, os_sha = (\<lambda>s. s),
     os_fresh = (\<lambda>_. ''0000000a''), os_error_text = (\<lambda>_. ''error'')\<rparr>"

definition demo_call :: spawn_call where
  "demo_call = \<lparr>sp_workspace = ''w'', sp_worktree = [''tree''], sp_script = ''ls'', sp_directory = None, sp_timeout = None, sp_tool = ''run_pwsh'',
     sp_write = True, sp_priority = 100, sp_request = None, sp_terminal = None\<rparr>"

definition demo_config :: manager_config where
  "demo_config = \<lparr>mc_max_running = 1, mc_per_workspace = 1, mc_max_output = 200000, mc_default_timeout = 5, mc_max_timeout = 3600,
     mc_queue_timeout = 0, mc_heartbeat = 2, mc_artifacts = True, mc_events = True, mc_limits = manager_limits demo_settings\<rparr>"

definition demo_start :: manager where
  "demo_start = \<lparr>pm_slots = start_system (manager_policy demo_settings), pm_db = demo_db, pm_ops = [], pm_objects = [], pm_running = [],
     pm_pending = [], pm_shutting = False, pm_actions = []\<rparr>"

definition demo_admitted :: manager_system where
  "demo_admitted = (let y = \<lparr>my_state = demo_start, my_admitted = [], my_owners = []\<rparr>
     in admit (spawn_begin demo_config (demo_os 0) [''out''] 0 demo_call (my_state y)) y)"

definition demo_launch :: launch where
  "demo_launch = Launched 7 (Some ''id'') None None False"

definition demo_running :: manager_system where
  "demo_running = (case my_admitted demo_admitted of
       (i, q) # _ \<Rightarrow> demo_admitted\<lparr>my_state := fst (launch_process demo_config (demo_os 0) i q demo_launch (my_state demo_admitted)),
                                   my_admitted := remove1 (i, q) (my_admitted demo_admitted)\<rparr>
     | [] \<Rightarrow> demo_admitted)"

definition demo_claimed :: manager_system where
  "demo_claimed = demo_running\<lparr>my_state := fst (claim_completion ''pr-0000000a'' (my_state demo_running)), my_owners := [''pr-0000000a'']\<rparr>"

lemma demo_manager: "new_manager demo_settings True demo_db [] = Inr (demo_config, demo_start)"
  by (simp add: new_manager_def check_policy_manager check_limits_manager cfg_get_def demo_settings_def)
    (simp add: demo_config_def demo_start_def manager_policy_def demo_settings_def cfg_get_def Let_def)

lemma demo_admitted_one: "map fst (my_admitted demo_admitted) = [0]" by code_simp
lemma demo_running_one: "pm_running (my_state demo_running) = [''pr-0000000a'']" by code_simp
lemma demo_claim: "snd (claim_completion ''pr-0000000a'' (my_state demo_running))" by code_simp
lemma demo_owners: "my_owners demo_running = []" by code_simp

lemma demo_manager_reachable:
  "manager_reachable demo_tok demo_config demo_start demo_admitted"
  "manager_reachable demo_tok demo_config demo_start demo_running"
  "manager_reachable demo_tok demo_config demo_start demo_claimed"
proof -
  have tok: "os_tok (demo_os c) = demo_tok" for c by (simp add: demo_os_def)
  show a: "manager_reachable demo_tok demo_config demo_start demo_admitted"
    using manager_more [OF manager_start step_spawn [OF tok]] by (simp add: demo_admitted_def Let_def)
  obtain i q rest where q: "my_admitted demo_admitted = (i, q) # rest"
    using demo_admitted_one by (cases "my_admitted demo_admitted") auto
  show r: "manager_reachable demo_tok demo_config demo_start demo_running"
    using manager_more [OF a step_launch [OF tok, of i q]] by (simp add: demo_running_def q)
  have "claim_completion ''pr-0000000a'' (my_state demo_running) = (fst (claim_completion ''pr-0000000a'' (my_state demo_running)), True)"
    using demo_claim by (cases "claim_completion ''pr-0000000a'' (my_state demo_running)") simp
  from manager_more [OF r step_claim [OF this]]
  show "manager_reachable demo_tok demo_config demo_start demo_claimed" by (simp add: demo_claimed_def demo_owners)
qed

theorem running_bounded_witness:
  "pm_running (my_state demo_running) = [''pr-0000000a'']
   \<and> int (length (pm_running (my_state demo_running)) + length (my_admitted demo_running)) \<le> mc_max_running demo_config"
  using running_bounded [OF demo_manager demo_tok_inj demo_manager_reachable(2)] demo_running_one by blast



theorem completed_once_witness:
  "claim_completion ''pr-0000000a'' (my_state demo_claimed) = (my_state demo_claimed, False)
   \<and> ''pr-0000000a'' \<notin> set (pm_running (fst (finish_cancel demo_config (demo_os 1) ''pr-0000000a'' (my_state demo_claimed))))"
proof -
  have own: "''pr-0000000a'' \<in> set (my_owners demo_claimed)" by (simp add: demo_claimed_def)
  have "fst (finish_cancel demo_config (demo_os 1) ''pr-0000000a'' (my_state demo_claimed))
      \<in> completions demo_config (demo_os 1) ''pr-0000000a'' (my_state demo_claimed)" by (simp add: completions_def)
  from completed_once [OF demo_manager demo_manager_reachable(3) own this] show ?thesis by blast
qed

definition demo_object :: running_process where
  "demo_object = \<lparr>rp_workspace = ''w'', rp_pid = 7, rp_stdout = [], rp_stderr = [], rp_directory = [], rp_deadline = 5, rp_pty = False,
     rp_stdin = No_stdin, rp_lease = None, rp_identity = None, rp_resource = False, rp_tool = ''run_pwsh'', rp_request = None, rp_out = 0,
     rp_err = 0, rp_completed = False, rp_finalized = False\<rparr>"

definition demo_views :: "(os_view \<times> bool) list" where
  "demo_views = [(demo_os 0, False), (demo_os 2, False), (demo_os 4, False), (demo_os 5, False)]"

definition demo_monitored :: manager where
  "demo_monitored = demo_start\<lparr>pm_objects := [(''pr-0000000a'', demo_object)]\<rparr>"


end
