(* ===== verification/Process_Recovery.thy ===== *)
theory Process_Recovery
  imports Process_Safety
begin

text \<open>
  Recovery of the managed processes after a restart (\<open>app/services/process_recovery.py\<close>).
\<close>

subsection \<open>Recovery\<close>

text \<open>The record operations change the row of their process only, and no operation here acts on the operating system.\<close>

definition row_of :: "manager \<Rightarrow> string \<Rightarrow> proc_row option" where
  "row_of s = map_of (ed_processes (pm_db s))"

definition status_of :: "manager \<Rightarrow> string \<Rightarrow> string option" where
  "status_of s pid = map_option pc_status (row_of s pid)"

lemma row_runtime:
  "k \<noteq> pid \<Longrightarrow> row_of (update_runtime pid n identity heartbeat offset job recovery s) k = row_of s k"
  "status_of (update_runtime pid n identity heartbeat offset job recovery s) pid = status_of s pid"
  by (auto simp: status_of_def row_of_def update_runtime_def on_table_def on_db_def update_process_runtime_def map_of_update_row option.map_comp o_def
      split: option.split sum.split)

lemma row_status:
  "row_of (on_table (update_process_status now pid status n code fin) s) k =
     (if k = pid then map_option (\<lambda>r. r\<lparr>pc_status := status, pc_pid := keep n (pc_pid r), pc_exit_code := keep code (pc_exit_code r),
        pc_completed_at := keep fin (pc_completed_at r), pc_started_at := (if status = ''running'' then Some now else pc_started_at r)\<rparr>) (row_of s k)
      else row_of s k)"
  by (simp add: row_of_def on_table_def on_db_def update_process_status_def map_of_update_row)

lemma row_event: "row_of (pm_event cf os kind ws pid rq pl s) = row_of s"
  by (simp add: row_of_def pm_event_def on_db_def append_event_processes)

lemma row_check_completed: "row_of (check_completed cf os pid status rq ev s) = row_of s"
  by (simp add: check_completed_def row_event split: option.split exit_reply.split)

lemma transition_rows:
  assumes "transition_process now pid status x db = (db', e)"
  shows "k \<noteq> pid \<Longrightarrow> map_of (ed_processes db') k = map_of (ed_processes db) k"
    "map_of (ed_processes db) pid = Some r \<Longrightarrow> incomplete r \<Longrightarrow> e = Inr ev \<Longrightarrow>
       map_option pc_status (map_of (ed_processes db') pid) = Some status"
    "e = Inl er \<Longrightarrow> db' = db"
proof -
  have d: "db' = fst (transition_process now pid status x db)" "e = snd (transition_process now pid status x db)" by (simp_all add: assms)
  show "k \<noteq> pid \<Longrightarrow> map_of (ed_processes db') k = map_of (ed_processes db) k"
    unfolding d by (auto simp: transition_process_def transact_def transition_body_def Let_def insert_locked_def map_of_update_iff
        split: prod.split sum.split option.split)
  show "e = Inl er \<Longrightarrow> db' = db"
    using assms by (auto simp: transition_process_def dest: transact_Inl split: if_splits)
  assume r: "map_of (ed_processes db) pid = Some r" "incomplete r" and e: "e = Inr ev"
  have "pc_status r \<notin> set terminal_process_statuses" using r(2) by (auto simp: incomplete_def terminal_process_statuses_def)
  then show "map_option pc_status (map_of (ed_processes db') pid) = Some status"
    using assms r(1) unfolding e
    by (auto simp: transition_process_def transact_def transition_body_def Let_def insert_locked_def map_of_update_iff
        split: prod.splits sum.splits if_splits)
qed

lemma recorded_status_update: "row_of s pid = Some r \<Longrightarrow> status_of (on_table (update_process_status now pid status n code fin) s) pid = Some status"
  by (simp add: status_of_def row_status)

lemma row_transition:
  "k \<noteq> pid \<Longrightarrow> row_of (transition_record cf os pid status x s) k = row_of s k"
  "row_of s pid = Some r \<Longrightarrow> incomplete r \<Longrightarrow> status_of (transition_record cf os pid status x s) pid = Some status"
proof -
  obtain db e where d: "transition_process (os_now os) pid status x (pm_db s) = (db, e)" by fastforce
  note t = transition_rows [OF d]
  let ?fb = "\<lambda>s. let s = on_table (update_process_status (os_now os) pid status None (ex_exit_code x) (Some (os_now os))) s
            in if ex_recovery_status x = None then s else update_runtime pid None None None None None (ex_recovery_status x) s"
  have fb: "k \<noteq> pid \<Longrightarrow> row_of (?fb s) k = row_of s k" by (simp add: Let_def row_runtime row_status)
  have fb': "row_of s pid = Some r \<Longrightarrow> status_of (?fb s) pid = Some status" by (simp add: Let_def row_runtime recorded_status_update)
  show "k \<noteq> pid \<Longrightarrow> row_of (transition_record cf os pid status x s) k = row_of s k"
    and "row_of s pid = Some r \<Longrightarrow> incomplete r \<Longrightarrow> status_of (transition_record cf os pid status x s) pid = Some status"
  proof (atomize (full), cases e)
    case (Inl er)
    have "s\<lparr>pm_db := pm_db s\<rparr> = s" by simp
    then have "transition_record cf os pid status x s = ?fb s"
      using d t(3) [OF Inl] Inl unfolding transition_record_def by simp
    then show "(k \<noteq> pid \<longrightarrow> row_of (transition_record cf os pid status x s) k = row_of s k) \<and>
      (row_of s pid = Some r \<longrightarrow> incomplete r \<longrightarrow> status_of (transition_record cf os pid status x s) pid = Some status)"
      using fb fb' by simp
  next
    case (Inr ev)
    have c: "row_of (check_completed cf os pid status (ex_request x) ev (s\<lparr>pm_db := db\<rparr>)) = map_of (ed_processes db)"
      unfolding row_check_completed by (simp add: row_of_def)
    have "transition_record cf os pid status x s = ?fb s
        \<or> transition_record cf os pid status x s = check_completed cf os pid status (ex_request x) ev (s\<lparr>pm_db := db\<rparr>)"
      using d Inr unfolding transition_record_def by simp
    moreover have "k \<noteq> pid \<Longrightarrow> map_of (ed_processes db) k = row_of s k" using t(1) by (simp add: row_of_def)
    moreover have "row_of s pid = Some r \<Longrightarrow> incomplete r \<Longrightarrow> map_option pc_status (map_of (ed_processes db) pid) = Some status"
      using t(2) [OF _ _ Inr] unfolding row_of_def by blast
    ultimately show "(k \<noteq> pid \<longrightarrow> row_of (transition_record cf os pid status x s) k = row_of s k) \<and>
      (row_of s pid = Some r \<longrightarrow> incomplete r \<longrightarrow> status_of (transition_record cf os pid status x s) pid = Some status)"
      using fb fb' c unfolding status_of_def by metis
  qed
qed

lemma row_terminal:
  "k \<noteq> pid \<Longrightarrow> row_of (recovery_terminal cf os pid status why s) k = row_of s k"
  "row_of s pid = Some r \<Longrightarrow> incomplete r \<Longrightarrow> status_of (recovery_terminal cf os pid status why s) pid = Some status"
  by (simp_all add: recovery_terminal_def record_recovery_terminal_def row_transition row_runtime row_status recorded_status_update split: option.split)

lemma actions_frame:
  "pm_actions (recovery_terminal cf os pid status why s) = pm_actions s" "pm_running (recovery_terminal cf os pid status why s) = pm_running s"
  by (auto simp: recovery_terminal_def record_recovery_terminal_def transition_record_def Let_def update_runtime_def on_table_def on_db_def
      check_completed_def pm_event_def split: option.split prod.split sum.split exit_reply.split)

lemma adopt_rows:
  assumes "adopt_recovered_process cf os start pid r s = (s', a)"
  shows "row_of s' = row_of s" "pm_actions s' = pm_actions s" "set (pm_running s) \<subseteq> set (pm_running s')" "a = Some True \<Longrightarrow> pid \<in> set (pm_running s')"
proof -
  have rel: "row_of (release_lease os i s) = row_of s" "pm_actions (release_lease os i s) = pm_actions s"
    "pm_running (release_lease os i s) = pm_running s" for i s
    by (simp_all add: release_lease_slots row_of_def)
  have ev: "pm_actions (pm_event cf os kind ws pid' rq pl s) = pm_actions s" "pm_running (pm_event cf os kind ws pid' rq pl s) = pm_running s"
    for kind ws pid' rq pl s by (simp_all add: pm_event_def on_db_def)
  have add: "row_of (add_running pid r' s) = row_of s" "pm_actions (add_running pid r' s) = pm_actions s"
    "set (pm_running (add_running pid r' s)) = insert pid (set (pm_running s))" for r' s
    by (auto simp: add_running_def row_of_def)
  have sl: "row_of (s\<lparr>pm_slots := y\<rparr>) = row_of s" for s y by (simp add: row_of_def)
  show "row_of s' = row_of s" "pm_actions s' = pm_actions s" "set (pm_running s) \<subseteq> set (pm_running s')" "a = Some True \<Longrightarrow> pid \<in> set (pm_running s')"
    using assms by (auto simp: adopt_recovered_process_def Let_def rel ev add sl row_event
        split: if_splits sum.splits prod.splits acquire_result.splits)
qed


definition recovery_outcomes :: "string list" where
  "recovery_outcomes = [''interrupted'', ''recovery_required'', ''lost'']"

text \<open>What a disposition says about the process.\<close>

definition honest :: "manager_config option \<Rightarrow> os_view \<Rightarrow> manager \<Rightarrow> manager \<Rightarrow> string \<Rightarrow> string \<Rightarrow> bool" where
  "honest cf os s s' pid d \<longleftrightarrow>
     (if d = ''recovered'' then
        (\<exists>r n. row_of s pid = Some r \<and> pc_pid r = Some n \<and> 0 < n \<and> os_alive os n
           \<and> pc_identity r \<noteq> None \<and> pc_identity r \<noteq> Some [] \<and> os_identity os n = pc_identity r
           \<and> (cf \<noteq> None \<longrightarrow> pid \<in> set (pm_running s')))
      else d \<in> set recovery_outcomes \<and> status_of s' pid = Some d)"

text \<open>Everything the disposition of one process promises.\<close>

definition settled :: "manager_config option \<Rightarrow> os_view \<Rightarrow> string \<Rightarrow> manager \<Rightarrow> manager \<times> string \<Rightarrow> bool" where
  "settled cf os pid s x \<longleftrightarrow> honest cf os s (fst x) pid (snd x) \<and> (\<forall>k. k \<noteq> pid \<longrightarrow> row_of (fst x) k = row_of s k)
     \<and> pm_actions (fst x) = pm_actions s \<and> set (pm_running s) \<subseteq> set (pm_running (fst x))"

lemma settled_terminal:
  assumes "row_of s pid = Some r" "incomplete r" "d \<in> set recovery_outcomes"
    and "row_of s1 = row_of s" "pm_actions s1 = pm_actions s" "set (pm_running s) \<subseteq> set (pm_running s1)"
  shows "settled cf os pid s (recovery_terminal cf os pid d why s1, d)"
  using assms row_terminal(2) [of s1 pid r cf os d why]
  by (auto simp: settled_def honest_def row_terminal(1) actions_frame recovery_outcomes_def)

lemma adoption_rows:
  assumes "(case cf of None \<Rightarrow> (s, Some True) | Some cf \<Rightarrow> adopt_recovered_process cf os start pid r s) = (s1, a)"
  shows "row_of s1 = row_of s" "pm_actions s1 = pm_actions s" "set (pm_running s) \<subseteq> set (pm_running s1)"
    "cf \<noteq> None \<Longrightarrow> a = Some True \<Longrightarrow> pid \<in> set (pm_running s1)"
proof -
  have "row_of s1 = row_of s \<and> pm_actions s1 = pm_actions s \<and> set (pm_running s) \<subseteq> set (pm_running s1)
    \<and> (cf \<noteq> None \<longrightarrow> a = Some True \<longrightarrow> pid \<in> set (pm_running s1))"
  proof (cases cf)
    case (Some c)
    then have "adopt_recovered_process c os start pid r s = (s1, a)" using assms by simp
    from adopt_rows [OF this] show ?thesis by blast
  qed (use assms in simp)
  then show "row_of s1 = row_of s" "pm_actions s1 = pm_actions s" "set (pm_running s) \<subseteq> set (pm_running s1)"
    "cf \<noteq> None \<Longrightarrow> a = Some True \<Longrightarrow> pid \<in> set (pm_running s1)" by blast+
qed

lemma recover_one_settled:
  assumes r: "row_of s pid = Some r" "incomplete r"
  shows "settled cf os pid s (recover_one cf os start pid r s)"
proof -
  note tm = settled_terminal [OF r, of _ s cf os, simplified]
  have o: "''interrupted'' \<in> set recovery_outcomes" "''recovery_required'' \<in> set recovery_outcomes" "''lost'' \<in> set recovery_outcomes"
    by (simp_all add: recovery_outcomes_def)
  let ?n = "case pc_pid r of None \<Rightarrow> 0 | Some n \<Rightarrow> n"
  show ?thesis
  proof (cases "pc_status r = ''queued'' \<or> ?n \<le> 0 \<or> \<not> os_alive os ?n \<or> opt_text (pc_identity r) = [] \<or> os_identity os ?n \<noteq> Some (opt_text (pc_identity r))")
    case True
    let ?out = "\<lambda>d why. (recovery_terminal cf os pid d why s, d)"
    from True consider "pc_status r = ''queued''"
      | "pc_status r \<noteq> ''queued''" "?n \<le> 0"
      | "pc_status r \<noteq> ''queued''" "\<not> ?n \<le> 0" "\<not> os_alive os ?n"
      | "pc_status r \<noteq> ''queued''" "\<not> ?n \<le> 0" "os_alive os ?n" "opt_text (pc_identity r) = [] \<or> os_identity os ?n = None"
      | "pc_status r \<noteq> ''queued''" "\<not> ?n \<le> 0" "os_alive os ?n" "opt_text (pc_identity r) \<noteq> []" "os_identity os ?n \<noteq> None"
        "os_identity os ?n \<noteq> Some (opt_text (pc_identity r))"
      by blast
    then have "recover_one cf os start pid r s \<in> {?out ''interrupted'' ''queued_without_process'', ?out ''recovery_required'' ''missing_pid'',
        ?out ''interrupted'' ''process_not_found'', ?out ''recovery_required'' ''identity_unavailable'', ?out ''lost'' ''pid_identity_mismatch''}"
      by cases (simp_all only: recover_one_def Let_def if_True if_False simp_thms insert_iff)
    then show ?thesis using tm [OF o(1)] tm [OF o(2)] tm [OF o(3)] by auto
  next
    case False
    let ?ad = "case cf of None \<Rightarrow> (s, Some True) | Some cf \<Rightarrow> adopt_recovered_process cf os start pid r s"
    obtain s1 a where ad: "?ad = (s1, a)" by (cases ?ad)
    note f = adoption_rows(1-3) [OF ad] and run = adoption_rows(4) [OF ad]
    from False have n: "pc_pid r = Some ?n" "pc_identity r = Some (opt_text (pc_identity r))"
      by (auto simp: opt_text_def split: option.splits)
    show ?thesis
    proof (cases "a = Some True")
      case True
      let ?s2 = "update_runtime pid None None (Some (os_now os)) (Some (output_offset os r)) None (Some ''recovered'') s1"
      have e: "recover_one cf os start pid r s = (?s2, ''recovered'')" using False ad True by (auto simp: recover_one_def Let_def)
      have "pm_actions ?s2 = pm_actions s" "pm_running ?s2 = pm_running s1"
        using f by (simp_all add: update_runtime_def on_table_def on_db_def)
      then show ?thesis
        unfolding e using False True f run r n by (auto simp: settled_def honest_def row_runtime)
    next
      case other: False
      have "recover_one cf os start pid r s = (recovery_terminal cf os pid ''recovery_required'' ''monitor_adoption_failed'' s1, ''recovery_required'')"
        using False ad other by (auto simp: recover_one_def Let_def)
      then show ?thesis using settled_terminal [OF r o(2) f] by simp
    qed
  qed
qed

lemma honest_later:
  assumes "honest cf os s s1 pid d" "row_of s2 pid = row_of s1 pid" "set (pm_running s1) \<subseteq> set (pm_running s2)"
  shows "honest cf os s s2 pid d"
  using assms by (auto simp: honest_def status_of_def split: if_splits)

lemma honest_earlier:
  assumes "honest cf os s1 s2 pid d" "row_of s pid = row_of s1 pid"
  shows "honest cf os s s2 pid d"
  using assms by (auto simp: honest_def)

lemma recover_rows_honest:
  assumes "distinct (map fst rows)" "\<And>pid r. (pid, r) \<in> set rows \<Longrightarrow> row_of s pid = Some r \<and> incomplete r"
    and "recover_rows cf os start rows s = (s', ds)"
  shows "map fst ds = map fst rows \<and> pm_actions s' = pm_actions s \<and> set (pm_running s) \<subseteq> set (pm_running s')
    \<and> (\<forall>k. k \<notin> fst ` set rows \<longrightarrow> row_of s' k = row_of s k) \<and> (\<forall>(pid, d) \<in> set ds. honest cf os s s' pid d)"
  using assms
proof (induction rows arbitrary: s s' ds)
  case (Cons x rows)
  obtain pid r where x: "x = (pid, r)" by (cases x)
  obtain s1 d where one: "recover_one cf os start pid r s = (s1, d)" by fastforce
  obtain ds' where rest: "recover_rows cf os start rows s1 = (s', ds')" and ds: "ds = (pid, d) # ds'"
    using Cons.prems(3) x one by (auto split: prod.splits)
  have s: "settled cf os pid s (s1, d)" using recover_one_settled [of s pid r cf os start] Cons.prems(2) [of pid r] x one by simp
  have p: "pid \<notin> fst ` set rows" using Cons.prems(1) x by simp
  have rows: "row_of s1 k = Some r \<and> incomplete r" if "(k, r) \<in> set rows" for k r
  proof -
    have "k \<noteq> pid" using that p by force
    then show ?thesis using Cons.prems(2) [of k r] that s by (simp add: settled_def)
  qed
  have ih: "map fst ds' = map fst rows \<and> pm_actions s' = pm_actions s1 \<and> set (pm_running s1) \<subseteq> set (pm_running s')
    \<and> (\<forall>k. k \<notin> fst ` set rows \<longrightarrow> row_of s' k = row_of s1 k) \<and> (\<forall>(pid, d) \<in> set ds'. honest cf os s1 s' pid d)"
    using Cons.IH [OF _ rows rest] Cons.prems(1) by simp
  have "honest cf os s s' pid d" using s ih p by (auto simp: settled_def intro: honest_later)
  moreover have "honest cf os s s' k e" if "(k, e) \<in> set ds'" for k e
  proof -
    have "k \<in> fst ` set rows" using that ih by (metis fst_conv image_eqI list.set_map)
    then have "k \<noteq> pid" using p by auto
    then show ?thesis using that ih s by (auto simp: settled_def intro: honest_earlier)
  qed
  ultimately show ?case using ih s p x by (auto simp: ds settled_def)
qed simp

text \<open>
  C25. Recovery after a restart is honest: every incomplete process gets exactly one disposition, in the order of
  the table; a process reported recovered is alive under the recorded pid with the recorded identity and, with a
  manager, is monitored again; every other process is recorded under the terminal status that is reported; and
  nothing is executed, written or killed.
\<close>
theorem recovery_honest:
  assumes "distinct (dict_keys (ed_processes (pm_db s)))" "recover_processes cf os start s = (s', ds)"
  shows "map fst ds = map fst (list_incomplete_processes (ed_processes (pm_db s))) \<and> pm_actions s' = pm_actions s
    \<and> list_all (\<lambda>(pid, d). honest cf os s s' pid d) ds"
proof -
  let ?rows = "list_incomplete_processes (ed_processes (pm_db s))"
  have d: "distinct (map fst ?rows)" using assms(1) by (simp add: list_incomplete_processes_def distinct_map_filter)
  have "row_of s pid = Some r \<and> incomplete r" if "(pid, r) \<in> set ?rows" for pid r
    using that assms(1) by (auto simp: list_incomplete_processes_def row_of_def)
  from recover_rows_honest [OF d this assms(2) [unfolded recover_processes_def]] show ?thesis
    by (simp add: list_all_iff)
qed

subsection \<open>A concrete recovery\<close>

definition demo_row :: "string \<Rightarrow> string \<Rightarrow> proc_row" where
  "demo_row status identity = \<lparr>pc_workspace = ''w'', pc_tool = ''run_pwsh'', pc_sha = None, pc_preview = None, pc_directory = None, pc_status = status,
     pc_pid = Some 7, pc_exit_code = None, pc_started_at = None, pc_completed_at = None, pc_stdout = None, pc_stderr = None,
     pc_identity = Some identity, pc_heartbeat = None, pc_offset = 0, pc_job = None, pc_recovery = None\<rparr>"

definition demo_crashed :: manager where
  "demo_crashed = demo_start\<lparr>pm_db := demo_db\<lparr>ed_processes :=
     [(''pr-0000000a'', demo_row ''running'' ''id''), (''pr-0000000b'', demo_row ''running'' ''other''), (''pr-0000000c'', demo_row ''passed'' ''id'')]\<rparr>\<rparr>"

theorem recovery_honest_witness:
  "let (s', ds) = recover_processes (Some demo_config) (demo_os 0) 0 demo_crashed
   in ds = [(''pr-0000000a'', ''recovered''), (''pr-0000000b'', ''lost'')]
      \<and> list_all (\<lambda>(pid, d). honest (Some demo_config) (demo_os 0) demo_crashed s' pid d) ds"
proof -
  have "distinct (dict_keys (ed_processes (pm_db demo_crashed)))" by code_simp
  from recovery_honest [OF this, of "Some demo_config" "demo_os 0" 0]
  have "list_all (\<lambda>(pid, d). honest (Some demo_config) (demo_os 0) demo_crashed (fst (recover_processes (Some demo_config) (demo_os 0) 0 demo_crashed)) pid d)
      (snd (recover_processes (Some demo_config) (demo_os 0) 0 demo_crashed))"
    by (cases "recover_processes (Some demo_config) (demo_os 0) 0 demo_crashed") simp
  moreover have "snd (recover_processes (Some demo_config) (demo_os 0) 0 demo_crashed)
      = [(''pr-0000000a'', ''recovered''), (''pr-0000000b'', ''lost'')]" by code_simp
  ultimately show ?thesis by (cases "recover_processes (Some demo_config) (demo_os 0) 0 demo_crashed") simp
qed

end
