(* ===== verification/Process_Monitor.thy ===== *)
theory Process_Monitor
  imports Process_Lifecycle
begin

text \<open>
  What the process manager asks the operating system: process identity and liveness
  (\<open>app/services/process_recovery.py\<close>), the handle of an adopted process and the wait for a terminal status
  (\<open>app/services/process_manager.py\<close>), and which resource limits need a job object
  (\<open>app/services/process_resources.py\<close>; the Win32 calls themselves are a parameter).
\<close>

subsection \<open>Identity and liveness\<close>

text \<open>\<open>str.split()\<close>.\<close>

fun words_acc :: "string \<Rightarrow> string \<Rightarrow> string list" where
  "words_acc [] w = (if w = [] then [] else [w])"
| "words_acc (c # s) w = (if py_isspace c then (if w = [] then words_acc s [] else w # words_acc s []) else words_acc s (w @ [c]))"

definition py_words :: "string \<Rightarrow> string list" where
  "py_words s = words_acc s []"

text \<open>What follows the last closing parenthesis: \<open>stat[stat.rfind(")") + 2:]\<close>.\<close>

fun rfind_close :: "string \<Rightarrow> int" where
  "rfind_close [] = - 1"
| "rfind_close (c # s) = (if rfind_close s \<ge> 0 then rfind_close s + 1 else if c = CHR 0x29 then 0 else - 1)"

definition stat_fields :: "string \<Rightarrow> string list" where
  "stat_fields stat = py_words (drop (nat (rfind_close stat + 2)) stat)"

text \<open>
  \<open>stat\<close> and \<open>boot\<close> are the two files of the proc file system (None when unreadable), \<open>ps\<close> the exit code and output of the
  portable fallback (None when it could not run), \<open>windows\<close> the creation time that Windows reports.
\<close>

definition linux_identity :: "string option \<Rightarrow> string option \<Rightarrow> string option" where
  "linux_identity stat boot =
     (case stat of
        None \<Rightarrow> None
      | Some t \<Rightarrow>
          if length (stat_fields t) \<le> 19 then None
          else Some (''linux:'' @ (case boot of None \<Rightarrow> ''unknown-boot'' | Some b \<Rightarrow> py_strip b) @ '':'' @ stat_fields t ! 19))"

definition ps_identity :: "(int \<times> string) option \<Rightarrow> string option" where
  "ps_identity ps =
     (case ps of
        None \<Rightarrow> None
      | Some (code, out) \<Rightarrow> if code = 0 \<and> py_strip out \<noteq> [] then Some (''ps:'' @ py_strip out) else None)"

definition process_creation_identity ::
  "bool \<Rightarrow> (int \<Rightarrow> string option) \<Rightarrow> (int \<Rightarrow> string option) \<Rightarrow> string option \<Rightarrow> (int \<Rightarrow> (int \<times> string) option) \<Rightarrow> int \<Rightarrow> string option" where
  "process_creation_identity on_windows windows stat boot ps pid =
     (if pid \<le> 0 then None
      else if on_windows then windows pid
      else case linux_identity (stat pid) boot of Some s \<Rightarrow> Some s | None \<Rightarrow> ps_identity (ps pid))"

datatype signal_result = Signal_sent | Signal_permission | Signal_error

definition pid_alive :: "(int \<Rightarrow> signal_result) \<Rightarrow> int \<Rightarrow> bool" where
  "pid_alive kill0 pid = (if pid \<le> 0 then False else case kill0 pid of Signal_sent \<Rightarrow> True | Signal_permission \<Rightarrow> True | Signal_error \<Rightarrow> False)"

subsection \<open>The handle of an adopted process\<close>

record recovered_process =
  rv_pid :: int
  rv_identity :: string
  rv_returncode :: "int option"

definition recovered_poll :: "(int \<Rightarrow> bool) \<Rightarrow> (int \<Rightarrow> string option) \<Rightarrow> recovered_process \<Rightarrow> recovered_process \<times> int option" where
  "recovered_poll alive identity p =
     (if rv_returncode p \<noteq> None then (p, rv_returncode p)
      else let p = (if \<not> alive (rv_pid p) \<or> identity (rv_pid p) \<noteq> Some (rv_identity p) then p\<lparr>rv_returncode := Some (- 1)\<rparr> else p)
           in (p, rv_returncode p))"

text \<open>The wait polls while the clock is before the deadline; the list is what each poll sees.\<close>

fun recovered_wait :: "real \<Rightarrow> (real \<times> (int \<Rightarrow> bool) \<times> (int \<Rightarrow> string option)) list \<Rightarrow> recovered_process \<Rightarrow> recovered_process \<times> int option" where
  "recovered_wait deadline [] p = (p, None)"
| "recovered_wait deadline ((now, alive, identity) # views) p =
     (if deadline \<le> now then (p, None)
      else case recovered_poll alive identity p of
        (p', Some code) \<Rightarrow> (p', Some code)
      | (p', None) \<Rightarrow> recovered_wait deadline views p')"

subsection \<open>Waiting for a terminal status\<close>

datatype terminal_wait =
    Wait_raises manager_error
  | Wait_over "manager \<times> reply"
  | Wait_completed
  | Wait_exit_event string string

text \<open>
  \<open>wait_for_terminal\<close> up to where it blocks: on the completion of a managed process, or on an exit event from the cursor
  on.  After that it returns \<open>get_result\<close>.
\<close>

definition wait_for_terminal ::
  "manager_config \<Rightarrow> os_view \<Rightarrow> (string list \<Rightarrow> string option) \<Rightarrow> (string \<Rightarrow> string \<Rightarrow> json) \<Rightarrow> (event_error \<Rightarrow> string) \<Rightarrow> nat
    \<Rightarrow> string \<Rightarrow> real \<Rightarrow> int option \<Rightarrow> manager \<Rightarrow> terminal_wait" where
  "wait_for_terminal cf os text artifacts error_text page_size pid timeout tail s =
     (if timeout < 0 then Wait_raises (Manager_value ''timeout_seconds must not be negative'')
      else case get_record s pid of
        None \<Rightarrow> Wait_over (s, [(''error'', JStr (''process not found: '' @ pid)), (''process_id'', JStr pid)])
      | Some r \<Rightarrow>
          if pc_status r \<in> set terminal_process_statuses then Wait_over (get_result cf os text artifacts pid tail s)
          else if running_object s pid \<noteq> None then Wait_completed
          else case list_after page_size None (pc_workspace r) (Some pid) None 100 False (pm_db s) of
            Inl e \<Rightarrow> Wait_raises (Manager_database (error_text e))
          | Inr page \<Rightarrow> Wait_exit_event (ep_cursor page) (pc_workspace r))"

definition scheduler_snapshot :: "manager \<Rightarrow> sched_snapshot" where
  "scheduler_snapshot s = snapshot (ss_sched (pm_slots s))"

subsection \<open>Resource limits\<close>

definition needs_job_limits :: "resource_limits \<Rightarrow> bool" where
  "needs_job_limits r = (cpu_time_seconds r \<noteq> None \<or> memory_bytes r \<noteq> None \<or> max_processes r \<noteq> None)"

record resource_handle =
  rh_identity :: "string option"
  rh_applied :: bool
  rh_error :: "string option"

definition attach_limits :: "bool \<Rightarrow> (string \<Rightarrow> int \<Rightarrow> resource_limits \<Rightarrow> resource_handle) \<Rightarrow> string \<Rightarrow> int \<Rightarrow> resource_limits \<Rightarrow> resource_handle" where
  "attach_limits on_windows attach_job process_id pid r =
     (if \<not> on_windows then
        \<lparr>rh_identity = None, rh_applied = False,
         rh_error = (if needs_job_limits r then Some ''platform_job_limits_unavailable'' else None)\<rparr>
      else if \<not> needs_job_limits r then \<lparr>rh_identity = None, rh_applied = False, rh_error = None\<rparr>
      else attach_job process_id pid r)"

text \<open>The structure that is handed to the job object: what is limited, and the flags that say so.\<close>

record job_limits =
  jl_job_time :: int
  jl_active :: int
  jl_memory :: int
  jl_flags :: nat

definition job_limits_of :: "resource_limits \<Rightarrow> job_limits" where
  "job_limits_of r =
     \<lparr>jl_job_time = (case cpu_time_seconds r of None \<Rightarrow> 0 | Some n \<Rightarrow> n * 10000000),
      jl_active = (case max_processes r of None \<Rightarrow> 0 | Some n \<Rightarrow> n),
      jl_memory = (case memory_bytes r of None \<Rightarrow> 0 | Some n \<Rightarrow> n),
      jl_flags = (if cpu_time_seconds r = None then 0 else 0x4) + (if max_processes r = None then 0 else 0x8)
                 + (if memory_bytes r = None then 0 else 0x200)\<rparr>"

text \<open>An adopted process that was seen gone stays gone, also when its pid is used again.\<close>

lemma recovered_poll_sticky:
  assumes "snd (recovered_poll alive identity p) = Some code"
  shows "snd (recovered_poll alive' identity' (fst (recovered_poll alive identity p))) = Some code"
  using assms by (auto simp: recovered_poll_def Let_def split: if_splits)

lemma recovered_wait_code:
  "rv_returncode p = None \<Longrightarrow> snd (recovered_wait deadline views p) \<in> {None, Some (- 1)}"
  by (induction deadline views p rule: recovered_wait.induct) (auto simp: recovered_poll_def Let_def split: if_splits)

end
