(* ===== verification/Tool_Registry.thy ===== *)
theory Tool_Registry
  imports Idempotency_Store Change_Set_Data
begin

text \<open>
  The execution middleware of \<open>app/services/tool_registry.py\<close>: the contract of a tool, the registry of contracts, and
  the pipeline every call runs through.  \<open>execute_tool\<close> is cut at its two suspension points: up to the wait for the lock of its
  concurrency key (\<open>tool_begin\<close>), the attempts under the lock (\<open>run_attempts\<close>), and the rest (\<open>tool_finish\<close>); other calls run in between.
  A tool result is a JSON value (a list of content blocks is an array).
\<close>

subsection \<open>Contracts\<close>

datatype effect = Effect_read | Effect_write | Effect_execute | Effect_git | Effect_network | Effect_process_control

datatype idempotency_policy = Key_none | Key_optional | Key_required

text \<open>The functions that compute a concurrency key, by name.\<close>

datatype key_rule = By_workspace | By_project | By_process | By_change_set | By_change_set_workspace | By_global | By_nothing

record retry_policy =
  rt_max_attempts :: int
  rt_errors :: "string list"
  rt_backoff :: real

definition no_retry :: retry_policy where
  "no_retry = \<lparr>rt_max_attempts = 1, rt_errors = [], rt_backoff = 0\<rparr>"

record tool_spec =
  ts_name :: string
  ts_effects :: "effect set"
  ts_key :: key_rule
  ts_idempotency :: idempotency_policy
  ts_cancel :: bool
  ts_max_chars :: int
  ts_permission :: string
  ts_retry :: retry_policy

definition check_retry :: "retry_policy \<Rightarrow> string + retry_policy" where
  "check_retry r =
     (if rt_max_attempts r < 1 then Inl ''max_attempts must be at least 1''
      else if rt_backoff r < 0 then Inl ''backoff_seconds must be non-negative''
      else Inr r)"

definition check_spec :: "tool_spec \<Rightarrow> string + tool_spec" where
  "check_spec t =
     (if py_strip (ts_name t) = [] then Inl ''tool name must be non-empty''
      else if ts_effects t = {} then Inl (''tool '' @ py_repr (ts_name t) @ '' must declare at least one effect'')
      else if ts_max_chars t < 1 then Inl ''max_result_chars must be positive''
      else if ts_permission t = [] then Inl ''permission_profile must be non-empty''
      else Inr t)"

type_synonym registry = "(string, tool_spec) dict"

definition register_spec :: "tool_spec \<Rightarrow> registry \<Rightarrow> string + registry" where
  "register_spec t reg =
     (case map_of reg (ts_name t) of
        Some old \<Rightarrow> if old = t then Inr (AList.update (ts_name t) t reg) else Inl (''conflicting ToolSpec registration: '' @ ts_name t)
      | None \<Rightarrow> Inr (AList.update (ts_name t) t reg))"

definition get_spec :: "string \<Rightarrow> registry \<Rightarrow> string + tool_spec" where
  "get_spec name reg = (case map_of reg name of None \<Rightarrow> Inl (''ToolSpec not registered: '' @ name) | Some t \<Rightarrow> Inr t)"

definition list_specs :: "registry \<Rightarrow> tool_spec list" where
  "list_specs reg = map snd (sort_key fst reg)"

fun register_all :: "tool_spec list \<Rightarrow> registry \<Rightarrow> string + registry" where
  "register_all [] reg = Inr reg"
| "register_all (t # ts) reg = obind (register_spec t reg) (register_all ts)"

text \<open>\<open>RegisteredToolMCP.validate_coverage\<close>: the contracts without an implementation, in order.\<close>

definition missing_tools :: "registry \<Rightarrow> string list \<Rightarrow> string list" where
  "missing_tools reg registered = filter (\<lambda>n. n \<notin> set registered) (map ts_name (list_specs reg))"

definition validate_coverage :: "registry \<Rightarrow> string list \<Rightarrow> string option" where
  "validate_coverage reg registered =
     (if missing_tools reg registered = [] then None
      else Some (''ToolSpec entries lack MCP implementations: '' @ py_join '', '' (missing_tools reg registered)))"

subsection \<open>The world of the tools\<close>

record 'w tool_state =
  tw_ops :: "operation_row list"
  tw_sets :: "(string, cs_row) dict"
  tw_workspaces :: workspace_table
  tw_rest :: 'w

type_synonym 'w tool_world = "'w tool_state idem_world"

datatype tool_exn_kind = Exn_cancelled | Exn_timeout | Exn_permission | Exn_file_not_found | Exn_type_or_value | Exn_other

record tool_exn =
  tx_kind :: tool_exn_kind
  tx_message :: string
  tx_type :: string

type_synonym 'w tool_handler = "'w tool_world \<Rightarrow> 'w tool_world \<times> (tool_exn + json)"

text \<open>
  The Python functions on JSON values that are not modelled further: the hash, \<open>json.dumps\<close>, \<open>str\<close> of a value that is not a string
  and \<open>repr\<close> of a float; and the permission evaluator, which can be replaced at run time.
\<close>

record tool_env =
  te_sha :: "json \<Rightarrow> string"
  te_dumps :: "json \<Rightarrow> string"
  te_str :: "json \<Rightarrow> string"
  te_float :: "real \<Rightarrow> string"
  te_permission :: "tool_spec \<Rightarrow> (string \<times> json) list \<Rightarrow> json"

definition py_str_of :: "tool_env \<Rightarrow> json \<Rightarrow> string" where
  "py_str_of env v = (case v of JStr s \<Rightarrow> s | JInt i \<Rightarrow> py_str_int i | _ \<Rightarrow> te_str env v)"

record tool_call =
  tc_inputs :: "(string \<times> json) list"
  tc_key :: "string option"
  tc_summary :: "string option"
  tc_request :: string
  tc_operation :: string
  tc_now :: string
  tc_elapsed :: int

definition input_of :: "string \<Rightarrow> (string \<times> json) list \<Rightarrow> json" where
  "input_of k inputs = jget inputs k JNull"

subsection \<open>Concurrency keys\<close>

definition simple_key :: "tool_env \<Rightarrow> string \<Rightarrow> json \<Rightarrow> string option" where
  "simple_key env scope v = (if truthy v then Some (scope @ '':'' @ py_str_of env v) else None)"

definition change_set_workspace_id :: "(string \<times> json) list \<Rightarrow> 'w tool_world \<Rightarrow> string option" where
  "change_set_workspace_id inputs w =
     (case input_of ''change_set_id'' inputs of
        JStr s \<Rightarrow> if s = [] then None else map_option cr_workspace (map_of (tw_sets (iw_rest w)) s)
      | _ \<Rightarrow> None)"

fun concurrency_key :: "tool_env \<Rightarrow> key_rule \<Rightarrow> (string \<times> json) list \<Rightarrow> 'w tool_world \<Rightarrow> string option" where
  "concurrency_key env By_workspace inputs w = simple_key env ''workspace'' (input_of ''workspace_id'' inputs)"
| "concurrency_key env By_project inputs w = simple_key env ''project'' (input_of ''project_id'' inputs)"
| "concurrency_key env By_process inputs w = simple_key env ''process'' (input_of ''process_id'' inputs)"
| "concurrency_key env By_change_set inputs w = simple_key env ''change_set'' (input_of ''change_set_id'' inputs)"
| "concurrency_key env By_change_set_workspace inputs w =
     (case change_set_workspace_id inputs w of
        Some ws \<Rightarrow> if ws = [] then simple_key env ''change_set'' (input_of ''change_set_id'' inputs) else Some (''workspace:'' @ ws)
      | None \<Rightarrow> simple_key env ''change_set'' (input_of ''change_set_id'' inputs))"
| "concurrency_key env By_global inputs w = Some ''global:operator''"
| "concurrency_key env By_nothing inputs w = None"

subsection \<open>Checks before the call\<close>

definition validate_inputs :: "(string \<times> json) list \<Rightarrow> string option" where
  "validate_inputs inputs =
     (if list_ex (\<lambda>(k, _). k = []) inputs then Some ''tool input keys must be non-empty strings''
      else case input_of ''workspace_id'' inputs of
        JNull \<Rightarrow> None
      | JStr s \<Rightarrow> if py_strip s = [] then Some ''workspace_id must be a non-empty string'' else None
      | _ \<Rightarrow> Some ''workspace_id must be a non-empty string'')"

text \<open>\<open>inputs.get("workspace_id") or _change_set_workspace_id(inputs)\<close>, when it is a string.\<close>

definition workspace_of_call :: "(string \<times> json) list \<Rightarrow> 'w tool_world \<Rightarrow> string option" where
  "workspace_of_call inputs w =
     (let v = input_of ''workspace_id'' inputs in
      if truthy v then (case v of JStr s \<Rightarrow> Some s | _ \<Rightarrow> None) else change_set_workspace_id inputs w)"

definition recovering_set :: "string \<Rightarrow> 'w tool_world \<Rightarrow> string option" where
  "recovering_set ws w =
     (case filter (\<lambda>(_, r). cr_workspace r = ws \<and> cr_status r = ''recovery_required'') (tw_sets (iw_rest w)) of
        [] \<Rightarrow> None
      | (csid, _) # _ \<Rightarrow> Some csid)"

definition recovery_tools :: "string list" where
  "recovery_tools = [''commit_change_set'', ''rollback_change_set'']"

definition workspace_preflight :: "string \<Rightarrow> tool_spec \<Rightarrow> tool_call \<Rightarrow> 'w tool_world \<Rightarrow> 'w tool_world \<times> json option" where
  "workspace_preflight fresh t c w =
     (case workspace_of_call (tc_inputs c) w of
        None \<Rightarrow> (w, None)
      | Some ws \<Rightarrow>
        (case get_workspace (tc_now c) ws (tw_workspaces (iw_rest w)) of
           (table, None) \<Rightarrow>
             (w\<lparr>iw_rest := (iw_rest w)\<lparr>tw_workspaces := table\<rparr>\<rparr>,
              Some (error_result fresh ''WORKSPACE_NOT_FOUND'' (''workspace not found: '' @ ws) (error_defaults\<lparr>eo_workspace_id := Some ws\<rparr>)))
         | (table, Some _) \<Rightarrow>
             let w = w\<lparr>iw_rest := (iw_rest w)\<lparr>tw_workspaces := table\<rparr>\<rparr> in
             if Effect_write \<in> ts_effects t \<and> ts_name t \<notin> set recovery_tools then
               (case recovering_set ws w of
                  None \<Rightarrow> (w, None)
                | Some csid \<Rightarrow>
                    (w, Some (error_result fresh ''CHANGE_SET_RECOVERY_REQUIRED''
                      ''workspace writes are blocked until change-set recovery is resolved''
                      (error_defaults\<lparr>eo_workspace_id := Some ws, eo_extra := [(''change_set_id'', JStr csid)]\<rparr>))))
             else (w, None)))"

definition summary_part :: "tool_env \<Rightarrow> string \<Rightarrow> json \<Rightarrow> string" where
  "summary_part env k v =
     (if k = ''idempotency_key'' then k @ ''='' @ (if truthy v then ''present'' else ''absent'')
      else case v of
        JStr s \<Rightarrow> k @ ''_len='' @ py_str_int (int (length s))
      | JArr xs \<Rightarrow> k @ ''_count='' @ py_str_int (int (length xs))
      | JObj kvs \<Rightarrow> k @ ''_count='' @ py_str_int (int (length kvs))
      | JNull \<Rightarrow> k @ ''=None''
      | JBool b \<Rightarrow> k @ (if b then ''=True'' else ''=False'')
      | JInt i \<Rightarrow> k @ ''='' @ py_str_int i
      | JFloat r \<Rightarrow> k @ ''='' @ te_float env r)"

definition input_summary :: "tool_env \<Rightarrow> (string \<times> json) list \<Rightarrow> string" where
  "input_summary env inputs = take 500 (py_join '' '' (map (\<lambda>(k, v). summary_part env k v) (sort_key fst inputs)))"

subsection \<open>Results\<close>

definition infer_error_code :: "string \<Rightarrow> string" where
  "infer_error_code message =
     (let has = (\<lambda>part. py_contains part (py_lower message)) in
      if has ''workspace'' \<and> has ''not found'' then ''WORKSPACE_NOT_FOUND''
      else if has ''process'' \<and> has ''not running'' then ''PROCESS_NOT_RUNNING''
      else if has ''pty'' \<and> (has ''not active'' \<or> has ''not a tty'') then ''PTY_NOT_ACTIVE''
      else if has ''process'' \<and> has ''not found'' then ''PROCESS_NOT_FOUND''
      else if has ''timed out'' \<or> has ''timeout'' then ''PROCESS_TIMEOUT''
      else if has ''denied'' \<or> has ''permission'' then ''PERMISSION_DENIED''
      else if has ''invalid'' \<or> has ''must be'' \<or> has ''required'' then ''INVALID_INPUT''
      else ''INTERNAL_ERROR'')"

definition plain_error :: "string \<Rightarrow> json" where
  "plain_error message = JObj [(''code'', JStr (infer_error_code message)), (''message'', JStr message), (''retryable'', JBool False)]"

definition complete_error :: "tool_env \<Rightarrow> json \<Rightarrow> json" where
  "complete_error env e =
     (case e of
        JObj d \<Rightarrow>
          JObj (set_default ''retryable'' (JBool False) (set_default ''message'' (JStr ''tool execution failed'')
            (set_default ''code'' (JStr (infer_error_code (py_str_of env (jget d ''message'' (JStr []))))) d)))
      | _ \<Rightarrow> plain_error (if truthy e then py_str_of env e else ''tool execution failed''))"

definition complete_envelope :: "tool_env \<Rightarrow> (string \<times> json) list \<Rightarrow> (string \<times> json) list" where
  "complete_envelope env d =
     (if jget d ''ok'' JNull = JBool True then
        set_default ''next_cursor'' JNull (set_default ''truncated'' (JBool False) (set_default ''warnings'' (JArr []) d))
      else if jget d ''ok'' JNull = JBool False then AList.update ''error'' (complete_error env (jget d ''error'' JNull)) d
      else d)"

definition normalise_envelope :: "tool_env \<Rightarrow> string \<Rightarrow> string option \<Rightarrow> (string \<times> json) list \<Rightarrow> (string \<times> json) list" where
  "normalise_envelope env request ws envelope =
     (let d = AList.update ''request_id'' (JStr request) envelope
      in complete_envelope env (case ws of None \<Rightarrow> d | Some s \<Rightarrow> set_default ''workspace_id'' (JStr s) d))"

definition without_keys :: "string list \<Rightarrow> (string \<times> json) list \<Rightarrow> (string \<times> json) list" where
  "without_keys ks d = filter (\<lambda>(k, _). k \<notin> set ks) d"

definition normalise_error :: "tool_env \<Rightarrow> string \<Rightarrow> string option \<Rightarrow> (string \<times> json) list \<Rightarrow> json" where
  "normalise_error env request ws d =
     (let opts = (\<lambda>retryable extra. \<lparr>eo_retryable = retryable, eo_suggested_next_tool = None, eo_workspace_id = ws, eo_request_id = Some request,
                    eo_extra = extra\<rparr>)
      in case jget d ''error'' JNull of
           JObj e \<Rightarrow>
             let message = py_str_of env (jget e ''message'' (JStr ''tool execution failed'')); code = jget e ''code'' JNull
             in error_result request (if truthy code then py_str_of env code else infer_error_code message) message
                  (opts (truthy (jget e ''retryable'' (JBool False))) (without_keys [''code'', ''message'', ''retryable''] e))
         | e \<Rightarrow>
             let message = py_str_of env e; code = jget d ''error_code'' JNull
             in error_result request (if truthy code then py_str_of env code else infer_error_code message) message
                  (opts False (without_keys [''error'', ''error_code'', ''workspace_id''] d)))"

definition has_field :: "string \<Rightarrow> (string \<times> json) list \<Rightarrow> bool" where
  "has_field k d = (map_of d k \<noteq> None)"

definition normalise_result :: "tool_env \<Rightarrow> string \<Rightarrow> string option \<Rightarrow> json \<Rightarrow> json" where
  "normalise_result env request ws result =
     (let ok = ok_result request result (ok_defaults\<lparr>oo_workspace_id := ws, oo_request_id := Some request\<rparr>) in
      case result of
        JArr (JObj first # rest) \<Rightarrow>
          if has_field ''ok'' first then JArr (JObj (normalise_envelope env request ws first) # rest) else ok
      | JObj d \<Rightarrow>
          if has_field ''ok'' d then JObj (normalise_envelope env request ws d)
          else if has_field ''error'' d then normalise_error env request ws d
          else ok
      | _ \<Rightarrow> ok)"

fun exception_error :: "tool_exn_kind \<Rightarrow> string \<times> bool" where
  "exception_error Exn_cancelled = (''PROCESS_CANCELLED'', False)"
| "exception_error Exn_timeout = (''PROCESS_TIMEOUT'', True)"
| "exception_error Exn_permission = (''PERMISSION_DENIED'', False)"
| "exception_error Exn_file_not_found = (''FILE_NOT_FOUND'', False)"
| "exception_error Exn_type_or_value = (''INVALID_INPUT'', False)"
| "exception_error Exn_other = (''INTERNAL_ERROR'', False)"

text \<open>The envelope in a result: the object itself, or the first element of a list.\<close>

definition envelope_of :: "json \<Rightarrow> (string \<times> json) list option" where
  "envelope_of r = (case r of JObj d \<Rightarrow> Some d | JArr (JObj d # _) \<Rightarrow> Some d | _ \<Rightarrow> None)"

definition result_state :: "tool_env \<Rightarrow> json \<Rightarrow> bool \<times> string option" where
  "result_state env r =
     (case envelope_of r of
        None \<Rightarrow> (True, None)
      | Some d \<Rightarrow>
          if jget d ''ok'' JNull \<noteq> JBool False then (True, None)
          else (False, case jget d ''error'' JNull of
                  JObj e \<Rightarrow> if truthy (jget e ''code'' JNull) then Some (py_str_of env (jget e ''code'' JNull)) else None
                | _ \<Rightarrow> None))"

definition limit_result :: "tool_env \<Rightarrow> tool_spec \<Rightarrow> string \<Rightarrow> json \<Rightarrow> json" where
  "limit_result env t request r =
     (case r of
        JObj d \<Rightarrow>
          let rendered = te_dumps env r in
          if int (length rendered) \<le> ts_max_chars t then r
          else ok_result request
            (JObj [(''preview'', JStr (take (nat (max 1 (ts_max_chars t div 2))) rendered)),
                   (''original_chars'', JInt (int (length rendered))), (''limit_chars'', JInt (ts_max_chars t))])
            (ok_defaults\<lparr>oo_workspace_id := (case jget d ''workspace_id'' JNull of JNull \<Rightarrow> None | v \<Rightarrow> Some (py_str_of env v)),
               oo_request_id := Some request, oo_truncated := True,
               oo_warnings := [''middleware truncated '' @ ts_name t @ '' result to its ToolSpec limit'']\<rparr>)
      | _ \<Rightarrow> r)"

subsection \<open>The pipeline\<close>

definition audited :: "tool_env \<Rightarrow> tool_spec \<Rightarrow> tool_call \<Rightarrow> string option \<Rightarrow> string \<Rightarrow> json \<Rightarrow> 'w tool_world \<Rightarrow> 'w tool_world \<times> json" where
  "audited env t c ws status r w =
     (let (success, code) = result_state env r;
          row = \<lparr>au_tool = ts_name t, au_request_id = tc_request c, au_workspace = ws,
                 au_input_summary = (case tc_summary c of None \<Rightarrow> input_summary env (tc_inputs c)
                                     | Some s \<Rightarrow> if s = [] then input_summary env (tc_inputs c) else s),
                 au_success = success, au_duration_ms = tc_elapsed c, au_error_code = code,
                 au_result_status = Some (if success then status else ''error'')\<rparr>
      in (w\<lparr>iw_rest := (iw_rest w)\<lparr>tw_ops := audit_event (tc_operation c) row (tw_ops (iw_rest w))\<rparr>\<rparr>,
          limit_result env t (tc_request c) r))"

definition refused :: "tool_call \<Rightarrow> string option \<Rightarrow> string \<Rightarrow> string \<Rightarrow> (string \<times> json) list \<Rightarrow> json" where
  "refused c ws code message extra =
     error_result (tc_request c) code message
       (error_defaults\<lparr>eo_workspace_id := ws, eo_request_id := Some (tc_request c), eo_extra := extra\<rparr>)"

definition call_key :: "tool_call \<Rightarrow> string option" where
  "call_key c =
     (case tc_key c of
        Some k \<Rightarrow> Some k
      | None \<Rightarrow> (case input_of ''idempotency_key'' (tc_inputs c) of JStr s \<Rightarrow> if s = [] then None else Some s | _ \<Rightarrow> None))"

definition call_hash :: "tool_env \<Rightarrow> tool_spec \<Rightarrow> tool_call \<Rightarrow> string option" where
  "call_hash env t c =
     (if call_key c \<noteq> None \<and> ts_idempotency t \<noteq> Key_none
      then Some (input_hash (te_sha env) (ts_name t) (without_keys [''idempotency_key''] (tc_inputs c)))
      else None)"

text \<open>A call that may run: the workspace it was attributed to and the key of the lock it waits for.\<close>

record pending_call =
  pn_workspace :: "string option"
  pn_lock :: "string option"

definition cached_reply :: "tool_env \<Rightarrow> tool_call \<Rightarrow> string option \<Rightarrow> string \<Rightarrow> json \<Rightarrow> json" where
  "cached_reply env c ws key cached =
     (if is_mismatch cached
      then refused c ws ''IDEMPOTENCY_KEY_MISMATCH'' (''idempotency_key '' @ py_repr key @ '' was used with different inputs'')
             [(''idempotency_key'', JStr key), (''stored_hash'', env_field ''stored_hash'' cached)]
      else normalise_result env (tc_request c) ws cached)"

definition lookup_cached :: "tool_env \<Rightarrow> tool_spec \<Rightarrow> tool_call \<Rightarrow> 'w tool_world \<Rightarrow> (string \<times> json) option" where
  "lookup_cached env t c w =
     (case (call_key c, call_hash env t c) of
        (Some key, Some h) \<Rightarrow> map_option (Pair key) (get_idempotent_result key h (iw_keys w))
      | _ \<Rightarrow> None)"

definition tool_begin :: "tool_env \<Rightarrow> tool_spec \<Rightarrow> tool_call \<Rightarrow> 'w tool_world \<Rightarrow> 'w tool_world \<times> (json + pending_call)" where
  "tool_begin env t c w =
     (let ws = workspace_of_call (tc_inputs c) w;
          answer = (\<lambda>status r w. case audited env t c ws status r w of (w', r') \<Rightarrow> (w', Inl r'))
      in case validate_inputs (tc_inputs c) of
           Some e \<Rightarrow> answer ''success'' (refused c ws ''INVALID_INPUT'' e []) w
         | None \<Rightarrow>
             if ts_idempotency t = Key_required \<and> call_key c = None
             then answer ''success'' (refused c ws ''INVALID_INPUT'' (ts_name t @ '' requires idempotency_key'') []) w
             else case lookup_cached env t c w of
               Some (key, cached) \<Rightarrow>
                 answer (if is_mismatch cached then ''success'' else ''idempotent_replay'') (cached_reply env c ws key cached) w
             | None \<Rightarrow>
               (case workspace_preflight (tc_request c) t c w of
                  (w, Some e) \<Rightarrow> answer ''success'' (normalise_result env (tc_request c) ws e) w
                | (w, None) \<Rightarrow>
                    let permission = te_permission env t (tc_inputs c) in
                    if permission \<noteq> JBool True
                    then answer ''success'' (refused c ws ''PERMISSION_DENIED''
                           (if truthy permission then py_str_of env permission else ''permission denied for '' @ ts_name t) []) w
                    else (w, Inr \<lparr>pn_workspace = ws, pn_lock = concurrency_key env (ts_key t) (tc_inputs c) w\<rparr>)))"

text \<open>
  The attempts; the number is how many are left.  \<open>asyncio.CancelledError\<close> is no \<open>Exception\<close> and passes
  through every handler, so a cancelled call is neither stored nor audited.
\<close>

fun run_attempts :: "tool_spec \<Rightarrow> tool_call \<Rightarrow> string option \<Rightarrow> 'w tool_handler \<Rightarrow> nat \<Rightarrow> 'w tool_world \<Rightarrow> 'w tool_world \<times> (tool_exn + json)" where
  "run_attempts t c ws handler 0 w = (w, Inr JNull)"
| "run_attempts t c ws handler (Suc n) w =
     (case handler w of
        (w', Inr r) \<Rightarrow> (w', Inr r)
      | (w', Inl e) \<Rightarrow>
          if tx_kind e = Exn_cancelled then (w', Inl e)
          else let (code, retryable) = exception_error (tx_kind e) in
            if retryable \<and> code \<in> set (rt_errors (ts_retry t)) \<and> 0 < n then run_attempts t c ws handler n w'
            else (w', Inr (error_result (tc_request c) code (if tx_message e = [] then tx_type e else tx_message e)
                    \<lparr>eo_retryable = retryable, eo_suggested_next_tool = None, eo_workspace_id = ws, eo_request_id = Some (tc_request c), eo_extra = []\<rparr>)))"

definition tool_finish :: "tool_env \<Rightarrow> tool_spec \<Rightarrow> tool_call \<Rightarrow> string option \<Rightarrow> json \<Rightarrow> 'w tool_world \<Rightarrow> 'w tool_world \<times> json" where
  "tool_finish env t c ws raw w =
     (let r = limit_result env t (tc_request c) (normalise_result env (tc_request c) ws raw);
          w = (case (call_key c, call_hash env t c) of
                 (Some key, Some h) \<Rightarrow> w\<lparr>iw_keys := store_idempotent_result key (ts_name t) h r (tc_now c) (iw_keys w)\<rparr>
               | _ \<Rightarrow> w)
      in audited env t c ws ''success'' r w)"

definition run_under_lock :: "tool_env \<Rightarrow> tool_spec \<Rightarrow> tool_call \<Rightarrow> 'w tool_handler \<Rightarrow> pending_call \<Rightarrow> 'w tool_world \<Rightarrow> 'w tool_world \<times> (tool_exn + json)" where
  "run_under_lock env t c handler p w =
     (case run_attempts t c (pn_workspace p) handler (nat (rt_max_attempts (ts_retry t))) w of
        (w', Inl e) \<Rightarrow> (w', Inl e)
      | (w', Inr raw) \<Rightarrow> (case tool_finish env t c (pn_workspace p) raw w' of (w'', r) \<Rightarrow> (w'', Inr r)))"

definition execute_tool :: "tool_env \<Rightarrow> tool_spec \<Rightarrow> tool_call \<Rightarrow> 'w tool_handler \<Rightarrow> 'w tool_world \<Rightarrow> 'w tool_world \<times> (tool_exn + json)" where
  "execute_tool env t c handler w =
     (case tool_begin env t c w of
        (w', Inl r) \<Rightarrow> (w', Inr r)
      | (w', Inr p) \<Rightarrow> run_under_lock env t c handler p w')"

text \<open>\<open>_default_permission_evaluator\<close>.\<close>

definition allowed_profiles :: "string list" where
  "allowed_profiles = [''read'', ''workspace_write'', ''process_execute'', ''process_control'']"

definition default_permission :: "tool_spec \<Rightarrow> (string \<times> json) list \<Rightarrow> json" where
  "default_permission t inputs =
     (if ts_permission t \<notin> set allowed_profiles then JStr (''unknown permission profile: '' @ ts_permission t) else JBool True)"

end
