(* ===== verification/Tool_Contracts.thy ===== *)
theory Tool_Contracts
  imports Tool_Registry
begin

text \<open>
  The contracts of the externally visible tools (\<open>_default_specs\<close> of \<open>app/services/tool_registry.py\<close>).
\<close>

definition read_spec :: "key_rule \<Rightarrow> string \<Rightarrow> tool_spec" where
  "read_spec key name =
     \<lparr>ts_name = name, ts_effects = {Effect_read}, ts_key = key, ts_idempotency = Key_none, ts_cancel = False,
      ts_max_chars = 200000, ts_permission = ''read'', ts_retry = no_retry\<rparr>"

definition write_spec :: "string \<Rightarrow> tool_spec" where
  "write_spec name =
     \<lparr>ts_name = name, ts_effects = {Effect_write}, ts_key = By_workspace, ts_idempotency = Key_optional, ts_cancel = False,
      ts_max_chars = 200000, ts_permission = ''workspace_write'', ts_retry = no_retry\<rparr>"

definition global_reads :: "string list" where
  "global_reads = [''get_capabilities'', ''list_projects'', ''list_workspaces'', ''ping'', ''read_artifact'', ''view_artifact'']"

definition workspace_reads :: "string list" where
  "workspace_reads =
     [''find_definition'', ''find_implementations'', ''find_references'', ''get_call_hierarchy'', ''get_changed_symbols'', ''get_diagnostics'',
      ''get_repo_map'', ''get_workspace'', ''get_workspace_plan'', ''get_workspace_report'', ''git_diff'', ''git_status'', ''list_artifacts'',
      ''list_checks'', ''list_symbols'', ''read_files'', ''search_code'', ''view_image'']"

definition process_reads :: "string list" where
  "process_reads = [''get_process_result'', ''read_process_output'']"

definition read_specs :: "tool_spec list" where
  "read_specs =
     map (read_spec By_global) global_reads @ map (read_spec By_workspace) workspace_reads
     @ [read_spec By_change_set ''get_change_set'', read_spec By_nothing ''get_events'', read_spec By_nothing ''subscribe_process'']
     @ map (read_spec By_process) process_reads @ [read_spec By_project ''get_project_status'']"

definition workspace_write_specs :: "tool_spec list" where
  "workspace_write_specs =
     [(write_spec ''create_workspace'')\<lparr>ts_effects := {Effect_write, Effect_git}, ts_key := By_project\<rparr>,
      (write_spec ''discard_workspace'')\<lparr>ts_effects := {Effect_write, Effect_git}\<rparr>,
      (write_spec ''apply_patch'')\<lparr>ts_effects := {Effect_write, Effect_git}\<rparr>,
      (write_spec ''replace_text'')\<lparr>ts_effects := {Effect_write, Effect_git}\<rparr>,
      (write_spec ''begin_change_set'')\<lparr>ts_effects := {Effect_write, Effect_git}\<rparr>]"

definition change_set_specs :: "tool_spec list" where
  "change_set_specs =
     [(write_spec ''stage_patch'')\<lparr>ts_effects := {Effect_write, Effect_git}, ts_key := By_change_set\<rparr>,
      (write_spec ''stage_replace'')\<lparr>ts_key := By_change_set\<rparr>,
      (write_spec ''validate_change_set'')\<lparr>ts_effects := {Effect_read, Effect_write, Effect_git}, ts_key := By_change_set\<rparr>,
      (write_spec ''commit_change_set'')\<lparr>ts_effects := {Effect_write, Effect_git}, ts_key := By_change_set_workspace, ts_idempotency := Key_required\<rparr>,
      (write_spec ''rollback_change_set'')\<lparr>ts_key := By_change_set\<rparr>]"

definition execute_specs :: "tool_spec list" where
  "execute_specs =
     [(write_spec ''run_pwsh'')\<lparr>ts_effects := {Effect_write, Effect_execute, Effect_network}, ts_cancel := True, ts_permission := ''process_execute''\<rparr>,
      (write_spec ''run_check'')\<lparr>ts_effects := {Effect_read, Effect_execute}, ts_cancel := True, ts_permission := ''process_execute''\<rparr>,
      (write_spec ''run_command'')\<lparr>ts_effects := {Effect_write, Effect_execute, Effect_network}, ts_idempotency := Key_none, ts_cancel := True,
        ts_permission := ''process_execute''\<rparr>]"

definition control_spec :: "string \<Rightarrow> tool_spec" where
  "control_spec name = (write_spec name)\<lparr>ts_effects := {Effect_process_control}, ts_key := By_process, ts_permission := ''process_control''\<rparr>"

definition control_specs :: "tool_spec list" where
  "control_specs =
     control_spec ''cancel_process'' # map (\<lambda>n. (control_spec n)\<lparr>ts_idempotency := Key_none\<rparr>)
       [''write_process_input'', ''send_process_signal'', ''resize_terminal'']"

definition plan_specs :: "tool_spec list" where
  "plan_specs = map (\<lambda>n. (write_spec n)\<lparr>ts_idempotency := Key_none\<rparr>) [''update_workspace_plan'', ''update_workspace_plan_step'']"

definition default_specs :: "tool_spec list" where
  "default_specs = read_specs @ workspace_write_specs @ change_set_specs @ execute_specs @ control_specs @ plan_specs"

definition default_registry :: registry where
  "default_registry = (case register_all default_specs [] of Inl _ \<Rightarrow> [] | Inr reg \<Rightarrow> reg)"

lemma register_all_new:
  "distinct (map ts_name ts) \<Longrightarrow> set (map ts_name ts) \<inter> set (map fst reg) = {} \<Longrightarrow>
   register_all ts reg = Inr (reg @ map (\<lambda>t. (ts_name t, t)) ts)"
proof (induction ts arbitrary: reg)
  case (Cons t ts)
  have "map_of reg (ts_name t) = None" using Cons.prems(2) by (auto simp: map_of_eq_None_iff)
  then have "register_spec t reg = Inr (reg @ [(ts_name t, t)])"
    using Cons.prems(2) by (simp add: register_spec_def set_update_new)
  then show ?case using Cons.IH [of "reg @ [(ts_name t, t)]"] Cons.prems by auto
qed simp

lemma default_names: "distinct (map ts_name default_specs)"
  by code_simp

lemma default_registered: "register_all default_specs [] = Inr (map (\<lambda>t. (ts_name t, t)) default_specs)"
  using register_all_new [OF default_names, of "[]"] by simp

lemma default_registry_list: "default_registry = map (\<lambda>t. (ts_name t, t)) default_specs"
  by (simp add: default_registry_def default_registered)

text \<open>What every contract promises, as one check on a contract.\<close>

definition contract_sound :: "tool_spec \<Rightarrow> bool" where
  "contract_sound t \<longleftrightarrow>
     is_ok (check_spec t) \<and> is_ok (check_retry (ts_retry t)) \<and> default_permission t [] = JBool True \<and> rt_max_attempts (ts_retry t) = 1
     \<and> (Effect_write \<in> ts_effects t \<longrightarrow> ts_key t \<noteq> By_nothing)
     \<and> (ts_effects t = {Effect_read} \<longleftrightarrow> ts_permission t = ''read'')
     \<and> (Effect_execute \<in> ts_effects t \<longleftrightarrow> ts_permission t = ''process_execute'') \<and> (Effect_execute \<in> ts_effects t \<longleftrightarrow> ts_cancel t)
     \<and> (ts_idempotency t = Key_required \<longleftrightarrow> ts_name t = ''commit_change_set'')"

lemma default_sound: "list_all contract_sound default_specs"
  by code_simp

text \<open>\<open>tool_contracts\<close>: the description of the contracts; the effects in the order of their names.\<close>

definition effect_values :: "(effect \<times> string) list" where
  "effect_values =
     [(Effect_execute, ''execute''), (Effect_git, ''git''), (Effect_network, ''network''), (Effect_process_control, ''process_control''),
      (Effect_read, ''read''), (Effect_write, ''write'')]"

fun policy_value :: "idempotency_policy \<Rightarrow> string" where
  "policy_value Key_none = ''none''"
| "policy_value Key_optional = ''optional''"
| "policy_value Key_required = ''required''"

definition tool_contract :: "tool_spec \<Rightarrow> json" where
  "tool_contract t =
     JObj [(''name'', JStr (ts_name t)),
       (''effects'', JArr [JStr v. (e, v) \<leftarrow> effect_values, e \<in> ts_effects t]),
       (''idempotency'', JStr (policy_value (ts_idempotency t))),
       (''interrupt_behavior'', JStr (if ts_cancel t then ''cancel'' else ''block'')),
       (''max_result_chars'', JInt (ts_max_chars t)), (''permission_profile'', JStr (ts_permission t)),
       (''retry_policy'', JObj [(''max_attempts'', JInt (rt_max_attempts (ts_retry t))),
          (''retryable_errors'', JArr (map JStr (sort (rt_errors (ts_retry t))))), (''backoff_seconds'', JFloat (rt_backoff (ts_retry t)))])]"

definition tool_contracts :: "registry \<Rightarrow> json list" where
  "tool_contracts reg = map tool_contract (list_specs reg)"

text \<open>
  \<open>RegisteredToolMCP.tool\<close>: registering a function that has no contract fails; a call of a registered function goes through
  the middleware with its \<open>idempotency_key\<close> argument when that is a string.
\<close>

definition registered_call :: "(string \<times> json) list \<Rightarrow> tool_call \<Rightarrow> tool_call" where
  "registered_call bound c =
     c\<lparr>tc_inputs := bound, tc_summary := None,
       tc_key := (case input_of ''idempotency_key'' bound of JStr s \<Rightarrow> Some s | _ \<Rightarrow> None)\<rparr>"

definition mediated ::
  "tool_env \<Rightarrow> registry \<Rightarrow> string \<Rightarrow> (string \<times> json) list \<Rightarrow> tool_call \<Rightarrow> 'w tool_handler \<Rightarrow> 'w tool_world \<Rightarrow> string + 'w tool_world \<times> (tool_exn + json)" where
  "mediated env reg name bound c handler w =
     obind (get_spec name reg) (\<lambda>t. Inr (execute_tool env t (registered_call bound c) handler w))"

end
