(* ===== verification/Tool_Safety.thy ===== *)
theory Tool_Safety
  imports Tool_Contracts
begin

text \<open>
  What the tool middleware promises: which calls reach their handler and what the others change, how often a handler runs, the
  shape of every reply, and what happens to a key and to an error report in two corner cases.
\<close>

subsection \<open>The guards\<close>

definition workspace_open :: "tool_spec \<Rightarrow> string \<Rightarrow> 'w tool_world \<Rightarrow> bool" where
  "workspace_open t ws w \<longleftrightarrow>
     workspace_id_match ws \<and> map_of (tw_workspaces (iw_rest w)) ws \<noteq> None
     \<and> (Effect_write \<in> ts_effects t \<and> ts_name t \<notin> set recovery_tools \<longrightarrow>
        recovering_set ws w = None)"

definition guards :: "tool_env \<Rightarrow> tool_spec \<Rightarrow> tool_call \<Rightarrow> 'w tool_world \<Rightarrow> bool" where
  "guards env t c w \<longleftrightarrow>
     validate_inputs (tc_inputs c) = None \<and> (ts_idempotency t = Key_required \<longrightarrow> call_key c \<noteq> None)
     \<and> lookup_cached env t c w = None
     \<and> (case workspace_of_call (tc_inputs c) w of None \<Rightarrow> True | Some ws \<Rightarrow> workspace_open t ws w)
     \<and> te_permission env t (tc_inputs c) = JBool True"

text \<open>Only the access times of workspaces and the audit log may differ.\<close>

definition same_work :: "'w tool_world \<Rightarrow> 'w tool_world \<Rightarrow> bool" where
  "same_work w w' \<longleftrightarrow> iw_keys w' = iw_keys w \<and> tw_sets (iw_rest w') = tw_sets (iw_rest w) \<and> tw_rest (iw_rest w') = tw_rest (iw_rest w)
     \<and> map fst (tw_workspaces (iw_rest w')) = map fst (tw_workspaces (iw_rest w))"

lemma same_work_refl: "same_work w w"
  by (simp add: same_work_def)

lemma keys_touch: "map fst (touch_workspace now wid table) = map fst table"
proof -
  have "map fst (AList.update k v d) = map fst d" if "map_of d k = Some u" for k and u v :: workspace_row and d
    using that by (induction d) (auto split: if_splits)
  then show ?thesis by (auto simp: touch_workspace_def update_workspace_def split: option.split)
qed

lemma get_workspace_keys: "get_workspace now ws table = (table', r) \<Longrightarrow> map fst table' = map fst table"
  by (auto simp: get_workspace_def keys_touch split: if_splits option.splits)

lemma audited_work: "same_work w (fst (audited env t c ws status r w'))" if "same_work w w'"
  using that by (simp add: audited_def same_work_def Let_def split: prod.split)

lemma preflight_cases:
  assumes "workspace_preflight fresh t c w = (w1, e)"
  shows "same_work w w1"
    "e = None \<longleftrightarrow> (case workspace_of_call (tc_inputs c) w of None \<Rightarrow> True | Some ws \<Rightarrow> workspace_open t ws w)"
proof -
  have "same_work w w1 \<and> (e = None \<longleftrightarrow> (case workspace_of_call (tc_inputs c) w of None \<Rightarrow> True | Some ws \<Rightarrow> workspace_open t ws w))"
  proof (cases "workspace_of_call (tc_inputs c) w")
    case None
    then show ?thesis using assms by (auto simp: workspace_preflight_def same_work_refl)
  next
    case (Some ws)
    obtain table r where g: "get_workspace (tc_now c) ws (tw_workspaces (iw_rest w)) = (table, r)" by fastforce
    let ?w = "w\<lparr>iw_rest := (iw_rest w)\<lparr>tw_workspaces := table\<rparr>\<rparr>"
    have work: "same_work w ?w" using get_workspace_keys [OF g] by (simp add: same_work_def)
    have open_iff: "r = None \<longleftrightarrow> \<not> (workspace_id_match ws \<and> map_of (tw_workspaces (iw_rest w)) ws \<noteq> None)"
      using g by (auto simp: get_workspace_def split: if_splits option.splits)
    have rec: "recovering_set ws ?w = recovering_set ws w" by (simp add: recovering_set_def)
    note op = workspace_open_def
    show ?thesis
    proof (cases "r = None")
      case True
      then show ?thesis using assms Some g work open_iff by (auto simp: workspace_preflight_def op)
    next
      case False
      then show ?thesis
        using assms Some g work open_iff rec
        by (cases "recovering_set ws w") (auto simp: workspace_preflight_def op Let_def split: if_splits)
    qed
  qed
  then show "same_work w w1" "e = None \<longleftrightarrow> (case workspace_of_call (tc_inputs c) w of None \<Rightarrow> True | Some ws \<Rightarrow> workspace_open t ws w)"
    by blast+
qed

lemma tool_begin_gate:
  assumes "tool_begin env t c w = (w1, x)"
  shows "same_work w w1" "(\<exists>p. x = Inr p) \<longleftrightarrow> guards env t c w"
proof -
  obtain w2 e where p: "workspace_preflight (tc_request c) t c w = (w2, e)" by fastforce
  note pre = preflight_cases [OF p]
  have a: "audited env t c ws status r w = (u, y) \<Longrightarrow> same_work w u" "audited env t c ws status r w2 = (u, y) \<Longrightarrow> same_work w u" for ws status r u y
    using audited_work [OF same_work_refl [of w], where env = env and t = t and c = c and ws = ws and status = status and r = r]
      audited_work [OF pre(1), where env = env and t = t and c = c and ws = ws and status = status and r = r] by auto
  have "same_work w w1 \<and> ((\<exists>p. x = Inr p) \<longleftrightarrow> guards env t c w)"
    using assms pre
    by (auto simp: tool_begin_def guards_def p Let_def dest: a split: option.splits if_splits prod.splits)
  then show "same_work w w1" "(\<exists>p. x = Inr p) \<longleftrightarrow> guards env t c w" by blast+
qed

text \<open>The handler runs a number of times in a row.\<close>

lemma run_attempts_runs:
  assumes "run_attempts t c ws handler n w = (w', x)" "0 < n"
  shows "\<exists>k. 1 \<le> k \<and> k \<le> n \<and> w' = ((\<lambda>w. fst (handler w)) ^^ k) w"
  using assms
proof (induction n arbitrary: w)
  case (Suc n)
  obtain w1 r where h: "handler w = (w1, r)" by fastforce
  show ?case
  proof (cases "run_attempts t c ws handler (Suc n) w = run_attempts t c ws handler n w1 \<and> 0 < n")
    case True
    then obtain k where k: "1 \<le> k" "k \<le> n" "w' = ((\<lambda>w. fst (handler w)) ^^ k) w1" using Suc by auto
    then have "w' = ((\<lambda>w. fst (handler w)) ^^ Suc k) w" by (simp add: h funpow_Suc_right del: funpow.simps)
    then show ?thesis using k by (intro exI [of _ "Suc k"]) simp
  next
    case False
    then have "w' = w1"
      using Suc.prems(1) h by (auto simp: Let_def split: sum.splits prod.splits if_splits)
    then show ?thesis by (intro exI [of _ 1]) (simp add: h)
  qed
qed simp

lemma tool_finish_work:
  "tw_rest (iw_rest (fst (tool_finish env t c ws raw w))) = tw_rest (iw_rest w)"
  by (auto simp: tool_finish_def audited_def Let_def split: option.split prod.split)



subsection \<open>The shape of replies\<close>

definition proper :: "string \<Rightarrow> json \<Rightarrow> bool" where
  "proper request r \<longleftrightarrow>
     (case envelope_of r of None \<Rightarrow> False | Some d \<Rightarrow> map_of d ''request_id'' = Some (JStr request) \<and> map_of d ''ok'' \<noteq> None)"

lemma proper_error: "eo_request_id opts = Some request \<Longrightarrow> proper request (error_result request code message opts)"
  by (auto simp: proper_def envelope_of_def error_result_def Let_def map_of_with_field chosen_request_id_def)

lemma proper_ok: "oo_request_id opts = Some request \<Longrightarrow> proper request (ok_result request r opts)"
  by (auto simp: proper_def envelope_of_def ok_result_def Let_def map_of_with_field chosen_request_id_def)

lemma complete_envelope_fields:
  assumes "k \<notin> set [''next_cursor'', ''truncated'', ''warnings'', ''error'']"
  shows "map_of (complete_envelope env d) k = map_of d k"
  using assms by (simp add: complete_envelope_def map_of_set_default map_of_update_iff)

lemma normalise_envelope_fields:
  "map_of (normalise_envelope env request ws d) ''request_id'' = Some (JStr request)"
  "map_of (normalise_envelope env request ws d) ''ok'' = map_of d ''ok''"
  by (simp_all add: normalise_envelope_def Let_def complete_envelope_fields map_of_set_default map_of_update_iff split: option.split)

lemma proper_normalised: "proper request (normalise_result env request ws r)"
proof -
  have o: "proper request (ok_result request r (ok_defaults\<lparr>oo_workspace_id := ws, oo_request_id := Some request\<rparr>))"
    by (rule proper_ok) simp
  have e: "proper request (normalise_error env request ws d)" for d
    by (simp add: normalise_error_def Let_def proper_error split: json.split)
  have n: "has_field ''ok'' d \<Longrightarrow> envelope_of x = Some (normalise_envelope env request ws d) \<Longrightarrow> proper request x" for x d
    by (simp add: proper_def normalise_envelope_fields has_field_def)
  show ?thesis
    using o e n by (auto simp: normalise_result_def Let_def envelope_of_def split: json.split list.split)
qed

lemma proper_limit: "proper request r \<Longrightarrow> proper request (limit_result env t request r)"
  by (cases r) (simp_all add: limit_result_def Let_def proper_ok)

lemma proper_refused: "proper (tc_request c) (refused c ws code message extra)"
  by (simp add: refused_def proper_error error_defaults_def)

lemma proper_audited:
  "proper (tc_request c) r \<Longrightarrow> audited env t c ws status r w = (w', r') \<Longrightarrow> proper (tc_request c) r'"
  by (auto simp: audited_def Let_def proper_limit split: prod.splits)

lemma proper_cached: "proper (tc_request c) (cached_reply env c ws key cached)"
  by (simp add: cached_reply_def proper_refused proper_normalised)

text \<open>
  C35. Every reply of the middleware is an envelope: whatever the handler returned or raised, and on every refusal, replay and
  truncation, the reply (or the first block of a list) is an object with the request id of this call and
  an \<open>ok\<close> field.  Only a cancellation leaves a call without a reply.
\<close>
theorem tool_reply_envelope:
  "case snd (execute_tool env t c handler w) of Inr r \<Rightarrow> proper (tc_request c) r | Inl e \<Rightarrow> tx_kind e = Exn_cancelled"
proof -
  obtain w1 x where b: "tool_begin env t c w = (w1, x)" by fastforce
  show ?thesis
  proof (cases x)
    case (Inl r)
    have "proper (tc_request c) r"
      using b Inl
      by (auto simp: tool_begin_def Let_def proper_refused proper_cached proper_normalised
          elim!: proper_audited [rotated] split: option.splits if_splits prod.splits)
    then show ?thesis using b Inl by (simp add: execute_tool_def)
  next
    case (Inr p)
    have exn: "snd (run_attempts t c ws handler n w) = Inl e \<Longrightarrow> tx_kind e = Exn_cancelled" for ws n w e
      by (induction t c ws handler n w rule: run_attempts.induct) (auto simp: Let_def split: sum.splits prod.splits if_splits)
    have fin: "proper (tc_request c) (snd (tool_finish env t c ws raw w))" for ws raw w
      by (simp add: tool_finish_def audited_def Let_def proper_limit proper_normalised split: prod.split)
    obtain w2 y where a: "run_attempts t c (pn_workspace p) handler (nat (rt_max_attempts (ts_retry t))) w1 = (w2, y)" by fastforce
    show ?thesis
    proof (cases y)
      case (Inl e)
      then show ?thesis using exn [of "pn_workspace p" "nat (rt_max_attempts (ts_retry t))" w1 e] a b Inr by (simp add: execute_tool_def run_under_lock_def)
    next
      case (Inr raw)
      then show ?thesis
        using fin [of "pn_workspace p" raw w2] a b \<open>x = Inr p\<close>
        by (cases "tool_finish env t c (pn_workspace p) raw w2") (simp add: execute_tool_def run_under_lock_def)
    qed
  qed
qed

subsection \<open>Two corner cases\<close>

text \<open>A tool body that stores its result under the same key itself, as \<open>run_pwsh\<close> and \<open>run_check\<close> do.\<close>

definition keyed_body :: "tool_env \<Rightarrow> string \<Rightarrow> string \<Rightarrow> string \<Rightarrow> string \<Rightarrow> (string \<times> json) list \<Rightarrow> 'w tool_state tool_fn \<Rightarrow> 'w tool_handler" where
  "keyed_body env fresh now key tool inputs fn w =
     (case with_idempotency (te_sha env) fresh now (Some key) tool inputs fn w of
        (w', Inl e) \<Rightarrow> (w', Inl \<lparr>tx_kind = Exn_other, tx_message = e, tx_type = ''Exception''\<rparr>)
      | (w', Inr r) \<Rightarrow> (w', Inr r))"

text \<open>Normalising an error report keeps its error block when that has its three fields.\<close>

lemma complete_error_id:
  assumes "map_of e ''code'' \<noteq> None" "map_of e ''message'' \<noteq> None" "map_of e ''retryable'' \<noteq> None"
  shows "complete_error env (JObj e) = JObj e"
  using assms by (auto simp: complete_error_def set_default_def)

lemma error_block:
  assumes "set (map fst extra) \<inter> {''code'', ''message'', ''retryable''} = {}"
  shows "\<exists>d e. error_result fresh code message (error_defaults\<lparr>eo_extra := extra\<rparr>) = JObj d \<and> map_of d ''ok'' = Some (JBool False)
    \<and> map_of d ''error'' = Some (JObj e) \<and> map_of e ''code'' = Some (JStr code) \<and> map_of e ''message'' \<noteq> None \<and> map_of e ''retryable'' \<noteq> None"
proof -
  have n: "''code'' \<notin> set (map fst extra)" "''message'' \<notin> set (map fst extra)" "''retryable'' \<notin> set (map fst extra)"
    using assms by blast+
  show ?thesis
    by (simp add: error_result_def error_defaults_def with_field_def Let_def map_of_dict_merge [OF n(1)] map_of_dict_merge [OF n(2)] map_of_dict_merge [OF n(3)])
qed

lemma mismatch_normalised:
  "\<exists>d. normalise_result env request ws (mismatch_error fresh key cached) = JObj d \<and> env_code (JObj d) = ''IDEMPOTENCY_KEY_MISMATCH''
     \<and> \<not> env_ok (JObj d)"
proof -
  let ?msg = "''idempotency_key '' @ py_repr key @ '' was used with different inputs''"
  let ?extra = "[(''idempotency_key'', JStr key), (''stored_hash'', env_field ''stored_hash'' cached)]"
  obtain d e where d: "mismatch_error fresh key cached = JObj d" "map_of d ''ok'' = Some (JBool False)" "map_of d ''error'' = Some (JObj e)"
    and e: "map_of e ''code'' = Some (JStr ''IDEMPOTENCY_KEY_MISMATCH'')" "map_of e ''message'' \<noteq> None" "map_of e ''retryable'' \<noteq> None"
    using error_block [of ?extra fresh "''IDEMPOTENCY_KEY_MISMATCH''" ?msg] unfolding mismatch_error_def by auto
  let ?n = "normalise_envelope env request ws d"
  have "map_of ?n ''error'' = Some (complete_error env (JObj e))"
    using d(2,3)
    by (simp add: normalise_envelope_def Let_def complete_envelope_def jget_def dict_get_def map_of_set_default map_of_update_iff split: option.split)
  then have "map_of ?n ''error'' = Some (JObj e)" using complete_error_id [of e env] e by simp
  then have "env_code (JObj ?n) = ''IDEMPOTENCY_KEY_MISMATCH''" using e by (simp add: env_code_def env_field_obj del: env_field.simps)
  moreover have "\<not> env_ok (JObj ?n)" using d(2) by (simp add: env_ok_def env_field_obj normalise_envelope_fields del: env_field.simps)
  moreover have "normalise_result env request ws (mismatch_error fresh key cached) = JObj ?n"
    using d by (simp add: normalise_result_def has_field_def)
  ultimately show ?thesis by blast
qed

text \<open>
  An overlapping retry spoils the key: a second call with the same key that passed the lookup before the first one finished
  does not get the first result.  The body finds the key under the hash of the middleware, answers
  \<open>IDEMPOTENCY_KEY_MISMATCH\<close>, and this answer replaces the stored result of the first call, so that every later retry gets it too.
\<close>
lemma overlapping_retry_spoils_key:
  assumes "call_key a = Some key" "call_key b = Some key" "call_hash env t a = Some h" "call_hash env t b = Some h"
    and "h \<noteq> input_hash (te_sha env) tool inputs" "1 \<le> rt_max_attempts (ts_retry t)"
    and "tool_begin env t a w = (w1, Inr p)" "tool_begin env t b w1 = (w2, Inr q)"
    and "run_under_lock env t a (keyed_body env fresh now key tool inputs fn) p w2 = (w3, Inr first)"
    and "\<forall>r. int (length (te_dumps env r)) \<le> ts_max_chars t"
  shows "\<exists>w4 reply. run_under_lock env t b (keyed_body env fresh' now' key tool inputs fn') q w3 = (w4, Inr reply)
    \<and> env_code reply = ''IDEMPOTENCY_KEY_MISMATCH'' \<and> get_idempotent_result key h (iw_keys w4) = Some reply"
proof -
  have lim: "limit_result env t request (JObj d) = JObj d" for request d using assms(10) by (simp add: limit_result_def)
  have keys: "map_of (iw_keys w3) key \<noteq> None \<and> ir_hash (the (map_of (iw_keys w3) key)) = h"
    using assms(1,3,9)
    by (auto simp: run_under_lock_def tool_finish_def audited_def Let_def store_idempotent_result_def map_of_update_iff split: prod.splits sum.splits)
  then obtain row where row: "map_of (iw_keys w3) key = Some row" "ir_hash row = h" by auto
  let ?cached = "JObj [(''_mismatch'', JBool True), (''stored_hash'', JStr h)]"
  have body: "keyed_body env fresh' now' key tool inputs fn' w3 = (w3, Inr (mismatch_error fresh' key ?cached))"
    using row assms(5) by (simp add: keyed_body_def with_idempotency_def get_idempotent_result_def)
  obtain n where n: "nat (rt_max_attempts (ts_retry t)) = Suc n" using assms(6) by (cases "nat (rt_max_attempts (ts_retry t))") auto
  obtain d where d: "normalise_result env (tc_request b) (pn_workspace q) (mismatch_error fresh' key ?cached) = JObj d"
    "env_code (JObj d) = ''IDEMPOTENCY_KEY_MISMATCH''" using mismatch_normalised by blast
  have fin: "\<exists>w4. tool_finish env t b (pn_workspace q) (mismatch_error fresh' key ?cached) w3 = (w4, JObj d)
      \<and> get_idempotent_result key h (iw_keys w4) = Some (JObj d)"
    using assms(2,4) d(1) by (simp add: tool_finish_def audited_def Let_def lim get_after_store split: prod.split)
  then show ?thesis using body n d(2) by (auto simp: run_under_lock_def)
qed

lemma limit_ok: "env_ok r \<Longrightarrow> env_ok (limit_result env t request r)"
  by (cases r) (simp_all add: limit_result_def Let_def)

text \<open>
  An error report that is too long becomes a success: when the rendered report of a failed call exceeds the limit of the
  contract, the reply has \<open>ok: true\<close> and the audit log records a success.
\<close>
lemma long_error_reported_ok:
  assumes "normalise_result env (tc_request c) ws raw = JObj d" "jget d ''ok'' JNull = JBool False"
    and "ts_max_chars t < int (length (te_dumps env (JObj d)))"
    and "call_key c = None" "''op_'' @ tc_operation c \<notin> set (map op_id (tw_ops (iw_rest w)))"
  shows "env_ok (snd (tool_finish env t c ws raw w)) \<and> op_success (last (tw_ops (iw_rest (fst (tool_finish env t c ws raw w)))))"
proof -
  obtain r opts where r: "limit_result env t (tc_request c) (JObj d) = ok_result (tc_request c) r opts"
    using assms(3) by (simp add: limit_result_def Let_def)
  obtain d' where d': "ok_result (tc_request c) r opts = JObj d'" by (simp add: ok_result_def Let_def)
  then have "jget d' ''ok'' JNull = JBool True"
    using ok_result_fields(1) [of "tc_request c" r opts] by (simp add: env_ok_def)
  then have "result_state env (JObj d') = (True, None)" by (simp add: result_state_def envelope_of_def)
  moreover have "env_ok (limit_result env t (tc_request c) (JObj d'))" by (metis limit_ok d' ok_result_fields(1))
  ultimately show ?thesis
    using assms(1,4,5) r d'
    by (simp add: tool_finish_def audited_def Let_def audit_event_def log_operation_def audit_row_def)
qed


subsection \<open>The contracts\<close>

text \<open>
  The contracts of the shipped tools: they register without a conflict, each under its own name, pass their own checks and the
  permission evaluator, are tried once, have a concurrency key when they write; the read profile, the execution profile and the cancel
  behaviour match the declared effects, and \<open>commit_change_set\<close> is the one tool that requires an idempotency key.
\<close>
lemma default_contracts_sound:
  "register_all default_specs [] = Inr default_registry \<and> distinct (map fst default_registry)
   \<and> list_all contract_sound (map snd default_registry)"
proof -
  have "map fst default_registry = map ts_name default_specs" "map snd default_registry = default_specs"
    by (simp_all add: default_registry_list o_def)
  moreover have "register_all default_specs [] = Inr default_registry" by (simp add: default_registered default_registry_list)
  ultimately show ?thesis using default_names default_sound by (simp only:)
qed

subsection \<open>Concrete calls\<close>

definition demo_tool_sha :: "json \<Rightarrow> string" where
  "demo_tool_sha j = (case j of JObj kvs \<Rightarrow> (case map_of kvs ''inputs'' of Some (JObj ins) \<Rightarrow> concat (map fst ins) | _ \<Rightarrow> []) | _ \<Rightarrow> [])"

definition demo_tool_env :: tool_env where
  "demo_tool_env = \<lparr>te_sha = demo_tool_sha, te_dumps = (\<lambda>_. ''text''), te_str = (\<lambda>_. ''value''), te_float = (\<lambda>_. ''0.0''),
     te_permission = default_permission\<rparr>"

definition demo_tool_world :: "nat tool_world" where
  "demo_tool_world = \<lparr>iw_keys = [], iw_rest = \<lparr>tw_ops = [], tw_sets = [], tw_workspaces = [], tw_rest = 0\<rparr>\<rparr>"

definition demo_tool_call :: "string \<Rightarrow> tool_call" where
  "demo_tool_call request = \<lparr>tc_inputs = [(''script'', JStr ''ls'')], tc_key = Some ''k'', tc_summary = None, tc_request = request,
     tc_operation = request, tc_now = ''t'', tc_elapsed = 1\<rparr>"

definition demo_run_spec :: tool_spec where
  "demo_run_spec = (write_spec ''run_pwsh'')\<lparr>ts_cancel := True\<rparr>"

definition demo_inner :: "nat tool_state tool_fn" where
  "demo_inner w = (w\<lparr>iw_rest := (iw_rest w)\<lparr>tw_rest := Suc (tw_rest (iw_rest w))\<rparr>\<rparr>, Inr (JObj [(''status'', JStr ''passed'')]))"

definition demo_handler :: "nat tool_handler" where
  "demo_handler = keyed_body demo_tool_env ''f'' ''t'' ''k'' ''run_pwsh'' [(''script_sha256'', JStr ''h'')] demo_inner"

definition demo_first :: "nat tool_world \<times> (tool_exn + json)" where
  "demo_first = run_under_lock demo_tool_env demo_run_spec (demo_tool_call ''r1'') demo_handler \<lparr>pn_workspace = None, pn_lock = None\<rparr> demo_tool_world"


lemma overlapping_retry_spoils_key_witness:
  "(\<exists>r. snd demo_first = Inr r \<and> env_ok r)
   \<and> (\<exists>w4 reply. run_under_lock demo_tool_env demo_run_spec (demo_tool_call ''r2'') demo_handler \<lparr>pn_workspace = None, pn_lock = None\<rparr> (fst demo_first)
        = (w4, Inr reply) \<and> env_code reply = ''IDEMPOTENCY_KEY_MISMATCH''
        \<and> get_idempotent_result ''k'' ''script'' (iw_keys w4) = Some reply)"
proof -
  have ok: "(case snd demo_first of Inl _ \<Rightarrow> False | Inr r \<Rightarrow> env_ok r)" by code_simp
  then obtain r where r: "snd demo_first = Inr r" "env_ok r" by (auto split: sum.splits)
  have b: "tool_begin demo_tool_env demo_run_spec (demo_tool_call ''r1'') demo_tool_world = (demo_tool_world, Inr \<lparr>pn_workspace = None, pn_lock = None\<rparr>)"
    "tool_begin demo_tool_env demo_run_spec (demo_tool_call ''r2'') demo_tool_world = (demo_tool_world, Inr \<lparr>pn_workspace = None, pn_lock = None\<rparr>)"
    by code_simp+
  have k: "call_key (demo_tool_call ''r1'') = Some ''k''" "call_key (demo_tool_call ''r2'') = Some ''k''"
    "call_hash demo_tool_env demo_run_spec (demo_tool_call ''r1'') = Some ''script''"
    "call_hash demo_tool_env demo_run_spec (demo_tool_call ''r2'') = Some ''script''"
    "''script'' \<noteq> input_hash (te_sha demo_tool_env) ''run_pwsh'' [(''script_sha256'', JStr ''h'')]"
    "1 \<le> rt_max_attempts (ts_retry demo_run_spec)"
    by code_simp+
  have d: "\<forall>r. int (length (te_dumps demo_tool_env r)) \<le> ts_max_chars demo_run_spec" by (simp add: demo_tool_env_def demo_run_spec_def write_spec_def)
  have "run_under_lock demo_tool_env demo_run_spec (demo_tool_call ''r1'') demo_handler \<lparr>pn_workspace = None, pn_lock = None\<rparr> demo_tool_world
      = (fst demo_first, Inr r)" using r(1) by (metis demo_first_def prod.collapse)
  from overlapping_retry_spoils_key [OF k b this [unfolded demo_handler_def] d] r show ?thesis
    unfolding demo_handler_def by blast
qed

lemma long_error_reported_ok_witness:
  "env_ok (snd (tool_finish demo_tool_env (demo_run_spec\<lparr>ts_max_chars := 2\<rparr>) ((demo_tool_call ''r1'')\<lparr>tc_key := None\<rparr>) None
     (JObj [(''ok'', JBool False)]) demo_tool_world))"
proof -
  let ?c = "(demo_tool_call ''r1'')\<lparr>tc_key := None\<rparr>" and ?t = "demo_run_spec\<lparr>ts_max_chars := 2\<rparr>"
  obtain d where d: "normalise_result demo_tool_env (tc_request ?c) None (JObj [(''ok'', JBool False)]) = JObj d" "jget d ''ok'' JNull = JBool False"
    by (simp add: normalise_result_def has_field_def jget_def dict_get_def normalise_envelope_fields)
  have "ts_max_chars ?t < int (length (te_dumps demo_tool_env (JObj d)))" by (simp add: demo_tool_env_def)
  moreover have "call_key ?c = None" by code_simp
  moreover have "''op_'' @ tc_operation ?c \<notin> set (map op_id (tw_ops (iw_rest demo_tool_world)))" by (simp add: demo_tool_world_def)
  ultimately show ?thesis using long_error_reported_ok [OF d] by blast
qed

end
