(* ===== verification/Py_Urls.thy ===== *)
theory Py_Urls
  imports Py_Strings
begin

text \<open>
  What the configuration and the supervisor use of \<open>urllib.parse.urlparse\<close>: scheme, host name and port of a URL.  The
  addresses between brackets are not checked further.
\<close>

definition py_isascii_alpha :: "char \<Rightarrow> bool" where
  "py_isascii_alpha c = (let n = char_code c in (65 \<le> n \<and> n \<le> 90) \<or> (97 \<le> n \<and> n \<le> 122))"

definition scheme_char :: "char \<Rightarrow> bool" where
  "scheme_char c = (py_isascii_alpha c \<or> py_isdigit_ascii c \<or> c = CHR ''+'' \<or> c = CHR ''-'' \<or> c = CHR ''.'')"

definition url_clean :: "string \<Rightarrow> string" where
  "url_clean s = filter (\<lambda>c. c \<noteq> tab \<and> c \<noteq> carriage \<and> c \<noteq> newline) (dropWhile (\<lambda>c. char_code c \<le> 32) s)"

text \<open>\<open>s.partition(sep)\<close> and \<open>s.rpartition(sep)\<close> for one character: the parts and whether the separator was found.\<close>

definition py_partition :: "char \<Rightarrow> string \<Rightarrow> string \<times> bool \<times> string" where
  "py_partition c s = (takeWhile (\<lambda>d. d \<noteq> c) s, c \<in> set s, tl (dropWhile (\<lambda>d. d \<noteq> c) s))"

definition after_last :: "char \<Rightarrow> string \<Rightarrow> string" where
  "after_last c s = rev (takeWhile (\<lambda>d. d \<noteq> c) (rev s))"

definition before_last :: "char \<Rightarrow> string \<Rightarrow> string" where
  "before_last c s = rev (tl (dropWhile (\<lambda>d. d \<noteq> c) (rev s)))"

definition url_scheme_rest :: "string \<Rightarrow> string \<times> string" where
  "url_scheme_rest s =
     (case py_partition (CHR '':'') (url_clean s) of (sch, found, rest) \<Rightarrow>
        if found \<and> sch \<noteq> [] \<and> py_isascii_alpha (hd sch) \<and> list_all scheme_char sch then (py_lower sch, rest)
        else ([], url_clean s))"

definition url_netloc :: "string \<Rightarrow> string" where
  "url_netloc s =
     (let rest = snd (url_scheme_rest s)
      in if py_startswith rest ''//'' then takeWhile (\<lambda>c. c \<notin> set ''/?#'') (drop 2 rest) else [])"

record url_parts =
  url_scheme :: string
  url_hostname :: "string option"
  url_port :: "string + int option"

definition url_hostinfo :: "string \<Rightarrow> string \<times> string" where
  "url_hostinfo netloc =
     (let info = after_last (CHR ''@'') netloc
      in case py_partition (CHR ''['') info of (_, found, bracketed) \<Rightarrow>
           if found
           then (fst (py_partition (CHR '']'') bracketed), snd (snd (py_partition (CHR '':'') (snd (snd (py_partition (CHR '']'') bracketed))))))
           else (fst (py_partition (CHR '':'') info), snd (snd (py_partition (CHR '':'') info))))"

definition host_lower :: "string \<Rightarrow> string" where
  "host_lower h = py_lower (takeWhile (\<lambda>c. c \<noteq> CHR ''%'') h) @ dropWhile (\<lambda>c. c \<noteq> CHR ''%'') h"

fun digits_value :: "int \<Rightarrow> string \<Rightarrow> int" where
  "digits_value acc [] = acc"
| "digits_value acc (c # s) = digits_value (10 * acc + (of_char c - 48)) s"

definition port_of :: "string \<Rightarrow> string + int option" where
  "port_of p =
     (if p = [] then Inr None
      else if \<not> list_all py_isdigit_ascii p then Inl (''Port could not be cast to integer value as '' @ py_repr p)
      else if digits_value 0 p > 65535 then Inl ''Port out of range 0-65535''
      else Inr (Some (digits_value 0 p)))"

definition urlparse :: "string \<Rightarrow> string + url_parts" where
  "urlparse s =
     (let netloc = url_netloc s; (host, port) = url_hostinfo netloc
      in if (CHR ''['' \<in> set netloc) \<noteq> (CHR '']'' \<in> set netloc) then Inl ''Invalid IPv6 URL''
         else Inr \<lparr>url_scheme = fst (url_scheme_rest s), url_hostname = (if host = [] then None else Some (host_lower host)),
                   url_port = port_of port\<rparr>)"

lemma digits_value_nonneg: "list_all py_isdigit_ascii s \<Longrightarrow> 0 \<le> acc \<Longrightarrow> 0 \<le> digits_value acc s"
proof (induction s arbitrary: acc)
  case (Cons c s)
  have "(48::nat) \<le> of_char c" using Cons.prems(1) by (simp add: py_isdigit_ascii_def char_code_def)
  then have "(48::int) \<le> of_char c" by (metis of_nat_le_iff of_nat_numeral of_nat_of_char)
  then show ?case using Cons by simp
qed simp

lemma port_of_range: "port_of p = Inr (Some n) \<Longrightarrow> 0 \<le> n \<and> n \<le> 65535"
  using digits_value_nonneg [of p 0] by (auto simp: port_of_def split: if_splits)

end
