(* ===== verification/Operator_Config.thy ===== *)
theory Operator_Config
  imports Json_Values Py_Urls
begin

text \<open>
  The configuration loader of \<open>app/config.py\<close>.  A configuration is the object the YAML parser returned, a dict of JSON
  values; the parser, \<open>float\<close> of a text and \<open>str\<close> of a value that is not a text or an integer are parameters.
\<close>

datatype config_error = File_missing string | Yaml_error string | Attribute_error | Type_error | Value_error string

type_synonym section_values = "(string \<times> json) list"

record config_env =
  cv_float :: "string \<Rightarrow> real option"
  cv_str :: "json \<Rightarrow> string"

subsection \<open>Conversions\<close>

definition config_str :: "config_env \<Rightarrow> json \<Rightarrow> string" where
  "config_str env v = (case v of JStr s \<Rightarrow> s | JInt i \<Rightarrow> py_str_int i | _ \<Rightarrow> cv_str env v)"

text \<open>The digits of \<open>int(s)\<close>: single underscores may stand between digits.\<close>

fun int_digits :: "bool \<Rightarrow> nat \<Rightarrow> string \<Rightarrow> nat option" where
  "int_digits digit acc [] = (if digit then Some acc else None)"
| "int_digits digit acc (c # s) =
     (if py_isdigit_ascii c then int_digits True (10 * acc + (char_code c - 48)) s
      else if c = CHR ''_'' \<and> digit then int_digits False acc s
      else None)"

definition parse_int :: "string \<Rightarrow> int option" where
  "parse_int s =
     (case py_strip s of
        [] \<Rightarrow> None
      | c # t \<Rightarrow>
          if c = CHR ''-'' then map_option (\<lambda>n. - int n) (int_digits False 0 t)
          else if c = CHR ''+'' then map_option int (int_digits False 0 t)
          else map_option int (int_digits False 0 (c # t)))"

definition truncate_real :: "real \<Rightarrow> int" where
  "truncate_real r = (if r < 0 then - \<lfloor>- r\<rfloor> else \<lfloor>r\<rfloor>)"

fun py_int :: "json \<Rightarrow> config_error + int" where
  "py_int (JInt i) = Inr i"
| "py_int (JBool b) = Inr (if b then 1 else 0)"
| "py_int (JFloat r) = Inr (truncate_real r)"
| "py_int (JStr s) =
     (case parse_int s of None \<Rightarrow> Inl (Value_error (''invalid literal for int() with base 10: '' @ py_repr s)) | Some i \<Rightarrow> Inr i)"
| "py_int _ = Inl Type_error"

fun py_float :: "config_env \<Rightarrow> json \<Rightarrow> config_error + real" where
  "py_float env (JInt i) = Inr (of_int i)"
| "py_float env (JBool b) = Inr (if b then 1 else 0)"
| "py_float env (JFloat r) = Inr r"
| "py_float env (JStr s) =
     (case cv_float env s of None \<Rightarrow> Inl (Value_error (''could not convert string to float: '' @ py_repr s)) | Some r \<Rightarrow> Inr r)"
| "py_float env _ = Inl Type_error"

definition item :: "string \<Rightarrow> section_values \<Rightarrow> json" where
  "item key sec = jget sec key JNull"

subsection \<open>Defaults\<close>

definition add_defaults :: "section_values \<Rightarrow> section_values \<Rightarrow> section_values" where
  "add_defaults defs sec = fold (\<lambda>(k, v). set_default k v) defs sec"

text \<open>\<open>cfg.setdefault(name, {})\<close> followed by a method call on the result: only an object has it.\<close>

definition section_of :: "string \<Rightarrow> section_values \<Rightarrow> config_error + section_values" where
  "section_of name cfg = (case map_of cfg name of None \<Rightarrow> Inr [] | Some (JObj s) \<Rightarrow> Inr s | Some _ \<Rightarrow> Inl Attribute_error)"

definition put_section :: "string \<Rightarrow> section_values \<Rightarrow> section_values \<Rightarrow> config_error + section_values" where
  "put_section name defs cfg = obind (section_of name cfg) (\<lambda>s. Inr (AList.update name (JObj (add_defaults defs s)) cfg))"

fun put_sections :: "(string \<times> section_values) list \<Rightarrow> section_values \<Rightarrow> config_error + section_values" where
  "put_sections [] cfg = Inr cfg"
| "put_sections ((name, defs) # rest) cfg = obind (put_section name defs cfg) (put_sections rest)"

definition server_defaults :: section_values where
  "server_defaults = [(''host'', JStr ''127.0.0.1''), (''port'', JInt 8765), (''mcp_path'', JStr ''/mcp'')]"

definition proxy_defaults :: section_values where
  "proxy_defaults = [(''enabled'', JBool True), (''url'', JStr ''http://127.0.0.1:7897''), (''wait_for_proxy_seconds'', JInt 120),
     (''no_proxy'', JArr [JStr ''127.0.0.1'', JStr ''localhost'', JStr ''::1''])]"

definition workspace_defaults :: section_values where
  "workspace_defaults = [(''ttl_hours'', JInt 168), (''max_active_per_project'', JInt 8)]"

definition process_defaults :: section_values where
  "process_defaults = [(''max_running_jobs'', JInt 3), (''max_running_jobs_per_workspace'', JInt 2), (''queue_timeout_seconds'', JFloat 0),
     (''heartbeat_interval_seconds'', JFloat 2), (''default_timeout_seconds'', JInt 600), (''max_timeout_seconds'', JInt 3600),
     (''max_output_chars'', JInt 200000), (''output_tail_chars'', JInt 50000), (''cpu_time_seconds'', JInt 0), (''memory_bytes'', JInt 0),
     (''max_processes'', JInt 0), (''max_output_bytes'', JInt 20971520), (''max_disk_bytes'', JInt 0)]"

definition files_defaults :: section_values where
  "files_defaults = [(''max_read_chars'', JInt 100000), (''deny_paths'', JArr [JStr ''.git'', JStr ''.env'', JStr ''.env.local''])]"

definition artifacts_defaults :: section_values where
  "artifacts_defaults = [(''retention_days'', JInt 7), (''cleanup_on_workspace_discard'', JBool True), (''max_discovery_files'', JInt 100)]"

definition events_defaults :: section_values where
  "events_defaults = [(''enabled'', JBool True), (''retention_days'', JInt 7), (''max_events_per_workspace'', JInt 50000),
     (''max_payload_bytes'', JInt 16384), (''max_page_size'', JInt 500), (''max_wait_seconds'', JFloat 25), (''max_waiters'', JInt 32),
     (''output_coalesce_ms'', JInt 100)]"

definition change_sets_defaults :: section_values where
  "change_sets_defaults = [(''enabled'', JBool True), (''ttl_hours'', JInt 24), (''max_active_per_workspace'', JInt 1), (''max_operations'', JInt 100),
     (''max_changed_files'', JInt 500), (''max_staging_bytes'', JInt 268435456), (''max_patch_chars'', JInt 10000000),
     (''retain_terminal_hours'', JInt 24), (''auto_rollback_on_validation_failure'', JBool False)]"

definition logging_defaults :: section_values where
  "logging_defaults = [(''level'', JStr ''INFO''), (''retention_days'', JInt 14), (''max_file_bytes'', JInt 10485760), (''backup_count'', JInt 5)]"

definition service_defaults :: section_values where
  "service_defaults = [(''task_name'', JStr ''gpt-local-code-operator''), (''tunnel_enabled'', JBool True), (''tunnel_profile'', JStr ''local-code-operator''),
     (''tunnel_health_url'', JStr ''http://127.0.0.1:8080/readyz''), (''poll_interval_seconds'', JFloat 2), (''heartbeat_interval_seconds'', JFloat 5),
     (''startup_timeout_seconds'', JFloat 120), (''shutdown_timeout_seconds'', JFloat 20)]"

definition restart_defaults :: section_values where
  "restart_defaults = [(''initial_delay_seconds'', JFloat 2), (''multiplier'', JFloat 2), (''max_delay_seconds'', JFloat 60), (''stable_reset_seconds'', JFloat 300)]"

definition cleanup_defaults :: section_values where
  "cleanup_defaults = [(''reconcile_on_start'', JBool True), (''report_expired_workspaces'', JBool True), (''auto_discard_clean_expired'', JBool False)]"

definition flat_sections :: "(string \<times> section_values) list" where
  "flat_sections = [(''server'', server_defaults), (''proxy'', proxy_defaults), (''workspace'', workspace_defaults), (''process'', process_defaults),
     (''files'', files_defaults), (''artifacts'', artifacts_defaults), (''events'', events_defaults), (''change_sets'', change_sets_defaults),
     (''logging'', logging_defaults), (''service'', service_defaults)]"

text \<open>The sections of the configuration and then the two nested ones of \<open>service\<close>.\<close>

definition with_defaults :: "section_values \<Rightarrow> config_error + section_values" where
  "with_defaults cfg =
     obind (put_sections flat_sections cfg) (\<lambda>cfg.
     obind (section_of ''service'' cfg) (\<lambda>service.
     obind (put_sections [(''restart'', restart_defaults), (''cleanup'', cleanup_defaults)] service) (\<lambda>service.
     Inr (AList.update ''service'' (JObj service) cfg))))"

subsection \<open>Validation\<close>

definition check :: "string \<Rightarrow> config_error + bool \<Rightarrow> config_error + unit" where
  "check message c = obind c (\<lambda>b. if b then Inr () else Inl (Value_error message))"

fun all_checks :: "(config_error + unit) list \<Rightarrow> config_error + unit" where
  "all_checks [] = Inr ()"
| "all_checks (c # cs) = obind c (\<lambda>_. all_checks cs)"

definition int_item :: "section_values \<Rightarrow> string \<Rightarrow> (int \<Rightarrow> bool) \<Rightarrow> config_error + bool" where
  "int_item sec key p = obind (py_int (item key sec)) (\<lambda>n. Inr (p n))"

definition float_item :: "config_env \<Rightarrow> section_values \<Rightarrow> string \<Rightarrow> (real \<Rightarrow> bool) \<Rightarrow> config_error + bool" where
  "float_item env sec key p = obind (py_float env (item key sec)) (\<lambda>r. Inr (p r))"

definition loopback_hosts :: "string list" where
  "loopback_hosts = [''127.0.0.1'', ''localhost'', ''::1'']"

definition check_server :: "config_env \<Rightarrow> section_values \<Rightarrow> config_error + unit" where
  "check_server env server = all_checks
     [check ''server.host must be a loopback address''
        (Inr (py_lower (py_strip (config_str env (item ''host'' server))) \<in> set loopback_hosts)),
      check ''server.port must be between 1 and 65535'' (int_item server ''port'' (\<lambda>n. 1 \<le> n \<and> n \<le> 65535))]"

definition url_check :: "string \<Rightarrow> (url_parts \<Rightarrow> string + bool) \<Rightarrow> config_error + bool" where
  "url_check url p = (case obind (urlparse url) p of Inl e \<Rightarrow> Inl (Value_error e) | Inr b \<Rightarrow> Inr b)"

definition proxy_url_ok :: "url_parts \<Rightarrow> string + bool" where
  "proxy_url_ok u =
     (if url_scheme u \<notin> {''http'', ''https''} \<or> url_hostname u = None then Inr False
      else obind (url_port u) (\<lambda>p. Inr (p \<noteq> None \<and> p \<noteq> Some 0)))"

definition check_proxy :: "config_env \<Rightarrow> section_values \<Rightarrow> config_error + unit" where
  "check_proxy env proxy =
     (if truthy (jget proxy ''enabled'' (JBool True))
      then check ''proxy.url must be an HTTP(S) URL with an explicit port''
             (url_check (config_str env (jget proxy ''url'' (JStr []))) proxy_url_ok)
      else Inr ())"

definition check_process_limits :: "section_values \<Rightarrow> config_error + unit" where
  "check_process_limits process =
     obind (py_int (item ''max_running_jobs'' process)) (\<lambda>g.
     obind (py_int (item ''max_running_jobs_per_workspace'' process)) (\<lambda>w. all_checks
       [check ''process.max_running_jobs must be at least 1'' (Inr (1 \<le> g)),
        check ''process.max_running_jobs_per_workspace must be between 1 and the global limit'' (Inr (1 \<le> w \<and> w \<le> g))]))"

definition below_default :: "section_values \<Rightarrow> config_error + bool" where
  "below_default process =
     obind (py_int (item ''max_timeout_seconds'' process)) (\<lambda>m.
     obind (py_int (item ''default_timeout_seconds'' process)) (\<lambda>d. Inr (d \<le> m)))"

definition check_process :: "config_env \<Rightarrow> section_values \<Rightarrow> config_error + unit" where
  "check_process env process = all_checks
     ([check_process_limits process,
       check ''process.queue_timeout_seconds must not be negative'' (float_item env process ''queue_timeout_seconds'' (\<lambda>r. 0 \<le> r)),
       check ''process.heartbeat_interval_seconds must be positive'' (float_item env process ''heartbeat_interval_seconds'' (\<lambda>r. 0 < r)),
       check ''process.default_timeout_seconds must be positive'' (int_item process ''default_timeout_seconds'' (\<lambda>n. 0 < n)),
       check ''process.max_timeout_seconds must not be below the default timeout'' (below_default process)]
      @ map (\<lambda>key. check (''process.'' @ key @ '' must be positive'') (int_item process key (\<lambda>n. 0 < n)))
          [''max_output_chars'', ''output_tail_chars'', ''max_output_bytes'']
      @ map (\<lambda>key. check (''process.'' @ key @ '' must not be negative'') (int_item process key (\<lambda>n. 0 \<le> n)))
          [''cpu_time_seconds'', ''memory_bytes'', ''max_processes'', ''max_disk_bytes''])"

definition check_events :: "config_env \<Rightarrow> section_values \<Rightarrow> config_error + unit" where
  "check_events env events = all_checks
     (map (\<lambda>key. check (''events.'' @ key @ '' is below its minimum'')
            (int_item events key (\<lambda>n. (if key = ''retention_days'' then 0 else 1) \<le> n)))
        [''retention_days'', ''max_events_per_workspace'', ''max_payload_bytes'', ''max_page_size'', ''max_waiters'', ''output_coalesce_ms'']
      @ [check ''events.max_wait_seconds must be positive'' (float_item env events ''max_wait_seconds'' (\<lambda>r. 0 < r))])"

definition check_change_sets :: "section_values \<Rightarrow> config_error + unit" where
  "check_change_sets change_sets = all_checks
     (map (\<lambda>key. check (''change_sets.'' @ key @ '' must be positive'') (int_item change_sets key (\<lambda>n. 1 \<le> n)))
        [''ttl_hours'', ''max_active_per_workspace'', ''max_operations'', ''max_changed_files'', ''max_staging_bytes'', ''max_patch_chars'',
         ''retain_terminal_hours''])"

definition health_url_ok :: "bool \<Rightarrow> url_parts \<Rightarrow> string + bool" where
  "health_url_ok enabled u =
     (if \<not> enabled then Inr True
      else if url_scheme u \<noteq> ''http'' \<or> (case url_hostname u of None \<Rightarrow> True | Some h \<Rightarrow> h \<notin> set loopback_hosts) then Inr False
      else obind (url_port u) (\<lambda>p. Inr (p \<noteq> None)))"

definition check_service :: "config_env \<Rightarrow> section_values \<Rightarrow> config_error + unit" where
  "check_service env service =
     (let enabled = truthy (jget service ''tunnel_enabled'' (JBool True))
      in all_checks
        (map (\<lambda>key. check (''service.'' @ key @ '' must be positive'') (float_item env service key (\<lambda>r. 0 < r)))
           [''poll_interval_seconds'', ''heartbeat_interval_seconds'', ''startup_timeout_seconds'', ''shutdown_timeout_seconds'']
         @ [check ''service.tunnel_profile is required when the tunnel is enabled''
              (Inr (enabled \<longrightarrow> py_strip (config_str env (item ''tunnel_profile'' service)) \<noteq> [])),
            check ''service.tunnel_health_url must be an explicit loopback HTTP URL''
              (url_check (config_str env (item ''tunnel_health_url'' service)) (health_url_ok enabled))]))"

definition not_below_initial :: "config_env \<Rightarrow> section_values \<Rightarrow> config_error + bool" where
  "not_below_initial env restart =
     obind (py_float env (item ''max_delay_seconds'' restart)) (\<lambda>m.
     obind (py_float env (item ''initial_delay_seconds'' restart)) (\<lambda>i. Inr (i \<le> m)))"

definition check_restart :: "config_env \<Rightarrow> section_values \<Rightarrow> config_error + unit" where
  "check_restart env restart = all_checks
     (map (\<lambda>key. check (''service.restart.'' @ key @ '' must be positive'') (float_item env restart key (\<lambda>r. 0 < r)))
        [''initial_delay_seconds'', ''multiplier'', ''max_delay_seconds'']
      @ [check ''service.restart.stable_reset_seconds must not be negative'' (float_item env restart ''stable_reset_seconds'' (\<lambda>r. 0 \<le> r)),
         check ''service.restart.max_delay_seconds must not be below the initial delay'' (not_below_initial env restart)])"

fun json_fields :: "json \<Rightarrow> section_values" where
  "json_fields (JObj s) = s"
| "json_fields _ = []"

definition section_values :: "string \<Rightarrow> section_values \<Rightarrow> section_values" where
  "section_values name cfg = json_fields (item name cfg)"

definition validate_config :: "config_env \<Rightarrow> section_values \<Rightarrow> config_error + unit" where
  "validate_config env cfg = all_checks
     [check_server env (section_values ''server'' cfg), check_proxy env (section_values ''proxy'' cfg),
      check_process env (section_values ''process'' cfg), check_events env (section_values ''events'' cfg),
      check_change_sets (section_values ''change_sets'' cfg), check_service env (section_values ''service'' cfg),
      check_restart env (section_values ''restart'' (section_values ''service'' cfg))]"

subsection \<open>Loading\<close>

text \<open>A file that exists has the parse result or the error of the YAML parser.\<close>

type_synonym config_files = "string \<Rightarrow> (string + json) option"

definition load_yaml :: "config_files \<Rightarrow> string \<Rightarrow> config_error + json" where
  "load_yaml files path =
     (case files path of
        None \<Rightarrow> Inl (File_missing (''Configuration file not found: '' @ path))
      | Some (Inl e) \<Rightarrow> Inl (Yaml_error e)
      | Some (Inr v) \<Rightarrow> Inr (if v = JNull then JObj [] else v))"

definition load_operator_config :: "config_env \<Rightarrow> config_files \<Rightarrow> string \<Rightarrow> config_error + section_values" where
  "load_operator_config env files path =
     obind (load_yaml files path) (\<lambda>v. case v of
       JObj cfg \<Rightarrow> obind (with_defaults cfg) (\<lambda>cfg. obind (validate_config env cfg) (\<lambda>_. Inr cfg))
     | _ \<Rightarrow> Inl Attribute_error)"

definition load_projects_config :: "config_files \<Rightarrow> string \<Rightarrow> config_error + json" where
  "load_projects_config files path =
     obind (load_yaml files path) (\<lambda>v. case v of JObj cfg \<Rightarrow> Inr (jget cfg ''projects'' (JObj [])) | _ \<Rightarrow> Inl Attribute_error)"

definition get_project :: "config_files \<Rightarrow> string \<Rightarrow> string \<Rightarrow> config_error + json option" where
  "get_project files path project_id =
     obind (load_projects_config files path) (\<lambda>v. case v of
       JObj projects \<Rightarrow> Inr (case map_of projects project_id of Some p \<Rightarrow> if p = JNull then None else Some p | None \<Rightarrow> None)
     | _ \<Rightarrow> Inl Attribute_error)"

definition get_section :: "config_env \<Rightarrow> config_files \<Rightarrow> string \<Rightarrow> string \<Rightarrow> config_error + section_values" where
  "get_section env files path name = obind (load_operator_config env files path) (\<lambda>cfg. Inr (section_values name cfg))"

definition get_server_bind :: "config_env \<Rightarrow> config_files \<Rightarrow> string \<Rightarrow> config_error + string \<times> int" where
  "get_server_bind env files path =
     obind (get_section env files path ''server'') (\<lambda>server.
     obind (py_int (item ''port'' server)) (\<lambda>port. Inr (config_str env (item ''host'' server), port)))"

definition get_mcp_path :: "config_env \<Rightarrow> config_files \<Rightarrow> string \<Rightarrow> config_error + string" where
  "get_mcp_path env files path = obind (get_section env files path ''server'') (\<lambda>server. Inr (config_str env (item ''mcp_path'' server)))"

definition image_defaults :: section_values where
  "image_defaults = [(''max_file_size_bytes'', JInt 20971520), (''max_pixels'', JInt 50000000), (''max_dimension'', JInt 10000),
     (''max_dimension_high'', JInt 2048), (''supported_formats'', JArr [JStr ''image/png'', JStr ''image/jpeg'', JStr ''image/webp'']),
     (''deny_svg'', JBool True)]"

definition get_image_config :: "config_env \<Rightarrow> config_files \<Rightarrow> string \<Rightarrow> config_error + section_values" where
  "get_image_config env files path =
     obind (load_operator_config env files path) (\<lambda>cfg. obind (put_section ''image'' image_defaults cfg) (\<lambda>cfg. Inr (section_values ''image'' cfg)))"

subsection \<open>Facts\<close>

lemma all_checks_iff: "all_checks cs = Inr () \<longleftrightarrow> list_all (\<lambda>c. c = Inr ()) cs"
  by (induction cs) (auto simp: obind_Inr_iff)

declare all_checks.simps [simp del]

lemma check_iff: "check m c = Inr () \<longleftrightarrow> c = Inr True"
  by (auto simp: check_def obind_Inr_iff split: if_splits)

lemma int_item_iff: "int_item sec key p = Inr True \<longleftrightarrow> (\<exists>n. py_int (item key sec) = Inr n \<and> p n)"
  by (auto simp: int_item_def obind_Inr_iff)

lemma float_item_iff: "float_item env sec key p = Inr True \<longleftrightarrow> (\<exists>r. py_float env (item key sec) = Inr r \<and> p r)"
  by (auto simp: float_item_def obind_Inr_iff)

lemmas check_simps = all_checks_iff check_iff int_item_iff float_item_iff

lemma checked_process_limits:
  assumes "check_process_limits process = Inr ()"
  shows "\<exists>g w. py_int (item ''max_running_jobs'' process) = Inr g \<and> py_int (item ''max_running_jobs_per_workspace'' process) = Inr w
    \<and> 1 \<le> w \<and> w \<le> g"
  using assms by (auto simp: check_process_limits_def obind_Inr_iff check_simps)

lemma checked_timeouts:
  assumes "below_default process = Inr True"
  shows "\<exists>m d. py_int (item ''max_timeout_seconds'' process) = Inr m \<and> py_int (item ''default_timeout_seconds'' process) = Inr d \<and> d \<le> m"
  using assms by (auto simp: below_default_def obind_Inr_iff)

lemma checked_restart:
  assumes "check_restart env restart = Inr ()"
  shows "\<exists>i m u st. py_float env (item ''initial_delay_seconds'' restart) = Inr i \<and> py_float env (item ''max_delay_seconds'' restart) = Inr m
    \<and> py_float env (item ''multiplier'' restart) = Inr u \<and> py_float env (item ''stable_reset_seconds'' restart) = Inr st
    \<and> 0 < i \<and> i \<le> m \<and> 0 < u \<and> 0 \<le> st"
  using assms by (auto simp: check_restart_def check_simps not_below_initial_def obind_Inr_iff)

lemma validated_sections:
  assumes "validate_config env cfg = Inr ()"
  shows "check_process env (section_values ''process'' cfg) = Inr ()" "check_service env (section_values ''service'' cfg) = Inr ()"
    "check_restart env (section_values ''restart'' (section_values ''service'' cfg)) = Inr ()"
    "check_server env (section_values ''server'' cfg) = Inr ()"
  using assms by (simp_all add: validate_config_def all_checks_iff)

lemma loaded:
  assumes "load_operator_config env files path = Inr cfg"
  shows "validate_config env cfg = Inr ()" "\<exists>given. load_yaml files path = Inr (JObj given) \<and> with_defaults given = Inr cfg"
proof -
  obtain v where v: "load_yaml files path = Inr v" using assms by (auto simp: load_operator_config_def obind_Inr_iff)
  then obtain given where "v = JObj given" using assms by (cases v) (simp_all add: load_operator_config_def)
  then show "validate_config env cfg = Inr ()" "\<exists>given. load_yaml files path = Inr (JObj given) \<and> with_defaults given = Inr cfg"
    using assms v by (auto simp: load_operator_config_def obind_Inr_iff)
qed

text \<open>Defaults fill what is missing, keep what is there, and change nothing the second time.\<close>

lemma add_defaults_Cons: "add_defaults ((k, v) # defs) sec = add_defaults defs (set_default k v sec)"
  by (simp add: add_defaults_def)

lemma map_of_add_defaults:
  "map_of (add_defaults defs sec) k = (case map_of sec k of Some v \<Rightarrow> Some v | None \<Rightarrow> map_of defs k)"
proof (induction defs arbitrary: sec)
  case Nil
  then show ?case by (simp add: add_defaults_def split: option.split)
next
  case (Cons p defs)
  obtain k' v where "p = (k', v)" by fastforce
  then show ?case using Cons.IH by (auto simp: add_defaults_Cons map_of_set_default split: option.split)
qed

lemma add_defaults_id: "\<forall>k \<in> fst ` set defs. map_of sec k \<noteq> None \<Longrightarrow> add_defaults defs sec = sec"
proof (induction defs)
  case (Cons p defs)
  then show ?case by (cases p) (auto simp: add_defaults_Cons set_default_def)
qed (simp add: add_defaults_def)

lemma add_defaults_idem: "add_defaults defs (add_defaults defs sec) = add_defaults defs sec"
  by (rule add_defaults_id) (auto simp: map_of_add_defaults weak_map_of_SomeI map_of_eq_None_iff image_iff split: option.split)

lemma update_same: "map_of d k = Some v \<Longrightarrow> AList.update k v d = d"
  by (induction d) (auto split: if_splits)

definition has_section :: "string \<Rightarrow> section_values \<Rightarrow> section_values \<Rightarrow> bool" where
  "has_section name defs cfg \<longleftrightarrow> (\<exists>s. map_of cfg name = Some (JObj s) \<and> add_defaults defs s = s)"

lemma put_section_id: "has_section name defs cfg \<Longrightarrow> put_section name defs cfg = Inr cfg"
  by (auto simp: has_section_def put_section_def section_of_def update_same)

lemma put_section_result:
  assumes "put_section name defs cfg = Inr cfg'"
  shows "has_section name defs cfg'" "\<And>n. n \<noteq> name \<Longrightarrow> map_of cfg' n = map_of cfg n"
    "section_values name cfg' = add_defaults defs (section_values name cfg)"
proof -
  obtain s where s: "section_of name cfg = Inr s" "cfg' = AList.update name (JObj (add_defaults defs s)) cfg"
    using assms by (auto simp: put_section_def obind_Inr_iff)
  then show "has_section name defs cfg'" "\<And>n. n \<noteq> name \<Longrightarrow> map_of cfg' n = map_of cfg n"
    by (auto simp: has_section_def map_of_update_iff add_defaults_idem)
  have "section_values name cfg = s"
    using s(1) by (auto simp: section_of_def section_values_def item_def jget_def dict_get_def split: option.splits json.splits)
  then show "section_values name cfg' = add_defaults defs (section_values name cfg)"
    using s(2) by (simp add: section_values_def item_def jget_def dict_get_def map_of_update_iff)
qed

lemma put_sections_id: "\<forall>(n, defs) \<in> set secs. has_section n defs cfg \<Longrightarrow> put_sections secs cfg = Inr cfg"
proof (induction secs)
  case (Cons p secs)
  then show ?case by (cases p) (simp add: put_section_id)
qed simp

lemma put_sections_result:
  assumes "put_sections secs cfg = Inr cfg'" "distinct (map fst secs)"
  shows "\<forall>(n, defs) \<in> set secs. has_section n defs cfg' \<and> section_values n cfg' = add_defaults defs (section_values n cfg)"
    "\<And>n. n \<notin> fst ` set secs \<Longrightarrow> map_of cfg' n = map_of cfg n"
proof -
  have "(\<forall>(n, defs) \<in> set secs. has_section n defs cfg' \<and> section_values n cfg' = add_defaults defs (section_values n cfg))
    \<and> (\<forall>n. n \<notin> fst ` set secs \<longrightarrow> map_of cfg' n = map_of cfg n)"
    using assms
  proof (induction secs arbitrary: cfg)
    case (Cons p secs)
    obtain n defs where p: "p = (n, defs)" by fastforce
    obtain c where c: "put_section n defs cfg = Inr c" "put_sections secs c = Inr cfg'"
      using Cons.prems(1) by (auto simp: p obind_Inr_iff)
    note r = put_section_result [OF c(1)] and ih = Cons.IH [OF c(2)]
    have n: "n \<notin> fst ` set secs" using Cons.prems(2) by (simp add: p)
    then have "map_of cfg' n = map_of c n" using ih Cons.prems(2) by simp
    then have "has_section n defs cfg'" "section_values n cfg' = section_values n c"
      using r(1) by (simp_all add: has_section_def section_values_def item_def jget_def dict_get_def)
    moreover have "section_values m c = section_values m cfg" if "m \<in> fst ` set secs" for m
      using r(2) [of m] n that by (cases "m = n") (simp_all add: section_values_def item_def jget_def dict_get_def)
    ultimately show ?case using ih r Cons.prems(2) p by (fastforce simp: image_iff)
  qed simp
  then show "\<forall>(n, defs) \<in> set secs. has_section n defs cfg' \<and> section_values n cfg' = add_defaults defs (section_values n cfg)"
    "\<And>n. n \<notin> fst ` set secs \<Longrightarrow> map_of cfg' n = map_of cfg n" by blast+
qed

end
