(* ===== verification/Config_Safety.thy ===== *)
theory Config_Safety
  imports Operator_Config Process_Safety
begin

text \<open>
  What a loaded configuration guarantees, and that the process manager accepts it: the settings
  \<open>ProcessManager.__init__\<close> reads from the process section.
\<close>

subsection \<open>Defaults\<close>

lemma flat_distinct: "distinct (map fst flat_sections)"
  by code_simp

lemma service_flat: "(''service'', service_defaults) \<in> set flat_sections"
  by (simp add: flat_sections_def)

lemma nested_names: "\<forall>k \<in> fst ` set service_defaults. k \<noteq> ''restart'' \<and> k \<noteq> ''cleanup''"
  by (simp add: service_defaults_def)

abbreviation nested_sections :: "(string \<times> section_values) list" where
  "nested_sections \<equiv> [(''restart'', restart_defaults), (''cleanup'', cleanup_defaults)]"

lemma section_of_has: "has_section n defs cfg \<Longrightarrow> section_of n cfg = Inr (section_values n cfg)"
  by (auto simp: has_section_def section_of_def section_values_def item_def jget_def dict_get_def)

lemma with_defaults_steps:
  assumes "with_defaults cfg = Inr cfg'"
  obtains c s where "put_sections flat_sections cfg = Inr c" "put_sections nested_sections (section_values ''service'' c) = Inr s"
    "cfg' = AList.update ''service'' (JObj s) c" "\<forall>(n, defs) \<in> set flat_sections. has_section n defs c"
proof -
  obtain c where c: "put_sections flat_sections cfg = Inr c" using assms by (auto simp: with_defaults_def obind_Inr_iff)
  have has: "\<forall>(n, defs) \<in> set flat_sections. has_section n defs c" using put_sections_result(1) [OF c flat_distinct] by auto
  then have "section_of ''service'' c = Inr (section_values ''service'' c)" using service_flat section_of_has by fast
  then show thesis using assms c has by (auto simp: with_defaults_def obind_Inr_iff simp del: put_sections.simps intro: that)
qed

lemma nested_result:
  assumes "put_sections nested_sections service = Inr s"
  shows "k \<noteq> ''restart'' \<Longrightarrow> k \<noteq> ''cleanup'' \<Longrightarrow> map_of s k = map_of service k"
    "has_section ''restart'' restart_defaults s" "has_section ''cleanup'' cleanup_defaults s"
    "section_values ''restart'' s = add_defaults restart_defaults (section_values ''restart'' service)"
    "section_values ''cleanup'' s = add_defaults cleanup_defaults (section_values ''cleanup'' service)"
proof -
  have d: "distinct (map fst nested_sections)" by simp
  show "k \<noteq> ''restart'' \<Longrightarrow> k \<noteq> ''cleanup'' \<Longrightarrow> map_of s k = map_of service k"
    using put_sections_result(2) [OF assms d, of k] by simp
  show "has_section ''restart'' restart_defaults s" "has_section ''cleanup'' cleanup_defaults s"
    "section_values ''restart'' s = add_defaults restart_defaults (section_values ''restart'' service)"
    "section_values ''cleanup'' s = add_defaults cleanup_defaults (section_values ''cleanup'' service)"
    using put_sections_result(1) [OF assms d] by simp_all
qed

definition given_kept :: "section_values \<Rightarrow> section_values \<Rightarrow> section_values \<Rightarrow> bool" where
  "given_kept defs before after \<longleftrightarrow>
     (\<forall>k. map_of after k = (case map_of before k of Some v \<Rightarrow> Some v | None \<Rightarrow> map_of defs k))"

lemma values_update: "section_values n (AList.update m v c) = (if n = m then json_fields v else section_values n c)"
  by (simp add: section_values_def item_def jget_def dict_get_def map_of_update_iff)

lemma with_defaults_values:
  assumes "with_defaults cfg = Inr cfg'"
  shows "with_defaults cfg' = Inr cfg'"
    "(\<forall>(n, defs) \<in> set flat_sections. n \<noteq> ''service'' \<longrightarrow> given_kept defs (section_values n cfg) (section_values n cfg'))"
    "(\<forall>k. k \<noteq> ''restart'' \<longrightarrow> k \<noteq> ''cleanup'' \<longrightarrow> map_of (section_values ''service'' cfg') k
         = (case map_of (section_values ''service'' cfg) k of Some v \<Rightarrow> Some v | None \<Rightarrow> map_of service_defaults k))"
    "(\<forall>(n, defs) \<in> set nested_sections. given_kept defs (section_values n (section_values ''service'' cfg))
         (section_values n (section_values ''service'' cfg')))"
    "(\<forall>n. n \<notin> fst ` set flat_sections \<longrightarrow> map_of cfg' n = map_of cfg n)"
proof -
  obtain c s where c: "put_sections flat_sections cfg = Inr c" and s: "put_sections nested_sections (section_values ''service'' c) = Inr s"
    and cfg': "cfg' = AList.update ''service'' (JObj s) c" and has: "\<forall>(n, defs) \<in> set flat_sections. has_section n defs c"
    using with_defaults_steps [OF assms] .
  note r = put_sections_result [OF c flat_distinct] and nest = nested_result [OF s]
  let ?sv = "section_values ''service'' c"
  have sv: "?sv = add_defaults service_defaults (section_values ''service'' cfg)" using r(1) service_flat by fast
  have keys: "\<forall>k \<in> fst ` set service_defaults. map_of s k \<noteq> None"
  proof
    fix k assume k: "k \<in> fst ` set service_defaults"
    then have "map_of s k = map_of ?sv k" using nested_names nest(1) by blast
    then show "map_of s k \<noteq> None" using k sv by (auto simp: map_of_add_defaults weak_map_of_SomeI map_of_eq_None_iff image_iff split: option.split)
  qed
  have self: "json_fields (JObj s) = s" by simp
  have service: "has_section ''service'' service_defaults cfg'"
    using add_defaults_id [OF keys] by (auto simp: has_section_def cfg' map_of_update_iff)
  have flat: "\<forall>(n, defs) \<in> set flat_sections. has_section n defs cfg'"
  proof clarify
    fix n defs assume n: "(n, defs) \<in> set flat_sections"
    show "has_section n defs cfg'"
    proof (cases "n = ''service''")
      case True
      then have "defs = service_defaults" using n service_flat flat_distinct by (metis map_of_eq_Some_iff option.inject)
      then show ?thesis using True service by simp
    next
      case False
      then show ?thesis using has n by (auto simp: has_section_def cfg' map_of_update_iff)
    qed
  qed
  have "section_of ''service'' cfg' = Inr s" by (simp add: section_of_def cfg' map_of_update_iff)
  moreover have "put_sections nested_sections s = Inr s" by (rule put_sections_id) (use nest(2,3) in simp)
  moreover have "AList.update ''service'' (JObj s) cfg' = cfg'" by (rule update_same) (simp add: cfg' map_of_update_iff)
  ultimately have "with_defaults cfg' = Inr cfg'"
    using put_sections_id [OF flat] by (simp add: with_defaults_def del: put_sections.simps)
  moreover have "\<forall>(n, defs) \<in> set flat_sections. n \<noteq> ''service'' \<longrightarrow> given_kept defs (section_values n cfg) (section_values n cfg')"
    using r(1) by (auto simp: given_kept_def cfg' values_update map_of_add_defaults)
  moreover have "\<forall>k. k \<noteq> ''restart'' \<longrightarrow> k \<noteq> ''cleanup'' \<longrightarrow> map_of (section_values ''service'' cfg') k
         = (case map_of (section_values ''service'' cfg) k of Some v \<Rightarrow> Some v | None \<Rightarrow> map_of service_defaults k)"
    using nest(1) sv by (simp add: cfg' values_update map_of_add_defaults)
  moreover have "\<forall>(n, defs) \<in> set nested_sections. given_kept defs (section_values n (section_values ''service'' cfg))
         (section_values n (section_values ''service'' cfg'))"
  proof -
    have "section_values n ?sv = section_values n (section_values ''service'' cfg)" if "n \<in> {''restart'', ''cleanup''}" for n
    proof -
      have "map_of service_defaults n = None" using that nested_names by (metis empty_iff insert_iff map_of_eq_None_iff)
      then have "map_of ?sv n = map_of (section_values ''service'' cfg) n" by (simp add: sv map_of_add_defaults split: option.split)
      then show ?thesis by (simp only: section_values_def item_def jget_def dict_get_def)
    qed
    then show ?thesis using nest(4,5) by (simp add: given_kept_def cfg' values_update map_of_add_defaults)
  qed
  moreover have "\<forall>n. n \<notin> fst ` set flat_sections \<longrightarrow> map_of cfg' n = map_of cfg n"
    using r(2) service_flat by (force simp: cfg' map_of_update_iff)
  ultimately show "with_defaults cfg' = Inr cfg'"
    "(\<forall>(n, defs) \<in> set flat_sections. n \<noteq> ''service'' \<longrightarrow> given_kept defs (section_values n cfg) (section_values n cfg'))"
    "(\<forall>k. k \<noteq> ''restart'' \<longrightarrow> k \<noteq> ''cleanup'' \<longrightarrow> map_of (section_values ''service'' cfg') k
         = (case map_of (section_values ''service'' cfg) k of Some v \<Rightarrow> Some v | None \<Rightarrow> map_of service_defaults k))"
    "(\<forall>(n, defs) \<in> set nested_sections. given_kept defs (section_values n (section_values ''service'' cfg))
         (section_values n (section_values ''service'' cfg')))"
    "(\<forall>n. n \<notin> fst ` set flat_sections \<longrightarrow> map_of cfg' n = map_of cfg n)" by blast+
qed

text \<open>
  Defaults of the configuration: completing a configuration twice is completing it once, every section has the given values and the
  defaults for the rest (in \<open>service\<close> the two nested sections are completed in the same way), and unknown sections
  stay as they were.
\<close>
lemma config_defaults:
  assumes "with_defaults cfg = Inr cfg'"
  shows "with_defaults cfg' = Inr cfg'
    \<and> (\<forall>(n, defs) \<in> set flat_sections. n \<noteq> ''service'' \<longrightarrow> given_kept defs (section_values n cfg) (section_values n cfg'))
    \<and> (\<forall>k. k \<noteq> ''restart'' \<longrightarrow> k \<noteq> ''cleanup'' \<longrightarrow> map_of (section_values ''service'' cfg') k
         = (case map_of (section_values ''service'' cfg) k of Some v \<Rightarrow> Some v | None \<Rightarrow> map_of service_defaults k))
    \<and> (\<forall>(n, defs) \<in> set nested_sections. given_kept defs (section_values n (section_values ''service'' cfg))
         (section_values n (section_values ''service'' cfg')))
    \<and> (\<forall>n. n \<notin> fst ` set flat_sections \<longrightarrow> map_of cfg' n = map_of cfg n)"
  using with_defaults_values [OF assms] by blast

subsection \<open>The settings of the process manager\<close>

definition get_int :: "string \<Rightarrow> section_values \<Rightarrow> config_error + int option" where
  "get_int key sec = (case map_of sec key of None \<Rightarrow> Inr None | Some v \<Rightarrow> obind (py_int v) (\<lambda>n. Inr (Some n)))"

definition get_float :: "config_env \<Rightarrow> string \<Rightarrow> section_values \<Rightarrow> config_error + real option" where
  "get_float env key sec = (case map_of sec key of None \<Rightarrow> Inr None | Some v \<Rightarrow> obind (py_float env v) (\<lambda>r. Inr (Some r)))"

text \<open>The argument of \<open>_optional_positive_int\<close>: absent for \<open>None\<close> and the empty text.\<close>

definition optional_int :: "json \<Rightarrow> config_error + int option" where
  "optional_int v = (if v = JNull \<or> v = JStr [] then Inr None else obind (py_int v) (\<lambda>n. Inr (Some n)))"

definition process_settings :: "config_env \<Rightarrow> section_values \<Rightarrow> config_error + manager_settings" where
  "process_settings env cfg =
     obind (get_int ''max_running_jobs'' cfg) (\<lambda>max_running.
     obind (get_int ''max_output_chars'' cfg) (\<lambda>chars.
     obind (get_int ''default_timeout_seconds'' cfg) (\<lambda>default_timeout.
     obind (get_int ''max_timeout_seconds'' cfg) (\<lambda>max_timeout.
     obind (get_int ''max_running_jobs_per_workspace'' cfg) (\<lambda>per_workspace.
     obind (get_float env ''queue_timeout_seconds'' cfg) (\<lambda>queue_timeout.
     obind (get_float env ''heartbeat_interval_seconds'' cfg) (\<lambda>heartbeat.
     obind (optional_int (item ''cpu_time_seconds'' cfg)) (\<lambda>cpu.
     obind (optional_int (item ''memory_bytes'' cfg)) (\<lambda>memory.
     obind (optional_int (item ''max_processes'' cfg)) (\<lambda>processes.
     obind (case map_of cfg ''max_output_bytes'' of None \<Rightarrow> Inr None | Some v \<Rightarrow> obind (optional_int v) (\<lambda>n. Inr (Some n))) (\<lambda>bytes.
     obind (optional_int (item ''max_disk_bytes'' cfg)) (\<lambda>disk.
     Inr \<lparr>ms_max_running = max_running, ms_per_workspace = per_workspace, ms_max_output_chars = chars, ms_default_timeout = default_timeout,
          ms_max_timeout = max_timeout, ms_queue_timeout = queue_timeout, ms_heartbeat = heartbeat,
          ms_register_artifacts = map_option truthy (map_of cfg ''register_artifacts''), ms_cpu_time = cpu, ms_memory = memory,
          ms_max_processes = processes, ms_max_output_bytes = bytes, ms_max_disk = disk\<rparr>))))))))))))"

lemma get_int_item: "py_int (item key cfg) = Inr n \<Longrightarrow> get_int key cfg = Inr (Some n)"
  by (auto simp: get_int_def item_def jget_def dict_get_def split: option.splits)

lemma get_float_item: "py_float env (item key cfg) = Inr n \<Longrightarrow> get_float env key cfg = Inr (Some n)"
  by (auto simp: get_float_def item_def jget_def dict_get_def split: option.splits)

lemma optional_int_item: "py_int v = Inr n \<Longrightarrow> \<exists>m. optional_int v = Inr m"
  by (auto simp: optional_int_def)

lemma parse_int_Nil: "py_int (JStr []) \<noteq> Inr n"
  by (simp add: parse_int_def)

text \<open>
  A configuration that was loaded creates a process manager: the settings convert, the scheduler policy and the resource limits accept
  them, no setting is silently clamped, and the limits and timeouts of the manager are the ones of the file, positive and in order.
\<close>
lemma config_creates_manager:
  assumes "load_operator_config env files path = Inr cfg"
  shows "\<exists>ms cf s. process_settings env (section_values ''process'' cfg) = Inr ms \<and> new_manager ms events db ops = Inr (cf, s)
    \<and> py_int (item ''max_running_jobs'' (section_values ''process'' cfg)) = Inr (mc_max_running cf)
    \<and> py_int (item ''max_running_jobs_per_workspace'' (section_values ''process'' cfg)) = Inr (mc_per_workspace cf)
    \<and> 1 \<le> mc_per_workspace cf \<and> mc_per_workspace cf \<le> mc_max_running cf \<and> 0 < mc_max_output cf
    \<and> 0 < mc_default_timeout cf \<and> mc_default_timeout cf \<le> mc_max_timeout cf \<and> 0 \<le> mc_queue_timeout cf \<and> 0 < mc_heartbeat cf"
proof -
  let ?p = "section_values ''process'' cfg"
  have checks: "check_process env ?p = Inr ()" using validated_sections(1) loaded(1) [OF assms] .
  obtain g w where gw: "py_int (item ''max_running_jobs'' ?p) = Inr g" "py_int (item ''max_running_jobs_per_workspace'' ?p) = Inr w"
    "1 \<le> w" "w \<le> g"
    using checked_process_limits [of ?p] checks by (auto simp: check_process_def all_checks_iff)
  obtain m d where md: "py_int (item ''max_timeout_seconds'' ?p) = Inr m" "py_int (item ''default_timeout_seconds'' ?p) = Inr d" "d \<le> m"
    using checked_timeouts [of ?p] checks by (auto simp: check_process_def check_simps)
  obtain q h c where q: "py_float env (item ''queue_timeout_seconds'' ?p) = Inr q" "0 \<le> q"
    and h: "py_float env (item ''heartbeat_interval_seconds'' ?p) = Inr h" "0 < h"
    and c: "py_int (item ''max_output_chars'' ?p) = Inr c" "0 < c" and d: "0 < d"
    using checks md(2) by (auto simp: check_process_def check_simps)
  obtain n1 n2 n3 n4 n5 where n: "py_int (item ''max_output_bytes'' ?p) = Inr n1" "py_int (item ''cpu_time_seconds'' ?p) = Inr n2"
    "py_int (item ''memory_bytes'' ?p) = Inr n3" "py_int (item ''max_processes'' ?p) = Inr n4" "py_int (item ''max_disk_bytes'' ?p) = Inr n5"
    using checks by (auto simp: check_process_def check_simps)
  obtain o2 o3 o4 o5 where opts: "optional_int (item ''cpu_time_seconds'' ?p) = Inr o2" "optional_int (item ''memory_bytes'' ?p) = Inr o3"
    "optional_int (item ''max_processes'' ?p) = Inr o4" "optional_int (item ''max_disk_bytes'' ?p) = Inr o5"
    using n(2-5) [THEN optional_int_item] by blast
  obtain o1 where bytes: "(case map_of ?p ''max_output_bytes'' of None \<Rightarrow> Inr None | Some v \<Rightarrow> obind (optional_int v) (\<lambda>n. Inr (Some n))) = Inr o1"
    using n(1) optional_int_item by (fastforce simp: item_def jget_def dict_get_def split: option.splits)
  let ?ms = "\<lparr>ms_max_running = Some g, ms_per_workspace = Some w, ms_max_output_chars = Some c, ms_default_timeout = Some d,
          ms_max_timeout = Some m, ms_queue_timeout = Some q, ms_heartbeat = Some h,
          ms_register_artifacts = map_option truthy (map_of ?p ''register_artifacts''), ms_cpu_time = o2, ms_memory = o3,
          ms_max_processes = o4, ms_max_output_bytes = o1, ms_max_disk = o5\<rparr>"
  have ms: "process_settings env ?p = Inr ?ms"
    unfolding process_settings_def get_int_item [OF gw(1)] get_int_item [OF gw(2)] get_int_item [OF md(1)] get_int_item [OF md(2)]
      get_int_item [OF c(1)] get_float_item [OF q(1)] get_float_item [OF h(1)] opts bytes
    by simp
  have g: "1 \<le> g" using gw by simp
  then obtain cf s where new: "new_manager ?ms events db ops = Inr (cf, s)"
    using manager_settings_accepted [of ?ms events db ops] q(2)
    by (cases "new_manager ?ms events db ops") (auto simp: cfg_get_def)
  then have "mc_max_running cf = g \<and> mc_per_workspace cf = w \<and> mc_max_output cf = c \<and> mc_default_timeout cf = d \<and> mc_max_timeout cf = m
      \<and> mc_queue_timeout cf = q \<and> 0 < mc_heartbeat cf"
    using gw(3,4) by (auto simp: new_manager_def obind_Inr_iff check_policy_def manager_policy_def cfg_get_def Let_def split: if_splits)
  then show ?thesis using ms new gw c(2) d md(3) q(2) by (intro exI conjI) auto
qed

subsection \<open>A file with one setting\<close>

definition demo_config_env :: config_env where
  "demo_config_env = \<lparr>cv_float = (\<lambda>_. None), cv_str = (\<lambda>_. [])\<rparr>"

definition demo_given :: section_values where
  "demo_given = [(''process'', JObj [(''max_running_jobs'', JInt 4)])]"

definition demo_files :: config_files where
  "demo_files path = (if path = ''operator.yaml'' then Some (Inr (JObj demo_given)) else None)"

lemma put_sections_ok:
  assumes "distinct (map fst secs)" "\<forall>n \<in> fst ` set secs. is_ok (section_of n cfg)"
  shows "\<exists>cfg'. put_sections secs cfg = Inr cfg'"
  using assms
proof (induction secs arbitrary: cfg)
  case (Cons p secs)
  obtain n defs where p: "p = (n, defs)" by fastforce
  obtain s where s: "section_of n cfg = Inr s" using Cons.prems(2) by (cases "section_of n cfg") (auto simp: p)
  let ?c = "AList.update n (JObj (add_defaults defs s)) cfg"
  have "section_of m ?c = section_of m cfg" if "m \<in> fst ` set secs" for m
    using that Cons.prems(1) p by (auto simp: section_of_def map_of_update_iff)
  then have "\<exists>cfg'. put_sections secs ?c = Inr cfg'" using Cons.IH [of ?c] Cons.prems by simp
  then show ?case by (simp add: p put_section_def s)
qed simp

lemma with_defaults_ok:
  assumes "\<forall>n \<in> fst ` set flat_sections. is_ok (section_of n cfg)"
    and "is_ok (section_of ''restart'' (section_values ''service'' cfg))" "is_ok (section_of ''cleanup'' (section_values ''service'' cfg))"
  shows "\<exists>cfg'. with_defaults cfg = Inr cfg'"
proof -
  obtain c where c: "put_sections flat_sections cfg = Inr c" using put_sections_ok [OF flat_distinct] assms(1) by blast
  have r: "has_section ''service'' service_defaults c" "section_values ''service'' c = add_defaults service_defaults (section_values ''service'' cfg)"
    using put_sections_result(1) [OF c flat_distinct] service_flat by fast+
  have "section_of k (section_values ''service'' c) = section_of k (section_values ''service'' cfg)" if "k \<in> {''restart'', ''cleanup''}" for k
  proof -
    have "map_of service_defaults k = None" using that nested_names by (metis empty_iff insert_iff map_of_eq_None_iff)
    then show ?thesis by (simp add: r(2) section_of_def map_of_add_defaults split: option.split)
  qed
  then have "\<exists>s. put_sections nested_sections (section_values ''service'' c) = Inr s" using assms(2,3) by (intro put_sections_ok) simp_all
  then show ?thesis using c section_of_has [OF r(1)] by (auto simp: with_defaults_def simp del: put_sections.simps)
qed

definition demo_config :: section_values where
  "demo_config = (case with_defaults demo_given of Inl _ \<Rightarrow> [] | Inr cfg \<Rightarrow> cfg)"

lemma demo_defaults: "with_defaults demo_given = Inr demo_config"
proof -
  have "\<exists>cfg. with_defaults demo_given = Inr cfg"
    by (rule with_defaults_ok) (simp_all add: demo_given_def section_of_def section_values_def item_def)
  then show ?thesis by (auto simp: demo_config_def)
qed

lemma demo_item:
  assumes "(n, defs) \<in> set flat_sections" "n \<noteq> ''service''"
  shows "item k (section_values n demo_config) = (if n = ''process'' \<and> k = ''max_running_jobs'' then JInt 4 else item k defs)"
proof -
  have "given_kept defs (section_values n demo_given) (section_values n demo_config)"
    using with_defaults_values(2) [OF demo_defaults] assms by fast
  then show ?thesis
    by (simp add: given_kept_def item_def jget_def dict_get_def demo_given_def section_values_def split: option.split)
qed

lemma demo_service_item:
  "k \<noteq> ''restart'' \<Longrightarrow> k \<noteq> ''cleanup'' \<Longrightarrow> item k (section_values ''service'' demo_config) = item k service_defaults"
  "item k (section_values ''restart'' (section_values ''service'' demo_config)) = item k restart_defaults"
  using with_defaults_values(3,4) [OF demo_defaults]
  by (simp_all add: given_kept_def item_def jget_def dict_get_def demo_given_def section_values_def split: option.split)

lemma jget_demo:
  "jget (section_values ''proxy'' demo_config) ''enabled'' d = JBool True"
  "jget (section_values ''proxy'' demo_config) ''url'' d = JStr ''http://127.0.0.1:7897''"
  "jget (section_values ''service'' demo_config) ''tunnel_enabled'' d = JBool True"
  using with_defaults_values(2,3) [OF demo_defaults]
  by (simp_all add: flat_sections_def given_kept_def jget_def dict_get_def demo_given_def section_values_def item_def proxy_defaults_def service_defaults_def)

lemma demo_valid: "validate_config demo_config_env demo_config = Inr ()"
proof -
  have vals: "py_lower (py_strip ''127.0.0.1'') = ''127.0.0.1''" "url_check ''http://127.0.0.1:7897'' proxy_url_ok = Inr True"
    "py_strip ''local-code-operator'' \<noteq> []" "url_check ''http://127.0.0.1:8080/readyz'' (health_url_ok True) = Inr True"
    by code_simp+
  note flat_sections_def [simp] item_def [simp]
  have "check_server demo_config_env (section_values ''server'' demo_config) = Inr ()"
    by (simp add: check_server_def check_simps demo_item [where defs = server_defaults, unfolded item_def] server_defaults_def config_str_def loopback_hosts_def vals)
  moreover have "check_proxy demo_config_env (section_values ''proxy'' demo_config) = Inr ()"
    by (simp add: check_proxy_def check_simps demo_item [where defs = proxy_defaults, unfolded item_def] jget_demo proxy_defaults_def config_str_def vals)
  moreover have "check_process demo_config_env (section_values ''process'' demo_config) = Inr ()"
    by (simp add: check_process_def check_process_limits_def below_default_def check_simps demo_item [where defs = process_defaults, unfolded item_def] process_defaults_def)
  moreover have "check_events demo_config_env (section_values ''events'' demo_config) = Inr ()"
    by (simp add: check_events_def check_simps demo_item [where defs = events_defaults, unfolded item_def] events_defaults_def)
  moreover have "check_change_sets (section_values ''change_sets'' demo_config) = Inr ()"
    by (simp add: check_change_sets_def check_simps demo_item [where defs = change_sets_defaults, unfolded item_def] change_sets_defaults_def)
  moreover have "check_service demo_config_env (section_values ''service'' demo_config) = Inr ()"
    by (simp add: check_service_def check_simps demo_service_item [unfolded item_def] jget_demo service_defaults_def config_str_def Let_def vals)
  moreover have "check_restart demo_config_env (section_values ''restart'' (section_values ''service'' demo_config)) = Inr ()"
    by (simp add: check_restart_def not_below_initial_def check_simps demo_service_item [unfolded item_def] restart_defaults_def)
  ultimately show ?thesis by (simp add: validate_config_def all_checks_iff del: item_def)
qed

lemma demo_loaded: "load_operator_config demo_config_env demo_files ''operator.yaml'' = Inr demo_config"
  using demo_valid demo_defaults by (simp add: load_operator_config_def load_yaml_def demo_files_def)

lemma config_defaults_witness:
  "with_defaults demo_config = Inr demo_config \<and> given_kept process_defaults [(''max_running_jobs'', JInt 4)] (section_values ''process'' demo_config)"
proof -
  have "section_values ''process'' demo_given = [(''max_running_jobs'', JInt 4)]" by (simp add: demo_given_def section_values_def item_def)
  then show ?thesis using config_defaults [OF demo_defaults] by (simp add: flat_sections_def)
qed

lemma config_creates_manager_witness:
  "\<exists>ms cf s. process_settings demo_config_env (section_values ''process'' demo_config) = Inr ms
     \<and> new_manager ms True demo_db [] = Inr (cf, s) \<and> mc_max_running cf = 4 \<and> mc_per_workspace cf = 2"
proof -
  have "item ''max_running_jobs'' (section_values ''process'' demo_config) = JInt 4"
    "item ''max_running_jobs_per_workspace'' (section_values ''process'' demo_config) = JInt 2"
    using demo_item [where n = "''process''" and defs = process_defaults] by (simp_all add: flat_sections_def process_defaults_def item_def)
  then show ?thesis using config_creates_manager [OF demo_loaded, of True demo_db "[]"] by auto
qed

end
