(* ===== verification/Supervisor.thy ===== *)
theory Supervisor
  imports Operator_Config
begin

text \<open>
  The supervisor of \<open>app/services/supervisor.py\<close>: the life cycle of its two children (the MCP server and the tunnel), one
  monitoring tick, the status document, and the main loop.  What the operating system, the network and the clock answer is an
  argument of the step that asks.  An action maps the supervisor to a new state and either an exception that leaves the step (a text) or a
  result.
\<close>

subsection \<open>Settings and state\<close>

record sup_settings =
  st_poll :: real
  st_heartbeat :: real
  st_startup :: real
  st_initial :: real
  st_multiplier :: real
  st_max_delay :: real
  st_stable :: real
  st_tunnel_enabled :: bool
  st_host :: string
  st_port :: int
  st_mcp_path :: string
  st_proxy_enabled :: bool
  st_proxy_url :: string

definition sup_settings_of :: "config_env \<Rightarrow> section_values \<Rightarrow> config_error + sup_settings" where
  "sup_settings_of env cfg =
     (let service = section_values ''service'' cfg; restart = section_values ''restart'' service; server = section_values ''server'' cfg;
          proxy = section_values ''proxy'' cfg
      in obind (py_float env (item ''poll_interval_seconds'' service)) (\<lambda>poll.
         obind (py_float env (item ''heartbeat_interval_seconds'' service)) (\<lambda>heartbeat.
         obind (py_float env (item ''startup_timeout_seconds'' service)) (\<lambda>startup.
         obind (py_float env (item ''initial_delay_seconds'' restart)) (\<lambda>initial.
         obind (py_float env (item ''multiplier'' restart)) (\<lambda>multiplier.
         obind (py_float env (item ''max_delay_seconds'' restart)) (\<lambda>max_delay.
         obind (py_float env (item ''stable_reset_seconds'' restart)) (\<lambda>stable.
         obind (py_int (item ''port'' server)) (\<lambda>port.
         Inr \<lparr>st_poll = poll, st_heartbeat = heartbeat, st_startup = startup, st_initial = initial, st_multiplier = multiplier,
              st_max_delay = max_delay, st_stable = stable, st_tunnel_enabled = truthy (jget service ''tunnel_enabled'' (JBool True)),
              st_host = config_str env (item ''host'' server), st_port = port, st_mcp_path = config_str env (item ''mcp_path'' server),
              st_proxy_enabled = truthy (jget proxy ''enabled'' (JBool True)), st_proxy_url = config_str env (jget proxy ''url'' (JStr []))\<rparr>)))))))))"

record child =
  ch_name :: string
  ch_process :: "nat option"
  ch_state :: string
  ch_started :: "real option"
  ch_unhealthy :: "real option"
  ch_next :: real
  ch_failures :: nat
  ch_restarts :: nat
  ch_starts :: nat
  ch_exit :: "int option"
  ch_error :: "string option"
  ch_identity :: "string option"

definition new_child :: "string \<Rightarrow> child" where
  "new_child name =
     \<lparr>ch_name = name, ch_process = None, ch_state = ''stopped'', ch_started = None, ch_unhealthy = None, ch_next = 0, ch_failures = 0,
      ch_restarts = 0, ch_starts = 0, ch_exit = None, ch_error = None, ch_identity = None\<rparr>"

text \<open>The events the supervisor logs.\<close>

datatype sup_event =
    Log_duplicate_start
  | Log_supervisor_started
  | Log_stop_requested
  | Log_supervisor_stopped
  | Log_supervisor_failed string
  | Log_child_start_failed string string
  | Log_child_started string nat nat
  | Log_child_exited string int
  | Log_child_backoff string real nat
  | Log_child_stopped string
  | Log_mcp_timeout
  | Log_tunnel_timeout
  | Log_dependency_lost
  | Log_doctor_error string
  | Log_doctor_failed int

record supervisor =
  su_mcp :: child
  su_tunnel :: child
  su_shutdown :: bool
  su_top :: string
  su_heartbeat :: real
  su_recovery :: json
  su_stop_request :: bool
  su_locked :: bool
  su_status :: "json option"
  su_log :: "sup_event list"

definition new_supervisor :: supervisor where
  "new_supervisor =
     \<lparr>su_mcp = new_child ''mcp'', su_tunnel = new_child ''tunnel'', su_shutdown = False, su_top = ''starting'', su_heartbeat = 0,
      su_recovery = JObj [], su_stop_request = False, su_locked = False, su_status = None, su_log = []\<rparr>"

datatype which_child = The_mcp | The_tunnel

fun get_child :: "which_child \<Rightarrow> supervisor \<Rightarrow> child" where
  "get_child The_mcp s = su_mcp s"
| "get_child The_tunnel s = su_tunnel s"

fun on_child :: "which_child \<Rightarrow> (child \<Rightarrow> child) \<Rightarrow> supervisor \<Rightarrow> supervisor" where
  "on_child The_mcp f s = s\<lparr>su_mcp := f (su_mcp s)\<rparr>"
| "on_child The_tunnel f s = s\<lparr>su_tunnel := f (su_tunnel s)\<rparr>"

definition logged :: "sup_event \<Rightarrow> supervisor \<Rightarrow> supervisor" where
  "logged e s = s\<lparr>su_log := su_log s @ [e]\<rparr>"

definition sup_bind :: "supervisor \<times> (string + 'a) \<Rightarrow> ('a \<Rightarrow> supervisor \<Rightarrow> supervisor \<times> (string + 'b)) \<Rightarrow> supervisor \<times> (string + 'b)" where
  "sup_bind m f = (case m of (s, Inl e) \<Rightarrow> (s, Inl e) | (s, Inr x) \<Rightarrow> f x s)"

subsection \<open>The life cycle of a child\<close>

text \<open>
  The delay before the next start.  Python's \<open>**\<close> on floats raises \<open>OverflowError\<close> when the power is out of range; the
  rounding of floats is left out.
\<close>

definition restart_delay :: "sup_settings \<Rightarrow> nat \<Rightarrow> string + real" where
  "restart_delay st failures =
     (let power = st_multiplier st ^ (failures - 1)
      in if power \<ge> 2 ^ 1024 then Inl ''(34, 'Numerical result out of range')''
         else Inr (min (st_initial st * power) (st_max_delay st)))"

definition schedule_restart :: "sup_settings \<Rightarrow> which_child \<Rightarrow> real \<Rightarrow> supervisor \<Rightarrow> supervisor \<times> (string + unit)" where
  "schedule_restart st w now s =
     (let s = on_child w (\<lambda>c. c\<lparr>ch_failures := ch_failures c + 1\<rparr>) s; c = get_child w s
      in case restart_delay st (ch_failures c) of
           Inl e \<Rightarrow> (s, Inl e)
         | Inr delay \<Rightarrow>
             (logged (Log_child_backoff (ch_name c) delay (ch_failures c))
               (on_child w (\<lambda>c. c\<lparr>ch_next := now + delay, ch_state := ''backoff''\<rparr>) s), Inr ()))"

text \<open>What \<open>subprocess.Popen\<close> does, with the clock after it, and the creation identity of the new process.\<close>

datatype start_answer = Start_error string real | Started nat real "string option"

definition start_child :: "sup_settings \<Rightarrow> which_child \<Rightarrow> start_answer \<Rightarrow> supervisor \<Rightarrow> supervisor \<times> (string + unit)" where
  "start_child st w a s =
     (case a of
        Start_error e clock \<Rightarrow>
          schedule_restart st w clock
            (logged (Log_child_start_failed (ch_name (get_child w s)) e)
              (on_child w (\<lambda>c. c\<lparr>ch_error := Some (''could not start: '' @ e), ch_state := ''failed''\<rparr>) s))
      | Started pid clock identity \<Rightarrow>
          (let s = on_child w (\<lambda>c. c\<lparr>ch_process := Some pid, ch_started := Some clock, ch_unhealthy := Some clock, ch_starts := ch_starts c + 1,
                     ch_restarts := (if ch_starts c + 1 > 1 then ch_restarts c + 1 else ch_restarts c), ch_state := ''starting'',
                     ch_identity := identity, ch_error := None\<rparr>) s
           in (logged (Log_child_started (ch_name (get_child w s)) pid (ch_starts (get_child w s))) s, Inr ())))"

definition observe_exit :: "sup_settings \<Rightarrow> which_child \<Rightarrow> real \<Rightarrow> int option \<Rightarrow> supervisor \<Rightarrow> supervisor \<times> (string + unit)" where
  "observe_exit st w now polled s =
     (case (ch_process (get_child w s), polled) of
        (Some _, Some code) \<Rightarrow>
          (let s = logged (Log_child_exited (ch_name (get_child w s)) code)
                 (on_child w (\<lambda>c. c\<lparr>ch_exit := Some code, ch_error := Some (''exited with code '' @ py_str_int code), ch_process := None,
                    ch_identity := None, ch_unhealthy := None\<rparr>) s)
           in if su_shutdown s then (s, Inr ()) else schedule_restart st w now s)
      | _ \<Rightarrow> (s, Inr ()))"

definition reset_failures_if_stable :: "sup_settings \<Rightarrow> which_child \<Rightarrow> real \<Rightarrow> supervisor \<Rightarrow> supervisor" where
  "reset_failures_if_stable st w now s =
     (case ch_started (get_child w s) of
        None \<Rightarrow> s
      | Some t \<Rightarrow> if now - t \<ge> st_stable st then on_child w (\<lambda>c. c\<lparr>ch_failures := 0\<rparr>) s else s)"

text \<open>
  Stopping: terminate, wait, terminate the tree when that fails, wait again; the argument is the last \<open>poll\<close>, whose answer
  may be that the process still runs.
\<close>

definition stop_child :: "which_child \<Rightarrow> int option \<Rightarrow> supervisor \<Rightarrow> supervisor" where
  "stop_child w polled s =
     (case ch_process (get_child w s) of
        None \<Rightarrow> s
      | Some _ \<Rightarrow>
          logged (Log_child_stopped (ch_name (get_child w s)))
            (on_child w (\<lambda>c. c\<lparr>ch_state := ''stopped'', ch_exit := polled, ch_process := None, ch_identity := None, ch_unhealthy := None\<rparr>) s))"

definition shutdown_children :: "int option \<Rightarrow> int option \<Rightarrow> supervisor \<Rightarrow> supervisor" where
  "shutdown_children tunnel_polled mcp_polled s =
     stop_child The_mcp mcp_polled (stop_child The_tunnel tunnel_polled (s\<lparr>su_top := ''stopping''\<rparr>))"

subsection \<open>Health\<close>

text \<open>A request answers with a status, an \<open>OSError\<close>, or another exception (a malformed HTTP answer), which nothing catches.\<close>

datatype http_answer = Http_status int | Http_os_error | Http_other_error string

definition http_ready :: "http_answer \<Rightarrow> string + bool" where
  "http_ready a = (case a of Http_status n \<Rightarrow> Inr (n = 200) | Http_os_error \<Rightarrow> Inr False | Http_other_error e \<Rightarrow> Inl e)"

definition port_owned_message :: "sup_settings \<Rightarrow> int list \<Rightarrow> string" where
  "port_owned_message st pids =
     ''MCP port '' @ st_host st @ '':'' @ py_str_int (st_port st) @ '' is owned by another process (PID ''
     @ py_join '', '' (map py_str_int (sort pids)) @ '')''"

definition mcp_is_healthy :: "sup_settings \<Rightarrow> int option \<Rightarrow> int list option \<Rightarrow> http_answer \<Rightarrow> supervisor \<Rightarrow> supervisor \<times> (string + bool)" where
  "mcp_is_healthy st polled owners http s =
     (case ch_process (su_mcp s) of
        None \<Rightarrow> (s, Inr False)
      | Some pid \<Rightarrow>
          if polled \<noteq> None then (s, Inr False)
          else case owners of
            None \<Rightarrow> (s, http_ready http)
          | Some pids \<Rightarrow>
              if int pid \<in> set pids then (s, http_ready http)
              else if pids = [] then (s, Inr False)
              else (s\<lparr>su_mcp := (su_mcp s)\<lparr>ch_error := Some (port_owned_message st pids)\<rparr>\<rparr>, Inr False))"

text \<open>Whether a connection to the proxy was made; \<open>urlparse\<close> or its port may raise.\<close>

definition proxy_is_ready :: "sup_settings \<Rightarrow> bool \<Rightarrow> string + bool" where
  "proxy_is_ready st connects =
     (if \<not> st_proxy_enabled st then Inr True
      else obind (urlparse (st_proxy_url st)) (\<lambda>u.
        if url_hostname u = None then Inr False
        else obind (url_port u) (\<lambda>port. Inr (port \<noteq> None \<and> connects))))"

datatype doctor_answer = Doctor_error string | Doctor_exit int

definition tunnel_doctor :: "doctor_answer \<Rightarrow> supervisor \<Rightarrow> supervisor \<times> bool" where
  "tunnel_doctor a s =
     (case a of
        Doctor_error e \<Rightarrow>
          (logged (Log_doctor_error e) (on_child The_tunnel (\<lambda>c. c\<lparr>ch_error := Some (''tunnel doctor could not complete: '' @ e)\<rparr>) s), False)
      | Doctor_exit code \<Rightarrow>
          if code \<noteq> 0
          then (logged (Log_doctor_failed code)
                 (on_child The_tunnel (\<lambda>c. c\<lparr>ch_error := Some (''tunnel doctor failed with code '' @ py_str_int code)\<rparr>) s), False)
          else (s, True))"

subsection \<open>One monitoring tick\<close>

record tick_answers =
  ta_now :: real
  ta_mcp_exit :: "int option"
  ta_tunnel_exit :: "int option"
  ta_mcp_start :: start_answer
  ta_mcp_polled :: "int option"
  ta_owners :: "int list option"
  ta_mcp_http :: http_answer
  ta_mcp_stop :: "int option"
  ta_proxy :: bool
  ta_tunnel_stop :: "int option"
  ta_doctor :: doctor_answer
  ta_tunnel_start :: start_answer
  ta_tunnel_http :: http_answer

definition mark_healthy :: "sup_settings \<Rightarrow> which_child \<Rightarrow> real \<Rightarrow> supervisor \<Rightarrow> supervisor" where
  "mark_healthy st w now s =
     reset_failures_if_stable st w now (on_child w (\<lambda>c. c\<lparr>ch_state := ''healthy'', ch_error := None, ch_unhealthy := None\<rparr>) s)"

text \<open>An unhealthy child is waited for until the startup timeout, then stopped and scheduled again.\<close>

definition mark_starting :: "real \<Rightarrow> child \<Rightarrow> child" where
  "mark_starting now c = c\<lparr>ch_state := ''starting'', ch_unhealthy := Some (case ch_unhealthy c of None \<Rightarrow> now | Some t \<Rightarrow> t)\<rparr>"

definition startup_expired :: "sup_settings \<Rightarrow> real \<Rightarrow> child \<Rightarrow> bool" where
  "startup_expired st now c = (case ch_unhealthy c of None \<Rightarrow> False | Some t \<Rightarrow> now - t \<ge> st_startup st)"

definition unhealthy_child ::
  "sup_settings \<Rightarrow> which_child \<Rightarrow> real \<Rightarrow> string \<Rightarrow> sup_event \<Rightarrow> int option \<Rightarrow> supervisor \<Rightarrow> supervisor \<times> (string + unit)" where
  "unhealthy_child st w now message event polled s =
     (let s = on_child w (mark_starting now) s
      in if startup_expired st now (get_child w s)
         then schedule_restart st w now (stop_child w polled (logged event (on_child w (\<lambda>c. c\<lparr>ch_error := Some message\<rparr>) s)))
         else (s, Inr ()))"

text \<open>The MCP server; the result is the local variable \<open>mcp_healthy\<close>.\<close>

definition tick_mcp :: "sup_settings \<Rightarrow> tick_answers \<Rightarrow> supervisor \<Rightarrow> supervisor \<times> (string + bool)" where
  "tick_mcp st a s =
     (if ch_process (su_mcp s) = None then (s, Inr False)
      else sup_bind (mcp_is_healthy st (ta_mcp_polled a) (ta_owners a) (ta_mcp_http a) s) (\<lambda>healthy s.
        if healthy then (mark_healthy st The_mcp (ta_now a) s, Inr True)
        else sup_bind (unhealthy_child st The_mcp (ta_now a) ''health check did not become ready before timeout'' Log_mcp_timeout (ta_mcp_stop a) s)
          (\<lambda>_ s. (s, Inr False))))"

definition start_if_due :: "sup_settings \<Rightarrow> which_child \<Rightarrow> real \<Rightarrow> start_answer \<Rightarrow> supervisor \<Rightarrow> supervisor \<times> (string + unit)" where
  "start_if_due st w now a s =
     (if ch_process (get_child w s) = None \<and> now \<ge> ch_next (get_child w s) then start_child st w a s else (s, Inr ()))"

text \<open>Whether the tunnel may run, and its start when it may and is due.\<close>

definition tick_dependencies :: "sup_settings \<Rightarrow> tick_answers \<Rightarrow> bool \<Rightarrow> bool \<Rightarrow> supervisor \<Rightarrow> supervisor \<times> (string + unit)" where
  "tick_dependencies st a mcp_healthy proxy_ready s =
     (if \<not> st_tunnel_enabled st
      then (on_child The_tunnel (\<lambda>c. c\<lparr>ch_state := ''stopped''\<rparr>) (stop_child The_tunnel (ta_tunnel_stop a) s), Inr ())
      else if \<not> (mcp_healthy \<and> proxy_ready)
      then (on_child The_tunnel (\<lambda>c. c\<lparr>ch_state := ''backoff'',
              ch_error := Some (if mcp_healthy then ''waiting for proxy'' else ''waiting for MCP health'')\<rparr>)
            (if ch_process (su_tunnel s) = None then s else stop_child The_tunnel (ta_tunnel_stop a) (logged Log_dependency_lost s)), Inr ())
      else if ch_process (su_tunnel s) = None \<and> ta_now a \<ge> ch_next (su_tunnel s)
      then (case tunnel_doctor (ta_doctor a) s of
              (s, True) \<Rightarrow> start_child st The_tunnel (ta_tunnel_start a) s
            | (s, False) \<Rightarrow> schedule_restart st The_tunnel (ta_now a) s)
      else (s, Inr ()))"

definition tick_tunnel :: "sup_settings \<Rightarrow> tick_answers \<Rightarrow> supervisor \<Rightarrow> supervisor \<times> (string + unit)" where
  "tick_tunnel st a s =
     (if ch_process (su_tunnel s) = None then (s, Inr ())
      else case http_ready (ta_tunnel_http a) of
        Inl e \<Rightarrow> (s, Inl e)
      | Inr True \<Rightarrow> (mark_healthy st The_tunnel (ta_now a) s, Inr ())
      | Inr False \<Rightarrow>
          unhealthy_child st The_tunnel (ta_now a) ''readiness check did not pass before timeout'' Log_tunnel_timeout (ta_tunnel_stop a) s)"

definition top_state :: "sup_settings \<Rightarrow> bool \<Rightarrow> bool \<Rightarrow> supervisor \<Rightarrow> string" where
  "top_state st mcp_healthy proxy_ready s =
     (if \<not> mcp_healthy then (if ch_process (su_mcp s) \<noteq> None then ''starting_mcp'' else ''degraded'')
      else if st_tunnel_enabled st \<and> \<not> proxy_ready then ''waiting_for_proxy''
      else if st_tunnel_enabled st \<and> ch_state (su_tunnel s) \<noteq> ''healthy''
        then (if mcp_healthy \<and> proxy_ready then ''starting_tunnel'' else ''degraded'')
      else ''healthy'')"

definition tick :: "sup_settings \<Rightarrow> tick_answers \<Rightarrow> supervisor \<Rightarrow> supervisor \<times> (string + unit)" where
  "tick st a s =
     sup_bind (observe_exit st The_mcp (ta_now a) (ta_mcp_exit a) s) (\<lambda>_ s.
     sup_bind (observe_exit st The_tunnel (ta_now a) (ta_tunnel_exit a) s) (\<lambda>_ s.
     sup_bind (start_if_due st The_mcp (ta_now a) (ta_mcp_start a) s) (\<lambda>_ s.
     sup_bind (tick_mcp st a s) (\<lambda>mcp_healthy s.
     case proxy_is_ready st (ta_proxy a) of
       Inl e \<Rightarrow> (s, Inl e)
     | Inr proxy_ready \<Rightarrow>
         sup_bind (tick_dependencies st a mcp_healthy proxy_ready s) (\<lambda>_ s.
         sup_bind (tick_tunnel st a s) (\<lambda>_ s.
         (s\<lparr>su_top := top_state st mcp_healthy proxy_ready s\<rparr>, Inr ())))))))"

subsection \<open>The status document\<close>

record status_answers =
  sa_clock :: real
  sa_pid :: int
  sa_identity :: "string option"
  sa_now :: string
  sa_mcp_alive :: bool
  sa_tunnel_alive :: bool
  sa_mcp_clock :: real
  sa_tunnel_clock :: real
  sa_owners :: "int list option"
  sa_proxy :: bool
  sa_write :: "string option"

text \<open>The paths and identifiers of a supervisor that never change.\<close>

record sup_identity =
  si_run_id :: string
  si_started :: string
  si_base :: string

text \<open>\<open>round(r, 3)\<close>: to the nearest thousandth, ties to even.\<close>

definition round_half_even :: "real \<Rightarrow> int" where
  "round_half_even r =
     (let n = \<lfloor>r\<rfloor>; d = r - of_int n in if d < 1/2 then n else if d > 1/2 then n + 1 else if even n then n else n + 1)"

definition opt_int :: "int option \<Rightarrow> json" where
  "opt_int v = (case v of None \<Rightarrow> JNull | Some i \<Rightarrow> JInt i)"

definition child_status :: "bool \<Rightarrow> real \<Rightarrow> int list option \<Rightarrow> child \<Rightarrow> json" where
  "child_status alive clock owners c =
     (let pid = (if alive then ch_process c else None); wait = max 0 (ch_next c - clock)
      in JObj ([(''state'', JStr (ch_state c)), (''pid'', opt_int (map_option int pid)),
           (''creation_identity'', if pid \<noteq> None \<and> pid \<noteq> Some 0 then opt_str (ch_identity c) else JNull),
           (''restart_count'', JInt (int (ch_restarts c))), (''consecutive_failures'', JInt (int (ch_failures c))),
           (''last_exit_code'', opt_int (ch_exit c)), (''last_error'', opt_str (ch_error c)),
           (''next_retry_seconds'', if wait = 0 then JInt 0 else JFloat (of_int (round_half_even (wait * 1000)) / 1000))]
         @ (if ch_name c = ''mcp''
            then [(''listener_pids'', JArr (map JInt (case owners of None \<Rightarrow> [] | Some pids \<Rightarrow> sort pids)))] else [])))"

definition health_url :: "sup_settings \<Rightarrow> string" where
  "health_url st = ''http://'' @ st_host st @ '':'' @ py_str_int (st_port st) @ ''/healthz''"

definition strip_slashes :: "string \<Rightarrow> string" where
  "strip_slashes s = rev (dropWhile (\<lambda>c. c = CHR ''/'') (rev (dropWhile (\<lambda>c. c = CHR ''/'') s)))"

definition mcp_url :: "sup_settings \<Rightarrow> string" where
  "mcp_url st = ''http://'' @ st_host st @ '':'' @ py_str_int (st_port st) @ ''/'' @ strip_slashes (st_mcp_path st)"

definition status_payload :: "sup_settings \<Rightarrow> sup_identity \<Rightarrow> status_answers \<Rightarrow> bool \<Rightarrow> supervisor \<Rightarrow> json" where
  "status_payload st si a proxy_ready s =
     JObj [(''schema_version'', JInt 1), (''run_id'', JStr (si_run_id si)), (''state'', JStr (su_top s)), (''started_at'', JStr (si_started si)),
       (''heartbeat_at'', JStr (sa_now a)),
       (''supervisor'', JObj [(''pid'', JInt (sa_pid a)), (''creation_identity'', opt_str (sa_identity a))]),
       (''mcp'', child_status (sa_mcp_alive a) (sa_mcp_clock a) (sa_owners a) (su_mcp s)),
       (''tunnel'', child_status (sa_tunnel_alive a) (sa_tunnel_clock a) (sa_owners a) (su_tunnel s)),
       (''proxy'', JObj [(''enabled'', JBool (st_proxy_enabled st)), (''url'', JStr (st_proxy_url st)), (''ready'', JBool proxy_ready)]),
       (''endpoint'', JObj [(''health'', JStr (health_url st)), (''mcp'', JStr (mcp_url st))]),
       (''config_path'', JStr (si_base si @ ''/config/operator.yaml'')),
       (''logs'', JObj [(''supervisor'', JStr (si_base si @ ''/logs/supervisor.log'')), (''mcp'', JStr (si_base si @ ''/logs/mcp.log'')),
          (''tunnel'', JStr (si_base si @ ''/logs/tunnel.log''))]),
       (''recovery'', su_recovery s)]"

definition write_status :: "sup_settings \<Rightarrow> sup_identity \<Rightarrow> bool \<Rightarrow> status_answers \<Rightarrow> supervisor \<Rightarrow> supervisor \<times> (string + unit)" where
  "write_status st si force a s =
     (if \<not> force \<and> sa_clock a - su_heartbeat s < st_heartbeat st then (s, Inr ())
      else let s = s\<lparr>su_heartbeat := sa_clock a\<rparr>
        in case proxy_is_ready st (sa_proxy a) of
             Inl e \<Rightarrow> (s, Inl e)
           | Inr ready \<Rightarrow>
               (case sa_write a of
                  Some e \<Rightarrow> (s, Inl e)
                | None \<Rightarrow> (s\<lparr>su_status := Some (status_payload st si a ready s)\<rparr>, Inr ())))"

subsection \<open>The main loop\<close>

text \<open>One round: whether a stop was requested meanwhile, what the tick and the status get.\<close>

record round_answers =
  ra_request :: bool
  ra_tick :: tick_answers
  ra_status :: status_answers

record run_answers =
  rn_lock :: bool
  rn_recovery :: "string + json"
  rn_first_status :: status_answers
  rn_tunnel_stop :: "int option"
  rn_mcp_stop :: "int option"
  rn_last_status :: status_answers
  rn_failed_status :: status_answers

datatype run_result = Returned int | Raised string | Still_running

text \<open>The rounds are those for which answers are given; a loop that has used them all is still running.\<close>

fun run_rounds :: "sup_settings \<Rightarrow> sup_identity \<Rightarrow> round_answers list \<Rightarrow> supervisor \<Rightarrow> supervisor \<times> (string + bool)" where
  "run_rounds st si [] s = (s, Inr False)"
| "run_rounds st si (a # rest) s =
     (let s = (if ra_request a then s\<lparr>su_stop_request := True\<rparr> else s)
      in if su_stop_request s then ((logged Log_stop_requested s)\<lparr>su_shutdown := True\<rparr>, Inr True)
         else sup_bind (tick st (ra_tick a) s) (\<lambda>_ s.
              sup_bind (write_status st si False (ra_status a) s) (\<lambda>_ s. run_rounds st si rest s)))"

text \<open>The handler for an exception: the children are stopped and the status is written once more.\<close>

definition run_failed :: "sup_settings \<Rightarrow> sup_identity \<Rightarrow> run_answers \<Rightarrow> string \<Rightarrow> supervisor \<Rightarrow> supervisor \<times> run_result" where
  "run_failed st si a e s =
     (case write_status st si True (rn_failed_status a)
             (shutdown_children (rn_tunnel_stop a) (rn_mcp_stop a) (logged (Log_supervisor_failed e) (s\<lparr>su_top := ''failed''\<rparr>))) of
        (s, Inl e') \<Rightarrow> (s\<lparr>su_locked := False\<rparr>, Raised e')
      | (s, Inr _) \<Rightarrow> (s\<lparr>su_locked := False\<rparr>, Returned 1))"

definition run_body :: "sup_settings \<Rightarrow> sup_identity \<Rightarrow> run_answers \<Rightarrow> round_answers list \<Rightarrow> supervisor \<Rightarrow> supervisor \<times> (string + bool)" where
  "run_body st si a rounds s =
     (let s = s\<lparr>su_stop_request := False\<rparr>
      in case rn_recovery a of
           Inl e \<Rightarrow> (s, Inl e)
         | Inr recovery \<Rightarrow>
             sup_bind (write_status st si True (rn_first_status a) (logged Log_supervisor_started (s\<lparr>su_recovery := recovery\<rparr>))) (\<lambda>_ s.
             sup_bind (run_rounds st si rounds s) (\<lambda>stopped s.
             if \<not> stopped then (s, Inr False)
             else sup_bind (write_status st si True (rn_last_status a)
                    ((shutdown_children (rn_tunnel_stop a) (rn_mcp_stop a) s)\<lparr>su_top := ''stopped'', su_stop_request := False\<rparr>))
                    (\<lambda>_ s. (logged Log_supervisor_stopped s, Inr True)))))"

definition run :: "sup_settings \<Rightarrow> sup_identity \<Rightarrow> run_answers \<Rightarrow> round_answers list \<Rightarrow> supervisor \<Rightarrow> supervisor \<times> run_result" where
  "run st si a rounds s =
     (if \<not> rn_lock a then (logged Log_duplicate_start s, Returned 2)
      else case run_body st si a rounds (s\<lparr>su_locked := True\<rparr>) of
             (s, Inl e) \<Rightarrow> run_failed st si a e s
           | (s, Inr True) \<Rightarrow> (s\<lparr>su_locked := False\<rparr>, Returned 0)
           | (s, Inr False) \<Rightarrow> (s, Still_running))"

end
