(* ===== verification/Supervisor_Safety.thy ===== *)
theory Supervisor_Safety
  imports Supervisor
begin

text \<open>
  What the supervisor promises: when the tunnel may run, what is known of the children after every tick, how far starts are
  apart, and how a run ends.
\<close>

subsection \<open>Frames\<close>

lemma get_on_child [simp]: "get_child w (on_child w' f s) = (if w = w' then f (get_child w s) else get_child w s)"
  by (cases w; cases w') simp_all

lemma get_logged [simp]: "get_child w (logged e s) = get_child w s"
  by (cases w) (simp_all add: logged_def)

lemma other_fields [simp]:
  "su_shutdown (on_child w f s) = su_shutdown s" "su_stop_request (on_child w f s) = su_stop_request s"
  "su_status (on_child w f s) = su_status s" "su_locked (on_child w f s) = su_locked s"
  "su_shutdown (logged e s) = su_shutdown s" "su_stop_request (logged e s) = su_stop_request s"
  "su_status (logged e s) = su_status s" "su_locked (logged e s) = su_locked s"
  by (cases w; simp)+ (simp_all add: logged_def)

lemma children_on_child [simp]:
  "su_mcp (on_child w f s) = (if w = The_mcp then f (su_mcp s) else su_mcp s)" "su_mcp (logged e s) = su_mcp s"
  "su_tunnel (on_child w f s) = (if w = The_tunnel then f (su_tunnel s) else su_tunnel s)" "su_tunnel (logged e s) = su_tunnel s"
  by (cases w; simp add: logged_def)+

declare on_child.simps [simp del]

lemma get_child_fields [simp]:
  "get_child w (s\<lparr>su_top := t\<rparr>) = get_child w s" "get_child w (s\<lparr>su_stop_request := b\<rparr>) = get_child w s"
  "get_child w (s\<lparr>su_locked := b\<rparr>) = get_child w s" "get_child w (s\<lparr>su_heartbeat := r\<rparr>) = get_child w s"
  "get_child w (s\<lparr>su_status := j\<rparr>) = get_child w s" "get_child w (s\<lparr>su_recovery := v\<rparr>) = get_child w s"
  "get_child w (s\<lparr>su_shutdown := b\<rparr>) = get_child w s"
  by (cases w; simp)+

lemma sup_bind_Inr: "sup_bind m f = (s', Inr y) \<longleftrightarrow> (\<exists>s x. m = (s, Inr x) \<and> f x s = (s', Inr y))"
  by (auto simp: sup_bind_def split: prod.splits sum.splits)

lemma sup_bind_Inl: "sup_bind m f = (s', Inl e) \<longleftrightarrow> m = (s', Inl e) \<or> (\<exists>s x. m = (s, Inr x) \<and> f x s = (s', Inl e))"
  by (auto simp: sup_bind_def split: prod.splits sum.splits)

lemma mcp_child: "su_mcp s = get_child The_mcp s" and tunnel_child: "su_tunnel s = get_child The_tunnel s"
  by simp_all

text \<open>What one operation on a child leaves alone.\<close>

definition keeps_rest :: "which_child \<Rightarrow> supervisor \<Rightarrow> supervisor \<Rightarrow> bool" where
  "keeps_rest w s s' \<longleftrightarrow> (\<forall>w'. w' \<noteq> w \<longrightarrow> get_child w' s' = get_child w' s) \<and> su_shutdown s' = su_shutdown s
     \<and> su_stop_request s' = su_stop_request s \<and> su_status s' = su_status s \<and> su_locked s' = su_locked s"

lemma keeps_restD: "keeps_rest w s s' \<Longrightarrow> w' \<noteq> w \<Longrightarrow> get_child w' s' = get_child w' s"
  by (simp add: keeps_rest_def)

lemma keeps_rest_refl [simp]: "keeps_rest w s s"
  by (simp add: keeps_rest_def)

lemma keeps_rest_on [simp]: "keeps_rest w s (on_child w f s)" "keeps_rest w s (logged e s)"
  "keeps_rest w s (logged e (on_child w f s))"
  by (simp_all add: keeps_rest_def)

lemma keeps_rest_trans: "keeps_rest w s s1 \<Longrightarrow> keeps_rest w s1 s2 \<Longrightarrow> keeps_rest w s s2"
  by (simp add: keeps_rest_def)

lemma schedule_rest: "keeps_rest w s (fst (schedule_restart st w now s))"
  by (auto simp: schedule_restart_def keeps_rest_def Let_def split: sum.split)

lemma start_rest: "keeps_rest w s (fst (start_child st w a s))"
proof (cases a)
  case (Start_error e clock)
  then show ?thesis
    by (auto simp: start_child_def intro!: keeps_rest_trans [OF _ schedule_rest])
next
  case (Started pid clock i)
  then show ?thesis by (simp add: start_child_def Let_def keeps_rest_def)
qed

lemma observe_rest: "keeps_rest w s (fst (observe_exit st w now polled s))"
  by (auto simp: observe_exit_def Let_def intro!: keeps_rest_trans [OF _ schedule_rest] split: option.split)

lemma stop_rest: "keeps_rest w s (stop_child w polled s)"
  by (simp add: stop_child_def keeps_rest_def split: option.split)

lemma healthy_rest: "keeps_rest w s (mark_healthy st w now s)"
  by (simp add: mark_healthy_def reset_failures_if_stable_def keeps_rest_def split: option.split)

lemma unhealthy_rest: "keeps_rest w s (fst (unhealthy_child st w now m e polled s))"
proof -
  have "keeps_rest w s (logged e (on_child w f (on_child w g s)))" for f g by (simp add: keeps_rest_def)
  then show ?thesis
    by (auto simp: unhealthy_child_def Let_def intro!: keeps_rest_trans [OF _ schedule_rest] keeps_rest_trans [OF _ stop_rest])
qed

lemmas child_rest = schedule_rest start_rest observe_rest healthy_rest unhealthy_rest

subsection \<open>A child after each operation\<close>

definition child_ok :: "child \<Rightarrow> bool" where
  "child_ok c \<longleftrightarrow>
     (case ch_process c of
        None \<Rightarrow> ch_identity c = None \<and> ch_unhealthy c = None \<and> ch_state c \<in> {''stopped'', ''backoff''}
      | Some _ \<Rightarrow> ch_started c \<noteq> None \<and> (ch_state c = ''healthy'' \<and> ch_unhealthy c = None \<or> ch_state c = ''starting'' \<and> ch_unhealthy c \<noteq> None))
     \<and> ch_restarts c = ch_starts c - 1"

text \<open>Between two steps of a tick the state of a child without a process may be anything.\<close>

definition child_idle :: "child \<Rightarrow> bool" where
  "child_idle c \<longleftrightarrow> ch_process c = None \<and> ch_identity c = None \<and> ch_unhealthy c = None \<and> ch_restarts c = ch_starts c - 1"

lemma idle_of_ok: "child_ok c \<Longrightarrow> ch_process c = None \<Longrightarrow> child_idle c"
  by (simp add: child_ok_def child_idle_def)

lemma schedule_ok:
  assumes "child_idle (get_child w s)" "schedule_restart st w now s = (s', Inr ())"
  shows "child_ok (get_child w s')" "ch_process (get_child w s') = None" "ch_starts (get_child w s') = ch_starts (get_child w s)"
    "\<exists>delay. restart_delay st (ch_failures (get_child w s) + 1) = Inr delay \<and> ch_next (get_child w s') = now + delay"
  using assms by (auto simp: schedule_restart_def Let_def child_ok_def child_idle_def split: sum.splits)

lemma restart_delay_bounds:
  assumes "restart_delay st n = Inr d" "0 < st_initial st" "0 < st_multiplier st" "0 < st_max_delay st"
  shows "0 < d \<and> d \<le> st_max_delay st"
  using assms by (auto simp: restart_delay_def Let_def split: if_splits)

definition starts_when_due :: "real \<Rightarrow> child \<Rightarrow> child \<Rightarrow> bool" where
  "starts_when_due now c c' \<longleftrightarrow>
     ch_starts c' = ch_starts c \<or> ch_starts c' = ch_starts c + 1 \<and> ch_process c = None \<and> ch_next c \<le> now"

definition positive_delays :: "sup_settings \<Rightarrow> bool" where
  "positive_delays st \<longleftrightarrow> 0 < st_initial st \<and> 0 < st_multiplier st \<and> 0 < st_max_delay st"

lemma observe_ok:
  assumes "child_ok (get_child w s)" "positive_delays st" "\<not> su_shutdown s" "observe_exit st w now polled s = (s', Inr ())"
  shows "child_ok (get_child w s') \<and> ch_starts (get_child w s') = ch_starts (get_child w s)
    \<and> (get_child w s' = get_child w s \<or> ch_process (get_child w s') = None \<and> now < ch_next (get_child w s'))"
proof (cases "ch_process (get_child w s) \<noteq> None \<and> polled \<noteq> None")
  case True
  then obtain pid code where pc: "ch_process (get_child w s) = Some pid" "polled = Some code" by auto
  let ?s = "logged (Log_child_exited (ch_name (get_child w s)) code)
                 (on_child w (\<lambda>c. c\<lparr>ch_exit := Some code, ch_error := Some (''exited with code '' @ py_str_int code), ch_process := None,
                    ch_identity := None, ch_unhealthy := None\<rparr>) s)"
  have sch: "schedule_restart st w now ?s = (s', Inr ())" using assms(3,4) pc by (simp add: observe_exit_def Let_def)
  have idle: "child_idle (get_child w ?s)" using assms(1) by (simp add: child_idle_def child_ok_def)
  note r = schedule_ok [OF idle sch]
  obtain delay where d: "restart_delay st (ch_failures (get_child w ?s) + 1) = Inr delay" "ch_next (get_child w s') = now + delay" using r(4) by blast
  have "0 < delay" using restart_delay_bounds [OF d(1)] assms(2) by (simp add: positive_delays_def)
  moreover have "ch_starts (get_child w ?s) = ch_starts (get_child w s)" by simp
  ultimately show ?thesis using r(1-3) d(2) by (simp only:) simp
next
  case False
  then have "s' = s" using assms(4) by (auto simp: observe_exit_def split: option.splits)
  then show ?thesis using assms(1) by simp
qed

lemma start_ok:
  assumes "child_ok (get_child w s)" "ch_process (get_child w s) = None" "start_child st w a s = (s', Inr ())"
  shows "child_ok (get_child w s') \<and> (ch_starts (get_child w s') = ch_starts (get_child w s) \<or> ch_starts (get_child w s') = ch_starts (get_child w s) + 1)"
proof (cases a)
  case (Start_error e clock)
  let ?s = "logged (Log_child_start_failed (ch_name (get_child w s)) e)
              (on_child w (\<lambda>c. c\<lparr>ch_error := Some (''could not start: '' @ e), ch_state := ''failed''\<rparr>) s)"
  have "child_idle (get_child w ?s)" using assms(1,2) by (simp add: child_idle_def child_ok_def)
  from schedule_ok [OF this] show ?thesis using assms(3) Start_error by (simp add: start_child_def)
next
  case (Started pid clock i)
  then show ?thesis using assms by (auto simp: start_child_def Let_def child_ok_def)
qed

lemma stop_ok: "child_ok (get_child w s) \<Longrightarrow> child_ok (get_child w (stop_child w polled s)) \<and> ch_process (get_child w (stop_child w polled s)) = None
    \<and> ch_starts (get_child w (stop_child w polled s)) = ch_starts (get_child w s)"
  by (auto simp: stop_child_def child_ok_def split: option.split)

lemma healthy_ok:
  assumes "child_ok (get_child w s)" "ch_process (get_child w s) \<noteq> None"
  shows "child_ok (get_child w (mark_healthy st w now s))" "ch_process (get_child w (mark_healthy st w now s)) = ch_process (get_child w s)"
    "ch_state (get_child w (mark_healthy st w now s)) = ''healthy''" "ch_starts (get_child w (mark_healthy st w now s)) = ch_starts (get_child w s)"
  using assms by (auto simp: mark_healthy_def reset_failures_if_stable_def child_ok_def split: option.split)

lemma unhealthy_ok:
  assumes "child_ok (get_child w s)" "ch_process (get_child w s) \<noteq> None" "unhealthy_child st w now m e polled s = (s', Inr ())"
  shows "child_ok (get_child w s') \<and> ch_starts (get_child w s') = ch_starts (get_child w s) \<and> ch_state (get_child w s') \<noteq> ''healthy''"
proof (cases "startup_expired st now (get_child w (on_child w (mark_starting now) s))")
  case True
  let ?s = "stop_child w polled (logged e (on_child w (\<lambda>c. c\<lparr>ch_error := Some m\<rparr>) (on_child w (mark_starting now) s)))"
  have "child_ok (get_child w (logged e (on_child w (\<lambda>c. c\<lparr>ch_error := Some m\<rparr>) (on_child w (mark_starting now) s))))"
    using assms(1,2) by (auto simp: mark_starting_def child_ok_def)
  note st = stop_ok [OF this, of polled]
  have starts: "ch_starts (get_child w ?s) = ch_starts (get_child w s)" using st by (simp add: mark_starting_def)
  have "schedule_restart st w now ?s = (s', Inr ())" using True assms(3) by (simp add: unhealthy_child_def Let_def)
  note r = schedule_ok [OF idle_of_ok [OF conjunct1 [OF st] conjunct1 [OF conjunct2 [OF st]]] this]
  have "ch_state (get_child w s') \<noteq> ''healthy''" using r(1,2) by (auto simp: child_ok_def)
  then show ?thesis using r(1,3) starts by simp
next
  case False
  then have "s' = on_child w (mark_starting now) s" using assms(3) by (simp add: unhealthy_child_def Let_def)
  then show ?thesis using assms(1,2) by (auto simp: mark_starting_def child_ok_def)
qed

subsection \<open>One tick\<close>

definition mcp_answers :: "tick_answers \<Rightarrow> supervisor \<Rightarrow> bool" where
  "mcp_answers a s \<longleftrightarrow> (case ch_process (su_mcp s) of None \<Rightarrow> False | Some pid \<Rightarrow>
     ta_mcp_polled a = None \<and> (case ta_owners a of None \<Rightarrow> True | Some pids \<Rightarrow> int pid \<in> set pids) \<and> ta_mcp_http a = Http_status 200
     \<and> ch_state (su_mcp s) = ''healthy'')"

lemma tick_mcp_ok:
  assumes "child_ok (su_mcp s)" "tick_mcp st a s = (s', Inr healthy)"
  shows "child_ok (su_mcp s')" "ch_starts (su_mcp s') = ch_starts (su_mcp s)" "su_tunnel s' = su_tunnel s" "su_shutdown s' = su_shutdown s" "su_stop_request s' = su_stop_request s"
    "healthy \<longleftrightarrow> mcp_answers a s'" "healthy \<longleftrightarrow> ch_state (su_mcp s') = ''healthy''"
proof -
  have "child_ok (su_mcp s') \<and> ch_starts (su_mcp s') = ch_starts (su_mcp s) \<and> su_tunnel s' = su_tunnel s \<and> su_shutdown s' = su_shutdown s
      \<and> su_stop_request s' = su_stop_request s \<and> (healthy \<longleftrightarrow> mcp_answers a s') \<and> (healthy \<longleftrightarrow> ch_state (su_mcp s') = ''healthy'')"
  proof (cases "ch_process (su_mcp s)")
    case None
    then show ?thesis using assms by (auto simp: tick_mcp_def mcp_answers_def child_ok_def)
  next
    case (Some pid)
    obtain s1 h where m: "mcp_is_healthy st (ta_mcp_polled a) (ta_owners a) (ta_mcp_http a) s = (s1, Inr h)"
      and rest: "(if h then (mark_healthy st The_mcp (ta_now a) s1, Inr True)
        else sup_bind (unhealthy_child st The_mcp (ta_now a) ''health check did not become ready before timeout'' Log_mcp_timeout (ta_mcp_stop a) s1)
          (\<lambda>_ s. (s, Inr False))) = (s', Inr healthy)"
      using assms(2) Some by (auto simp: tick_mcp_def sup_bind_Inr)
    have s1: "child_ok (su_mcp s1)" "ch_process (su_mcp s1) = Some pid" "ch_starts (su_mcp s1) = ch_starts (su_mcp s)" "su_tunnel s1 = su_tunnel s"
      "su_shutdown s1 = su_shutdown s" "su_stop_request s1 = su_stop_request s"
      "h \<longrightarrow> ta_mcp_polled a = None \<and> (case ta_owners a of None \<Rightarrow> True | Some pids \<Rightarrow> int pid \<in> set pids) \<and> ta_mcp_http a = Http_status 200"
      using m Some assms(1)
      by (auto simp: mcp_is_healthy_def http_ready_def child_ok_def split: if_splits option.splits http_answer.splits)
    show ?thesis
    proof (cases h)
      case True
      then have s': "s' = mark_healthy st The_mcp (ta_now a) s1" "healthy" using rest by simp_all
      have ok: "child_ok (get_child The_mcp s1)" "ch_process (get_child The_mcp s1) \<noteq> None" using s1(1,2) by simp_all
      show ?thesis
        using healthy_ok [OF ok, of st "ta_now a"] healthy_rest [of The_mcp s1 st "ta_now a"] s1 s' True
        by (auto simp: mcp_answers_def keeps_rest_def tunnel_child simp del: get_child.simps) (simp_all)
    next
      case False
      then obtain u where u: "unhealthy_child st The_mcp (ta_now a) ''health check did not become ready before timeout'' Log_mcp_timeout (ta_mcp_stop a) s1
          = (s', Inr u)" "\<not> healthy" using rest by (auto simp: sup_bind_Inr)
      have ok: "child_ok (get_child The_mcp s1)" "ch_process (get_child The_mcp s1) \<noteq> None" using s1(1,2) by simp_all
      have "get_child The_tunnel s' = get_child The_tunnel s1" "su_shutdown s' = su_shutdown s1" "su_stop_request s' = su_stop_request s1"
        using unhealthy_rest [of The_mcp s1 st "ta_now a" "''health check did not become ready before timeout''" Log_mcp_timeout "ta_mcp_stop a"] u(1)
        by (auto simp: keeps_rest_def)
      then show ?thesis using unhealthy_ok [OF ok] u s1 by (auto simp: mcp_answers_def split: option.splits)
    qed
  qed
  then show "child_ok (su_mcp s')" "ch_starts (su_mcp s') = ch_starts (su_mcp s)" "su_tunnel s' = su_tunnel s" "su_shutdown s' = su_shutdown s" "su_stop_request s' = su_stop_request s"
    "healthy \<longleftrightarrow> mcp_answers a s'" "healthy \<longleftrightarrow> ch_state (su_mcp s') = ''healthy''" by blast+
qed

lemma start_if_due_ok:
  assumes "child_ok (get_child w s)" "start_if_due st w now a s = (s', Inr ())"
  shows "child_ok (get_child w s')" "keeps_rest w s s'"
    "ch_starts (get_child w s') = ch_starts (get_child w s)
     \<or> ch_starts (get_child w s') = ch_starts (get_child w s) + 1 \<and> ch_process (get_child w s) = None \<and> ch_next (get_child w s) \<le> now"
  using assms start_ok [OF assms(1), of st a s'] start_rest [of w s st a] by (auto simp: start_if_due_def split: if_splits)

definition may_run :: "sup_settings \<Rightarrow> bool \<Rightarrow> bool \<Rightarrow> bool" where
  "may_run st mcp_healthy proxy_ready \<longleftrightarrow> st_tunnel_enabled st \<and> mcp_healthy \<and> proxy_ready"

lemma doctor_rest: "tunnel_doctor a s = (s', b) \<Longrightarrow> keeps_rest The_tunnel s s' \<and> (child_ok (su_tunnel s) \<longrightarrow> child_ok (su_tunnel s'))
    \<and> ch_process (su_tunnel s') = ch_process (su_tunnel s) \<and> ch_starts (su_tunnel s') = ch_starts (su_tunnel s)"
proof -
  assume d: "tunnel_doctor a s = (s', b)"
  have ok: "child_ok (c\<lparr>ch_error := e\<rparr>) = child_ok c" for c e by (simp add: child_ok_def split: option.split)
  have e: "s' = s \<or> (\<exists>e t. s' = logged t (on_child The_tunnel (\<lambda>c. c\<lparr>ch_error := e\<rparr>) s))"
    using d by (cases a) (auto simp: tunnel_doctor_def split: if_splits)
  then show ?thesis by (auto simp: ok)
qed

lemma tick_dependencies_ok:
  assumes "child_ok (su_tunnel s)" "tick_dependencies st a mcp_healthy proxy_ready s = (s', Inr ())"
  shows "child_ok (su_tunnel s') \<and> keeps_rest The_tunnel s s' \<and> (ch_process (su_tunnel s') \<noteq> None \<longrightarrow> may_run st mcp_healthy proxy_ready)
    \<and> (ch_starts (su_tunnel s') = ch_starts (su_tunnel s)
       \<or> ch_starts (su_tunnel s') = ch_starts (su_tunnel s) + 1 \<and> ch_process (su_tunnel s) = None \<and> ch_next (su_tunnel s) \<le> ta_now a)"
proof -
  have ok: "child_ok (get_child The_tunnel s)" using assms(1) by simp
  consider "\<not> st_tunnel_enabled st" | "st_tunnel_enabled st" "\<not> (mcp_healthy \<and> proxy_ready)"
    | "may_run st mcp_healthy proxy_ready" by (auto simp: may_run_def)
  then show ?thesis
  proof cases
    case 1
    have "s' = on_child The_tunnel (\<lambda>c. c\<lparr>ch_state := ''stopped''\<rparr>) (stop_child The_tunnel (ta_tunnel_stop a) s)"
      using assms(2) 1 by (simp add: tick_dependencies_def)
    moreover have "keeps_rest The_tunnel s s'"
      unfolding calculation by (rule keeps_rest_trans [OF stop_rest keeps_rest_on(1)])
    ultimately show ?thesis using stop_ok [OF ok, of "ta_tunnel_stop a"] by (auto simp: child_ok_def)
  next
    case 2
    have s': "s' = on_child The_tunnel (\<lambda>c. c\<lparr>ch_state := ''backoff'',
              ch_error := Some (if mcp_healthy then ''waiting for proxy'' else ''waiting for MCP health'')\<rparr>)
            (if ch_process (su_tunnel s) = None then s else stop_child The_tunnel (ta_tunnel_stop a) (logged Log_dependency_lost s))"
      using assms(2) 2 by (simp add: tick_dependencies_def)
    have l: "child_ok (get_child The_tunnel (logged Log_dependency_lost s))" "keeps_rest The_tunnel s (logged Log_dependency_lost s)"
      using ok by (simp_all add: keeps_rest_def)
    have "child_ok (su_tunnel s') \<and> ch_process (su_tunnel s') = None \<and> ch_starts (su_tunnel s') = ch_starts (su_tunnel s)"
      using s' ok stop_ok [OF l(1), of "ta_tunnel_stop a"] by (auto simp: child_ok_def logged_def split: if_splits)
    moreover have "keeps_rest The_tunnel s s'"
    proof (cases "ch_process (su_tunnel s) = None")
      case False
      then show ?thesis unfolding s' if_not_P [OF False]
        by (intro keeps_rest_trans [OF keeps_rest_on(2) keeps_rest_trans [OF stop_rest keeps_rest_on(1)]])
    qed (simp add: s')
    ultimately show ?thesis by simp
  next
    case 3
    show ?thesis
    proof (cases "ch_process (su_tunnel s) = None \<and> ta_now a \<ge> ch_next (su_tunnel s)")
      case False
      then have "s' = s" using assms(2) 3 by (simp add: tick_dependencies_def may_run_def split: if_splits)
      then show ?thesis using assms(1) 3 by simp
    next
      case True
      obtain s1 b where d: "tunnel_doctor (ta_doctor a) s = (s1, b)" by fastforce
      note dr = doctor_rest [OF d]
      have ok1: "child_ok (get_child The_tunnel s1)" "ch_process (get_child The_tunnel s1) = None" using dr True assms(1) by auto
      have next_step: "(if b then start_child st The_tunnel (ta_tunnel_start a) s1 else schedule_restart st The_tunnel (ta_now a) s1) = (s', Inr ())"
        using assms(2) 3 True d by (auto simp: tick_dependencies_def may_run_def split: if_splits)
      have "keeps_rest The_tunnel s1 s'"
        using next_step start_rest [of The_tunnel s1 st "ta_tunnel_start a"] schedule_rest [of The_tunnel s1 st "ta_now a"] by (auto split: if_splits)
      moreover have "child_ok (get_child The_tunnel s') \<and> (ch_starts (get_child The_tunnel s') = ch_starts (get_child The_tunnel s1)
          \<or> ch_starts (get_child The_tunnel s') = ch_starts (get_child The_tunnel s1) + 1)"
        using next_step start_ok [OF ok1] schedule_ok [OF idle_of_ok [OF ok1]] by (cases b) simp_all
      ultimately show ?thesis using dr True 3 keeps_rest_trans by auto
    qed
  qed
qed

lemma tick_tunnel_ok:
  assumes "child_ok (su_tunnel s)" "tick_tunnel st a s = (s', Inr ())"
  shows "child_ok (su_tunnel s') \<and> keeps_rest The_tunnel s s' \<and> (ch_process (su_tunnel s') \<noteq> None \<longrightarrow> ch_process (su_tunnel s) \<noteq> None)
    \<and> ch_starts (su_tunnel s') = ch_starts (su_tunnel s)
    \<and> (ch_state (su_tunnel s') = ''healthy'' \<longrightarrow> ch_process (su_tunnel s) \<noteq> None \<and> ta_tunnel_http a = Http_status 200)"
proof (cases "ch_process (su_tunnel s)")
  case None
  then show ?thesis using assms by (auto simp: tick_tunnel_def child_ok_def)
next
  case (Some pid)
  have ok: "child_ok (get_child The_tunnel s)" "ch_process (get_child The_tunnel s) \<noteq> None" using assms(1) Some by simp_all
  obtain h where h: "http_ready (ta_tunnel_http a) = Inr h" using assms(2) Some by (cases "http_ready (ta_tunnel_http a)") (auto simp: tick_tunnel_def)
  show ?thesis
  proof (cases h)
    case True
    then have "s' = mark_healthy st The_tunnel (ta_now a) s" "ta_tunnel_http a = Http_status 200"
      using assms(2) Some h by (auto simp: tick_tunnel_def http_ready_def split: http_answer.splits)
    then show ?thesis using healthy_ok [OF ok, of st "ta_now a"] healthy_rest [of The_tunnel s st "ta_now a"] Some by simp
  next
    case False
    then have u: "unhealthy_child st The_tunnel (ta_now a) ''readiness check did not pass before timeout'' Log_tunnel_timeout (ta_tunnel_stop a) s = (s', Inr ())"
      using assms(2) Some h by (simp add: tick_tunnel_def)
    have "keeps_rest The_tunnel s s'" using unhealthy_rest u by (metis fst_conv)
    then show ?thesis using unhealthy_ok [OF ok u] Some by simp
  qed
qed

text \<open>The steps of a tick that ended without an exception.\<close>

lemma tick_steps:
  assumes "tick st a s = (s', Inr u)"
  obtains s1 s2 s3 s4 s5 s6 healthy ready where
    "observe_exit st The_mcp (ta_now a) (ta_mcp_exit a) s = (s1, Inr ())" "observe_exit st The_tunnel (ta_now a) (ta_tunnel_exit a) s1 = (s2, Inr ())"
    "start_if_due st The_mcp (ta_now a) (ta_mcp_start a) s2 = (s3, Inr ())" "tick_mcp st a s3 = (s4, Inr healthy)"
    "proxy_is_ready st (ta_proxy a) = Inr ready" "tick_dependencies st a healthy ready s4 = (s5, Inr ())" "tick_tunnel st a s5 = (s6, Inr ())"
    "s' = s6\<lparr>su_top := top_state st healthy ready s6\<rparr>"
proof -
  obtain s1 s2 s3 s4 healthy where st: "observe_exit st The_mcp (ta_now a) (ta_mcp_exit a) s = (s1, Inr ())"
    "observe_exit st The_tunnel (ta_now a) (ta_tunnel_exit a) s1 = (s2, Inr ())"
    "start_if_due st The_mcp (ta_now a) (ta_mcp_start a) s2 = (s3, Inr ())" "tick_mcp st a s3 = (s4, Inr healthy)"
    and rest: "(case proxy_is_ready st (ta_proxy a) of Inl e \<Rightarrow> (s4, Inl e) | Inr proxy_ready \<Rightarrow>
         sup_bind (tick_dependencies st a healthy proxy_ready s4) (\<lambda>_ s.
         sup_bind (tick_tunnel st a s) (\<lambda>_ s.
         (s\<lparr>su_top := top_state st healthy proxy_ready s\<rparr>, Inr ())))) = (s', Inr u)"
    using assms unfolding tick_def sup_bind_Inr by auto
  obtain ready where r: "proxy_is_ready st (ta_proxy a) = Inr ready" using rest by (cases "proxy_is_ready st (ta_proxy a)") auto
  obtain s5 s6 where "tick_dependencies st a healthy ready s4 = (s5, Inr ())" "tick_tunnel st a s5 = (s6, Inr ())"
    "s' = s6\<lparr>su_top := top_state st healthy ready s6\<rparr>"
    using rest r by (auto simp: sup_bind_Inr)
  with st r show thesis by (rule that)
qed

definition children_ok :: "supervisor \<Rightarrow> bool" where
  "children_ok s \<longleftrightarrow> child_ok (su_mcp s) \<and> child_ok (su_tunnel s)"

lemma tick_ok:
  assumes "tick st a s = (s', Inr u)" "children_ok s" "positive_delays st" "\<not> su_shutdown s"
  shows "children_ok s'" "starts_when_due (ta_now a) (su_mcp s) (su_mcp s')" "starts_when_due (ta_now a) (su_tunnel s) (su_tunnel s')"
    "su_shutdown s' = su_shutdown s" "su_stop_request s' = su_stop_request s"
    "ch_process (su_tunnel s') \<noteq> None \<Longrightarrow> st_tunnel_enabled st \<and> proxy_is_ready st (ta_proxy a) = Inr True \<and> mcp_answers a s'"
    "su_top s' = ''healthy'' \<Longrightarrow> mcp_answers a s' \<and> (st_tunnel_enabled st \<longrightarrow>
       proxy_is_ready st (ta_proxy a) = Inr True \<and> ch_process (su_tunnel s') \<noteq> None \<and> ta_tunnel_http a = Http_status 200)"
proof -
  obtain s1 s2 s3 s4 s5 s6 healthy ready where
    st: "observe_exit st The_mcp (ta_now a) (ta_mcp_exit a) s = (s1, Inr ())" "observe_exit st The_tunnel (ta_now a) (ta_tunnel_exit a) s1 = (s2, Inr ())"
    "start_if_due st The_mcp (ta_now a) (ta_mcp_start a) s2 = (s3, Inr ())" "tick_mcp st a s3 = (s4, Inr healthy)"
    "proxy_is_ready st (ta_proxy a) = Inr ready" "tick_dependencies st a healthy ready s4 = (s5, Inr ())" "tick_tunnel st a s5 = (s6, Inr ())"
    "s' = s6\<lparr>su_top := top_state st healthy ready s6\<rparr>"
    using tick_steps [OF assms(1)] .
  have ok: "child_ok (get_child The_mcp s)" "child_ok (get_child The_tunnel s)" using assms(2) by (simp_all add: children_ok_def)
  have f1: "keeps_rest The_mcp s s1" using observe_rest st(1) by (metis fst_conv)
  note o1 = observe_ok [OF ok(1) assms(3,4) st(1)]
  have t1: "child_ok (get_child The_tunnel s1)" "\<not> su_shutdown s1" "get_child The_tunnel s1 = get_child The_tunnel s"
    using f1 ok(2) assms(4) by (auto simp: keeps_rest_def simp del: get_child.simps)
  have f2: "keeps_rest The_tunnel s1 s2" using observe_rest st(2) by (metis fst_conv)
  note o2 = observe_ok [OF t1(1) assms(3) t1(2) st(2)]
  have m2: "get_child The_mcp s2 = get_child The_mcp s1" using f2 by (simp add: keeps_rest_def del: get_child.simps)
  have "child_ok (get_child The_mcp s2)" using o1 by (simp only: m2)
  note o3 = start_if_due_ok [OF this st(3)]
  have t3: "get_child The_tunnel s3 = get_child The_tunnel s2" using o3(2) by (simp add: keeps_rest_def del: get_child.simps)
  have "child_ok (su_mcp s3)" using o3(1) by simp
  note o4 = tick_mcp_ok [OF this st(4)]
  have t4: "su_tunnel s4 = su_tunnel s2" using t3 o4(3) by simp
  have "child_ok (su_tunnel s4)" using o2 t4 by simp
  note o5 = tick_dependencies_ok [OF this st(6)]
  note o6 = tick_tunnel_ok [OF conjunct1 [OF o5] st(7)]
  have m6: "su_mcp s6 = su_mcp s4" using o5 o6 by (auto simp: keeps_rest_def mcp_child simp del: get_child.simps)
  have m': "su_mcp s' = su_mcp s4" "su_tunnel s' = su_tunnel s6" using m6 st(8) by simp_all
  show "children_ok s'" using o4(1) o6 m' by (simp add: children_ok_def)
  show "starts_when_due (ta_now a) (su_mcp s) (su_mcp s')"
    using o1 o3(3) m2 o4(2) m'(1) by (auto simp: starts_when_due_def)
  have "ch_starts (su_tunnel s6) = ch_starts (su_tunnel s5)" using o6 by blast
  then show "starts_when_due (ta_now a) (su_tunnel s) (su_tunnel s')"
    using o2 o5 t1(3) t4 m'(2) by (auto simp: starts_when_due_def)
  have "su_shutdown s4 = su_shutdown s3" by (rule o4(4))
  then show "su_shutdown s' = su_shutdown s" using f1 f2 o3(2) o5 o6 st(8) by (simp add: keeps_rest_def)
  have "su_stop_request s4 = su_stop_request s3"
    by (rule o4(5))
  then show "su_stop_request s' = su_stop_request s" using f1 f2 o3(2) o5 o6 st(8) by (simp add: keeps_rest_def)
  have answers: "mcp_answers a s' = mcp_answers a s4" unfolding mcp_answers_def m'(1) ..
  show run: "ch_process (su_tunnel s') \<noteq> None \<Longrightarrow> st_tunnel_enabled st \<and> proxy_is_ready st (ta_proxy a) = Inr True \<and> mcp_answers a s'"
    using o5 o6 o4(6) answers m'(2) st(5) by (auto simp: may_run_def)
  assume top: "su_top s' = ''healthy''"
  then have h: "healthy" and rest: "st_tunnel_enabled st \<longrightarrow> ready \<and> ch_state (su_tunnel s6) = ''healthy''"
    using st(8) by (auto simp: top_state_def split: if_splits)
  have "ch_process (su_tunnel s') \<noteq> None \<and> ta_tunnel_http a = Http_status 200" if "ch_state (su_tunnel s6) = ''healthy''"
    using that o6 m'(2) by (auto simp: child_ok_def split: option.splits)
  then show "mcp_answers a s' \<and> (st_tunnel_enabled st \<longrightarrow>
       proxy_is_ready st (ta_proxy a) = Inr True \<and> ch_process (su_tunnel s') \<noteq> None \<and> ta_tunnel_http a = Http_status 200)"
    using h rest o4(6) answers st(5) by simp
qed

subsection \<open>Rounds\<close>

definition fresh_children :: "supervisor \<Rightarrow> bool" where
  "fresh_children s \<longleftrightarrow> su_mcp s = new_child ''mcp'' \<and> su_tunnel s = new_child ''tunnel'' \<and> \<not> su_shutdown s"

lemma fresh_ok: "fresh_children s \<Longrightarrow> children_ok s \<and> \<not> su_shutdown s"
  by (simp add: fresh_children_def children_ok_def child_ok_def new_child_def)

lemma write_frame:
  assumes "write_status st si force a s = (s', r)"
  shows "su_mcp s' = su_mcp s" "su_tunnel s' = su_tunnel s" "su_shutdown s' = su_shutdown s" "su_stop_request s' = su_stop_request s" "su_locked s' = su_locked s"
    "su_top s' = su_top s" "force \<Longrightarrow> r = Inr () \<Longrightarrow> \<exists>ready a. su_status s' = Some (status_payload st si a ready s)"
proof -
  have "su_mcp s' = su_mcp s \<and> su_tunnel s' = su_tunnel s \<and> su_shutdown s' = su_shutdown s \<and> su_stop_request s' = su_stop_request s
    \<and> su_locked s' = su_locked s \<and> su_top s' = su_top s"
    using assms by (auto simp: write_status_def Let_def split: if_splits sum.splits option.splits)
  then show "su_mcp s' = su_mcp s" "su_tunnel s' = su_tunnel s" "su_shutdown s' = su_shutdown s" "su_stop_request s' = su_stop_request s"
    "su_locked s' = su_locked s" "su_top s' = su_top s" by blast+
  show "\<exists>ready a. su_status s' = Some (status_payload st si a ready s)" if forced: "force" "r = Inr ()"
  proof -
    obtain ready where "s' = s\<lparr>su_heartbeat := sa_clock a, su_status := Some (status_payload st si a ready (s\<lparr>su_heartbeat := sa_clock a\<rparr>))\<rparr>"
      using assms forced by (auto simp: write_status_def Let_def split: sum.splits option.splits)
    moreover have "status_payload st si a ready (s\<lparr>su_heartbeat := sa_clock a\<rparr>) = status_payload st si a ready s" by (simp add: status_payload_def)
    ultimately show ?thesis by auto
  qed
qed

lemma round_cases:
  assumes "run_rounds st si (a # rest) s = (s', Inr b)"
  obtains "ra_request a \<or> su_stop_request s" "b" "su_mcp s' = su_mcp s" "su_tunnel s' = su_tunnel s"
    | s1 s2 where "\<not> ra_request a" "\<not> su_stop_request s" "tick st (ra_tick a) s = (s1, Inr ())"
      "write_status st si False (ra_status a) s1 = (s2, Inr ())" "run_rounds st si rest s2 = (s', Inr b)"
proof (cases "ra_request a \<or> su_stop_request s")
  case True
  then show thesis using assms that(1) by (auto simp: Let_def logged_def split: if_splits)
next
  case False
  then show thesis using assms that(2) by (auto simp: Let_def sup_bind_Inr)
qed

lemma rounds_ok:
  assumes "run_rounds st si rounds s = (s', Inr b)" "children_ok s" "\<not> su_shutdown s" "positive_delays st"
  shows "children_ok s' \<and> (\<not> b \<longrightarrow> \<not> su_shutdown s')"
  using assms
proof (induction rounds arbitrary: s)
  case (Cons a rest)
  show ?case
  proof (rule round_cases [OF Cons.prems(1)])
    fix s1 s2
    assume t: "tick st (ra_tick a) s = (s1, Inr ())" and w: "write_status st si False (ra_status a) s1 = (s2, Inr ())"
      and r: "run_rounds st si rest s2 = (s', Inr b)"
    note ok = tick_ok [OF t Cons.prems(2,4,3)] and f = write_frame [OF w]
    show ?thesis by (rule Cons.IH [OF r _ _ Cons.prems(4)]) (use ok f Cons.prems(3) in \<open>simp_all add: children_ok_def\<close>)
  qed (use Cons.prems in \<open>simp add: children_ok_def\<close>)
qed simp

text \<open>
  C36. The tunnel runs only behind a healthy MCP server: after every tick of a supervisor a tunnel process exists only when the tunnel is enabled, the proxy
  was ready, and the MCP server of this supervisor runs, owns its port as far as the system tells, and answered this tick's health
  request; \<open>healthy\<close> is reported only when in addition an enabled tunnel answered too.  The records of the two children stay consistent, and a
  child is started at most once per tick, only when it had no process and its backoff has passed.
\<close>
theorem tunnel_behind_mcp:
  assumes "fresh_children s0" "positive_delays st" "run_rounds st si rounds s0 = (s, Inr False)" "tick st a s = (s', Inr ())"
  shows "(ch_process (su_tunnel s') \<noteq> None \<longrightarrow> st_tunnel_enabled st \<and> proxy_is_ready st (ta_proxy a) = Inr True \<and> mcp_answers a s')
    \<and> (su_top s' = ''healthy'' \<longrightarrow> mcp_answers a s'
        \<and> (st_tunnel_enabled st \<longrightarrow> ch_process (su_tunnel s') \<noteq> None \<and> ta_tunnel_http a = Http_status 200))
    \<and> children_ok s' \<and> starts_when_due (ta_now a) (su_mcp s) (su_mcp s') \<and> starts_when_due (ta_now a) (su_tunnel s) (su_tunnel s')"
proof -
  have "children_ok s \<and> \<not> su_shutdown s" using rounds_ok [OF assms(3)] fresh_ok [OF assms(1)] assms(2) by blast
  then show ?thesis using tick_ok [OF assms(4) _ assms(2)] by blast
qed

subsection \<open>How a run ends\<close>

definition status_state :: "supervisor \<Rightarrow> string option" where
  "status_state s = (case su_status s of Some (JObj d) \<Rightarrow> (case map_of d ''state'' of Some (JStr t) \<Rightarrow> Some t | _ \<Rightarrow> None) | _ \<Rightarrow> None)"

definition no_children :: "supervisor \<Rightarrow> bool" where
  "no_children s \<longleftrightarrow> ch_process (su_mcp s) = None \<and> ch_process (su_tunnel s) = None"

lemma forced_status: "write_status st si True a s = (s', Inr ()) \<Longrightarrow> status_state s' = Some (su_top s)"
  using write_frame(7) [of st si True a s s' "Inr ()"] by (auto simp: status_state_def status_payload_def)

lemma stop_none: "ch_process (get_child w (stop_child w polled s)) = None"
  by (simp add: stop_child_def split: option.split)

lemma shutdown_none: "no_children (shutdown_children p q s)"
proof -
  let ?s = "stop_child The_tunnel p (s\<lparr>su_top := ''stopping''\<rparr>)"
  have "get_child The_tunnel (stop_child The_mcp q ?s) = get_child The_tunnel ?s"
    by (rule keeps_restD [OF stop_rest]) simp
  then show ?thesis using stop_none [of The_mcp q ?s] stop_none [of The_tunnel p "s\<lparr>su_top := ''stopping''\<rparr>"]
    by (simp add: no_children_def shutdown_children_def)
qed

lemma shutdown_top: "su_top (shutdown_children p q s) = ''stopping''"
proof -
  have "su_top (on_child w f s) = su_top s" "su_top (logged e s) = su_top s" for w f s e
    by (cases w; simp add: on_child.simps logged_def)+
  then show ?thesis by (simp add: shutdown_children_def stop_child_def split: option.split)
qed

lemma failed_end:
  assumes "run_failed st si a e s = (s', r)"
  shows "no_children s' \<and> \<not> su_locked s' \<and> r \<noteq> Still_running \<and> (r = Returned 1 \<longrightarrow> status_state s' = Some ''stopping'') \<and> r \<noteq> Returned 0 \<and> r \<noteq> Returned 2"
proof -
  let ?s = "shutdown_children (rn_tunnel_stop a) (rn_mcp_stop a) (logged (Log_supervisor_failed e) (s\<lparr>su_top := ''failed''\<rparr>))"
  obtain s1 x where w: "write_status st si True (rn_failed_status a) ?s = (s1, x)" by fastforce
  have eq: "run_failed st si a e s = (case (s1, x) of (s, Inl e') \<Rightarrow> (s\<lparr>su_locked := False\<rparr>, Raised e') | (s, Inr _) \<Rightarrow> (s\<lparr>su_locked := False\<rparr>, Returned 1))"
    unfolding run_failed_def w ..
  have none: "no_children s1" using write_frame(1,2) [OF w] shutdown_none by (simp add: no_children_def)
  show ?thesis
  proof (cases x)
    case (Inl e')
    then have "s' = s1\<lparr>su_locked := False\<rparr>" "r = Raised e'" using assms eq by simp_all
    then show ?thesis using none by (simp add: no_children_def)
  next
    case (Inr u)
    have "status_state s1 = Some ''stopping''" using forced_status [of st si _ ?s s1] w Inr shutdown_top by simp
    moreover have "s' = s1\<lparr>su_locked := False\<rparr>" "r = Returned 1" using assms eq Inr by simp_all
    ultimately show ?thesis using none by (simp add: no_children_def status_state_def)
  qed
qed

lemma rounds_running: "run_rounds st si rounds s = (s', Inr False) \<Longrightarrow> list_all (\<lambda>a. \<not> ra_request a) rounds"
proof (induction rounds arbitrary: s)
  case (Cons a rest)
  show ?case by (rule round_cases [OF Cons.prems]) (use Cons.IH in auto)
qed simp

lemma body_end:
  assumes "run_body st si a rounds s = (s', Inr b)"
  shows "if b then no_children s' \<and> status_state s' = Some ''stopped'' else list_all (\<lambda>a. \<not> ra_request a) rounds"
proof -
  obtain recovery where rec: "rn_recovery a = Inr recovery" using assms by (cases "rn_recovery a") (auto simp: run_body_def)
  obtain s1 s2 stopped where r: "run_rounds st si rounds s1 = (s2, Inr stopped)"
    and rest: "(if \<not> stopped then (s2, Inr False)
             else sup_bind (write_status st si True (rn_last_status a)
                    ((shutdown_children (rn_tunnel_stop a) (rn_mcp_stop a) s2)\<lparr>su_top := ''stopped'', su_stop_request := False\<rparr>))
                    (\<lambda>_ s. (logged Log_supervisor_stopped s, Inr True))) = (s', Inr b)"
    using assms rec by (auto simp: run_body_def sup_bind_Inr Let_def)
  show ?thesis
  proof (cases stopped)
    case False
    then show ?thesis using rest r rounds_running by auto
  next
    case True
    let ?s = "(shutdown_children (rn_tunnel_stop a) (rn_mcp_stop a) s2)\<lparr>su_top := ''stopped'', su_stop_request := False\<rparr>"
    obtain s3 where w: "write_status st si True (rn_last_status a) ?s = (s3, Inr ())" and s': "s' = logged Log_supervisor_stopped s3" "b"
      using rest True by (auto simp: sup_bind_Inr)
    have "no_children s3" using write_frame(1,2) [OF w] shutdown_none [of "rn_tunnel_stop a" "rn_mcp_stop a" s2] by (simp add: no_children_def)
    moreover have "status_state s3 = Some ''stopped''" using forced_status [OF w] by simp
    ultimately show ?thesis using s' by (simp add: no_children_def status_state_def)
  qed
qed

text \<open>
  How a run ends: a second supervisor returns 2 and changes nothing; a run is still going only while no stop was requested; every other run ends,
  also after an exception, with both children gone and the lock released.  A requested stop leaves the status \<open>stopped\<close>; a failed run leaves
  \<open>stopping\<close>, never \<open>failed\<close>.
\<close>
lemma run_ends:
  "case run st si a rounds s of (s', r) \<Rightarrow>
     (r = Returned 2 \<longleftrightarrow> \<not> rn_lock a) \<and> (if \<not> rn_lock a then s' = logged Log_duplicate_start s
      else if r = Still_running then list_all (\<lambda>a. \<not> ra_request a) rounds
      else no_children s' \<and> \<not> su_locked s'
        \<and> (if r = Returned 0 then status_state s' = Some ''stopped'' else r = Returned 1 \<longrightarrow> status_state s' = Some ''stopping''))"
proof -
  obtain s1 x where b: "run_body st si a rounds (s\<lparr>su_locked := True\<rparr>) = (s1, x)" by fastforce
  show ?thesis
  proof (cases "rn_lock a")
    case False
    then show ?thesis by (simp add: run_def)
  next
    case True
    show ?thesis
    proof (cases x)
      case (Inl e)
      obtain s' r where f: "run_failed st si a e s1 = (s', r)" by fastforce
      have "run st si a rounds s = (s', r)" using f b True Inl by (simp add: run_def)
      then show ?thesis using failed_end [OF f] True by simp
    next
      case (Inr c)
      then show ?thesis using body_end [OF b [unfolded Inr]] b True by (cases c) (auto simp: run_def no_children_def status_state_def)
    qed
  qed
qed

subsection \<open>The backoff overflows\<close>

text \<open>Every start of the MCP server fails and each tick comes after the longest delay.\<close>

fun hopeless :: "sup_settings \<Rightarrow> real \<Rightarrow> round_answers list \<Rightarrow> bool" where
  "hopeless st t [] = True"
| "hopeless st t (a # rest) =
     (\<not> ra_request a \<and> t \<le> ta_now (ra_tick a) \<and> sa_write (ra_status a) = None
      \<and> (case ta_mcp_start (ra_tick a) of Start_error _ clock \<Rightarrow> hopeless st (clock + st_max_delay st) rest | Started _ _ _ \<Rightarrow> False))"

definition failing :: "nat \<Rightarrow> real \<Rightarrow> supervisor \<Rightarrow> bool" where
  "failing k t s \<longleftrightarrow> ch_process (su_mcp s) = None \<and> ch_failures (su_mcp s) = k \<and> ch_next (su_mcp s) \<le> t \<and> ch_process (su_tunnel s) = None
     \<and> \<not> su_stop_request s"

lemma delay_overflows:
  assumes "2 \<le> st_multiplier st" "1025 \<le> n"
  shows "\<exists>e. restart_delay st n = Inl e"
proof -
  have "(2::real) ^ 1024 \<le> 2 ^ (n - 1)" by (rule power_increasing) (use assms(2) in auto)
  also have "\<dots> \<le> st_multiplier st ^ (n - 1)" by (rule power_mono) (use assms(1) in auto)
  finally show ?thesis by (simp add: restart_delay_def Let_def del: power_increasing_iff)
qed

lemma failing_start:
  assumes "failing k t s" "t \<le> now" "ch_next (su_mcp s) \<le> now" "start_if_due st The_mcp now (Start_error e clock) s = (s', x)"
  shows "(case x of Inl _ \<Rightarrow> True | Inr _ \<Rightarrow> failing (Suc k) (clock + st_max_delay st) s') \<and> (1024 \<le> k \<and> 2 \<le> st_multiplier st \<longrightarrow> x \<noteq> Inr ())"
proof (cases "restart_delay st (Suc k)")
  case (Inl e')
  then show ?thesis using assms by (auto simp: start_if_due_def start_child_def schedule_restart_def failing_def Let_def)
next
  case (Inr d)
  have le: "d \<le> st_max_delay st" using Inr by (auto simp: restart_delay_def Let_def split: if_splits)
  have "\<not> (1024 \<le> k \<and> 2 \<le> st_multiplier st)" using delay_overflows [of st "Suc k"] Inr by fastforce
  moreover have "failing (Suc k) (clock + st_max_delay st) s' \<and> x = Inr ()"
    using assms Inr le by (auto simp: start_if_due_def start_child_def schedule_restart_def failing_def Let_def)
  ultimately show ?thesis by simp
qed

lemma failing_tick:
  assumes "failing k t s" "t \<le> ta_now a" "ta_mcp_start a = Start_error e clock" "\<forall>c. is_ok (proxy_is_ready st c)" "tick st a s = (s', x)"
  shows "(case x of Inl _ \<Rightarrow> True | Inr _ \<Rightarrow> failing (Suc k) (clock + st_max_delay st) s') \<and> (1024 \<le> k \<and> 2 \<le> st_multiplier st \<longrightarrow> x \<noteq> Inr ())"
proof -
  obtain s1 y where st: "start_if_due st The_mcp (ta_now a) (Start_error e clock) s = (s1, y)" by fastforce
  have due: "ch_next (su_mcp s) \<le> ta_now a" using assms(1,2) by (simp add: failing_def)
  note f = failing_start [OF assms(1,2) due st]
  have o: "observe_exit st The_mcp (ta_now a) (ta_mcp_exit a) s = (s, Inr ())" "observe_exit st The_tunnel (ta_now a) (ta_tunnel_exit a) s = (s, Inr ())"
    using assms(1) by (simp_all add: observe_exit_def failing_def)
  show ?thesis
  proof (cases y)
    case (Inl e')
    then have "x = Inl e'" using assms(3,5) o st by (simp add: tick_def sup_bind_def)
    then show ?thesis by simp
  next
    case (Inr u)
    then have s1: "failing (Suc k) (clock + st_max_delay st) s1" using f by simp
    obtain c where c: "proxy_is_ready st (ta_proxy a) = Inr c" using assms(4) by (metis is_ok_simps(1) sum.exhaust)
    have m: "tick_mcp st a s1 = (s1, Inr False)" using s1 by (simp add: tick_mcp_def failing_def)
    obtain s2 where d: "tick_dependencies st a False c s1 = (s2, Inr ())" and s2: "failing (Suc k) (clock + st_max_delay st) s2"
      using s1 by (cases "st_tunnel_enabled st") (simp_all add: tick_dependencies_def failing_def stop_child_def)
    have t: "tick_tunnel st a s2 = (s2, Inr ())" using s2 by (simp add: tick_tunnel_def failing_def)
    have "s' = s2\<lparr>su_top := top_state st False c s2\<rparr>" "x = Inr ()"
      using assms(3,5) o st Inr m c d t by (simp_all add: tick_def sup_bind_def)
    then show ?thesis using s2 f Inr by (simp add: failing_def)
  qed
qed

lemma hopeless_rounds:
  assumes "failing k t s" "hopeless st t rounds" "2 \<le> st_multiplier st" "\<forall>c. is_ok (proxy_is_ready st c)" "k \<le> 1024" "1025 \<le> k + length rounds"
  shows "\<exists>s' e. run_rounds st si rounds s = (s', Inl e)"
  using assms
proof (induction rounds arbitrary: k t s)
  case (Cons a rest)
  obtain e clock where start: "ta_mcp_start (ra_tick a) = Start_error e clock" and h: "hopeless st (clock + st_max_delay st) rest"
    and a: "\<not> ra_request a" "t \<le> ta_now (ra_tick a)" "sa_write (ra_status a) = None"
    using Cons.prems(2) by (auto split: start_answer.splits)
  obtain s1 x where t: "tick st (ra_tick a) s = (s1, x)" by fastforce
  note f = failing_tick [OF Cons.prems(1) a(2) start Cons.prems(4) t]
  have stop: "\<not> su_stop_request s" using Cons.prems(1) by (simp add: failing_def)
  show ?case
  proof (cases x)
    case (Inl e')
    then show ?thesis using a(1) stop t by (simp add: sup_bind_def)
  next
    case (Inr u)
    have k: "k < 1024" using f Inr Cons.prems(3) by (cases "k < 1024") auto
    obtain s2 where w: "write_status st si False (ra_status a) s1 = (s2, Inr ())"
    proof -
      obtain c where "proxy_is_ready st (sa_proxy (ra_status a)) = Inr c" using Cons.prems(4) by (metis is_ok_simps(1) sum.exhaust)
      then show thesis using a(3) that by (cases "sa_clock (ra_status a) - su_heartbeat s1 < st_heartbeat st") (simp_all add: write_status_def Let_def)
    qed
    have "failing (Suc k) (clock + st_max_delay st) s2" using f Inr write_frame [OF w] by (simp add: failing_def)
    then have "\<exists>s' e. run_rounds st si rest s2 = (s', Inl e)"
      using Cons.IH [OF _ h Cons.prems(3,4)] k Cons.prems(6) by simp
    then show ?thesis using a(1) stop t w Inr by (simp add: sup_bind_def)
  qed
qed simp

text \<open>
  The backoff ends the supervisor: with the shipped multiplier (2, or any larger one) the 1025th failed start in a row raises an
  overflow in the delay computation, and the supervisor itself ends with exit code 1, although the delay is capped and nothing asked it
  to stop.
\<close>
lemma backoff_overflow:
  assumes "2 \<le> st_multiplier st" "fresh_children s" "hopeless st 0 rounds" "1025 \<le> length rounds" "\<forall>c. is_ok (proxy_is_ready st c)"
    and "rn_lock a" "rn_recovery a = Inr recovery" "sa_write (rn_first_status a) = None" "sa_write (rn_failed_status a) = None"
  shows "\<exists>s'. run st si a rounds s = (s', Returned 1)"
proof -
  have wr: "\<exists>s'. write_status st si True b s = (s', Inr ())" if "sa_write b = None" for b s
  proof -
    obtain c where "proxy_is_ready st (sa_proxy b) = Inr c" using assms(5) by (metis is_ok_simps(1) sum.exhaust)
    then show ?thesis using that by (simp add: write_status_def Let_def)
  qed
  let ?s = "logged Log_supervisor_started (s\<lparr>su_locked := True, su_stop_request := False, su_recovery := recovery\<rparr>)"
  obtain s1 where s1: "write_status st si True (rn_first_status a) ?s = (s1, Inr ())" using wr assms(8) by blast
  have "failing 0 0 s1" using write_frame [OF s1] assms(2) by (simp add: failing_def fresh_children_def new_child_def logged_def)
  then have "\<exists>s2 e. run_rounds st si rounds s1 = (s2, Inl e)" by (rule hopeless_rounds [OF _ assms(3,1,5)]) (use assms(4) in auto)
  then obtain s2 e where "run_rounds st si rounds s1 = (s2, Inl e)" by blast
  then have body: "run_body st si a rounds (s\<lparr>su_locked := True\<rparr>) = (s2, Inl e)"
    using s1 assms(7) by (simp add: run_body_def sup_bind_def Let_def)
  obtain s3 where "write_status st si True (rn_failed_status a)
      (shutdown_children (rn_tunnel_stop a) (rn_mcp_stop a) (logged (Log_supervisor_failed e) (s2\<lparr>su_top := ''failed''\<rparr>))) = (s3, Inr ())"
    using wr assms(9) by blast
  then show ?thesis using body assms(6) by (simp add: run_def run_failed_def)
qed

subsection \<open>Concrete runs\<close>

definition demo_sup_settings :: sup_settings where
  "demo_sup_settings =
     \<lparr>st_poll = 2, st_heartbeat = 5, st_startup = 120, st_initial = 2, st_multiplier = 2, st_max_delay = 60, st_stable = 300,
      st_tunnel_enabled = True, st_host = ''127.0.0.1'', st_port = 8765, st_mcp_path = ''/mcp'', st_proxy_enabled = False, st_proxy_url = []\<rparr>"

definition demo_tick :: tick_answers where
  "demo_tick =
     \<lparr>ta_now = 10, ta_mcp_exit = None, ta_tunnel_exit = None, ta_mcp_start = Started 7 10 (Some ''i7''), ta_mcp_polled = None, ta_owners = Some [7],
      ta_mcp_http = Http_status 200, ta_mcp_stop = None, ta_proxy = False, ta_tunnel_stop = None, ta_doctor = Doctor_exit 0,
      ta_tunnel_start = Started 8 10 (Some ''i8''), ta_tunnel_http = Http_status 200\<rparr>"

definition demo_status :: status_answers where
  "demo_status = \<lparr>sa_clock = 0, sa_pid = 1, sa_identity = None, sa_now = ''t'', sa_mcp_alive = True, sa_tunnel_alive = True, sa_mcp_clock = 0,
     sa_tunnel_clock = 0, sa_owners = None, sa_proxy = False, sa_write = None\<rparr>"

definition demo_fail_round :: "nat \<Rightarrow> round_answers" where
  "demo_fail_round k = \<lparr>ra_request = False,
     ra_tick = demo_tick\<lparr>ta_now := 60 * real k, ta_mcp_start := Start_error ''no such file'' (60 * real k)\<rparr>,
     ra_status = demo_status\<rparr>"

definition demo_run :: run_answers where
  "demo_run = \<lparr>rn_lock = True, rn_recovery = Inr (JObj []), rn_first_status = demo_status, rn_tunnel_stop = None, rn_mcp_stop = None,
     rn_last_status = demo_status, rn_failed_status = demo_status\<rparr>"

definition demo_sup_identity :: sup_identity where
  "demo_sup_identity = \<lparr>si_run_id = ''r'', si_started = ''t'', si_base = ''/b''\<rparr>"

lemma demo_fresh: "fresh_children new_supervisor"
  by (simp add: fresh_children_def new_supervisor_def)

lemma demo_proxy: "proxy_is_ready demo_sup_settings c = Inr True"
  by (simp add: proxy_is_ready_def demo_sup_settings_def)

lemma demo_ticked: "\<exists>s'. tick demo_sup_settings demo_tick new_supervisor = (s', Inr ()) \<and> ch_process (su_tunnel s') = Some 8"
  by (simp add: tick_def sup_bind_def observe_exit_def new_supervisor_def new_child_def start_if_due_def demo_tick_def start_child_def Let_def
      logged_def on_child.simps tick_mcp_def mcp_is_healthy_def http_ready_def mark_healthy_def reset_failures_if_stable_def tick_dependencies_def
      tunnel_doctor_def tick_tunnel_def demo_proxy)
    (simp add: demo_sup_settings_def)

theorem tunnel_behind_mcp_witness:
  "\<exists>s'. tick demo_sup_settings demo_tick new_supervisor = (s', Inr ()) \<and> ch_process (su_tunnel s') = Some 8 \<and> mcp_answers demo_tick s' \<and> children_ok s'"
proof -
  obtain s' where s': "tick demo_sup_settings demo_tick new_supervisor = (s', Inr ())" "ch_process (su_tunnel s') = Some 8"
    using demo_ticked by blast
  have "positive_delays demo_sup_settings" by (simp add: positive_delays_def demo_sup_settings_def)
  moreover have "run_rounds demo_sup_settings demo_sup_identity [] new_supervisor = (new_supervisor, Inr False)" by simp
  ultimately show ?thesis using tunnel_behind_mcp [OF demo_fresh _ _ s'(1)] s' by blast
qed

lemma run_ends_witness:
  "case run demo_sup_settings demo_sup_identity demo_run [demo_fail_round 1\<lparr>ra_request := True\<rparr>] new_supervisor of (s', r) \<Rightarrow>
     r = Returned 0 \<and> no_children s' \<and> status_state s' = Some ''stopped''"
proof -
  let ?rounds = "[demo_fail_round 1\<lparr>ra_request := True\<rparr>]"
  obtain s' r where r: "run demo_sup_settings demo_sup_identity demo_run ?rounds new_supervisor = (s', r)" by fastforce
  have "r = Returned 0"
    using r by (simp add: run_def demo_run_def run_body_def write_status_def demo_status_def demo_proxy sup_bind_def Let_def)
  moreover have "rn_lock demo_run" by (simp add: demo_run_def)
  ultimately show ?thesis using run_ends [where st = demo_sup_settings and si = demo_sup_identity and a = demo_run and rounds = ?rounds and s = new_supervisor] r by simp
qed

lemma demo_hopeless: "hopeless demo_sup_settings (60 * real k) (map demo_fail_round [k..<k + n])"
proof (induction n arbitrary: k)
  case (Suc n)
  have "[k..<k + Suc n] = k # [Suc k..<Suc k + n]" by (simp add: upt_conv_Cons)
  moreover have "60 * real k + 60 = 60 * real (Suc k)" by simp
  ultimately show ?case using Suc.IH [of "Suc k"]
    by (simp add: demo_fail_round_def demo_tick_def demo_status_def demo_sup_settings_def del: of_nat_Suc)
qed simp

lemma backoff_overflow_witness:
  "\<exists>s'. run demo_sup_settings demo_sup_identity demo_run (map demo_fail_round [0..<1025]) new_supervisor = (s', Returned 1)"
proof -
  have "2 \<le> st_multiplier demo_sup_settings" by (simp add: demo_sup_settings_def)
  moreover have "hopeless demo_sup_settings 0 (map demo_fail_round [0..<1025])" using demo_hopeless [of 0 1025] by simp
  moreover have "\<forall>c. is_ok (proxy_is_ready demo_sup_settings c)" by (simp add: demo_proxy)
  moreover have "rn_lock demo_run" "rn_recovery demo_run = Inr (JObj [])" "sa_write (rn_first_status demo_run) = None" "sa_write (rn_failed_status demo_run) = None"
    by (simp_all add: demo_run_def demo_status_def)
  ultimately show ?thesis using backoff_overflow [OF _ demo_fresh] by simp
qed

end
