(* ===== verification/Artifact_Registry.thy ===== *)
theory Artifact_Registry
  imports Workspace_Table Path_Guard Py_Urls Local_Disk
begin

text \<open>
  The artifact registry of \<open>app/services/artifact_registry.py\<close> with the artifacts table of \<open>app/storage/database.py\<close>: registration,
  listing, deletion and discovery.  The file system is an argument: what \<open>resolve\<close>, \<open>is_file\<close>, \<open>stat\<close>, \<open>read_bytes\<close> and
  \<open>glob\<close> answer, the hash, and the guess of \<open>mimetypes\<close>.
\<close>

subsection \<open>The table\<close>

record artifact_row =
  ar_id :: string
  ar_workspace :: string
  ar_kind :: string
  ar_path :: string
  ar_mime :: "string option"
  ar_size :: int
  ar_sha :: "string option"
  ar_source :: "string option"
  ar_process :: "string option"
  ar_created :: string
  ar_metadata :: "json option"

type_synonym artifact_table = "artifact_row list"

definition insert_artifact :: "workspace_table \<Rightarrow> artifact_row \<Rightarrow> artifact_table \<Rightarrow> string + artifact_table" where
  "insert_artifact workspaces row table =
     (if ar_id row \<in> set (map ar_id table) then Inl ''UNIQUE constraint failed: artifacts.artifact_id''
      else if map_of workspaces (ar_workspace row) = None then Inl ''FOREIGN KEY constraint failed''
      else Inr (table @ [row]))"

definition get_artifact :: "string \<Rightarrow> artifact_table \<Rightarrow> artifact_row option" where
  "get_artifact aid table = find (\<lambda>r. ar_id r = aid) table"

text \<open>\<open>ORDER BY created_at DESC\<close>; rows of the same instant stay in table order.\<close>

definition newest_first :: "artifact_row list \<Rightarrow> artifact_row list" where
  "newest_first rows = rev (sort_key ar_created (rev rows))"

definition find_artifact :: "string \<Rightarrow> string \<Rightarrow> string option \<Rightarrow> artifact_table \<Rightarrow> artifact_row option" where
  "find_artifact ws path sha table =
     (case newest_first (filter (\<lambda>r. ar_workspace r = ws \<and> ar_path r = path \<and> ar_sha r = sha) table) of
        [] \<Rightarrow> None
      | r # _ \<Rightarrow> Some r)"

text \<open>SQLite's \<open>LIKE\<close>: \<open>%\<close> matches any text, \<open>_\<close> any character, letters match in both cases.\<close>

fun sql_like :: "string \<Rightarrow> string \<Rightarrow> bool" where
  "sql_like [] s = (s = [])"
| "sql_like (p # ps) [] = (p = CHR ''%'' \<and> sql_like ps [])"
| "sql_like (p # ps) (c # cs) =
     (if p = CHR ''%'' then sql_like ps (c # cs) \<or> sql_like (p # ps) cs
      else (p = CHR ''_'' \<or> py_lower [p] = py_lower [c]) \<and> sql_like ps cs)"

definition select_artifacts :: "string \<Rightarrow> string option \<Rightarrow> string option \<Rightarrow> artifact_table \<Rightarrow> artifact_row list" where
  "select_artifacts ws kind path_prefix table =
     newest_first (filter (\<lambda>r. ar_workspace r = ws \<and> (case kind of None \<Rightarrow> True | Some k \<Rightarrow> ar_kind r = k)
       \<and> (case path_prefix of None \<Rightarrow> True | Some p \<Rightarrow> sql_like (p @ ''%'') (ar_path r))) table)"

definition list_artifacts_for_process :: "string \<Rightarrow> string \<Rightarrow> artifact_table \<Rightarrow> artifact_row list" where
  "list_artifacts_for_process ws pid table = sort_key ar_created (filter (\<lambda>r. ar_workspace r = ws \<and> ar_process r = Some pid) table)"

definition remove_artifact :: "string \<Rightarrow> artifact_table \<Rightarrow> artifact_table \<times> bool" where
  "remove_artifact aid table = (filter (\<lambda>r. ar_id r \<noteq> aid) table, list_ex (\<lambda>r. ar_id r = aid) table)"

definition remove_workspace_artifacts :: "string \<Rightarrow> artifact_table \<Rightarrow> artifact_table \<times> nat" where
  "remove_workspace_artifacts ws table =
     (filter (\<lambda>r. ar_workspace r \<noteq> ws) table, length (filter (\<lambda>r. ar_workspace r = ws) table))"

definition count_artifacts :: "string \<Rightarrow> artifact_table \<Rightarrow> nat \<times> (string \<times> nat) list" where
  "count_artifacts ws table =
     (let rows = filter (\<lambda>r. ar_workspace r = ws) table
      in (length rows, map (\<lambda>k. (k, length (filter (\<lambda>r. ar_kind r = k) rows))) (remdups (map ar_kind rows))))"

subsection \<open>The world\<close>

record artifact_fs =
  af_resolve :: "path \<Rightarrow> path"
  af_is_file :: "path \<Rightarrow> bool"
  af_is_dir :: "path \<Rightarrow> bool"
  af_size :: "path \<Rightarrow> int option"
  af_bytes :: "path \<Rightarrow> string option"
  af_sha :: "string \<Rightarrow> string"
  af_decode :: "string \<Rightarrow> string option"
  af_glob :: "path \<Rightarrow> string \<Rightarrow> path list"
  af_mime :: "string \<Rightarrow> string option"
  af_store :: path

record artifact_world =
  aw_workspaces :: workspace_table
  aw_rows :: artifact_table
  aw_ops :: "operation_row list"

definition workspace_root :: "artifact_fs \<Rightarrow> workspace_table \<Rightarrow> string \<Rightarrow> path option" where
  "workspace_root fs workspaces ws = map_option (\<lambda>r. af_resolve fs (path_parts (ws_path r))) (map_of workspaces ws)"

definition controlled_store_root :: "artifact_fs \<Rightarrow> path" where
  "controlled_store_root fs = af_resolve fs (af_store fs)"

text \<open>A stored path below the root, resolved, when it is inside the workspace or the controlled store.\<close>

definition located :: "artifact_fs \<Rightarrow> path \<Rightarrow> string \<Rightarrow> path option" where
  "located fs base stored =
     (let candidate = af_resolve fs (if is_absolute stored then path_parts stored else base @ path_parts stored)
      in if prefix base candidate \<or> prefix (controlled_store_root fs) candidate then Some candidate else None)"

definition resolve_artifact_path :: "artifact_fs \<Rightarrow> workspace_table \<Rightarrow> artifact_row \<Rightarrow> path option" where
  "resolve_artifact_path fs workspaces r =
     (case workspace_root fs workspaces (ar_workspace r) of None \<Rightarrow> None | Some base \<Rightarrow> located fs base (ar_path r))"

definition validate_artifact_path :: "artifact_fs \<Rightarrow> workspace_table \<Rightarrow> string \<Rightarrow> string \<Rightarrow> string + path" where
  "validate_artifact_path fs workspaces ws path =
     (case workspace_root fs workspaces ws of
        None \<Rightarrow> Inl (''workspace not found: '' @ ws)
      | Some base \<Rightarrow>
          (case located fs base path of
             None \<Rightarrow> Inl ''artifact path must be inside the workspace or controlled artifact store''
           | Some p \<Rightarrow> Inr p))"

subsection \<open>Kinds\<close>

text \<open>\<open>PurePath.suffix\<close>.\<close>

definition py_suffix :: "string \<Rightarrow> string" where
  "py_suffix s =
     (let name = (if path_parts s = [] then [] else last (path_parts s)); ext = after_last (CHR ''.'') name
      in if CHR ''.'' \<in> set name \<and> ext \<noteq> [] \<and> before_last (CHR ''.'') name \<noteq> [] then CHR ''.'' # ext else [])"

definition extension_kinds :: "(string \<times> string) list" where
  "extension_kinds =
     [(''.png'', ''image''), (''.jpg'', ''image''), (''.jpeg'', ''image''), (''.webp'', ''image''), (''.gif'', ''image''), (''.bmp'', ''image''),
      (''.svg'', ''image''), (''.html'', ''html''), (''.htm'', ''html''), (''.json'', ''json''), (''.xml'', ''xml''), (''.log'', ''text''),
      (''.txt'', ''text''), (''.md'', ''text''), (''.csv'', ''text'')]"

definition kind_of_extension :: "string \<Rightarrow> string" where
  "kind_of_extension path = dict_get ''unknown'' extension_kinds (py_lower (py_suffix path))"

definition detect_kind :: "string option \<Rightarrow> string \<Rightarrow> string" where
  "detect_kind mime path =
     (case mime of
        None \<Rightarrow> kind_of_extension path
      | Some t \<Rightarrow>
          if t = [] then kind_of_extension path
          else if py_startswith t ''image/'' then ''image''
          else if t = ''text/html'' then ''html''
          else if t = ''application/json'' then ''json''
          else if t = ''application/xml'' \<or> t = ''text/xml'' then ''xml''
          else if py_startswith t ''text/'' then ''text''
          else kind_of_extension path)"

definition compute_sha256 :: "artifact_fs \<Rightarrow> path \<Rightarrow> string option" where
  "compute_sha256 fs p = map_option (af_sha fs) (af_bytes fs p)"

subsection \<open>Registration\<close>

text \<open>\<open>ValueError\<close>, the integrity errors of the database, and \<open>OSError\<close>.\<close>

datatype artifact_error = Art_value string | Art_integrity string | Art_os

record register_call =
  rg_workspace :: string
  rg_path :: string
  rg_mime :: "string option"
  rg_size :: "int option"
  rg_sha :: "string option"
  rg_kind :: "string option"
  rg_source :: "string option"
  rg_process :: "string option"
  rg_metadata :: "(string \<times> json) list"

text \<open>The random identifiers and the clock of one call.\<close>

record fresh_answers =
  fr_artifact :: string
  fr_operation :: string
  fr_request :: string
  fr_now :: string
  fr_ms :: int

definition artifact_operation ::
  "string \<Rightarrow> string \<Rightarrow> string option \<Rightarrow> string option \<Rightarrow> string \<Rightarrow> string \<Rightarrow> string \<Rightarrow> int option \<Rightarrow> operation_row" where
  "artifact_operation op tool ws request summary input status ms =
     \<lparr>op_id = ''op_'' @ op, op_workspace = ws, op_tool = tool, op_summary = summary, op_success = True, op_request_id = request,
      op_input_summary = Some input, op_status = status, op_duration_ms = ms, op_error_code = None\<rparr>"

definition log_artifact_operation :: "operation_row \<Rightarrow> artifact_world \<Rightarrow> string + artifact_world" where
  "log_artifact_operation row w = obind (log_operation row (aw_ops w)) (\<lambda>ops. Inr (w\<lparr>aw_ops := ops\<rparr>))"

definition new_artifact_row :: "register_call \<Rightarrow> fresh_answers \<Rightarrow> int \<Rightarrow> string option \<Rightarrow> string \<Rightarrow> artifact_row" where
  "new_artifact_row c fr nbytes sha kind =
     \<lparr>ar_id = ''artifact_'' @ fr_artifact fr, ar_workspace = rg_workspace c, ar_kind = kind, ar_path = rg_path c, ar_mime = rg_mime c,
      ar_size = nbytes, ar_sha = sha, ar_source = rg_source c, ar_process = rg_process c, ar_created = fr_now fr,
      ar_metadata = (if rg_metadata c = [] then None else Some (JObj (rg_metadata c)))\<rparr>"

text \<open>A failing audit insert raises after the artifact row is committed.\<close>

definition register_artifact :: "artifact_fs \<Rightarrow> register_call \<Rightarrow> fresh_answers \<Rightarrow> artifact_world \<Rightarrow> artifact_world \<times> (artifact_error + artifact_row)" where
  "register_artifact fs c fr w =
     (case validate_artifact_path fs (aw_workspaces w) (rg_workspace c) (rg_path c) of
        Inl e \<Rightarrow> (w, Inl (Art_value e))
      | Inr p \<Rightarrow>
          (let nbytes = (case rg_size c of Some n \<Rightarrow> n | None \<Rightarrow> (case af_size fs p of None \<Rightarrow> 0 | Some n \<Rightarrow> n));
               sha = (case rg_sha c of Some h \<Rightarrow> Some h | None \<Rightarrow> compute_sha256 fs p);
               kind = (case rg_kind c of Some k \<Rightarrow> k | None \<Rightarrow> detect_kind (rg_mime c) (rg_path c));
               operation = (\<lambda>summary status. artifact_operation (fr_operation fr) ''register_artifact'' (Some (rg_workspace c)) (Some (fr_request fr)) summary
                 (''kind='' @ py_repr kind @ '' path='' @ py_repr (rg_path c)) status (Some (fr_ms fr)))
           in case find_artifact (rg_workspace c) (rg_path c) sha (aw_rows w) of
                Some existing \<Rightarrow>
                  (case log_artifact_operation (operation (''artifact already registered: '' @ ar_id existing) ''idempotent_replay'') w of
                     Inl e \<Rightarrow> (w, Inl (Art_integrity e))
                   | Inr w' \<Rightarrow> (w', Inr existing))
              | None \<Rightarrow>
                  let row = new_artifact_row c fr nbytes sha kind
                  in case insert_artifact (aw_workspaces w) row (aw_rows w) of
                       Inl e \<Rightarrow> (w, Inl (Art_integrity e))
                     | Inr rows \<Rightarrow>
                         let w1 = w\<lparr>aw_rows := rows\<rparr>
                         in case log_artifact_operation (operation (''registered artifact '' @ ar_id row) ''success'') w1 of
                              Inl e \<Rightarrow> (w1, Inl (Art_integrity e))
                            | Inr w2 \<Rightarrow> (w2, Inr row)))"

subsection \<open>Listing and deletion\<close>

definition artifact_status :: "artifact_fs \<Rightarrow> workspace_table \<Rightarrow> artifact_row \<Rightarrow> string" where
  "artifact_status fs workspaces r =
     (case resolve_artifact_path fs workspaces r of
        None \<Rightarrow> ''invalid''
      | Some p \<Rightarrow>
          if \<not> af_is_file fs p then ''stale''
          else (case ar_sha r of
             None \<Rightarrow> ''available''
           | Some h \<Rightarrow> if h \<noteq> [] \<and> compute_sha256 fs p \<noteq> Some h then ''modified'' else ''available''))"

text \<open>\<open>_enrich_artifact\<close>: the record with its status and, when there is one, its location.\<close>

definition enrich_artifact :: "artifact_fs \<Rightarrow> workspace_table \<Rightarrow> artifact_row \<Rightarrow> artifact_row \<times> string \<times> path option" where
  "enrich_artifact fs workspaces r = (r, artifact_status fs workspaces r, resolve_artifact_path fs workspaces r)"

definition list_artifacts ::
  "artifact_fs \<Rightarrow> string \<Rightarrow> string option \<Rightarrow> string option \<Rightarrow> artifact_world \<Rightarrow> (artifact_row \<times> string \<times> path option) list" where
  "list_artifacts fs ws kind path_prefix w =
     map (enrich_artifact fs (aw_workspaces w)) (select_artifacts ws kind path_prefix (aw_rows w))"

definition delete_artifact :: "string \<Rightarrow> string \<Rightarrow> artifact_world \<Rightarrow> artifact_world \<times> (string + bool)" where
  "delete_artifact op aid w =
     (let ws = map_option ar_workspace (get_artifact aid (aw_rows w)); (rows, deleted) = remove_artifact aid (aw_rows w); w1 = w\<lparr>aw_rows := rows\<rparr>;
          text = ''artifact_id='' @ py_repr aid
      in if \<not> deleted then (w1, Inr False)
         else case log_artifact_operation (artifact_operation op ''delete_artifact'' ws None text text ''success'' None) w1 of
                Inl e \<Rightarrow> (w1, Inl e)
              | Inr w2 \<Rightarrow> (w2, Inr True))"

definition delete_artifacts_for_workspace :: "string \<Rightarrow> string \<Rightarrow> artifact_world \<Rightarrow> artifact_world \<times> (string + nat)" where
  "delete_artifacts_for_workspace op ws w =
     (let (rows, n) = remove_workspace_artifacts ws (aw_rows w); w1 = w\<lparr>aw_rows := rows\<rparr>
      in if n = 0 then (w1, Inr 0)
         else case log_artifact_operation (artifact_operation op ''delete_artifact'' (Some ws) None (''workspace cleanup: artifacts='' @ nat_str n)
                     (''workspace_id='' @ py_repr ws @ '' count='' @ nat_str n) ''success'' None) w1 of
                Inl e \<Rightarrow> (w1, Inl e)
              | Inr w2 \<Rightarrow> (w2, Inr n))"

subsection \<open>Discovery\<close>

definition discovery_patterns :: "(string \<times> string \<times> string) list" where
  "discovery_patterns =
     [(''image'', ''**/*.png'', ''image/png''), (''image'', ''**/*.jpg'', ''image/jpeg''), (''image'', ''**/*.jpeg'', ''image/jpeg''),
      (''image'', ''**/*.webp'', ''image/webp''), (''image'', ''**/*.gif'', ''image/gif''), (''image'', ''**/*.bmp'', ''image/bmp''),
      (''html'', ''**/*.html'', ''text/html''), (''html'', ''**/*.htm'', ''text/html''), (''json'', ''**/*.json'', ''application/json''),
      (''xml'', ''**/*.xml'', ''application/xml''), (''text'', ''**/*.log'', ''text/plain''), (''text'', ''**/*.txt'', ''text/plain''),
      (''text'', ''**/*.md'', ''text/markdown''), (''text'', ''**/*.csv'', ''text/csv''), (''text'', ''**/*.svg'', ''image/svg+xml'')]"

definition excluded_dirs :: "string list" where
  "excluded_dirs = [''.git'', ''node_modules'', ''.venv'', ''venv'', ''dist'', ''build'', ''target'', ''__pycache__'', ''.mypy_cache'', ''.pytest_cache'',
     ''.ruff_cache'', ''.claude'']"

definition max_discover :: nat where
  "max_discover = 100"

definition max_discover_size :: int where
  "max_discover_size = 100 * 1024 * 1024"

record discovery =
  ds_world :: artifact_world
  ds_found :: "artifact_row list"
  ds_total :: int

text \<open>\<open>str(rel).replace("\\", "/")\<close>.\<close>

definition rel_string :: "path \<Rightarrow> string" where
  "rel_string rel = map (\<lambda>c. if c = backslash then CHR ''/'' else c) (py_join ''/'' rel)"

definition scan_mime :: "artifact_fs \<Rightarrow> string \<Rightarrow> string \<Rightarrow> path \<Rightarrow> string" where
  "scan_mime fs kind hint file =
     (if kind = ''image''
      then (case af_mime fs (CHR ''/'' # py_join ''/'' file) of Some t \<Rightarrow> if t = [] then hint else t | None \<Rightarrow> hint)
      else hint)"

definition scan_call :: "artifact_fs \<Rightarrow> string \<Rightarrow> string option \<Rightarrow> string \<Rightarrow> string \<Rightarrow> path \<Rightarrow> path \<Rightarrow> int \<Rightarrow> string \<Rightarrow> register_call" where
  "scan_call fs ws pid kind hint base file nbytes sha =
     \<lparr>rg_workspace = ws, rg_path = rel_string (drop (length base) file), rg_mime = Some (scan_mime fs kind hint file), rg_size = Some nbytes,
      rg_sha = Some sha, rg_kind = Some kind, rg_source = Some ''scan'', rg_process = pid, rg_metadata = []\<rparr>"

text \<open>One file that no limit stopped: skipped, over the size limit (stop), registered, or an exception.\<close>

datatype scan_step = Scan_skip | Scan_stop | Scan_register register_call

definition scan_file :: "artifact_fs \<Rightarrow> string \<Rightarrow> string option \<Rightarrow> string \<Rightarrow> string \<Rightarrow> path \<Rightarrow> path \<Rightarrow> discovery \<Rightarrow> int \<times> scan_step" where
  "scan_file fs ws pid kind hint base file d =
     (let rel = drop (length base) file in
      if list_ex (\<lambda>part. part \<in> set excluded_dirs) rel then (ds_total d, Scan_skip)
      else if select_artifacts ws None (Some (rel_string rel)) (aw_rows (ds_world d)) \<noteq> [] then (ds_total d, Scan_skip)
      else if \<not> af_is_file fs file then (ds_total d, Scan_skip)
      else case af_size fs file of
        None \<Rightarrow> (ds_total d, Scan_skip)
      | Some n \<Rightarrow>
          if n \<le> 0 then (ds_total d, Scan_skip)
          else let sum_bytes = ds_total d + n in
            if sum_bytes > max_discover_size then (sum_bytes, Scan_stop)
            else case compute_sha256 fs file of
              None \<Rightarrow> (sum_bytes, Scan_skip)
            | Some sha \<Rightarrow> (sum_bytes, Scan_register (scan_call fs ws pid kind hint base file n sha)))"

fun discover_files ::
  "artifact_fs \<Rightarrow> (nat \<Rightarrow> fresh_answers) \<Rightarrow> string \<Rightarrow> string option \<Rightarrow> string \<Rightarrow> string \<Rightarrow> path \<Rightarrow> path list \<Rightarrow> discovery \<Rightarrow> discovery \<times> (artifact_error + unit)" where
  "discover_files fs fresh ws pid kind hint base [] d = (d, Inr ())"
| "discover_files fs fresh ws pid kind hint base (file # files) d =
     (if length (ds_found d) \<ge> max_discover then (d, Inr ())
      else case scan_file fs ws pid kind hint base file d of
        (sum_bytes, Scan_skip) \<Rightarrow> discover_files fs fresh ws pid kind hint base files (d\<lparr>ds_total := sum_bytes\<rparr>)
      | (sum_bytes, Scan_stop) \<Rightarrow> (d\<lparr>ds_total := sum_bytes\<rparr>, Inr ())
      | (sum_bytes, Scan_register c) \<Rightarrow>
          (case register_artifact fs c (fresh (length (ds_found d))) (ds_world d) of
             (w, Inl e) \<Rightarrow> (d\<lparr>ds_total := sum_bytes, ds_world := w\<rparr>, Inl e)
           | (w, Inr r) \<Rightarrow>
               discover_files fs fresh ws pid kind hint base files (d\<lparr>ds_total := sum_bytes, ds_world := w, ds_found := ds_found d @ [r]\<rparr>)))"

fun discover_patterns ::
  "artifact_fs \<Rightarrow> (nat \<Rightarrow> fresh_answers) \<Rightarrow> string \<Rightarrow> string option \<Rightarrow> path \<Rightarrow> (string \<times> string \<times> string) list \<Rightarrow> discovery \<Rightarrow> discovery \<times> (artifact_error + unit)" where
  "discover_patterns fs fresh ws pid base [] d = (d, Inr ())"
| "discover_patterns fs fresh ws pid base ((kind, pattern, hint) # rest) d =
     (if length (ds_found d) \<ge> max_discover then (d, Inr ())
      else case discover_files fs fresh ws pid kind hint base (af_glob fs base pattern) d of
        (d', Inl e) \<Rightarrow> (d', Inl e)
      | (d', Inr _) \<Rightarrow> discover_patterns fs fresh ws pid base rest d')"

definition discover_artifacts ::
  "artifact_fs \<Rightarrow> (nat \<Rightarrow> fresh_answers) \<Rightarrow> path \<Rightarrow> string \<Rightarrow> string option \<Rightarrow> artifact_world \<Rightarrow> artifact_world \<times> (artifact_error + artifact_row list)" where
  "discover_artifacts fs fresh base ws pid w =
     (if \<not> af_is_dir fs base then (w, Inr [])
      else case discover_patterns fs fresh ws pid base discovery_patterns \<lparr>ds_world = w, ds_found = [], ds_total = 0\<rparr> of
        (d, Inl e) \<Rightarrow> (ds_world d, Inl e)
      | (d, Inr _) \<Rightarrow> (ds_world d, Inr (ds_found d)))"

subsection \<open>Artifacts of a process\<close>

definition register_process_artifact ::
  "artifact_fs \<Rightarrow> fresh_answers \<Rightarrow> string \<Rightarrow> path \<Rightarrow> string \<Rightarrow> string \<Rightarrow> artifact_world \<Rightarrow> artifact_world \<times> (artifact_error + artifact_row option)" where
  "register_process_artifact fs fr ws worktree pid apath w =
     (if is_absolute apath \<or> list_ex (\<lambda>part. part = ''..'') (path_parts apath) then (w, Inr None)
      else let p = af_resolve fs (worktree @ path_parts apath) in
        if \<not> prefix (af_resolve fs worktree) p \<or> \<not> af_is_file fs p then (w, Inr None)
        else case (af_size fs p, compute_sha256 fs p) of
          (Some n, Some sha) \<Rightarrow>
            if n \<le> 0 \<or> detect_kind None apath = ''unknown'' then (w, Inr None)
            else (case register_artifact fs
                     \<lparr>rg_workspace = ws, rg_path = apath, rg_mime = af_mime fs apath, rg_size = Some n, rg_sha = Some sha,
                      rg_kind = Some (detect_kind None apath), rg_source = Some ''process'', rg_process = Some pid, rg_metadata = []\<rparr> fr w of
                    (w', Inl e) \<Rightarrow> (w', Inl e)
                  | (w', Inr r) \<Rightarrow> (w', Inr (Some r)))
        | _ \<Rightarrow> (w, Inr None))"

fun register_outputs ::
  "artifact_fs \<Rightarrow> (nat \<Rightarrow> fresh_answers) \<Rightarrow> string \<Rightarrow> string \<Rightarrow> (string \<times> path) list \<Rightarrow> artifact_row list \<Rightarrow> artifact_world \<Rightarrow> artifact_world \<times> (artifact_error + artifact_row list)" where
  "register_outputs fs fresh ws pid [] acc w = (w, Inr acc)"
| "register_outputs fs fresh ws pid ((stream, p) # rest) acc w =
     (if \<not> af_is_file fs p \<or> af_size fs p = Some 0 then register_outputs fs fresh ws pid rest acc w
      else if af_size fs p = None then (w, Inl Art_os)
      else case register_artifact fs
             \<lparr>rg_workspace = ws, rg_path = CHR ''/'' # py_join ''/'' p, rg_mime = Some ''text/plain'', rg_size = None, rg_sha = None, rg_kind = Some ''text'',
              rg_source = Some ''process_output'', rg_process = Some pid, rg_metadata = [(''stream'', JStr stream), (''complete'', JBool True)]\<rparr>
             (fresh (length acc)) w of
           (w', Inl e) \<Rightarrow> (w', Inl e)
         | (w', Inr r) \<Rightarrow> register_outputs fs fresh ws pid rest (acc @ [r]) w')"

definition register_process_output_artifacts ::
  "artifact_fs \<Rightarrow> (nat \<Rightarrow> fresh_answers) \<Rightarrow> string \<Rightarrow> string \<Rightarrow> path \<Rightarrow> path \<Rightarrow> artifact_world \<Rightarrow> artifact_world \<times> (artifact_error + artifact_row list)" where
  "register_process_output_artifacts fs fresh ws pid stdout stderr w =
     register_outputs fs fresh ws pid [(''stdout'', stdout), (''stderr'', stderr)] [] w"

end
