(* ===== verification/Artifact_Safety.thy ===== *)
theory Artifact_Safety
  imports Artifact_Registry
begin

text \<open>
  What the artifact registry promises: one row per workspace, path and content, rows that stay inside their workspace or the controlled
  store, bounded discovery; and what discovery does below the workspace root.
\<close>

subsection \<open>Registration\<close>

lemma newest_first_set [simp]: "set (newest_first rows) = set rows" "newest_first rows = [] \<longleftrightarrow> rows = []"
proof -
  show s: "set (newest_first rows) = set rows" by (simp add: newest_first_def)
  show "newest_first rows = [] \<longleftrightarrow> rows = []" using s by (metis set_empty)
qed

definition content_key :: "artifact_row \<Rightarrow> string \<times> string \<times> string option" where
  "content_key r = (ar_workspace r, ar_path r, ar_sha r)"

lemma find_artifact_None: "find_artifact ws path sha table = None \<longleftrightarrow> (ws, path, sha) \<notin> content_key ` set table"
proof -
  have "find_artifact ws path sha table = None \<longleftrightarrow> newest_first (filter (\<lambda>r. ar_workspace r = ws \<and> ar_path r = path \<and> ar_sha r = sha) table) = []"
    by (cases "newest_first (filter (\<lambda>r. ar_workspace r = ws \<and> ar_path r = path \<and> ar_sha r = sha) table)")
      (simp_all add: find_artifact_def del: newest_first_set)
  then show ?thesis by (auto simp: content_key_def filter_empty_conv image_iff)
qed

lemma find_artifact_Some: "find_artifact ws path sha table = Some r \<Longrightarrow> r \<in> set table \<and> content_key r = (ws, path, sha)"
proof -
  assume f: "find_artifact ws path sha table = Some r"
  let ?l = "filter (\<lambda>r. ar_workspace r = ws \<and> ar_path r = path \<and> ar_sha r = sha) table"
  have "r \<in> set (newest_first ?l)" using f by (cases "newest_first ?l") (simp_all add: find_artifact_def del: newest_first_set)
  then show ?thesis unfolding newest_first_set by (auto simp: content_key_def)
qed

text \<open>What a registration can do to the rows: nothing, or add one row that was validated.\<close>

definition registered_row :: "artifact_fs \<Rightarrow> register_call \<Rightarrow> artifact_row \<Rightarrow> artifact_world \<Rightarrow> bool" where
  "registered_row fs c r w \<longleftrightarrow>
     ar_workspace r = rg_workspace c \<and> ar_path r = rg_path c \<and> content_key r \<notin> content_key ` set (aw_rows w) \<and> ar_id r \<notin> ar_id ` set (aw_rows w)
     \<and> map_of (aw_workspaces w) (ar_workspace r) \<noteq> None \<and> resolve_artifact_path fs (aw_workspaces w) r \<noteq> None
     \<and> (case rg_size c of None \<Rightarrow> True | Some n \<Rightarrow> ar_size r = n) \<and> ar_source r = rg_source c"

lemma register_rows:
  assumes "register_artifact fs c fr w = (w', x)"
  shows "aw_workspaces w' = aw_workspaces w"
    "aw_rows w' = aw_rows w \<and> (\<forall>r. x = Inr r \<longrightarrow> r \<in> set (aw_rows w) \<and> ar_workspace r = rg_workspace c \<and> ar_path r = rg_path c)
     \<or> (\<exists>r. aw_rows w' = aw_rows w @ [r] \<and> registered_row fs c r w \<and> (\<forall>r'. x = Inr r' \<longrightarrow> r' = r))"
proof -
  have "aw_workspaces w' = aw_workspaces w
    \<and> (aw_rows w' = aw_rows w \<and> (\<forall>r. x = Inr r \<longrightarrow> r \<in> set (aw_rows w) \<and> ar_workspace r = rg_workspace c \<and> ar_path r = rg_path c)
     \<or> (\<exists>r. aw_rows w' = aw_rows w @ [r] \<and> registered_row fs c r w \<and> (\<forall>r'. x = Inr r' \<longrightarrow> r' = r)))"
  proof (cases "validate_artifact_path fs (aw_workspaces w) (rg_workspace c) (rg_path c)")
    case (Inl e)
    then show ?thesis using assms by (auto simp: register_artifact_def)
  next
    case (Inr p)
    let ?size = "case rg_size c of Some n \<Rightarrow> n | None \<Rightarrow> (case af_size fs p of None \<Rightarrow> 0 | Some n \<Rightarrow> n)"
    let ?sha = "case rg_sha c of Some h \<Rightarrow> Some h | None \<Rightarrow> compute_sha256 fs p"
    let ?kind = "case rg_kind c of Some k \<Rightarrow> k | None \<Rightarrow> detect_kind (rg_mime c) (rg_path c)"
    let ?row = "new_artifact_row c fr ?size ?sha ?kind"
    have loc: "map_of (aw_workspaces w) (rg_workspace c) \<noteq> None" "resolve_artifact_path fs (aw_workspaces w) ?row \<noteq> None"
      using Inr by (auto simp: validate_artifact_path_def resolve_artifact_path_def workspace_root_def new_artifact_row_def split: option.splits)
    show ?thesis
    proof (cases "find_artifact (rg_workspace c) (rg_path c) ?sha (aw_rows w)")
      case (Some e)
      then show ?thesis using assms Inr find_artifact_Some [OF Some]
        by (auto simp: register_artifact_def Let_def log_artifact_operation_def obind_Inr_iff content_key_def split: sum.splits)
    next
      case None
      have key: "content_key ?row \<notin> content_key ` set (aw_rows w)"
        using None by (simp add: find_artifact_None content_key_def new_artifact_row_def)
      show ?thesis
      proof (cases "insert_artifact (aw_workspaces w) ?row (aw_rows w)")
        case (Inl e)
        then show ?thesis using assms Inr None \<open>validate_artifact_path fs (aw_workspaces w) (rg_workspace c) (rg_path c) = Inr p\<close>
          by (auto simp: register_artifact_def Let_def)
      next
        case (Inr rows)
        then have rows: "rows = aw_rows w @ [?row]" "ar_id ?row \<notin> ar_id ` set (aw_rows w)" by (auto simp: insert_artifact_def split: if_splits)
        have "registered_row fs c ?row w" using loc key rows(2) by (simp add: registered_row_def new_artifact_row_def split: option.split)
        moreover have "aw_workspaces w' = aw_workspaces w \<and> aw_rows w' = rows \<and> (\<forall>r'. x = Inr r' \<longrightarrow> r' = ?row)"
          using assms Inr None \<open>validate_artifact_path fs (aw_workspaces w) (rg_workspace c) (rg_path c) = Inr p\<close>
          by (auto simp: register_artifact_def Let_def log_artifact_operation_def obind_Inr_iff split: sum.splits)
        ultimately show ?thesis using rows(1) by blast
      qed
    qed
  qed
  then show "aw_workspaces w' = aw_workspaces w"
    "aw_rows w' = aw_rows w \<and> (\<forall>r. x = Inr r \<longrightarrow> r \<in> set (aw_rows w) \<and> ar_workspace r = rg_workspace c \<and> ar_path r = rg_path c)
     \<or> (\<exists>r. aw_rows w' = aw_rows w @ [r] \<and> registered_row fs c r w \<and> (\<forall>r'. x = Inr r' \<longrightarrow> r' = r))" by blast+
qed

subsection \<open>Histories\<close>

definition artifacts_ok :: "artifact_fs \<Rightarrow> artifact_world \<Rightarrow> bool" where
  "artifacts_ok fs w \<longleftrightarrow> distinct (map ar_id (aw_rows w)) \<and> distinct (map content_key (aw_rows w))
     \<and> (\<forall>r \<in> set (aw_rows w). resolve_artifact_path fs (aw_workspaces w) r \<noteq> None)"

lemma register_ok:
  assumes "artifacts_ok fs w"
  shows "artifacts_ok fs (fst (register_artifact fs c fr w))"
proof -
  obtain w' x where r: "register_artifact fs c fr w = (w', x)" by fastforce
  show ?thesis
    using register_rows [OF r] assms unfolding r fst_conv
    by (elim disjE exE conjE) (auto simp: artifacts_ok_def registered_row_def)
qed

lemma rows_filtered_ok:
  assumes "artifacts_ok fs w" "aw_workspaces w' = aw_workspaces w" "aw_rows w' = filter P (aw_rows w)"
  shows "artifacts_ok fs w'"
  using assms by (auto simp: artifacts_ok_def distinct_map_filter)

text \<open>A property that registration preserves is preserved by everything that registers.\<close>

definition kept_by_register :: "artifact_fs \<Rightarrow> (artifact_world \<Rightarrow> bool) \<Rightarrow> bool" where
  "kept_by_register fs P \<longleftrightarrow> (\<forall>c fr w. P w \<longrightarrow> P (fst (register_artifact fs c fr w)))"

lemma kept_registerD: "kept_by_register fs P \<Longrightarrow> P w \<Longrightarrow> register_artifact fs c fr w = (w', x) \<Longrightarrow> P w'"
  unfolding kept_by_register_def by (metis fst_conv)

lemma files_kept:
  assumes "kept_by_register fs P" "P (ds_world d)" "discover_files fs fresh ws pid kind hint base files d = (d', x)"
  shows "P (ds_world d')"
  using assms(2,3)
proof (induction files arbitrary: d)
  case (Cons f files)
  obtain sum_bytes s where sc: "scan_file fs ws pid kind hint base f d = (sum_bytes, s)" by fastforce
  show ?case
  proof (cases s)
    case (Scan_register c)
    obtain w y where r: "register_artifact fs c (fresh (length (ds_found d))) (ds_world d) = (w, y)" by fastforce
    have "P w" using kept_registerD [OF assms(1) Cons.prems(1) r] .
    show ?thesis
    proof (cases "length (ds_found d) \<ge> max_discover")
      case False
      show ?thesis
      proof (cases y)
        case (Inr r1)
        then have "discover_files fs fresh ws pid kind hint base files (d\<lparr>ds_total := sum_bytes, ds_world := w, ds_found := ds_found d @ [r1]\<rparr>) = (d', x)"
          using Cons.prems(2) sc Scan_register r False by simp
        from Cons.IH [OF _ this] show ?thesis using \<open>P w\<close> by simp
      qed (use Cons.prems sc Scan_register r False \<open>P w\<close> in auto)
    qed (use Cons.prems in simp)
  qed (use Cons.prems sc Cons.IH [of "d\<lparr>ds_total := sum_bytes\<rparr>"] in \<open>auto split: if_splits\<close>)
qed simp

lemma patterns_kept:
  assumes "kept_by_register fs P" "P (ds_world d)" "discover_patterns fs fresh ws pid base ps d = (d', x)"
  shows "P (ds_world d')"
  using assms(2,3)
proof (induction ps arbitrary: d)
  case (Cons p ps)
  obtain kind pat hint where p: "p = (kind, pat, hint)" by (cases p)
  obtain d1 y where f: "discover_files fs fresh ws pid kind hint base (af_glob fs base pat) d = (d1, y)" by fastforce
  have "P (ds_world d1)" using files_kept [OF assms(1) Cons.prems(1) f] .
  then show ?case using Cons f p by (auto split: if_splits sum.splits)
qed simp

lemma discover_kept:
  assumes "kept_by_register fs P" "P w"
  shows "P (fst (discover_artifacts fs fresh base ws pid w))"
proof -
  obtain d x where d: "discover_patterns fs fresh ws pid base discovery_patterns \<lparr>ds_world = w, ds_found = [], ds_total = 0\<rparr> = (d, x)" by fastforce
  have "P (ds_world d)" using patterns_kept [OF assms(1) _ d] assms(2) by simp
  then show ?thesis using assms(2) d by (cases x) (auto simp: discover_artifacts_def)
qed

lemma outputs_kept:
  assumes "kept_by_register fs P" "P w"
  shows "P (fst (register_outputs fs fresh ws pid outs acc w))"
  using assms(2)
proof (induction outs arbitrary: acc w)
  case (Cons o1 outs)
  obtain stream p where o1: "o1 = (stream, p)" by fastforce
  show ?case
    using Cons kept_registerD [OF assms(1) Cons.prems] by (auto simp: o1 split: prod.split sum.split)
qed simp

text \<open>A step of the registry: an operation of the interface, with any arguments.\<close>

inductive artifact_step :: "artifact_fs \<Rightarrow> artifact_world \<Rightarrow> artifact_world \<Rightarrow> bool" for fs where
  step_register: "artifact_step fs w (fst (register_artifact fs c fr w))"
| step_delete: "artifact_step fs w (fst (delete_artifact op aid w))"
| step_delete_workspace: "artifact_step fs w (fst (delete_artifacts_for_workspace op ws w))"
| step_discover: "artifact_step fs w (fst (discover_artifacts fs fresh base ws pid w))"
| step_process_artifact: "artifact_step fs w (fst (register_process_artifact fs fr ws worktree pid apath w))"
| step_process_outputs: "artifact_step fs w (fst (register_process_output_artifacts fs fresh ws pid stdout stderr w))"

inductive artifact_history :: "artifact_fs \<Rightarrow> artifact_world \<Rightarrow> bool" for fs where
  history_start: "aw_rows w = [] \<Longrightarrow> artifact_history fs w"
| history_step: "artifact_history fs w \<Longrightarrow> artifact_step fs w w' \<Longrightarrow> artifact_history fs w'"

lemma delete_ok: "artifacts_ok fs w \<Longrightarrow> artifacts_ok fs (fst (delete_artifact op aid w))"
proof -
  assume ok: "artifacts_ok fs w"
  have "aw_workspaces (fst (delete_artifact op aid w)) = aw_workspaces w"
    "aw_rows (fst (delete_artifact op aid w)) = filter (\<lambda>r. ar_id r \<noteq> aid) (aw_rows w)"
    by (auto simp: delete_artifact_def remove_artifact_def Let_def log_artifact_operation_def obind_Inr_iff split: sum.splits)
  then show ?thesis by (rule rows_filtered_ok [OF ok])
qed

lemma delete_workspace_ok: "artifacts_ok fs w \<Longrightarrow> artifacts_ok fs (fst (delete_artifacts_for_workspace op ws w))"
proof -
  assume ok: "artifacts_ok fs w"
  have "aw_workspaces (fst (delete_artifacts_for_workspace op ws w)) = aw_workspaces w"
    "aw_rows (fst (delete_artifacts_for_workspace op ws w)) = filter (\<lambda>r. ar_workspace r \<noteq> ws) (aw_rows w)"
    by (auto simp: delete_artifacts_for_workspace_def remove_workspace_artifacts_def Let_def log_artifact_operation_def obind_Inr_iff split: sum.splits)
  then show ?thesis by (rule rows_filtered_ok [OF ok])
qed

lemma process_artifact_ok: "artifacts_ok fs w \<Longrightarrow> artifacts_ok fs (fst (register_process_artifact fs fr ws worktree pid apath w))"
  using register_ok [of fs w] by (auto simp: register_process_artifact_def Let_def split: option.split prod.split sum.split) (metis fst_conv)+

lemma artifact_step_ok: "artifact_step fs w w' \<Longrightarrow> artifacts_ok fs w \<Longrightarrow> artifacts_ok fs w'"
proof (induction rule: artifact_step.induct)
  have k: "kept_by_register fs (artifacts_ok fs)" by (simp add: kept_by_register_def register_ok)
  case (step_discover w fresh base ws pid)
  then show ?case using discover_kept [OF k] by blast
next
  have k: "kept_by_register fs (artifacts_ok fs)" by (simp add: kept_by_register_def register_ok)
  case (step_process_outputs w fresh ws pid stdout stderr)
  then show ?case unfolding register_process_output_artifacts_def using outputs_kept [OF k] by blast
qed (use register_ok delete_ok delete_workspace_ok process_artifact_ok in blast)+

lemma artifact_history_ok: "artifact_history fs w \<Longrightarrow> artifacts_ok fs w"
  by (induction rule: artifact_history.induct) (use artifact_step_ok in \<open>auto simp: artifacts_ok_def\<close>)


subsection \<open>Discovery\<close>

lemma like_any: "sql_like q s \<Longrightarrow> sql_like (CHR ''%'' # q) s"
  by (cases s) simp_all

lemma like_prefix: "sql_like (p @ ''%'') p"
proof (induction p)
  case (Cons c p)
  then show ?case using like_any by simp
qed simp

definition scanned :: "artifact_fs \<Rightarrow> path \<Rightarrow> string \<Rightarrow> artifact_row \<Rightarrow> bool" where
  "scanned fs base ws r \<longleftrightarrow> ar_workspace r = ws \<and> ar_source r = Some ''scan'' \<and> 0 < ar_size r
     \<and> (\<exists>pat f. f \<in> set (af_glob fs base pat) \<and> af_is_file fs f \<and> ar_path r = rel_string (drop (length base) f)
          \<and> set (drop (length base) f) \<inter> set excluded_dirs = {})"

definition total_size :: "artifact_row list \<Rightarrow> int" where
  "total_size rows = sum_list (map ar_size rows)"

definition bounded_discovery :: "artifact_fs \<Rightarrow> path \<Rightarrow> string \<Rightarrow> artifact_table \<Rightarrow> discovery \<Rightarrow> bool" where
  "bounded_discovery fs base ws rows d \<longleftrightarrow> aw_rows (ds_world d) = rows @ ds_found d \<and> length (ds_found d) \<le> max_discover
     \<and> total_size (ds_found d) \<le> ds_total d \<and> total_size (ds_found d) \<le> max_discover_size \<and> list_all (scanned fs base ws) (ds_found d)"

lemma scan_file_cases:
  assumes "scan_file fs ws pid kind hint base f d = (t, s)"
  shows "ds_total d \<le> t"
    "s = Scan_register c \<Longrightarrow> \<exists>n sha. c = scan_call fs ws pid kind hint base f n sha \<and> 0 < n \<and> t = ds_total d + n \<and> t \<le> max_discover_size
       \<and> set (drop (length base) f) \<inter> set excluded_dirs = {} \<and> af_is_file fs f
       \<and> select_artifacts ws None (Some (rel_string (drop (length base) f))) (aw_rows (ds_world d)) = []"
  using assms by (auto simp: scan_file_def Let_def list_ex_iff split: if_splits option.splits)

lemma scan_registers:
  assumes "register_artifact fs (scan_call fs ws pid kind hint base f n sha) fr w = (w', Inr r)"
    and "select_artifacts ws None (Some (rel_string (drop (length base) f))) (aw_rows w) = []"
  shows "aw_rows w' = aw_rows w @ [r] \<and> registered_row fs (scan_call fs ws pid kind hint base f n sha) r w"
proof -
  let ?c = "scan_call fs ws pid kind hint base f n sha"
  have c: "rg_workspace ?c = ws" "rg_path ?c = rel_string (drop (length base) f)" by (simp_all add: scan_call_def)
  have "r' \<notin> set (aw_rows w)" if "ar_workspace r' = ws" "ar_path r' = rel_string (drop (length base) f)" for r'
    using assms(2) that like_prefix [of "rel_string (drop (length base) f)"] by (auto simp: select_artifacts_def filter_empty_conv)
  then show ?thesis using register_rows(2) [OF assms(1)] c by auto
qed

lemma files_bounded:
  assumes "bounded_discovery fs base ws rows d" "set files \<subseteq> set (af_glob fs base pat)"
    and "discover_files fs fresh ws pid kind hint base files d = (d', Inr u)"
  shows "bounded_discovery fs base ws rows d'"
  using assms
proof (induction files arbitrary: d)
  case (Cons f files)
  obtain t s where sc: "scan_file fs ws pid kind hint base f d = (t, s)" by fastforce
  note t = scan_file_cases(1) [OF sc]
  have more: "bounded_discovery fs base ws rows (d\<lparr>ds_total := t\<rparr>)" using Cons.prems(1) t by (auto simp: bounded_discovery_def)
  show ?case
  proof (cases "length (ds_found d) \<ge> max_discover")
    case True
    then show ?thesis using Cons.prems by simp
  next
    case len: False
    show ?thesis
    proof (cases s)
      case Scan_skip
      then show ?thesis using Cons.IH [OF more] Cons.prems(2,3) sc len by simp
    next
      case Scan_stop
      then show ?thesis using more Cons.prems(3) sc len by simp
    next
      case (Scan_register c)
      obtain n sha where c: "c = scan_call fs ws pid kind hint base f n sha" "0 < n" "t = ds_total d + n" "t \<le> max_discover_size"
        "set (drop (length base) f) \<inter> set excluded_dirs = {}" "af_is_file fs f"
        "select_artifacts ws None (Some (rel_string (drop (length base) f))) (aw_rows (ds_world d)) = []"
        using scan_file_cases(2) [OF sc Scan_register] by blast
      obtain w r where r: "register_artifact fs c (fresh (length (ds_found d))) (ds_world d) = (w, Inr r)"
        and rest: "discover_files fs fresh ws pid kind hint base files (d\<lparr>ds_total := t, ds_world := w, ds_found := ds_found d @ [r]\<rparr>) = (d', Inr u)"
        using Cons.prems(3) sc Scan_register len by (auto split: prod.splits sum.splits)
      have rows: "aw_rows w = aw_rows (ds_world d) @ [r]" and row: "registered_row fs c r (ds_world d)"
        using scan_registers r c(1,7) by blast+
      have "ar_size r = n" "scanned fs base ws r" using row c(1,2,5,6) Cons.prems(2) by (auto simp: registered_row_def scan_call_def scanned_def)
      then have "bounded_discovery fs base ws rows (d\<lparr>ds_total := t, ds_world := w, ds_found := ds_found d @ [r]\<rparr>)"
        using Cons.prems(1) rows len c(3,4) by (auto simp: bounded_discovery_def total_size_def)
      from Cons.IH [OF this _ rest] show ?thesis using Cons.prems(2) by simp
    qed
  qed
qed simp

lemma patterns_bounded:
  assumes "bounded_discovery fs base ws rows d" "discover_patterns fs fresh ws pid base ps d = (d', Inr u)"
  shows "bounded_discovery fs base ws rows d'"
  using assms
proof (induction ps arbitrary: d)
  case (Cons p ps)
  obtain kind pat hint where p: "p = (kind, pat, hint)" by (cases p)
  show ?case
  proof (cases "length (ds_found d) \<ge> max_discover")
    case False
    then obtain d1 where f: "discover_files fs fresh ws pid kind hint base (af_glob fs base pat) d = (d1, Inr ())"
      and rest: "discover_patterns fs fresh ws pid base ps d1 = (d', Inr u)"
      using Cons.prems(2) p by (auto split: prod.splits sum.splits)
    show ?thesis by (rule Cons.IH [OF files_bounded [OF Cons.prems(1) subset_refl f] rest])
  qed (use Cons.prems p in simp)
qed simp

lemma discovery_end:
  assumes "discover_artifacts fs fresh base ws pid w = (w', Inr found)"
  shows "\<exists>d. bounded_discovery fs base ws (aw_rows w) d \<and> w' = ds_world d \<and> found = ds_found d"
proof -
  let ?d = "\<lparr>ds_world = w, ds_found = [], ds_total = 0\<rparr>"
  have start: "bounded_discovery fs base ws (aw_rows w) ?d" by (simp add: bounded_discovery_def total_size_def max_discover_size_def)
  show ?thesis
  proof (cases "af_is_dir fs base")
    case True
    then obtain d where d: "discover_patterns fs fresh ws pid base discovery_patterns ?d = (d, Inr ())" "w' = ds_world d" "found = ds_found d"
      using assms by (auto simp: discover_artifacts_def split: prod.splits sum.splits)
    then show ?thesis using patterns_bounded [OF start d(1)] by blast
  next
    case False
    then show ?thesis using assms start by (intro exI [of _ ?d]) (simp add: discover_artifacts_def)
  qed
qed

text \<open>
  C38. Discovery is bounded: a scan that succeeds adds exactly the rows it returns, at most 100 of them with at most 100 MiB in total, each for
  a non-empty file of the workspace that is not below an excluded directory.
\<close>
theorem discovery_bounded:
  assumes "discover_artifacts fs fresh base ws pid w = (w', Inr found)"
  shows "aw_rows w' = aw_rows w @ found \<and> length found \<le> 100 \<and> total_size found \<le> 100 * 1024 * 1024 \<and> list_all (scanned fs base ws) found"
  using discovery_end [OF assms] by (auto simp: bounded_discovery_def max_discover_def max_discover_size_def)

text \<open>Discovery below the root: plain components survive the way through the text.\<close>

definition plain_path :: "path \<Rightarrow> bool" where
  "plain_path p \<longleftrightarrow> list_all (\<lambda>c. c \<noteq> [] \<and> c \<noteq> ''.'' \<and> CHR ''/'' \<notin> set c \<and> backslash \<notin> set c) p"

lemma split_plain: "CHR ''/'' \<notin> set c \<Longrightarrow> py_split (CHR ''/'') (c @ CHR ''/'' # s) = c # py_split (CHR ''/'') s"
  by (induction c) auto

lemma split_single: "CHR ''/'' \<notin> set c \<Longrightarrow> py_split (CHR ''/'') c = [c]"
  by (induction c) auto

lemma parts_join: "plain_path p \<Longrightarrow> path_parts (py_join ''/'' p) = p"
proof (induction p)
  case (Cons c p)
  then show ?case
    by (cases p) (simp_all add: plain_path_def path_parts_def slash_def split_single split_plain)
qed (simp add: path_parts_def)

lemma rel_string_plain: "plain_path p \<Longrightarrow> rel_string p = py_join ''/'' p"
proof -
  assume p: "plain_path p"
  have "backslash \<notin> set (py_join ''/'' p)" using p
  proof (induction p)
    case (Cons c p)
    then show ?case by (cases p) (auto simp: plain_path_def backslash_def)
  qed simp
  then show ?thesis unfolding rel_string_def by (induction "py_join ''/'' p") (auto intro!: map_idI)
qed

lemma join_relative: "plain_path p \<Longrightarrow> p \<noteq> [] \<Longrightarrow> \<not> is_absolute (py_join ''/'' p)"
proof -
  assume p: "plain_path p" "p \<noteq> []"
  then obtain c q where q: "p = c # q" by (cases p) auto
  then obtain d c' where "c = d # c'" "d \<noteq> CHR ''/''" using p(1) by (cases c) (auto simp: plain_path_def)
  then show ?thesis using q by (cases q) (auto simp: is_absolute_def py_startswith_def)
qed

text \<open>
  Discovery in a subdirectory records wrong paths: when the scan starts below the workspace root, as it does after a process with a
  working directory of its own, every artifact it registers for a file \<open>root/sub/rel\<close> is located at \<open>root/rel\<close>.
\<close>
lemma discovery_in_subdirectory:
  assumes "discover_artifacts fs fresh (base @ sub) ws pid w = (w', Inr found)" "workspace_root fs (aw_workspaces w) ws = Some base"
    and "\<forall>p. af_resolve fs p = p"
    and "\<forall>pat. \<forall>f \<in> set (af_glob fs (base @ sub) pat). \<exists>rel. f = base @ sub @ rel \<and> plain_path rel \<and> rel \<noteq> []"
  shows "\<forall>r \<in> set found. \<exists>rel. rel \<noteq> [] \<and> af_is_file fs (base @ sub @ rel) \<and> resolve_artifact_path fs (aw_workspaces w) r = Some (base @ rel)"
proof
  fix r assume "r \<in> set found"
  then have "scanned fs (base @ sub) ws r"
    using discovery_end [OF assms(1)] by (auto simp: bounded_discovery_def list_all_iff)
  then obtain pat f where f: "f \<in> set (af_glob fs (base @ sub) pat)" "af_is_file fs f" "ar_path r = rel_string (drop (length (base @ sub)) f)"
    and ws: "ar_workspace r = ws" by (auto simp: scanned_def)
  obtain rel where rel: "f = base @ sub @ rel" "plain_path rel" "rel \<noteq> []" using assms(4) f(1) by blast
  then have p: "ar_path r = py_join ''/'' rel" using f(3) rel_string_plain by simp
  have "resolve_artifact_path fs (aw_workspaces w) r = Some (base @ rel)"
    using assms(2,3) ws p parts_join [OF rel(2)] join_relative [OF rel(2,3)]
    by (simp add: resolve_artifact_path_def located_def)
  then show "\<exists>rel. rel \<noteq> [] \<and> af_is_file fs (base @ sub @ rel) \<and> resolve_artifact_path fs (aw_workspaces w) r = Some (base @ rel)"
    using rel f(2) by blast
qed

subsection \<open>A concrete scan\<close>

definition demo_fs :: artifact_fs where
  "demo_fs = \<lparr>af_resolve = (\<lambda>p. p), af_is_file = (\<lambda>p. p = [''w'', ''s'', ''a'']), af_is_dir = (\<lambda>_. True), af_size = (\<lambda>_. Some 3), af_bytes = (\<lambda>_. Some ''abc''),
     af_sha = (\<lambda>s. s), af_decode = (\<lambda>s. Some s), af_glob = (\<lambda>_ pat. if pat = ''**/*.png'' then [[''w'', ''s'', ''a'']] else []), af_mime = (\<lambda>_. None), af_store = [''store'']\<rparr>"

definition demo_artifacts :: artifact_world where
  "demo_artifacts = \<lparr>aw_workspaces = [(''ws'', new_row ''t'' \<lparr>nw_project = ''p'', nw_task = ''t'', nw_path = ''/w'', nw_base = ''b'', nw_main_head = None, nw_main_sha = None\<rparr>)],
     aw_rows = [], aw_ops = []\<rparr>"

definition demo_fresh_ids :: "nat \<Rightarrow> fresh_answers" where
  "demo_fresh_ids n = \<lparr>fr_artifact = nat_str n, fr_operation = nat_str n, fr_request = ''r'', fr_now = ''t'', fr_ms = 1\<rparr>"

definition demo_scan :: "artifact_world \<times> (artifact_error + artifact_row list)" where
  "demo_scan = discover_artifacts demo_fs demo_fresh_ids [''w'', ''s''] ''ws'' None demo_artifacts"

lemma demo_scanned: "case snd demo_scan of Inl _ \<Rightarrow> False | Inr found \<Rightarrow> map ar_path found = [''a'']"
  by code_simp

lemma demo_found: "\<exists>r. discover_artifacts demo_fs demo_fresh_ids [''w'', ''s''] ''ws'' None demo_artifacts = (fst demo_scan, Inr [r])"
proof (cases "snd demo_scan")
  case (Inr found)
  then have "map ar_path found = [''a'']" using demo_scanned by simp
  then obtain r where "found = [r]" by (cases found) auto
  then show ?thesis using Inr by (metis demo_scan_def prod.collapse)
qed (use demo_scanned in simp)


theorem discovery_bounded_witness:
  "\<exists>r. aw_rows (fst demo_scan) = [r] \<and> 0 < ar_size r"
proof -
  obtain r where "discover_artifacts demo_fs demo_fresh_ids [''w'', ''s''] ''ws'' None demo_artifacts = (fst demo_scan, Inr [r])" using demo_found by blast
  from discovery_bounded [OF this] have "aw_rows (fst demo_scan) = [r]" "0 < ar_size r" by (simp_all add: demo_artifacts_def scanned_def)
  then show ?thesis by blast
qed

lemma discovery_in_subdirectory_witness:
  "\<exists>r. aw_rows (fst demo_scan) = [r] \<and> artifact_status demo_fs (aw_workspaces demo_artifacts) r = ''stale''"
proof -
  obtain r where r: "discover_artifacts demo_fs demo_fresh_ids ([''w''] @ [''s'']) ''ws'' None demo_artifacts = (fst demo_scan, Inr [r])"
    using demo_found by auto
  have root: "workspace_root demo_fs (aw_workspaces demo_artifacts) ''ws'' = Some [''w'']" by code_simp
  have glob: "\<forall>pat. \<forall>f \<in> set (af_glob demo_fs ([''w''] @ [''s'']) pat). \<exists>rel. f = [''w''] @ [''s''] @ rel \<and> plain_path rel \<and> rel \<noteq> []"
    by (simp add: demo_fs_def plain_path_def backslash_def)
  have "\<forall>p. af_resolve demo_fs p = p" by (simp add: demo_fs_def)
  from discovery_in_subdirectory [OF r root this glob] obtain rel
    where rel: "resolve_artifact_path demo_fs (aw_workspaces demo_artifacts) r = Some ([''w''] @ rel)" "af_is_file demo_fs ([''w''] @ [''s''] @ rel)" by auto
  then have "\<not> af_is_file demo_fs ([''w''] @ rel)" by (auto simp: demo_fs_def)
  then have "artifact_status demo_fs (aw_workspaces demo_artifacts) r = ''stale''" using rel(1) by (simp add: artifact_status_def)
  moreover have "aw_rows (fst demo_scan) = [r]"
    using discovery_end [OF r] by (auto simp: bounded_discovery_def demo_artifacts_def)
  ultimately show ?thesis by blast
qed

end
