(* ===== verification/Artifact_Tools.thy ===== *)
theory Artifact_Tools
  imports Artifact_Safety Operator_Config Paged_Reader Patch_Format
begin

text \<open>
  The artifact tools of \<open>app/tools/artifacts.py\<close> and the image tool of \<open>app/tools/view_image.py\<close>.  A handler maps the world to a
  new world and its result; the random identifiers and the clock of a call are arguments.  Pillow is an argument: the format, the size and the
  resized image of some bytes.
\<close>

subsection \<open>Common parts\<close>

record tool_ids =
  ti_request :: string
  ti_operation :: string
  ti_now :: string
  ti_ms :: int

definition tool_audit :: "string \<Rightarrow> tool_ids \<Rightarrow> string option \<Rightarrow> string \<Rightarrow> string option \<Rightarrow> artifact_world \<Rightarrow> artifact_world" where
  "tool_audit name ids ws summary code w =
     w\<lparr>aw_ops := audit_event (ti_operation ids)
        \<lparr>au_tool = name, au_request_id = ti_request ids, au_workspace = ws, au_input_summary = summary, au_success = (code = None),
         au_duration_ms = ti_ms ids, au_error_code = code, au_result_status = None\<rparr> (aw_ops w)\<rparr>"

definition failure :: "tool_ids \<Rightarrow> string option \<Rightarrow> bool \<Rightarrow> (string \<times> json) list \<Rightarrow> string \<Rightarrow> string \<Rightarrow> json" where
  "failure ids ws retryable extra code message =
     error_result (ti_request ids) code message
       \<lparr>eo_retryable = retryable, eo_suggested_next_tool = None, eo_workspace_id = ws, eo_request_id = Some (ti_request ids), eo_extra = extra\<rparr>"

definition repr_option :: "string option \<Rightarrow> string" where
  "repr_option v = (case v of None \<Rightarrow> ''None'' | Some s \<Rightarrow> py_repr s)"

text \<open>\<open>workspace_manager.get_workspace\<close> on the world.\<close>

definition lookup_workspace :: "tool_ids \<Rightarrow> string \<Rightarrow> artifact_world \<Rightarrow> artifact_world \<times> workspace_row option" where
  "lookup_workspace ids ws w =
     (case get_workspace (ti_now ids) ws (aw_workspaces w) of (table, r) \<Rightarrow> (w\<lparr>aw_workspaces := table\<rparr>, r))"

subsection \<open>Listing\<close>

definition artifact_kinds :: "string list" where
  "artifact_kinds = [''image'', ''text'', ''html'', ''json'', ''xml'', ''unknown'']"

definition path_string :: "path \<Rightarrow> string" where
  "path_string p = CHR ''/'' # py_join ''/'' p"

definition artifact_json :: "artifact_row \<times> string \<times> path option \<Rightarrow> json" where
  "artifact_json e =
     (case e of (r, status, location) \<Rightarrow>
        JObj ([(''artifact_id'', JStr (ar_id r)), (''workspace_id'', JStr (ar_workspace r)), (''kind'', JStr (ar_kind r)), (''path'', JStr (ar_path r)),
          (''mime_type'', opt_str (ar_mime r)), (''size_bytes'', JInt (ar_size r)), (''sha256'', opt_str (ar_sha r)), (''source_type'', opt_str (ar_source r)),
          (''source_process_id'', opt_str (ar_process r)), (''created_at'', JStr (ar_created r)),
          (''metadata'', case ar_metadata r of None \<Rightarrow> JNull | Some m \<Rightarrow> m), (''status'', JStr status)]
          @ (case location of None \<Rightarrow> [] | Some p \<Rightarrow> [(''resolved_path'', JStr (path_string p))])))"

text \<open>The discovery may fail with \<open>OSError\<close> or \<open>ValueError\<close>, which is logged; an integrity error leaves the handler.\<close>

definition list_artifacts_tool ::
  "artifact_fs \<Rightarrow> (nat \<Rightarrow> fresh_answers) \<Rightarrow> tool_ids \<Rightarrow> string \<Rightarrow> string option \<Rightarrow> string option \<Rightarrow> artifact_world \<Rightarrow> artifact_world \<times> (string + json)" where
  "list_artifacts_tool fs fresh ids ws kind path_prefix w =
     (let name = ''list_artifacts''; kind_text = ''kind='' @ repr_option kind; summary = kind_text @ '' path_prefix='' @ repr_option path_prefix
      in case lookup_workspace ids ws w of
        (w, None) \<Rightarrow>
          (tool_audit name ids (Some ws) summary (Some ''WORKSPACE_NOT_FOUND'') w,
           Inr (failure ids (Some ws) False [] ''WORKSPACE_NOT_FOUND'' (''workspace not found: '' @ ws)))
      | (w, Some r) \<Rightarrow>
          if (case kind of None \<Rightarrow> False | Some k \<Rightarrow> k \<notin> set artifact_kinds)
          then (tool_audit name ids (Some ws) kind_text (Some ''INVALID_INPUT'') w,
                Inr (failure ids (Some ws) False [] ''INVALID_INPUT''
                  (''kind must be one of: image, text, html, json, xml, unknown. Got: '' @ repr_option kind)))
          else case discover_artifacts fs fresh (path_parts (ws_path r)) ws None w of
            (w, Inl (Art_integrity e)) \<Rightarrow> (w, Inl e)
          | (w, _) \<Rightarrow>
              let found = list_artifacts fs ws kind path_prefix w
              in (tool_audit name ids (Some ws) summary None w,
                  Inr (ok_result (ti_request ids)
                    (JObj [(''workspace_id'', JStr ws), (''count'', JInt (int (length found))), (''artifacts'', JArr (map artifact_json found))])
                    (ok_defaults\<lparr>oo_workspace_id := Some ws, oo_request_id := Some (ti_request ids)\<rparr>))))"

subsection \<open>Reading text\<close>

text \<open>\<open>text.replace("\r\n", "\n").replace("\r", "\n")\<close>.\<close>

fun unix_newlines :: "string \<Rightarrow> string" where
  "unix_newlines [] = []"
| "unix_newlines [c] = [if c = carriage then newline else c]"
| "unix_newlines (c # d # s) =
     (if c = carriage then (if d = newline then newline # unix_newlines s else newline # unix_newlines (d # s))
      else c # unix_newlines (d # s))"

definition max_read_chars :: int where
  "max_read_chars = 100000"

definition text_kinds :: "string list" where
  "text_kinds = [''text'', ''json'', ''html'', ''xml'']"

text \<open>What \<open>read_artifact\<close> refuses before it looks at the page: the code and the message, or the text.\<close>

definition hash_differs :: "artifact_fs \<Rightarrow> artifact_row \<Rightarrow> string \<Rightarrow> bool" where
  "hash_differs fs r bytes = (case ar_sha r of None \<Rightarrow> False | Some h \<Rightarrow> h \<noteq> [] \<and> af_sha fs bytes \<noteq> h)"

definition outside_message :: "artifact_row \<Rightarrow> string" where
  "outside_message r = ''artifact path is outside its workspace or controlled store: '' @ ar_path r"

definition artifact_text :: "artifact_fs \<Rightarrow> workspace_table \<Rightarrow> artifact_row \<Rightarrow> (string \<times> string) + string" where
  "artifact_text fs workspaces r =
     (if ar_kind r = ''image'' then Inl (''ARTIFACT_IS_IMAGE'', ''artifact '' @ ar_id r @ '' is an image; use view_artifact instead'')
      else if ar_kind r \<notin> set text_kinds
        then Inl (''ARTIFACT_NOT_TEXT'', ''artifact '' @ ar_id r @ '' has unsupported binary kind: '' @ py_repr (ar_kind r))
      else case resolve_artifact_path fs workspaces r of
        None \<Rightarrow> Inl (''PATH_DENIED'', outside_message r)
      | Some p \<Rightarrow>
          if \<not> af_is_file fs p then Inl (''ARTIFACT_STALE'', ''artifact file no longer exists on disk: '' @ ar_path r)
          else case af_bytes fs p of
            None \<Rightarrow> Inl (''INTERNAL_ERROR'', ''failed to read artifact'')
          | Some bytes \<Rightarrow>
              if hash_differs fs r bytes
              then Inl (''ARTIFACT_MODIFIED'', ''artifact file has been modified since registration: '' @ ar_path r)
              else case af_decode fs bytes of
                None \<Rightarrow> Inl (''ARTIFACT_NOT_TEXT'', ''artifact '' @ ar_id r @ '' is not a UTF-8 text file: '' @ ar_path r)
              | Some text \<Rightarrow> Inr (unix_newlines text))"

text \<open>One page: the content, the offset it starts at, the next offset, and whether there is more.\<close>

definition text_page :: "string \<Rightarrow> int \<Rightarrow> int \<Rightarrow> string \<times> int \<times> int \<times> bool" where
  "text_page text offset max_chars =
     (let start = min offset (int (length text)); n = min max_chars max_read_chars;
          content = take (nat n) (drop (nat start) text); end_at = start + int (length content)
      in (content, start, end_at, end_at < int (length text)))"

definition read_summary :: "string \<Rightarrow> int \<Rightarrow> int \<Rightarrow> string" where
  "read_summary aid offset max_chars =
     ''artifact_id='' @ py_repr aid @ '' offset='' @ py_str_int offset @ '' max_chars='' @ py_str_int max_chars"

definition read_artifact :: "artifact_fs \<Rightarrow> tool_ids \<Rightarrow> string \<Rightarrow> int \<Rightarrow> int \<Rightarrow> artifact_world \<Rightarrow> artifact_world \<times> json" where
  "read_artifact fs ids aid offset max_chars w =
     (let name = ''read_artifact''; summary = read_summary aid offset max_chars;
          refuse = (\<lambda>ws text code message.
            (tool_audit name ids ws text (Some code) w,
             failure ids ws (code = ''INTERNAL_ERROR'') [(''artifact_id'', JStr aid)] code message))
      in case get_artifact aid (aw_rows w) of
        None \<Rightarrow> refuse None summary ''ARTIFACT_NOT_FOUND'' (''artifact not found: '' @ aid)
      | Some r \<Rightarrow>
          let ws = Some (ar_workspace r) in
          (case artifact_text fs (aw_workspaces w) r of
             Inl (code, message) \<Rightarrow> refuse ws (if code = ''INTERNAL_ERROR'' then ''artifact_id='' @ py_repr aid else summary) code message
           | Inr text \<Rightarrow>
               if offset < 0 \<or> max_chars < 1
               then refuse ws summary ''INVALID_INPUT'' ''offset must be non-negative and max_chars must be positive''
               else case text_page text offset max_chars of
                 (content, start, end_at, again) \<Rightarrow>
                   (tool_audit name ids ws summary None w,
                    ok_result (ti_request ids)
                      (JObj [(''artifact_id'', JStr aid), (''path'', JStr (ar_path r)), (''mime_type'', opt_str (ar_mime r)), (''kind'', JStr (ar_kind r)),
                         (''offset'', JInt start), (''content'', JStr content), (''total_chars'', JInt (int (length text))), (''truncated'', JBool again)])
                      (ok_defaults\<lparr>oo_workspace_id := ws, oo_request_id := Some (ti_request ids), oo_truncated := again,
                         oo_next_cursor := (if again then Some (py_str_int end_at) else None)\<rparr>))))"

subsection \<open>Images\<close>

record image_lib =
  il_format :: "string \<Rightarrow> string option"
  il_size :: "string \<Rightarrow> string + int \<times> int"
  il_resize :: "string \<Rightarrow> int \<Rightarrow> int \<Rightarrow> string + string \<times> int \<times> int"

record image_limits =
  im_max_bytes :: int
  im_max_pixels :: int
  im_max_dimension :: int
  im_max_high :: int
  im_supported :: "string list"

definition format_mimes :: "(string \<times> string) list" where
  "format_mimes = [(''PNG'', ''image/png''), (''JPEG'', ''image/jpeg''), (''WEBP'', ''image/webp''), (''GIF'', ''image/gif''), (''BMP'', ''image/bmp''),
     (''TIFF'', ''image/tiff'')]"

definition py_upper_char :: "char \<Rightarrow> char" where
  "py_upper_char c = (let n = char_code c in
     if (97 \<le> n \<and> n \<le> 122) \<or> (224 \<le> n \<and> n \<le> 254 \<and> n \<noteq> 247) then char_of (n - 32) else c)"

definition detect_mime :: "image_lib \<Rightarrow> string \<Rightarrow> string option" where
  "detect_mime il bytes = (case il_format il bytes of None \<Rightarrow> None | Some f \<Rightarrow> map_of format_mimes (map py_upper_char f))"

text \<open>
  The bytes to show with their dimensions.  A reduced image is written as PNG, whatever the format of the original; the rounding of
  floats in the new dimensions is left out.
\<close>

definition scale_image :: "image_lib \<Rightarrow> image_limits \<Rightarrow> string \<Rightarrow> string \<Rightarrow> string + string \<times> int \<times> int" where
  "scale_image il caps bytes detail =
     obind (il_size il bytes) (\<lambda>(w, h).
       if detail = ''original'' then Inr (bytes, w, h)
       else if w \<le> im_max_high caps \<and> h \<le> im_max_high caps then Inr (bytes, w, h)
       else let ratio = min (of_int (im_max_high caps) / of_int w) (of_int (im_max_high caps) / of_int h) :: real
         in il_resize il bytes (max 1 \<lfloor>of_int w * ratio\<rfloor>) (max 1 \<lfloor>of_int h * ratio\<rfloor>))"

datatype view_result = View_error json | View_image json string string

definition view_result_json :: "view_result \<Rightarrow> json" where
  "view_result_json r = (case r of View_error j \<Rightarrow> j | View_image j _ _ \<Rightarrow> JArr [j, JStr ''Image''])"

record view_env =
  ve_fs :: artifact_fs
  ve_lib :: image_lib
  ve_limits :: image_limits
  ve_deny :: "string list option"

text \<open>The checks that need no decoding: the file and its size, or the code and message of the refusal.\<close>

definition view_target :: "view_env \<Rightarrow> workspace_row \<Rightarrow> string \<Rightarrow> string \<Rightarrow> (string \<times> string) + path \<times> int" where
  "view_target env r vpath detail =
     (let fs = ve_fs env; worktree = path_parts (ws_path r) in
      if \<not> af_is_dir fs worktree then Inl (''STALE_WORKSPACE'', ''worktree path missing on disk: '' @ ws_path r)
      else if detail \<noteq> ''high'' \<and> detail \<noteq> ''original'' then Inl (''INVALID_INPUT'', ''detail must be 'high' or 'original', got '' @ py_repr detail)
      else case resolve_within (af_resolve fs) (af_is_file fs) worktree vpath False of
        Inl e \<Rightarrow> Inl (''PATH_DENIED'', e)
      | Inr p \<Rightarrow>
          if is_denied (af_resolve fs) (ve_deny env) p (Some worktree) then Inl (''PATH_DENIED'', ''path is denied by policy: '' @ py_repr vpath)
          else if \<not> af_is_file fs p then Inl (''PATH_DENIED'', ''path is not a regular file: '' @ py_repr vpath)
          else case af_size fs p of
            None \<Rightarrow> Inl (''INTERNAL_ERROR'', ''failed to stat image'')
          | Some n \<Rightarrow>
              if n > im_max_bytes (ve_limits env)
              then Inl (''FILE_TOO_LARGE'', ''file size '' @ py_str_int n @ '' bytes exceeds limit of '' @ py_str_int (im_max_bytes (ve_limits env)) @ '' bytes'')
              else Inr (p, n))"

definition check_image :: "view_env \<Rightarrow> string \<Rightarrow> string \<Rightarrow> (string \<times> string) + string \<times> int \<times> int" where
  "check_image env vpath bytes =
     (let caps = ve_limits env; too_large = ''IMAGE_DIMENSIONS_TOO_LARGE''; size_text = (\<lambda>w h. py_str_int w @ ''x'' @ py_str_int h) in
      if py_endswith (py_lower vpath) ''.svg''
      then Inl (''UNSUPPORTED_FILE_TYPE'', ''SVG images are not supported in this release. Use a raster format such as PNG or JPEG.'')
      else case detect_mime (ve_lib env) bytes of
        None \<Rightarrow> Inl (''IMAGE_DECODE_FAILED'', ''file content is not a recognised image format: '' @ py_repr vpath)
      | Some mime \<Rightarrow>
          if mime \<notin> set (im_supported caps)
          then Inl (''UNSUPPORTED_FILE_TYPE'', ''unsupported image format: '' @ mime @ ''. Supported: '' @ py_join '', '' (sort (remdups (im_supported caps))))
          else case il_size (ve_lib env) bytes of
            Inl e \<Rightarrow> Inl (''IMAGE_DECODE_FAILED'', ''failed to decode image: '' @ e)
          | Inr (w, h) \<Rightarrow>
              if w = 0 \<or> h = 0 then Inl (too_large, ''image has zero width or height'')
              else if w * h > im_max_pixels caps
                then Inl (too_large, ''image dimensions '' @ size_text w h @ '' ('' @ py_str_int (w * h) @ '' pixels) exceed limit of ''
                       @ py_str_int (im_max_pixels caps) @ '' pixels'')
              else if w > im_max_dimension caps \<or> h > im_max_dimension caps
                then Inl (too_large, ''image dimension '' @ size_text w h @ '' exceeds limit of '' @ py_str_int (im_max_dimension caps) @ ''px on one axis'')
              else Inr (mime, w, h))"

definition output_format :: "string \<Rightarrow> string" where
  "output_format mime = (if mime = ''image/jpeg'' then ''jpeg'' else if mime = ''image/webp'' then ''webp'' else ''png'')"

definition rendered_image :: "view_env \<Rightarrow> workspace_row \<Rightarrow> string \<Rightarrow> string \<Rightarrow> (string \<times> string) + json \<times> string \<times> string" where
  "rendered_image env r vpath detail =
     obind (view_target env r vpath detail) (\<lambda>(p, n).
     case af_bytes (ve_fs env) p of
       None \<Rightarrow> Inl (''INTERNAL_ERROR'', ''failed to read file'')
     | Some bytes \<Rightarrow>
         obind (check_image env vpath bytes) (\<lambda>(mime, w, h).
         case scale_image (ve_lib env) (ve_limits env) bytes detail of
           Inl e \<Rightarrow> Inl (''IMAGE_DECODE_FAILED'', ''image scaling failed: '' @ e)
         | Inr (shown, sw, sh) \<Rightarrow>
             Inr (JObj [(''path'', JStr vpath), (''mime_type'', JStr mime), (''width'', JInt sw), (''height'', JInt sh), (''original_width'', JInt w),
                    (''original_height'', JInt h), (''file_size_bytes'', JInt n), (''sha256'', JStr (af_sha (ve_fs env) bytes))],
                  shown, output_format mime)))"

definition view_image :: "view_env \<Rightarrow> tool_ids \<Rightarrow> string \<Rightarrow> string \<Rightarrow> string \<Rightarrow> artifact_world \<Rightarrow> artifact_world \<times> view_result" where
  "view_image env ids ws vpath detail w =
     (let summary = ''path='' @ py_repr vpath @ '' detail='' @ py_repr detail;
          refuse = (\<lambda>w code message. (tool_audit ''view_image'' ids (Some ws) summary (Some code) w,
             View_error (failure ids (Some ws) (code = ''INTERNAL_ERROR'') [] code message)))
      in case lookup_workspace ids ws w of
        (w, None) \<Rightarrow> refuse w ''WORKSPACE_NOT_FOUND'' (''workspace not found: '' @ ws)
      | (w, Some r) \<Rightarrow>
          (case rendered_image env r vpath detail of
             Inl (code, message) \<Rightarrow> refuse w code message
           | Inr (meta, shown, fmt) \<Rightarrow>
               (tool_audit ''view_image'' ids (Some ws) summary None w,
                View_image (ok_result (ti_request ids) meta (ok_defaults\<lparr>oo_workspace_id := Some ws, oo_request_id := Some (ti_request ids)\<rparr>)) shown fmt)))"

text \<open>The checks of \<open>view_artifact\<close> before it hands over to \<open>view_image\<close>: a refusal, or the path below the worktree.\<close>

definition view_source :: "artifact_fs \<Rightarrow> workspace_table \<Rightarrow> artifact_row \<Rightarrow> (string \<times> string) + path" where
  "view_source fs workspaces r =
     (if ar_kind r \<noteq> ''image''
      then Inl (''ARTIFACT_NOT_IMAGE'', ''artifact '' @ ar_id r @ '' is '' @ py_repr (ar_kind r) @ '', not an image. Use read_artifact for text artifacts.'')
      else case resolve_artifact_path fs workspaces r of
        None \<Rightarrow> Inl (''PATH_DENIED'', outside_message r)
      | Some p \<Rightarrow>
          if \<not> af_is_file fs p then Inl (''ARTIFACT_STALE'', ''artifact file no longer exists on disk: '' @ ar_path r)
          else case af_bytes fs p of
            None \<Rightarrow> Inl (''INTERNAL_ERROR'', ''failed to read artifact'')
          | Some bytes \<Rightarrow>
              if hash_differs fs r bytes
              then Inl (''ARTIFACT_MODIFIED'', ''artifact file has been modified since registration: '' @ ar_path r)
              else Inr p)"

definition view_success :: "view_result \<Rightarrow> string option" where
  "view_success v = (case v of View_image _ _ _ \<Rightarrow> None | View_error j \<Rightarrow> Some (env_code j))"

definition view_artifact :: "view_env \<Rightarrow> tool_ids \<Rightarrow> tool_ids \<Rightarrow> string \<Rightarrow> string \<Rightarrow> artifact_world \<Rightarrow> artifact_world \<times> view_result" where
  "view_artifact env ids inner aid detail w =
     (let fs = ve_fs env; name = ''view_artifact''; summary = ''artifact_id='' @ py_repr aid @ '' detail='' @ py_repr detail;
          refuse = (\<lambda>ws w code message. (tool_audit name ids ws summary (Some code) w,
             View_error (failure ids ws False [(''artifact_id'', JStr aid)] code message)))
      in case get_artifact aid (aw_rows w) of
        None \<Rightarrow> refuse None w ''ARTIFACT_NOT_FOUND'' (''artifact not found: '' @ aid)
      | Some r \<Rightarrow>
          let ws = Some (ar_workspace r) in
          (case view_source fs (aw_workspaces w) r of
             Inl (code, message) \<Rightarrow> refuse ws w code message
           | Inr p \<Rightarrow>
               if ar_workspace r = [] then refuse None w ''INTERNAL_ERROR'' ''artifact has no workspace_id''
               else case lookup_workspace ids (ar_workspace r) w of
                 (w, None) \<Rightarrow> refuse ws w ''WORKSPACE_NOT_FOUND'' (''workspace not found: '' @ ar_workspace r)
               | (w, Some row) \<Rightarrow>
                   let worktree = af_resolve fs (path_parts (ws_path row)) in
                   if \<not> prefix worktree p
                   then refuse ws w ''PATH_DENIED'' ''image artifacts in the controlled process store cannot be viewed as workspace images''
                   else case view_image env inner (ar_workspace r) (rel_string (drop (length worktree) p)) detail w of
                     (w, v) \<Rightarrow> (tool_audit name ids ws summary (view_success v) w, v)))"

subsection \<open>Reading a whole artifact\<close>

lemma take_then_rest: "xs = take k xs @ drop (length (take k xs)) xs"
  by (cases "k \<le> length xs") simp_all

lemma text_page_split:
  assumes "text_page text offset n = (content, start, end_at, again)" "0 \<le> offset" "1 \<le> n"
  shows "drop (nat offset) text = content @ drop (nat end_at) text" "again \<longleftrightarrow> drop (nat end_at) text \<noteq> []" "0 \<le> end_at"
    "int (length content) \<le> n" "again \<Longrightarrow> content \<noteq> []" "int (length content) \<le> max_read_chars"
proof -
  let ?s = "nat (min offset (int (length text)))" and ?k = "nat (min n max_read_chars)"
  have c: "content = take ?k (drop ?s text)" and end_at: "end_at = min offset (int (length text)) + int (length content)"
    and m: "again \<longleftrightarrow> end_at < int (length text)"
    using assms(1) unfolding text_page_def Let_def prod.inject by blast+
  have s0: "0 \<le> min offset (int (length text))" using assms(2) by simp
  then have e: "nat end_at = ?s + length content" "0 \<le> end_at"
    unfolding end_at by (simp_all only: nat_add_distrib of_nat_0_le_iff nat_int add_nonneg_nonneg)
  have s: "drop ?s text = drop (nat offset) text" using assms(2) by (cases "offset \<le> int (length text)") simp_all
  have "drop ?s text = content @ drop (length content) (drop ?s text)"
    unfolding c by (rule take_then_rest)
  moreover have "drop (length content) (drop ?s text) = drop (nat end_at) text"
    unfolding e(1) drop_drop by (simp only: add.commute)
  ultimately show "drop (nat offset) text = content @ drop (nat end_at) text" unfolding s by (rule trans [OF _ arg_cong])
  show "again \<longleftrightarrow> drop (nat end_at) text \<noteq> []" using m e(2) by auto
  show "0 \<le> end_at" by (rule e(2))
  have "length content \<le> ?k" unfolding c by simp
  then show "int (length content) \<le> n" "int (length content) \<le> max_read_chars" using assms(3) by (auto simp: max_read_chars_def)
  have k: "?k \<noteq> 0" using assms(3) by (simp add: max_read_chars_def)
  show "content \<noteq> []" if again
  proof -
    have "?s + length content < length text" using that m e by linarith
    then have "drop ?s text \<noteq> []" by simp
    then show ?thesis using k unfolding c take_eq_Nil by blast
  qed
qed

text \<open>The pages of \<open>read_artifact\<close> as a reader with a cursor: the offset.\<close>

definition artifact_page :: "string \<Rightarrow> nat \<Rightarrow> nat \<Rightarrow> string \<times> nat \<times> bool" where
  "artifact_page text offset n =
     (case text_page text (int offset) (int n) of (content, _, end_at, again) \<Rightarrow> (content, nat end_at, again))"

interpretation artifact_pages: paged_reader "\<lambda>_. True" artifact_page "\<lambda>text offset. drop offset text"
proof
  fix doc :: string and n c c' :: nat and xs :: string and again
  assume n: "0 < n" and p: "artifact_page doc c n = (xs, c', again)"
  obtain start end_at where t: "text_page doc (int c) (int n) = (xs, start, end_at, again)" and c': "c' = nat end_at"
    using p by (auto simp: artifact_page_def split: prod.splits)
  have one: "1 \<le> int n" using n by simp
  note split = text_page_split [OF t of_nat_0_le_iff one]
  show "drop c doc = xs @ drop c' doc" using split(1) c' by simp
  show "again = (drop c' doc \<noteq> [])" using split(2) c' by simp
  show "length xs \<le> n" using split(4) by simp
  show "xs \<noteq> []" if again using split(5) that .
qed

text \<open>A client of the tool: it reads a page and goes on at the returned cursor until there is none, at most \<open>k\<close> times.\<close>

fun read_pages :: "nat \<Rightarrow> artifact_fs \<Rightarrow> (nat \<Rightarrow> tool_ids) \<Rightarrow> string \<Rightarrow> int \<Rightarrow> string \<Rightarrow> artifact_world \<Rightarrow> string option" where
  "read_pages 0 fs ids aid n cursor w = None"
| "read_pages (Suc k) fs ids aid n cursor w =
     (case read_artifact fs (ids k) aid (int (py_int_of 0 cursor)) n w of
        (w, j) \<Rightarrow>
          if \<not> env_ok j then None
          else let content = jstr (env_field ''content'' (env_field ''result'' j)) in
            case env_field ''next_cursor'' j of
              JStr c \<Rightarrow> map_option (\<lambda>rest. content @ rest) (read_pages k fs ids aid n c w)
            | _ \<Rightarrow> Some content)"

lemma audit_keeps [simp]: "aw_rows (tool_audit name ids ws summary code w) = aw_rows w"
    "aw_workspaces (tool_audit name ids ws summary code w) = aw_workspaces w"
  by (simp_all add: tool_audit_def)

lemma read_artifact_page:
  assumes "get_artifact aid (aw_rows w) = Some r" "artifact_text fs (aw_workspaces w) r = Inr doc" "0 \<le> offset" "1 \<le> n"
    and "text_page doc offset n = (content, start, end_at, again)"
  shows "\<exists>w' j. read_artifact fs ids aid offset n w = (w', j) \<and> env_ok j \<and> aw_rows w' = aw_rows w \<and> aw_workspaces w' = aw_workspaces w \<and>
    env_field ''content'' (env_field ''result'' j) = JStr content \<and>
    env_field ''next_cursor'' j = (if again then JStr (py_str_int end_at) else JNull)"
proof -
  have "\<not> (offset < 0 \<or> n < 1)" using assms(3,4) by simp
  then show ?thesis
    using assms(1,2,5)
    by (simp add: read_artifact_def Let_def env_ok_def ok_result_def ok_defaults_def with_field_def opt_str_def)
qed

lemma read_pages_from:
  assumes "get_artifact aid (aw_rows w) = Some r" "artifact_text fs (aw_workspaces w) r = Inr doc" "1 \<le> n"
    and "py_int_of 0 cursor = m" "length (drop m doc) \<le> k"
  shows "read_pages (Suc k) fs ids aid n cursor w = Some (drop m doc)"
  using assms
proof (induction k arbitrary: cursor m w)
  case (0 cursor m w)
  obtain content start end_at again where t: "text_page doc (int m) n = (content, start, end_at, again)" by (cases "text_page doc (int m) n")
  note split = text_page_split [OF t of_nat_0_le_iff 0(3)]
  from read_artifact_page [OF 0(1,2) of_nat_0_le_iff 0(3) t] obtain w' j where
    "read_artifact fs (ids 0) aid (int m) n w = (w', j)" "env_ok j" "env_field ''content'' (env_field ''result'' j) = JStr content"
    "env_field ''next_cursor'' j = (if again then JStr (py_str_int end_at) else JNull)" by blast
  then show ?case using split(1,2) 0(4,5) by simp
next
  case (Suc k cursor m w)
  obtain content start end_at again where t: "text_page doc (int m) n = (content, start, end_at, again)" by (cases "text_page doc (int m) n")
  note split = text_page_split [OF t of_nat_0_le_iff Suc(4)]
  from read_artifact_page [OF Suc(2,3) of_nat_0_le_iff Suc(4) t] obtain w' j where
    j: "read_artifact fs (ids (Suc k)) aid (int m) n w = (w', j)" "env_ok j" "env_field ''content'' (env_field ''result'' j) = JStr content"
    "env_field ''next_cursor'' j = (if again then JStr (py_str_int end_at) else JNull)" and w': "aw_rows w' = aw_rows w" "aw_workspaces w' = aw_workspaces w" by blast
  show ?case
  proof (cases again)
    case True
    have c: "py_int_of 0 (py_str_int end_at) = nat end_at" using split(3) by (simp add: py_str_int_def py_int_of_nat_str)
    have d: "drop m doc = content @ drop (nat end_at) doc" using split(1) by simp
    have "length (drop (nat end_at) doc) \<le> k" using split(5) [OF True] d Suc(6) by (cases content) simp_all
    from Suc.IH [OF Suc(2,3) [folded w'] Suc(4) c this] show ?thesis using j True Suc(5) d by simp
  next
    case False
    then have "drop (nat end_at) doc = []" using split(2) by simp
    then show ?thesis using j False Suc(5) split(1) by simp
  qed
qed

text \<open>
  C39. A text artifact can be read to its end: while its file still has the recorded hash, a client that starts at 0 and follows the
  cursors of \<open>read_artifact\<close>, with any page size, gets exactly the text of the file.
\<close>
theorem artifact_read_to_end:
  assumes "get_artifact aid (aw_rows w) = Some r" "artifact_text fs (aw_workspaces w) r = Inr doc" "1 \<le> n"
  shows "read_pages (Suc (length doc)) fs ids aid n ''0'' w = Some doc"
proof -
  have "py_int_of 0 ''0'' = 0" by code_simp
  from read_pages_from [OF assms this] show ?thesis by simp
qed

definition demo_text_row :: artifact_row where
  "demo_text_row = \<lparr>ar_id = ''a1'', ar_workspace = ''ws'', ar_kind = ''text'', ar_path = ''s/a'', ar_mime = None, ar_size = 3, ar_sha = Some ''abc'',
     ar_source = None, ar_process = None, ar_created = ''t'', ar_metadata = None\<rparr>"

definition demo_text_world :: artifact_world where
  "demo_text_world = demo_artifacts\<lparr>aw_rows := [demo_text_row]\<rparr>"

definition demo_tool_ids :: "nat \<Rightarrow> tool_ids" where
  "demo_tool_ids n = \<lparr>ti_request = ''r'', ti_operation = nat_str n, ti_now = ''t'', ti_ms = 1\<rparr>"

theorem artifact_read_to_end_witness:
  "read_pages 4 demo_fs demo_tool_ids ''a1'' 2 ''0'' demo_text_world = Some ''abc''"
proof -
  have row: "get_artifact ''a1'' (aw_rows demo_text_world) = Some demo_text_row"
    by (simp add: demo_text_world_def demo_text_row_def get_artifact_def)
  have doc: "artifact_text demo_fs (aw_workspaces demo_text_world) demo_text_row = Inr ''abc''" by code_simp
  show ?thesis using artifact_read_to_end [OF row doc, of 2 demo_tool_ids] by (simp add: eval_nat_numeral)
qed

subsection \<open>What is shown of an image\<close>

lemma rendered_image_Inr:
  assumes "rendered_image env r vpath detail = Inr (meta, shown, fmt)"
  obtains p n bytes mime w h sw sh where "view_target env r vpath detail = Inr (p, n)" "af_bytes (ve_fs env) p = Some bytes"
    "check_image env vpath bytes = Inr (mime, w, h)" "scale_image (ve_lib env) (ve_limits env) bytes detail = Inr (shown, sw, sh)"
    "fmt = output_format mime" "env_field ''mime_type'' meta = JStr mime"
proof -
  obtain p n where t: "view_target env r vpath detail = Inr (p, n)"
    using assms by (auto simp: rendered_image_def obind_Inr_iff)
  with assms obtain bytes where b: "af_bytes (ve_fs env) p = Some bytes"
    by (cases "af_bytes (ve_fs env) p") (auto simp: rendered_image_def obind_Inr_iff)
  with assms t obtain mime w h where c: "check_image env vpath bytes = Inr (mime, w, h)"
    by (auto simp: rendered_image_def obind_Inr_iff)
  with assms t b obtain sw sh where "scale_image (ve_lib env) (ve_limits env) bytes detail = Inr (shown, sw, sh)"
      "fmt = output_format mime" "env_field ''mime_type'' meta = JStr mime"
    by (cases "scale_image (ve_lib env) (ve_limits env) bytes detail") (auto simp: rendered_image_def)
  with t b c that show thesis by blast
qed

lemma view_target_Inr:
  assumes "view_target env r vpath detail = Inr (p, n)"
  shows "resolve_within (af_resolve (ve_fs env)) (af_is_file (ve_fs env)) (path_parts (ws_path r)) vpath False = Inr p"
    "\<not> is_denied (af_resolve (ve_fs env)) (ve_deny env) p (Some (path_parts (ws_path r)))" "af_is_file (ve_fs env) p"
    "n \<le> im_max_bytes (ve_limits env)" "detail = ''high'' \<or> detail = ''original''"
  using assms by (auto simp: view_target_def Let_def split: if_splits sum.splits option.splits)

lemma check_image_Inr:
  assumes "check_image env vpath bytes = Inr (mime, w, h)"
  shows "detect_mime (ve_lib env) bytes = Some mime" "mime \<in> set (im_supported (ve_limits env))" "il_size (ve_lib env) bytes = Inr (w, h)"
    "w * h \<le> im_max_pixels (ve_limits env)" "w \<le> im_max_dimension (ve_limits env)" "h \<le> im_max_dimension (ve_limits env)"
  using assms by (auto simp: check_image_def Let_def split: if_splits sum.splits option.splits)

lemma view_image_target:
  assumes "view_image env ids ws vpath detail w = (w', View_image j shown fmt)"
  obtains r meta where "snd (get_workspace (ti_now ids) ws (aw_workspaces w)) = Some r" "rendered_image env r vpath detail = Inr (meta, shown, fmt)"
    "env_field ''result'' j = meta"
proof -
  obtain table a where g: "get_workspace (ti_now ids) ws (aw_workspaces w) = (table, a)" by (cases "get_workspace (ti_now ids) ws (aw_workspaces w)")
  show thesis
  proof (cases a)
    case None
    then show thesis using assms g by (simp add: view_image_def lookup_workspace_def Let_def)
  next
    case (Some r)
    show thesis
    proof (cases "rendered_image env r vpath detail")
      case (Inl e)
      then show thesis using assms g Some by (simp add: view_image_def lookup_workspace_def Let_def split: prod.splits)
    next
      case (Inr m)
      then show thesis using assms g Some that
        by (cases m) (auto simp: view_image_def lookup_workspace_def Let_def ok_result_def ok_defaults_def with_field_def)
    qed
  qed
qed

text \<open>
  An image is shown only from inside its workspace and within the limits: the path resolves below the worktree, is not on the deny list
  and is a regular file, its recognised format is a supported one, and its size, pixel count and both dimensions respect the configuration.
\<close>
lemma view_image_confined:
  assumes "view_image env ids ws vpath detail w = (w', View_image j shown fmt)"
  shows "\<exists>r p bytes mime x y. snd (get_workspace (ti_now ids) ws (aw_workspaces w)) = Some r \<and>
    prefix (af_resolve (ve_fs env) (path_parts (ws_path r))) p \<and>
    \<not> is_denied (af_resolve (ve_fs env)) (ve_deny env) p (Some (path_parts (ws_path r))) \<and> af_is_file (ve_fs env) p \<and>
    af_bytes (ve_fs env) p = Some bytes \<and> detect_mime (ve_lib env) bytes = Some mime \<and> mime \<in> set (im_supported (ve_limits env)) \<and>
    il_size (ve_lib env) bytes = Inr (x, y) \<and> x * y \<le> im_max_pixels (ve_limits env) \<and>
    x \<le> im_max_dimension (ve_limits env) \<and> y \<le> im_max_dimension (ve_limits env)"
proof -
  obtain r meta where r: "snd (get_workspace (ti_now ids) ws (aw_workspaces w)) = Some r" "rendered_image env r vpath detail = Inr (meta, shown, fmt)"
    using view_image_target [OF assms] by blast
  obtain p n bytes mime x y where p: "view_target env r vpath detail = Inr (p, n)" "af_bytes (ve_fs env) p = Some bytes"
    "check_image env vpath bytes = Inr (mime, x, y)" by (rule rendered_image_Inr [OF r(2)])
  note t = view_target_Inr [OF p(1)]
  show ?thesis using r(1) resolve_within_inside [OF t(1)] t(2,3) p(2) check_image_Inr [OF p(3)] by blast
qed

text \<open>
  A reduced photograph is announced in the wrong format: with an image library that writes the reduced image as PNG, as the code asks it
  to, viewing an oversized JPEG with \<open>detail=high\<close> returns PNG data labelled \<open>jpeg\<close>, with \<open>mime_type\<close> \<open>image/jpeg\<close>.
\<close>
lemma reduced_image_mislabelled:
  assumes "view_image env ids ws vpath ''high'' w = (w', View_image j shown fmt)" "env_field ''mime_type'' (env_field ''result'' j) = JStr ''image/jpeg''"
    and "\<forall>bytes x y s. il_resize (ve_lib env) bytes x y = Inr s \<longrightarrow> detect_mime (ve_lib env) (fst s) = Some ''image/png''"
  shows "\<exists>p bytes x y. af_bytes (ve_fs env) p = Some bytes \<and> detect_mime (ve_lib env) bytes = Some ''image/jpeg'' \<and>
    il_size (ve_lib env) bytes = Inr (x, y) \<and> fmt = ''jpeg'' \<and>
    (if x \<le> im_max_high (ve_limits env) \<and> y \<le> im_max_high (ve_limits env) then shown = bytes
     else detect_mime (ve_lib env) shown = Some ''image/png'')"
proof -
  obtain r meta where r: "rendered_image env r vpath ''high'' = Inr (meta, shown, fmt)" "env_field ''result'' j = meta"
    using view_image_target [OF assms(1)] by blast
  obtain p n bytes mime x y sw sh where p: "af_bytes (ve_fs env) p = Some bytes" "check_image env vpath bytes = Inr (mime, x, y)"
    and scale: "scale_image (ve_lib env) (ve_limits env) bytes ''high'' = Inr (shown, sw, sh)" and fmt: "fmt = output_format mime"
    and mime: "env_field ''mime_type'' meta = JStr mime" by (rule rendered_image_Inr [OF r(1)])
  note c = check_image_Inr [OF p(2)]
  have jpeg: "mime = ''image/jpeg''" using mime assms(2) r(2) by simp
  have "if x \<le> im_max_high (ve_limits env) \<and> y \<le> im_max_high (ve_limits env) then shown = bytes
     else \<exists>a b. il_resize (ve_lib env) bytes a b = Inr (shown, sw, sh)"
    using scale c(3) by (auto simp: scale_image_def Let_def split: if_splits)
  moreover have "detect_mime (ve_lib env) shown = Some ''image/png''" if "il_resize (ve_lib env) bytes a b = Inr (shown, sw, sh)" for a b
    using assms(3) [rule_format, OF that] by simp
  ultimately have "if x \<le> im_max_high (ve_limits env) \<and> y \<le> im_max_high (ve_limits env) then shown = bytes
     else detect_mime (ve_lib env) shown = Some ''image/png''"
    by (auto split: if_splits)
  moreover have "fmt = ''jpeg''" using fmt jpeg by (simp add: output_format_def)
  ultimately show ?thesis using p(1) c(1,3) jpeg by blast
qed

definition demo_lib :: image_lib where
  "demo_lib = \<lparr>il_format = (\<lambda>s. if s = ''abc'' then Some ''jpeg'' else Some ''PNG''), il_size = (\<lambda>s. Inr (3000, 10)),
     il_resize = (\<lambda>s x y. Inr (''p'', 2048, 6))\<rparr>"

definition demo_view :: view_env where
  "demo_view = \<lparr>ve_fs = demo_fs, ve_lib = demo_lib,
     ve_limits = \<lparr>im_max_bytes = 100, im_max_pixels = 100000, im_max_dimension = 10000, im_max_high = 2048, im_supported = [''image/jpeg'', ''image/png'']\<rparr>, ve_deny = Some []\<rparr>"

definition demo_view_world :: artifact_world where
  "demo_view_world = demo_artifacts\<lparr>aw_workspaces := [(''ws-01234567'', snd (hd (aw_workspaces demo_artifacts)))]\<rparr>"

abbreviation demo_shown :: "artifact_world \<times> view_result" where
  "demo_shown \<equiv> view_image demo_view (demo_tool_ids 1) ''ws-01234567'' ''s/a'' ''high'' demo_view_world"

lemma demo_scaled: "scale_image (ve_lib demo_view) (ve_limits demo_view) ''abc'' ''high'' = Inr (''p'', 2048, 6)"
  by (simp add: scale_image_def demo_view_def demo_lib_def Let_def)

lemma demo_shown_png:
  "case snd demo_shown of View_error _ \<Rightarrow> False
   | View_image j shown fmt \<Rightarrow> shown = ''p'' \<and> env_field ''mime_type'' (env_field ''result'' j) = JStr ''image/jpeg''"
  by code_simp

lemma demo_shown_image:
  obtains j fmt where "demo_shown = (fst demo_shown, View_image j ''p'' fmt)" "env_field ''mime_type'' (env_field ''result'' j) = JStr ''image/jpeg''"
proof (cases "snd demo_shown")
  case (View_image j shown fmt)
  then have "shown = ''p''" "env_field ''mime_type'' (env_field ''result'' j) = JStr ''image/jpeg''" using demo_shown_png by simp_all
  then show thesis using that View_image by (metis prod.collapse)
qed (use demo_shown_png in simp)

lemma view_image_confined_witness: "\<exists>p. prefix [''w''] p \<and> af_is_file demo_fs p"
proof -
  obtain j fmt where s: "demo_shown = (fst demo_shown, View_image j ''p'' fmt)" by (rule demo_shown_image)
  have "snd (get_workspace ''t'' ''ws-01234567'' (aw_workspaces demo_view_world)) = Some (snd (hd (aw_workspaces demo_artifacts)))" by code_simp
  moreover have "path_parts (ws_path (snd (hd (aw_workspaces demo_artifacts)))) = [''w'']" by code_simp
  ultimately show ?thesis using view_image_confined [OF s] by (auto simp: demo_view_def demo_fs_def demo_tool_ids_def)
qed

lemma reduced_image_mislabelled_witness:
  "case snd demo_shown of View_error _ \<Rightarrow> False
   | View_image j shown fmt \<Rightarrow> fmt = ''jpeg'' \<and> detect_mime demo_lib shown = Some ''image/png''"
proof -
  obtain j fmt where s: "demo_shown = (fst demo_shown, View_image j ''p'' fmt)" "env_field ''mime_type'' (env_field ''result'' j) = JStr ''image/jpeg''"
    by (rule demo_shown_image)
  have png: "\<forall>bytes x y s. il_resize (ve_lib demo_view) bytes x y = Inr s \<longrightarrow> detect_mime (ve_lib demo_view) (fst s) = Some ''image/png''"
    by (auto simp: demo_view_def demo_lib_def detect_mime_def format_mimes_def py_upper_char_def char_code_def)
  from reduced_image_mislabelled [OF s png] have "fmt = ''jpeg''" "detect_mime demo_lib ''p'' = Some ''image/png''"
    by (auto simp: demo_view_def demo_lib_def)
  moreover have "snd demo_shown = View_image j ''p'' fmt" using s(1) by (metis snd_conv)
  ultimately show ?thesis by simp
qed

end
