(* ===== verification/Database_Admin.thy ===== *)
theory Database_Admin
  imports Workspace_Plan Workspace_Table
begin

text \<open>
  The rest of \<open>app/storage/database.py\<close>: the connection of a thread and the \<open>Database\<close> handle that redirects it, the schema that
  \<open>init_db\<close> creates and migrates, the single-row helpers of plans and steps, and the operations log with its times.
\<close>

subsection \<open>The connection of a thread\<close>

text \<open>
  The thread-local attributes: the open connection (the file it was opened on), the recorded path, and the path a handle has put in
  place.  \<open>None\<close> stands for an absent attribute too.
\<close>

record db_thread =
  dt_conn :: "string option"
  dt_path :: "string option"
  dt_override :: "string option"

text \<open>What opening and closing answer.  A pragma that fails leaves the connection assigned without its path.\<close>

datatype open_answer = Open_ok | Open_failed | Open_no_pragma

record db_files =
  df_open :: "string \<Rightarrow> open_answer"
  df_close_fails :: bool

definition effective_db_path :: "string \<Rightarrow> db_thread \<Rightarrow> string" where
  "effective_db_path main_file t = (case dt_override t of None \<Rightarrow> main_file | Some p \<Rightarrow> p)"

definition get_connection :: "db_files \<Rightarrow> string \<Rightarrow> db_thread \<Rightarrow> db_thread \<times> (string + string)" where
  "get_connection f main_file t =
     (let p = effective_db_path main_file t; stale = (dt_conn t \<noteq> None \<and> dt_path t \<noteq> Some p);
          t = (if stale then t\<lparr>dt_conn := None, dt_path := None\<rparr> else t)
      in if stale \<and> df_close_fails f then (t, Inl ''close failed'')
         else case dt_conn t of
           Some c \<Rightarrow> (t, Inr c)
         | None \<Rightarrow>
             (case df_open f p of
                Open_ok \<Rightarrow> (t\<lparr>dt_conn := Some p, dt_path := Some p\<rparr>, Inr p)
              | Open_failed \<Rightarrow> (t, Inl ''unable to open database file'')
              | Open_no_pragma \<Rightarrow> (t\<lparr>dt_conn := Some p\<rparr>, Inl ''database is locked'')))"

text \<open>\<open>Database._activated\<close> around a body, and \<open>Database.close\<close>.\<close>

definition activated :: "string \<Rightarrow> (db_thread \<Rightarrow> db_thread \<times> 'r) \<Rightarrow> db_thread \<Rightarrow> db_thread \<times> 'r" where
  "activated path body t =
     (let previous = dt_override t; (t', r) = body (t\<lparr>dt_override := Some path\<rparr>) in (t'\<lparr>dt_override := previous\<rparr>, r))"

definition close_handle :: "string \<Rightarrow> db_thread \<Rightarrow> db_thread" where
  "close_handle path t = (if dt_path t = Some path then t\<lparr>dt_conn := None, dt_path := None\<rparr> else t)"

text \<open>One use of the database in a thread: through the module functions or a handle, or closing a handle.\<close>

datatype db_use = Use_default | Use_handle string | Close_handle string

definition use_database :: "db_files \<Rightarrow> string \<Rightarrow> db_use \<Rightarrow> db_thread \<Rightarrow> db_thread \<times> (string + string) option" where
  "use_database f main_file u t =
     (case u of
        Use_default \<Rightarrow> (case get_connection f main_file t of (t', r) \<Rightarrow> (t', Some r))
      | Use_handle p \<Rightarrow> (case activated p (get_connection f main_file) t of (t', r) \<Rightarrow> (t', Some r))
      | Close_handle p \<Rightarrow> (close_handle p t, None))"

definition used_path :: "string \<Rightarrow> db_use \<Rightarrow> string" where
  "used_path main_file u = (case u of Use_handle p \<Rightarrow> p | _ \<Rightarrow> main_file)"

definition thread_ok :: "db_thread \<Rightarrow> bool" where
  "thread_ok t \<longleftrightarrow> dt_override t = None \<and> (\<forall>p. dt_path t = Some p \<longrightarrow> dt_conn t = Some p)"

definition new_thread :: db_thread where
  "new_thread = \<lparr>dt_conn = None, dt_path = None, dt_override = None\<rparr>"

text \<open>Any sequence of uses, each with its own answers of the file system.\<close>

inductive thread_history :: "string \<Rightarrow> db_thread \<Rightarrow> bool" for main_file where
  history_new: "thread_history main_file new_thread"
| history_use: "thread_history main_file t \<Longrightarrow> thread_history main_file (fst (use_database f main_file u t))"

lemma get_connection_ok:
  assumes "\<forall>p. dt_path t = Some p \<longrightarrow> dt_conn t = Some p" "get_connection f main_file t = (t', r)"
  shows "dt_override t' = dt_override t" "\<forall>p. dt_path t' = Some p \<longrightarrow> dt_conn t' = Some p" "\<And>c. r = Inr c \<Longrightarrow> c = effective_db_path main_file t"
  using assms by (auto simp: get_connection_def Let_def split: if_splits option.splits open_answer.splits)

lemma use_database_ok:
  assumes "thread_ok t" "use_database f main_file u t = (t', r)"
  shows "thread_ok t'" "\<And>c. r = Some (Inr c) \<Longrightarrow> c = used_path main_file u"
proof -
  have plain: "\<forall>p. dt_path t = Some p \<longrightarrow> dt_conn t = Some p" "dt_override t = None" using assms(1) by (simp_all add: thread_ok_def)
  have handled: "\<forall>p. dt_path (t\<lparr>dt_override := Some q\<rparr>) = Some p \<longrightarrow> dt_conn (t\<lparr>dt_override := Some q\<rparr>) = Some p" for q using plain by simp
  show "thread_ok t'"
  proof (cases u)
    case Use_default
    then show ?thesis using assms(2) plain get_connection_ok(1,2) [OF plain(1)]
      by (auto simp: use_database_def thread_ok_def split: prod.splits)
  next
    case (Use_handle q)
    then show ?thesis using assms(2) plain get_connection_ok(2) [OF handled]
      by (auto simp: use_database_def activated_def thread_ok_def Let_def split: prod.splits)
  next
    case (Close_handle q)
    then show ?thesis using assms plain by (auto simp: use_database_def close_handle_def thread_ok_def)
  qed
  show "c = used_path main_file u" if "r = Some (Inr c)" for c
  proof (cases u)
    case Use_default
    then show ?thesis using that assms(2) plain(2) get_connection_ok(3) [OF plain(1)]
      by (auto simp: use_database_def used_path_def effective_db_path_def split: prod.splits)
  next
    case (Use_handle q)
    then show ?thesis using that assms(2) get_connection_ok(3) [OF handled]
      by (auto simp: use_database_def activated_def used_path_def effective_db_path_def Let_def split: prod.splits)
  next
    case (Close_handle q)
    then show ?thesis using that assms(2) by (simp add: use_database_def)
  qed
qed

text \<open>
  Handles are isolated: after any history of a thread, a helper called through a \<open>Database\<close> handle runs on a connection to that
  handle's file and a module-level helper on one to the default file, and the thread is left without an override.
\<close>
lemma database_handles_isolated:
  assumes "thread_history main_file t" "use_database f main_file u t = (t', Some (Inr c))"
  shows "c = used_path main_file u \<and> dt_override t' = None"
proof -
  have "thread_ok t" using assms(1)
  proof induction
    case (history_use t f u)
    then show ?case using use_database_ok(1) [of t f main_file u] by (cases "use_database f main_file u t") simp
  qed (simp add: thread_ok_def new_thread_def)
  from use_database_ok [OF this assms(2)] show ?thesis by (simp add: thread_ok_def)
qed

lemma database_handles_isolated_witness:
  "use_database \<lparr>df_open = (\<lambda>_. Open_ok), df_close_fails = False\<rparr> ''a'' (Use_handle ''b'') (fst (use_database \<lparr>df_open = (\<lambda>_. Open_ok), df_close_fails = False\<rparr> ''a'' Use_default new_thread))
     = (\<lparr>dt_conn = Some ''b'', dt_path = Some ''b'', dt_override = None\<rparr>, Some (Inr ''b''))"
proof -
  let ?f = "\<lparr>df_open = (\<lambda>_. Open_ok), df_close_fails = False\<rparr>"
  let ?t = "fst (use_database ?f ''a'' Use_default new_thread)"
  have r: "use_database ?f ''a'' (Use_handle ''b'') ?t = (\<lparr>dt_conn = Some ''b'', dt_path = Some ''b'', dt_override = dt_override ?t\<rparr>, Some (Inr ''b''))"
    by (simp add: use_database_def activated_def get_connection_def effective_db_path_def new_thread_def Let_def)
  have "thread_history ''a'' ?t" by (rule history_use [OF history_new])
  from database_handles_isolated [OF this r] r show ?thesis by simp
qed

subsection \<open>The schema\<close>

text \<open>A schema maps each table to its columns; \<open>CREATE TABLE IF NOT EXISTS\<close> leaves a table that is there as it is.\<close>

type_synonym db_schema = "(string, string list) dict"

definition workspaces_table :: "string \<times> string list" where
  "workspaces_table = (''workspaces'', [''workspace_id'', ''project_id'', ''task_name'', ''worktree_path'', ''base_commit'', ''status'', ''created_at'',
     ''last_accessed_at'', ''closed_at''])"

definition processes_table :: "string \<times> string list" where
  "processes_table = (''processes'', [''process_id'', ''workspace_id'', ''tool_name'', ''script_sha256'', ''script_preview'', ''working_directory'', ''status'',
     ''pid'', ''exit_code'', ''started_at'', ''completed_at'', ''stdout_path'', ''stderr_path'', ''process_creation_identity'', ''heartbeat'',
     ''last_output_offset'', ''job_object_identity'', ''recovery_status''])"

definition operations_table :: "string \<times> string list" where
  "operations_table = (''operations'', [''operation_id'', ''workspace_id'', ''tool_name'', ''summary'', ''success'', ''started_at'', ''completed_at'',
     ''request_id'', ''actor'', ''input_summary'', ''result_status'', ''duration_ms'', ''error_code''])"

definition artifacts_table :: "string \<times> string list" where
  "artifacts_table = (''artifacts'', [''artifact_id'', ''workspace_id'', ''kind'', ''path'', ''mime_type'', ''size_bytes'', ''sha256'', ''source_type'',
     ''source_process_id'', ''created_at'', ''metadata''])"

definition plan_tables :: "(string \<times> string list) list" where
  "plan_tables = [(''plans'', [''plan_id'', ''workspace_id'', ''explanation'', ''revision'', ''created_at'', ''updated_at'']),
     (''plan_steps'', [''step_id'', ''plan_id'', ''step_index'', ''text'', ''status'', ''evidence'', ''blocked_reason'', ''created_at'', ''updated_at''])]"

definition event_tables :: "(string \<times> string list) list" where
  "event_tables = [(''events'', [''event_id'', ''request_id'', ''workspace_id'', ''process_id'', ''event_type'', ''sequence'', ''payload_json'', ''created_at'']),
     (''event_retention_state'', [''workspace_id'', ''expired_through''])]"

definition change_set_tables :: "(string \<times> string list) list" where
  "change_set_tables = [(''change_sets'', [''change_set_id'', ''workspace_id'', ''explanation'', ''status'', ''revision'', ''base_head'', ''before_tree_hash'',
       ''staged_digest'', ''validated_digest'', ''after_tree_hash'', ''commit_phase'', ''error_code'', ''error_message'', ''created_at'', ''updated_at'',
       ''validated_at'', ''committed_at'', ''closed_at'', ''expires_at'']),
     (''change_set_operations'', [''change_set_id'', ''operation_id'', ''ordinal'', ''operation_type'', ''input_sha256'', ''payload_ref'', ''created_at'', ''result_json'']),
     (''change_set_files'', [''change_set_id'', ''path'', ''change_type'', ''before_exists'', ''before_sha256'', ''before_mode'', ''after_exists'', ''after_sha256'', ''after_mode''])]"

definition base_tables :: db_schema where
  "base_tables = [workspaces_table, processes_table, operations_table, artifacts_table] @ plan_tables @ event_tables @ change_set_tables"

definition create_table :: "string \<times> string list \<Rightarrow> db_schema \<Rightarrow> db_schema" where
  "create_table t s = (case map_of s (fst t) of Some _ \<Rightarrow> s | None \<Rightarrow> s @ [t])"

definition workspace_migrations :: "string list" where
  "workspace_migrations = [''main_head_at_creation'', ''main_status_at_creation'', ''main_status_sha256_at_creation'', ''revision'', ''current_head'',
     ''last_patch_at'', ''last_check'', ''changed_files'']"

definition process_migrations :: "string list" where
  "process_migrations = [''process_creation_identity'', ''heartbeat'', ''last_output_offset'', ''job_object_identity'', ''recovery_status'']"

definition operation_migrations :: "string list" where
  "operation_migrations = [''request_id'', ''actor'', ''input_summary'', ''result_status'', ''duration_ms'', ''error_code'']"

text \<open>\<open>ALTER TABLE ... ADD COLUMN\<close> for each missing column.\<close>

definition add_columns :: "string \<Rightarrow> string list \<Rightarrow> db_schema \<Rightarrow> db_schema" where
  "add_columns table columns s =
     map (\<lambda>(t, cs). (t, if t = table then cs @ filter (\<lambda>c. c \<notin> set cs) columns else cs)) s"

definition init_schema :: "db_schema \<Rightarrow> db_schema" where
  "init_schema s =
     add_columns ''operations'' operation_migrations (add_columns ''processes'' process_migrations (add_columns ''workspaces'' workspace_migrations
       (fold create_table base_tables s)))"

text \<open>The status text that an old version stored in full: replaced by its digest where there is none yet.\<close>

record legacy_row =
  lg_id :: string
  lg_status :: "string option"
  lg_sha :: "string option"

definition migrate_status :: "(string \<Rightarrow> string) \<Rightarrow> legacy_row list \<Rightarrow> legacy_row list" where
  "migrate_status sha rows =
     map (\<lambda>r. case (lg_status r, lg_sha r) of
                (Some t, None) \<Rightarrow> r\<lparr>lg_sha := Some (sha t), lg_status := None\<rparr>
              | _ \<Rightarrow> r) rows"

definition init_db :: "(string \<Rightarrow> string) \<Rightarrow> db_schema \<times> legacy_row list \<Rightarrow> db_schema \<times> legacy_row list" where
  "init_db sha d = (init_schema (fst d), migrate_status sha (snd d))"

lemma map_of_add_columns:
  "map_of (add_columns table columns s) t =
     map_option (\<lambda>cs. if t = table then cs @ filter (\<lambda>c. c \<notin> set cs) columns else cs) (map_of s t)"
  by (induction s) (auto simp: add_columns_def)

lemma map_of_create:
  "distinct (map fst ts) \<Longrightarrow> map_of (fold create_table ts s) t = (case map_of s t of Some cs \<Rightarrow> Some cs | None \<Rightarrow> map_of ts t)"
proof (induction ts arbitrary: s)
  case (Cons e ts)
  obtain k v where e: "e = (k, v)" by (cases e)
  have c: "map_of (create_table e s) t = (case map_of s t of Some cs \<Rightarrow> Some cs | None \<Rightarrow> if t = k then Some v else None)"
    by (cases "map_of s k"; cases "map_of s t") (auto simp: create_table_def map_add_def e)
  have "map_of (fold create_table ts (create_table e s)) t =
      (case map_of (create_table e s) t of Some cs \<Rightarrow> Some cs | None \<Rightarrow> map_of ts t)"
    using Cons by simp
  then have "map_of (fold create_table (e # ts) s) t =
      (case (case map_of s t of Some cs \<Rightarrow> Some cs | None \<Rightarrow> if t = k then Some v else None) of Some cs \<Rightarrow> Some cs | None \<Rightarrow> map_of ts t)"
    unfolding c by simp
  then show ?case unfolding e by (cases "map_of s t"; cases "t = k") simp_all
qed (simp split: option.split)

lemma base_tables_distinct: "distinct (map fst base_tables)"
  by code_simp

lemmas init_schema_map = map_of_create [OF base_tables_distinct]

definition migrated_columns :: "string \<Rightarrow> string list" where
  "migrated_columns t = (if t = ''workspaces'' then workspace_migrations else if t = ''processes'' then process_migrations
     else if t = ''operations'' then operation_migrations else [])"

lemma map_of_init:
  "map_of (init_schema s) t =
     map_option (\<lambda>cs. cs @ filter (\<lambda>c. c \<notin> set cs) (migrated_columns t))
       (case map_of s t of Some cs \<Rightarrow> Some cs | None \<Rightarrow> map_of base_tables t)"
proof -
  define old where "old = (case map_of s t of Some cs \<Rightarrow> Some cs | None \<Rightarrow> map_of base_tables t)"
  have "map_of (init_schema s) t =
      map_option (\<lambda>cs. if t = ''operations'' then cs @ filter (\<lambda>c. c \<notin> set cs) operation_migrations else cs)
        (map_option (\<lambda>cs. if t = ''processes'' then cs @ filter (\<lambda>c. c \<notin> set cs) process_migrations else cs)
          (map_option (\<lambda>cs. if t = ''workspaces'' then cs @ filter (\<lambda>c. c \<notin> set cs) workspace_migrations else cs) old))"
    unfolding init_schema_def map_of_add_columns init_schema_map old_def by simp
  also have "\<dots> = map_option (\<lambda>cs. cs @ filter (\<lambda>c. c \<notin> set cs) (migrated_columns t)) old"
    unfolding migrated_columns_def by (cases old) simp_all
  finally show ?thesis unfolding old_def .
qed

text \<open>Doing it again changes nothing.\<close>

lemma create_nothing: "list_all (\<lambda>e. map_of s (fst e) \<noteq> None) ts \<Longrightarrow> fold create_table ts s = s"
  by (induction ts) (auto simp: create_table_def)

lemma add_columns_twice: "add_columns t c (add_columns t c s) = add_columns t c s"
  by (auto simp: add_columns_def filter_empty_conv)

lemma add_columns_commute: "t \<noteq> u \<Longrightarrow> add_columns t c (add_columns u d s) = add_columns u d (add_columns t c s)"
  by (auto simp: add_columns_def)

lemma init_schema_twice: "init_schema (init_schema s) = init_schema s"
proof -
  have present: "list_all (\<lambda>e. map_of (init_schema s) (fst e) \<noteq> None) base_tables"
  proof -
    have "map_of base_tables (fst e) \<noteq> None" if "e \<in> set base_tables" for e using that by (simp add: map_of_eq_None_iff)
    then show ?thesis by (auto simp: list_all_iff map_of_init split: option.split)
  qed
  let ?o = "add_columns ''operations'' operation_migrations" and ?p = "add_columns ''processes'' process_migrations" and ?w = "add_columns ''workspaces'' workspace_migrations"
  have "?o (?p (?w (?o (?p (?w x))))) = ?o (?p (?w x))" for x
    by (simp add: add_columns_commute [of "''operations''"] add_columns_commute [of "''processes''" "''workspaces''"] add_columns_twice)
  then show ?thesis using create_nothing [OF present] unfolding init_schema_def by metis
qed

lemma migrate_status_twice: "migrate_status sha (migrate_status sha rows) = migrate_status sha rows"
  by (auto simp: migrate_status_def split: option.split)

text \<open>A database that some earlier version wrote: each known table it has lacks at most columns that are migrated.\<close>

definition earlier_version :: "db_schema \<Rightarrow> bool" where
  "earlier_version s \<longleftrightarrow> list_all (\<lambda>(t, cs). case map_of s t of None \<Rightarrow> True | Some old \<Rightarrow> set cs \<subseteq> set old \<union> set (migrated_columns t)) base_tables"



subsection \<open>Plans and steps row by row\<close>

definition get_plan_row :: "string \<Rightarrow> plan_db \<Rightarrow> plan_row option" where
  "get_plan_row ws db = map_of (pd_plans db) ws"

definition insert_plan :: "string \<Rightarrow> string \<Rightarrow> string \<Rightarrow> string \<Rightarrow> plan_db \<Rightarrow> plan_row plan_txn" where
  "insert_plan token now ws explanation db =
     (let pid = ''plan_'' @ token; row = \<lparr>pr_plan_id = pid, pr_explanation = explanation, pr_revision = 1, pr_created_at = now, pr_updated_at = now\<rparr> in
      if pid \<in> set (map (\<lambda>p. pr_plan_id (snd p)) (pd_plans db)) \<or> get_plan_row ws db \<noteq> None then (db, Inl (Plan_SqlError ''UNIQUE constraint failed''))
      else if ws \<notin> set (pd_workspaces db) then (db, Inl (Plan_SqlError ''FOREIGN KEY constraint failed''))
      else let db = db\<lparr>pd_plans := AList.update ws row (pd_plans db)\<rparr> in (db, Inr row))"

definition update_plan_revision :: "string \<Rightarrow> string \<Rightarrow> int \<Rightarrow> plan_db \<Rightarrow> int plan_txn" where
  "update_plan_revision now ws expected db =
     (case get_plan_row ws db of
        None \<Rightarrow> (db, Inl (Plan_ValueError ''plan not found''))
      | Some row \<Rightarrow>
          if pr_revision row \<noteq> expected then (db, Inl (Plan_ValueError (conflict_message expected (pr_revision row))))
          else (db\<lparr>pd_plans := AList.update ws (row\<lparr>pr_revision := pr_revision row + 1, pr_updated_at := now\<rparr>) (pd_plans db)\<rparr>, Inr (expected + 1)))"

definition update_plan_explanation :: "string \<Rightarrow> string \<Rightarrow> string \<Rightarrow> plan_db \<Rightarrow> plan_db" where
  "update_plan_explanation now ws explanation db =
     (case get_plan_row ws db of
        None \<Rightarrow> db
      | Some row \<Rightarrow> db\<lparr>pd_plans := AList.update ws (row\<lparr>pr_explanation := explanation, pr_updated_at := now\<rparr>) (pd_plans db)\<rparr>)"

definition delete_plan :: "string \<Rightarrow> plan_db \<Rightarrow> plan_db \<times> bool" where
  "delete_plan ws db =
     (case get_plan_row ws db of
        None \<Rightarrow> (db, False)
      | Some row \<Rightarrow>
          (db\<lparr>pd_steps := filter (\<lambda>r. sr_plan_id r \<noteq> pr_plan_id row) (pd_steps db), pd_plans := filter (\<lambda>e. fst e \<noteq> ws) (pd_plans db)\<rparr>, True))"

definition insert_plan_step :: "string \<Rightarrow> string \<Rightarrow> string \<Rightarrow> nat \<Rightarrow> string \<Rightarrow> string \<Rightarrow> plan_db \<Rightarrow> step_row plan_txn" where
  "insert_plan_step now plan_id step_id i body status db =
     (let row = \<lparr>sr_step_id = step_id, sr_plan_id = plan_id, sr_index = i, sr_text = body, sr_status = status, sr_evidence = None, sr_reason = JNull,
                 sr_created_at = now, sr_updated_at = now\<rparr> in
      if (plan_id, step_id) \<in> set (map (\<lambda>r. (sr_plan_id r, sr_step_id r)) (pd_steps db)) then (db, Inl (Plan_SqlError ''UNIQUE constraint failed''))
      else if plan_id \<notin> set (map (\<lambda>p. pr_plan_id (snd p)) (pd_plans db)) then (db, Inl (Plan_SqlError ''FOREIGN KEY constraint failed''))
      else (db\<lparr>pd_steps := pd_steps db @ [row]\<rparr>, Inr row))"

text \<open>\<open>update_plan_step\<close>: the given fields; nothing at all when none is given, and no value either.\<close>

definition change_step :: "string \<Rightarrow> string option \<Rightarrow> json option \<Rightarrow> string option \<Rightarrow> step_row \<Rightarrow> step_row" where
  "change_step now status evidence reason r =
     r\<lparr>sr_status := (case status of None \<Rightarrow> sr_status r | Some s \<Rightarrow> s), sr_evidence := (case evidence of None \<Rightarrow> sr_evidence r | Some e \<Rightarrow> Some e),
       sr_reason := (case reason of None \<Rightarrow> sr_reason r | Some t \<Rightarrow> JStr t), sr_updated_at := now\<rparr>"

definition update_plan_step ::
  "string \<Rightarrow> string \<Rightarrow> string \<Rightarrow> string option \<Rightarrow> json option \<Rightarrow> string option \<Rightarrow> plan_db \<Rightarrow> plan_db \<times> step_row option" where
  "update_plan_step now plan_id step_id status evidence reason db =
     (if status = None \<and> evidence = None \<and> reason = None then (db, None)
      else let mine = (\<lambda>r. sr_plan_id r = plan_id \<and> sr_step_id r = step_id);
               steps = map (\<lambda>r. if mine r then change_step now status evidence reason r else r) (pd_steps db)
        in (db\<lparr>pd_steps := steps\<rparr>, find mine steps))"

definition delete_plan_steps :: "string \<Rightarrow> plan_db \<Rightarrow> plan_db \<times> nat" where
  "delete_plan_steps plan_id db =
     (db\<lparr>pd_steps := filter (\<lambda>r. sr_plan_id r \<noteq> plan_id) (pd_steps db)\<rparr>, length (filter (\<lambda>r. sr_plan_id r = plan_id) (pd_steps db)))"

text \<open>The tables stay consistent: every step belongs to a plan, every plan to a known workspace, and no plan has two steps of one name.\<close>

definition plan_tables_ok :: "plan_db \<Rightarrow> bool" where
  "plan_tables_ok db \<longleftrightarrow>
     distinct (map fst (pd_plans db)) \<and> distinct (map (\<lambda>p. pr_plan_id (snd p)) (pd_plans db)) \<and>
     set (map fst (pd_plans db)) \<subseteq> set (pd_workspaces db) \<and>
     distinct (map (\<lambda>r. (sr_plan_id r, sr_step_id r)) (pd_steps db)) \<and>
     set (map sr_plan_id (pd_steps db)) \<subseteq> set (map (\<lambda>p. pr_plan_id (snd p)) (pd_plans db))"

datatype row_call =
    Insert_plan string string string string
  | Update_revision string string int
  | Update_explanation string string string
  | Delete_plan string
  | Insert_step string string string nat string string
  | Update_step string string string "string option" "json option" "string option"
  | Delete_steps string

definition row_step :: "row_call \<Rightarrow> plan_db \<Rightarrow> plan_db" where
  "row_step c db =
     (case c of
        Insert_plan token now ws explanation \<Rightarrow> fst (insert_plan token now ws explanation db)
      | Update_revision now ws expected \<Rightarrow> fst (update_plan_revision now ws expected db)
      | Update_explanation now ws explanation \<Rightarrow> update_plan_explanation now ws explanation db
      | Delete_plan ws \<Rightarrow> fst (delete_plan ws db)
      | Insert_step now plan_id step_id i body status \<Rightarrow> fst (insert_plan_step now plan_id step_id i body status db)
      | Update_step now plan_id step_id status evidence reason \<Rightarrow> fst (update_plan_step now plan_id step_id status evidence reason db)
      | Delete_steps plan_id \<Rightarrow> fst (delete_plan_steps plan_id db))"

lemma update_same_key:
  assumes "map_of d k = Some v" "distinct (map fst d)" "g w = g v"
  shows "map (\<lambda>e. g (snd e)) (AList.update k w d) = map (\<lambda>e. g (snd e)) d" "map fst (AList.update k w d) = map fst d"
  using assms by (induction d) (auto split: if_splits)

lemma put_plans: "pd_plans (db\<lparr>pd_plans := x\<rparr>) = x" "pd_steps (db\<lparr>pd_plans := x\<rparr>) = pd_steps db" "pd_workspaces (db\<lparr>pd_plans := x\<rparr>) = pd_workspaces db"
  by simp_all

lemma put_steps: "pd_plans (db\<lparr>pd_steps := x\<rparr>) = pd_plans db" "pd_steps (db\<lparr>pd_steps := x\<rparr>) = x" "pd_workspaces (db\<lparr>pd_steps := x\<rparr>) = pd_workspaces db"
  by simp_all

lemma plan_kept:
  assumes "plan_tables_ok db" "map_of (pd_plans db) ws = Some row" "pr_plan_id row' = pr_plan_id row"
  shows "plan_tables_ok (db\<lparr>pd_plans := AList.update ws row' (pd_plans db)\<rparr>)"
proof -
  have dist: "distinct (map fst (pd_plans db))" using assms(1) by (simp add: plan_tables_ok_def)
  note same = update_same_key [OF assms(2) dist assms(3)]
  show ?thesis using assms(1) unfolding plan_tables_ok_def put_plans same .
qed

lemma steps_kept:
  assumes "plan_tables_ok db" "map (\<lambda>r. (sr_plan_id r, sr_step_id r)) steps = map (\<lambda>r. (sr_plan_id r, sr_step_id r)) (pd_steps db)"
  shows "plan_tables_ok (db\<lparr>pd_steps := steps\<rparr>)"
proof -
  have "map sr_plan_id steps = map fst (map (\<lambda>r. (sr_plan_id r, sr_step_id r)) steps)" by simp
  also have "\<dots> = map sr_plan_id (pd_steps db)" unfolding assms(2) by simp
  finally show ?thesis using assms unfolding plan_tables_ok_def put_steps by simp
qed

lemma fewer_steps: "plan_tables_ok db \<Longrightarrow> plan_tables_ok (db\<lparr>pd_steps := filter P (pd_steps db)\<rparr>)"
  by (auto simp: plan_tables_ok_def distinct_map_filter)

lemma new_plan:
  assumes "plan_tables_ok db" "pr_plan_id row \<notin> set (map (\<lambda>p. pr_plan_id (snd p)) (pd_plans db))" "map_of (pd_plans db) ws = None" "ws \<in> set (pd_workspaces db)"
  shows "plan_tables_ok (db\<lparr>pd_plans := AList.update ws row (pd_plans db)\<rparr>)"
proof -
  have "ws \<notin> set (map fst d) \<Longrightarrow> AList.update ws row d = d @ [(ws, row)]" for d :: "(string, plan_row) dict"
    by (induction d) auto
  then have "AList.update ws row (pd_plans db) = pd_plans db @ [(ws, row)]" using assms(3) by (simp add: map_of_eq_None_iff)
  then show ?thesis using assms by (auto simp: plan_tables_ok_def map_of_eq_None_iff)
qed

lemma plan_gone:
  assumes "plan_tables_ok db" "map_of (pd_plans db) ws = Some row"
  shows "plan_tables_ok (fst (delete_plan ws db))"
proof -
  have dist: "distinct (map fst (pd_plans db))" and ids: "distinct (map (\<lambda>p. pr_plan_id (snd p)) (pd_plans db))"
    using assms(1) by (simp_all add: plan_tables_ok_def)
  note mem = map_of_SomeD [OF assms(2)]
  have "fst e = ws" if "e \<in> set (pd_plans db)" "pr_plan_id (snd e) = pr_plan_id row" for e
  proof -
    have "inj_on (\<lambda>p. pr_plan_id (snd p)) (set (pd_plans db))" using ids by (simp add: distinct_map)
    from inj_onD [OF this _ that(1) mem] that(2) show ?thesis by simp
  qed
  then have kept: "set (map sr_plan_id (filter (\<lambda>r. sr_plan_id r \<noteq> pr_plan_id row) (pd_steps db)))
      \<subseteq> set (map (\<lambda>p. pr_plan_id (snd p)) (filter (\<lambda>e. fst e \<noteq> ws) (pd_plans db)))"
  proof -
    have same: "e = (ws, row)" if "e \<in> set (pd_plans db)" "fst e = ws" for e
      using map_of_is_SomeI [OF dist, of "fst e" "snd e"] that assms(2) by (cases e) simp
    have "sr_plan_id r \<in> set (map (\<lambda>p. pr_plan_id (snd p)) (filter (\<lambda>e. fst e \<noteq> ws) (pd_plans db)))"
      if r: "r \<in> set (pd_steps db)" "sr_plan_id r \<noteq> pr_plan_id row" for r
    proof -
      obtain e where e: "e \<in> set (pd_plans db)" "sr_plan_id r = pr_plan_id (snd e)"
        using assms(1) r(1) by (auto simp: plan_tables_ok_def)
      have "fst e \<noteq> ws" using same [OF e(1)] e(2) r(2) by (cases e) auto
      then show ?thesis using e by simp
    qed
    then show ?thesis by auto
  qed
  have "distinct (map fst (filter (\<lambda>e. fst e \<noteq> ws) (pd_plans db)))" "distinct (map (\<lambda>p. pr_plan_id (snd p)) (filter (\<lambda>e. fst e \<noteq> ws) (pd_plans db)))"
    "set (map fst (filter (\<lambda>e. fst e \<noteq> ws) (pd_plans db))) \<subseteq> set (pd_workspaces db)"
    "distinct (map (\<lambda>r. (sr_plan_id r, sr_step_id r)) (filter (\<lambda>r. sr_plan_id r \<noteq> pr_plan_id row) (pd_steps db)))"
    using assms(1) by (auto simp: plan_tables_ok_def distinct_map_filter)
  then show ?thesis using kept assms(2) by (simp add: plan_tables_ok_def delete_plan_def get_plan_row_def)
qed

text \<open>
  The single-row helpers keep the plan tables consistent: any sequence of them leaves every step with its plan, every plan with a known
  workspace, and all keys unique.
\<close>
lemma plan_rows_consistent:
  assumes "plan_tables_ok db"
  shows "plan_tables_ok (fold row_step calls db)"
  using assms
proof (induction calls arbitrary: db)
  case (Cons c calls)
  have "plan_tables_ok (row_step c db)"
  proof (cases c)
    case (Insert_plan token now ws explanation)
    then show ?thesis using Cons.prems
      by (auto simp: row_step_def insert_plan_def get_plan_row_def Let_def intro!: new_plan)
  next
    case (Update_revision now ws expected)
    then show ?thesis using Cons.prems
      by (auto simp: row_step_def update_plan_revision_def get_plan_row_def split: option.split intro!: plan_kept)
  next
    case (Update_explanation now ws explanation)
    then show ?thesis using Cons.prems
      by (auto simp: row_step_def update_plan_explanation_def get_plan_row_def split: option.split intro!: plan_kept)
  next
    case (Delete_plan ws)
    then show ?thesis using Cons.prems plan_gone
      by (cases "map_of (pd_plans db) ws") (auto simp: row_step_def delete_plan_def get_plan_row_def)
  next
    case (Insert_step now plan_id step_id i body status)
    then show ?thesis using Cons.prems
      by (auto simp: row_step_def insert_plan_step_def plan_tables_ok_def Let_def)
  next
    case (Update_step now plan_id step_id status evidence reason)
    have "map (\<lambda>r. (sr_plan_id r, sr_step_id r))
        (map (\<lambda>r. if sr_plan_id r = plan_id \<and> sr_step_id r = step_id then change_step now status evidence reason r else r) (pd_steps db))
      = map (\<lambda>r. (sr_plan_id r, sr_step_id r)) (pd_steps db)"
      by (simp add: change_step_def)
    from steps_kept [OF Cons.prems this] Update_step Cons.prems show ?thesis
      by (simp add: row_step_def update_plan_step_def Let_def)
  next
    case (Delete_steps plan_id)
    then show ?thesis using Cons.prems by (simp add: row_step_def delete_plan_steps_def fewer_steps)
  qed
  then show ?case using Cons.IH by simp
qed simp

lemma plan_rows_consistent_witness:
  "plan_tables_ok (fold row_step [Insert_plan ''a'' ''t'' ''w'' ''x'', Insert_step ''t'' ''plan_a'' ''s'' 0 ''do'' ''pending'', Delete_plan ''w'']
     \<lparr>pd_workspaces = [''w''], pd_plans = [], pd_steps = [], pd_audit = []\<rparr>)"
  by (rule plan_rows_consistent) (simp add: plan_tables_ok_def)

subsection \<open>The operations log with its times\<close>

record timed_operation = operation_row +
  op_started :: string
  op_completed :: "string option"

definition complete_operation :: "string \<Rightarrow> string \<Rightarrow> int option \<Rightarrow> string option \<Rightarrow> string option \<Rightarrow> timed_operation list \<Rightarrow> timed_operation list" where
  "complete_operation now oid duration status code rows =
     map (\<lambda>r. if op_id r = oid
       then r\<lparr>op_completed := Some now, op_duration_ms := (case duration of None \<Rightarrow> op_duration_ms r | Some d \<Rightarrow> Some d),
              op_status := (case status of None \<Rightarrow> op_status r | Some s \<Rightarrow> s),
              op_error_code := (case code of None \<Rightarrow> op_error_code r | Some c \<Rightarrow> Some c)\<rparr>
       else r) rows"

text \<open>\<open>ORDER BY started_at ASC, operation_id ASC\<close>.\<close>

definition list_operations :: "string \<Rightarrow> timed_operation list \<Rightarrow> timed_operation list" where
  "list_operations ws rows = sort_key op_started (sort_key op_id (filter (\<lambda>r. op_workspace r = Some ws) rows))"

lemma list_operations_complete: "set (list_operations ws rows) = {r \<in> set rows. op_workspace r = Some ws}"
  by (auto simp: list_operations_def)

end
