(* ===== verification/Project_Manifest.thy ===== *)
theory Project_Manifest
  imports Change_Set_Data Path_Guard
begin

text \<open>
  \<open>_discover_project_manifest\<close> of \<open>app/services/workspace_manager.py\<close>: what a new workspace tells the model about its project.  The files
  of the repository are an argument, in the order \<open>glob\<close> and \<open>rglob\<close> list them.
\<close>

record manifest =
  mf_languages :: "string list"
  mf_instructions :: "string list"
  mf_manager :: "string option"
  mf_entrypoints :: "string list"
  mf_config :: "string list"
  mf_head :: "string option"

text \<open>Reading \<open>package.json\<close>: valid, not JSON or unreadable, or not UTF-8, which is an exception of its own.\<close>

datatype package_json = Package_valid | Package_unusable | Package_not_utf8

record repo_view =
  rv_head :: git_exit
  rv_is_file :: "string \<Rightarrow> bool"
  rv_read :: "string \<Rightarrow> string option"
  rv_package :: package_json
  rv_sln :: "string list"
  rv_csproj :: "string list"
  rv_py :: "string list"

definition add_language :: "string \<Rightarrow> manifest \<Rightarrow> manifest" where
  "add_language l m = m\<lparr>mf_languages := mf_languages m @ [l]\<rparr>"

definition add_config :: "string list \<Rightarrow> manifest \<Rightarrow> manifest" where
  "add_config files m = m\<lparr>mf_config := mf_config m @ files\<rparr>"

text \<open>\<open>if not manifest["package_manager"]\<close>.\<close>

definition default_manager :: "string \<Rightarrow> manifest \<Rightarrow> manifest" where
  "default_manager pm m = (case mf_manager m of None \<Rightarrow> m\<lparr>mf_manager := Some pm\<rparr> | Some _ \<Rightarrow> m)"

definition instruction_files :: "string list" where
  "instruction_files = [''AGENTS.md'', ''CONTRIBUTING.md'', ''README.md'', ''README.rst'']"

definition start_manifest :: "repo_view \<Rightarrow> manifest" where
  "start_manifest v =
     \<lparr>mf_languages = [], mf_instructions = filter (rv_is_file v) instruction_files, mf_manager = None, mf_entrypoints = [], mf_config = [],
      mf_head = (if ge_code (rv_head v) = 0 then Some (py_strip (ge_out (rv_head v))) else None)\<rparr>"

definition pyproject_manager :: "string \<Rightarrow> string option" where
  "pyproject_manager content =
     (if py_contains ''[tool.uv]'' content \<or> py_contains ''uv'' content then Some ''uv''
      else if py_contains ''[tool.poetry]'' content then Some ''poetry''
      else if py_contains ''[project]'' content then Some ''pip''
      else None)"

definition scan_pyproject :: "repo_view \<Rightarrow> manifest \<Rightarrow> manifest" where
  "scan_pyproject v m =
     (if \<not> rv_is_file v ''pyproject.toml'' then m
      else let m = add_language ''python'' (add_config [''pyproject.toml''] m)
        in case rv_read v ''pyproject.toml'' of
             None \<Rightarrow> m
           | Some content \<Rightarrow> (case pyproject_manager content of None \<Rightarrow> m | Some pm \<Rightarrow> m\<lparr>mf_manager := Some pm\<rparr>))"

definition scan_package_json :: "repo_view \<Rightarrow> manifest \<Rightarrow> string + manifest" where
  "scan_package_json v m =
     (if \<not> rv_is_file v ''package.json'' then Inr m
      else let m = add_config [''package.json''] m;
               m = (if ''javascript'' \<notin> set (mf_languages m) \<and> ''typescript'' \<notin> set (mf_languages m) then add_language ''javascript'' m else m);
               m = (if ''typescript'' \<notin> set (mf_languages m) \<and> rv_is_file v ''tsconfig.json'' then add_language ''typescript'' m else m)
        in case rv_package v of
             Package_valid \<Rightarrow> Inr (default_manager ''npm'' m)
           | Package_unusable \<Rightarrow> Inr m
           | Package_not_utf8 \<Rightarrow> Inl ''invalid start byte'')"

definition scan_cargo :: "repo_view \<Rightarrow> manifest \<Rightarrow> manifest" where
  "scan_cargo v m =
     (if rv_is_file v ''Cargo.toml'' then default_manager ''cargo'' (add_language ''rust'' (add_config [''Cargo.toml''] m)) else m)"

definition scan_makefile :: "repo_view \<Rightarrow> manifest \<Rightarrow> manifest" where
  "scan_makefile v m = (if rv_is_file v ''Makefile'' then add_config [''Makefile''] m else m)"

definition scan_gemfile :: "repo_view \<Rightarrow> manifest \<Rightarrow> manifest" where
  "scan_gemfile v m =
     (if rv_is_file v ''Gemfile'' then default_manager ''bundler'' (add_language ''ruby'' (add_config [''Gemfile''] m)) else m)"

definition scan_dotnet :: "repo_view \<Rightarrow> manifest \<Rightarrow> manifest" where
  "scan_dotnet v m =
     (let m = (if rv_sln v = [] then m else add_language ''csharp'' (add_config (take 3 (rv_sln v)) m))
      in if rv_csproj v = [] then m
         else let m = add_config (take 3 (rv_csproj v)) m;
                  m = (if ''csharp'' \<in> set (mf_languages m) then m else add_language ''csharp'' m)
           in default_manager ''nuget'' m)"

definition base_name :: "string \<Rightarrow> string" where
  "base_name p = (if path_parts p = [] then [] else last (path_parts p))"

definition add_entry :: "string \<Rightarrow> manifest \<Rightarrow> manifest" where
  "add_entry p m = (if p \<in> set (mf_entrypoints m) then m else m\<lparr>mf_entrypoints := mf_entrypoints m @ [p]\<rparr>)"

text \<open>The first \<open>__main__.py\<close>.\<close>

definition main_entry :: "string list \<Rightarrow> manifest \<Rightarrow> manifest" where
  "main_entry files m = (case find (\<lambda>p. base_name p = ''__main__.py'') files of None \<Rightarrow> m | Some p \<Rightarrow> add_entry p m)"

definition runnable :: "string \<Rightarrow> bool" where
  "runnable content = (py_contains (''if __name__ == '' @ [dquote] @ ''__main__'' @ [dquote]) content \<or> py_contains ''def main()'' content)"

text \<open>The scripts, up to five entries; a file that cannot be read is skipped before the count is looked at.\<close>

fun script_entries :: "repo_view \<Rightarrow> string list \<Rightarrow> manifest \<Rightarrow> manifest" where
  "script_entries v [] m = m"
| "script_entries v (p # ps) m =
     (case rv_read v p of
        None \<Rightarrow> script_entries v ps m
      | Some content \<Rightarrow>
          let m = (if runnable content then add_entry p m else m)
          in if length (mf_entrypoints m) \<ge> 5 then m else script_entries v ps m)"

text \<open>The languages without repetition, in the order they were found.\<close>

fun first_occurrences :: "string list \<Rightarrow> string list \<Rightarrow> string list" where
  "first_occurrences seen [] = []"
| "first_occurrences seen (l # ls) = (if l \<in> set seen then first_occurrences seen ls else l # first_occurrences (l # seen) ls)"

definition discover_project_manifest :: "repo_view \<Rightarrow> string + manifest" where
  "discover_project_manifest v =
     (case scan_package_json v (scan_pyproject v (start_manifest v)) of
        Inl e \<Rightarrow> Inl e
      | Inr m \<Rightarrow>
          let m = scan_dotnet v (scan_gemfile v (scan_makefile v (scan_cargo v m)));
              m = script_entries v (rv_py v) (main_entry (rv_py v) m)
          in Inr (m\<lparr>mf_languages := first_occurrences [] (mf_languages m)\<rparr>))"

subsection \<open>What a manifest promises\<close>

lemma first_occurrences_props: "distinct (first_occurrences seen ls)" "set (first_occurrences seen ls) = set ls - set seen"
  by (induction seen ls rule: first_occurrences.induct) auto

definition few_entries :: "nat \<Rightarrow> manifest \<Rightarrow> bool" where
  "few_entries n m \<longleftrightarrow> distinct (mf_entrypoints m) \<and> length (mf_entrypoints m) \<le> n"

lemma few_add: "few_entries n m \<Longrightarrow> few_entries (Suc n) (add_entry p m)"
  by (simp add: few_entries_def add_entry_def)

lemma few_scripts: "few_entries 4 m \<Longrightarrow> few_entries 5 (script_entries v ps m)"
proof (induction v ps m rule: script_entries.induct)
  case (2 v p ps m)
  show ?case
  proof (cases "rv_read v p")
    case (Some content)
    let ?m = "if runnable content then add_entry p m else m"
    have five: "few_entries 5 ?m" using few_add [OF "2.prems", of p] "2.prems" by (simp add: few_entries_def)
    show ?thesis
    proof (cases "length (mf_entrypoints ?m) \<ge> 5")
      case True
      then show ?thesis using five Some by (simp add: Let_def)
    next
      case False
      then have "few_entries 4 ?m" using five by (simp add: few_entries_def)
      then show ?thesis using "2.IH"(2) [OF Some refl] False Some by (simp add: Let_def)
    qed
  qed (use 2 in simp)
qed (simp add: few_entries_def)

text \<open>The scans before the entry points leave them empty.\<close>

lemma scans_keep_entries [simp]:
  "mf_entrypoints (add_language l m) = mf_entrypoints m" "mf_entrypoints (add_config f m) = mf_entrypoints m"
  "mf_entrypoints (default_manager pm m) = mf_entrypoints m" "mf_entrypoints (scan_pyproject v m) = mf_entrypoints m"
  "mf_entrypoints (scan_cargo v m) = mf_entrypoints m" "mf_entrypoints (scan_makefile v m) = mf_entrypoints m"
  "mf_entrypoints (scan_gemfile v m) = mf_entrypoints m" "mf_entrypoints (scan_dotnet v m) = mf_entrypoints m"
proof -
  show l: "mf_entrypoints (add_language l m) = mf_entrypoints m" for l m by (simp add: add_language_def)
  show c: "mf_entrypoints (add_config f m) = mf_entrypoints m" for f m by (simp add: add_config_def)
  show d: "mf_entrypoints (default_manager pm m) = mf_entrypoints m" for pm m by (simp add: default_manager_def split: option.split)
  show "mf_entrypoints (scan_pyproject v m) = mf_entrypoints m" by (simp add: scan_pyproject_def Let_def l c split: option.split)
  show "mf_entrypoints (scan_cargo v m) = mf_entrypoints m" by (simp add: scan_cargo_def l c d)
  show "mf_entrypoints (scan_makefile v m) = mf_entrypoints m" by (simp add: scan_makefile_def c)
  show "mf_entrypoints (scan_gemfile v m) = mf_entrypoints m" by (simp add: scan_gemfile_def l c d)
  show "mf_entrypoints (scan_dotnet v m) = mf_entrypoints m" by (simp add: scan_dotnet_def Let_def l c d)
qed

lemma package_keeps_entries: "scan_package_json v m = Inr m' \<Longrightarrow> mf_entrypoints m' = mf_entrypoints m"
  by (auto simp: scan_package_json_def Let_def split: if_splits package_json.splits)

text \<open>
  A manifest is small and without repetition: at most five entry points, all different, and every language once.  Discovery fails only
  for a \<open>package.json\<close> that is not UTF-8.
\<close>
lemma manifest_bounded:
  "case discover_project_manifest v of
     Inl _ \<Rightarrow> rv_is_file v ''package.json'' \<and> rv_package v = Package_not_utf8
   | Inr m \<Rightarrow> distinct (mf_languages m) \<and> distinct (mf_entrypoints m) \<and> length (mf_entrypoints m) \<le> 5"
proof (cases "scan_package_json v (scan_pyproject v (start_manifest v))")
  case (Inl e)
  then have "rv_is_file v ''package.json'' \<and> rv_package v = Package_not_utf8"
    by (auto simp: scan_package_json_def Let_def split: if_splits package_json.splits)
  then show ?thesis using Inl by (simp add: discover_project_manifest_def)
next
  case (Inr m)
  let ?m = "scan_dotnet v (scan_gemfile v (scan_makefile v (scan_cargo v m)))"
  have "mf_entrypoints ?m = []" using package_keeps_entries [OF Inr] by (simp add: start_manifest_def)
  then have "few_entries 4 (main_entry (rv_py v) ?m)"
    by (auto simp: main_entry_def few_entries_def add_entry_def split: option.split)
  then have "few_entries 5 (script_entries v (rv_py v) (main_entry (rv_py v) ?m))" by (rule few_scripts)
  then show ?thesis using Inr by (simp add: discover_project_manifest_def Let_def few_entries_def first_occurrences_props)
qed

text \<open>A project managed by poetry that depends on \<open>uvicorn\<close> is announced as a \<open>uv\<close> project.\<close>

lemma uvicorn_is_uv: "pyproject_manager (''[tool.poetry] uvicorn'') = Some ''uv''"
  by code_simp

end
