(* ===== verification/Workspace_Manager.thy ===== *)
theory Workspace_Manager
  imports Process_Lifecycle Change_Set_Store Workspace_Plan Artifact_Registry Operator_Config Project_Manifest
begin

text \<open>
  Creating and discarding workspaces: \<open>create_workspace\<close> and \<open>discard_workspace\<close> of \<open>app/services/workspace_manager.py\<close> with
  \<open>delete_workspace\<close> of \<open>app/storage/database.py\<close>.  They touch the state of every other component, so the state here is theirs put
  together; the components that keep the keys of the workspaces table get their view updated with it.  Git is an argument: the answer of
  each command, and whether the directory exists after it.
\<close>

subsection \<open>The site\<close>

text \<open>\<open>st_trees\<close> are the worktree directories on disk, \<open>st_git\<close> the worktrees registered with the repository.\<close>

record site =
  st_manager :: manager
  st_sets :: cs_world
  st_plans :: plan_db
  st_artifacts :: artifact_table
  st_trees :: "path list"
  st_git :: "path list"
  st_outputs :: "path list"

definition workspaces :: "site \<Rightarrow> workspace_table" where
  "workspaces s = cw_workspaces (st_sets s)"

definition events_of :: "site \<Rightarrow> event_db" where
  "events_of s = pm_db (st_manager s)"

definition put_events :: "(event_db \<Rightarrow> event_db) \<Rightarrow> site \<Rightarrow> site" where
  "put_events f s = s\<lparr>st_manager := (st_manager s)\<lparr>pm_db := f (events_of s)\<rparr>\<rparr>"

definition put_sets :: "(cs_world \<Rightarrow> cs_world) \<Rightarrow> site \<Rightarrow> site" where
  "put_sets f s = s\<lparr>st_sets := f (st_sets s)\<rparr>"

subsection \<open>Deleting the rows of a workspace\<close>

definition without_key :: "string \<Rightarrow> (string, 'v) dict \<Rightarrow> (string, 'v) dict" where
  "without_key k d = filter (\<lambda>e. fst e \<noteq> k) d"

definition plan_ids :: "string \<Rightarrow> site \<Rightarrow> string list" where
  "plan_ids ws s = map (\<lambda>e. pr_plan_id (snd e)) (filter (\<lambda>e. fst e = ws) (pd_plans (st_plans s)))"

definition set_ids :: "string \<Rightarrow> site \<Rightarrow> string list" where
  "set_ids ws s = map fst (filter (\<lambda>e. cr_workspace (snd e) = ws) (cw_sets (st_sets s)))"

definition of_workspace :: "string \<Rightarrow> string option \<Rightarrow> bool" where
  "of_workspace ws v \<longleftrightarrow> v = Some ws"

definition foreign_key_error :: string where
  "foreign_key_error = ''FOREIGN KEY constraint failed''"

text \<open>The statements of the transaction.  Deleting a row that another row still refers to fails.\<close>

definition delete_plan_steps_of :: "string \<Rightarrow> site \<Rightarrow> string + site" where
  "delete_plan_steps_of ws s =
     Inr (s\<lparr>st_plans := (st_plans s)\<lparr>pd_steps := filter (\<lambda>r. sr_plan_id r \<notin> set (plan_ids ws s)) (pd_steps (st_plans s))\<rparr>\<rparr>)"

definition delete_plan_of :: "string \<Rightarrow> site \<Rightarrow> string + site" where
  "delete_plan_of ws s =
     (if list_ex (\<lambda>r. sr_plan_id r \<in> set (plan_ids ws s)) (pd_steps (st_plans s)) then Inl foreign_key_error
      else Inr (s\<lparr>st_plans := (st_plans s)\<lparr>pd_plans := without_key ws (pd_plans (st_plans s))\<rparr>\<rparr>))"

definition delete_artifacts_of :: "string \<Rightarrow> site \<Rightarrow> string + site" where
  "delete_artifacts_of ws s = Inr (s\<lparr>st_artifacts := filter (\<lambda>r. ar_workspace r \<noteq> ws) (st_artifacts s)\<rparr>)"

definition delete_events_of :: "string \<Rightarrow> site \<Rightarrow> string + site" where
  "delete_events_of ws s = Inr (put_events (\<lambda>db. db\<lparr>ed_events := filter (\<lambda>r. \<not> of_workspace ws (ev_workspace r)) (ed_events db)\<rparr>) s)"

definition delete_retention_of :: "string \<Rightarrow> site \<Rightarrow> string + site" where
  "delete_retention_of ws s = Inr (put_events (\<lambda>db. db\<lparr>ed_watermarks := without_key ws (ed_watermarks db)\<rparr>) s)"

definition delete_processes_of :: "string \<Rightarrow> site \<Rightarrow> string + site" where
  "delete_processes_of ws s =
     Inr (put_events (\<lambda>db. db\<lparr>ed_processes := filter (\<lambda>e. pc_workspace (snd e) \<noteq> ws) (ed_processes db)\<rparr>) s)"

definition delete_operations_of :: "string \<Rightarrow> site \<Rightarrow> string + site" where
  "delete_operations_of ws s =
     Inr (s\<lparr>st_manager := (st_manager s)\<lparr>pm_ops := filter (\<lambda>r. \<not> of_workspace ws (op_workspace r)) (pm_ops (st_manager s))\<rparr>\<rparr>)"

definition delete_set_operations_of :: "string \<Rightarrow> site \<Rightarrow> string + site" where
  "delete_set_operations_of ws s = Inr (put_sets (\<lambda>w. w\<lparr>cw_ops := filter (\<lambda>r. co_set r \<notin> set (set_ids ws s)) (cw_ops w)\<rparr>) s)"

definition delete_set_files_of :: "string \<Rightarrow> site \<Rightarrow> string + site" where
  "delete_set_files_of ws s = Inr (put_sets (\<lambda>w. w\<lparr>cw_files := filter (\<lambda>r. fst r \<notin> set (set_ids ws s)) (cw_files w)\<rparr>) s)"

definition delete_sets_of :: "string \<Rightarrow> site \<Rightarrow> string + site" where
  "delete_sets_of ws s =
     (if list_ex (\<lambda>r. co_set r \<in> set (set_ids ws s)) (cw_ops (st_sets s)) \<or> list_ex (\<lambda>r. fst r \<in> set (set_ids ws s)) (cw_files (st_sets s))
      then Inl foreign_key_error
      else Inr (put_sets (\<lambda>w. w\<lparr>cw_sets := filter (\<lambda>e. cr_workspace (snd e) \<noteq> ws) (cw_sets w)\<rparr>) s))"

definition refers_to :: "string \<Rightarrow> site \<Rightarrow> bool" where
  "refers_to ws s =
     (list_ex (\<lambda>e. fst e = ws) (pd_plans (st_plans s)) \<or> list_ex (\<lambda>r. ar_workspace r = ws) (st_artifacts s)
      \<or> list_ex (\<lambda>r. of_workspace ws (ev_workspace r)) (ed_events (events_of s))
      \<or> list_ex (\<lambda>e. pc_workspace (snd e) = ws) (ed_processes (events_of s))
      \<or> list_ex (\<lambda>e. cr_workspace (snd e) = ws) (cw_sets (st_sets s)))"

text \<open>The key leaves the table and the views of the other components.\<close>

definition drop_workspace_key :: "string \<Rightarrow> site \<Rightarrow> site" where
  "drop_workspace_key ws s =
     put_events (\<lambda>db. db\<lparr>ed_workspaces := filter (\<lambda>k. k \<noteq> ws) (ed_workspaces db)\<rparr>)
       (put_sets (\<lambda>w. w\<lparr>cw_workspaces := without_key ws (cw_workspaces w)\<rparr>)
         (s\<lparr>st_plans := (st_plans s)\<lparr>pd_workspaces := filter (\<lambda>k. k \<noteq> ws) (pd_workspaces (st_plans s))\<rparr>\<rparr>))"

definition delete_workspace_row :: "string \<Rightarrow> site \<Rightarrow> string + site" where
  "delete_workspace_row ws s =
     (if ws \<in> fst ` set (workspaces s) \<and> refers_to ws s then Inl foreign_key_error else Inr (drop_workspace_key ws s))"

fun run_statements :: "(site \<Rightarrow> string + site) list \<Rightarrow> site \<Rightarrow> string + site" where
  "run_statements [] s = Inr s"
| "run_statements (f # fs) s = obind (f s) (run_statements fs)"

definition delete_statements :: "string \<Rightarrow> (site \<Rightarrow> string + site) list" where
  "delete_statements ws =
     [delete_plan_steps_of ws, delete_plan_of ws, delete_artifacts_of ws, delete_events_of ws, delete_retention_of ws, delete_processes_of ws,
      delete_operations_of ws, delete_set_operations_of ws, delete_set_files_of ws, delete_sets_of ws, delete_workspace_row ws]"

definition delete_workspace :: "string \<Rightarrow> site \<Rightarrow> site \<times> (string + bool)" where
  "delete_workspace ws s =
     (case run_statements (delete_statements ws) s of
        Inl e \<Rightarrow> (s, Inl e)
      | Inr s' \<Rightarrow> (s', Inr (ws \<in> fst ` set (workspaces s))))"

subsection \<open>Creating a workspace\<close>

datatype create_error = Create_value string | Create_exists string | Create_runtime string | Create_config config_error | Create_sql string | Create_os

text \<open>
  The project (its repository and worktree root, resolved), the workspace section of the configuration, what git answers, and what is left
  on disk by a \<open>worktree add\<close> that fails: nothing, an empty directory, or files.
\<close>

datatype add_left = Left_nothing | Left_empty | Left_files

record create_env =
  cn_project :: "string \<Rightarrow> (path \<times> path) option"
  cn_section :: section_values
  cn_is_repo :: "path \<Rightarrow> bool"
  cn_head :: git_exit
  cn_status :: git_exit
  cn_token :: string
  cn_mkdir :: bool
  cn_add :: git_exit
  cn_left :: add_left
  cn_rmdir :: bool
  cn_checkout :: "disk \<Rightarrow> disk"
  cn_rev :: git_exit
  cn_view :: repo_view
  cn_sha :: "string \<Rightarrow> string"
  cn_now :: string

definition active_count :: "string \<Rightarrow> workspace_table \<Rightarrow> nat" where
  "active_count project table = length (filter (\<lambda>e. ws_status (snd e) = ''active'') (list_workspaces (Some project) table))"

definition worktree_path_for :: "path \<Rightarrow> string \<Rightarrow> string \<Rightarrow> path" where
  "worktree_path_for base wid task = base @ [worktree_dir_name wid task]"

definition path_text :: "path \<Rightarrow> string" where
  "path_text p = CHR ''/'' # py_join ''/'' p"

definition git_failure :: "git_exit \<Rightarrow> string" where
  "git_failure g = (let e = py_strip (ge_err g) in if e = [] then py_strip (ge_out g) else e)"

text \<open>Everything \<open>create_workspace\<close> checks before it touches the disk: the repository, the worktree and the task.\<close>

definition create_checks :: "create_env \<Rightarrow> string \<Rightarrow> string \<Rightarrow> site \<Rightarrow> create_error + path \<times> path \<times> string \<times> string" where
  "create_checks env project task s =
     (case cn_project env project of
        None \<Rightarrow> Inl (Create_value (''project_id not registered: '' @ py_repr project))
      | Some (repo, base) \<Rightarrow>
          (case ensure_safe_task_name task of
             Inl e \<Rightarrow> Inl (Create_value e)
           | Inr safe \<Rightarrow>
               (case py_int (jget (cn_section env) ''max_active_per_project'' (JInt 8)) of
                  Inl e \<Rightarrow> Inl (Create_config e)
                | Inr limit \<Rightarrow>
                    if int (active_count project (workspaces s)) \<ge> limit
                    then Inl (Create_runtime (''project '' @ py_repr project @ '' already has '' @ py_str_int limit
                           @ '' active workspaces; discard one before creating a new one''))
                    else if \<not> cn_is_repo env repo then Inl (Create_runtime (''repository is not a Git working tree: '' @ path_text repo))
                    else if ge_code (cn_head env) \<noteq> 0 \<or> ge_code (cn_status env) \<noteq> 0
                      then Inl (Create_runtime ''could not capture the main worktree baseline'')
                    else let wid = ''ws-'' @ cn_token env; tree = worktree_path_for base wid safe in
                      if tree \<in> set (st_trees s) then Inl (Create_exists (''worktree path already exists: '' @ path_text tree))
                      else Inr (repo, tree, wid, safe))))"

text \<open>\<open>insert_workspace\<close> on the site.\<close>

definition add_workspace :: "string \<Rightarrow> string \<Rightarrow> new_workspace \<Rightarrow> site \<Rightarrow> string + site \<times> workspace_row" where
  "add_workspace now wid nw s =
     obind (insert_workspace now wid nw (workspaces s)) (\<lambda>(table, row).
       Inr (put_events (\<lambda>db. db\<lparr>ed_workspaces := ed_workspaces db @ [wid]\<rparr>)
              (put_sets (\<lambda>w. w\<lparr>cw_workspaces := table\<rparr>)
                (s\<lparr>st_plans := (st_plans s)\<lparr>pd_workspaces := pd_workspaces (st_plans s) @ [wid]\<rparr>\<rparr>)), row))"

definition failed_add :: "create_env \<Rightarrow> path \<Rightarrow> site \<Rightarrow> site" where
  "failed_add env tree s =
     (if cn_left env = Left_files \<or> cn_left env = Left_empty \<and> \<not> cn_rmdir env then s\<lparr>st_trees := tree # st_trees s\<rparr> else s)"

definition create_workspace :: "create_env \<Rightarrow> string \<Rightarrow> string \<Rightarrow> site \<Rightarrow> site \<times> (create_error + manifest \<times> string \<times> workspace_row)" where
  "create_workspace env project task s =
     (case create_checks env project task s of
        Inl e \<Rightarrow> (s, Inl e)
      | Inr (repo, tree, wid, safe) \<Rightarrow>
          if \<not> cn_mkdir env then (s, Inl Create_os)
          else if ge_code (cn_add env) \<noteq> 0
            then (failed_add env tree s, Inl (Create_runtime (''git worktree add failed (exit '' @ py_str_int (ge_code (cn_add env)) @ ''): '' @ git_failure (cn_add env))))
          else let s1 = put_sets (\<lambda>w. w\<lparr>cw_disk := cn_checkout env (cw_disk w)\<rparr>) (s\<lparr>st_trees := tree # st_trees s, st_git := tree # st_git s\<rparr>) in
            if ge_code (cn_rev env) \<noteq> 0
            then (s1, Inl (Create_runtime (''git rev-parse HEAD failed in new worktree: '' @ py_strip (ge_err (cn_rev env)))))
            else case add_workspace (cn_now env) wid
                \<lparr>nw_project = project, nw_task = safe, nw_path = path_text tree, nw_base = py_strip (ge_out (cn_rev env)),
                 nw_main_head = Some (py_strip (ge_out (cn_head env))), nw_main_sha = Some (cn_sha env (ge_out (cn_status env)))\<rparr> s1 of
              Inl e \<Rightarrow> (s1, Inl (Create_sql e))
            | Inr (s2, row) \<Rightarrow>
                (case discover_project_manifest (cn_view env) of
                   Inl e \<Rightarrow> (s2, Inl (Create_value e))
                 | Inr m \<Rightarrow> (s2, Inr (m, wid, row))))"

subsection \<open>Discarding a workspace\<close>

datatype discard_error = Discard_value string | Discard_data cs_error | Discard_os | Discard_sql string

record discard_env =
  de_project :: "string \<Rightarrow> path option"
  de_is_repo :: "path \<Rightarrow> bool"
  de_resolve :: "path \<Rightarrow> path"
  de_remove :: git_exit
  de_gone :: bool
  de_rmtree :: "string option"
  de_forgets :: bool
  de_list :: string
  de_config :: manager_config
  de_os :: os_view
  de_is_dir :: "path \<Rightarrow> bool"
  de_processes :: path
  de_rm_output :: "path \<Rightarrow> bool"
  de_change_sets :: cs_env

record discard_report =
  dr_removed_path :: bool
  dr_exists_after :: bool
  dr_registration_removed :: bool
  dr_record_removed :: bool
  dr_remaining :: "string list"
  dr_error :: "string option"

definition without_tree :: "path \<Rightarrow> site \<Rightarrow> site" where
  "without_tree tree s = put_sets (\<lambda>w. w\<lparr>cw_disk := remove_tree tree (cw_disk w)\<rparr>) (s\<lparr>st_trees := filter (\<lambda>p. p \<noteq> tree) (st_trees s)\<rparr>)"

text \<open>\<open>shutil.rmtree\<close> on the worktree: the removed flag and the error.\<close>

definition manual_removal :: "discard_env \<Rightarrow> path \<Rightarrow> string \<Rightarrow> site \<Rightarrow> site \<times> bool \<times> string option" where
  "manual_removal env tree context_text s =
     (case de_rmtree env of
        None \<Rightarrow> (without_tree tree s, True, None)
      | Some e \<Rightarrow> (s, False, Some (context_text @ ''manual cleanup failed: '' @ e)))"

definition git_removal :: "discard_env \<Rightarrow> path \<Rightarrow> site \<Rightarrow> site \<times> bool \<times> string option" where
  "git_removal env tree s =
     (let s1 = (if de_gone env then without_tree tree s else s); stderr = py_strip (ge_err (de_remove env)) in
      if ge_code (de_remove env) = 0 then (s1, True, None)
      else if tree \<in> set (st_trees s1) then manual_removal env tree (''git worktree remove failed ('' @ stderr @ ''); '') s1
      else (s1, True, Some (''git worktree remove reported error but path is gone: '' @ stderr)))"

text \<open>The paths of \<open>git worktree list --porcelain\<close>.\<close>

definition registered_paths :: "discard_env \<Rightarrow> path list" where
  "registered_paths env =
     map (\<lambda>l. de_resolve env (path_parts (drop (length ''worktree '') l))) (filter (\<lambda>l. py_startswith l ''worktree '') (py_splitlines (de_list env)))"

text \<open>\<open>de_gone\<close> and \<open>de_forgets\<close>: what git leaves, whatever its exit code and its list say.  The result: the flag, the error and whether git has forgotten the worktree.\<close>

definition remove_worktree :: "discard_env \<Rightarrow> string \<Rightarrow> path \<Rightarrow> site \<Rightarrow> site \<times> bool \<times> string option \<times> bool" where
  "remove_worktree env project tree s =
     (case de_project env project of
        Some repo \<Rightarrow>
          if de_is_repo env repo
          then (case git_removal env tree s of (s1, removed, err) \<Rightarrow>
            (if de_forgets env then s1\<lparr>st_git := filter (\<lambda>p. p \<noteq> tree) (st_git s1)\<rparr> else s1, removed, err,
             de_resolve env tree \<notin> set (registered_paths env)))
          else (s, False, None, False)
      | None \<Rightarrow>
          if tree \<in> set (st_trees s)
          then (case manual_removal env tree [] s of (s1, removed, err) \<Rightarrow> (s1, removed, err, tree \<notin> set (st_trees s1)))
          else (s, False, None, True))"

text \<open>\<open>delete_outputs_for_workspace\<close> on the site; a directory that cannot be removed raises.\<close>

fun remove_outputs :: "discard_env \<Rightarrow> path list \<Rightarrow> site \<Rightarrow> site \<times> (discard_error + unit)" where
  "remove_outputs env [] s = (s, Inr ())"
| "remove_outputs env (p # ps) s =
     (if de_rm_output env p then remove_outputs env ps (s\<lparr>st_outputs := filter (\<lambda>q. q \<noteq> p) (st_outputs s)\<rparr>) else (s, Inl Discard_os))"

definition delete_records :: "discard_env \<Rightarrow> string \<Rightarrow> site \<Rightarrow> site \<times> (discard_error + bool)" where
  "delete_records env ws s =
     (case remove_outputs env (outputs_to_delete (de_os env) (de_is_dir env) (de_processes env) ws (st_manager s)) s of
        (s1, Inl e) \<Rightarrow> (s1, Inl e)
      | (s1, Inr _) \<Rightarrow>
          (case delete_terminal_data (de_change_sets env) ws (st_sets s1) of
             (w, Inl e) \<Rightarrow> (s1\<lparr>st_sets := w\<rparr>, Inl (Discard_data e))
           | (w, Inr _) \<Rightarrow>
               (case delete_workspace ws (s1\<lparr>st_sets := w\<rparr>) of
                  (s2, Inl e) \<Rightarrow> (s2, Inl (Discard_sql e))
                | (s2, Inr _) \<Rightarrow> (s2, Inr (map_of (workspaces s2) ws = None)))))"

definition stop_processes :: "discard_env \<Rightarrow> string \<Rightarrow> site \<Rightarrow> site" where
  "stop_processes env ws s = s\<lparr>st_manager := cancel_all_for_workspace (de_config env) (de_os env) ws (st_manager s)\<rparr>"

definition discard_workspace :: "discard_env \<Rightarrow> string \<Rightarrow> site \<Rightarrow> site \<times> (discard_error + discard_report)" where
  "discard_workspace env ws s =
     (if \<not> workspace_id_match ws then (s, Inl (Discard_value (''invalid workspace_id format: '' @ py_repr ws)))
      else case map_of (workspaces s) ws of
        None \<Rightarrow> (s, Inl (Discard_value (''workspace not found: '' @ py_repr ws)))
      | Some r \<Rightarrow>
          (case assert_workspace_discardable ws (st_sets s) of
             (_, Inl (Change_set_error _ message _)) \<Rightarrow> (s, Inl (Discard_value message))
           | (_, Inl (Other_error e)) \<Rightarrow> (s, Inl (Discard_data (Other_error e)))
           | (_, Inr _) \<Rightarrow>
               let tree = path_parts (ws_path r) in
               (case remove_worktree env (ws_project r) tree (stop_processes env ws s) of
                  (s1, removed, err, forgotten) \<Rightarrow>
                    let exists_after = tree \<in> set (st_trees s1);
                        report = (\<lambda>s2 gone err. \<lparr>dr_removed_path = removed, dr_exists_after = exists_after, dr_registration_removed = forgotten,
                          dr_record_removed = gone,
                          dr_remaining = filter (\<lambda>k. k \<noteq> ws) (map fst (list_workspaces (Some (ws_project r)) (workspaces s2))), dr_error = err\<rparr>)
                    in if \<not> exists_after \<and> forgotten
                       then (case delete_records env ws s1 of
                          (s2, Inl e) \<Rightarrow> (s2, Inl e)
                        | (s2, Inr gone) \<Rightarrow> (s2, Inr (report s2 gone err)))
                       else (s1, Inr (report s1 False
                         (case err of None \<Rightarrow> Some ''workspace cleanup verification failed; database record retained'' | Some e \<Rightarrow> Some e))))))"

end
