(* ===== verification/Utf8_Text.thy ===== *)
theory Utf8_Text
  imports Op_Prelude "HOL-Library.Word"
begin

unbundle bit_operations_syntax

text \<open>
  \<open>bytes.decode("utf-8")\<close> as CPython does it: a byte string is cut into units, each a code point with its length, a malformed piece, or a
  sequence that is well formed so far when the data end.
\<close>

type_synonym byte = "8 word"

definition is_cont :: "byte \<Rightarrow> bool" where
  "is_cont b \<longleftrightarrow> b AND 0xC0 = 0x80"

text \<open>\<open>Unit c k\<close> has \<open>k\<close> continuation bytes, \<open>Bad k\<close> covers \<open>k + 1\<close> bytes.\<close>

datatype utf8_unit = Unit nat nat | Bad nat | Partial

definition continuation_count :: "nat \<Rightarrow> nat option" where
  "continuation_count b =
     (if 0xC2 \<le> b \<and> b \<le> 0xDF then Some 1 else if 0xE0 \<le> b \<and> b \<le> 0xEF then Some 2 else if 0xF0 \<le> b \<and> b \<le> 0xF4 then Some 3 else None)"

text \<open>The second byte is restricted after some first bytes (no overlong forms, no surrogates, nothing above U+10FFFF).\<close>

definition second_ok :: "nat \<Rightarrow> nat \<Rightarrow> bool" where
  "second_ok first b \<longleftrightarrow>
     (if first = 0xE0 then 0xA0 else if first = 0xF0 then 0x90 else 0x80) \<le> b \<and> b \<le> (if first = 0xED then 0x9F else if first = 0xF4 then 0x8F else 0xBF)"

definition good_conts :: "nat \<Rightarrow> nat \<Rightarrow> byte list \<Rightarrow> nat" where
  "good_conts first k rest =
     (case take k rest of
        [] \<Rightarrow> 0
      | b # bs \<Rightarrow> if second_ok first (unat b) then Suc (length (takeWhile is_cont bs)) else 0)"

definition code_point :: "nat \<Rightarrow> nat \<Rightarrow> byte list \<Rightarrow> nat" where
  "code_point first k rest =
     fold (\<lambda>b c. c * 64 + unat b mod 64) (take k rest) (if k = 1 then first mod 32 else if k = 2 then first mod 16 else first mod 8)"

definition next_unit :: "byte \<Rightarrow> byte list \<Rightarrow> utf8_unit" where
  "next_unit b rest =
     (if unat b < 0x80 then Unit (unat b) 0
      else case continuation_count (unat b) of
        None \<Rightarrow> Bad 0
      | Some k \<Rightarrow>
          let g = good_conts (unat b) k rest in
          if g = k then Unit (code_point (unat b) k rest) k
          else if g = length rest then Partial
          else Bad g)"

fun units :: "byte list \<Rightarrow> utf8_unit list" where
  "units [] = []"
| "units (b # bs) =
     (case next_unit b bs of
        Unit c k \<Rightarrow> Unit c k # units (drop k bs)
      | Bad k \<Rightarrow> Bad k # units (drop k bs)
      | Partial \<Rightarrow> [Partial])"

fun whole_unit :: "utf8_unit \<Rightarrow> bool" where
  "whole_unit (Unit _ _) = True"
| "whole_unit _ = False"

fun unit_code :: "utf8_unit \<Rightarrow> nat" where
  "unit_code (Unit c _) = c"
| "unit_code _ = 0xFFFD"

fun unit_length :: "utf8_unit \<Rightarrow> nat" where
  "unit_length (Unit _ k) = Suc k"
| "unit_length (Bad k) = Suc k"
| "unit_length Partial = 0"

text \<open>\<open>errors="replace"\<close>, and the strict decoder: the text, or where the first error starts, where it ends and whether the data just ended.\<close>

definition decode_replace :: "byte list \<Rightarrow> nat list" where
  "decode_replace bs = map unit_code (units bs)"

definition decode_strict :: "byte list \<Rightarrow> (nat \<times> nat \<times> bool) + nat list" where
  "decode_strict bs =
     (case dropWhile whole_unit (units bs) of
        [] \<Rightarrow> Inr (decode_replace bs)
      | u # _ \<Rightarrow>
          let start = sum_list (map unit_length (takeWhile whole_unit (units bs)))
          in Inl (start, if u = Partial then length bs else start + unit_length u, u = Partial))"

definition valid_utf8 :: "byte list \<Rightarrow> bool" where
  "valid_utf8 bs \<longleftrightarrow> list_all whole_unit (units bs)"

subsection \<open>Continuation bytes\<close>

lemma is_cont_range: "is_cont b \<longleftrightarrow> 0x80 \<le> unat b \<and> unat b \<le> 0xBF"
proof -
  have "list_all (\<lambda>n. is_cont (word_of_nat n) \<longleftrightarrow> 0x80 \<le> n \<and> n \<le> 0xBF) [0..<256]"
    by code_simp
  then have "is_cont (word_of_nat n) \<longleftrightarrow> 0x80 \<le> n \<and> n \<le> 0xBF" if "n < 256" for n
    using that by (auto simp: list_all_iff)
  moreover have "unat b < 256" using unsigned_less [of b] by simp
  ultimately have "is_cont (word_of_nat (unat b)) \<longleftrightarrow> 0x80 \<le> unat b \<and> unat b \<le> 0xBF" by blast
  then show ?thesis by simp
qed

lemma second_cont: "second_ok f (unat b) \<Longrightarrow> is_cont b"
  by (auto simp: second_ok_def is_cont_range split: if_splits)

lemma good_conts_le: "good_conts f k rest \<le> length rest" "good_conts f k rest \<le> k"
proof -
  have "good_conts f k rest \<le> length (take k rest)"
    using length_takeWhile_le [of is_cont "tl (take k rest)"] by (cases "take k rest") (auto simp: good_conts_def)
  then show "good_conts f k rest \<le> length rest" "good_conts f k rest \<le> k" by simp_all
qed

lemma good_conts_cont: "list_all is_cont (take (good_conts f k rest) rest)"
proof (cases "take k rest")
  case (Cons b bs)
  then obtain rs where rest: "rest = b # rs" "bs = take (k - 1) rs" by (cases rest; cases k) auto
  have "take (length (takeWhile is_cont (take m rs))) rs = takeWhile is_cont (take m rs)" for m
  proof (induction rs arbitrary: m)
    case (Cons r rs)
    then show ?case by (cases m) simp_all
  qed simp
  then have "list_all is_cont (take (length (takeWhile is_cont bs)) rs)"
    unfolding rest(2) by (auto simp: list_all_iff dest: set_takeWhileD)
  then show ?thesis using Cons rest second_cont by (auto simp: good_conts_def)
next
  case Nil
  then have "good_conts f k rest = 0" by (simp only: good_conts_def list.case)
  then show ?thesis by simp
qed

subsection \<open>Units of a well-formed text\<close>

text \<open>The first unit depends on its own bytes only; its continuation bytes are recognisable, its first byte is none.\<close>

lemma next_unit_Unit:
  assumes "next_unit b rest = Unit c k"
  shows "k \<le> length rest" "list_all is_cont (take k rest)" "\<not> is_cont b" "k \<le> 3"
proof -
  show "k \<le> length rest" "list_all is_cont (take k rest)" "k \<le> 3"
    using assms good_conts_le [of "unat b" k rest] good_conts_cont [of "unat b" k rest]
    by (auto simp: next_unit_def Let_def continuation_count_def split: if_splits)
  show "\<not> is_cont b" using assms by (auto simp: next_unit_def is_cont_range continuation_count_def split: if_splits)
qed

lemma good_conts_append: "k \<le> length rest \<Longrightarrow> good_conts f k (rest @ more) = good_conts f k rest"
  by (simp add: good_conts_def)

lemma next_unit_append: "next_unit b rest = Unit c k \<Longrightarrow> next_unit b (rest @ more) = Unit c k"
proof -
  assume u: "next_unit b rest = Unit c k"
  note len = next_unit_Unit(1) [OF u]
  have "good_conts (unat b) k (rest @ more) = good_conts (unat b) k rest" "code_point (unat b) k (rest @ more) = code_point (unat b) k rest"
    using len by (simp_all add: good_conts_append code_point_def)
  then show ?thesis using u by (auto simp: next_unit_def Let_def split: if_splits option.splits)
qed

lemma next_unit_cut:
  assumes "next_unit b rest = Unit c k" "n < k"
  shows "next_unit b (take n rest) = Partial"
proof -
  have multi: "\<not> unat b < 128" and kc: "continuation_count (unat b) = Some k" and good: "good_conts (unat b) k rest = k"
    using assms by (auto simp: next_unit_def Let_def split: if_splits option.splits)
  have len: "n < length rest" using next_unit_Unit(1) [OF assms(1)] assms(2) by simp
  have "good_conts (unat b) k (take n rest) = n"
  proof (cases n)
    case (Suc m)
    obtain r rs where rest: "rest = r # rs" using len by (cases rest) auto
    obtain j where j: "k = Suc j" using assms(2) by (cases k) auto
    have tw: "length (takeWhile is_cont (take j rs)) = j" and sec: "second_ok (unat b) (unat r)"
      using good by (auto simp: good_conts_def rest j split: if_splits)
    have "takeWhile is_cont (take j rs) = take j rs"
      using tw by (metis length_take min.cobounded2 take_all takeWhile_eq_take)
    then have "list_all is_cont (take j rs)" by (metis list_all_iff set_takeWhileD)
    then have "list_all is_cont (take m rs)" using set_take_subset_set_take [of m j rs] Suc assms(2) j
      by (auto simp: list_all_iff)
    then have "takeWhile is_cont (take m rs) = take m rs" by (simp only: list_all_iff takeWhile_eq_all_conv)
    then have "length (takeWhile is_cont (take m rs)) = length (take m rs)" by (simp only:)
    then have "length (takeWhile is_cont (take m rs)) = m" unfolding length_take using Suc len rest by simp
    then show ?thesis using Suc rest j assms(2) sec len by (simp add: good_conts_def min_def)
  qed (simp add: good_conts_def)
  then show ?thesis using multi kc len assms(2) by (simp add: next_unit_def Let_def)
qed

lemma valid_Nil [simp]: "valid_utf8 []"
  by (simp add: valid_utf8_def)

lemma valid_Cons: "valid_utf8 (b # bs) \<longleftrightarrow> (\<exists>c k. next_unit b bs = Unit c k \<and> valid_utf8 (drop k bs))"
  by (auto simp: valid_utf8_def split: utf8_unit.splits)

lemma valid_induct [consumes 1, case_names Nil Unit]:
  assumes "valid_utf8 bs" "P []"
    and "\<And>b bs c k. next_unit b bs = Unit c k \<Longrightarrow> valid_utf8 (drop k bs) \<Longrightarrow> P (drop k bs) \<Longrightarrow> P (b # bs)"
  shows "P bs"
  using assms(1)
proof (induction bs rule: units.induct)
  case (2 b bs)
  then obtain c k where "next_unit b bs = Unit c k" "valid_utf8 (drop k bs)" by (auto simp: valid_Cons)
  then show ?case using 2(1) assms(3) by blast
qed (rule assms(2))

lemma units_append: "valid_utf8 xs \<Longrightarrow> units (xs @ ys) = units xs @ units ys"
proof (induction xs rule: valid_induct)
  case (Unit b bs c k)
  then show ?case using next_unit_append [OF Unit(1), of ys] next_unit_Unit(1) [OF Unit(1)] by simp
qed simp

lemma valid_append: "valid_utf8 xs \<Longrightarrow> valid_utf8 (xs @ ys) = valid_utf8 ys"
  by (simp add: valid_utf8_def units_append)

lemma drop_Suc_Cons_plus: "drop (Suc k + m) (b # bs) = drop m (drop k bs)" "k \<le> length bs \<Longrightarrow> take (Suc k + m) (b # bs) = b # take k bs @ take m (drop k bs)"
  by (simp_all add: add.commute take_add)

text \<open>A prefix of a text is a text, followed by at most three bytes of a character that is cut.\<close>

lemma cut_text:
  assumes "valid_utf8 bs"
  shows "\<exists>m. m \<le> n \<and> m \<le> length bs \<and> (n < m + 4 \<or> m = length bs) \<and> valid_utf8 (take m bs) \<and> valid_utf8 (drop m bs) \<and>
    units (take n bs) = units (take m bs) @ (if m = min n (length bs) then [] else [Partial])"
  using assms
proof (induction bs arbitrary: n rule: valid_induct)
  case (Unit b bs c k)
  note len = next_unit_Unit(1) [OF Unit(1)]
  have self: "next_unit b (take k bs) = Unit c k"
    using Unit(1) len by (auto simp: next_unit_def Let_def good_conts_def code_point_def split: if_splits option.splits)
  show ?case
  proof (cases "n \<le> k")
    case True
    show ?thesis
    proof (cases n)
      case (Suc j)
      then have "units (take n (b # bs)) = [Partial]" using next_unit_cut [OF Unit(1), of j] True by simp
      then show ?thesis using Suc True next_unit_Unit(4) [OF Unit(1)] len Unit
        by (intro exI [of _ 0]) (auto simp: valid_Cons min_def)
    qed (use Unit in \<open>auto simp: valid_Cons intro!: exI [of _ 0]\<close>)
  next
    case False
    then obtain j where n: "n = Suc k + j" by (metis add.commute add_Suc_right less_eqE not_less_eq_eq)
    obtain m where m: "m \<le> j" "m \<le> length (drop k bs)" "j < m + 4 \<or> m = length (drop k bs)" "valid_utf8 (take m (drop k bs))"
      "valid_utf8 (drop m (drop k bs))"
      "units (take j (drop k bs)) = units (take m (drop k bs)) @ (if m = min j (length (drop k bs)) then [] else [Partial])"
      using Unit(3) [of j] by blast
    have first: "next_unit b (take k bs @ zs) = Unit c k" for zs using next_unit_append [OF self] .
    have u: "units (b # take k bs @ zs) = Unit c k # units zs" for zs using first len by simp
    have "valid_utf8 (take (Suc k + m) (b # bs))" "valid_utf8 (drop (Suc k + m) (b # bs))"
      using m(4,5) first len unfolding drop_Suc_Cons_plus(1) drop_Suc_Cons_plus(2) [OF len] by (auto simp: valid_Cons)
    moreover have "units (take n (b # bs)) = units (take (Suc k + m) (b # bs)) @ (if Suc k + m = min n (length (b # bs)) then [] else [Partial])"
      unfolding n drop_Suc_Cons_plus(2) [OF len] u m(6) using len by (auto simp: min_def)
    ultimately show ?thesis using m(1,2,3) n len by (intro exI [of _ "Suc k + m"]) auto
  qed
qed simp

text \<open>Skipping continuation bytes from any offset ends at a character.\<close>

definition skip_to :: "byte list \<Rightarrow> nat \<Rightarrow> nat" where
  "skip_to bs n = n + length (takeWhile is_cont (drop n bs))"

lemma starts_char: "valid_utf8 bs \<Longrightarrow> takeWhile is_cont bs = []"
  using next_unit_Unit(3) by (cases bs) (auto simp: valid_Cons)

lemma skip_valid:
  assumes "valid_utf8 bs"
  shows "valid_utf8 (drop (skip_to bs n) bs)"
  using assms
proof (induction bs arbitrary: n rule: valid_induct)
  case (Unit b bs c k)
  note u = next_unit_Unit [OF Unit(1)]
  show ?case
  proof (cases "n \<le> k")
    case True
    show ?thesis
    proof (cases n)
      case 0
      then show ?thesis using u(3) Unit by (auto simp: skip_to_def valid_Cons)
    next
      case (Suc j)
      have split: "drop j bs = take (k - j) (drop j bs) @ drop k bs" 
      proof -
        have "drop (k - j) (drop j bs) = drop k bs" using True Suc by simp
        then show ?thesis using append_take_drop_id [of "k - j" "drop j bs"] by metis
      qed
      have conts: "\<forall>x \<in> set (take (k - j) (drop j bs)). is_cont x"
        using u(2) set_drop_subset [of j "take k bs"] by (auto simp: list_all_iff drop_take)
      have "takeWhile is_cont (drop j bs) = take (k - j) (drop j bs)"
        using conts starts_char [OF Unit(2)] split by (metis append.right_neutral takeWhile_append2)
      then have "skip_to (b # bs) n = Suc k" using Suc True u(1) by (simp add: skip_to_def)
      then show ?thesis using Unit(2) by simp
    qed
  next
    case False
    then obtain j where n: "n = Suc k + j" by (metis add.commute add_Suc_right less_eqE not_less_eq_eq)
    have "skip_to (b # bs) n = Suc k + skip_to (drop k bs) j" unfolding n skip_to_def by (simp add: add.commute)
    then show ?thesis using Unit(3) [of j] by (simp add: add.commute)
  qed
qed simp

end
