(* ===== verification/Process_Output.thy ===== *)
theory Process_Output
  imports Utf8_Text Paged_Reader Event_Safety
begin

text \<open>
  \<open>read_process_output\<close> of \<open>app/tools/powershell.py\<close>: a page of the captured output of a process, cut between characters, with a byte cursor.
  The content is a list of code points.
\<close>

subsection \<open>A segment of a file\<close>

lemma sum_unit_length:
  "(case dropWhile whole_unit (units bs) of [] \<Rightarrow> sum_list (map unit_length (units bs)) = length bs
    | u # _ \<Rightarrow> sum_list (map unit_length (takeWhile whole_unit (units bs))) < length bs)"
proof (induction bs rule: units.induct)
  case (2 b bs)
  show ?case
  proof (cases "next_unit b bs")
    case (Unit c k)
    have "k \<le> length bs" using next_unit_Unit(1) [OF Unit] .
    have units: "units (b # bs) = Unit c k # units (drop k bs)" using Unit by simp
    show ?thesis
    proof (cases "dropWhile whole_unit (units (drop k bs))")
      case Nil
      have "sum_list (map unit_length (units (drop k bs))) = length bs - k" using 2(1) [OF Unit] unfolding Nil by simp
      then show ?thesis using \<open>k \<le> length bs\<close> unfolding units dropWhile.simps whole_unit.simps Nil by simp
    next
      case (Cons u us)
      have "sum_list (map unit_length (takeWhile whole_unit (units (drop k bs)))) < length bs - k" using 2(1) [OF Unit] unfolding Cons by simp
      then show ?thesis using \<open>k \<le> length bs\<close> unfolding units dropWhile.simps whole_unit.simps if_True Cons by simp
    qed
  qed simp_all
qed simp

lemma strict_start: "decode_strict bs = Inl (start, stop, ended) \<Longrightarrow> start < length bs"
  using sum_unit_length [of bs] by (auto simp: decode_strict_def Let_def split: list.splits)

text \<open>The loop that drops an incomplete last character; the result is the text and the number of bytes it took.\<close>

function decode_data :: "byte list \<Rightarrow> (nat list \<times> nat) option" where
  "decode_data data =
     (if data = [] then None
      else case decode_strict data of
        Inr content \<Rightarrow> Some (content, length data)
      | Inl (start, stop, ended) \<Rightarrow>
          if stop = length data \<and> ended then decode_data (take start data) else Some (decode_replace data, length data))"
  by pat_completeness auto
termination
  by (relation "measure length") (auto dest: strict_start)

declare decode_data.simps [simp del]

definition read_utf8_bytes :: "byte list \<Rightarrow> nat \<Rightarrow> nat \<Rightarrow> nat \<times> nat \<times> nat list \<times> nat" where
  "read_utf8_bytes bytes offset max_bytes =
     (let nbytes = length bytes; start = min offset nbytes; start = (if start = 0 then 0 else skip_to bytes start); data = take max_bytes (drop start bytes) in
      if data = [] then (nbytes, start, [], 0)
      else case decode_data data of
        Some (content, consumed) \<Rightarrow> (nbytes, start, content, consumed)
      | None \<Rightarrow> let extended = take (min 4 (nbytes - start)) (drop start bytes) in (nbytes, start, decode_replace extended, length extended))"

definition segment :: "byte list \<Rightarrow> nat \<Rightarrow> nat \<Rightarrow> nat list \<times> nat \<times> bool" where
  "segment bytes offset max_bytes =
     (case read_utf8_bytes bytes offset max_bytes of (nbytes, start, content, consumed) \<Rightarrow> (content, start + consumed, start + consumed < nbytes))"

subsection \<open>Pages of a well-formed file\<close>

lemma decode_text:
  assumes "valid_utf8 bs" "bs \<noteq> []"
  shows "decode_data bs = Some (decode_replace bs, length bs)"
proof -
  have "dropWhile whole_unit (units bs) = []" using assms(1) by (auto simp: valid_utf8_def list_all_iff dropWhile_eq_Nil_conv)
  then have "decode_strict bs = Inr (decode_replace bs)" unfolding decode_strict_def by (simp only: list.case)
  then show ?thesis using assms(2) by (simp add: decode_data.simps)
qed

lemma decode_cut:
  assumes "valid_utf8 bs" "bs \<noteq> []" "4 \<le> n"
  shows "\<exists>m. 0 < m \<and> m \<le> n \<and> m \<le> length bs \<and> valid_utf8 (take m bs) \<and> valid_utf8 (drop m bs) \<and>
    decode_data (take n bs) = Some (decode_replace (take m bs), m)"
proof -
  obtain m where m: "m \<le> n" "m \<le> length bs" "n < m + 4 \<or> m = length bs" "valid_utf8 (take m bs)" "valid_utf8 (drop m bs)"
    "units (take n bs) = units (take m bs) @ (if m = min n (length bs) then [] else [Partial])"
    using cut_text [OF assms(1), of n] by blast
  have pos: "0 < m" using m(3) assms(2,3) by auto
  have all: "\<forall>u \<in> set (units (take m bs)). whole_unit u" using m(4) by (simp add: valid_utf8_def list_all_iff)
  have short: "decode_data (take m bs) = Some (decode_replace (take m bs), m)"
    using decode_text [OF m(4)] pos m(2) assms(2) by (auto simp: min_def)
  have "decode_data (take n bs) = Some (decode_replace (take m bs), m)"
  proof (cases "m = min n (length bs)")
    case True
    then have "take n bs = take m bs" by (simp add: min_def split: if_splits)
    then show ?thesis using short by simp
  next
    case False
    have u: "units (take n bs) = units (take m bs) @ [Partial]" using m(6) False by simp
    have drop: "dropWhile whole_unit (units (take n bs)) = [Partial]" and take: "takeWhile whole_unit (units (take n bs)) = units (take m bs)"
      unfolding u using all by (simp_all add: dropWhile_append3 takeWhile_append2 dropWhile_append2)
    have whole: "dropWhile whole_unit (units (take m bs)) = []" using all by (simp add: dropWhile_eq_Nil_conv)
    have "sum_list (map unit_length (units (take m bs))) = length (take m bs)"
      using sum_unit_length [of "take m bs"] unfolding whole by (simp only: list.case)
    then have "sum_list (map unit_length (units (take m bs))) = m" using m(2) by simp
    then have "decode_strict (take n bs) = Inl (m, length (take n bs), True)" unfolding decode_strict_def drop take Let_def by simp
    then have "decode_data (take n bs) = decode_data (take m (take n bs))" using pos m(1) assms(2) by (subst decode_data.simps) auto
    then show ?thesis using short m(1) by (simp add: min_def)
  qed
  then show ?thesis using m pos by blast
qed

text \<open>What a reader at an offset still has to see: the characters from the next one on.\<close>

definition rest_of :: "byte list \<Rightarrow> nat \<Rightarrow> nat list" where
  "rest_of bytes offset = decode_replace (drop (skip_to bytes (min offset (length bytes))) bytes)"

lemma decode_append: "valid_utf8 xs \<Longrightarrow> decode_replace (xs @ ys) = decode_replace xs @ decode_replace ys"
  by (simp add: decode_replace_def units_append)

lemma decode_empty: "decode_replace bs = [] \<longleftrightarrow> bs = []"
  by (cases bs) (auto simp: decode_replace_def split: utf8_unit.split)

lemma segment_split:
  assumes "valid_utf8 bytes" "4 \<le> n" "segment bytes offset n = (content, stop, again)"
  shows "rest_of bytes offset = content @ rest_of bytes stop" "again \<longleftrightarrow> rest_of bytes stop \<noteq> []" "again \<Longrightarrow> content \<noteq> []" "stop \<le> length bytes"
proof -
  define start where "start = skip_to bytes (min offset (length bytes))"
  have zero: "skip_to bytes 0 = 0" using starts_char [OF assms(1)] by (simp add: skip_to_def)
  then have start: "(if min offset (length bytes) = 0 then 0 else skip_to bytes (min offset (length bytes))) = start" by (auto simp: start_def)
  have valid: "valid_utf8 (drop start bytes)" unfolding start_def by (rule skip_valid [OF assms(1)])
  have le: "start \<le> length bytes" using length_takeWhile_le [of is_cont "drop (min offset (length bytes)) bytes"] by (simp add: start_def skip_to_def)
  have rest: "rest_of bytes offset = decode_replace (drop start bytes)" by (simp add: rest_of_def start_def)
  have at: "rest_of bytes k = decode_replace (drop k bytes)" if "valid_utf8 (drop k bytes)" "k \<le> length bytes" for k
    using starts_char [OF that(1)] that(2) by (simp add: rest_of_def skip_to_def)
  have goal: "rest_of bytes offset = content @ rest_of bytes stop \<and> (again \<longleftrightarrow> rest_of bytes stop \<noteq> []) \<and> (again \<longrightarrow> content \<noteq> []) \<and> stop \<le> length bytes"
  proof (cases "drop start bytes = []")
    case True
    then have "content = []" "stop = start" "again = (start < length bytes)"
      using assms(2,3) unfolding segment_def read_utf8_bytes_def Let_def start by auto
    then show ?thesis using True le rest at [of start] by (simp add: decode_replace_def)
  next
    case False
    obtain m where m: "0 < m" "m \<le> length (drop start bytes)" "valid_utf8 (take m (drop start bytes))" "valid_utf8 (drop m (drop start bytes))"
      "decode_data (take n (drop start bytes)) = Some (decode_replace (take m (drop start bytes)), m)"
      using decode_cut [OF valid False assms(2)] by blast
    have c: "content = decode_replace (take m (drop start bytes))" "stop = start + m" "again = (start + m < length bytes)"
      using assms(2,3) False m(5) unfolding segment_def read_utf8_bytes_def Let_def start by auto
    have rs: "rest_of bytes stop = decode_replace (drop m (drop start bytes))"
      using at [of stop] m(2,4) le unfolding c(2) by (simp add: add.commute)
    have "rest_of bytes offset = content @ rest_of bytes stop"
      unfolding rest rs c(1) using decode_append [OF m(3)] by (metis append_take_drop_id)
    moreover have "again \<longleftrightarrow> rest_of bytes stop \<noteq> []" using c(3) m(2) le unfolding rs decode_empty by auto
    moreover have "content \<noteq> []" unfolding c(1) decode_empty using m(1) False by simp
    ultimately show ?thesis using m(2) le c(2) by auto
  qed
  then show "rest_of bytes offset = content @ rest_of bytes stop" "again \<longleftrightarrow> rest_of bytes stop \<noteq> []" "again \<Longrightarrow> content \<noteq> []"
    "stop \<le> length bytes" by blast+
qed

interpretation output_segments: page_source valid_utf8 "\<lambda>bytes c n. segment bytes c (n + 3)" rest_of
proof
  fix bytes :: "byte list" and n c c' :: nat and xs :: "nat list" and again
  assume v: "valid_utf8 bytes" and n: "0 < n" and p: "segment bytes c (n + 3) = (xs, c', again)"
  have four: "4 \<le> n + 3" using n by simp
  note split = segment_split [OF v four p]
  show "rest_of bytes c = xs @ rest_of bytes c'" "again = (rest_of bytes c' \<noteq> [])" by (fact split(1), fact split(2))
next
  fix bytes :: "byte list" and n c c' :: nat and xs :: "nat list"
  assume v: "valid_utf8 bytes" and n: "0 < n" and p: "segment bytes c (n + 3) = (xs, c', True)"
  have four: "4 \<le> n + 3" using n by simp
  show "xs \<noteq> []" by (rule segment_split(3) [OF v four p]) simp
qed

subsection \<open>The tool\<close>

text \<open>Opening the output file: \<open>None\<close> when it does not exist, the text of an \<open>OSError\<close>, or its bytes.\<close>

type_synonym output_files = "string \<Rightarrow> (string + byte list) option"

record output_page =
  og_workspace :: string
  og_offset :: nat
  og_content :: "nat list"
  og_total :: nat
  og_cursor :: "string option"

datatype output_reply = Output_error string string | Output_empty string | Output_page output_page

definition output_cursor :: "nat \<Rightarrow> string" where
  "output_cursor n = ''out1_'' @ hex_str n"

definition parse_output_cursor :: "string \<Rightarrow> nat option" where
  "parse_output_cursor cursor =
     (if \<not> prefix ''out1_'' cursor then None
      else let digits = drop 5 cursor in if digits = [] \<or> length digits > 16 then None else hex_parse 0 digits)"

definition chosen_offset :: "string option \<Rightarrow> int \<Rightarrow> (string \<times> string) + nat" where
  "chosen_offset cursor offset =
     (case cursor of
        Some c \<Rightarrow> (case parse_output_cursor c of None \<Rightarrow> Inl (''INVALID_CURSOR'', ''invalid process output cursor'') | Some n \<Rightarrow> Inr n)
      | None \<Rightarrow> if offset < 0 then Inl (''INVALID_INPUT'', ''offset must not be negative'') else Inr (nat offset))"

definition output_path :: "string \<Rightarrow> proc_row \<Rightarrow> string option" where
  "output_path stream r = (case (if stream = ''stdout'' then pc_stdout r else pc_stderr r) of None \<Rightarrow> None | Some p \<Rightarrow> if p = [] then None else Some p)"

definition read_process_output :: "output_files \<Rightarrow> proc_table \<Rightarrow> string \<Rightarrow> string \<Rightarrow> int \<Rightarrow> int \<Rightarrow> string option \<Rightarrow> output_reply" where
  "read_process_output files table pid stream offset max_chars cursor =
     (if stream \<noteq> ''stdout'' \<and> stream \<noteq> ''stderr''
      then Output_error ''INVALID_INPUT'' (''stream must be 'stdout' or 'stderr', got: '' @ py_repr stream)
      else case chosen_offset cursor offset of
        Inl (code, message) \<Rightarrow> Output_error code message
      | Inr start \<Rightarrow>
          (case map_of table pid of
             None \<Rightarrow> Output_error ''PROCESS_NOT_FOUND'' (''process not found: '' @ pid)
           | Some r \<Rightarrow>
               (case output_path stream r of
                  None \<Rightarrow> Output_empty (pc_workspace r)
                | Some p \<Rightarrow>
                    (case files p of
                       None \<Rightarrow> Output_empty (pc_workspace r)
                     | Some (Inl e) \<Rightarrow> Output_error ''INTERNAL_ERROR'' (''cannot read output file: '' @ e)
                     | Some (Inr bytes) \<Rightarrow>
                         (case read_utf8_bytes bytes start (nat (max 1 (min max_chars 200000))) of
                            (nbytes, first, content, consumed) \<Rightarrow>
                              Output_page \<lparr>og_workspace = pc_workspace r, og_offset = first, og_content = content, og_total = nbytes,
                                og_cursor = (if first + consumed < nbytes then Some (output_cursor (first + consumed)) else None)\<rparr>)))))"

text \<open>A client that follows the cursors, for at most \<open>k\<close> pages.\<close>

fun read_stream :: "nat \<Rightarrow> output_files \<Rightarrow> proc_table \<Rightarrow> string \<Rightarrow> string \<Rightarrow> int \<Rightarrow> string option \<Rightarrow> nat list option" where
  "read_stream 0 files table pid stream n cursor = None"
| "read_stream (Suc k) files table pid stream n cursor =
     (case read_process_output files table pid stream 0 n cursor of
        Output_page p \<Rightarrow>
          (case og_cursor p of
             None \<Rightarrow> Some (og_content p)
           | Some c \<Rightarrow> map_option (\<lambda>rest. og_content p @ rest) (read_stream k files table pid stream n (Some c)))
      | _ \<Rightarrow> None)"

lemma output_cursor_roundtrip: "n < 16 ^ 16 \<Longrightarrow> parse_output_cursor (output_cursor n) = Some n"
  using hex_str_length [of 16 n] hex_parse_str [of 0 n] by (simp add: parse_output_cursor_def output_cursor_def hex_str_nonempty)

lemma read_output_page:
  assumes "stream = ''stdout'' \<or> stream = ''stderr''" "map_of table pid = Some r" "output_path stream r = Some p" "files p = Some (Inr bytes)"
    and "chosen_offset cursor 0 = Inr c" "segment bytes c (nat (max 1 (min n 200000))) = (content, stop, again)"
  shows "\<exists>page. read_process_output files table pid stream 0 n cursor = Output_page page \<and> og_content page = content \<and>
    og_cursor page = (if again then Some (output_cursor stop) else None)"
  using assms by (auto simp: read_process_output_def segment_def split: prod.splits)

lemma read_stream_from:
  assumes st: "stream = ''stdout'' \<or> stream = ''stderr''" and row: "map_of table pid = Some r" "output_path stream r = Some p"
    and fl: "files p = Some (Inr bytes)" "valid_utf8 bytes" "length bytes < 16 ^ 16" and n: "4 \<le> n"
    and c: "chosen_offset cursor 0 = Inr c" and k: "length (rest_of bytes c) \<le> k"
  shows "read_stream (Suc k) files table pid stream n cursor = Some (rest_of bytes c)"
  using c k
proof (induction k arbitrary: cursor c)
  case (0 cursor c)
  obtain content stop again where s: "segment bytes c (nat (max 1 (min n 200000))) = (content, stop, again)"
    by (cases "segment bytes c (nat (max 1 (min n 200000)))")
  have big: "4 \<le> nat (max 1 (min n 200000))" using n by simp
  note split = segment_split [OF fl(2) big s]
  from read_output_page [where files = files and p = p, OF st row fl(1) 0(1) s] obtain page where
    "read_process_output files table pid stream 0 n cursor = Output_page page" "og_content page = content"
    "og_cursor page = (if again then Some (output_cursor stop) else None)" by blast
  then show ?case using split 0(2) by simp
next
  case (Suc k cursor c)
  obtain content stop again where s: "segment bytes c (nat (max 1 (min n 200000))) = (content, stop, again)"
    by (cases "segment bytes c (nat (max 1 (min n 200000)))")
  have big: "4 \<le> nat (max 1 (min n 200000))" using n by simp
  note split = segment_split [OF fl(2) big s]
  from read_output_page [where files = files and p = p, OF st row fl(1) Suc(2) s] obtain page where
    page: "read_process_output files table pid stream 0 n cursor = Output_page page" "og_content page = content"
    "og_cursor page = (if again then Some (output_cursor stop) else None)" by blast
  show ?case
  proof (cases again)
    case True
    have "parse_output_cursor (output_cursor stop) = Some stop" using split(4) fl(3) by (simp add: output_cursor_roundtrip)
    then have ch: "chosen_offset (Some (output_cursor stop)) 0 = Inr stop" by (simp add: chosen_offset_def)
    have "length (rest_of bytes stop) \<le> k" using split(1) split(3) [OF True] Suc(3) by (cases content) simp_all
    from Suc.IH [OF ch this] page True split(1) show ?thesis by simp
  next
    case False
    then show ?thesis using page split(1,2) by simp
  qed
qed

text \<open>
  C31. The captured output of a process can be read to its end: for a file that is UTF-8, a client that starts without a cursor and follows
  the cursors of \<open>read_process_output\<close>, with a budget of at least four bytes, gets exactly the decoded file, and no page splits a character.
\<close>
theorem output_read_to_end:
  assumes "stream = ''stdout'' \<or> stream = ''stderr''" "map_of table pid = Some r" "output_path stream r = Some p"
    and "files p = Some (Inr bytes)" "valid_utf8 bytes" "length bytes < 16 ^ 16" "4 \<le> n"
  shows "read_stream (Suc (length bytes)) files table pid stream n None = Some (decode_replace bytes)"
proof -
  have "chosen_offset None 0 = Inr 0" by (simp add: chosen_offset_def)
  moreover have "rest_of bytes 0 = decode_replace bytes"
    using starts_char [OF assms(5)] by (simp add: rest_of_def skip_to_def)
  moreover have "length (decode_replace bs) \<le> length bs" for bs
  proof (induction bs rule: units.induct)
    case (2 b bs)
    show ?case
    proof (cases "next_unit b bs")
      case (Unit c k)
      then show ?thesis using 2(1) [OF Unit] by (simp add: decode_replace_def)
    next
      case (Bad k)
      then show ?thesis using 2(2) [OF Bad] by (simp add: decode_replace_def)
    qed (simp add: decode_replace_def)
  qed (simp add: decode_replace_def)
  ultimately show ?thesis using read_stream_from [where files = files and p = p, OF assms, of None 0 "length bytes"] by simp
qed

definition demo_bytes :: "byte list" where
  "demo_bytes = [0xC3, 0xA9, 0xE2, 0x82, 0xAC]"

definition demo_output_table :: proc_table where
  "demo_output_table = [(''p'', demo_proc\<lparr>pc_stdout := Some ''o''\<rparr>)]"

lemmas utf8_eval = next_unit_def continuation_count_def good_conts_def second_ok_def is_cont_def code_point_def decode_replace_def Let_def

lemma demo_units: "units demo_bytes = [Unit 0xE9 1, Unit 0x20AC 2]"
  by (simp add: demo_bytes_def utf8_eval)

lemma demo_bytes_values: "valid_utf8 demo_bytes" "decode_replace demo_bytes = [0xE9, 0x20AC]"
  by (simp_all add: valid_utf8_def decode_replace_def demo_units)

theorem output_read_to_end_witness:
  "read_stream 6 (\<lambda>_. Some (Inr demo_bytes)) demo_output_table ''p'' ''stdout'' 4 None = Some [0xE9, 0x20AC]"
proof -
  have row: "map_of demo_output_table ''p'' = Some (demo_proc\<lparr>pc_stdout := Some ''o''\<rparr>)" by (simp add: demo_output_table_def)
  have path: "output_path ''stdout'' (demo_proc\<lparr>pc_stdout := Some ''o''\<rparr>) = Some ''o''" by (simp add: output_path_def)
  have len: "length demo_bytes = 5" by (simp add: demo_bytes_def)
  show ?thesis
    using output_read_to_end [of "''stdout''", OF _ row path, of "\<lambda>_. Some (Inr demo_bytes)" demo_bytes 4] demo_bytes_values len
    by simp
qed

text \<open>With a budget below four the last resort of the reader may split the next character, which is then lost.\<close>

lemma tiny_budget_splits:
  "segment demo_bytes 0 1 = ([0xE9, 0xFFFD], 4, True)" "segment demo_bytes 4 1 = ([], 5, False)"
proof -
  have u1: "units [0xC3] = [Partial]" and u4: "units [0xC3, 0xA9, 0xE2, 0x82] = [Unit 0xE9 1, Partial]" by (simp_all add: utf8_eval)
  have "decode_strict [0xC3] = Inl (0, 1, True)" unfolding decode_strict_def u1 by simp
  then have none: "decode_data [0xC3] = None" by (subst decode_data.simps) (simp add: decode_data.simps [of "[]"])
  have r: "decode_replace [0xC3, 0xA9, 0xE2, 0x82] = [0xE9, 0xFFFD]" unfolding decode_replace_def u4 by simp
  show "segment demo_bytes 0 1 = ([0xE9, 0xFFFD], 4, True)"
    using none r by (simp add: segment_def read_utf8_bytes_def demo_bytes_def)
  show "segment demo_bytes 4 1 = ([], 5, False)"
    by (simp add: segment_def read_utf8_bytes_def demo_bytes_def skip_to_def is_cont_def)
qed

end
