(* ===== verification/Process_Tools.thy ===== *)
theory Process_Tools
  imports Artifact_Tools Workspace_Manager Process_Monitor Process_Output
begin

text \<open>
  The tools that start and steer processes: \<open>run_pwsh\<close>, \<open>get_process_result\<close> and \<open>cancel_process\<close> of \<open>app/tools/powershell.py\<close>,
  \<open>app/tools/checks.py\<close>, and \<open>app/tools/pty_process.py\<close>.  A run is cut where it blocks: after its checks (the call of \<open>spawn\<close>), after the
  launch, and after the wait.  The projects file and the process section of the configuration, the decoded output files and git are
  arguments; a fractional \<open>timeout_seconds\<close> of a configured check is not modelled.
\<close>

subsection \<open>Common parts\<close>

type_synonym result_dict = "(string \<times> json) list"

record run_env =
  rn_config :: manager_config
  rn_deny :: "string list option"
  rn_project :: "string \<Rightarrow> config_error + json option"
  rn_process :: "config_error + section_values"
  rn_str :: "json \<Rightarrow> string"
  rn_text :: "string list \<Rightarrow> string option"
  rn_artifacts :: "string \<Rightarrow> string \<Rightarrow> json"
  rn_git_status :: "path \<Rightarrow> string option"
  rn_git_porcelain :: "path \<Rightarrow> string + string"
  rn_error_text :: "event_error \<Rightarrow> string"
  rn_page_size :: nat
  rn_processes :: path

datatype run_error = Run_config config_error | Run_manager manager_error | Run_attribute | Run_type | Run_key

datatype run_stop = Stop_reply json | Stop_raise run_error

definition raising :: "run_error + 'a \<Rightarrow> run_stop + 'a" where
  "raising r = map_sum Stop_raise id r"

definition site_workspace :: "string \<Rightarrow> string \<Rightarrow> site \<Rightarrow> site \<times> workspace_row option" where
  "site_workspace now ws s = (case get_workspace now ws (workspaces s) of (table, r) \<Rightarrow> (put_sets (\<lambda>w. w\<lparr>cw_workspaces := table\<rparr>) s, r))"

definition put_manager :: "manager \<Rightarrow> site \<Rightarrow> site" where
  "put_manager m s = s\<lparr>st_manager := m\<rparr>"

definition site_audit :: "string \<Rightarrow> tool_ids \<Rightarrow> string option \<Rightarrow> string \<Rightarrow> string option \<Rightarrow> site \<Rightarrow> site" where
  "site_audit name ids ws summary code s =
     put_manager ((st_manager s)\<lparr>pm_ops := audit_event (ti_operation ids)
        \<lparr>au_tool = name, au_request_id = ti_request ids, au_workspace = ws, au_input_summary = summary, au_success = (code = None),
         au_duration_ms = ti_ms ids, au_error_code = code, au_result_status = None\<rparr> (pm_ops (st_manager s))\<rparr>) s"

definition success :: "tool_ids \<Rightarrow> string option \<Rightarrow> bool \<Rightarrow> string option \<Rightarrow> (string \<times> json) list \<Rightarrow> json" where
  "success ids ws truncated cursor result =
     ok_result (ti_request ids) (JObj result)
       (ok_defaults\<lparr>oo_workspace_id := ws, oo_request_id := Some (ti_request ids), oo_truncated := truncated, oo_next_cursor := cursor\<rparr>)"

text \<open>\<open>int(get_process_config().get(key, dflt))\<close>.\<close>

definition process_limit :: "run_env \<Rightarrow> string \<Rightarrow> int \<Rightarrow> run_error + int" where
  "process_limit env key dflt =
     (case rn_process env of
        Inl e \<Rightarrow> Inl (Run_config e)
      | Inr sec \<Rightarrow> (case py_int (jget sec key (JInt dflt)) of Inl e \<Rightarrow> Inl (Run_config e) | Inr n \<Rightarrow> Inr n))"

definition git_status_json :: "run_env \<Rightarrow> path \<Rightarrow> json" where
  "git_status_json env worktree =
     (case rn_git_status env worktree of None \<Rightarrow> JNull | Some out \<Rightarrow> if py_strip out = [] then JNull else JStr (py_strip out))"

definition open_tree :: "os_view \<Rightarrow> tool_ids \<Rightarrow> string \<Rightarrow> site \<Rightarrow> site \<times> ((string \<times> string) + workspace_row)" where
  "open_tree os ids ws s =
     (case site_workspace (ti_now ids) ws s of
        (s, None) \<Rightarrow> (s, Inl (''WORKSPACE_NOT_FOUND'', ''workspace not found: '' @ ws))
      | (s, Some r) \<Rightarrow>
          if \<not> os_exists os (path_parts (ws_path r))
          then (s, Inl (''STALE_WORKSPACE'', ''worktree path missing on disk: '' @ path_text (path_parts (ws_path r))))
          else (s, Inr r))"

definition open_project :: "run_env \<Rightarrow> tool_ids \<Rightarrow> string \<Rightarrow> workspace_row \<Rightarrow> run_stop + json" where
  "open_project env ids ws r =
     (case rn_project env (ws_project r) of
        Inl e \<Rightarrow> Inl (Stop_raise (Run_config e))
      | Inr None \<Rightarrow> Inl (Stop_reply (failure ids (Some ws) False [] ''PROJECT_NOT_FOUND'' (''project config not found: '' @ ws_project r)))
      | Inr (Some p) \<Rightarrow> Inr p)"

text \<open>\<open>d.get(key, dflt)\<close> on a value that should be a dict.\<close>

definition get_item :: "string \<Rightarrow> json \<Rightarrow> json \<Rightarrow> run_error + json" where
  "get_item key dflt v = (case v of JObj d \<Rightarrow> Inr (jget d key dflt) | _ \<Rightarrow> Inl Run_attribute)"

definition pwsh_executable :: "json \<Rightarrow> run_error + json" where
  "pwsh_executable project = obind (get_item ''pwsh'' (JObj []) project) (get_item ''executable'' (JStr ''pwsh.exe''))"

definition chosen_directory :: "run_env \<Rightarrow> os_view \<Rightarrow> path \<Rightarrow> string \<Rightarrow> (string \<times> string) + string option" where
  "chosen_directory env os worktree wd =
     (if wd = [] then Inr None
      else case resolve_within (os_resolve os) (os_exists os) worktree wd False of
        Inl e \<Rightarrow> Inl (''PATH_DENIED'', e)
      | Inr p \<Rightarrow>
          if is_denied (os_resolve os) (rn_deny env) p (Some worktree) then Inl (''PATH_DENIED'', ''working_directory is denied by policy'')
          else Inr (Some (path_text p)))"

subsection \<open>What a run hands to the process manager\<close>

datatype run_tool = Tool_pwsh | Tool_check string bool | Tool_command string bool

record run_plan =
  rl_tool :: run_tool
  rl_call :: spawn_call
  rl_program :: json
  rl_env :: "(string, string) dict option"
  rl_wait :: bool
  rl_worktree :: path

definition pwsh_call :: "string \<Rightarrow> path \<Rightarrow> string \<Rightarrow> string option \<Rightarrow> int \<Rightarrow> spawn_call" where
  "pwsh_call ws worktree script cwd timeout =
     \<lparr>sp_workspace = ws, sp_worktree = worktree, sp_script = script, sp_directory = cwd, sp_timeout = Some timeout, sp_tool = ''run_pwsh'',
      sp_write = True, sp_priority = 0, sp_request = None, sp_terminal = None\<rparr>"

definition run_pwsh :: "run_env \<Rightarrow> os_view \<Rightarrow> tool_ids \<Rightarrow> string \<Rightarrow> string \<Rightarrow> string \<Rightarrow> int \<Rightarrow> bool \<Rightarrow> site \<Rightarrow> site \<times> (run_stop + run_plan)" where
  "run_pwsh env os ids ws script wd timeout_seconds wait s =
     (let fail = (\<lambda>(code, message). Stop_reply (failure ids (Some ws) False [] code message)) in
      case open_tree os ids ws s of
        (s, Inl e) \<Rightarrow> (s, Inl (fail e))
      | (s, Inr r) \<Rightarrow> (s,
          let worktree = path_parts (ws_path r) in
          obind (open_project env ids ws r) (\<lambda>project.
          if py_strip script = [] then Inl (fail (''INVALID_INPUT'', ''script must be a non-empty string''))
          else obind (raising (process_limit env ''max_timeout_seconds'' 3600)) (\<lambda>m.
          obind (map_sum fail id (chosen_directory env os worktree wd)) (\<lambda>cwd.
          obind (raising (pwsh_executable project)) (\<lambda>exe.
          Inr \<lparr>rl_tool = Tool_pwsh, rl_call = pwsh_call ws worktree script cwd (min (max timeout_seconds 1) m), rl_program = exe,
               rl_env = None, rl_wait = wait, rl_worktree = worktree\<rparr>))))))"

subsection \<open>Configured checks\<close>

definition falsy_default :: "json \<Rightarrow> json \<Rightarrow> json" where
  "falsy_default d v = (if truthy v then v else d)"

definition preview :: "json \<Rightarrow> run_error + json" where
  "preview v = (case falsy_default (JStr []) v of JStr s \<Rightarrow> Inr (JStr (take 200 s)) | JArr xs \<Rightarrow> Inr (JArr (take 200 xs)) | _ \<Rightarrow> Inl Run_type)"

definition check_json :: "string \<times> json \<Rightarrow> run_error + json" where
  "check_json e =
     (case snd e of
        JObj info \<Rightarrow>
          obind (preview (jget info ''script'' (JStr []))) (\<lambda>script.
          case falsy_default (JObj []) (jget info ''env'' JNull) of
            JObj keys \<Rightarrow>
              Inr (JObj [(''check_id'', JStr (fst e)), (''timeout_seconds'', jget info ''timeout_seconds'' (JInt 600)), (''script_preview'', script),
                (''description'', jget info ''description'' (JStr [])), (''result_semantics'', jget info ''result_semantics'' (JStr ''command_exit'')),
                (''environment_keys'', JArr (map JStr (sort (map fst keys))))])
          | _ \<Rightarrow> Inl Run_attribute)
      | _ \<Rightarrow> Inl Run_attribute)"

fun collect :: "('a \<Rightarrow> run_error + 'b) \<Rightarrow> 'a list \<Rightarrow> run_error + 'b list" where
  "collect f [] = Inr []"
| "collect f (x # xs) = obind (f x) (\<lambda>y. obind (collect f xs) (\<lambda>ys. Inr (y # ys)))"

definition as_dict :: "json \<Rightarrow> run_error + (string \<times> json) list" where
  "as_dict v = (case v of JObj d \<Rightarrow> Inr d | _ \<Rightarrow> Inl Run_attribute)"

definition list_checks :: "run_env \<Rightarrow> tool_ids \<Rightarrow> string \<Rightarrow> site \<Rightarrow> site \<times> (run_error + json)" where
  "list_checks env ids ws s =
     (case site_workspace (ti_now ids) ws s of
        (s, None) \<Rightarrow> (s, Inr (failure ids (Some ws) False [] ''WORKSPACE_NOT_FOUND'' (''workspace not found: '' @ ws)))
      | (s, Some r) \<Rightarrow> (s,
          case open_project env ids ws r of
            Inl (Stop_reply j) \<Rightarrow> Inr j
          | Inl (Stop_raise e) \<Rightarrow> Inl e
          | Inr project \<Rightarrow>
              obind (get_item ''checks'' (JObj []) project) (\<lambda>v. obind (as_dict v) (\<lambda>checks. obind (collect check_json checks) (\<lambda>entries.
                Inr (success ids (Some ws) False None
                  [(''workspace_id'', JStr ws), (''project_id'', JStr (ws_project r)), (''checks'', JArr entries)]))))))"

definition check_script :: "(string \<times> json) list \<Rightarrow> run_error + string" where
  "check_script cfg = (case jget cfg ''script'' (JStr []) of JStr s \<Rightarrow> Inr (py_strip s) | _ \<Rightarrow> Inl Run_attribute)"

definition check_timeout :: "run_env \<Rightarrow> (string \<times> json) list \<Rightarrow> run_error + int" where
  "check_timeout env cfg =
     obind (case jget cfg ''timeout_seconds'' JNull of
              JNull \<Rightarrow> process_limit env ''default_timeout_seconds'' 600
            | JInt n \<Rightarrow> Inr n
            | JBool b \<Rightarrow> Inr (if b then 1 else 0)
            | _ \<Rightarrow> Inl Run_type)
       (\<lambda>t. obind (process_limit env ''max_timeout_seconds'' 3600) (\<lambda>m. Inr (min t m)))"

definition env_value :: "json \<Rightarrow> bool" where
  "env_value v = (case v of JStr _ \<Rightarrow> True | JInt _ \<Rightarrow> True | JFloat _ \<Rightarrow> True | JBool _ \<Rightarrow> True | _ \<Rightarrow> False)"

definition check_environment :: "run_env \<Rightarrow> (string \<times> json) list \<Rightarrow> (string, string) dict option" where
  "check_environment env cfg =
     (case falsy_default (JObj []) (jget cfg ''env'' JNull) of
        JObj d \<Rightarrow>
          if list_all (\<lambda>e. env_value (snd e)) d
          then Some (setdefault ''PYTHONDONTWRITEBYTECODE'' ''1'' (map (\<lambda>e. (fst e, rn_str env (snd e))) d)) else None
      | _ \<Rightarrow> None)"

definition run_check :: "run_env \<Rightarrow> os_view \<Rightarrow> tool_ids \<Rightarrow> string \<Rightarrow> string \<Rightarrow> bool \<Rightarrow> site \<Rightarrow> site \<times> (run_stop + run_plan)" where
  "run_check env os ids ws cid wait s =
     (let fail = (\<lambda>extra code message. Stop_reply (failure ids (Some ws) False extra code message));
          about = (''check_id'', JStr cid)
      in case open_tree os ids ws s of
        (s, Inl (code, message)) \<Rightarrow> (s, Inl (fail [] code message))
      | (s, Inr r) \<Rightarrow> (s,
          let worktree = path_parts (ws_path r) in
          obind (open_project env ids ws r) (\<lambda>project.
          obind (raising (obind (get_item ''checks'' (JObj []) project) as_dict)) (\<lambda>checks.
          let names = sort (map fst checks) in
          if jget checks cid JNull = JNull
          then Inl (fail [about, (''available_checks'', JArr (map JStr names))] ''CHECK_NOT_FOUND''
            (''check_id '' @ py_repr cid @ '' not found in project '' @ py_repr (ws_project r) @ ''. Available checks: ['' @ py_join '', '' names @ '']''))
          else obind (raising (as_dict (jget checks cid JNull))) (\<lambda>cfg.
          obind (raising (check_script cfg)) (\<lambda>script.
          if script = [] then Inl (fail [about] ''INVALID_INPUT'' (''check '' @ py_repr cid @ '' has an empty script''))
          else obind (raising (check_timeout env cfg)) (\<lambda>timeout.
          obind (raising (pwsh_executable project)) (\<lambda>exe.
          case check_environment env cfg of
            None \<Rightarrow> Inl (fail [about] ''INVALID_INPUT'' (''check '' @ py_repr cid @ '' has an invalid env mapping''))
          | Some e \<Rightarrow>
              Inr \<lparr>rl_tool = Tool_check cid (jget cfg ''result_semantics'' JNull = JStr ''git_diff_check''),
                   rl_call = (pwsh_call ws worktree script None timeout)\<lparr>sp_tool := ''run_check:'' @ cid, sp_write := False, sp_priority := 10\<rparr>,
                   rl_program = exe, rl_env = Some e, rl_wait = wait, rl_worktree = worktree\<rparr>))))))))"

text \<open>\<open>_git_hygiene\<close>: the working tree after a Git diff check.\<close>

definition status_entries :: "string \<Rightarrow> (string \<times> string) list" where
  "status_entries out = map (\<lambda>l. (drop 3 l, take 2 l)) (filter (\<lambda>l. 3 \<le> length l) (py_splitlines out))"

definition git_hygiene :: "run_env \<Rightarrow> path \<Rightarrow> result_dict \<Rightarrow> json" where
  "git_hygiene env worktree result =
     (case rn_git_porcelain env worktree of
        Inl e \<Rightarrow> JObj [(''error'', JStr e)]
      | Inr out \<Rightarrow>
          let entries = status_entries out in
          JObj [(''diff_check_passed'', JBool (jget result ''exit_code'' JNull = JInt 0)), (''working_tree_clean'', JBool (entries = [])),
            (''changed_files'', JArr (map (\<lambda>e. JObj [(''path'', JStr (fst e)), (''status_code'', JStr (snd e))]) entries)),
            (''untracked_files'', JArr (map (JStr \<circ> fst) (filter (\<lambda>e. snd e = ''??'') entries)))])"

subsection \<open>Interactive commands\<close>

definition py_bool :: "bool \<Rightarrow> string" where
  "py_bool b = (if b then ''True'' else ''False'')"

definition supported_shells :: "string list" where
  "supported_shells = [''pwsh'', ''cmd'', ''python'', ''wsl-bash'']"

definition tuple_repr :: "string list \<Rightarrow> string" where
  "tuple_repr xs = ''('' @ py_join '', '' (map py_repr xs) @ '')''"

definition command_fail :: "tool_ids \<Rightarrow> string \<Rightarrow> string \<Rightarrow> string \<Rightarrow> string \<Rightarrow> site \<Rightarrow> site \<times> json" where
  "command_fail ids ws summary code message s =
     (site_audit ''run_command'' ids (Some ws) summary (Some code) s, failure ids (Some ws) False [] code message)"

definition run_command ::
  "run_env \<Rightarrow> os_view \<Rightarrow> tool_ids \<Rightarrow> string \<Rightarrow> string \<Rightarrow> string \<Rightarrow> string \<Rightarrow> bool \<Rightarrow> bool \<Rightarrow> int \<Rightarrow> int \<Rightarrow> int \<Rightarrow> site \<Rightarrow> site \<times> (run_stop + run_plan)" where
  "run_command env os ids ws command shell wd tty wait timeout_seconds columns rows s =
     (let summary = ''shell='' @ py_repr shell @ '' tty='' @ py_bool tty @ '' wait='' @ py_bool wait;
          fail = (\<lambda>code message s. map_prod id (Inl \<circ> Stop_reply) (command_fail ids ws summary code message s))
      in case open_tree os ids ws s of
        (s, Inl (code, message)) \<Rightarrow> fail code message s
      | (s, Inr r) \<Rightarrow>
          let worktree = path_parts (ws_path r) in
          if py_strip command = [] \<and> shell \<noteq> ''python'' then fail ''INVALID_INPUT'' ''command must be a non-empty string'' s
          else if shell \<notin> set supported_shells
          then fail ''INVALID_INPUT'' (''shell must be one of '' @ tuple_repr supported_shells @ '', got: '' @ py_repr shell) s
          else case process_limit env ''max_timeout_seconds'' 3600 of
            Inl e \<Rightarrow> (s, Inl (Stop_raise e))
          | Inr m \<Rightarrow>
              (case chosen_directory env os worktree wd of
                 Inl (code, message) \<Rightarrow> fail code message s
               | Inr cwd \<Rightarrow> (s,
                   Inr \<lparr>rl_tool = Tool_command summary tty,
                        rl_call = (pwsh_call ws worktree command cwd (min (max timeout_seconds 1) m))
                          \<lparr>sp_tool := ''run_command'', sp_request := Some (ti_request ids), sp_terminal := Some (columns, rows)\<rparr>,
                        rl_program = JStr shell, rl_env = None, rl_wait = wait, rl_worktree = worktree\<rparr>)))"

subsection \<open>From the spawn to the answer\<close>

datatype run_progress =
    Run_answer json
  | Run_raises run_error
  | Run_queued
  | Run_admitted nat spawn_request
  | Run_blocked string

definition run_fail :: "run_plan \<Rightarrow> tool_ids \<Rightarrow> string \<Rightarrow> string \<Rightarrow> site \<Rightarrow> site \<times> run_progress" where
  "run_fail plan ids code message s =
     (let ws = sp_workspace (rl_call plan) in
      case rl_tool plan of
        Tool_pwsh \<Rightarrow> (s, Run_answer (failure ids (Some ws) False [] code message))
      | Tool_check cid _ \<Rightarrow> (s, Run_answer (failure ids (Some ws) False [(''check_id'', JStr cid)] code message))
      | Tool_command summary _ \<Rightarrow> map_prod id Run_answer (command_fail ids ws summary code message s))"

definition finish_run :: "run_env \<Rightarrow> os_view \<Rightarrow> run_plan \<Rightarrow> tool_ids \<Rightarrow> string \<Rightarrow> result_dict \<Rightarrow> site \<Rightarrow> site \<times> run_progress" where
  "finish_run env os plan ids pid result s =
     (let ws = sp_workspace (rl_call plan);
          timed_out = (jget result ''status'' JNull \<notin> set (map JStr terminal_process_statuses));
          (m, result) = (if timed_out
             then get_result (rn_config env) os (rn_text env) (rn_artifacts env) pid None (fst (cancel (rn_config env) os pid (st_manager s)))
             else (st_manager s, result));
          s = put_manager m s;
          with_status = AList.update ''git_status_after'' (git_status_json env (rl_worktree plan)) result
      in case rl_tool plan of
        Tool_pwsh \<Rightarrow> (s, Run_answer (success ids (Some ws) False None with_status))
      | Tool_check cid git_diff \<Rightarrow>
          let result = AList.update ''workspace_id'' (JStr ws) (AList.update ''check_id'' (JStr cid) result)
          in (s, Run_answer (success ids (Some ws) False None
               (if git_diff then AList.update ''git_hygiene'' (git_hygiene env (rl_worktree plan) result) result else result)))
      | Tool_command summary _ \<Rightarrow>
          (site_audit ''run_command'' ids (Some ws) summary (if timed_out then Some ''PROCESS_TIMEOUT'' else None) s,
           Run_answer (success ids (Some ws) (truthy (jget result ''truncated'' JNull)) None with_status)))"

text \<open>The wait of a run: it is over at once, blocks, or raises.\<close>

definition run_wait :: "run_env \<Rightarrow> os_view \<Rightarrow> run_plan \<Rightarrow> tool_ids \<Rightarrow> string \<Rightarrow> site \<Rightarrow> site \<times> run_progress" where
  "run_wait env os plan ids pid s =
     (let timeout = (case sp_timeout (rl_call plan) of None \<Rightarrow> 0 | Some t \<Rightarrow> t) in
      case wait_for_terminal (rn_config env) os (rn_text env) (rn_artifacts env) (rn_error_text env) (rn_page_size env) pid (real_of_int (timeout + 5)) None
          (st_manager s) of
        Wait_raises e \<Rightarrow> (s, Run_raises (Run_manager e))
      | Wait_over (m, result) \<Rightarrow> finish_run env os plan ids pid result (put_manager m s)
      | Wait_completed \<Rightarrow> (s, Run_blocked pid)
      | Wait_exit_event _ _ \<Rightarrow> (s, Run_blocked pid))"

text \<open>The blocked wait returns, on the completion or at its deadline.\<close>

definition run_woken :: "run_env \<Rightarrow> os_view \<Rightarrow> run_plan \<Rightarrow> tool_ids \<Rightarrow> string \<Rightarrow> site \<Rightarrow> site \<times> run_progress" where
  "run_woken env os plan ids pid s =
     (case get_result (rn_config env) os (rn_text env) (rn_artifacts env) pid None (st_manager s) of
        (m, result) \<Rightarrow> finish_run env os plan ids pid result (put_manager m s))"

definition run_accepted :: "run_plan \<Rightarrow> tool_ids \<Rightarrow> json \<Rightarrow> site \<Rightarrow> site \<times> run_progress" where
  "run_accepted plan ids pid s =
     (let ws = sp_workspace (rl_call plan); fields = [(''process_id'', pid), (''status'', JStr ''running''), (''workspace_id'', JStr ws)] in
      case rl_tool plan of
        Tool_pwsh \<Rightarrow> (s, Run_answer (success ids (Some ws) False None fields))
      | Tool_check cid _ \<Rightarrow> (s, Run_answer (success ids (Some ws) False None (fields @ [(''check_id'', JStr cid)])))
      | Tool_command summary tty \<Rightarrow>
          (site_audit ''run_command'' ids (Some ws) summary None s,
           Run_answer (success ids (Some ws) False None (fields @ [(''tty'', JBool tty)]))))"

text \<open>\<open>spawn\<close> returned a dict.  Only \<open>run_command\<close> looks for an error in it.\<close>

definition run_spawned :: "run_env \<Rightarrow> os_view \<Rightarrow> run_plan \<Rightarrow> tool_ids \<Rightarrow> result_dict \<Rightarrow> site \<Rightarrow> site \<times> run_progress" where
  "run_spawned env os plan ids result s =
     (if (case rl_tool plan of Tool_command _ _ \<Rightarrow> map_of result ''error'' \<noteq> None | _ \<Rightarrow> False)
      then run_fail plan ids (rn_str env (jget result ''code'' (JStr ''INTERNAL_ERROR''))) (rn_str env (jget result ''error'' (JStr ''unknown spawn error''))) s
      else case map_of result ''process_id'' of
        None \<Rightarrow> (s, Run_raises Run_key)
      | Some pid \<Rightarrow> if rl_wait plan then run_wait env os plan ids (jstr pid) s else run_accepted plan ids pid s)"

definition run_settle :: "run_env \<Rightarrow> os_view \<Rightarrow> run_plan \<Rightarrow> tool_ids \<Rightarrow> spawn_progress \<Rightarrow> site \<Rightarrow> site \<times> run_progress" where
  "run_settle env os plan ids p s =
     (case p of
        Spawn_raised (Manager_runtime m) \<Rightarrow> run_fail plan ids ''RATE_LIMITED'' m s
      | Spawn_raised e \<Rightarrow> (s, Run_raises (Run_manager e))
      | Spawn_reply result \<Rightarrow> run_spawned env os plan ids result s
      | Spawn_waiting \<Rightarrow> (s, Run_queued)
      | Spawn_admitted i q \<Rightarrow> (s, Run_admitted i q))"

definition run_start :: "run_env \<Rightarrow> os_view \<Rightarrow> real \<Rightarrow> run_plan \<Rightarrow> tool_ids \<Rightarrow> site \<Rightarrow> site \<times> run_progress" where
  "run_start env os start plan ids s =
     (case spawn_begin (rn_config env) os (rn_processes env) start (rl_call plan) (st_manager s) of
        (m, p) \<Rightarrow> run_settle env os plan ids p (put_manager m s))"

definition run_resume :: "run_env \<Rightarrow> os_view \<Rightarrow> run_plan \<Rightarrow> tool_ids \<Rightarrow> acquire_call \<times> spawn_request \<Rightarrow> site \<Rightarrow> site \<times> run_progress" where
  "run_resume env os plan ids e s =
     (case spawn_resume (rn_config env) os e (st_manager s) of (m, p) \<Rightarrow> run_settle env os plan ids p (put_manager m s))"

definition run_launched :: "run_env \<Rightarrow> os_view \<Rightarrow> run_plan \<Rightarrow> tool_ids \<Rightarrow> nat \<Rightarrow> spawn_request \<Rightarrow> launch \<Rightarrow> site \<Rightarrow> site \<times> run_progress" where
  "run_launched env os plan ids i q l s =
     (case launch_process (rn_config env) os i q l (st_manager s) of (m, result) \<Rightarrow> run_spawned env os plan ids result (put_manager m s))"

subsection \<open>Results, cancelling and input\<close>

definition error_text_of_reply :: "run_env \<Rightarrow> result_dict \<Rightarrow> string" where
  "error_text_of_reply env result = rn_str env (jget result ''error'' (JStr []))"

definition get_process_result :: "run_env \<Rightarrow> os_view \<Rightarrow> tool_ids \<Rightarrow> string \<Rightarrow> int \<Rightarrow> site \<Rightarrow> site \<times> (run_error + json)" where
  "get_process_result env os ids pid tail_chars s =
     (case process_limit env ''max_output_chars'' 200000 of
        Inl e \<Rightarrow> (s, Inl e)
      | Inr max_tail \<Rightarrow>
          let (m, result) = get_result (rn_config env) os (rn_text env) (rn_artifacts env) pid (Some (min (max tail_chars 1) max_tail)) (st_manager s);
              s = put_manager m s; record = get_record m pid;
              (s, result) =
                (if jget result ''status'' JNull \<notin> set (map JStr [''passed'', ''failed'', ''timed_out'', ''cancelled'']) then (s, result)
                 else case record of
                   None \<Rightarrow> (s, result)
                 | Some r \<Rightarrow>
                     if pc_workspace r = [] then (s, result)
                     else case site_workspace (ti_now ids) (pc_workspace r) s of
                       (s, None) \<Rightarrow> (s, result)
                     | (s, Some w) \<Rightarrow>
                         let tree = path_parts (ws_path w)
                         in (s, if os_exists os tree then AList.update ''git_status_after'' (git_status_json env tree) result else result))
          in (s, Inr (if map_of result ''error'' \<noteq> None
               then failure ids None False [(''process_id'', JStr pid)]
                 (if py_contains ''not found'' (py_lower (error_text_of_reply env result)) then ''PROCESS_NOT_FOUND'' else ''INTERNAL_ERROR'')
                 (error_text_of_reply env result)
               else success ids (map_option pc_workspace record) (truthy (jget result ''truncated'' JNull)) None result)))"

definition cancel_process :: "run_env \<Rightarrow> os_view \<Rightarrow> tool_ids \<Rightarrow> string \<Rightarrow> site \<Rightarrow> site \<times> json" where
  "cancel_process env os ids pid s =
     (case cancel (rn_config env) os pid (st_manager s) of
        (m, result) \<Rightarrow>
          (put_manager m s,
           if map_of result ''error'' \<noteq> None
           then failure ids None False [(''process_id'', JStr pid)]
             (if py_contains ''not found'' (py_lower (error_text_of_reply env result)) then ''PROCESS_NOT_FOUND'' else ''INVALID_INPUT'')
             (error_text_of_reply env result)
           else success ids (map_option pc_workspace (get_record m pid)) False None result))"

text \<open>The two tools that write to a process report a refusal with a code that is read off the message.\<close>

definition process_answer ::
  "run_env \<Rightarrow> string \<Rightarrow> tool_ids \<Rightarrow> string \<Rightarrow> string \<Rightarrow> string \<Rightarrow> string list \<Rightarrow> manager \<times> result_dict \<Rightarrow> site \<Rightarrow> site \<times> json" where
  "process_answer env name ids pid fail_summary ok_summary not_running outcome s =
     (let ws = map_option pc_workspace (get_record (st_manager s) pid) in
      case outcome of
        (m, result) \<Rightarrow>
          if map_of result ''error'' \<noteq> None
          then let message = error_text_of_reply env result;
                   code = (if list_ex (\<lambda>part. py_contains part message) not_running then ''PROCESS_NOT_RUNNING'' else ''PROCESS_NOT_FOUND'')
               in (site_audit name ids ws fail_summary (Some code) (put_manager m s), failure ids None False [(''process_id'', JStr pid)] code message)
          else (site_audit name ids ws ok_summary None (put_manager m s), success ids None False None result))"

definition write_process_input :: "run_env \<Rightarrow> os_view \<Rightarrow> tool_ids \<Rightarrow> string \<Rightarrow> string \<Rightarrow> bool \<Rightarrow> site \<Rightarrow> site \<times> json" where
  "write_process_input env os ids pid input append_newline s =
     (if input = [] \<and> \<not> append_newline
      then (s, failure ids None False [(''process_id'', JStr pid)] ''INVALID_INPUT'' ''text must be non-empty when append_newline is False'')
      else let summary = ''process_id='' @ py_repr pid @ '' text_len='' @ nat_str (length input)
           in process_answer env ''write_process_input'' ids pid summary (summary @ '' append_newline='' @ py_bool append_newline)
                [''not running'', ''has already exited''] (write_input (rn_config env) os pid input append_newline (st_manager s)) s)"

definition send_process_signal :: "run_env \<Rightarrow> os_view \<Rightarrow> tool_ids \<Rightarrow> string \<Rightarrow> string \<Rightarrow> site \<Rightarrow> site \<times> json" where
  "send_process_signal env os ids pid sig s =
     (let signals = [''interrupt'', ''eof'', ''terminate''] in
      if sig \<notin> set signals
      then (s, failure ids None False [(''process_id'', JStr pid)] ''INVALID_INPUT'' (''signal must be one of '' @ tuple_repr signals @ '', got: '' @ py_repr sig))
      else let summary = ''process_id='' @ py_repr pid @ '' signal='' @ py_repr sig
           in process_answer env ''send_process_signal'' ids pid summary summary [''not running'']
                (send_signal (rn_config env) os pid sig (st_manager s)) s)"

definition resize_terminal_tool :: "run_env \<Rightarrow> string option option \<Rightarrow> tool_ids \<Rightarrow> string \<Rightarrow> int \<Rightarrow> int \<Rightarrow> site \<Rightarrow> site \<times> json" where
  "resize_terminal_tool env conpty ids pid columns rows s =
     (case resize_terminal conpty pid columns rows (st_manager s) of
        (m, result) \<Rightarrow>
          (put_manager m s,
           if map_of result ''error'' \<noteq> None
           then failure ids None False [(''process_id'', JStr pid)]
             (if py_contains ''not found'' (error_text_of_reply env result) then ''PROCESS_NOT_FOUND'' else ''PTY_NOT_ACTIVE'') (error_text_of_reply env result)
           else success ids None False None result))"

end
