(* ===== verification/Workspace_Safety.thy ===== *)
theory Workspace_Safety
  imports Workspace_Manager Process_Safety Change_Set_Safety Plan_Safety
begin

text \<open>What creating, discarding and deleting workspaces guarantee, across the tables of all components.\<close>

subsection \<open>The transaction of \<open>delete_workspace\<close>\<close>

text \<open>The specification: every table without the rows of the workspace.\<close>

definition rows_without :: "string \<Rightarrow> site \<Rightarrow> site" where
  "rows_without ws s = s\<lparr>
     st_plans := (st_plans s)\<lparr>pd_workspaces := filter (\<lambda>k. k \<noteq> ws) (pd_workspaces (st_plans s)), pd_plans := without_key ws (pd_plans (st_plans s)),
       pd_steps := filter (\<lambda>r. sr_plan_id r \<notin> set (plan_ids ws s)) (pd_steps (st_plans s))\<rparr>,
     st_artifacts := filter (\<lambda>r. ar_workspace r \<noteq> ws) (st_artifacts s),
     st_manager := (st_manager s)\<lparr>pm_ops := filter (\<lambda>r. \<not> of_workspace ws (op_workspace r)) (pm_ops (st_manager s)),
       pm_db := (events_of s)\<lparr>ed_workspaces := filter (\<lambda>k. k \<noteq> ws) (ed_workspaces (events_of s)),
         ed_events := filter (\<lambda>r. \<not> of_workspace ws (ev_workspace r)) (ed_events (events_of s)),
         ed_watermarks := without_key ws (ed_watermarks (events_of s)),
         ed_processes := filter (\<lambda>e. pc_workspace (snd e) \<noteq> ws) (ed_processes (events_of s))\<rparr>\<rparr>,
     st_sets := (st_sets s)\<lparr>cw_workspaces := without_key ws (workspaces s), cw_sets := filter (\<lambda>e. cr_workspace (snd e) \<noteq> ws) (cw_sets (st_sets s)),
       cw_ops := filter (\<lambda>r. co_set r \<notin> set (set_ids ws s)) (cw_ops (st_sets s)),
       cw_files := filter (\<lambda>r. fst r \<notin> set (set_ids ws s)) (cw_files (st_sets s))\<rparr>\<rparr>"

lemmas statement_defs = delete_plan_steps_of_def delete_plan_of_def delete_artifacts_of_def delete_events_of_def delete_retention_of_def
  delete_processes_of_def delete_operations_of_def delete_set_operations_of_def delete_set_files_of_def delete_sets_of_def

lemmas site_defs = put_events_def put_sets_def events_of_def workspaces_def plan_ids_def set_ids_def

lemma list_ex_filter_not: "\<not> list_ex P (filter (\<lambda>x. \<not> P x) xs)" "\<not> list_ex (\<lambda>x. f x = y) (filter (\<lambda>x. f x \<noteq> y) xs)"
    "\<not> list_ex (\<lambda>x. f x \<in> A) (filter (\<lambda>x. f x \<notin> A) xs)"
  by (auto simp: list_ex_iff)

lemma no_key_left [simp]: "\<not> list_ex (\<lambda>e. fst e = ws) (without_key ws d)"
  by (auto simp: without_key_def list_ex_iff)

lemma delete_workspace_spec: "delete_workspace ws s = (rows_without ws s, Inr (ws \<in> fst ` set (workspaces s)))"
proof -
  have "run_statements (delete_statements ws) s = Inr (rows_without ws s)"
    by (simp add: delete_statements_def statement_defs delete_workspace_row_def refers_to_def drop_workspace_key_def rows_without_def site_defs
          list_ex_filter_not)
  then show ?thesis by (simp add: delete_workspace_def)
qed

text \<open>The foreign keys of the schema.\<close>

definition references_ok :: "site \<Rightarrow> bool" where
  "references_ok s \<longleftrightarrow>
     (let keys = fst ` set (workspaces s) in
      (\<forall>e \<in> set (pd_plans (st_plans s)). fst e \<in> keys) \<and>
      (\<forall>r \<in> set (pd_steps (st_plans s)). sr_plan_id r \<in> (pr_plan_id \<circ> snd) ` set (pd_plans (st_plans s))) \<and>
      (\<forall>r \<in> set (st_artifacts s). ar_workspace r \<in> keys) \<and>
      (\<forall>r \<in> set (ed_events (events_of s)). \<forall>w. ev_workspace r = Some w \<longrightarrow> w \<in> keys) \<and>
      (\<forall>e \<in> set (ed_processes (events_of s)). pc_workspace (snd e) \<in> keys) \<and>
      (\<forall>e \<in> set (cw_sets (st_sets s)). cr_workspace (snd e) \<in> keys) \<and>
      (\<forall>r \<in> set (cw_ops (st_sets s)). co_set r \<in> fst ` set (cw_sets (st_sets s))) \<and>
      (\<forall>r \<in> set (cw_files (st_sets s)). fst r \<in> fst ` set (cw_sets (st_sets s))))"

text \<open>Nothing in the tables names the workspace.\<close>

definition absent :: "string \<Rightarrow> site \<Rightarrow> bool" where
  "absent ws s \<longleftrightarrow> ws \<notin> fst ` set (workspaces s) \<and> ws \<notin> set (ed_workspaces (events_of s)) \<and> ws \<notin> set (pd_workspaces (st_plans s)) \<and>
     \<not> refers_to ws s \<and> ws \<notin> fst ` set (ed_watermarks (events_of s)) \<and> \<not> list_ex (\<lambda>r. of_workspace ws (op_workspace r)) (pm_ops (st_manager s))"

text \<open>What the tables hold of another workspace.\<close>

definition rows_of :: "string \<Rightarrow> site \<Rightarrow> workspace_row option \<times> plan_row option \<times> artifact_row list \<times> event_row list \<times> proc_row list \<times> operation_row list \<times> (string \<times> cs_row) list" where
  "rows_of ws s =
     (map_of (workspaces s) ws, map_of (pd_plans (st_plans s)) ws, filter (\<lambda>r. ar_workspace r = ws) (st_artifacts s),
      filter (\<lambda>r. of_workspace ws (ev_workspace r)) (ed_events (events_of s)),
      map snd (filter (\<lambda>e. pc_workspace (snd e) = ws) (ed_processes (events_of s))),
      filter (\<lambda>r. of_workspace ws (op_workspace r)) (pm_ops (st_manager s)), filter (\<lambda>e. cr_workspace (snd e) = ws) (cw_sets (st_sets s)))"

lemma keys_without_key: "fst ` set (without_key k d) = fst ` set d - {k}"
  by (auto simp: without_key_def)

lemma map_of_without_key: "map_of (without_key k d) j = (if j = k then None else map_of d j)"
  by (induction d) (auto simp: without_key_def)

lemma absent_without: "absent ws (rows_without ws s)"
  by (auto simp: absent_def refers_to_def rows_without_def site_defs keys_without_key list_ex_iff without_key_def)

lemma rows_of_other: "w \<noteq> ws \<Longrightarrow> rows_of w (rows_without ws s) = rows_of w s"
  by (auto simp: rows_of_def rows_without_def site_defs map_of_without_key of_workspace_def intro!: filter_cong arg_cong [where f = "map snd"])

lemma references_without:
  assumes "references_ok s"
  shows "references_ok (rows_without ws s)"
proof -
  have keys: "fst ` set (workspaces (rows_without ws s)) = fst ` set (workspaces s) - {ws}"
    by (auto simp: rows_without_def site_defs keys_without_key)
  have plans: "sr_plan_id r \<in> (pr_plan_id \<circ> snd) ` set (without_key ws (pd_plans (st_plans s)))"
    if r: "r \<in> set (pd_steps (st_plans s))" and not: "sr_plan_id r \<notin> set (plan_ids ws s)" for r
  proof -
    obtain e where e: "e \<in> set (pd_plans (st_plans s))" "sr_plan_id r = pr_plan_id (snd e)"
      using assms r by (auto simp: references_ok_def Let_def)
    then have "fst e \<noteq> ws" using not by (auto simp: plan_ids_def)
    then show ?thesis using e by (auto simp: without_key_def)
  qed
  have sets: "c \<in> fst ` set (filter (\<lambda>e. cr_workspace (snd e) \<noteq> ws) (cw_sets (st_sets s)))"
    if "c \<in> fst ` set (cw_sets (st_sets s))" "c \<notin> set (set_ids ws s)" for c
    using that by (force simp: set_ids_def)
  show ?thesis
    using assms plans sets unfolding references_ok_def Let_def keys
    by (auto simp: rows_without_def site_defs without_key_def of_workspace_def)
qed


subsection \<open>Discarding\<close>

lemma pending_basics [simp]: "pm_pending (set_object pid f s) = pm_pending s" "pm_pending (act a s) = pm_pending s" "pm_pending (on_db g s) = pm_pending s"
    "pm_pending (on_table h s) = pm_pending s"
  by (simp_all add: set_object_def act_def on_db_def on_table_def split: option.splits)

lemma pending_event [simp]: "pm_pending (pm_event cf os kind ws pid request payload s) = pm_pending s"
  by (simp add: pm_event_def)

lemma pending_runtime [simp]: "pm_pending (update_runtime pid p i h off j r s) = pm_pending s"
  by (simp add: update_runtime_def)

lemma pending_check [simp]: "pm_pending (check_completed cf os pid status request event s) = pm_pending s"
  by (cases "get_record s pid") (simp_all add: check_completed_def)

lemma pending_transition [simp]: "pm_pending (transition_record cf os pid status x s) = pm_pending s"
  unfolding transition_record_def Let_def by (simp split: prod.split sum.split)

lemma pending_outputs [simp]: "pm_pending (output_event cf os pid r stream previous current s) = pm_pending s"
    "pm_pending (emit_output_events cf os pid s) = pm_pending s"
  by (simp_all add: output_event_def emit_output_events_def Let_def split: option.split)

lemma pending_release [simp]: "pm_pending (release_slot os pid s) = pm_pending s"
  by (simp add: release_slot_def release_lease_def Let_def split: option.split prod.split)

lemma pending_pty [simp]: "pm_pending (cleanup_pty pid s) = pm_pending s"
  by (simp add: cleanup_pty_def Let_def split: option.split)

lemma pending_artifacts [simp]: "pm_pending (artifact_events cf os pid r seen as s) = pm_pending s"
    "pm_pending (register_process_artifacts cf os pid s) = pm_pending s"
proof -
  show events: "pm_pending (artifact_events cf os pid r seen as s) = pm_pending s" for r seen as s
    by (induction cf os pid r seen as s rule: artifact_events.induct) simp_all
  show "pm_pending (register_process_artifacts cf os pid s) = pm_pending s"
    by (simp add: register_process_artifacts_def events split: option.split)
qed

lemma pending_complete [simp]: "pm_pending (complete_process cf os pid status code recovery reason s) = pm_pending s"
  unfolding complete_process_def Let_def by simp

lemma pending_claim [simp]: "pm_pending (fst (claim_completion pid s)) = pm_pending s"
  by (simp add: claim_completion_def split: option.splits)

lemma pending_cancel [simp]: "pm_pending (fst (cancel cf os pid s)) = pm_pending s"
proof -
  have claim: "pm_pending (fst (cancel_begin pid s)) = pm_pending s"
  proof (cases "running_object s pid")
    case (Some r)
    then show ?thesis using pending_claim [of pid s]
      by (cases "claim_completion pid s") (auto simp: cancel_begin_def split: option.splits bool.splits)
  qed (simp add: cancel_begin_def split: option.splits)
  have "pm_pending (fst (finish_cancel cf os pid t)) = pm_pending t" for t by (simp add: finish_cancel_def Let_def)
  then show ?thesis using claim by (cases "cancel_begin pid s") (auto simp: cancel_def split: claimed.splits)
qed

lemma pending_cancel_all: "pm_pending (cancel_all_for_workspace cf os ws s) = pm_pending s"
proof -
  have "pm_pending (fold (\<lambda>pid s. fst (cancel cf os pid s)) pids s) = pm_pending s" for pids
    by (induction pids arbitrary: s) simp_all
  then show ?thesis by (simp add: cancel_all_for_workspace_def)
qed

lemma tree_steps [simp]: "workspaces (without_tree t s) = workspaces s" "st_manager (without_tree t s) = st_manager s" "t \<notin> set (st_trees (without_tree t s))"
    "workspaces (stop_processes env ws s) = workspaces s" "st_trees (stop_processes env ws s) = st_trees s"
  by (simp_all add: without_tree_def stop_processes_def put_sets_def workspaces_def)

lemma remove_worktree_keeps:
  assumes "remove_worktree env project tree s = (s', removed, err, forgotten)"
  shows "workspaces s' = workspaces s" "st_manager s' = st_manager s"
proof -
  have manual: "workspaces (fst (manual_removal env tree c t)) = workspaces t" "st_manager (fst (manual_removal env tree c t)) = st_manager t" for c t
    by (simp_all add: manual_removal_def split: option.split)
  have git: "workspaces (fst (git_removal env tree t)) = workspaces t" "st_manager (fst (git_removal env tree t)) = st_manager t" for t
    using manual by (simp_all add: git_removal_def Let_def)
  have forgets: "workspaces (t\<lparr>st_git := g\<rparr>) = workspaces t" for t :: site and g by (simp add: workspaces_def)
  have s': "s' = fst (remove_worktree env project tree s)" using assms by simp
  show "workspaces s' = workspaces s" "st_manager s' = st_manager s"
    using manual [of "[]" s] git [of s] forgets unfolding s' remove_worktree_def
    by (auto split: option.splits prod.splits)
qed

lemma remove_outputs_keeps:
  assumes "remove_outputs env ps s = (s', r)"
  shows "st_trees s' = st_trees s" "st_manager s' = st_manager s" "workspaces s' = workspaces s"
  using assms by (induction env ps s rule: remove_outputs.induct) (auto simp: workspaces_def split: if_splits)

lemma delete_records_result:
  assumes "delete_records env ws s = (s', Inr gone)"
  shows "absent ws s'" "gone" "st_trees s' = st_trees s" "pm_pending (st_manager s') = pm_pending (st_manager s)"
proof -
  obtain s1 where out: "remove_outputs env (outputs_to_delete (de_os env) (de_is_dir env) (de_processes env) ws (st_manager s)) s = (s1, Inr ())"
    using assms by (auto simp: delete_records_def split: prod.splits sum.splits)
  obtain w where "delete_terminal_data (de_change_sets env) ws (st_sets s1) = (w, Inr ())"
    using assms out by (auto simp: delete_records_def split: prod.splits sum.splits)
  then have "s' = rows_without ws (s1\<lparr>st_sets := w\<rparr>) \<and> gone = (map_of (workspaces s') ws = None)"
    using assms out by (auto simp: delete_records_def delete_workspace_spec)
  then have s': "s' = rows_without ws (s1\<lparr>st_sets := w\<rparr>)" "gone = (map_of (workspaces s') ws = None)" by blast+
  show ab: "absent ws s'" unfolding s'(1) by (rule absent_without)
  then show gone using s'(2) by (simp add: absent_def map_of_eq_None_iff)
  show "st_trees s' = st_trees s" "pm_pending (st_manager s') = pm_pending (st_manager s)"
    using remove_outputs_keeps [OF out] unfolding s'(1) by (simp_all add: rows_without_def)
qed

lemma discardable_none:
  assumes "assert_workspace_discardable ws w = (w', Inr u)" "e \<in> set (cw_sets w)" "cr_workspace (snd e) = ws"
  shows "cr_status (snd e) \<notin> set active_statuses"
  using assms by (cases e) (auto simp: assert_workspace_discardable_def find_None_iff split: option.splits)

text \<open>
  C6. Discarding is verified: a discard that answers refused no active change set.  When it reports the record as removed, the directory
  is gone, git no longer lists the worktree and no table names the workspace; otherwise the record is still there unchanged, the answer
  carries an error, and the directory or the registration is what is left.
\<close>
theorem discard_verified:
  assumes "discard_workspace env ws s = (s', Inr rep)"
  shows "\<exists>r. map_of (workspaces s) ws = Some r \<and>
    list_all (\<lambda>e. cr_workspace (snd e) \<noteq> ws \<or> cr_status (snd e) \<notin> set active_statuses) (cw_sets (st_sets s)) \<and>
    (if dr_record_removed rep
     then path_parts (ws_path r) \<notin> set (st_trees s') \<and> dr_registration_removed rep \<and> absent ws s'
     else map_of (workspaces s') ws = Some r \<and> dr_error rep \<noteq> None \<and>
       (path_parts (ws_path r) \<in> set (st_trees s') \<or> \<not> dr_registration_removed rep))"
proof -
  obtain r where r: "workspace_id_match ws" "map_of (workspaces s) ws = Some r"
    using assms by (auto simp: discard_workspace_def split: if_splits option.splits)
  obtain w0 where ok: "assert_workspace_discardable ws (st_sets s) = (w0, Inr ())"
    using assms r by (auto simp: discard_workspace_def split: prod.splits sum.splits cs_error.splits)
  let ?tree = "path_parts (ws_path r)"
  obtain s1 removed err forgotten where tree: "remove_worktree env (ws_project r) ?tree (stop_processes env ws s) = (s1, removed, err, forgotten)"
    by (cases "remove_worktree env (ws_project r) ?tree (stop_processes env ws s)")
  have kept: "workspaces s1 = workspaces s" using remove_worktree_keeps(1) [OF tree] by simp
  have none: "list_all (\<lambda>e. cr_workspace (snd e) \<noteq> ws \<or> cr_status (snd e) \<notin> set active_statuses) (cw_sets (st_sets s))"
    using discardable_none [OF ok] by (auto simp: list_all_iff)
  show ?thesis
  proof (cases "?tree \<notin> set (st_trees s1) \<and> forgotten")
    case True
    obtain gone where gone: "delete_records env ws s1 = (s', Inr gone)" "dr_record_removed rep = gone" "dr_registration_removed rep = forgotten"
      using assms r ok tree True by (auto simp: discard_workspace_def Let_def split: prod.splits sum.splits)
    show ?thesis using r none True gone delete_records_result [OF gone(1)] by auto
  next
    case False
    then have "s' = s1" "\<not> dr_record_removed rep" "dr_registration_removed rep = forgotten" "dr_error rep \<noteq> None"
      using assms r ok tree by (auto simp: discard_workspace_def Let_def split: option.splits)
    then show ?thesis using r none False kept by auto
  qed
qed

text \<open>A discard cancels only what runs: a start that waits for a slot keeps waiting, and goes on when its turn comes.\<close>

lemma discard_leaves_queue:
  assumes "discard_workspace env ws s = (s', Inr rep)"
  shows "pm_pending (st_manager s') = pm_pending (st_manager s)"
proof -
  obtain r where r: "workspace_id_match ws" "map_of (workspaces s) ws = Some r"
    using assms by (auto simp: discard_workspace_def split: if_splits option.splits)
  obtain w0 where ok: "assert_workspace_discardable ws (st_sets s) = (w0, Inr ())"
    using assms r by (auto simp: discard_workspace_def split: prod.splits sum.splits cs_error.splits)
  let ?tree = "path_parts (ws_path r)"
  obtain s1 removed err forgotten where tree: "remove_worktree env (ws_project r) ?tree (stop_processes env ws s) = (s1, removed, err, forgotten)"
    by (cases "remove_worktree env (ws_project r) ?tree (stop_processes env ws s)")
  have "pm_pending (st_manager s1) = pm_pending (st_manager s)"
    using remove_worktree_keeps(2) [OF tree] by (simp add: stop_processes_def pending_cancel_all)
  moreover have "pm_pending (st_manager s') = pm_pending (st_manager s1)"
  proof (cases "?tree \<notin> set (st_trees s1) \<and> forgotten")
    case True
    then obtain gone where "delete_records env ws s1 = (s', Inr gone)"
      using assms r ok tree by (auto simp: discard_workspace_def Let_def split: prod.splits sum.splits)
    then show ?thesis by (rule delete_records_result(4))
  next
    case False
    then show ?thesis using assms r ok tree by (auto simp: discard_workspace_def Let_def split: option.splits)
  qed
  ultimately show ?thesis by simp
qed

subsection \<open>Creating\<close>

definition same_tables :: "site \<Rightarrow> site \<Rightarrow> bool" where
  "same_tables s t \<longleftrightarrow> workspaces t = workspaces s \<and> st_manager t = st_manager s \<and> st_plans t = st_plans s \<and> st_artifacts t = st_artifacts s \<and>
     cw_sets (st_sets t) = cw_sets (st_sets s)"

lemma create_checks_Inr:
  assumes "create_checks env project task s = Inr (repo, tree, wid, safe)"
  shows "\<exists>base limit. cn_project env project = Some (repo, base) \<and> ensure_safe_task_name task = Inr safe \<and>
      py_int (jget (cn_section env) ''max_active_per_project'' (JInt 8)) = Inr limit \<and> int (active_count project (workspaces s)) < limit \<and>
      cn_is_repo env repo \<and> wid = ''ws-'' @ cn_token env \<and> tree = base @ [worktree_dir_name wid safe] \<and> tree \<notin> set (st_trees s)"
  using assms by (auto simp: create_checks_def Let_def worktree_path_for_def not_le split: option.splits prod.splits sum.splits if_splits)

lemma add_workspace_Inr:
  assumes "add_workspace now wid nw s = Inr (s', row)"
  shows "wid \<notin> fst ` set (workspaces s)" "row = new_row now nw" "workspaces s' = AList.update wid row (workspaces s)"
    "ed_workspaces (events_of s') = ed_workspaces (events_of s) @ [wid]" "pd_workspaces (st_plans s') = pd_workspaces (st_plans s) @ [wid]"
    "st_trees s' = st_trees s"
  using assms by (auto simp: add_workspace_def insert_workspace_def obind_Inr_iff put_events_def put_sets_def workspaces_def events_of_def Let_def
      update_conv' split: if_splits option.splits)

text \<open>
  C8. Creating a workspace: success means that fewer workspaces than the limit were active, and that the new worktree below the project's
  root is on disk with a fresh active record of revision 1 which every component sees.  A failure before the record is written leaves the
  tables as they were; but when \<open>git worktree add\<close> had succeeded before it, the worktree stays on disk and registered without a record.
  Only a \<open>package.json\<close> that is not UTF-8 makes the call fail after the record is written.
\<close>
theorem create_workspace_outcome:
  assumes "create_workspace env project task s = (s', result)"
  shows "case result of
      Inr (_, wid, row) \<Rightarrow>
        wid \<notin> fst ` set (workspaces s) \<and> map_of (workspaces s') wid = Some row \<and> ws_status row = ''active'' \<and> ws_revision row = 1 \<and>
        wid \<in> set (ed_workspaces (events_of s')) \<and> wid \<in> set (pd_workspaces (st_plans s')) \<and>
        (\<exists>limit repo base. py_int (jget (cn_section env) ''max_active_per_project'' (JInt 8)) = Inr limit \<and> int (active_count project (workspaces s)) < limit \<and>
          cn_project env project = Some (repo, base) \<and> base @ [worktree_dir_name wid (ws_task row)] \<in> set (st_trees s') - set (st_trees s))
    | Inl e \<Rightarrow>
        (same_tables s s' \<and>
          (st_git s' = st_git s \<or> ge_code (cn_add env) = 0 \<and> (\<exists>tree. st_git s' = tree # st_git s \<and> st_trees s' = tree # st_trees s))) \<or>
        (rv_package (cn_view env) = Package_not_utf8 \<and> (\<exists>wid row. map_of (workspaces s') wid = Some row \<and> map_of (workspaces s) wid = None))"
proof (cases "create_checks env project task s")
  case (Inl e)
  then show ?thesis using assms by (auto simp: create_workspace_def same_tables_def)
next
  case (Inr c)
  obtain repo tree wid safe where c: "c = (repo, tree, wid, safe)" by (cases c)
  have checks: "create_checks env project task s = Inr (repo, tree, wid, safe)" using Inr c by simp
  let ?s1 = "put_sets (\<lambda>w. w\<lparr>cw_disk := cn_checkout env (cw_disk w)\<rparr>) (s\<lparr>st_trees := tree # st_trees s, st_git := tree # st_git s\<rparr>)"
  have s1: "same_tables s ?s1" "st_trees ?s1 = tree # st_trees s" "st_git ?s1 = tree # st_git s" "workspaces ?s1 = workspaces s"
    by (simp_all add: same_tables_def put_sets_def workspaces_def)
  have fail: "same_tables s (failed_add env tree s)" "st_git (failed_add env tree s) = st_git s"
    by (simp_all add: failed_add_def same_tables_def workspaces_def)
  let ?nw = "\<lparr>nw_project = project, nw_task = safe, nw_path = path_text tree, nw_base = py_strip (ge_out (cn_rev env)),
                 nw_main_head = Some (py_strip (ge_out (cn_head env))), nw_main_sha = Some (cn_sha env (ge_out (cn_status env)))\<rparr>"
  consider "\<not> cn_mkdir env" | "cn_mkdir env" "ge_code (cn_add env) \<noteq> 0" | "cn_mkdir env" "ge_code (cn_add env) = 0" "ge_code (cn_rev env) \<noteq> 0"
    | "cn_mkdir env" "ge_code (cn_add env) = 0" "ge_code (cn_rev env) = 0" by blast
  then show ?thesis
  proof cases
    case 4
    show ?thesis
    proof (cases "add_workspace (cn_now env) wid ?nw ?s1")
      case (Inl e)
      then show ?thesis using assms checks 4 s1 by (auto simp: create_workspace_def Let_def)
    next
      case (Inr p)
      obtain s2 row where p: "p = (s2, row)" by (cases p)
      note a = add_workspace_Inr [OF Inr [unfolded p]]
      show ?thesis
      proof (cases "discover_project_manifest (cn_view env)")
        case (Inl e)
        have r: "s' = s2" "result = Inl (Create_value e)" using assms checks 4 Inr p Inl by (simp_all add: create_workspace_def Let_def)
        have "rv_package (cn_view env) = Package_not_utf8"
          using Inl by (auto simp: discover_project_manifest_def scan_package_json_def Let_def split: if_splits package_json.splits sum.splits)
        moreover have "map_of (workspaces s2) wid = Some row \<and> map_of (workspaces s) wid = None"
          using a s1(4) by (auto simp: update_conv' map_of_eq_None_iff)
        ultimately show ?thesis using r by auto
      next
        case (Inr m)
        have r: "s' = s2" "result = Inr (m, wid, row)"
          using assms checks 4 \<open>add_workspace (cn_now env) wid ?nw ?s1 = Inr p\<close> p Inr by (simp_all add: create_workspace_def Let_def)
        show ?thesis using r a s1 create_checks_Inr [OF checks] by (auto simp: new_row_def update_conv')
      qed
    qed
  qed (use assms checks s1 fail in \<open>auto simp: create_workspace_def Let_def same_tables_def\<close>)
qed

subsection \<open>A concrete site\<close>

definition demo_id :: string where
  "demo_id = ''ws-0000000a''"

definition demo_artifact :: artifact_row where
  "demo_artifact = \<lparr>ar_id = ''a'', ar_workspace = demo_id, ar_kind = ''text'', ar_path = ''f'', ar_mime = None, ar_size = 1, ar_sha = None,
     ar_source = None, ar_process = None, ar_created = ''t'', ar_metadata = None\<rparr>"

definition demo_site :: site where
  "demo_site = \<lparr>st_manager = demo_start\<lparr>pm_db := demo_db\<lparr>ed_workspaces := [demo_id]\<rparr>\<rparr>,
     st_sets = \<lparr>cw_disk = [], cw_dirs = [], cw_docs = [], cw_sets = [], cw_ops = [], cw_files = [],
       cw_workspaces = [(demo_id, new_row ''t'' \<lparr>nw_project = ''p'', nw_task = ''t'', nw_path = ''/r/a'', nw_base = ''b'', nw_main_head = None, nw_main_sha = None\<rparr>)]\<rparr>,
     st_plans = \<lparr>pd_workspaces = [demo_id], pd_plans = [], pd_steps = [], pd_audit = []\<rparr>, st_artifacts = [demo_artifact],
     st_trees = [[''r'', ''a'']], st_git = [[''r'', ''a'']], st_outputs = []\<rparr>"

definition demo_git :: "int \<Rightarrow> git_exit" where
  "demo_git code = \<lparr>ge_code = code, ge_out = ''head'', ge_err = []\<rparr>"

definition demo_create :: "int \<Rightarrow> create_env" where
  "demo_create code = \<lparr>cn_project = (\<lambda>_. Some ([''repo''], [''r''])), cn_section = [(''max_active_per_project'', JInt 2)], cn_is_repo = (\<lambda>_. True),
     cn_head = demo_git 0, cn_status = demo_git 0, cn_token = ''0000000b'', cn_mkdir = True, cn_add = demo_git 0, cn_left = Left_nothing,
     cn_rmdir = True, cn_checkout = (\<lambda>d. d), cn_rev = demo_git code,
     cn_view = \<lparr>rv_head = demo_git 0, rv_is_file = (\<lambda>f. f = ''Makefile''), rv_read = (\<lambda>_. None), rv_package = Package_valid, rv_sln = [], rv_csproj = [],
       rv_py = []\<rparr>, cn_sha = (\<lambda>t. t), cn_now = ''u''\<rparr>"

definition demo_discard :: discard_env where
  "demo_discard = \<lparr>de_project = (\<lambda>_. None), de_is_repo = (\<lambda>_. True), de_resolve = (\<lambda>p. p), de_remove = demo_git 0, de_gone = True,
     de_rmtree = None, de_forgets = True, de_list = [], de_config = demo_config, de_os = demo_os 0, de_is_dir = (\<lambda>_. False), de_processes = [''out''],
     de_rm_output = (\<lambda>_. True), de_change_sets = demo_env\<rparr>"


theorem discard_verified_witness:
  "case snd (discard_workspace demo_discard demo_id demo_site) of
     Inl _ \<Rightarrow> False
   | Inr rep \<Rightarrow> dr_record_removed rep \<and> absent demo_id (fst (discard_workspace demo_discard demo_id demo_site))"
proof -
  have "case snd (discard_workspace demo_discard demo_id demo_site) of Inl _ \<Rightarrow> False | Inr rep \<Rightarrow> dr_record_removed rep" by code_simp
  then obtain rep where rep: "discard_workspace demo_discard demo_id demo_site = (fst (discard_workspace demo_discard demo_id demo_site), Inr rep)"
      "dr_record_removed rep"
    by (metis (no_types, lifting) old.sum.exhaust old.sum.simps(5) old.sum.simps(6) prod.collapse)
  from discard_verified [OF rep(1)] rep show ?thesis by (metis old.sum.simps(6) snd_conv)
qed

abbreviation demo_created :: "int \<Rightarrow> site \<times> (create_error + manifest \<times> string \<times> workspace_row)" where
  "demo_created code \<equiv> create_workspace (demo_create code) ''p'' ''new task'' demo_site"

lemma demo_created_values:
  "case snd (demo_created 0) of Inr (_, wid, _) \<Rightarrow> wid = ''ws-0000000b'' | Inl _ \<Rightarrow> False"
  "\<not> is_ok (snd (demo_created 1))" "st_git (fst (demo_created 1)) = [''r'', ''ws-0000000b-new-task''] # st_git demo_site"
  by code_simp+

theorem create_workspace_outcome_witness:
  "(case snd (demo_created 0) of
      Inr (_, wid, row) \<Rightarrow> wid = ''ws-0000000b'' \<and> ws_status row = ''active'' \<and> map_of (workspaces (fst (demo_created 0))) wid = Some row
    | Inl _ \<Rightarrow> False) \<and>
   workspaces (fst (demo_created 1)) = workspaces demo_site \<and> st_git (fst (demo_created 1)) = [''r'', ''ws-0000000b-new-task''] # st_git demo_site"
proof -
  have pair: "create_workspace (demo_create code) ''p'' ''new task'' demo_site = (fst (demo_created code), snd (demo_created code))" for code by simp
  note outcome = create_workspace_outcome [OF pair]
  have "workspaces (fst (demo_created 1)) = workspaces demo_site"
  proof (cases "snd (demo_created 1)")
    case (Inl e)
    have "rv_package (cn_view (demo_create 1)) = Package_valid" by (simp add: demo_create_def)
    then show ?thesis using outcome [of 1] Inl by (simp add: same_tables_def)
  qed (use demo_created_values(2) in \<open>simp add: is_ok_def\<close>)
  moreover have "case snd (demo_created 0) of
      Inr (_, wid, row) \<Rightarrow> wid = ''ws-0000000b'' \<and> ws_status row = ''active'' \<and> map_of (workspaces (fst (demo_created 0))) wid = Some row | Inl _ \<Rightarrow> False"
    using outcome [of 0] demo_created_values(1) by (cases "snd (demo_created 0)") auto
  ultimately show ?thesis using demo_created_values(3) by blast
qed

end
