(* ===== verification/Process_Tools_Safety.thy ===== *)
theory Process_Tools_Safety
  imports Process_Tools Process_Recovery Workspace_Safety
begin

text \<open>
  Facts about the process tools: what they start is confined to the worktree, a run that waits does not leave its process unattended, and
  what a caller is told about a launch that failed.
\<close>

subsection \<open>What may be started\<close>

definition directory_checked :: "run_env \<Rightarrow> os_view \<Rightarrow> path \<Rightarrow> string option \<Rightarrow> bool" where
  "directory_checked env os worktree d \<longleftrightarrow>
     (case d of None \<Rightarrow> True | Some d \<Rightarrow>
        \<exists>p. d = path_text p \<and> prefix (os_resolve os worktree) p \<and> \<not> is_denied (os_resolve os) (rn_deny env) p (Some worktree))"

definition plan_checked :: "run_env \<Rightarrow> os_view \<Rightarrow> string \<Rightarrow> site \<Rightarrow> run_plan \<Rightarrow> bool" where
  "plan_checked env os ws s plan \<longleftrightarrow>
     (\<exists>r. map_of (workspaces s) ws = Some r \<and> rl_worktree plan = path_parts (ws_path r) \<and> os_exists os (rl_worktree plan)) \<and>
     sp_workspace (rl_call plan) = ws \<and> sp_worktree (rl_call plan) = rl_worktree plan \<and>
     directory_checked env os (rl_worktree plan) (sp_directory (rl_call plan))"

lemma site_workspace_row:
  "site_workspace now ws s = (s1, Some r) \<Longrightarrow> map_of (workspaces s) ws = Some r \<and> st_manager s1 = st_manager s"
  by (auto simp: site_workspace_def put_sets_def dest: get_workspace_row split: prod.splits)

lemma site_workspace_manager: "site_workspace now ws s = (s1, r) \<Longrightarrow> st_manager s1 = st_manager s"
  by (auto simp: site_workspace_def put_sets_def split: prod.splits)

lemma open_tree_row:
  "open_tree os ids ws s = (s1, Inr r) \<Longrightarrow> map_of (workspaces s) ws = Some r \<and> os_exists os (path_parts (ws_path r)) \<and> st_manager s1 = st_manager s"
  by (auto simp: open_tree_def dest: site_workspace_row split: prod.splits option.splits if_splits)

lemma open_tree_manager: "open_tree os ids ws s = (s1, e) \<Longrightarrow> st_manager s1 = st_manager s"
  by (auto simp: open_tree_def dest: site_workspace_manager split: prod.splits option.splits if_splits)

lemma chosen_directory_inside: "chosen_directory env os worktree wd = Inr d \<Longrightarrow> directory_checked env os worktree d"
  using resolve_within_inside [of "os_resolve os" "os_exists os" worktree wd False]
  by (auto simp: chosen_directory_def directory_checked_def split: if_splits sum.splits)

lemma no_directory: "directory_checked env os worktree None"
  by (simp add: directory_checked_def)

lemma map_sum_Inr [simp]: "map_sum f id r = Inr x \<longleftrightarrow> r = Inr x"
  by (cases r) simp_all

lemma raising_Inr [simp]: "raising r = Inr x \<longleftrightarrow> r = Inr x"
  by (simp add: raising_def)

lemma run_pwsh_checked: "run_pwsh env os ids ws script wd t wait s = (s1, Inr plan) \<Longrightarrow> plan_checked env os ws s plan \<and> st_manager s1 = st_manager s"
  unfolding run_pwsh_def Let_def
  by (auto simp: obind_Inr_iff plan_checked_def pwsh_call_def dest!: open_tree_row chosen_directory_inside split: prod.splits sum.splits if_splits)

lemma run_check_checked: "run_check env os ids ws cid wait s = (s1, Inr plan) \<Longrightarrow> plan_checked env os ws s plan \<and> st_manager s1 = st_manager s"
  unfolding run_check_def Let_def
  by (auto simp: obind_Inr_iff plan_checked_def pwsh_call_def no_directory dest!: open_tree_row split: prod.splits sum.splits if_splits option.splits)

lemma run_command_checked:
  "run_command env os ids ws command shell wd tty wait t columns rows s = (s1, Inr plan) \<Longrightarrow> plan_checked env os ws s plan \<and> st_manager s1 = st_manager s"
  unfolding run_command_def Let_def command_fail_def
  by (auto simp: plan_checked_def pwsh_call_def dest!: open_tree_row chosen_directory_inside split: prod.splits sum.splits if_splits)

text \<open>The directory of an admitted spawn request.\<close>

lemma settle_admitted: "settle_acquire cf os q c r s = (m, Spawn_admitted i q') \<Longrightarrow> q' = q"
  by (auto simp: settle_acquire_def refuse_slot_def Let_def split: acquire_result.splits)

lemma acquire_admitted: "acquire_lease cf os start write prio q s = (m, Spawn_admitted i q') \<Longrightarrow> q' = q"
  by (auto simp: acquire_lease_def refuse_slot_def dest: settle_admitted split: if_splits sum.splits prod.splits)

lemma resolve_cwd_inside: "resolve_cwd os worktree wd = Inr p \<Longrightarrow> p = worktree \<or> prefix (os_resolve os worktree) p"
  by (auto simp: resolve_cwd_def Let_def split: option.splits if_splits)

lemma spawn_admitted:
  assumes "spawn_begin cf os dir start c s = (m, Spawn_admitted i q)"
  shows "sq_workspace q = sp_workspace c" "sq_directory q = sp_worktree c \<or> prefix (os_resolve os (sp_worktree c)) (sq_directory q)"
    "sq_timeout q \<le> mc_max_timeout cf"
  using assms
  by (auto simp: spawn_begin_def Let_def chosen_timeout_def dest!: acquire_admitted resolve_cwd_inside split: if_splits sum.splits option.splits)

text \<open>
  C28. A process that \<open>run_pwsh\<close>, \<open>run_check\<close> or \<open>run_command\<close> gets a slot for belongs to a registered workspace whose worktree exists; it
  starts in that worktree or in a directory inside it that the deny list does not name, and its time limit is at most the configured one.
  The checks of the tool themselves do not touch the process manager.
\<close>
theorem run_confined:
  assumes "run_pwsh env os ids ws script wd t wait s = (s1, Inr plan) \<or> run_check env os ids ws cid wait s = (s1, Inr plan) \<or>
      run_command env os ids ws command shell wd tty wait t columns rows s = (s1, Inr plan)"
    and "spawn_begin (rn_config env) os (rn_processes env) start (rl_call plan) (st_manager s1) = (m, Spawn_admitted i q)"
  shows "st_manager s1 = st_manager s \<and> sq_workspace q = ws \<and> sq_timeout q \<le> mc_max_timeout (rn_config env) \<and>
    (\<exists>r. map_of (workspaces s) ws = Some r \<and> os_exists os (path_parts (ws_path r)) \<and>
      directory_checked env os (path_parts (ws_path r)) (sp_directory (rl_call plan)) \<and>
      (sq_directory q = path_parts (ws_path r) \<or> prefix (os_resolve os (path_parts (ws_path r))) (sq_directory q)))"
proof -
  have "plan_checked env os ws s plan \<and> st_manager s1 = st_manager s"
    using assms(1) by (elim disjE) (erule run_pwsh_checked run_check_checked run_command_checked)+
  then show ?thesis using spawn_admitted [OF assms(2)] by (auto simp: plan_checked_def)
qed

subsection \<open>A run that waits\<close>

text \<open>A process runs unattended when it is in the table and nobody has claimed its completion.\<close>

definition unattended :: "manager \<Rightarrow> string \<Rightarrow> bool" where
  "unattended m pid \<longleftrightarrow> pid \<in> set (pm_running m) \<and> claimable m pid"

lemma unattended_frame: "frame m' = frame m \<Longrightarrow> unattended m' pid = unattended m pid"
  using unclaimable_frame [of m' m pid] frameD(2) [of m' m] by (auto simp: unattended_def)

lemma cancel_attended:
  assumes "process_id_match pid"
  shows "\<not> unattended (fst (cancel cf os pid m)) pid"
proof (cases "running_object m pid")
  case None
  then have "fst (cancel cf os pid m) = m" using assms by (auto simp: cancel_def cancel_begin_def split: option.splits)
  then show ?thesis using None by (auto simp: unattended_def running_object_def claimable_def split: if_splits option.splits)
next
  case (Some r)
  obtain m1 b where c: "claim_completion pid m = (m1, b)" by fastforce
  note un = claimed_unclaimable [OF c]
  show ?thesis
  proof (cases b)
    case True
    have "fst (finish_cancel cf os pid m1) \<in> completions cf os pid m1" by (auto simp: completions_def)
    from completed_unclaimable [OF completions_completed [OF this] un] show ?thesis
      using c True assms Some by (simp add: cancel_def cancel_begin_def unattended_def)
  next
    case False
    then show ?thesis using c un assms Some by (simp add: cancel_def cancel_begin_def unattended_def)
  qed
qed

lemma check_exit_attended: "\<not> unattended m pid \<Longrightarrow> \<not> unattended (if pid \<in> set (pm_running m) then check_exit cf os pid m else m) pid"
  using finalize_unclaimable [of cf os pid _ m] by (auto simp: check_exit_def unattended_def split: option.splits)

lemma get_result_attended:
  "\<not> unattended m pid \<Longrightarrow> \<not> unattended (fst (get_result cf os text artifacts pid tail m)) pid"
  using check_exit_attended [of m pid cf os] by (auto simp: get_result_def Let_def split: option.splits)

definition reply_status :: "json \<Rightarrow> json" where
  "reply_status j = env_field ''status'' (env_field ''result'' j)"

lemma success_fields [simp]:
  "env_ok (success ids ws short cursor result)" "env_field ''result'' (success ids ws short cursor result) = JObj result"
  by (simp_all add: success_def)

lemma failure_not_ok [simp]: "\<not> env_ok (failure ids ws again extra code message)"
  by (simp add: failure_def)

lemma status_update: "k \<noteq> ''status'' \<Longrightarrow> jget (AList.update k v d) ''status'' JNull = jget d ''status'' JNull"
  by (simp add: jget_def dict_get_def map_of_update_iff)

lemma audit_frame: "frame (st_manager (site_audit name ids ws summary code s)) = frame (st_manager s)"
  by (simp add: site_audit_def put_manager_def frame_def slot_part_def holdings_def pids_def get_record_def fun_eq_iff)

lemma finish_run_answer:
  "\<exists>j. snd (finish_run env os plan ids pid result s) = Run_answer j \<and> env_ok j \<and>
    (jget result ''status'' JNull \<in> set (map JStr terminal_process_statuses) \<longrightarrow> reply_status j = jget result ''status'' JNull)"
  unfolding finish_run_def Let_def reply_status_def
  by (auto simp del: env_field.simps simp: env_field.simps(1) status_update split: run_tool.splits prod.splits if_splits)

text \<open>
  C29. A tool call that waits for its process always answers, and never while the process is still running unattended: either the answer
  carries a terminal status, or the process has left the table or its completion has been claimed, by the cancellation of this call or by
  another path that is handling it.
\<close>
theorem waiting_run_attended:
  assumes "process_id_match pid" "run_woken env os plan ids pid s = (s', p)"
  shows "\<exists>j. p = Run_answer j \<and> env_ok j \<and> (reply_status j \<in> set (map JStr terminal_process_statuses) \<or> \<not> unattended (st_manager s') pid)"
proof -
  obtain m result where g: "get_result (rn_config env) os (rn_text env) (rn_artifacts env) pid None (st_manager s) = (m, result)" by fastforce
  then have r: "finish_run env os plan ids pid result (put_manager m s) = (s', p)" using assms(2) by (simp add: run_woken_def)
  from finish_run_answer [of env os plan ids pid result "put_manager m s"] obtain j where
    j: "p = Run_answer j" "env_ok j"
      "jget result ''status'' JNull \<in> set (map JStr terminal_process_statuses) \<longrightarrow> reply_status j = jget result ''status'' JNull"
    unfolding r by auto
  show ?thesis
  proof (cases "jget result ''status'' JNull \<in> set (map JStr terminal_process_statuses)")
    case False
    let ?m = "fst (get_result (rn_config env) os (rn_text env) (rn_artifacts env) pid None (fst (cancel (rn_config env) os pid m)))"
    have "frame (st_manager s') = frame ?m"
      using r False audit_frame unfolding finish_run_def Let_def
      by (auto simp: put_manager_def split: run_tool.splits prod.splits)
    moreover have "\<not> unattended ?m pid" by (intro get_result_attended cancel_attended assms(1))
    ultimately show ?thesis using j unattended_frame by blast
  qed (use j in simp)
qed

subsection \<open>A launch that fails\<close>

lemma refusal_fields:
  assumes "launch_refusal q l = Some (reason, result)"
  shows "map_of result ''error'' \<noteq> None" "l \<noteq> Pty_unavailable \<Longrightarrow> map_of result ''process_id'' = Some (JStr (sq_process q))"
  using assms by (auto simp: launch_refusal_def Let_def split: launch.splits)

lemma refused_launch:
  assumes "launch_refusal q l = Some (reason, result)" "row_of m (sq_process q) = Some r" "incomplete r"
  shows "\<exists>m1. launch_process cf os i q l m = (m1, result) \<and> Process_Recovery.status_of m1 (sq_process q) = Some ''failed'' \<and> pm_running m1 = pm_running m"
proof -
  let ?t = "transition_record cf os (sq_process q) ''failed'' (exit_with (Some (- 1)) None reason None None) m"
  have "launch_process cf os i q l m = (release_lease os i ?t, result)"
    using assms(1) by (cases l) (simp_all add: launch_process_def launch_refusal_def)
  moreover have "pm_db (release_lease os i ?t) = pm_db ?t" "pm_running (release_lease os i ?t) = pm_running ?t"
    by (simp_all add: release_lease_def Let_def split: prod.split)
  moreover have "pm_running ?t = pm_running m" by (rule frameD(2)) (rule frame_transition)
  ultimately show ?thesis using row_transition(2) [OF assms(2,3)] by (simp add: Process_Recovery.status_of_def row_of_def)
qed

text \<open>
  C30. What a caller is told about a launch that failed, whose record then says \<open>failed\<close>.  \<open>run_command\<close> answers with an error.  \<open>run_pwsh\<close>
  and \<open>run_check\<close> do not look for the error that \<open>spawn\<close> returns: with \<open>wait\<close> they report the failure, but without it they answer that the
  process is running, although there is none.
\<close>
theorem failed_launch_answer:
  assumes "launch_refusal q l = Some (reason, result)" "l \<noteq> Pty_unavailable"
    and "row_of (st_manager s) (sq_process q) = Some r" "incomplete r" "sq_process q \<notin> set (pm_running (st_manager s))"
    and "\<forall>t. sp_timeout (rl_call plan) = Some t \<longrightarrow> 0 \<le> t"
    and "run_launched env os plan ids i q l s = (s', p)"
  shows "Process_Recovery.status_of (st_manager s') (sq_process q) = Some ''failed'' \<and>
    (\<exists>j. p = Run_answer j \<and>
      (case rl_tool plan of Tool_command _ _ \<Rightarrow> \<not> env_ok j
       | _ \<Rightarrow> env_ok j \<and> reply_status j = JStr (if rl_wait plan then ''failed'' else ''running'')))"
proof -
  obtain m1 where m1: "launch_process (rn_config env) os i q l (st_manager s) = (m1, result)" "Process_Recovery.status_of m1 (sq_process q) = Some ''failed''"
      "pm_running m1 = pm_running (st_manager s)"
    using refused_launch [OF assms(1,3,4)] by blast
  note f = refusal_fields(1) [OF assms(1)] refusal_fields(2) [OF assms(1,2)]
  have sp: "run_spawned env os plan ids result (put_manager m1 s) = (s', p)" using assms(7) m1(1) by (simp add: run_launched_def)
  have audit: "Process_Recovery.status_of (st_manager (site_audit name ids ws summary code s)) k = Process_Recovery.status_of (st_manager s) k" for name ids ws summary code s k
    by (simp add: site_audit_def put_manager_def Process_Recovery.status_of_def row_of_def)
  show ?thesis
  proof (cases "(case rl_tool plan of Tool_command _ _ \<Rightarrow> True | _ \<Rightarrow> False) \<or> \<not> rl_wait plan")
    case True
    then show ?thesis using sp f m1(2)
      by (auto simp: run_spawned_def run_fail_def command_fail_def Let_def run_accepted_def audit put_manager_def reply_status_def success_def
          split: run_tool.splits if_splits)
  next
    case False
    then have tool: "\<And>a b. rl_tool plan \<noteq> Tool_command a b" and w: "rl_wait plan" by (auto split: run_tool.splits)
    have row: "\<exists>r1. get_record m1 (sq_process q) = Some r1 \<and> pc_status r1 = ''failed''"
      using m1(2) by (auto simp: Process_Recovery.status_of_def row_of_def get_record_def)
    then obtain r1 where r1: "get_record m1 (sq_process q) = Some r1" "pc_status r1 = ''failed''" by blast
    define built where "built = build_result (rn_text env) (rn_artifacts env) (sq_process q) r1 (mc_max_output (rn_config env))"
    have b: "jget built ''status'' JNull = JStr ''failed''" by (simp add: built_def build_result_def Let_def r1(2) split: prod.split)
    have t: "\<not> real_of_int ((case sp_timeout (rl_call plan) of None \<Rightarrow> 0 | Some t \<Rightarrow> t) + 5) < 0" using assms(6) by (auto split: option.split)
    have g: "get_result (rn_config env) os (rn_text env) (rn_artifacts env) (sq_process q) None m1 = (m1, built)"
      using m1(3) assms(5) r1(1) by (simp add: get_result_def built_def)
    have "run_wait env os plan ids (sq_process q) (put_manager m1 s) = finish_run env os plan ids (sq_process q) built (put_manager m1 s)"
      using t r1 g unfolding run_wait_def wait_for_terminal_def Let_def by (simp add: put_manager_def terminal_process_statuses_def)
    then have rr: "finish_run env os plan ids (sq_process q) built (put_manager m1 s) = (s', p)"
      using sp f(2) w tool by (auto simp: run_spawned_def split: run_tool.splits)
    have "st_manager s' = m1" using rr b tool unfolding finish_run_def Let_def
      by (auto simp: put_manager_def terminal_process_statuses_def split: run_tool.splits)
    moreover have "\<exists>j. p = Run_answer j \<and> env_ok j \<and> reply_status j = JStr ''failed''"
      using finish_run_answer [of env os plan ids "sq_process q" built "put_manager m1 s"] rr b by (auto simp: terminal_process_statuses_def)
    ultimately show ?thesis using m1(2) w tool by (auto split: run_tool.splits)
  qed
qed

subsection \<open>Concrete runs\<close>

definition demo_run :: run_env where
  "demo_run = \<lparr>rn_config = demo_config, rn_deny = None, rn_project = (\<lambda>_. Inr (Some (JObj []))), rn_process = Inr [], rn_str = jstr,
     rn_text = (\<lambda>_. None), rn_artifacts = (\<lambda>_ _. JArr []), rn_git_status = (\<lambda>_. None), rn_git_porcelain = (\<lambda>_. Inr []),
     rn_error_text = (\<lambda>_. []), rn_page_size = 10, rn_processes = [''out'']\<rparr>"

definition demo_ids :: tool_ids where
  "demo_ids = \<lparr>ti_request = ''req'', ti_operation = ''op'', ti_now = ''u'', ti_ms = 1\<rparr>"

definition demo_disk_os :: os_view where
  "demo_disk_os = (demo_os 0)\<lparr>os_exists := \<lambda>_. True\<rparr>"

definition demo_prepared :: "site \<times> (run_stop + run_plan)" where
  "demo_prepared = run_pwsh demo_run demo_disk_os demo_ids demo_id ''ls'' ''sub'' 5 False demo_site"

definition demo_plan :: run_plan where
  "demo_plan = \<lparr>rl_tool = Tool_pwsh, rl_call = pwsh_call demo_id [''r'', ''a''] ''ls'' (Some ''/r/a/sub'') 5, rl_program = JStr ''pwsh.exe'',
     rl_env = None, rl_wait = False, rl_worktree = [''r'', ''a'']\<rparr>"

definition demo_spawned :: "manager \<times> spawn_progress" where
  "demo_spawned = spawn_begin demo_config demo_disk_os [''out''] 0 (rl_call demo_plan) (st_manager (fst demo_prepared))"

lemma demo_prepared_plan: "demo_prepared = (fst demo_prepared, Inr demo_plan)"
proof -
  have "(case snd demo_prepared of Inr plan \<Rightarrow> plan = demo_plan | Inl _ \<Rightarrow> False)" by code_simp
  then have "snd demo_prepared = Inr demo_plan" by (simp split: sum.splits)
  then show ?thesis by (metis prod.collapse)
qed

lemma demo_spawned_admitted: "\<exists>q. demo_spawned = (fst demo_spawned, Spawn_admitted 0 q) \<and> sq_directory q = [''r'', ''a'', ''sub'']"
proof -
  have "(case snd demo_spawned of Spawn_admitted i q \<Rightarrow> i = 0 \<and> sq_directory q = [''r'', ''a'', ''sub''] | _ \<Rightarrow> False)" by code_simp
  then obtain q where "snd demo_spawned = Spawn_admitted 0 q" "sq_directory q = [''r'', ''a'', ''sub'']" by (auto split: spawn_progress.splits)
  then show ?thesis by (metis prod.collapse)
qed

theorem run_confined_witness:
  "\<exists>q. snd demo_spawned = Spawn_admitted 0 q \<and> sq_directory q = [''r'', ''a'', ''sub''] \<and> sq_workspace q = demo_id \<and> sq_timeout q \<le> 3600"
proof -
  obtain q where q: "demo_spawned = (fst demo_spawned, Spawn_admitted 0 q)" "sq_directory q = [''r'', ''a'', ''sub'']"
    using demo_spawned_admitted by blast
  have "run_pwsh demo_run demo_disk_os demo_ids demo_id ''ls'' ''sub'' 5 False demo_site = (fst demo_prepared, Inr demo_plan)"
    using demo_prepared_plan by (simp add: demo_prepared_def)
  moreover have "spawn_begin (rn_config demo_run) demo_disk_os (rn_processes demo_run) 0 (rl_call demo_plan) (st_manager (fst demo_prepared))
      = (fst demo_spawned, Spawn_admitted 0 q)"
    using q(1) by (simp add: demo_spawned_def demo_run_def)
  ultimately have "sq_workspace q = demo_id \<and> sq_timeout q \<le> mc_max_timeout (rn_config demo_run)"
    using run_confined [OF disjI1, of demo_run demo_disk_os demo_ids demo_id "''ls''" "''sub''" 5 False demo_site "fst demo_prepared" demo_plan 0
        "fst demo_spawned" 0 q] by blast
  then show ?thesis using q by (metis demo_config_def demo_run_def manager_config.select_convs(5) run_env.select_convs(1) snd_conv)
qed

definition demo_busy_site :: site where
  "demo_busy_site = demo_site\<lparr>st_manager := my_state demo_running\<rparr>"

definition demo_woken :: "site \<times> run_progress" where
  "demo_woken = run_woken demo_run (demo_os 0) (demo_plan\<lparr>rl_wait := True\<rparr>) demo_ids ''pr-0000000a'' demo_busy_site"

theorem waiting_run_attended_witness:
  "unattended (st_manager demo_busy_site) ''pr-0000000a'' \<and> \<not> unattended (st_manager (fst demo_woken)) ''pr-0000000a'' \<and>
   (\<exists>j. snd demo_woken = Run_answer j \<and> env_ok j \<and> reply_status j = JStr ''cancelled'')"
proof -
  have id: "process_id_match ''pr-0000000a''" by code_simp
  have w: "run_woken demo_run (demo_os 0) (demo_plan\<lparr>rl_wait := True\<rparr>) demo_ids ''pr-0000000a'' demo_busy_site = (fst demo_woken, snd demo_woken)"
    by (simp add: demo_woken_def)
  have before: "unattended (st_manager demo_busy_site) ''pr-0000000a''" by code_simp
  have after: "\<not> unattended (st_manager (fst demo_woken)) ''pr-0000000a''" by code_simp
  have status: "case snd demo_woken of Run_answer j \<Rightarrow> reply_status j = JStr ''cancelled'' | _ \<Rightarrow> False" by code_simp
  show ?thesis using waiting_run_attended [OF id w] before after status by auto
qed

definition demo_waiting_row :: site where
  "demo_waiting_row = demo_site\<lparr>st_manager := demo_start\<lparr>pm_db := demo_db\<lparr>ed_processes := [(''pr-0000000a'', demo_proc\<lparr>pc_status := ''queued''\<rparr>)]\<rparr>\<rparr>\<rparr>"

definition demo_refused :: "site \<times> run_progress" where
  "demo_refused = run_launched demo_run (demo_os 0) demo_plan demo_ids 0 \<lparr>sq_process = ''pr-0000000a'', sq_workspace = demo_id, sq_script = ''ls'',
     sq_directory = [''r''], sq_timeout = 5, sq_tool = ''run_pwsh'', sq_request = None, sq_terminal = None, sq_outputs = [''out'']\<rparr>
     (Executable_missing ''pwsh.exe'') demo_waiting_row"

theorem failed_launch_answer_witness:
  "Process_Recovery.status_of (st_manager (fst demo_refused)) ''pr-0000000a'' = Some ''failed'' \<and>
   (\<exists>j. snd demo_refused = Run_answer j \<and> env_ok j \<and> reply_status j = JStr ''running'')"
proof -
  let ?q = "\<lparr>sq_process = ''pr-0000000a'', sq_workspace = demo_id, sq_script = ''ls'', sq_directory = [''r''], sq_timeout = 5, sq_tool = ''run_pwsh'',
     sq_request = None, sq_terminal = None, sq_outputs = [''out'']\<rparr>"
  have ref: "launch_refusal ?q (Executable_missing ''pwsh.exe'') = Some (''executable_not_found'',
      [(''error'', JStr ''pwsh executable not found: pwsh.exe''), (''process_id'', JStr ''pr-0000000a'')])"
    by (simp add: launch_refusal_def)
  have row: "row_of (st_manager demo_waiting_row) (sq_process ?q) = Some (demo_proc\<lparr>pc_status := ''queued''\<rparr>)"
    by (simp add: row_of_def demo_waiting_row_def)
  have inc: "incomplete (demo_proc\<lparr>pc_status := ''queued''\<rparr>)" by (simp add: incomplete_def)
  have idle: "sq_process ?q \<notin> set (pm_running (st_manager demo_waiting_row))" by (simp add: demo_waiting_row_def demo_start_def)
  have tm: "\<forall>t. sp_timeout (rl_call demo_plan) = Some t \<longrightarrow> 0 \<le> t" by (simp add: demo_plan_def pwsh_call_def)
  have run: "run_launched demo_run (demo_os 0) demo_plan demo_ids 0 ?q (Executable_missing ''pwsh.exe'') demo_waiting_row = (fst demo_refused, snd demo_refused)"
    by (simp add: demo_refused_def)
  show ?thesis using failed_launch_answer [OF ref _ row inc idle tm run] by (simp add: demo_plan_def)
qed

end
