(* ===== verification/Service_Tools.thy ===== *)
theory Service_Tools
  imports Process_Tools_Safety Change_Set_Commit
begin

text \<open>
  The event tools of \<open>app/tools/events.py\<close> and the change set tools of \<open>app/tools/change_sets.py\<close>.  Both work on the site together with
  the notifier of its event stream (\<open>event_system\<close> of which the database is the one of the site).  Every \<open>EventStore\<close> of a database
  shares one notifier; the constructor clears its shutdown flag.
\<close>

type_synonym service = "event_system \<times> site"

definition wired :: "service \<Rightarrow> event_system" where
  "wired v = (fst v)\<lparr>es_db := events_of (snd v)\<rparr>"

subsection \<open>Reading events\<close>

record event_limits =
  el_page :: nat
  el_waiters :: nat
  el_wait :: real

definition opt_nat :: "nat option \<Rightarrow> json" where
  "opt_nat v = (case v of None \<Rightarrow> JNull | Some n \<Rightarrow> JInt (int n))"

definition event_json :: "event_row \<Rightarrow> json" where
  "event_json r = JObj [(''event_id'', JInt (int (ev_id r))), (''request_id'', opt_str (ev_request r)), (''workspace_id'', opt_str (ev_workspace r)),
     (''process_id'', opt_str (ev_process r)), (''type'', JStr (ev_type r)), (''sequence'', opt_nat (ev_sequence r)),
     (''created_at'', JStr (ev_created_at r)), (''payload'', JObj (ev_payload r))]"

definition page_json :: "event_page \<Rightarrow> result_dict" where
  "page_json p =
     [(''events'', JArr (map event_json (ep_events p))), (''cursor'', JStr (ep_cursor p)), (''has_more'', JBool (ep_has_more p)),
      (''timed_out'', JBool (ep_timed_out p))] @ (if ep_shutdown p then [(''shutdown'', JBool True)] else [])"

datatype event_progress = Events_answer json | Events_blocked event_waiter | Events_raise event_error

definition event_answer :: "run_env \<Rightarrow> tool_ids \<Rightarrow> string \<Rightarrow> wait_outcome \<Rightarrow> event_progress" where
  "event_answer env ids ws r =
     (case r of
        Wait_page p \<Rightarrow> Events_answer (success ids (Some ws) False (if ep_has_more p then Some (ep_cursor p) else None) (page_json p))
      | Wait_block w \<Rightarrow> Events_blocked w
      | Wait_error e \<Rightarrow>
          (case e of
             Invalid_cursor \<Rightarrow> Events_answer (failure ids (Some ws) False [] ''INVALID_CURSOR'' (rn_error_text env e))
           | Cursor_expired c \<Rightarrow> Events_answer (failure ids (Some ws) True [(''recovery_cursor'', JStr c)] ''EVENT_CURSOR_EXPIRED'' (rn_error_text env e))
           | Wait_limit \<Rightarrow> Events_answer (failure ids (Some ws) True [] ''RATE_LIMITED'' (rn_error_text env e))
           | Ev_ValueError m \<Rightarrow> Events_answer (failure ids (Some ws) False [] ''INVALID_INPUT'' m)
           | _ \<Rightarrow> Events_raise e))"

record event_query =
  eq_cursor :: "string option"
  eq_process :: "string option"
  eq_types :: "string list option"
  eq_limit :: int
  eq_wait :: real
  eq_beginning :: bool

text \<open>\<open>_get_events\<close> up to where it answers or blocks; \<open>start\<close> and \<open>now\<close> are the two readings of the clock.\<close>

definition get_events ::
  "run_env \<Rightarrow> event_limits \<Rightarrow> tool_ids \<Rightarrow> real \<Rightarrow> real \<Rightarrow> string \<Rightarrow> event_query \<Rightarrow> service \<Rightarrow> service \<times> event_progress" where
  "get_events env bounds ids start now ws q v =
     (let fail = (\<lambda>extra code message. Events_answer (failure ids (Some ws) False extra code message)) in
      case site_workspace (ti_now ids) ws (snd v) of
        (s, None) \<Rightarrow> ((fst v, s), fail [] ''WORKSPACE_NOT_FOUND'' (''workspace not found: '' @ ws))
      | (s, Some _) \<Rightarrow>
          let refusal = (case eq_process q of
                None \<Rightarrow> None
              | Some pid \<Rightarrow>
                  (case get_record (st_manager s) pid of
                     None \<Rightarrow> Some (fail [(''process_id'', JStr pid)] ''PROCESS_NOT_FOUND'' (''process not found: '' @ pid))
                   | Some r \<Rightarrow>
                       if pc_workspace r \<noteq> ws
                       then Some (fail [(''process_id'', JStr pid)] ''PERMISSION_DENIED'' ''process does not belong to the requested workspace'')
                       else None))
          in (case refusal of
                Some a \<Rightarrow> ((fst v, s), a)
              | None \<Rightarrow>
                  if eq_limit q < 1 \<or> eq_wait q < 0
                  then ((fst v, s), fail [] ''INVALID_INPUT'' ''limit must be positive and wait_seconds must not be negative'')
                  else case wait_begin (el_page bounds) (el_waiters bounds) (el_wait bounds) (eq_wait q) start now
                      \<lparr>wa_workspace = ws, wa_process = eq_process q, wa_types = eq_types q, wa_limit = eq_limit q, wa_cursor = [], wa_deadline = 0,
                       wa_generation = 0\<rparr> (eq_cursor q) (eq_beginning q) (wired (fst v, s)) of
                    (y, r) \<Rightarrow> ((y, s), event_answer env ids ws r)))"

definition get_events_resume :: "run_env \<Rightarrow> event_limits \<Rightarrow> tool_ids \<Rightarrow> real \<Rightarrow> event_waiter \<Rightarrow> service \<Rightarrow> service \<times> event_progress" where
  "get_events_resume env bounds ids now w v =
     (case wait_resume (el_page bounds) now w (wired v) of (y, r) \<Rightarrow> ((y, snd v), event_answer env ids (wa_workspace w) r))"

definition subscribe_process ::
  "run_env \<Rightarrow> event_limits \<Rightarrow> tool_ids \<Rightarrow> real \<Rightarrow> real \<Rightarrow> string \<Rightarrow> event_query \<Rightarrow> service \<Rightarrow> service \<times> event_progress" where
  "subscribe_process env bounds ids start now pid q v =
     (case get_record (st_manager (snd v)) pid of
        None \<Rightarrow> (v, Events_answer (failure ids None False [(''process_id'', JStr pid)] ''PROCESS_NOT_FOUND'' (''process not found: '' @ pid)))
      | Some r \<Rightarrow> get_events env bounds ids start now (pc_workspace r) (q\<lparr>eq_process := Some pid\<rparr>) v)"

subsection \<open>Change set tools\<close>

record cs_tools =
  ct_env :: cs_env
  ct_ids :: tool_ids
  ct_now :: string
  ct_size_of :: "json \<Rightarrow> nat"
  ct_str :: "json \<Rightarrow> string"

text \<open>\<open>_emit\<close> builds a new store with the default limits; what its \<open>append\<close> raises is dropped.\<close>

definition emit_change_event :: "cs_tools \<Rightarrow> string \<Rightarrow> result_dict \<Rightarrow> result_dict \<Rightarrow> service \<Rightarrow> service" where
  "emit_change_event t kind result extra v =
     (if truthy (jget result ''idempotent_replay'' JNull) then v
      else let y = (wired v)\<lparr>es_shutting_down := False\<rparr> in
        case (map_of result ''workspace_id'', map_of result ''change_set_id'', jget result ''revision'' (JInt 0)) of
          (Some ws, Some csid, JInt n) \<Rightarrow>
            let y = publish (append_event (ct_size_of t) 16384 (ct_now t) kind None (Some (ct_str t ws)) None
                  (dict_merge [(''change_set_id'', JStr (ct_str t csid)), (''revision'', JInt n)] extra)) y
            in (y, put_events (\<lambda>_. es_db y) (snd v))
        | _ \<Rightarrow> (y, snd v))"

text \<open>\<open>_invoke\<close>: the answer with the result of the store or the code of its error; other exceptions leave the tool.\<close>

definition invoke_store :: "cs_tools \<Rightarrow> result_dict cs_step \<Rightarrow> site \<Rightarrow> site \<times> (string + json \<times> (string + result_dict))" where
  "invoke_store t action s =
     (case action (st_sets s) of
        (w, Inr result) \<Rightarrow>
          let ws = ct_str t (jget result ''workspace_id'' (JStr []))
          in (s\<lparr>st_sets := w\<rparr>, Inr (success (ct_ids t) (if ws = [] then None else Some ws) False None result, Inr result))
      | (w, Inl (Change_set_error code message details)) \<Rightarrow>
          let ws = jget details ''workspace_id'' JNull
          in (s\<lparr>st_sets := w\<rparr>,
              Inr (failure (ct_ids t) (if truthy ws then Some (ct_str t ws) else None) False (filter (\<lambda>e. fst e \<noteq> ''workspace_id'') details) code message,
                Inl code))
      | (w, Inl (Other_error e)) \<Rightarrow> (s\<lparr>st_sets := w\<rparr>, Inl e))"

definition changed_count :: "result_dict \<Rightarrow> string + int" where
  "changed_count result = (case map_of result ''changed_files'' of Some (JArr xs) \<Rightarrow> Inr (int (length xs)) | Some _ \<Rightarrow> Inl ''TypeError'' | None \<Rightarrow> Inl ''KeyError'')"

definition result_item :: "string \<Rightarrow> result_dict \<Rightarrow> string + json" where
  "result_item key result = (case map_of result key of None \<Rightarrow> Inl ''KeyError'' | Some v \<Rightarrow> Inr v)"

text \<open>A tool: the store, then one event that describes the outcome.\<close>

definition store_tool ::
  "cs_tools \<Rightarrow> result_dict cs_step \<Rightarrow> (string + result_dict \<Rightarrow> site \<Rightarrow> string + (string \<times> result_dict \<times> result_dict) option) \<Rightarrow> service
    \<Rightarrow> service \<times> (string + json)" where
  "store_tool t action event v =
     (case invoke_store t action (snd v) of
        (s, Inl e) \<Rightarrow> ((fst v, s), Inl e)
      | (s, Inr (j, outcome)) \<Rightarrow>
          (case event outcome s of
             Inl e \<Rightarrow> ((fst v, s), Inl e)
           | Inr None \<Rightarrow> ((fst v, s), Inr j)
           | Inr (Some (kind, result, extra)) \<Rightarrow> (emit_change_event t kind result extra (fst v, s), Inr j)))"

definition plain_event :: "string \<Rightarrow> string + result_dict \<Rightarrow> site \<Rightarrow> string + (string \<times> result_dict \<times> result_dict) option" where
  "plain_event kind r s = (case r of Inl _ \<Rightarrow> Inr None | Inr result \<Rightarrow> Inr (Some (kind, result, [])))"

definition begin_change_set :: "cs_tools \<Rightarrow> string \<Rightarrow> string \<Rightarrow> service \<Rightarrow> service \<times> (string + json)" where
  "begin_change_set t ws explanation = store_tool t (begin_set (ct_env t) ws explanation) (plain_event ''change_set.begun'')"

definition staged_event :: "string \<Rightarrow> string + result_dict \<Rightarrow> site \<Rightarrow> string + (string \<times> result_dict \<times> result_dict) option" where
  "staged_event typ r s =
     (case r of
        Inl _ \<Rightarrow> Inr None
      | Inr result \<Rightarrow>
          obind (changed_count result) (\<lambda>n. obind (result_item ''staged_digest'' result) (\<lambda>d.
            Inr (Some (''change_set.staged'', result, [(''operation_type'', JStr typ), (''file_count'', JInt n), (''staged_digest'', d)])))))"

definition stage_patch_tool ::
  "cs_tools \<Rightarrow> string \<Rightarrow> string \<Rightarrow> string \<Rightarrow> (string \<times> string) list option \<Rightarrow> string option \<Rightarrow> service \<Rightarrow> service \<times> (string + json)" where
  "stage_patch_tool t csid patch explanation expected operation_id =
     store_tool t (stage_patch (ct_env t) csid patch explanation expected operation_id) (staged_event ''patch'')"

definition stage_replace_tool ::
  "cs_tools \<Rightarrow> string \<Rightarrow> string \<Rightarrow> string \<Rightarrow> string \<Rightarrow> string \<Rightarrow> string option \<Rightarrow> bool \<Rightarrow> string option \<Rightarrow> service \<Rightarrow> service \<times> (string + json)" where
  "stage_replace_tool t csid p old_text new_text explanation expected replace_all operation_id =
     store_tool t (stage_replace (ct_env t) csid p old_text new_text explanation expected replace_all operation_id) (staged_event ''replace'')"

definition failed_event :: "string \<Rightarrow> string \<Rightarrow> int \<Rightarrow> string \<Rightarrow> site \<Rightarrow> (string \<times> result_dict \<times> result_dict) option" where
  "failed_event kind csid n code s =
     (case workspace_id_for csid (st_sets s) of
        None \<Rightarrow> None
      | Some ws \<Rightarrow>
          if ws = [] then None
          else Some (kind, [(''workspace_id'', JStr ws), (''change_set_id'', JStr csid), (''revision'', JInt n)], [(''error_code'', JStr code)]))"

definition validate_change_set :: "cs_tools \<Rightarrow> string \<Rightarrow> int \<Rightarrow> string \<Rightarrow> service \<Rightarrow> service \<times> (string + json)" where
  "validate_change_set t csid expected profile =
     store_tool t (validate_set (ct_env t) csid expected profile)
       (\<lambda>r s. case r of
          Inl code \<Rightarrow> Inr (failed_event ''change_set.validation_failed'' csid expected code s)
        | Inr result \<Rightarrow>
            obind (changed_count result) (\<lambda>n. obind (result_item ''validated_digest'' result) (\<lambda>d.
              Inr (Some (''change_set.validated'', result, [(''file_count'', JInt n), (''validated_digest'', d)])))))"

definition commit_change_set :: "cs_tools \<Rightarrow> string \<Rightarrow> string \<Rightarrow> string option \<Rightarrow> service \<Rightarrow> service \<times> (string + json)" where
  "commit_change_set t csid digest expected_tree =
     store_tool t (commit_set (ct_env t) csid digest expected_tree)
       (\<lambda>r s. case r of
          Inl code \<Rightarrow>
            Inr (if code = ''CHANGE_SET_RECOVERY_REQUIRED'' then failed_event ''change_set.recovery_required'' csid 0 code s else None)
        | Inr result \<Rightarrow>
            obind (changed_count result) (\<lambda>n. obind (result_item ''after_tree_hash'' result) (\<lambda>d.
              Inr (Some (''change_set.committed'', result, [(''file_count'', JInt n), (''after_tree_hash'', d)])))))"

definition rollback_change_set :: "cs_tools \<Rightarrow> string \<Rightarrow> service \<Rightarrow> service \<times> (string + json)" where
  "rollback_change_set t csid = store_tool t (rollback_set (ct_env t) csid) (plain_event ''change_set.rolled_back'')"

definition get_change_set :: "cs_tools \<Rightarrow> string \<Rightarrow> service \<Rightarrow> service \<times> (string + json)" where
  "get_change_set t csid = store_tool t (get_summary (ct_env t) csid) (\<lambda>_ _. Inr None)"

end
