(* ===== verification/Service_Safety.thy ===== *)
theory Service_Safety
  imports Service_Tools
begin

text \<open>
  Facts about the event tools and the change set tools: a reader sees the events of its own workspace and process only, and the event of
  an edit neither changes the edit nor its answer.
\<close>

subsection \<open>Reading events\<close>

definition in_scope :: "string \<Rightarrow> event_query \<Rightarrow> event_row \<Rightarrow> bool" where
  "in_scope ws q r \<longleftrightarrow> ev_workspace r = Some ws \<and> (\<forall>pid. eq_process q = Some pid \<longrightarrow> ev_process r = Some pid) \<and>
     (\<forall>ts. eq_types q = Some ts \<longrightarrow> ts \<noteq> [] \<longrightarrow> ev_type r \<in> set ts)"

lemma read_page_within: "read_page f db c n = (xs, c', again) \<Longrightarrow> set xs \<subseteq> set (matching_after f c db)"
  by (auto simp: read_page_def Let_def dest: in_set_takeD)

lemma list_after_in_scope:
  assumes "list_after n cursor ws (eq_process q) (eq_types q) k b db = Inr p" "r \<in> set (ep_events p)"
  shows "r \<in> set (ed_events db) \<and> in_scope ws q r"
proof -
  obtain ts after where ts: "validate_filters (eq_types q) = Inr ts"
    and r: "r \<in> set (matching_after \<lparr>ef_workspace = ws, ef_process = eq_process q, ef_types = ts\<rparr> after db)"
    using assms by (auto simp: list_after_def obind_Inr_iff Let_def dest!: read_page_within split: option.splits prod.splits)
  have sub: "ts \<noteq> [] \<and> set ts = set xs" if "eq_types q = Some xs" "xs \<noteq> []" for xs
    using ts that by (cases "set xs \<subseteq> set event_types") (auto simp: validate_filters_def)
  have "r \<in> set (ed_events db)" "matches \<lparr>ef_workspace = ws, ef_process = eq_process q, ef_types = ts\<rparr> r" using r by (simp_all add: matching_after_def)
  then show ?thesis using sub by (auto simp: matches_def in_scope_def)
qed

lemma wait_pass_page:
  assumes "wait_pass n now w y = Wait_page p"
  shows "\<exists>p'. waiter_page n w (es_db y) = Inr p' \<and> ep_events p = ep_events p'"
  using assms by (auto simp: wait_pass_def split: sum.splits if_splits)

lemma wait_begin_page:
  assumes "wait_begin n k mx wait start now w cursor b y = (y', Wait_page p)"
  shows "\<exists>c b' p'. list_after n c (wa_workspace w) (wa_process w) (wa_types w) (wa_limit w) b' (es_db y) = Inr p' \<and> ep_events p = ep_events p'"
proof (cases "list_after n cursor (wa_workspace w) (wa_process w) (wa_types w) (wa_limit w) b (es_db y)")
  case (Inl e)
  then show ?thesis using assms by (simp add: wait_begin_def)
next
  case (Inr first)
  then show ?thesis using assms
    by (auto simp: wait_begin_def Let_def waiter_page_def dest!: wait_pass_page split: if_splits) blast+
qed

lemma answer_ok_page:
  assumes "event_answer env ids ws r = Events_answer j" "env_ok j"
  shows "\<exists>p. r = Wait_page p \<and> env_field ''result'' j = JObj (page_json p)"
  using assms by (auto simp: event_answer_def split: wait_outcome.splits event_error.splits)

lemma get_events_ok:
  assumes "get_events env bounds ids start now ws q v = (v', Events_answer j)" "env_ok j"
  shows "\<exists>r p w y. map_of (workspaces (snd v)) ws = Some r \<and>
    (\<forall>pid. eq_process q = Some pid \<longrightarrow> map_option pc_workspace (get_record (st_manager (snd v)) pid) = Some ws) \<and>
    wa_workspace w = ws \<and> wa_process w = eq_process q \<and> wa_types w = eq_types q \<and>
    wait_begin (el_page bounds) (el_waiters bounds) (el_wait bounds) (eq_wait q) start now w (eq_cursor q) (eq_beginning q) (wired v) = (y, Wait_page p) \<and>
    env_field ''result'' j = JObj (page_json p)"
proof -
  obtain s r where s: "site_workspace (ti_now ids) ws (snd v) = (s, r)" by fastforce
  have m: "st_manager s = st_manager (snd v)" by (rule site_workspace_manager [OF s])
  then have e: "wired (fst v, s) = wired v" by (simp add: wired_def events_of_def)
  show ?thesis
  proof (cases r)
    case None
    then show ?thesis using assms s failure_not_ok by (auto simp: get_events_def Let_def)
  next
    case (Some row)
    let ?w = "\<lparr>wa_workspace = ws, wa_process = eq_process q, wa_types = eq_types q, wa_limit = eq_limit q, wa_cursor = [], wa_deadline = 0, wa_generation = 0\<rparr>"
    let ?b = "wait_begin (el_page bounds) (el_waiters bounds) (el_wait bounds) (eq_wait q) start now ?w (eq_cursor q) (eq_beginning q) (wired v)"
    have row: "map_of (workspaces (snd v)) ws = Some row" using site_workspace_row s Some by blast
    have pid: "\<forall>pid. eq_process q = Some pid \<longrightarrow> map_option pc_workspace (get_record (st_manager (snd v)) pid) = Some ws"
      using assms s Some m by (auto simp: get_events_def Let_def split: option.splits if_splits)
    have "event_answer env ids ws (snd ?b) = Events_answer j"
      using assms s Some m e pid by (auto simp: get_events_def Let_def split: option.splits if_splits prod.splits)
    from answer_ok_page [OF this assms(2)] obtain p where "snd ?b = Wait_page p" "env_field ''result'' j = JObj (page_json p)" by blast
    then show ?thesis using row pid by (intro exI [of _ row] exI [of _ p] exI [of _ ?w] exI [of _ "fst ?b"]) (simp add: prod_eq_iff)
  qed
qed

text \<open>
  C32. A successful answer of the event tool is about what was asked for: the workspace is registered, the process that was named belongs to
  it, and every event of the page is a stored event of this workspace, of this process and of a requested type.
\<close>
theorem events_in_scope:
  assumes "get_events env bounds ids start now ws q v = (v', Events_answer j)" "env_ok j"
  shows "ws \<in> fst ` set (workspaces (snd v)) \<and>
    (\<forall>pid. eq_process q = Some pid \<longrightarrow> map_option pc_workspace (get_record (st_manager (snd v)) pid) = Some ws) \<and>
    (\<exists>p. env_field ''result'' j = JObj (page_json p) \<and>
       (\<forall>r\<in>set (ep_events p). r \<in> set (ed_events (events_of (snd v))) \<and> in_scope ws q r))"
proof -
  from get_events_ok [OF assms] obtain r p w y where
    row: "map_of (workspaces (snd v)) ws = Some r" and
    pid: "\<forall>pid. eq_process q = Some pid \<longrightarrow> map_option pc_workspace (get_record (st_manager (snd v)) pid) = Some ws" and
    w: "wa_workspace w = ws" "wa_process w = eq_process q" "wa_types w = eq_types q" and
    wb: "wait_begin (el_page bounds) (el_waiters bounds) (el_wait bounds) (eq_wait q) start now w (eq_cursor q) (eq_beginning q) (wired v) = (y, Wait_page p)" and
    res: "env_field ''result'' j = JObj (page_json p)" by blast
  from wait_begin_page [OF wb] obtain c b p' where
    p': "list_after (el_page bounds) c ws (eq_process q) (eq_types q) (wa_limit w) b (events_of (snd v)) = Inr p'" "ep_events p = ep_events p'"
    unfolding w by (auto simp: wired_def)
  have "ws \<in> fst ` set (workspaces (snd v))" using row by (metis domI dom_map_of_conv_image_fst)
  then show ?thesis using pid res list_after_in_scope [OF p'(1)] p'(2) by auto
qed

definition demo_notifier :: event_system where
  "demo_notifier = \<lparr>es_db = demo_db, es_generation = 0, es_waiters = [], es_shutting_down = False\<rparr>"

definition demo_service :: service where
  "demo_service = (demo_notifier, demo_site\<lparr>st_manager := fst demo_spawned\<rparr>)"

definition demo_query :: event_query where
  "demo_query = \<lparr>eq_cursor = None, eq_process = Some ''pr-0000000a'', eq_types = None, eq_limit = 5, eq_wait = 0, eq_beginning = True\<rparr>"

definition demo_bounds :: event_limits where
  "demo_bounds = \<lparr>el_page = 10, el_waiters = 1, el_wait = 25\<rparr>"

definition demo_read :: "service \<times> event_progress" where
  "demo_read = get_events demo_run demo_bounds demo_ids 0 0 demo_id demo_query demo_service"

theorem events_in_scope_witness:
  "\<exists>j p. snd demo_read = Events_answer j \<and> env_field ''result'' j = JObj (page_json p) \<and>
     (\<forall>r\<in>set (ep_events p). in_scope demo_id demo_query r) \<and> env_field ''events'' (env_field ''result'' j) \<noteq> JArr []"
proof -
  have "case snd demo_read of Events_answer j \<Rightarrow> env_ok j \<and> env_field ''events'' (env_field ''result'' j) \<noteq> JArr [] | _ \<Rightarrow> False" by code_simp
  then obtain j where j: "snd demo_read = Events_answer j" "env_ok j" "env_field ''events'' (env_field ''result'' j) \<noteq> JArr []"
    by (auto split: event_progress.splits)
  then have "get_events demo_run demo_bounds demo_ids 0 0 demo_id demo_query demo_service = (fst demo_read, Events_answer j)"
    by (simp add: demo_read_def prod_eq_iff)
  from events_in_scope [OF this j(2)] j show ?thesis by blast
qed

subsection \<open>The event of an edit\<close>

lemma append_event_rows:
  assumes "append_event size_of k now kind rq ws pid payload db = (db', r)"
  shows "ed_events db' = ed_events db \<or> (\<exists>e. ed_events db' = ed_events db @ [e] \<and> ev_type e = kind)"
  using assms by (auto simp: append_event_def transact_def insert_locked_def Let_def split: option.splits if_splits)

lemma emit_event:
  "st_sets (snd (emit_change_event t kind result extra v)) = st_sets (snd v)"
  "\<exists>evs. ed_events (events_of (snd (emit_change_event t kind result extra v))) = ed_events (events_of (snd v)) @ evs \<and> length evs \<le> 1 \<and>
     (\<forall>e\<in>set evs. ev_type e = kind \<and> \<not> truthy (jget result ''idempotent_replay'' JNull))"
proof -
  show "st_sets (snd (emit_change_event t kind result extra v)) = st_sets (snd v)"
    by (auto simp: emit_change_event_def Let_def put_events_def split: option.split json.split)
  have p: "\<exists>evs. ed_events (es_db (publish (append_event sz mx now kind None ws None payload) y)) = ed_events (es_db y) @ evs \<and> length evs \<le> 1 \<and> (\<forall>e\<in>set evs. ev_type e = kind)"
    for sz mx now ws payload y
  proof -
    obtain db' r where a: "append_event sz mx now kind None ws None payload (es_db y) = (db', r)" by fastforce
    from append_event_rows [OF a] show ?thesis
      by (cases r) (auto simp: publish_db a)
  qed
  show "\<exists>evs. ed_events (events_of (snd (emit_change_event t kind result extra v))) = ed_events (events_of (snd v)) @ evs \<and> length evs \<le> 1 \<and>
     (\<forall>e\<in>set evs. ev_type e = kind \<and> \<not> truthy (jget result ''idempotent_replay'' JNull))"
  proof (cases "truthy (jget result ''idempotent_replay'' JNull)")
    case False
    show ?thesis
    proof (cases "\<exists>ws csid n. map_of result ''workspace_id'' = Some ws \<and> map_of result ''change_set_id'' = Some csid \<and> jget result ''revision'' (JInt 0) = JInt n")
      case True
      then obtain ws csid n where r: "map_of result ''workspace_id'' = Some ws" "map_of result ''change_set_id'' = Some csid" "jget result ''revision'' (JInt 0) = JInt n" by blast
      from p [of "ct_size_of t" 16384 "ct_now t" "Some (ct_str t ws)" "dict_merge [(''change_set_id'', JStr (ct_str t csid)), (''revision'', JInt n)] extra"
          "(wired v)\<lparr>es_shutting_down := False\<rparr>"]
      show ?thesis using False by (simp add: emit_change_event_def r Let_def put_events_def events_of_def wired_def)
    next
      case other: False
      have "snd (emit_change_event t kind result extra v) = snd v"
        using False other by (auto simp: emit_change_event_def Let_def split: option.split json.split)
      then show ?thesis by simp
    qed
  qed (simp add: emit_change_event_def)
qed


definition demo_cs_tools :: cs_tools where
  "demo_cs_tools = \<lparr>ct_env = demo_env, ct_ids = demo_ids, ct_now = ''t'', ct_size_of = (\<lambda>_. 1), ct_str = jstr\<rparr>"

definition demo_edit :: service where
  "demo_edit = (demo_notifier, demo_site\<lparr>st_manager := demo_start, st_sets := demo_world ''validated'' ''new''\<rparr>)"

definition demo_commit :: "service \<times> (string + json)" where
  "demo_commit = commit_change_set demo_cs_tools ''cs_a'' ''v'' None demo_edit"

lemma demo_committed:
  "case snd (commit_set demo_env ''cs_a'' ''v'' None (demo_world ''validated'' ''new'')) of
     Inr s \<Rightarrow> changed_count s = Inr 1 \<and> result_item ''after_tree_hash'' s = Inr (JStr ''new'')
   | Inl _ \<Rightarrow> False"
  by code_simp


text \<open>Building a store for the event clears the shutdown flag of the shared notifier, so an edit made during the shutdown lets readers block again.\<close>

lemma edit_revives_notifier:
  "\<not> truthy (jget result ''idempotent_replay'' JNull) \<Longrightarrow> \<not> es_shutting_down (fst (emit_change_event t kind result extra v))"
  by (auto simp: emit_change_event_def Let_def publish_def notify_locked_def split: option.split json.split prod.split sum.split)

end
