(* ===== verification/Read_Tools.thy ===== *)
theory Read_Tools
  imports Process_Tools
begin

text \<open>
  The tools that only read a worktree: \<open>read_files\<close> (\<open>app/tools/reader.py\<close>), \<open>get_repo_map\<close> (\<open>app/tools/repo_map.py\<close>), \<open>git_status\<close> and
  \<open>git_diff\<close> (\<open>app/tools/git_tools.py\<close>).  The files, the decoded texts, the hashes and what git prints are arguments.
\<close>

record tree_view =
  tv_resolve :: "path \<Rightarrow> path"
  tv_exists :: "path \<Rightarrow> bool"
  tv_is_dir :: "path \<Rightarrow> bool"
  tv_is_file :: "path \<Rightarrow> bool"
  tv_is_symlink :: "path \<Rightarrow> bool"
  tv_text :: "path \<Rightarrow> string + string \<times> string"
  tv_blob :: "path \<Rightarrow> string option"
  tv_list :: "path \<Rightarrow> string + string list"
  tv_deny :: "string list option"
  tv_sha :: "string \<Rightarrow> string"
  tv_str :: "json \<Rightarrow> string"

text \<open>\<open>tv_text\<close> are the bytes with the decoded text; \<open>tv_blob\<close> is what \<open>git hash-object\<close> printed when it succeeded.\<close>

subsection \<open>Reading files\<close>

definition max_lines_per_item :: int where
  "max_lines_per_item = 4000"

definition read_text :: "string \<Rightarrow> int \<Rightarrow> int \<Rightarrow> string \<times> int \<times> int \<times> bool" where
  "read_text raw start_line end_line =
     (let lines = py_splitlines raw; num = int (length lines); start = max 1 start_line; stop = min end_line num;
          stop = (if stop < start then start else stop); stop = min stop (start + max_lines_per_item);
          selected = drop (nat (start - 1)) (take (nat stop) lines)
      in (py_join [newline] selected, num, int (length selected), stop < num))"

definition line_number :: "json \<Rightarrow> json \<Rightarrow> config_error + int" where
  "line_number v dflt = py_int (if truthy v then v else dflt)"

definition item_error :: "string \<Rightarrow> string \<Rightarrow> result_dict" where
  "item_error p e = [(''path'', JStr p), (''error'', JStr e)]"

text \<open>\<open>content[:n]\<close>: a negative bound counts from the end.\<close>

definition clipped :: "int \<Rightarrow> string \<Rightarrow> string" where
  "clipped n s = take (if n < 0 then length s - nat (- n) else nat n) s"

definition file_item :: "tree_view \<Rightarrow> string \<Rightarrow> path \<Rightarrow> int \<Rightarrow> int \<Rightarrow> int \<Rightarrow> result_dict" where
  "file_item fs p absolute start_line end_line remaining =
     (case tv_text fs absolute of
        Inl e \<Rightarrow> item_error p (''read failed: '' @ e)
      | Inr (raw, content) \<Rightarrow>
          (case read_text content start_line end_line of
             (content, num, returned, truncated) \<Rightarrow>
               let over = (int (length content) > remaining);
                   blob = (case tv_blob fs absolute of None \<Rightarrow> None | Some b \<Rightarrow> if py_strip b = [] then None else Some (py_strip b))
               in [(''path'', JStr p), (''start_line'', JInt start_line), (''end_line'', JInt (start_line + returned - 1)), (''total_lines'', JInt num),
                   (''truncated'', JBool (truncated \<or> over)), (''sha256'', JStr (tv_sha fs raw)), (''git_blob'', opt_str blob),
                   (''content'', JStr (if over then clipped remaining content else content))]))"

definition read_item :: "tree_view \<Rightarrow> path \<Rightarrow> result_dict \<Rightarrow> int \<Rightarrow> result_dict" where
  "read_item fs worktree request remaining =
     (let p = tv_str fs (jget request ''path'' (JStr [])) in
      case (line_number (jget request ''start_line'' (JInt 1)) (JInt 1), line_number (jget request ''end_line'' (JInt 0)) (JInt 0)) of
        (Inr start_line, Inr end_line) \<Rightarrow>
          if p = [] then item_error p ''path is required''
          else let end_line = (if end_line \<le> 0 then start_line + max_lines_per_item else end_line) in
            (case resolve_within (tv_resolve fs) (tv_exists fs) worktree p True of
               Inl e \<Rightarrow> item_error p e
             | Inr absolute \<Rightarrow>
                 if is_denied (tv_resolve fs) (tv_deny fs) absolute (Some worktree) then item_error p ''path is denied by policy''
                 else if tv_is_dir fs absolute then item_error p ''path is a directory; use get_repo_map''
                 else if \<not> tv_is_file fs absolute then item_error p ''path is not a regular file''
                 else file_item fs p absolute start_line end_line remaining)
      | _ \<Rightarrow> item_error p ''start_line and end_line must be integers'')"

text \<open>The loop over the requests stops when the budget is used up.\<close>

fun content_length :: "result_dict \<Rightarrow> int option" where
  "content_length r = (case map_of r ''content'' of Some (JStr s) \<Rightarrow> Some (int (length s)) | _ \<Rightarrow> None)"

fun read_items :: "tree_view \<Rightarrow> path \<Rightarrow> result_dict list \<Rightarrow> int \<Rightarrow> result_dict list \<times> int" where
  "read_items fs worktree [] remaining = ([], remaining)"
| "read_items fs worktree (request # requests) remaining =
     (let r = read_item fs worktree request remaining in
      case content_length r of
        None \<Rightarrow> map_prod ((#) r) id (read_items fs worktree requests remaining)
      | Some n \<Rightarrow>
          if remaining - n \<le> 0 then ([r], remaining - n)
          else map_prod ((#) r) id (read_items fs worktree requests (remaining - n)))"

definition read_files :: "tree_view \<Rightarrow> run_error + int \<Rightarrow> tool_ids \<Rightarrow> string \<Rightarrow> result_dict list \<Rightarrow> site \<Rightarrow> site \<times> (run_error + json)" where
  "read_files fs max_chars ids ws requests s =
     (case site_workspace (ti_now ids) ws s of
        (s, None) \<Rightarrow> (s, Inr (failure ids (Some ws) False [] ''WORKSPACE_NOT_FOUND'' (''workspace not found: '' @ ws)))
      | (s, Some r) \<Rightarrow> (s,
          if requests = [] then Inr (failure ids (Some ws) False [] ''INVALID_INPUT'' ''items must be a non-empty list'')
          else obind max_chars (\<lambda>m.
            let (results, remaining) = read_items fs (path_parts (ws_path r)) requests (min m 1000000)
            in Inr (success ids (Some ws) False None
              [(''workspace_id'', JStr ws), (''files'', JArr (map JObj results)), (''remaining_chars'', JInt (max remaining 0))]))))"

subsection \<open>The repository map\<close>

definition classify :: "tree_view \<Rightarrow> path \<Rightarrow> string" where
  "classify fs p = (if tv_is_dir fs p then ''directory'' else if tv_is_file fs p then ''file'' else if tv_is_symlink fs p then ''symlink'' else ''other'')"

definition entry_name :: "path \<Rightarrow> string" where
  "entry_name p = (if p = [] then [] else last p)"

text \<open>\<open>sorted\<close> with the key \<open>(not is_dir, name.lower())\<close>: directories first.\<close>

definition sorted_entries :: "tree_view \<Rightarrow> path \<Rightarrow> string list \<Rightarrow> path list" where
  "sorted_entries fs folder names =
     (let by_name = sort_key (\<lambda>p. py_lower (entry_name p)) (map (\<lambda>n. folder @ [n]) names)
      in filter (tv_is_dir fs) by_name @ filter (\<lambda>p. \<not> tv_is_dir fs p) by_name)"

definition max_entries :: nat where
  "max_entries = 200"

text \<open>\<open>levels\<close> is \<open>_MAX_DEPTH + 1 - depth\<close>.\<close>

fun build_tree :: "nat \<Rightarrow> tree_view \<Rightarrow> path \<Rightarrow> path \<Rightarrow> result_dict" where
  "build_tree 0 fs deny_root folder = [(''truncated'', JBool True), (''reason'', JStr ''max_depth'')]"
| "build_tree (Suc levels) fs deny_root folder =
     (if \<not> tv_is_dir fs folder then [(''type'', JStr (classify fs folder)), (''name'', JStr (entry_name folder))]
      else case tv_list fs folder of
        Inl e \<Rightarrow> [(''type'', JStr ''directory''), (''name'', JStr (entry_name folder)), (''error'', JStr e)]
      | Inr names \<Rightarrow>
          let entries = filter (\<lambda>p. \<not> is_denied (tv_resolve fs) (tv_deny fs) p (Some deny_root)) (sorted_entries fs folder names);
              node = (\<lambda>p. let n = [(''name'', JStr (entry_name p)), (''type'', JStr (classify fs p))]
                          in JObj (if tv_is_dir fs p then dict_merge n (build_tree levels fs deny_root p) else n))
          in [(''type'', JStr ''directory''), (''name'', JStr (entry_name folder)), (''children'', JArr (map node (take max_entries entries)))]
             @ (if length entries > max_entries then [(''truncated'', JBool True)] else []))"

definition repo_map :: "tree_view \<Rightarrow> tool_ids \<Rightarrow> string \<Rightarrow> string \<Rightarrow> site \<Rightarrow> site \<times> json" where
  "repo_map fs ids ws p s =
     (case site_workspace (ti_now ids) ws s of
        (s, None) \<Rightarrow> (s, failure ids (Some ws) False [] ''WORKSPACE_NOT_FOUND'' (''workspace not found: '' @ ws))
      | (s, Some r) \<Rightarrow> (s,
          let worktree = path_parts (ws_path r);
              answer = (\<lambda>base rel. success ids (Some ws) False None
                [(''workspace_id'', JStr ws), (''path'', JStr rel), (''worktree_path'', JStr (path_text worktree)),
                 (''tree'', JObj (build_tree 5 fs worktree base))])
          in if py_strip p = [] then answer worktree ''.''
             else case resolve_within (tv_resolve fs) (tv_exists fs) worktree p True of
               Inl e \<Rightarrow> failure ids (Some ws) False [] ''PATH_DENIED'' e
             | Inr base \<Rightarrow>
                 if is_denied (tv_resolve fs) (tv_deny fs) base (Some worktree)
                 then failure ids (Some ws) False [] ''PATH_DENIED'' ''path is denied by policy'' else answer base p))"

subsection \<open>Git\<close>

text \<open>The answer of a git run: the text of an error, or the exit code and the two outputs.\<close>

type_synonym git_answer = "path \<Rightarrow> string list \<Rightarrow> string + int \<times> string \<times> string"

definition max_git_output :: nat where
  "max_git_output = 200000"

definition git_fields :: "git_answer \<Rightarrow> string \<Rightarrow> path \<Rightarrow> string list \<Rightarrow> result_dict" where
  "git_fields git program worktree args =
     (case git worktree args of
        Inl e \<Rightarrow> [(''error'', JStr e), (''command'', JArr (map JStr (program # args)))]
      | Inr (code, out, err) \<Rightarrow>
          [(''exit_code'', JInt code), (''stdout'', JStr (take max_git_output out)), (''stderr'', JStr (take max_git_output err)),
           (''stdout_truncated'', JBool (length out > max_git_output)), (''stderr_truncated'', JBool (length err > max_git_output))])"

definition ensure_worktree :: "os_view \<Rightarrow> tool_ids \<Rightarrow> string \<Rightarrow> site \<Rightarrow> site \<times> (json + path)" where
  "ensure_worktree os ids ws s =
     (case open_tree os ids ws s of
        (s, Inl (code, message)) \<Rightarrow> (s, Inl (failure ids (Some ws) False [] code message))
      | (s, Inr r) \<Rightarrow> (s, Inr (path_parts (ws_path r))))"

definition git_status :: "os_view \<Rightarrow> git_answer \<Rightarrow> string \<Rightarrow> tool_ids \<Rightarrow> string \<Rightarrow> site \<Rightarrow> site \<times> json" where
  "git_status os git program ids ws s =
     (case ensure_worktree os ids ws s of
        (s, Inl j) \<Rightarrow> (s, j)
      | (s, Inr worktree) \<Rightarrow>
          (s, success ids (Some ws) False None
            ([(''workspace_id'', JStr ws), (''worktree_path'', JStr (path_text worktree))] @ git_fields git program worktree [''status'', ''--short'', ''--branch''])))"

text \<open>The first path that is refused, if any.\<close>

fun refused_path :: "os_view \<Rightarrow> string list option \<Rightarrow> path \<Rightarrow> string list \<Rightarrow> (string \<times> string) option" where
  "refused_path os deny worktree [] = None"
| "refused_path os deny worktree (p # ps) =
     (if p = [] \<or> py_startswith p ''-'' then Some (''INVALID_INPUT'', ''invalid path argument: '' @ py_repr p)
      else case resolve_within (os_resolve os) (os_exists os) worktree p False of
        Inl e \<Rightarrow> Some (''PATH_DENIED'', e)
      | Inr absolute \<Rightarrow>
          if is_denied (os_resolve os) deny absolute (Some worktree) then Some (''PATH_DENIED'', ''path is denied by policy'')
          else refused_path os deny worktree ps)"

definition diff_context :: "bool \<Rightarrow> int option \<Rightarrow> int option" where
  "diff_context stat_only context_lines = (if stat_only then context_lines else map_option (\<lambda>n. max 0 (min n 100)) context_lines)"

definition diff_args :: "string list \<Rightarrow> bool \<Rightarrow> int option \<Rightarrow> bool \<Rightarrow> string list" where
  "diff_args paths cached context_lines stat_only =
     [''diff'', ''--no-color''] @ (if cached then [''--cached''] else []) @
     (if stat_only then [''--stat'']
      else case diff_context stat_only context_lines of None \<Rightarrow> [] | Some n \<Rightarrow> [''-U'' @ py_str_int n]) @
     (if paths = [] then [] else ''--'' # paths)"

definition git_diff ::
  "os_view \<Rightarrow> string list option \<Rightarrow> git_answer \<Rightarrow> string \<Rightarrow> tool_ids \<Rightarrow> string \<Rightarrow> string list \<Rightarrow> bool \<Rightarrow> int option \<Rightarrow> bool \<Rightarrow> site \<Rightarrow> site \<times> json" where
  "git_diff os deny git program ids ws paths cached context_lines stat_only s =
     (case ensure_worktree os ids ws s of
        (s, Inl j) \<Rightarrow> (s, j)
      | (s, Inr worktree) \<Rightarrow>
          (case refused_path os deny worktree paths of
             Some (code, message) \<Rightarrow> (s, failure ids (Some ws) False [] code message)
           | None \<Rightarrow>
               (s, success ids (Some ws) False None
                 ([(''workspace_id'', JStr ws), (''worktree_path'', JStr (path_text worktree)), (''cached'', JBool cached),
                   (''paths'', JArr (map JStr paths)), (''context_lines'', case diff_context stat_only context_lines of None \<Rightarrow> JNull | Some n \<Rightarrow> JInt n),
                   (''stat_only'', JBool stat_only)] @ git_fields git program worktree (diff_args paths cached context_lines stat_only)))))"

subsection \<open>What the tools show\<close>

lemma item_content:
  assumes "content_length (read_item fs worktree request remaining) = Some n" "0 \<le> remaining"
  shows "0 \<le> n \<and> n \<le> remaining \<and>
    (\<exists>p absolute. resolve_within (tv_resolve fs) (tv_exists fs) worktree p True = Inr absolute \<and>
       \<not> is_denied (tv_resolve fs) (tv_deny fs) absolute (Some worktree))"
  using assms
  by (auto simp: read_item_def file_item_def clipped_def item_error_def Let_def split: sum.splits prod.splits if_splits)

lemma read_items_budget:
  "0 < remaining \<Longrightarrow> read_items fs worktree requests remaining = (rs, left) \<Longrightarrow>
     left = remaining - sum_list (map (\<lambda>r. case content_length r of None \<Rightarrow> 0 | Some n \<Rightarrow> n) rs) \<and> 0 \<le> left"
proof (induction fs worktree requests remaining arbitrary: rs left rule: read_items.induct)
  case (2 fs worktree request requests remaining)
  define r where "r = read_item fs worktree request remaining"
  note run = 2(4) [unfolded read_items.simps Let_def, folded r_def]
  show ?case
  proof (cases "content_length r")
    case None
    obtain rs' left' where more: "read_items fs worktree requests remaining = (rs', left')" by fastforce
    show ?thesis using 2(1) [OF r_def None 2(3) more] run None more by (auto simp del: content_length.simps)
  next
    case (Some n)
    have n: "n \<le> remaining" using item_content [of fs worktree request remaining n] Some 2(3) by (simp add: r_def del: content_length.simps)
    obtain rs' left' where more: "read_items fs worktree requests (remaining - n) = (rs', left')" by fastforce
    show ?thesis
    proof (cases "remaining - n \<le> 0")
      case True
      then show ?thesis using run Some n by (auto simp del: content_length.simps)
    next
      case False
      show ?thesis using 2(2) [OF r_def Some False _ more] run Some n more False by (auto simp del: content_length.simps)
    qed
  qed
qed simp

text \<open>
  \<open>read_files\<close> never returns more characters of content than its budget: the contents it returns and the budget it reports as left add
  up to the configured limit (at most a million).
\<close>
lemma reads_bounded:
  assumes "read_items fs worktree requests (min m 1000000) = (results, remaining)" "0 < m"
  shows "0 \<le> remaining \<and> sum_list (map (\<lambda>r. case content_length r of None \<Rightarrow> 0 | Some n \<Rightarrow> n) results) + remaining = min m 1000000"
  using read_items_budget [of "min m 1000000" fs worktree requests results remaining] assms by auto

text \<open>The paths that \<open>git diff\<close> is given are no options, lie inside the worktree and are not denied.\<close>

lemma diff_paths_confined:
  "refused_path os deny worktree paths = None \<Longrightarrow> p \<in> set paths \<Longrightarrow>
     p \<noteq> [] \<and> \<not> py_startswith p ''-'' \<and>
     (\<exists>absolute. prefix (os_resolve os worktree) absolute \<and> \<not> is_denied (os_resolve os) deny absolute (Some worktree) \<and>
        resolve_within (os_resolve os) (os_exists os) worktree p False = Inr absolute)"
  by (induction paths) (auto dest: resolve_within_inside split: if_splits sum.splits)

text \<open>A link inside the worktree that leads to another directory: the map lists that directory.\<close>

definition demo_link_view :: tree_view where
  "demo_link_view = \<lparr>tv_resolve = (\<lambda>p. if prefix [''w'', ''link''] p then ''etc'' # drop 2 p else p), tv_exists = (\<lambda>_. True),
     tv_is_dir = (\<lambda>p. p = [''w''] \<or> p = [''w'', ''link'']), tv_is_file = (\<lambda>p. p = [''w'', ''link'', ''shadow'']), tv_is_symlink = (\<lambda>_. False),
     tv_text = (\<lambda>_. Inr ([], [])), tv_blob = (\<lambda>_. None), tv_list = (\<lambda>p. Inr (if p = [''w''] then [''link''] else [''shadow''])), tv_deny = None,
     tv_sha = (\<lambda>s. s), tv_str = jstr\<rparr>"

lemma map_follows_links:
  "build_tree 5 demo_link_view [''w''] [''w''] =
     [(''type'', JStr ''directory''), (''name'', JStr ''w''),
      (''children'', JArr [JObj [(''name'', JStr ''link''), (''type'', JStr ''directory''),
        (''children'', JArr [JObj [(''name'', JStr ''shadow''), (''type'', JStr ''file'')]])]])]"
  "\<not> is_ok (resolve_within (tv_resolve demo_link_view) (tv_exists demo_link_view) [''w''] ''link'' True)"
  by code_simp+

text \<open>A read of a whole long file returns one line more than the limit.\<close>

lemma one_line_more:
  assumes "length (py_splitlines raw) = 5000"
  shows "fst (snd (snd (read_text raw 1 (1 + max_lines_per_item)))) = max_lines_per_item + 1"
  using assms by (simp add: read_text_def Let_def max_lines_per_item_def)

end
